(* ===== verification/Js_Prelude.thy ===== *)
theory Js_Prelude
  imports Main "HOL-Library.Word"
begin

text \<open>
  What the components share: JavaScript's exceptions as values, its array accesses (a read out of
  range is \<open>undefined\<close>, a write out of range extends the array with holes, \<open>splice\<close> and
  \<open>indexOf\<close> with \<open>-1\<close>), loops that may throw, and the generic lemmas on them. Indices and card
  orders are \<open>nat\<close>; every number that the source may set to \<open>-1\<close> is an \<open>int\<close>.
\<close>

unbundle bit_operations_syntax

named_theorems result_simps \<open>case analysis of computations that may throw\<close>
named_theorems array_simps \<open>JavaScript array accesses\<close>

section \<open>Exceptions\<close>

text \<open>
  \<open>TypeError\<close> is what a property access on \<open>undefined\<close> raises, \<open>RangeError\<close> what
  \<open>Array.prototype.with\<close> raises out of range, \<open>Thrown\<close> an explicit \<open>throw new Error(..)\<close>, \<open>Illegal\<close> an
  \<open>IllegalInterpretation\<close> of the h-group, which its callers catch (with the fixed part of its message), and \<open>OutOfFuel\<close> stands for a
  loop that has not ended within the fuel of the model.
\<close>

datatype js_error = TypeError | RangeError | Thrown string | Illegal string | OutOfFuel

type_synonym 'a result = "js_error + 'a"

definition bindR :: "'a result \<Rightarrow> ('a \<Rightarrow> 'b result) \<Rightarrow> 'b result" where
  "bindR m f = (case m of Inl e \<Rightarrow> Inl e | Inr a \<Rightarrow> f a)"

lemma bindR_simps [simp]: "bindR (Inl e) f = Inl e" "bindR (Inr a) f = f a"
  by (simp_all add: bindR_def)

lemma bindR_Inr_iff [result_simps]: "bindR m f = Inr y \<longleftrightarrow> (\<exists>x. m = Inr x \<and> f x = Inr y)"
  by (cases m) simp_all

lemma bindR_Inr_conv [result_simps]: "Inr y = bindR m f \<longleftrightarrow> (\<exists>x. m = Inr x \<and> f x = Inr y)"
  by (cases m) auto

lemma bindR_assoc: "bindR (bindR m f) g = bindR m (\<lambda>x. bindR (f x) g)"
  by (cases m) simp_all

text \<open>A property access on a value that may be \<open>undefined\<close>.\<close>

definition need :: "'a option \<Rightarrow> 'a result" where
  "need x = (case x of None \<Rightarrow> Inl TypeError | Some a \<Rightarrow> Inr a)"

text \<open>\<open>try .. catch\<close> of an \<open>IllegalInterpretation\<close>; every other error is thrown again.\<close>

definition catch_illegal :: "'a result \<Rightarrow> (string \<Rightarrow> 'a result) \<Rightarrow> 'a result" where
  "catch_illegal m f = (case m of Inl (Illegal msg) \<Rightarrow> f msg | _ \<Rightarrow> m)"

lemma catch_illegal_simps [simp]:
  "catch_illegal (Inr x) f = Inr x" "catch_illegal (Inl (Illegal msg)) f = f msg"
  "catch_illegal (Inl TypeError) f = Inl TypeError" "catch_illegal (Inl OutOfFuel) f = Inl OutOfFuel"
  by (simp_all add: catch_illegal_def)

lemma need_simps [simp]: "need None = Inl TypeError" "need (Some a) = Inr a"
  by (simp_all add: need_def)

text \<open>A \<open>for .. of\<close> loop whose body may throw.\<close>

fun foldR :: "('s \<Rightarrow> 'a \<Rightarrow> 's result) \<Rightarrow> 's \<Rightarrow> 'a list \<Rightarrow> 's result" where
  "foldR f s [] = Inr s"
| "foldR f s (x # xs) = bindR (f s x) (\<lambda>s'. foldR f s' xs)"

lemma foldR_cong [fundef_cong]:
  "xs = ys \<Longrightarrow> s = t \<Longrightarrow> (\<And>s x. x \<in> set ys \<Longrightarrow> f s x = g s x) \<Longrightarrow> foldR f s xs = foldR g t ys"
proof (induction ys arbitrary: xs s t)
  case Nil
  then show ?case by simp
next
  case (Cons y ys)
  have "foldR f u ys = foldR g u ys" for u
    using Cons.prems(3) by (intro Cons.IH) auto
  then show ?case using Cons.prems by (cases "g t y") simp_all
qed

lemma foldR_append: "foldR f s (xs @ ys) = bindR (foldR f s xs) (\<lambda>t. foldR f t ys)"
proof (induction xs arbitrary: s)
  case (Cons x xs)
  then show ?case by (cases "f s x") simp_all
qed simp

text \<open>The loop invariant rules: partial (whatever it returns) and total (it does not throw).\<close>

lemma foldR_inv:
  assumes "foldR f s xs = Inr t" and "P s"
    and "\<And>s x s'. x \<in> set xs \<Longrightarrow> P s \<Longrightarrow> f s x = Inr s' \<Longrightarrow> P s'"
  shows "P t"
  using assms
proof (induction xs arbitrary: s)
  case (Cons x xs)
  from Cons.prems(1) obtain u where "f s x = Inr u" "foldR f u xs = Inr t"
    by (auto simp: result_simps)
  with Cons.prems(2,3) show ?case by (intro Cons.IH [of u]) auto
qed simp

lemma foldR_total:
  assumes "P s" and "\<And>s x. x \<in> set xs \<Longrightarrow> P s \<Longrightarrow> \<exists>s'. f s x = Inr s' \<and> P s'"
  shows "\<exists>t. foldR f s xs = Inr t \<and> P t"
  using assms
proof (induction xs arbitrary: s)
  case (Cons x xs)
  then obtain u where "f s x = Inr u" "P u" by force
  with Cons show ?case by simp
qed simp

section \<open>Arrays\<close>

text \<open>\<open>xs[i]\<close>: \<open>None\<close> is \<open>undefined\<close>, out of range or a hole.\<close>

definition slot :: "'a option list \<Rightarrow> nat \<Rightarrow> 'a option" where
  "slot xs i = (if i < length xs then xs ! i else None)"

text \<open>\<open>xs[i] = v\<close>: past the end the array grows, with holes up to \<open>i\<close>.\<close>

definition put :: "'a option list \<Rightarrow> nat \<Rightarrow> 'a \<Rightarrow> 'a option list" where
  "put xs i v =
     (if i < length xs then xs[i := Some v]
      else xs @ replicate (i - length xs) None @ [Some v])"

text \<open>\<open>xs.with(i, v)\<close>, for a non-negative \<open>i\<close>.\<close>

definition with_at :: "'a option list \<Rightarrow> nat \<Rightarrow> 'a \<Rightarrow> 'a option list result" where
  "with_at xs i v = (if i < length xs then Inr (xs[i := Some v]) else Inl RangeError)"

lemma slot_put [array_simps]: "slot (put xs i v) j = (if j = i then Some v else slot xs j)"
proof (cases "i < length xs")
  case True
  then show ?thesis by (auto simp: slot_def put_def)
next
  case False
  then show ?thesis
    by (auto simp: slot_def put_def nth_append not_less nth_Cons split: nat.splits)
qed

lemma slot_with_at [array_simps]:
  "with_at xs i v = Inr ys \<Longrightarrow> slot ys j = (if j = i then Some v else slot xs j)"
  by (auto simp: with_at_def slot_def split: if_splits)

lemma with_at_put: "with_at xs i v = Inr ys \<Longrightarrow> ys = put xs i v"
  by (auto simp: with_at_def put_def split: if_splits)

lemma slot_update [array_simps]:
  "slot (xs[i := y]) j = (if j = i \<and> i < length xs then y else slot xs j)"
  by (auto simp: slot_def)

lemma slot_SomeD: "slot xs i = Some x \<Longrightarrow> i < length xs \<and> Some x \<in> set xs"
  by (auto simp: slot_def split: if_splits) (metis nth_mem)

lemma slot_map_option: "slot (map (map_option f) xs) i = map_option f (slot xs i)"
  by (simp add: slot_def)

text \<open>Writing the entries of a map with distinct keys.\<close>

lemma slot_fold_put:
  "distinct (map fst es) \<Longrightarrow> slot (fold (\<lambda>e ts. put ts (fst e) (snd e)) es ts) ord
    = (case map_of es ord of Some c \<Rightarrow> Some c | None \<Rightarrow> slot ts ord)"
proof (induction es arbitrary: ts)
  case (Cons e es)
  have "map_of es (fst e) = None" using Cons.prems by (simp add: map_of_eq_None_iff)
  with Cons show ?case by (cases e) (auto simp: array_simps split: option.splits)
qed simp

text \<open>\<open>xs.indexOf(x)\<close>, \<open>-1\<close> when absent, and \<open>xs.splice(i, 1)\<close>: a negative start counts from the
  end, so that \<open>splice(-1, 1)\<close> removes the last element.\<close>

fun index_of :: "'a list \<Rightarrow> 'a \<Rightarrow> int" where
  "index_of [] a = -1"
| "index_of (x # xs) a = (if x = a then 0 else (let i = index_of xs a in if i = -1 then -1 else i + 1))"

definition splice1 :: "'a list \<Rightarrow> int \<Rightarrow> 'a list" where
  "splice1 xs i =
     (let k = (if i < 0 then nat (max 0 (int (length xs) + i)) else nat i)
      in take k xs @ drop (Suc k) xs)"

lemma index_of_range: "- 1 \<le> index_of xs a \<and> index_of xs a < int (length xs)"
  by (induction xs) (auto simp: Let_def)

lemma index_of_absent: "index_of xs a = -1 \<longleftrightarrow> a \<notin> set xs"
proof (induction xs)
  case (Cons x xs)
  then show ?case using index_of_range [of xs a] by (auto simp: Let_def)
qed simp

lemma splice_index_of: "a \<in> set xs \<Longrightarrow> splice1 xs (index_of xs a) = remove1 a xs"
proof (induction xs)
  case (Cons x xs)
  show ?case
  proof (cases "x = a")
    case True
    then show ?thesis by (simp add: splice1_def)
  next
    case False
    with Cons.prems have a: "a \<in> set xs" by simp
    then have "index_of xs a \<noteq> -1" by (simp add: index_of_absent)
    moreover with index_of_range [of xs a] have "0 \<le> index_of xs a" by simp
    moreover have "splice1 xs (index_of xs a) = remove1 a xs" using a by (rule Cons.IH)
    ultimately show ?thesis using False
      by (simp add: splice1_def Let_def nat_add_distrib)
  qed
qed simp

lemma set_splice1: "set (splice1 xs i) \<subseteq> set xs"
  by (auto simp: splice1_def Let_def dest: in_set_takeD in_set_dropD)

lemma distinct_splice1: "distinct xs \<Longrightarrow> distinct (splice1 xs i)"
proof -
  assume d: "distinct xs"
  have "distinct (take k xs @ drop (Suc k) xs)" for k
  proof -
    have "set (take k xs) \<inter> set (drop (Suc k) xs) = {}"
      by (meson d le_SucI order_refl set_take_disj_set_drop_if_distinct)
    with d show ?thesis by simp
  qed
  then show ?thesis by (simp add: splice1_def Let_def)
qed

lemma length_splice1: "xs \<noteq> [] \<Longrightarrow> i < int (length xs) \<Longrightarrow> length (splice1 xs i) = length xs - 1"
  by (auto simp: splice1_def Let_def)

text \<open>\<open>xs.find(p)\<close>.\<close>

lemma find_SomeD: "List.find p xs = Some x \<Longrightarrow> x \<in> set xs \<and> p x"
  by (auto simp: find_Some_iff)

section \<open>Numbers\<close>

lemma sum_list_less:
  assumes "\<And>x. x \<in> set xs \<Longrightarrow> f x \<le> (g x :: nat)" "x \<in> set xs" "f x < g x"
  shows "sum_list (map f xs) < sum_list (map g xs)"
  using assms
proof (induction xs)
  case (Cons y ys)
  have "sum_list (map f ys) \<le> sum_list (map g ys)" using Cons.prems(1) by (intro sum_list_mono) auto
  moreover have "f y \<le> g y" using Cons.prems(1) by simp
  ultimately show ?case using Cons by (cases "x = y") (auto simp: add_less_le_mono add_le_less_mono)
qed simp


text \<open>JavaScript's \<open>%\<close> on integers: the sign of the dividend. A zero divisor gives \<open>NaN\<close>; the
  places that use it are guarded.\<close>

definition js_rem :: "int \<Rightarrow> int \<Rightarrow> int" where
  "js_rem a b = (if a < 0 then - ((- a) mod \<bar>b\<bar>) else a mod \<bar>b\<bar>)"

lemma js_rem_nonneg: "0 \<le> a \<Longrightarrow> js_rem a b = a mod \<bar>b\<bar>"
  by (simp add: js_rem_def)

lemma js_rem_dvd: "js_rem a b = 0 \<longleftrightarrow> b dvd a"
  by (auto simp: js_rem_def mod_eq_0_iff_dvd)

lemma js_rem_decomp: "\<exists>q. a = b * q + js_rem a b"
proof (cases "a < 0")
  case True
  have "- a = \<bar>b\<bar> * ((- a) div \<bar>b\<bar>) + (- a) mod \<bar>b\<bar>" by simp
  then have "a = b * (- sgn b * ((- a) div \<bar>b\<bar>)) + - ((- a) mod \<bar>b\<bar>)"
    by (simp add: abs_sgn algebra_simps)
  with True have "a = b * (- sgn b * ((- a) div \<bar>b\<bar>)) + js_rem a b" by (simp add: js_rem_def)
  then show ?thesis ..
next
  case False
  have "a = \<bar>b\<bar> * (a div \<bar>b\<bar>) + a mod \<bar>b\<bar>" by simp
  then have "a = b * (sgn b * (a div \<bar>b\<bar>)) + a mod \<bar>b\<bar>"
    by (simp add: abs_sgn algebra_simps)
  with False have "a = b * (sgn b * (a div \<bar>b\<bar>)) + js_rem a b" by (simp add: js_rem_def)
  then show ?thesis ..
qed

end
