(* ===== verification/Identity_Sets.thy ===== *)
theory Identity_Sets
  imports Js_Prelude
begin

text \<open>
  \<open>src/src/basics/IdentitySet.js\<close> and the class \<open>BasicCard\<close> of \<open>src/src/basics/Card.js\<close>: an identity
  is a suit index and a rank, a set of identities is a bit mask in a 32-bit signed number. The
  bitwise operators of JavaScript convert to 32 bits, so the mask is a \<open>32 word\<close>; the model is
  exact up to six suits (30 bits), which is what the bot supports. The section after the
  definitions shows that the parallel bit count of \<open>length\<close> counts the members, and gives the
  operations their meaning as set operations.
\<close>

section \<open>Identities\<close>

record basic_card =
  suit_index :: int
  rank :: int

definition mk_id :: "int \<Rightarrow> int \<Rightarrow> basic_card" where
  "mk_id s r = \<lparr>suit_index = s, rank = r\<rparr>"

definition raw :: "'a basic_card_scheme \<Rightarrow> basic_card" where
  "raw c = \<lparr>suit_index = suit_index c, rank = rank c\<rparr>"

definition basic_identity :: "'a basic_card_scheme \<Rightarrow> basic_card option" where
  "basic_identity c = (if suit_index c \<noteq> -1 \<and> rank c \<noteq> -1 then Some (raw c) else None)"

definition basic_matches :: "'a basic_card_scheme \<Rightarrow> 'b basic_card_scheme \<Rightarrow> bool" where
  "basic_matches c i \<longleftrightarrow> suit_index c = suit_index i \<and> rank c = rank i"

definition played_before :: "bool \<Rightarrow> 'a basic_card_scheme \<Rightarrow> 'b basic_card_scheme \<Rightarrow> bool" where
  "played_before eq c i \<longleftrightarrow>
     suit_index c = suit_index i \<and> (if eq then rank c \<le> rank i else rank c < rank i)"

section \<open>Sets of identities\<close>

definition max_stack_rank :: int where
  "max_stack_rank = 5"

record iset =
  num_suits :: nat
  bits :: "32 word"

text \<open>The constructor without a value takes every identity of the suits.\<close>

definition iset_full :: "nat \<Rightarrow> iset" where
  "iset_full n = \<lparr>num_suits = n, bits = 2 ^ (n * nat max_stack_rank) - 1\<rparr>"

definition iset_empty :: "nat \<Rightarrow> iset" where
  "iset_empty n = \<lparr>num_suits = n, bits = 0\<rparr>"

text \<open>\<open>1 << k\<close> takes the shift count modulo 32.\<close>

definition to_mask :: "'a basic_card_scheme \<Rightarrow> 32 word" where
  "to_mask i = push_bit (nat ((suit_index i * max_stack_rank + (rank i - 1)) mod 32)) 1"

definition ids_to_mask :: "'a basic_card_scheme list \<Rightarrow> 32 word" where
  "ids_to_mask xs = foldl (\<lambda>m i. m OR to_mask i) 0 xs"

text \<open>The argument of the set operations: a set, an array of identities or one identity.\<close>

datatype ids_arg = ASet iset | Ids "basic_card list" | AnId basic_card

fun parse_ids :: "ids_arg \<Rightarrow> 32 word" where
  "parse_ids (ASet s) = bits s"
| "parse_ids (Ids xs) = ids_to_mask xs"
| "parse_ids (AnId i) = to_mask i"

definition iset_create :: "nat \<Rightarrow> ids_arg \<Rightarrow> iset" where
  "iset_create n a = \<lparr>num_suits = n, bits = parse_ids a\<rparr>"

definition popcount :: "32 word \<Rightarrow> 32 word" where
  "popcount v =
     (let copy = v - (signed_drop_bit 1 v AND 0x55555555);
          copy = (copy AND 0x33333333) + (signed_drop_bit 2 copy AND 0x33333333)
      in signed_drop_bit 24 (((copy + signed_drop_bit 4 copy) AND 0xF0F0F0F) * 0x1010101))"

definition iset_length :: "iset \<Rightarrow> int" where
  "iset_length s = sint (popcount (bits s))"

text \<open>The getter \<open>array\<close>: one pass over the bits, \<open>run\<close> is the bit looked at.\<close>

definition card_of_index :: "nat \<Rightarrow> basic_card" where
  "card_of_index i = mk_id (int i div max_stack_rank) (int i mod max_stack_rank + 1)"

fun array_loop :: "32 word \<Rightarrow> 32 word \<Rightarrow> nat list \<Rightarrow> basic_card list" where
  "array_loop v run [] = []"
| "array_loop v run (i # is) =
     (if v AND run \<noteq> 0 then [card_of_index i] else []) @ array_loop v (push_bit 1 run) is"

definition iset_array :: "iset \<Rightarrow> basic_card list" where
  "iset_array s = array_loop (bits s) 1 [0..<num_suits s * nat max_stack_rank]"

definition iset_has :: "iset \<Rightarrow> 'a basic_card_scheme \<Rightarrow> bool" where
  "iset_has s i \<longleftrightarrow>
     (if suit_index i = -1 \<or> rank i = -1 then False else bits s AND to_mask i \<noteq> 0)"

definition iset_intersect :: "iset \<Rightarrow> ids_arg \<Rightarrow> iset" where
  "iset_intersect s a = s\<lparr>bits := bits s AND parse_ids a\<rparr>"

definition iset_subtract :: "iset \<Rightarrow> ids_arg \<Rightarrow> iset" where
  "iset_subtract s a = s\<lparr>bits := bits s AND NOT (parse_ids a)\<rparr>"

definition iset_union :: "iset \<Rightarrow> ids_arg \<Rightarrow> iset" where
  "iset_union s a = s\<lparr>bits := bits s OR parse_ids a\<rparr>"

definition iset_equals :: "iset \<Rightarrow> ids_arg \<Rightarrow> bool" where
  "iset_equals s a \<longleftrightarrow> bits s = parse_ids a"

section \<open>The bit count\<close>

text \<open>
  The three steps of \<open>length\<close> on integers, with the mask as an argument: they act on each byte
  on its own, so that one check of the 256 bytes proves them on four.
\<close>

definition pair_sums :: "int \<Rightarrow> int \<Rightarrow> int" where
  "pair_sums M x = x - ((x div 2) AND M)"

definition nibble_sums :: "int \<Rightarrow> int \<Rightarrow> int" where
  "nibble_sums M y = (y AND M) + ((y div 4) AND M)"

definition byte_sums :: "int \<Rightarrow> int \<Rightarrow> int" where
  "byte_sums M y = (y + y div 16) AND M"

definition bit_sum :: "nat \<Rightarrow> int \<Rightarrow> int" where
  "bit_sum n b = (\<Sum>i\<leftarrow>[0..<n]. of_bool (bit b i))"

lemma and_split:
  fixes a m b M :: int
  assumes "0 \<le> a" "a < 2^n" "0 \<le> m" "m < 2^n"
  shows "(a + 2^n*b) AND (m + 2^n*M) = (a AND m) + 2^n*(b AND M)"
proof -
  have t: "take_bit n a = a" "take_bit n m = m" "take_bit n (a AND m) = a AND m"
    using assms by (auto simp: take_bit_int_eq_self)
  have "(a + 2^n*b) = concat_bit n a b" "(m + 2^n*M) = concat_bit n m M"
    "(a AND m) + 2^n*(b AND M) = concat_bit n (a AND m) (b AND M)"
    using t by (simp_all add: concat_bit_eq push_bit_eq_mult)
  then show ?thesis
    by (auto intro!: bit_eqI simp: bit_simps)
qed

lemma bit_small: "0 \<le> m \<Longrightarrow> m < 2 ^ j \<Longrightarrow> bit (m::int) i \<Longrightarrow> i < j"
  by (metis bit_take_bit_iff take_bit_int_eq_self)

lemma shift_split:
  fixes a m b M :: int
  assumes "0 \<le> a" "a < 256" "0 \<le> m" "m < 2^j" "j + k = 8"
  shows "((a + 256*b) div 2^k) AND (m + 256*M) = ((a div 2^k) AND m) + 256*((b div 2^k) AND M)"
proof -
  have "m < 2^8" using assms by (smt (verit) le_add1 power_increasing)
  then have t: "take_bit 8 a = a" "take_bit 8 m = m"
    using assms by (simp_all add: take_bit_int_eq_self)
  then have u: "take_bit 8 ((a div 2^k) AND m) = (a div 2^k) AND m"
    using assms bit_small [of m j] by (fastforce intro!: bit_eqI simp: bit_simps)
  have "(concat_bit 8 a b div 2^k) AND concat_bit 8 m M
      = concat_bit 8 ((a div 2^k) AND m) ((b div 2^k) AND M)"
  proof (rule bit_eqI)
    fix i
    show "bit ((concat_bit 8 a b div 2^k) AND concat_bit 8 m M) i =
       bit (concat_bit 8 ((a div 2^k) AND m) ((b div 2^k) AND M)) i"
      using assms bit_small [of m j i]
      by (auto simp: bit_simps drop_bit_eq_div [symmetric] concat_bit_def)
  qed
  with t u show ?thesis by (simp add: concat_bit_eq push_bit_eq_mult mult.commute)
qed

lemma byte_table: "\<forall>b \<in> set (map int [0..<256]).
   0 \<le> pair_sums 0x55 b \<and> pair_sums 0x55 b < 256 \<and>
   0 \<le> nibble_sums 0x33 (pair_sums 0x55 b) \<and> nibble_sums 0x33 (pair_sums 0x55 b) < 0x45 \<and>
   nibble_sums 0x33 (pair_sums 0x55 b) mod 16 \<le> 4 \<and>
   byte_sums 15 (nibble_sums 0x33 (pair_sums 0x55 b)) = bit_sum 8 b"
  by code_simp

lemma byteD:
  assumes "0 \<le> b" "b < 256"
  shows "0 \<le> pair_sums 0x55 b" "pair_sums 0x55 b < 256"
    "0 \<le> nibble_sums 0x33 (pair_sums 0x55 b)" "nibble_sums 0x33 (pair_sums 0x55 b) < 0x45"
    "nibble_sums 0x33 (pair_sums 0x55 b) mod 16 \<le> 4"
    "byte_sums 15 (nibble_sums 0x33 (pair_sums 0x55 b)) = bit_sum 8 b"
proof -
  have "b \<in> set (map int [0..<256])"
    using assms by (auto simp: image_iff intro!: bexI [of _ "nat b"])
  with byte_table show "0 \<le> pair_sums 0x55 b" "pair_sums 0x55 b < 256"
    "0 \<le> nibble_sums 0x33 (pair_sums 0x55 b)" "nibble_sums 0x33 (pair_sums 0x55 b) < 0x45"
    "nibble_sums 0x33 (pair_sums 0x55 b) mod 16 \<le> 4"
    "byte_sums 15 (nibble_sums 0x33 (pair_sums 0x55 b)) = bit_sum 8 b"
    by blast+
qed

lemma pair_sums_split: "0 \<le> a \<Longrightarrow> a < 256 \<Longrightarrow>
   pair_sums (0x55 + 256*M) (a + 256*b) = pair_sums 0x55 a + 256 * pair_sums M b"
  using shift_split [of a "0x55" 7 1 b M] by (simp add: pair_sums_def)

lemma nibble_sums_split: "0 \<le> a \<Longrightarrow> a < 256 \<Longrightarrow>
   nibble_sums (0x33 + 256*M) (a + 256*b) = nibble_sums 0x33 a + 256 * nibble_sums M b"
  using shift_split [of a "0x33" 6 2 b M] and_split [of a 8 "0x33" b M]
  by (simp add: nibble_sums_def)

lemma byte_sums_split:
  assumes a: "0 \<le> a" "a < 0x45" "b mod 16 \<le> 4"
  shows "byte_sums (15 + 256*M) (a + 256*b) = byte_sums 15 a + 256 * byte_sums M b"
proof -
  have e: "(a + 256*b) + (a + 256*b) div 16 = (a + a div 16 + 16*(b mod 16)) + 256*(b + b div 16)"
  proof -
    have "(a + 256*b) div 16 = a div 16 + 16*b" by simp
    moreover have "16 * b = 16 * (b mod 16) + 256 * (b div 16)"
      using mult_div_mod_eq [of 16 b] by linarith
    ultimately show ?thesis by simp
  qed
  have "a div 16 \<le> 4" "0 \<le> a div 16" using a by auto
  then have "byte_sums (15 + 256*M) (a + 256*b)
      = ((a + a div 16 + 16*(b mod 16)) AND 15) + 256*((b + b div 16) AND M)"
    unfolding byte_sums_def e
    using a and_split [of "a + a div 16 + 16*(b mod 16)" 8 15 "b + b div 16" M] by simp
  moreover have "((a + a div 16 + 16*(b mod 16)) AND 15) = (a + a div 16) AND 15"
  proof -
    have "x AND 15 = x mod 16" for x :: int
      using take_bit_eq_mask [of 4 x] by (simp add: take_bit_eq_mod mask_eq_exp_minus_1)
    then show ?thesis by simp
  qed
  ultimately show ?thesis by (simp add: byte_sums_def)
qed

definition three_steps :: "int \<Rightarrow> int \<Rightarrow> int" where
  "three_steps M x = byte_sums (15*M) (nibble_sums (0x33*M) (pair_sums (0x55*M) x))"

lemma three_steps_split:
  assumes a: "0 \<le> a" "a < 256" and x: "nibble_sums (0x33*M) (pair_sums (0x55*M) x) mod 16 \<le> 4"
  shows "three_steps (1 + 256*M) (a + 256*x) = bit_sum 8 a + 256 * three_steps M x"
    and "nibble_sums (0x33*(1 + 256*M)) (pair_sums (0x55*(1 + 256*M)) (a + 256*x)) mod 16 \<le> 4"
proof -
  have m: "k * (1 + 256*M) = k + 256*(k*M)" for k :: int by (simp add: algebra_simps)
  have n: "nibble_sums (0x33*(1 + 256*M)) (pair_sums (0x55*(1 + 256*M)) (a + 256*x)) =
     nibble_sums 0x33 (pair_sums 0x55 a) + 256 * nibble_sums (0x33*M) (pair_sums (0x55*M) x)"
    unfolding m using a byteD [of a] by (simp only: pair_sums_split nibble_sums_split)
  show "nibble_sums (0x33*(1 + 256*M)) (pair_sums (0x55*(1 + 256*M)) (a + 256*x)) mod 16 \<le> 4"
    unfolding n using byteD(5) [OF a]
    by (simp add: mod_add_eq [symmetric] mod_mult_left_eq [symmetric])
  show "three_steps (1 + 256*M) (a + 256*x) = bit_sum 8 a + 256 * three_steps M x"
    unfolding three_steps_def n m [of 15] byte_sums_split [OF byteD(3) [OF a] byteD(4) [OF a] x]
    using byteD(6) [OF a] by (simp only:)
qed

lemma three_steps_bytes:
  assumes "0 \<le> a" "a < 256" "0 \<le> b" "b < 256" "0 \<le> c" "c < 256" "0 \<le> d" "d < 256"
  shows "three_steps 0x01010101 (a + 256*(b + 256*(c + 256*d)))
    = bit_sum 8 a + 256*(bit_sum 8 b + 256*(bit_sum 8 c + 256*(bit_sum 8 d)))"
proof -
  have m: "(0x01010101::int) = 1 + 256*(1 + 256*(1 + 256*1))" by simp
  have d: "nibble_sums (0x33*1) (pair_sums (0x55*1) d) mod 16 \<le> 4" "three_steps 1 d = bit_sum 8 d"
    using byteD [of d] assms by (simp_all add: three_steps_def)
  note c = three_steps_split [OF assms(5,6) d(1)]
  note b = three_steps_split [OF assms(3,4) c(2)]
  note a = three_steps_split [OF assms(1,2) b(2)]
  show ?thesis unfolding m a(1) b(1) c(1) d(2) ..
qed

lemma bit_sum_bound: "0 \<le> bit_sum n b \<and> bit_sum n b \<le> int n"
  by (induction n) (auto simp: bit_sum_def)

lemma bit_sum_split:
  assumes a: "0 \<le> a" "a < 256"
  shows "bit_sum (8 + n) (a + 256*b) = bit_sum 8 a + bit_sum n b"
proof -
  have "a + 256*b = concat_bit 8 a b"
    using a by (simp add: concat_bit_eq push_bit_eq_mult take_bit_int_eq_self)
  moreover have "[0..<8 + n] = [0..<8] @ map (\<lambda>i. i + 8) [0..<n]"
    using upt_add_eq_append [of 0 8 n] by (simp add: map_add_upt add.commute)
  moreover have "map (\<lambda>i. of_bool (bit (concat_bit 8 a b) i)) [0..<8]
      = (map (\<lambda>i. of_bool (bit a i)) [0..<8] :: int list)"
    "map (\<lambda>i. of_bool (bit (concat_bit 8 a b) (i + 8))) [0..<n]
      = (map (\<lambda>i. of_bool (bit b i)) [0..<n] :: int list)"
    by (auto simp: bit_concat_bit_iff)
  ultimately show ?thesis
    unfolding bit_sum_def by (simp only: map_append sum_list_append map_map comp_def)
qed

lemma uint_signed_drop:
  assumes "uint (w::32 word) < 2^31" shows "uint (signed_drop_bit n w) = uint w div 2^n"
proof -
  have "\<not> bit w 31" using assms bit_small [of "uint w" 31 31] by (auto simp: bit_uint_iff)
  then have "signed_drop_bit n w = drop_bit n w"
    by (intro bit_word_eqI) (auto simp: bit_simps min_def not_less dest: bit_imp_le_length)
  then have "uint (signed_drop_bit n w) = drop_bit n (take_bit 32 (uint w))"
    by (simp only: unsigned_drop_bit_eq) simp
  also have "take_bit 32 (uint w) = uint w"
    using uint_lt2p [of w] by (simp add: take_bit_int_eq_self)
  finally show ?thesis by (simp only: drop_bit_eq_div)
qed

lemma four_bytes:
  assumes x: "0 \<le> (x::int)" "x < 2^32"
  shows "\<exists>a b c d. x = a + 256*(b + 256*(c + 256*d)) \<and>
   0 \<le> a \<and> a < 256 \<and> 0 \<le> b \<and> b < 256 \<and> 0 \<le> c \<and> c < 256 \<and> 0 \<le> d \<and> d < 256"
proof -
  define y where "y = x div 256"
  define z where "z = y div 256"
  define w where "w = z div 256"
  have "x = x mod 256 + 256*y" "y = y mod 256 + 256*z" "z = z mod 256 + 256*w"
    by (simp_all add: y_def z_def w_def)
  moreover have "0 \<le> w" "w < 256" using x by (simp_all add: w_def z_def y_def)
  ultimately show ?thesis
    by (intro exI [of _ "x mod 256"] exI [of _ "y mod 256"] exI [of _ "z mod 256"] exI [of _ w]) simp
qed

text \<open>The multiplication adds the four bytes into the top one.\<close>

lemma sum_bytes:
  fixes A B C D :: int
  assumes "0 \<le> A" "A \<le> 8" "0 \<le> B" "B \<le> 8" "0 \<le> C" "C \<le> 8" "0 \<le> D" "D \<le> 8"
  shows "((A + 256*(B + 256*(C + 256*D))) * 0x1010101) mod 2^32 =
     A + 256*(A + B) + 65536*(A + B + C) + 16777216*(A + B + C + D)" (is "?l = ?r")
proof -
  have "(A + 256*(B + 256*(C + 256*D))) * 0x1010101 =
      ?r + 2^32 * (B + C + D + 256*(C + D) + 65536*D)"
    by (simp add: algebra_simps)
  moreover have "0 \<le> ?r" "?r < 2^32" using assms by auto
  ultimately show ?thesis by (simp only: mod_mult_self2 mod_pos_pos_trivial)
qed

lemma uint_before_mult:
  fixes v :: "32 word"
  assumes "uint v < 2^31"
  defines "p \<equiv> v - (signed_drop_bit 1 v AND 0x55555555)"
  defines "n \<equiv> (p AND 0x33333333) + (signed_drop_bit 2 p AND 0x33333333)"
  shows "uint ((n + signed_drop_bit 4 n) AND 0xF0F0F0F) = three_steps 0x01010101 (uint v)"
proof -
  have p: "uint p = pair_sums 0x55555555 (uint v)"
  proof -
    have "uint v div 2 AND 0x55555555 \<le> uint v div 2" by (simp add: AND_upper1)
    moreover have "uint v div 2 \<le> uint v" using uint_ge_0 [of v] by linarith
    ultimately have "(signed_drop_bit 1 v AND 0x55555555) \<le> v"
      using assms(1) by (simp add: word_le_def uint_and uint_signed_drop)
    then have "uint p = uint v - uint (signed_drop_bit 1 v AND 0x55555555)"
      unfolding p_def by (simp add: uint_minus_simple_alt)
    then show ?thesis using assms(1) by (simp add: uint_and uint_signed_drop pair_sums_def)
  qed
  have pb: "uint p < 2^31"
    unfolding p pair_sums_def using assms(1) by (smt (verit) and_nonnegative_int_iff)
  have nb: "nibble_sums 0x33333333 (uint p) \<le> 0x66666666" unfolding nibble_sums_def
    using AND_upper2 [of "0x33333333" "uint p"] AND_upper2 [of "0x33333333" "uint p div 4"]
    by linarith
  then have n: "uint n = nibble_sums 0x33333333 (uint p)"
    using pb by (simp add: n_def uint_and uint_signed_drop nibble_sums_def uint_word_ariths)
  have "0 \<le> nibble_sums 0x33333333 (uint p)" by (simp add: nibble_sums_def)
  then show ?thesis
    using nb by (simp add: uint_and uint_word_ariths uint_signed_drop n byte_sums_def
        three_steps_def p)
qed

lemma popcount_bit_sum:
  assumes "uint v < 2^31"
  shows "uint (popcount v) = bit_sum 32 (uint v)"
proof -
  obtain a b c d where x: "uint v = a + 256*(b + 256*(c + 256*d))" and
   r: "0 \<le> a" "a < 256" "0 \<le> b" "b < 256" "0 \<le> c" "c < 256" "0 \<le> d" "d < 256"
    using four_bytes [of "uint v"] uint_lt2p [of v] by auto
  define p where "p = v - (signed_drop_bit 1 v AND 0x55555555)"
  define n where "n = (p AND 0x33333333) + (signed_drop_bit 2 p AND 0x33333333)"
  define m where "m = ((n + signed_drop_bit 4 n) AND 0xF0F0F0F)"
  have m: "uint m = three_steps 0x01010101 (uint v)"
    unfolding m_def n_def p_def by (rule uint_before_mult [OF assms])
  have bd: "0 \<le> bit_sum 8 k" "bit_sum 8 k \<le> 8" for k using bit_sum_bound [of 8 k] by auto
  have mm: "uint (m * 0x1010101) = (uint m * 0x1010101) mod 2^32"
    by (simp add: uint_word_ariths)
  have q: "uint (m * 0x1010101) = bit_sum 8 a + 256*(bit_sum 8 a + bit_sum 8 b)
      + 65536*(bit_sum 8 a + bit_sum 8 b + bit_sum 8 c)
      + 16777216*(bit_sum 8 a + bit_sum 8 b + bit_sum 8 c + bit_sum 8 d)" (is "_ = ?q")
    unfolding mm m x three_steps_bytes [OF r] by (rule sum_bytes) (rule bd)+
  have qb: "?q < 2^31" using bd [of a] bd [of b] bd [of c] bd [of d] by auto
  have "uint (popcount v) = ?q div 2^24"
    unfolding popcount_def Let_def p_def [symmetric] n_def [symmetric] m_def [symmetric]
    using qb by (subst uint_signed_drop) (simp_all add: q)
  also have "\<dots> = bit_sum 8 a + bit_sum 8 b + bit_sum 8 c + bit_sum 8 d"
    using bd [of a] bd [of b] bd [of c] bd [of d] by auto
  also have "\<dots> = bit_sum (8 + (8 + (8 + 8))) (uint v)"
    unfolding x using r by (simp only: bit_sum_split)
  finally show ?thesis by simp
qed

section \<open>Meaning of the operations\<close>

definition valid_id :: "nat \<Rightarrow> 'a basic_card_scheme \<Rightarrow> bool" where
  "valid_id n i \<longleftrightarrow> 0 \<le> suit_index i \<and> suit_index i < int n \<and> 1 \<le> rank i \<and> rank i \<le> max_stack_rank"

definition iset_ok :: "nat \<Rightarrow> iset \<Rightarrow> bool" where
  "iset_ok n s \<longleftrightarrow> num_suits s = n \<and> n \<le> 6 \<and> take_bit (n * 5) (bits s) = bits s"

fun arg_ok :: "nat \<Rightarrow> ids_arg \<Rightarrow> bool" where
  "arg_ok n (ASet s) = iset_ok n s"
| "arg_ok n (Ids xs) = list_all (valid_id n) xs"
| "arg_ok n (AnId i) = valid_id n i"

fun arg_has :: "ids_arg \<Rightarrow> basic_card \<Rightarrow> bool" where
  "arg_has (ASet s) i = iset_has s i"
| "arg_has (Ids xs) i = (i \<in> set xs)"
| "arg_has (AnId j) i = (i = j)"

definition id_bit :: "'a basic_card_scheme \<Rightarrow> nat" where
  "id_bit i = nat (suit_index i * 5 + (rank i - 1))"

lemma raw_simps [simp]: "suit_index (raw c) = suit_index c" "rank (raw c) = rank c"
  "raw (i :: basic_card) = i" "suit_index (mk_id s r) = s" "rank (mk_id s r) = r"
  by (simp_all add: raw_def mk_id_def)

lemma raw_eq_iff: "raw c = raw d \<longleftrightarrow> suit_index c = suit_index d \<and> rank c = rank d"
  by (simp add: raw_def)

lemma valid_raw [simp]: "valid_id n (raw c) = valid_id n c"
  by (simp add: valid_id_def)

lemma has_raw [simp]: "iset_has s (raw c) = iset_has s c"
  by (simp add: iset_has_def to_mask_def)

lemma id_bit_less: "valid_id n i \<Longrightarrow> n \<le> 6 \<Longrightarrow> id_bit i < n * 5 \<and> id_bit i < 30"
  by (auto simp: valid_id_def id_bit_def max_stack_rank_def)

lemma id_bit_inj: "valid_id n i \<Longrightarrow> valid_id m j \<Longrightarrow> id_bit i = id_bit j \<longleftrightarrow> raw i = raw j"
proof -
  assume v: "valid_id n i" "valid_id m j"
  have "s = t \<and> r = q" if "s * 5 + (r - 1) = t * 5 + (q - 1)" "1 \<le> r" "r \<le> 5" "1 \<le> q" "q \<le> 5"
    for s t r q :: int
    using that by arith
  with v show ?thesis
    by (auto simp: valid_id_def id_bit_def max_stack_rank_def raw_eq_iff eq_nat_nat_iff)
qed

lemma to_mask_bit: "valid_id n i \<Longrightarrow> n \<le> 6 \<Longrightarrow> bit (to_mask i) k \<longleftrightarrow> k = id_bit i"
  using id_bit_less [of n i]
  by (auto simp: to_mask_def id_bit_def valid_id_def max_stack_rank_def bit_simps)

lemma to_mask_push: "valid_id n i \<Longrightarrow> n \<le> 6 \<Longrightarrow> to_mask i = push_bit (id_bit i) 1"
  by (auto simp: to_mask_def id_bit_def valid_id_def max_stack_rank_def)

lemma has_bit: "valid_id n i \<Longrightarrow> n \<le> 6 \<Longrightarrow> iset_has s i \<longleftrightarrow> bit (bits s) (id_bit i)"
  by (auto simp: iset_has_def to_mask_push bit_iff_and_push_bit_not_eq_0 valid_id_def)

lemma ids_to_mask_bit:
  assumes "list_all (valid_id n) xs" "n \<le> 6"
  shows "bit (ids_to_mask xs) k \<longleftrightarrow> (\<exists>x\<in>set xs. k = id_bit x)"
proof -
  have "bit (foldl (\<lambda>m i. m OR to_mask i) m xs) k \<longleftrightarrow> bit m k \<or> (\<exists>x\<in>set xs. k = id_bit x)" for m
    using assms by (induction xs arbitrary: m) (auto simp: bit_simps to_mask_bit)
  then show ?thesis by (simp add: ids_to_mask_def)
qed

lemma parse_bit:
  assumes "arg_ok n a" "valid_id n i" "n \<le> 6"
  shows "bit (parse_ids a) (id_bit i) \<longleftrightarrow> arg_has a (raw i)"
proof (cases a)
  case (ASet s)
  then show ?thesis using assms by (simp add: has_bit)
next
  case (Ids xs)
  then have "bit (parse_ids a) (id_bit i) \<longleftrightarrow> (\<exists>x\<in>set xs. id_bit i = id_bit x)"
    using assms by (simp add: ids_to_mask_bit)
  also have "\<dots> \<longleftrightarrow> raw i \<in> set xs"
  proof -
    have "id_bit i = id_bit x \<longleftrightarrow> raw i = x" if "x \<in> set xs" for x
      using that assms Ids id_bit_inj [of n i n x] by (auto simp: list_all_iff)
    then show ?thesis by blast
  qed
  finally show ?thesis using Ids by simp
next
  case (AnId j)
  then show ?thesis using assms id_bit_inj [of n i n j] by (simp add: to_mask_bit)
qed

lemma iset_okD: "iset_ok n s \<Longrightarrow> num_suits s = n \<and> n \<le> 6"
  by (simp add: iset_ok_def)

lemma iset_has_ops:
  assumes "iset_ok n s" "arg_ok n a" "valid_id n i"
  shows iset_has_intersect: "iset_has (iset_intersect s a) i \<longleftrightarrow> iset_has s i \<and> arg_has a (raw i)"
    and iset_has_subtract: "iset_has (iset_subtract s a) i \<longleftrightarrow> iset_has s i \<and> \<not> arg_has a (raw i)"
    and iset_has_union: "iset_has (iset_union s a) i \<longleftrightarrow> iset_has s i \<or> arg_has a (raw i)"
  using assms iset_okD [OF assms(1)] id_bit_less [OF assms(3)]
  by (auto simp: has_bit iset_intersect_def iset_subtract_def iset_union_def parse_bit bit_simps)

lemma parse_take_bit: "arg_ok n a \<Longrightarrow> n \<le> 6 \<Longrightarrow> take_bit (n * 5) (parse_ids a) = parse_ids a"
proof (cases a)
  case (Ids xs)
  assume "arg_ok n a" "n \<le> 6"
  with Ids show ?thesis
    using id_bit_less [where 'a = unit, of n]
    by (auto intro!: bit_word_eqI simp: bit_simps ids_to_mask_bit [of n] list_all_iff)
next
  case (AnId i)
  assume "arg_ok n a" "n \<le> 6"
  with AnId show ?thesis
    by (auto intro!: bit_word_eqI simp: bit_simps to_mask_bit dest: id_bit_less)
qed (simp add: iset_ok_def)

lemma take_bit_and_self: "take_bit m a = a \<Longrightarrow> take_bit m (a AND b) = a AND (b :: 32 word)"
  by (metis and.assoc take_bit_eq_mask and.commute)

lemma iset_ok_ops [intro, simp]:
  assumes "iset_ok n s"
  shows "iset_ok n (iset_intersect s a)" "iset_ok n (iset_subtract s a)"
    "arg_ok n a \<Longrightarrow> iset_ok n (iset_union s a)"
  using assms by (auto simp: iset_ok_def iset_intersect_def iset_subtract_def iset_union_def
      take_bit_and_self parse_take_bit simp del: take_bit_and take_bit_or) (simp add: parse_take_bit)

lemma iset_ok_new: "n \<le> 6 \<Longrightarrow> iset_ok n (iset_empty n)" "n \<le> 6 \<Longrightarrow> iset_ok n (iset_full n)"
  "n \<le> 6 \<Longrightarrow> arg_ok n a \<Longrightarrow> iset_ok n (iset_create n a)"
proof -
  assume n: "n \<le> 6"
  show "iset_ok n (iset_empty n)" using n by (simp add: iset_ok_def iset_empty_def)
  show "iset_ok n (iset_full n)" using n
    by (auto simp: iset_ok_def iset_full_def max_stack_rank_def mask_eq_exp_minus_1 [symmetric])
  show "arg_ok n a \<Longrightarrow> iset_ok n (iset_create n a)" using n
    by (simp add: iset_ok_def iset_create_def parse_take_bit)
qed

lemma iset_has_new: 
  assumes "valid_id n i" "n \<le> 6"
  shows "\<not> iset_has (iset_empty n) i" "iset_has (iset_full n) i"
    "arg_ok n a \<Longrightarrow> iset_has (iset_create n a) i \<longleftrightarrow> arg_has a (raw i)"
  using assms id_bit_less [OF assms]
  by (auto simp: has_bit iset_empty_def iset_full_def iset_create_def max_stack_rank_def parse_bit
      mask_eq_exp_minus_1 [symmetric] bit_simps)

lemma array_loop_filter:
  "m \<le> 32 \<Longrightarrow> array_loop v (push_bit k 1) [k..<m] = map card_of_index (filter (bit v) [k..<m])"
proof (induction "m - k" arbitrary: k)
  case (Suc d)
  then have k: "[k..<m] = k # [Suc k..<m]" by (simp add: upt_conv_Cons)
  have "push_bit 1 (push_bit k 1) = (push_bit (Suc k) 1 :: 32 word)" by simp
  moreover have "array_loop v (push_bit (Suc k) 1) [Suc k..<m] = map card_of_index (filter (bit v) [Suc k..<m])"
    using Suc by (intro Suc.hyps(1)) auto
  ultimately show ?case unfolding k by (simp add: bit_iff_and_push_bit_not_eq_0 del: push_bit_Suc)
qed simp

lemma iset_array_filter:
  "iset_ok n s \<Longrightarrow> iset_array s = map card_of_index (filter (bit (bits s)) [0..<n * 5])"
  using array_loop_filter [of "n * 5" "bits s" 0]
  by (auto simp: iset_array_def iset_ok_def max_stack_rank_def)

lemma card_of_index_id: "valid_id n i \<Longrightarrow> card_of_index (id_bit i) = raw i"
  by (auto simp: card_of_index_def valid_id_def id_bit_def max_stack_rank_def mk_id_def raw_def)

lemma id_bit_card_of_index: "id_bit (card_of_index k) = k"
  by (simp add: id_bit_def card_of_index_def max_stack_rank_def)

lemma valid_card_of_index: "k < n * 5 \<Longrightarrow> valid_id n (card_of_index k)"
  by (auto simp: valid_id_def card_of_index_def max_stack_rank_def)

lemma iset_array_set:
  assumes "iset_ok n s"
  shows "set (iset_array s) = {i. valid_id n i \<and> iset_has s i}"
proof -
  have n: "n \<le> 6" using assms by (simp add: iset_ok_def)
  have "i \<in> set (iset_array s)" if "valid_id n i" "iset_has s i" for i
    using that assms n id_bit_less [of n i] card_of_index_id [of n i]
    by (auto simp: iset_array_filter image_iff has_bit intro!: exI [of _ "id_bit i"])
  moreover have "valid_id n i \<and> iset_has s i" if "i \<in> set (iset_array s)" for i
    using that assms n by (auto simp: iset_array_filter has_bit [of n] valid_card_of_index id_bit_card_of_index)
  ultimately show ?thesis by blast
qed

lemma iset_array_distinct: "iset_ok n s \<Longrightarrow> distinct (iset_array s)"
  by (auto simp: iset_array_filter distinct_map intro!: inj_onI) (metis id_bit_card_of_index)

lemma bit_sum_filter: "bit_sum n b = int (length (filter (bit b) [0..<n]))"
  by (induction n) (auto simp: bit_sum_def)

theorem iset_length_array:
  assumes "iset_ok n s"
  shows "iset_length s = int (length (iset_array s))"
proof -
  have t: "take_bit (n * 5) (bits s) = bits s" "n \<le> 6" using assms by (auto simp: iset_ok_def)
  have hi: "\<not> bit (bits s) k" if "n * 5 \<le> k" for k
    using that t by (metis bit_take_bit_iff not_less)
  have "uint (bits s) = take_bit (n * 5) (uint (bits s))"
    using t(1) by (metis unsigned_take_bit_eq)
  then have "uint (bits s) < 2 ^ (n * 5)" by (metis take_bit_int_less_exp)
  also have "(2::int) ^ (n * 5) \<le> 2 ^ 30" using t(2) by (intro power_increasing) auto
  finally have "uint (bits s) < 2 ^ 31" by simp
  then have p: "uint (popcount (bits s)) = bit_sum 32 (uint (bits s))" by (rule popcount_bit_sum)
  have "bit_sum 32 (uint (bits s)) = int (length (filter (bit (bits s)) [0..<32]))"
  proof -
    have "filter (bit (uint (bits s))) [0..<32] = filter (bit (bits s)) [0..<32]"
      by (rule filter_cong) (simp_all add: bit_uint_iff)
    then show ?thesis by (simp add: bit_sum_filter)
  qed
  also have "[0..<32] = [0..<n * 5] @ [n * 5..<32]"
    using t(2) upt_add_eq_append [of 0 "n * 5" "32 - n * 5"] by simp
  also have "filter (bit (bits s)) ([0..<n * 5] @ [n * 5..<32]) = filter (bit (bits s)) [0..<n * 5]"
    using hi by (auto simp: filter_empty_conv)
  finally have b: "bit_sum 32 (uint (bits s)) = int (length (iset_array s))"
    by (simp add: iset_array_filter [OF assms])
  have "0 \<le> bit_sum 32 (uint (bits s))" "bit_sum 32 (uint (bits s)) \<le> 32"
    using bit_sum_bound [of 32] by auto
  then show ?thesis using b p
    by (simp add: iset_length_def sint_uint signed_take_bit_int_eq_self)
qed
section \<open>The interface\<close>

text \<open>
  What the rest of the program relies on: a set of identities is a finite set that can be listed
  without repetition, and its operations are those of sets. The clients (card elimination, the
  hypothetical plays) only use these laws and the lemmas derived from them here.
\<close>

locale identity_set =
  fixes good :: "'s \<Rightarrow> bool"
    and elems :: "'s \<Rightarrow> 'i list"
    and size_of :: "'s \<Rightarrow> int"
    and mem :: "'s \<Rightarrow> 'i \<Rightarrow> bool"
    and univ :: "'i \<Rightarrow> bool"
    and inter :: "'s \<Rightarrow> 's \<Rightarrow> 's"
    and join :: "'s \<Rightarrow> 's \<Rightarrow> 's"
    and remove :: "'s \<Rightarrow> 'i \<Rightarrow> 's"
  assumes elems_mem: "good s \<Longrightarrow> set (elems s) = {i. univ i \<and> mem s i}"
    and elems_distinct: "good s \<Longrightarrow> distinct (elems s)"
    and size_elems: "good s \<Longrightarrow> size_of s = int (length (elems s))"
    and mem_inter: "good s \<Longrightarrow> good t \<Longrightarrow> univ i \<Longrightarrow> mem (inter s t) i \<longleftrightarrow> mem s i \<and> mem t i"
    and mem_join: "good s \<Longrightarrow> good t \<Longrightarrow> univ i \<Longrightarrow> mem (join s t) i \<longleftrightarrow> mem s i \<or> mem t i"
    and mem_remove: "good s \<Longrightarrow> univ i \<Longrightarrow> univ j \<Longrightarrow> mem (remove s j) i \<longleftrightarrow> mem s i \<and> i \<noteq> j"
    and good_inter: "good s \<Longrightarrow> good t \<Longrightarrow> good (inter s t)"
    and good_join: "good s \<Longrightarrow> good t \<Longrightarrow> good (join s t)"
    and good_remove: "good s \<Longrightarrow> good (remove s j)"
begin

lemma size_card: "good s \<Longrightarrow> size_of s = int (card {i. univ i \<and> mem s i})"
  by (metis distinct_card elems_distinct elems_mem size_elems)

lemma finite_members: "good s \<Longrightarrow> finite {i. univ i \<and> mem s i}"
  by (metis List.finite_set elems_mem)

lemma size_nonneg: "good s \<Longrightarrow> 0 \<le> size_of s"
  by (simp add: size_elems)

lemma size_zero: "good s \<Longrightarrow> size_of s = 0 \<longleftrightarrow> (\<forall>i. univ i \<longrightarrow> \<not> mem s i)"
  by (auto simp: size_elems elems_mem simp flip: set_empty)

lemma size_pos: "good s \<Longrightarrow> univ i \<Longrightarrow> mem s i \<Longrightarrow> 0 < size_of s"
  using size_zero [of s] size_nonneg [of s] by (cases "size_of s = 0") auto

lemma size_one: "good s \<Longrightarrow> size_of s = 1 \<Longrightarrow> \<exists>x. elems s = [x] \<and> univ x \<and> mem s x"
  using elems_mem [of s] by (auto simp: size_elems length_Suc_conv)

lemma size_one_unique:
  "good s \<Longrightarrow> size_of s = 1 \<Longrightarrow> univ i \<Longrightarrow> mem s i \<Longrightarrow> elems s = [i]"
proof -
  assume i: "good s" "size_of s = 1" "univ i" "mem s i"
  then obtain x where "elems s = [x]" using size_one by blast
  moreover from i have "i \<in> set (elems s)" by (simp add: elems_mem)
  ultimately show ?thesis by simp
qed

lemma size_mono:
  "good s \<Longrightarrow> good t \<Longrightarrow> (\<And>i. univ i \<Longrightarrow> mem s i \<Longrightarrow> mem t i) \<Longrightarrow> size_of s \<le> size_of t"
  by (auto simp: size_card finite_members intro: card_mono)

lemma size_inter_le: "good s \<Longrightarrow> good t \<Longrightarrow> size_of (inter s t) \<le> size_of s"
  by (rule size_mono) (auto simp: good_inter mem_inter)

lemma size_remove_le: "good s \<Longrightarrow> univ j \<Longrightarrow> size_of (remove s j) \<le> size_of s"
  by (rule size_mono) (auto simp: good_remove mem_remove)

lemma size_remove_less:
  assumes "good s" "univ j" "mem s j"
  shows "size_of (remove s j) < size_of s"
proof -
  have "{i. univ i \<and> mem (remove s j) i} \<subset> {i. univ i \<and> mem s i}"
  proof
    show "{i. univ i \<and> mem (remove s j) i} \<subseteq> {i. univ i \<and> mem s i}"
      using assms by (auto simp: mem_remove)
    have "j \<in> {i. univ i \<and> mem s i}" "j \<notin> {i. univ i \<and> mem (remove s j) i}"
      using assms by (auto simp: mem_remove)
    then show "{i. univ i \<and> mem (remove s j) i} \<noteq> {i. univ i \<and> mem s i}" by blast
  qed
  then show ?thesis using assms
    by (simp add: size_card good_remove finite_members psubset_card_mono)
qed

end

text \<open>The masks of the code provide it, for any number of suits.\<close>

interpretation idset: identity_set "iset_ok n" iset_array iset_length iset_has "valid_id n"
  "\<lambda>s t. iset_intersect s (ASet t)" "\<lambda>s t. iset_union s (ASet t)" "\<lambda>s i. iset_subtract s (AnId i)"
  for n
  by unfold_locales
    (auto simp: iset_array_set iset_array_distinct iset_length_array
      iset_has_intersect [of n] iset_has_union [of n] iset_has_subtract [of n])

end
