(* ===== verification/Suit_Variants.thy ===== *)
theory Suit_Variants
  imports Identity_Sets
begin

text \<open>
  \<open>src/src/variants.js\<close>: the properties of a variant, the suit classes given by regular expressions
  on suit names, which cards a clue touches, which clues touch a card, and how many copies of an
  identity the deck has. Fetching the variant list over https (\<open>getVariant\<close>, \<open>getShortForms\<close>) is
  not modelled: a variant is an argument of everything that uses it.
\<close>

section \<open>Variants\<close>

record suit_variant =
  suits :: "string list"
  short_forms :: "string list"
  special_rank :: "int option"
  all_clue_colours :: bool
  all_clue_ranks :: bool
  no_clue_colours :: bool
  no_clue_ranks :: bool
  deceptive :: bool
  chimneys :: bool
  funnels :: bool
  critical_rank :: "int option"
  clue_ranks :: "int list option"

datatype clue_kind = ColourClue | RankClue

record base_clue =
  clue_kind :: clue_kind
  clue_value :: int

record clue = base_clue +
  clue_target :: nat

section \<open>Suit classes\<close>

text \<open>The regular expressions are alternations of literal words: a list of words.\<close>

fun contains :: "string \<Rightarrow> string \<Rightarrow> bool" where
  "contains w [] = (w = [])"
| "contains w (c # cs) = (take (length w) (c # cs) = w \<or> contains w cs)"

definition regex_test :: "string list \<Rightarrow> string \<Rightarrow> bool" where
  "regex_test re s = list_ex (\<lambda>w. contains w s) re"

definition whitish :: "string list" where
  "whitish = [''White'', ''Gray'', ''Light'', ''Null'']"

definition rainbowish :: "string list" where
  "rainbowish = [''Rainbow'', ''Omni'']"

definition brownish :: "string list" where
  "brownish = [''Brown'', ''Muddy'', ''Cocoa'', ''Null'']"

definition pinkish :: "string list" where
  "pinkish = [''Pink'', ''Omni'']"

definition dark :: "string list" where
  "dark = [''Black'', ''Dark'', ''Gray'', ''Cocoa'']"

definition prism :: "string list" where
  "prism = [''Prism'']"

text \<open>\<open>combineRegex\<close> of \<open>tools/util.js\<close> joins the alternations.\<close>

definition combine_regex :: "string list list \<Rightarrow> string list" where
  "combine_regex res = concat res"

definition no_colour :: "string list" where
  "no_colour = combine_regex [whitish, rainbowish, prism]"

section \<open>Touching\<close>

text \<open>\<open>xs[i]\<close> for a number \<open>i\<close> that may be negative.\<close>

definition get :: "'a list \<Rightarrow> int \<Rightarrow> 'a option" where
  "get xs i = (if 0 \<le> i \<and> i < int (length xs) then Some (xs ! nat i) else None)"

text \<open>A regular expression tests the string ''undefined'' when there is no such suit.\<close>

definition suit_name :: "suit_variant \<Rightarrow> int \<Rightarrow> string" where
  "suit_name v i = (case get (suits v) i of Some s \<Rightarrow> s | None \<Rightarrow> ''undefined'')"

definition colourable_suits :: "suit_variant \<Rightarrow> string list" where
  "colourable_suits v = filter (\<lambda>suit. \<not> regex_test no_colour suit) (suits v)"

definition card_touched :: "'a basic_card_scheme \<Rightarrow> suit_variant \<Rightarrow> 'b base_clue_scheme \<Rightarrow> bool" where
  "card_touched c v cl =
     (let suit = suit_name v (suit_index c); colourable = colourable_suits v;
          value = clue_value cl; r = rank c in
      case clue_kind cl of
        ColourClue \<Rightarrow>
          if suit_index c = -1 \<or> regex_test whitish suit then False
          else if regex_test rainbowish suit then True
          else if special_rank v = Some r \<and> all_clue_colours v then True
          else if special_rank v = Some r \<and> no_clue_colours v then False
          else if regex_test prism suit then
            colourable \<noteq> [] \<and> js_rem (r - 1) (int (length colourable)) = value
          else get (suits v) (suit_index c) = get colourable value
      | RankClue \<Rightarrow>
          if r = -1 \<or> regex_test brownish suit then False
          else if special_rank v = Some r \<and> all_clue_ranks v then r \<noteq> value
          else if special_rank v = Some r \<and> no_clue_ranks v then False
          else if special_rank v = Some r \<and> deceptive v then
            js_rem (suit_index c) 4 + (if special_rank v = Some 1 then 2 else 1) = value \<and> r \<noteq> value
          else if regex_test pinkish suit then True
          else if chimneys v then r \<ge> value
          else if funnels v then r \<le> value
          else r = value)"

section \<open>Clues and identities\<close>

record direct_options =
  exclude_colour :: bool
  exclude_rank :: bool

definition mk_clue :: "clue_kind \<Rightarrow> int \<Rightarrow> nat \<Rightarrow> clue" where
  "mk_clue k v t = \<lparr>clue_kind = k, clue_value = v, clue_target = t\<rparr>"

definition direct_clues ::
  "suit_variant \<Rightarrow> nat \<Rightarrow> 'a basic_card_scheme \<Rightarrow> direct_options \<Rightarrow> clue list" where
  "direct_clues v target c opts =
     (if exclude_colour opts then []
      else filter (card_touched c v)
        (map (\<lambda>s. mk_clue ColourClue (int s) target) [0..<length (colourable_suits v)])) @
     (if exclude_rank opts then []
      else filter (\<lambda>cl. (case clue_ranks v of None \<Rightarrow> True | Some rs \<Rightarrow> clue_value cl \<in> set rs) \<and>
          card_touched c v cl)
        (map (\<lambda>r. mk_clue RankClue r target) [1, 2, 3, 4, 5]))"

definition all_identities :: "string list \<Rightarrow> basic_card list" where
  "all_identities ss = concat (map (\<lambda>s. map (\<lambda>r. mk_id (int s) r) [1, 2, 3, 4, 5]) [0..<length ss])"

definition find_possibilities :: "'b base_clue_scheme \<Rightarrow> suit_variant \<Rightarrow> basic_card list" where
  "find_possibilities cl v = filter (\<lambda>i. card_touched i v cl) (all_identities (suits v))"

text \<open>The last case reads an array of five: for a rank outside 1 to 5 the code reads
  \<open>undefined\<close>, the model's \<open>!\<close> is unspecified, and nothing is claimed.\<close>

definition card_count :: "suit_variant \<Rightarrow> 'a basic_card_scheme \<Rightarrow> int" where
  "card_count v i =
     (if suit_index i = -1 \<or> rank i = -1 then 4
      else if regex_test dark (suit_name v (suit_index i)) then 1
      else if critical_rank v = Some (rank i) then 1
      else [3, 2, 2, 2, 1] ! nat (rank i - 1))"

text \<open>\<open>logCard\<close> of \<open>src/src/tools/log.js\<close> on a basic card: the hash under which the maps of the
  program file an identity.\<close>

fun digits :: "nat \<Rightarrow> string" where
  "digits n = (if n < 10 then [char_of (48 + n)] else digits (n div 10) @ [char_of (48 + n mod 10)])"

declare digits.simps [simp del]

definition int_string :: "int \<Rightarrow> string" where
  "int_string i = (if i < 0 then ''-'' @ digits (nat (- i)) else digits (nat i))"

definition log_id :: "suit_variant \<Rightarrow> 'a basic_card_scheme \<Rightarrow> string" where
  "log_id v c =
     (if suit_index c = -1 then ''xx''
      else (case get (short_forms v) (suit_index c) of Some s \<Rightarrow> s | None \<Rightarrow> ''undefined'') @
        int_string (rank c))"

section \<open>Facts\<close>

text \<open>The variants of the game: at most six suits, distinct one-letter short forms.\<close>

definition wf_variant :: "suit_variant \<Rightarrow> bool" where
  "wf_variant v \<longleftrightarrow> length (suits v) \<le> 6 \<and> length (short_forms v) = length (suits v) \<and>
     distinct (short_forms v) \<and> list_all (\<lambda>s. length s = 1) (short_forms v)"

abbreviation num_ids :: "suit_variant \<Rightarrow> nat" where
  "num_ids v \<equiv> length (suits v)"

lemma rank_cases: "1 \<le> r \<Longrightarrow> r \<le> (5::int) \<Longrightarrow> r = 1 \<or> r = 2 \<or> r = 3 \<or> r = 4 \<or> r = 5"
  by arith

lemma set_all_identities: "set (all_identities ss) = {i. valid_id (length ss) i}"
proof -
  have "i \<in> set (all_identities ss)" if "valid_id (length ss) i" for i
  proof -
    have "i = mk_id (int (nat (suit_index i))) (rank i)" "nat (suit_index i) < length ss"
      using that by (auto simp: mk_id_def valid_id_def)
    moreover have "rank i \<in> {1, 2, 3, 4, 5}"
      using that rank_cases [of "rank i"] by (auto simp: valid_id_def max_stack_rank_def)
    ultimately show ?thesis unfolding all_identities_def by force
  qed
  then show ?thesis by (auto simp: all_identities_def valid_id_def max_stack_rank_def)
qed

lemma set_find_possibilities:
  "set (find_possibilities cl v) = {i. valid_id (num_ids v) i \<and> card_touched i v cl}"
  by (auto simp: find_possibilities_def set_all_identities)

lemma touched_raw [simp]: "card_touched (raw c) v cl = card_touched c v cl"
  unfolding card_touched_def raw_simps(1,2) ..

lemma card_count_raw [simp]: "card_count v (raw c) = card_count v c"
  by (simp add: card_count_def)

lemma log_id_raw [simp]: "log_id v (raw c) = log_id v c"
  by (simp add: log_id_def)

lemma card_count_range: "valid_id n i \<Longrightarrow> 1 \<le> card_count v i \<and> card_count v i \<le> 3"
proof -
  assume "valid_id n i"
  then have "rank i \<in> {1, 2, 3, 4, 5}"
    using rank_cases [of "rank i"] by (auto simp: valid_id_def max_stack_rank_def)
  then have "[3, 2, 2, 2, 1] ! nat (rank i - 1) \<in> {1, 2, 3 :: int}" by auto
  with \<open>valid_id n i\<close> show ?thesis by (auto simp: card_count_def valid_id_def)
qed

lemma digits_rank: "1 \<le> r \<Longrightarrow> r \<le> 5 \<Longrightarrow> int_string r = [char_of (48 + nat r)]"
proof -
  assume "1 \<le> r" "r \<le> 5"
  then have "nat r < 10" by arith
  then have "digits (nat r) = [char_of (48 + nat r)]" by (subst digits.simps) simp
  with \<open>1 \<le> r\<close> show ?thesis by (simp add: int_string_def)
qed

lemma digit_inj:
  "1 \<le> r \<Longrightarrow> r \<le> 5 \<Longrightarrow> 1 \<le> q \<Longrightarrow> q \<le> 5 \<Longrightarrow>
    (char_of (48 + nat r) :: char) = char_of (48 + nat q) \<Longrightarrow> r = q"
  using rank_cases [of r] rank_cases [of q] by auto

text \<open>The hash separates the identities.\<close>

lemma log_id_inj:
  assumes v: "wf_variant v" and i: "valid_id (num_ids v) i" and j: "valid_id (num_ids v) j"
  shows "log_id v i = log_id v j \<longleftrightarrow> raw i = raw j"
proof
  assume h: "log_id v i = log_id v j"
  have s: "nat (suit_index i) < length (short_forms v)" "nat (suit_index j) < length (short_forms v)"
    using i j v by (auto simp: valid_id_def wf_variant_def)
  then have len: "length (short_forms v ! nat (suit_index i)) = 1" "length (short_forms v ! nat (suit_index j)) = 1"
    using v by (auto simp: wf_variant_def list_all_length)
  have "short_forms v ! nat (suit_index i) @ [char_of (48 + nat (rank i))]
      = short_forms v ! nat (suit_index j) @ [char_of (48 + nat (rank j))]"
    using h i j v by (auto simp: log_id_def get_def valid_id_def wf_variant_def max_stack_rank_def digits_rank)
  then have "short_forms v ! nat (suit_index i) = short_forms v ! nat (suit_index j)"
    and r: "(char_of (48 + nat (rank i)) :: char) = char_of (48 + nat (rank j))"
    by auto
  with s v have "nat (suit_index i) = nat (suit_index j)"
    by (auto simp: wf_variant_def nth_eq_iff_index_eq)
  moreover have "rank i = rank j"
    using r i j by (intro digit_inj) (auto simp: valid_id_def max_stack_rank_def)
  ultimately show "raw i = raw j" using i j by (auto simp: valid_id_def raw_eq_iff)
next
  assume "raw i = raw j"
  then have "suit_index i = suit_index j" "rank i = rank j" by (simp_all add: raw_eq_iff)
  then show "log_id v i = log_id v j" by (simp add: log_id_def)
qed

end
