(* ===== verification/Cards.thy ===== *)
theory Cards
  imports Suit_Variants
begin

text \<open>
  \<open>src/src/basics/Card.js\<close>: an actual card extends an identity, a card (what a player thinks of a card)
  extends an actual card. The class hierarchy is the record hierarchy, so that an operation on
  identities applies to all three. A draft passed to \<open>produce\<close> is the list of its field writes
  (\<open>card_write\<close>); the patches a listener sees are the recorded writes (\<open>src/src/StateProxy.js\<close>).
\<close>

section \<open>Actual cards\<close>

record card_clue = base_clue +
  clue_giver :: nat
  clue_turn :: int

record actual_card = basic_card +
  order :: nat
  drawn_index :: int
  clued :: bool
  newly_clued :: bool
  clues :: "card_clue list"

definition new_actual :: "int \<Rightarrow> int \<Rightarrow> nat \<Rightarrow> int \<Rightarrow> actual_card" where
  "new_actual s r ord drawn =
     \<lparr>suit_index = s, rank = r, order = ord, drawn_index = drawn,
      clued = False, newly_clued = False, clues = []\<rparr>"

text \<open>The option of \<open>matches\<close> for a card of unknown identity; an absent option is \<open>None\<close>.\<close>

definition actual_matches :: "bool option \<Rightarrow> 'a actual_card_scheme \<Rightarrow> 'b basic_card_scheme \<Rightarrow> bool" where
  "actual_matches assume_opt c i =
     (if basic_identity c = None then (case assume_opt of Some b \<Rightarrow> b | None \<Rightarrow> False)
      else suit_index c = suit_index i \<and> rank c = rank i)"

definition actual_duplicate_of :: "'a actual_card_scheme \<Rightarrow> 'b actual_card_scheme \<Rightarrow> bool" where
  "actual_duplicate_of c d \<longleftrightarrow> actual_matches None c d \<and> order c \<noteq> order d"

section \<open>Cards\<close>

datatype card_status =
  CLUED | FINESSED | BLUFFED | MAYBE_F | MAYBE_BLUFFED | F_MAYBE_BLUFF | CM | CALLED_TO_PLAY |
  CALLED_TO_DC | GD

record first_touch =
  ft_giver :: nat
  ft_turn :: int

record card = actual_card +
  possible :: iset
  inferred :: iset
  finesse_ids :: "iset option"
  rewind_ids :: "iset option"
  old_inferred :: "iset option"
  old_possible :: "iset option"
  info_lock :: "iset option"
  status :: "card_status option"
  last_status :: "card_status option"
  focused :: bool
  reset :: bool
  chop_when_first_clued :: bool
  superposition :: bool
  hidden :: bool
  permission_to_discard :: bool
  certain_finessed :: bool
  assume_playable :: bool
  maybe_layered :: bool
  trash :: bool
  uncertain :: bool
  known :: bool
  first_touch :: "first_touch option"
  finesse_index :: int
  reasoning_turn :: "int list"
  rewinded :: bool

definition new_card :: "int \<Rightarrow> int \<Rightarrow> iset \<Rightarrow> iset \<Rightarrow> nat \<Rightarrow> int \<Rightarrow> card" where
  "new_card s r poss infd ord drawn =
     \<lparr>suit_index = s, rank = r, order = ord, drawn_index = drawn,
      clued = False, newly_clued = False, clues = [],
      possible = poss, inferred = infd, finesse_ids = None, rewind_ids = None,
      old_inferred = None, old_possible = None, info_lock = None,
      status = None, last_status = None,
      focused = False, reset = False, chop_when_first_clued = False, superposition = False,
      hidden = False, permission_to_discard = False, certain_finessed = False,
      assume_playable = False, maybe_layered = False, trash = False, uncertain = False,
      known = False, first_touch = None, finesse_index = -1, reasoning_turn = [],
      rewinded = False\<rparr>"

definition possibilities :: "card \<Rightarrow> iset" where
  "possibilities c = (if iset_length (inferred c) = 0 then possible c else inferred c)"

definition touched :: "card \<Rightarrow> bool" where
  "touched c \<longleftrightarrow> known c \<or>
     status c \<in> {Some CLUED, Some FINESSED, Some BLUFFED, Some F_MAYBE_BLUFF, Some CALLED_TO_PLAY, Some GD}"

definition saved :: "card \<Rightarrow> bool" where
  "saved c \<longleftrightarrow> touched c \<or> status c = Some CM"

definition blind_playing :: "card \<Rightarrow> bool" where
  "blind_playing c \<longleftrightarrow> status c \<in> {Some FINESSED, Some BLUFFED, Some CALLED_TO_PLAY}"

definition update_status :: "card_status option \<Rightarrow> card \<Rightarrow> card" where
  "update_status s c = c\<lparr>last_status := status c, status := s\<rparr>"

definition revert_status :: "card \<Rightarrow> card" where
  "revert_status c =
     (if clued c then c\<lparr>status := Some CLUED, last_status := None\<rparr>
      else c\<lparr>status := last_status c, last_status := None\<rparr>)"

section \<open>Identification\<close>

text \<open>\<open>MatchOptions\<close>: an absent option is \<open>None\<close>, and an option is on when it is \<open>Some True\<close>.\<close>

record match_options =
  o_infer :: "bool option"
  o_symmetric :: "bool option"
  o_assume :: "bool option"

definition no_opts :: match_options where
  "no_opts = \<lparr>o_infer = None, o_symmetric = None, o_assume = None\<rparr>"

abbreviation infer_opts :: match_options where
  "infer_opts \<equiv> no_opts\<lparr>o_infer := Some True\<rparr>"

abbreviation sym_opts :: "bool \<Rightarrow> match_options" where
  "sym_opts b \<equiv> no_opts\<lparr>o_symmetric := Some b\<rparr>"

definition single :: "iset option \<Rightarrow> bool" where
  "single s \<longleftrightarrow> (case s of Some t \<Rightarrow> iset_length t = 1 | None \<Rightarrow> False)"

definition first_id :: "iset option \<Rightarrow> basic_card option" where
  "first_id s = (case s of Some t \<Rightarrow> get (iset_array t) 0 | None \<Rightarrow> None)"

definition identity :: "match_options \<Rightarrow> card \<Rightarrow> basic_card option" where
  "identity opts c =
     (let symmetric = (o_symmetric opts = Some True); infer = (o_infer opts = Some True) in
      if iset_length (possible c) = 1 then first_id (Some (possible c))
      else if suit_index c \<noteq> -1 \<and> rank c \<noteq> -1 \<and> \<not> symmetric then Some (raw c)
      else if single (rewind_ids c) \<and> \<not> symmetric then first_id (rewind_ids c)
      else if infer \<and> single (info_lock c) then first_id (info_lock c)
      else if infer \<and> iset_length (inferred c) = 1 then first_id (Some (inferred c))
      else None)"

definition matches :: "match_options \<Rightarrow> card \<Rightarrow> 'b basic_card_scheme \<Rightarrow> bool" where
  "matches opts c i =
     (case identity opts c of
        None \<Rightarrow> o_assume opts = Some True
      | Some d \<Rightarrow> suit_index d = suit_index i \<and> rank d = rank i)"

definition duplicate_of :: "match_options \<Rightarrow> card \<Rightarrow> 'b actual_card_scheme \<Rightarrow> bool" where
  "duplicate_of opts c d \<longleftrightarrow> matches opts c d \<and> order c \<noteq> order d"

text \<open>\<open>logCard\<close> on a card whose suit may be unknown.\<close>

definition log_card :: "suit_variant \<Rightarrow> card \<Rightarrow> string" where
  "log_card v c =
     (if suit_index c \<noteq> -1 then log_id v c
      else if iset_length (possible c) = 1 then
        (case first_id (Some (possible c)) of Some i \<Rightarrow> log_id v i @ '' (known)'' | None \<Rightarrow> [])
      else if iset_length (inferred c) = 1 then
        (case first_id (Some (inferred c)) of Some i \<Rightarrow> log_id v i @ '' (inferred)'' | None \<Rightarrow> [])
      else ''xx'')"

fun join_with :: "string \<Rightarrow> string list \<Rightarrow> string" where
  "join_with sep [] = []"
| "join_with sep [x] = x"
| "join_with sep (x # y # zs) = x @ sep @ join_with sep (y # zs)"

definition get_note :: "suit_variant \<Rightarrow> card \<Rightarrow> string" where
  "get_note v c =
     (let note =
        (if iset_length (inferred c) = 0 then ''??''
         else if iset_length (inferred c) \<le> 6 then
           join_with '','' (map (log_id v) (iset_array (inferred c)))
         else ''...'')
      in case status c of
           Some FINESSED \<Rightarrow> ''[f] ['' @ note @ '']''
         | Some BLUFFED \<Rightarrow> ''[f] ['' @ note @ '']''
         | Some CALLED_TO_PLAY \<Rightarrow> ''[f] ['' @ note @ '']''
         | Some GD \<Rightarrow> ''[gd] ['' @ note @ '']''
         | Some CM \<Rightarrow> ''[cm] ['' @ note @ '']''
         | Some CALLED_TO_DC \<Rightarrow> ''dc''
         | _ \<Rightarrow> note)"

section \<open>Resetting inferences\<close>

definition broke_info_lock :: "card \<Rightarrow> bool" where
  "broke_info_lock c \<longleftrightarrow>
     (case info_lock c of
        None \<Rightarrow> False
      | Some l \<Rightarrow> iset_length (iset_intersect l (ASet (possible c))) = 0)"

definition reset_inferences :: "card \<Rightarrow> card" where
  "reset_inferences c =
     (let broke = broke_info_lock c;
          d = c\<lparr>reset := True, known := False\<rparr>;
          d = (if broke then d\<lparr>info_lock := None\<rparr> else d)
      in if status d = Some FINESSED then
           (let d = (revert_status d)\<lparr>hidden := False\<rparr>
            in case (if broke then None else info_lock c) of
                 Some l \<Rightarrow> d\<lparr>inferred := l\<rparr>
               | None \<Rightarrow>
                   (case old_inferred d of
                      Some old \<Rightarrow> d\<lparr>inferred := iset_intersect old (ASet (possible c))\<rparr>
                    | None \<Rightarrow> d\<lparr>inferred := possible c\<rparr>))
         else if \<not> broke then
           (let new_inferred =
              (case info_lock d of
                 Some l \<Rightarrow> iset_intersect l (ASet (possible c))
               | None \<Rightarrow> possible c)
            in d\<lparr>info_lock := Some new_inferred, inferred := new_inferred\<rparr>)
         else d\<lparr>inferred := possible c\<rparr>)"

section \<open>Drafts and patches\<close>

text \<open>
  The writes a producer makes to the draft of a card. Setting a property of an unmodified proxy
  to the value it has is not a modification; after the first modification every write is
  recorded. A pushed array and a new identity set are fresh objects, never equal to the old ones.
\<close>

datatype card_write =
  W_suit_index int | W_rank int | W_clued bool | W_newly_clued bool | W_clues "card_clue list" |
  W_possible iset | W_inferred iset | W_old_possible iset | W_old_inferred iset |
  W_status "card_status option" | W_last_status "card_status option" | W_superposition bool |
  W_first_touch first_touch | W_reasoning_turn "int list" | W_rewinded bool |
  W_no_old_inferred | W_finesse_ids "iset option" | W_info_lock "iset option" | W_focused bool | W_reset bool |
  W_chop_when_first_clued bool | W_hidden bool | W_permission_to_discard bool | W_certain_finessed bool |
  W_assume_playable bool | W_maybe_layered bool | W_trash bool | W_uncertain bool | W_known bool | W_finesse_index int

fun apply_write :: "card_write \<Rightarrow> card \<Rightarrow> card" where
  "apply_write (W_suit_index x) c = c\<lparr>suit_index := x\<rparr>"
| "apply_write (W_rank x) c = c\<lparr>rank := x\<rparr>"
| "apply_write (W_clued x) c = c\<lparr>clued := x\<rparr>"
| "apply_write (W_newly_clued x) c = c\<lparr>newly_clued := x\<rparr>"
| "apply_write (W_clues x) c = c\<lparr>clues := x\<rparr>"
| "apply_write (W_possible x) c = c\<lparr>possible := x\<rparr>"
| "apply_write (W_inferred x) c = c\<lparr>inferred := x\<rparr>"
| "apply_write (W_old_possible x) c = c\<lparr>old_possible := Some x\<rparr>"
| "apply_write (W_old_inferred x) c = c\<lparr>old_inferred := Some x\<rparr>"
| "apply_write (W_status x) c = c\<lparr>status := x\<rparr>"
| "apply_write (W_last_status x) c = c\<lparr>last_status := x\<rparr>"
| "apply_write (W_superposition x) c = c\<lparr>superposition := x\<rparr>"
| "apply_write (W_first_touch x) c = c\<lparr>first_touch := Some x\<rparr>"
| "apply_write (W_reasoning_turn x) c = c\<lparr>reasoning_turn := x\<rparr>"
| "apply_write (W_rewinded x) c = c\<lparr>rewinded := x\<rparr>"
| "apply_write W_no_old_inferred c = c\<lparr>old_inferred := None\<rparr>"
| "apply_write (W_finesse_ids x) c = c\<lparr>finesse_ids := x\<rparr>"
| "apply_write (W_info_lock x) c = c\<lparr>info_lock := x\<rparr>"
| "apply_write (W_focused x) c = c\<lparr>focused := x\<rparr>"
| "apply_write (W_reset x) c = c\<lparr>reset := x\<rparr>"
| "apply_write (W_chop_when_first_clued x) c = c\<lparr>chop_when_first_clued := x\<rparr>"
| "apply_write (W_hidden x) c = c\<lparr>hidden := x\<rparr>"
| "apply_write (W_permission_to_discard x) c = c\<lparr>permission_to_discard := x\<rparr>"
| "apply_write (W_certain_finessed x) c = c\<lparr>certain_finessed := x\<rparr>"
| "apply_write (W_assume_playable x) c = c\<lparr>assume_playable := x\<rparr>"
| "apply_write (W_maybe_layered x) c = c\<lparr>maybe_layered := x\<rparr>"
| "apply_write (W_trash x) c = c\<lparr>trash := x\<rparr>"
| "apply_write (W_uncertain x) c = c\<lparr>uncertain := x\<rparr>"
| "apply_write (W_known x) c = c\<lparr>known := x\<rparr>"
| "apply_write (W_finesse_index x) c = c\<lparr>finesse_index := x\<rparr>"

fun is_change :: "card \<Rightarrow> card_write \<Rightarrow> bool" where
  "is_change c (W_suit_index x) = (suit_index c \<noteq> x)"
| "is_change c (W_rank x) = (rank c \<noteq> x)"
| "is_change c (W_clued x) = (clued c \<noteq> x)"
| "is_change c (W_newly_clued x) = (newly_clued c \<noteq> x)"
| "is_change c (W_status x) = (status c \<noteq> x)"
| "is_change c (W_last_status x) = (last_status c \<noteq> x)"
| "is_change c (W_superposition x) = (superposition c \<noteq> x)"
| "is_change c (W_rewinded x) = (rewinded c \<noteq> x)"
| "is_change c W_no_old_inferred = (old_inferred c \<noteq> None)"
| "is_change c (W_focused x) = (focused c \<noteq> x)"
| "is_change c (W_reset x) = (reset c \<noteq> x)"
| "is_change c (W_chop_when_first_clued x) = (chop_when_first_clued c \<noteq> x)"
| "is_change c (W_hidden x) = (hidden c \<noteq> x)"
| "is_change c (W_permission_to_discard x) = (permission_to_discard c \<noteq> x)"
| "is_change c (W_certain_finessed x) = (certain_finessed c \<noteq> x)"
| "is_change c (W_assume_playable x) = (assume_playable c \<noteq> x)"
| "is_change c (W_maybe_layered x) = (maybe_layered c \<noteq> x)"
| "is_change c (W_trash x) = (trash c \<noteq> x)"
| "is_change c (W_uncertain x) = (uncertain c \<noteq> x)"
| "is_change c (W_known x) = (known c \<noteq> x)"
| "is_change c (W_finesse_index x) = (finesse_index c \<noteq> x)"
| "is_change c _ = True"

definition recorded :: "card \<Rightarrow> card_write list \<Rightarrow> card_write list" where
  "recorded c ws = dropWhile (\<lambda>w. \<not> is_change c w) ws"

definition apply_patches :: "card \<Rightarrow> card_write list \<Rightarrow> card" where
  "apply_patches c ps = fold apply_write ps c"

definition produce_card :: "card \<Rightarrow> card_write list \<Rightarrow> card \<times> card_write list" where
  "produce_card c ws = (let ps = recorded c ws in (apply_patches c ps, ps))"

fun is_info :: "card_write \<Rightarrow> bool" where
  "is_info (W_possible _) = True"
| "is_info (W_inferred _) = True"
| "is_info _ = False"

section \<open>Facts\<close>

definition opt_ok :: "nat \<Rightarrow> iset option \<Rightarrow> bool" where
  "opt_ok n s \<longleftrightarrow> (case s of None \<Rightarrow> True | Some t \<Rightarrow> iset_ok n t)"

text \<open>A card of a game with \<open>n\<close> suits: its sets are sets over these suits, its identity is unknown
  or one of the deck.\<close>

definition card_ok :: "nat \<Rightarrow> card \<Rightarrow> bool" where
  "card_ok n c \<longleftrightarrow> iset_ok n (possible c) \<and> iset_ok n (inferred c) \<and>
     opt_ok n (rewind_ids c) \<and> opt_ok n (info_lock c) \<and> opt_ok n (old_inferred c) \<and>
     (suit_index c \<noteq> -1 \<and> rank c \<noteq> -1 \<longrightarrow> valid_id n c)"

lemma opt_ok_simps [simp]: "opt_ok n None" "opt_ok n (Some t) = iset_ok n t"
  by (simp_all add: opt_ok_def)

lemma card_okD:
  assumes "card_ok n c"
  shows "iset_ok n (possible c)" "iset_ok n (inferred c)" "opt_ok n (rewind_ids c)"
    "opt_ok n (info_lock c)" "opt_ok n (old_inferred c)"
    "suit_index c \<noteq> -1 \<Longrightarrow> rank c \<noteq> -1 \<Longrightarrow> valid_id n c"
  using assms by (simp_all add: card_ok_def)

lemma get_Nil [simp]: "get [] i = None"
  by (simp add: get_def)

lemma get_Cons_0 [simp]: "get (x # xs) 0 = Some x"
  by (simp add: get_def)

lemma first_id_single:
  assumes "iset_ok n s" "iset_length s = 1"
  obtains i where "first_id (Some s) = Some i" "valid_id n i" "iset_has s i" "iset_array s = [i]"
  using idset.size_one [OF assms] by (auto simp: first_id_def)

lemma single_ok:
  "single s \<Longrightarrow> opt_ok n s \<Longrightarrow> \<exists>t i. s = Some t \<and> first_id s = Some i \<and> valid_id n i \<and> iset_has t i"
  by (auto simp: single_def split: option.splits elim!: first_id_single)

lemma identity_valid: "card_ok n c \<Longrightarrow> identity opts c = Some i \<Longrightarrow> valid_id n i"
  by (auto simp: identity_def Let_def card_okD split: if_splits elim!: first_id_single
      dest!: single_ok [where n = n] dest: card_okD)

lemma identity_possible_single:
  "card_ok n c \<Longrightarrow> iset_length (possible c) = 1 \<Longrightarrow> \<exists>i. identity opts c = Some i \<and> iset_array (possible c) = [i]"
  by (auto simp: identity_def elim!: first_id_single dest: card_okD)

text \<open>Without asymmetric information and without inferences only the possibilities identify a card.\<close>

lemma identity_symmetric: "identity (sym_opts True) c = Some i \<Longrightarrow> iset_length (possible c) = 1"
  by (auto simp: identity_def no_opts_def split: if_splits)

lemma matches_identity: "matches no_opts c i \<longleftrightarrow> (\<exists>d. identity no_opts c = Some d \<and> raw d = raw i)"
  by (auto simp: matches_def no_opts_def raw_eq_iff split: option.splits)

lemma reset_inferences_frame [simp]:
  "possible (reset_inferences c) = possible c" "suit_index (reset_inferences c) = suit_index c"
  "rank (reset_inferences c) = rank c" "order (reset_inferences c) = order c"
  "clued (reset_inferences c) = clued c" "newly_clued (reset_inferences c) = newly_clued c"
  "clues (reset_inferences c) = clues c" "rewind_ids (reset_inferences c) = rewind_ids c"
  "old_inferred (reset_inferences c) = old_inferred c" "old_possible (reset_inferences c) = old_possible c"
  "drawn_index (reset_inferences c) = drawn_index c" "first_touch (reset_inferences c) = first_touch c"
  "reset (reset_inferences c) = True" "known (reset_inferences c) = False"
  "focused (reset_inferences c) = focused c" "trash (reset_inferences c) = trash c"
  by (auto simp: reset_inferences_def Let_def revert_status_def split: option.splits)

lemma reset_inferences_ok: "card_ok n c \<Longrightarrow> card_ok n (reset_inferences c)"
  by (auto simp: card_ok_def reset_inferences_def Let_def revert_status_def valid_id_def
      split: option.splits)

lemma fold_apply_write_noop: "\<not> is_change c w \<Longrightarrow> apply_write w c = c"
  by (cases w) auto

text \<open>What a producer writes is what the caller gets, and the patches replay it.\<close>

lemma produce_card_writes: "fst (produce_card c ws) = fold apply_write ws c"
proof -
  have "fold apply_write (recorded c ws) c = fold apply_write ws c"
    by (induction ws) (auto simp: recorded_def fold_apply_write_noop)
  then show ?thesis by (simp add: produce_card_def apply_patches_def)
qed

lemma produce_card_patches: "apply_patches c (snd (produce_card c ws)) = fst (produce_card c ws)"
  by (simp add: produce_card_def Let_def)

end
