(* ===== verification/Game_State.thy ===== *)
theory Game_State
  imports Cards
begin

text \<open>
  \<open>src/src/basics/State.js\<close> (the objective state of a game: stacks, hands, deck, tokens) and the actions
  of \<open>src/src/basics/Action.ts\<close> that the game handles. Suit indices and ranks index the stacks
  after \<open>nat\<close>; an order with no card in the deck is \<open>None\<close> for \<open>slot\<close>, and the accessor \<open>deck_at\<close>
  is only meant for orders that have been drawn, where the code would otherwise throw.
\<close>

section \<open>Actions\<close>

record clue_action =
  ca_giver :: nat
  ca_target :: nat
  ca_list :: "nat list"
  ca_clue :: base_clue
  ca_mistake :: bool
  ca_lock :: bool
  ca_important :: bool
  ca_hypothetical :: bool

record card_action =
  act_order :: nat
  act_player :: nat
  act_suit :: int
  act_rank :: int

datatype action =
  StatusAction int int int
| TurnAction int nat
| ClueAction clue_action
| DrawAction card_action
| PlayAction card_action
| DiscardAction card_action bool bool
| GameOverAction int nat
| IdentifyAction nat nat "basic_card list" bool
| IgnoreAction nat nat "basic_card option"
| FinesseAction "nat list" base_clue

text \<open>\<open>PerformAction\<close>: what a player does, with the order or the player it targets (\<open>-1\<close> stands for
  any clue in the endgame search).\<close>

datatype perform =
  P_Play int
| P_Discard int
| P_Colour int int
| P_Rank int int
| P_EndGame int int

section \<open>The state\<close>

datatype discard_state = Shout | Scream | Gen

record table_options =
  one_less_card :: bool
  one_extra_card :: bool
  speedrun :: bool

record game_state =
  turn_count :: int
  clue_tokens :: int
  strikes :: int
  early_game :: bool
  discard_state :: "discard_state option"
  dda :: "basic_card option"
  hands :: "nat list list"
  deck :: "actual_card option list"
  action_list :: "action list option list"
  play_stacks :: "int list"
  discard_stacks :: "int list list"
  max_ranks :: "int list"
  card_counts :: "int list list"
  cards_left :: int
  base_ids :: iset
  all_ids :: iset
  current_player :: nat
  card_order :: int
  endgame_turns :: int
  num_players :: nat
  our_player :: nat
  variant :: suit_variant
  options :: table_options

definition count_table :: "suit_variant \<Rightarrow> int list list" where
  "count_table v =
     map (\<lambda>s. map (\<lambda>r. card_count v (mk_id (int s) r)) [1, 2, 3, 4, 5]) [0..<num_ids v]"

definition new_state :: "nat \<Rightarrow> nat \<Rightarrow> suit_variant \<Rightarrow> table_options \<Rightarrow> game_state" where
  "new_state players us v opts =
     \<lparr>turn_count = 0, clue_tokens = 8, strikes = 0, early_game = True,
      discard_state = None, dda = None,
      hands = replicate players [], deck = [], action_list = [],
      play_stacks = replicate (num_ids v) 0,
      discard_stacks = replicate (num_ids v) [0, 0, 0, 0, 0],
      max_ranks = replicate (num_ids v) 5,
      card_counts = count_table v,
      cards_left = sum_list (map sum_list (count_table v)),
      base_ids = iset_empty (num_ids v), all_ids = iset_full (num_ids v),
      current_player = 0, card_order = -1, endgame_turns = -1,
      num_players = players, our_player = us, variant = v, options = opts\<rparr>"

definition our_hand :: "game_state \<Rightarrow> nat list" where
  "our_hand s = hands s ! our_player s"

text \<open>\<open>HAND_SIZE\<close> of \<open>src/src/constants.js\<close>.\<close>

definition hand_size_table :: "int list" where
  "hand_size_table = [-1, -1, 5, 5, 4, 4, 3]"

definition hand_size :: "game_state \<Rightarrow> int" where
  "hand_size s = hand_size_table ! num_players s +
     (if one_less_card (options s) then -1 else if one_extra_card (options s) then 1 else 0)"

definition score :: "game_state \<Rightarrow> int" where
  "score s = sum_list (play_stacks s)"

definition max_score :: "game_state \<Rightarrow> int" where
  "max_score s = sum_list (max_ranks s)"

definition pace :: "game_state \<Rightarrow> int" where
  "pace s = score s + cards_left s + int (num_players s) - max_score s"

definition ended :: "game_state \<Rightarrow> bool" where
  "ended s \<longleftrightarrow> endgame_turns s = 0"

definition next_player :: "game_state \<Rightarrow> nat \<Rightarrow> nat" where
  "next_player s i = (i + 1) mod num_players s"

definition last_player :: "game_state \<Rightarrow> nat \<Rightarrow> nat" where
  "last_player s i = (i + num_players s - 1) mod num_players s"

definition in_endgame :: "game_state \<Rightarrow> bool" where
  "in_endgame s \<longleftrightarrow> pace s < int (num_players s)"

definition create_blank :: "game_state \<Rightarrow> game_state" where
  "create_blank s = new_state (num_players s) (our_player s) (variant s) (options s)"

text \<open>\<open>minimalCopy\<close> starts from a new state and copies all but the tables of the variant.\<close>

definition minimal_copy :: "game_state \<Rightarrow> game_state" where
  "minimal_copy s =
     (new_state (num_players s) (our_player s) (variant s) (options s))
       \<lparr>turn_count := turn_count s, clue_tokens := clue_tokens s, strikes := strikes s,
        early_game := early_game s, discard_state := discard_state s, dda := dda s,
        hands := hands s, deck := deck s, action_list := action_list s,
        play_stacks := play_stacks s, discard_stacks := discard_stacks s, max_ranks := max_ranks s,
        current_player := current_player s, card_order := card_order s, cards_left := cards_left s,
        endgame_turns := endgame_turns s\<rparr>"

section \<open>Identities on the stacks\<close>

abbreviation unknown_id :: "'a basic_card_scheme \<Rightarrow> bool" where
  "unknown_id i \<equiv> suit_index i = -1 \<or> rank i = -1"

definition stack_of :: "game_state \<Rightarrow> 'a basic_card_scheme \<Rightarrow> int" where
  "stack_of s i = play_stacks s ! nat (suit_index i)"

definition max_rank_of :: "game_state \<Rightarrow> 'a basic_card_scheme \<Rightarrow> int" where
  "max_rank_of s i = max_ranks s ! nat (suit_index i)"

definition discards_of :: "game_state \<Rightarrow> 'a basic_card_scheme \<Rightarrow> int" where
  "discards_of s i = discard_stacks s ! nat (suit_index i) ! nat (rank i - 1)"

definition base_count :: "game_state \<Rightarrow> 'a basic_card_scheme \<Rightarrow> int" where
  "base_count s i =
     (if unknown_id i then 0 else (if stack_of s i \<ge> rank i then 1 else 0) + discards_of s i)"

definition total_count :: "game_state \<Rightarrow> 'a basic_card_scheme \<Rightarrow> int" where
  "total_count s i =
     (if unknown_id i then 4 else card_counts s ! nat (suit_index i) ! nat (rank i - 1))"

definition is_basic_trash :: "game_state \<Rightarrow> 'a basic_card_scheme \<Rightarrow> bool" where
  "is_basic_trash s i \<longleftrightarrow>
     (if unknown_id i then False else rank i \<le> stack_of s i \<or> rank i > max_rank_of s i)"

definition is_critical :: "game_state \<Rightarrow> 'a basic_card_scheme \<Rightarrow> bool" where
  "is_critical s i \<longleftrightarrow>
     (if unknown_id i then False
      else \<not> is_basic_trash s i \<and> discards_of s i = card_count (variant s) i - 1)"

definition playable_away :: "game_state \<Rightarrow> 'a basic_card_scheme \<Rightarrow> int" where
  "playable_away s i = (if unknown_id i then 5 else rank i - (stack_of s i + 1))"

definition is_playable :: "game_state \<Rightarrow> 'a basic_card_scheme \<Rightarrow> bool" where
  "is_playable s i \<longleftrightarrow> playable_away s i = 0"

definition in_starting_hand :: "game_state \<Rightarrow> nat \<Rightarrow> bool" where
  "in_starting_hand s ord \<longleftrightarrow> int ord < int (num_players s) * hand_size s"

section \<open>Cards of the deck\<close>

definition deck_at :: "game_state \<Rightarrow> nat \<Rightarrow> actual_card" where
  "deck_at s ord = the (slot (deck s) ord)"

definition deck_id :: "game_state \<Rightarrow> nat \<Rightarrow> basic_card option" where
  "deck_id s ord = basic_identity (deck_at s ord)"

definition clue_touched :: "game_state \<Rightarrow> nat list \<Rightarrow> 'b base_clue_scheme \<Rightarrow> nat list" where
  "clue_touched s orders cl =
     filter (\<lambda>ord. deck_id s ord \<noteq> None \<and> card_touched (deck_at s ord) (variant s) cl) orders"

definition all_valid_clues :: "game_state \<Rightarrow> nat \<Rightarrow> clue list" where
  "all_valid_clues s target =
     (let v = variant s;
          ranks = filter (\<lambda>r. \<not> (special_rank v = Some r \<and>
              (no_clue_ranks v \<or> all_clue_ranks v \<or> deceptive v))) [1, 2, 3, 4, 5];
          cls = map (\<lambda>r. mk_clue RankClue r target) ranks @
            map (\<lambda>i. mk_clue ColourClue (int i) target) [0..<length (colourable_suits v)]
      in filter (\<lambda>cl. clue_touched s (hands s ! target) cl \<noteq> []) cls)"

definition has_consistent_inferences :: "game_state \<Rightarrow> card \<Rightarrow> bool" where
  "has_consistent_inferences s c =
     (case deck_id s (order c) of
        None \<Rightarrow> True
      | Some i \<Rightarrow> iset_length (possible c) = 1 \<or> iset_has (inferred c) i)"

definition includes_variant :: "game_state \<Rightarrow> string list \<Rightarrow> bool" where
  "includes_variant s re = list_ex (regex_test re) (suits (variant s))"

text \<open>\<open>expandShort\<close>: the suit of the first letter (\<open>indexOf\<close>, \<open>-1\<close> when there is none) and the digit
  that follows; a digit that is not a number, or is 0, gives rank \<open>-1\<close>. The check of the code for
  an index of \<open>-2\<close> never succeeds.\<close>

definition expand_short :: "game_state \<Rightarrow> string \<Rightarrow> basic_card" where
  "expand_short s short =
     (let suit = (case short of [] \<Rightarrow> -1 | ch # _ \<Rightarrow> index_of (short_forms (variant s)) [ch]);
          r = (case short of _ # d # _ \<Rightarrow>
                 (let k = int (of_char d :: nat) - 48 in if 1 \<le> k \<and> k \<le> 9 then k else -1)
               | _ \<Rightarrow> -1)
      in mk_id suit r)"

section \<open>Well-formed states\<close>

text \<open>
  The tables have one row per suit and five columns, the stacks and the maximal ranks are ranks or
  0, a stack does not pass its maximal rank, and no identity has more copies gone than the deck has.
\<close>

abbreviation n_suits :: "game_state \<Rightarrow> nat" where
  "n_suits s \<equiv> num_ids (variant s)"

abbreviation in_deck :: "game_state \<Rightarrow> 'a basic_card_scheme \<Rightarrow> bool" where
  "in_deck s i \<equiv> valid_id (n_suits s) i"

definition tables_ok :: "game_state \<Rightarrow> bool" where
  "tables_ok s \<longleftrightarrow>
     wf_variant (variant s) \<and> card_counts s = count_table (variant s) \<and>
     base_ids s = iset_empty (n_suits s) \<and> all_ids s = iset_full (n_suits s) \<and>
     length (play_stacks s) = n_suits s \<and> length (max_ranks s) = n_suits s \<and>
     length (discard_stacks s) = n_suits s \<and> list_all (\<lambda>row. length row = 5) (discard_stacks s)"

definition stacks_ok :: "game_state \<Rightarrow> bool" where
  "stacks_ok s \<longleftrightarrow>
     list_all2 (\<lambda>p m. 0 \<le> p \<and> p \<le> m \<and> m \<le> 5) (play_stacks s) (max_ranks s) \<and>
     list_all (list_all (\<lambda>k. 0 \<le> k)) (discard_stacks s)"

lemma tables_okD:
  assumes "tables_ok s"
  shows "wf_variant (variant s)" "n_suits s \<le> 6" "base_ids s = iset_empty (n_suits s)"
    "all_ids s = iset_full (n_suits s)" "iset_ok (n_suits s) (base_ids s)"
    "iset_ok (n_suits s) (all_ids s)"
  using assms by (auto simp: tables_ok_def wf_variant_def iset_ok_new)

lemma raw_lookups [simp]:
  "stack_of s (raw c) = stack_of s c" "max_rank_of s (raw c) = max_rank_of s c"
  "discards_of s (raw c) = discards_of s c" "base_count s (raw c) = base_count s c"
  "total_count s (raw c) = total_count s c" "is_basic_trash s (raw c) = is_basic_trash s c"
  "is_critical s (raw c) = is_critical s c" "is_playable s (raw c) = is_playable s c"
  by (simp_all add: stack_of_def max_rank_of_def discards_of_def base_count_def total_count_def
      is_basic_trash_def is_critical_def is_playable_def playable_away_def)

lemma valid_known: "valid_id n i \<Longrightarrow> suit_index i \<noteq> -1 \<and> rank i \<noteq> -1"
  by (auto simp: valid_id_def)

lemma valid_nat:
  "valid_id n i \<Longrightarrow> nat (suit_index i) < n \<and> nat (rank i - 1) < 5 \<and> int (nat (rank i - 1)) = rank i - 1"
  by (auto simp: valid_id_def max_stack_rank_def)

lemma total_count_card_count:
  assumes "tables_ok s" "in_deck s i"
  shows "total_count s i = card_count (variant s) i"
proof -
  have "[1, 2, 3, 4, 5] ! nat (rank i - 1) = rank i"
    using assms(2) rank_cases [of "rank i"] by (auto simp: valid_id_def max_stack_rank_def)
  moreover have "mk_id (int (nat (suit_index i))) (rank i) = raw i"
    using assms(2) by (simp add: mk_id_def raw_def valid_id_def)
  moreover have "card_counts s ! nat (suit_index i)
      = map (\<lambda>r. card_count (variant s) (mk_id (int (nat (suit_index i))) r)) [1, 2, 3, 4, 5]"
    using assms valid_nat [OF assms(2)] by (simp add: tables_ok_def count_table_def)
  moreover have "map f [1, 2, 3, 4, 5] ! nat (rank i - 1) = f ([1, 2, 3, 4, 5] ! nat (rank i - 1))"
    for f :: "int \<Rightarrow> int"
    using valid_nat [OF assms(2)] by (intro nth_map) simp
  ultimately show ?thesis
    using valid_known [OF assms(2)] by (simp only: total_count_def card_count_raw if_False simp_thms)
qed

lemma total_count_range: "tables_ok s \<Longrightarrow> in_deck s i \<Longrightarrow> 1 \<le> total_count s i \<and> total_count s i \<le> 3"
  using card_count_range [of "n_suits s" i "variant s"] by (simp add: total_count_card_count)

lemma stack_bounds:
  assumes "tables_ok s" "stacks_ok s" "in_deck s i"
  shows "0 \<le> stack_of s i" "stack_of s i \<le> max_rank_of s i" "max_rank_of s i \<le> 5"
  using assms valid_nat [OF assms(3)]
  by (auto simp: tables_ok_def stacks_ok_def stack_of_def max_rank_of_def list_all2_conv_all_nth)

lemma score_le_max_score: "stacks_ok s \<Longrightarrow> 0 \<le> score s \<and> score s \<le> max_score s"
proof -
  assume "stacks_ok s"
  then have "list_all2 (\<lambda>p m. 0 \<le> p \<and> p \<le> m) (play_stacks s) (max_ranks s)"
    by (auto simp: stacks_ok_def elim: list_all2_mono)
  then have "0 \<le> sum_list (play_stacks s) \<and> sum_list (play_stacks s) \<le> sum_list (max_ranks s)"
    by (induction rule: list_all2_induct) auto
  then show ?thesis by (simp add: score_def max_score_def)
qed

text \<open>Of a critical identity one copy is left, and a playable one is trash only when it can
  never be reached.\<close>

lemma critical_last_copy:
  "tables_ok s \<Longrightarrow> in_deck s i \<Longrightarrow> is_critical s i \<Longrightarrow> total_count s i - base_count s i = 1"
  by (auto simp: is_critical_def base_count_def total_count_card_count is_basic_trash_def
      split: if_splits dest: valid_known)

lemma playable_trash_iff:
  "in_deck s i \<Longrightarrow> is_playable s i \<Longrightarrow> is_basic_trash s i \<longleftrightarrow> max_rank_of s i < rank i"
  by (auto simp: is_playable_def playable_away_def is_basic_trash_def dest: valid_known)

lemma new_state_ok:
  "wf_variant v \<Longrightarrow> tables_ok (new_state p u v opts) \<and> stacks_ok (new_state p u v opts)"
  by (auto simp: tables_ok_def stacks_ok_def new_state_def list_all2_conv_all_nth list_all_iff
      set_replicate_conv_if)

lemma minimal_copy_id: "tables_ok s \<Longrightarrow> minimal_copy s = s"
  by (simp add: minimal_copy_def new_state_def tables_ok_def)

end
