(* ===== verification/Utils.thy ===== *)
theory Utils
  imports Game_State "HOL-Library.AList" "HOL-Library.Multiset"
begin

text \<open>
  The pure helpers of \<open>src/src/tools/util.js\<close>: searches, grouping, combinations and permutations, the
  two insertions into maps of collections, and the conversion of a player's choice to an action.
\<close>

section \<open>Searches\<close>

definition range_list :: "nat \<Rightarrow> nat \<Rightarrow> nat list" where
  "range_list a b = map (\<lambda>k. k + a) [0..<b - a]"

text \<open>\<open>maxOn\<close> with a bound: the value must exceed it; the default bound is \<open>-Infinity\<close> (\<open>None\<close>).\<close>

fun max_with :: "('a \<Rightarrow> 'b::linorder) \<Rightarrow> 'a list \<Rightarrow> 'b option \<Rightarrow> 'a option \<Rightarrow> 'a option \<times> 'b option" where
  "max_with f [] bound best = (best, bound)"
| "max_with f (x # xs) bound best =
     (if (case bound of None \<Rightarrow> True | Some b \<Rightarrow> f x > b) then max_with f xs (Some (f x)) (Some x)
      else max_with f xs bound best)"

definition max_on :: "('a \<Rightarrow> 'b::linorder) \<Rightarrow> 'a list \<Rightarrow> 'b option \<Rightarrow> 'a option" where
  "max_on f xs bound = (if xs = [] then None else fst (max_with f xs bound None))"

definition find_indices :: "('a \<Rightarrow> bool) \<Rightarrow> 'a list \<Rightarrow> nat list" where
  "find_indices P xs = filter (\<lambda>i. P (xs ! i)) [0..<length xs]"

text \<open>The next index that satisfies the test, with wraparound; \<open>-1\<close> when there is none.\<close>

definition next_index :: "'a list \<Rightarrow> ('a \<Rightarrow> bool) \<Rightarrow> nat \<Rightarrow> int" where
  "next_index xs P start =
     (case List.find (\<lambda>offset. P (xs ! ((start + offset) mod length xs))) [1..<Suc (length xs)] of
        Some offset \<Rightarrow> int ((start + offset) mod length xs)
      | None \<Rightarrow> -1)"

definition clamp_between :: "int \<Rightarrow> int \<Rightarrow> int \<Rightarrow> int" where
  "clamp_between num lo hi = min hi (max num lo)"

section \<open>Grouping\<close>

text \<open>\<open>groupBy\<close>: the groups in the order of their first element (the keys of the program are never
  numeric strings, which JavaScript would sort to the front).\<close>

fun group_insert :: "'k \<Rightarrow> 'a \<Rightarrow> ('k \<times> 'a list) list \<Rightarrow> ('k \<times> 'a list) list" where
  "group_insert k x [] = [(k, [x])]"
| "group_insert k x ((k', g) # gs) = (if k = k' then (k', g @ [x]) # gs else (k', g) # group_insert k x gs)"

definition group_by :: "('a \<Rightarrow> 'k) \<Rightarrow> 'a list \<Rightarrow> ('k \<times> 'a list) list" where
  "group_by f xs = fold (\<lambda>x gs. group_insert (f x) x gs) xs []"

definition map_insert_arr :: "('k \<times> 'v list) list \<Rightarrow> 'k \<Rightarrow> 'v \<Rightarrow> ('k \<times> 'v list) list" where
  "map_insert_arr m k v =
     AList.update k (case map_of m k of Some xs \<Rightarrow> xs @ [v] | None \<Rightarrow> [v]) m"

definition map_insert_map ::
  "('k \<times> ('l \<times> 'v) list) list \<Rightarrow> 'k \<Rightarrow> 'l \<Rightarrow> 'v \<Rightarrow> ('k \<times> ('l \<times> 'v) list) list" where
  "map_insert_map m k l v =
     AList.update k (AList.update l v (case map_of m k of Some xs \<Rightarrow> xs | None \<Rightarrow> [])) m"

definition set_equals :: "'a list \<Rightarrow> 'a list \<Rightarrow> bool" where
  "set_equals xs ys \<longleftrightarrow> length xs = length ys \<and> list_all (\<lambda>x. x \<in> set ys) xs"

section \<open>Combinations\<close>

fun all_subsets_of_size :: "'a list \<Rightarrow> nat \<Rightarrow> 'a list list" where
  "all_subsets_of_size xs k =
     (if k > length xs \<or> xs = [] then []
      else if k = length xs then [xs]
      else if k = 1 then map (\<lambda>i. [i]) xs
      else map (\<lambda>sub. sub @ [hd xs]) (all_subsets_of_size (tl xs) (k - 1)) @
        all_subsets_of_size (tl xs) k)"

declare all_subsets_of_size.simps [simp del]

text \<open>\<open>toSpliced(i, 1)\<close>.\<close>

definition drop_nth :: "nat \<Rightarrow> 'a list \<Rightarrow> 'a list" where
  "drop_nth i xs = take i xs @ drop (Suc i) xs"

function permutations :: "'a list \<Rightarrow> 'a list list" where
  "permutations xs =
     (if length xs = 1 then [xs]
      else concat (map (\<lambda>i. map (\<lambda>sub. (xs ! i) # sub) (permutations (drop_nth i xs))) [0..<length xs]))"
  by pat_completeness auto
termination
  by (relation "measure length") (auto simp: drop_nth_def)

declare permutations.simps [simp del]

section \<open>Actions\<close>

definition clue_to_perform :: "clue \<Rightarrow> perform" where
  "clue_to_perform cl =
     (case clue_kind cl of
        ColourClue \<Rightarrow> P_Colour (int (clue_target cl)) (clue_value cl)
      | RankClue \<Rightarrow> P_Rank (int (clue_target cl)) (clue_value cl))"

definition clean_action :: "action \<Rightarrow> action" where
  "clean_action a =
     (case a of
        ClueAction c \<Rightarrow> ClueAction (c\<lparr>ca_mistake := False, ca_lock := False, ca_important := False,
          ca_hypothetical := False\<rparr>)
      | DiscardAction c failed intentional \<Rightarrow> DiscardAction c failed False
      | _ \<Rightarrow> a)"

text \<open>\<open>.sort()\<close> without a comparator orders numbers by their decimal strings.\<close>

fun string_le :: "string \<Rightarrow> string \<Rightarrow> bool" where
  "string_le [] ys = True"
| "string_le (x # xs) [] = False"
| "string_le (x # xs) (y # ys) =
     ((of_char x :: nat) < of_char y \<or> (x = y \<and> string_le xs ys))"

fun insert_order :: "nat \<Rightarrow> nat list \<Rightarrow> nat list" where
  "insert_order x [] = [x]"
| "insert_order x (y # ys) =
     (if string_le (digits x) (digits y) then x # y # ys else y # insert_order x ys)"

definition sort_orders :: "nat list \<Rightarrow> nat list" where
  "sort_orders xs = foldr insert_order xs []"

definition touched_list :: "game_state \<Rightarrow> (nat \<Rightarrow> 'a basic_card_scheme) \<Rightarrow> nat \<Rightarrow> base_clue \<Rightarrow> nat list" where
  "touched_list s ids target cl =
     sort_orders (filter (\<lambda>ord. card_touched (ids ord) (variant s) cl) (hands s ! target))"

definition clue_action_of :: "game_state \<Rightarrow> (nat \<Rightarrow> 'a basic_card_scheme) \<Rightarrow> nat \<Rightarrow> nat \<Rightarrow> base_clue \<Rightarrow> action" where
  "clue_action_of s ids giver target cl =
     ClueAction \<lparr>ca_giver = giver, ca_target = target, ca_list = touched_list s ids target cl,
       ca_clue = cl, ca_mistake = False, ca_lock = False, ca_important = False,
       ca_hypothetical = False\<rparr>"

definition perform_to_action ::
  "game_state \<Rightarrow> perform \<Rightarrow> nat \<Rightarrow> (nat \<Rightarrow> 'a basic_card_scheme) \<Rightarrow> action" where
  "perform_to_action s act i ids =
     (case act of
        P_Play t \<Rightarrow>
          (let d = ids (nat t);
               a = \<lparr>act_order = nat t, act_player = i, act_suit = suit_index d, act_rank = rank d\<rparr>
           in if get (play_stacks s) (suit_index d) = Some (rank d - 1) then PlayAction a
              else DiscardAction a True False)
      | P_Discard t \<Rightarrow>
          (let d = ids (nat t)
           in DiscardAction \<lparr>act_order = nat t, act_player = i, act_suit = suit_index d,
                act_rank = rank d\<rparr> False False)
      | P_Rank t v \<Rightarrow> clue_action_of s ids i (nat t) \<lparr>clue_kind = RankClue, clue_value = v\<rparr>
      | P_Colour t v \<Rightarrow> clue_action_of s ids i (nat t) \<lparr>clue_kind = ColourClue, clue_value = v\<rparr>
      | P_EndGame t v \<Rightarrow> GameOverAction v (nat t))"

section \<open>Facts\<close>

lemma max_with_best:
  assumes "max_with f xs bound best = (res, m)" and "best = None \<or> (\<exists>b. best = Some b \<and> bound = Some (f b))"
  shows "(\<forall>x\<in>set xs. \<exists>t. m = Some t \<and> f x \<le> t) \<and>
    (\<forall>b. bound = Some b \<longrightarrow> (\<exists>t. m = Some t \<and> b \<le> t)) \<and>
    (\<forall>r. res = Some r \<longrightarrow> m = Some (f r) \<and> (r \<in> set xs \<or> best = Some r))"
  using assms
proof (induction f xs bound best rule: max_with.induct)
  case (2 f x xs bound best)
  show ?case
  proof (cases "case bound of None \<Rightarrow> True | Some b \<Rightarrow> f x > b")
    case True
    with 2 show ?thesis by (auto split: option.splits)
  next
    case False
    then obtain b where "bound = Some b" "f x \<le> b" by (auto split: option.splits)
    with 2 False show ?thesis by fastforce
  qed
qed auto

lemma max_on_max: "max_on f xs b = Some r \<Longrightarrow> r \<in> set xs \<and> (\<forall>x\<in>set xs. f x \<le> f r)"
  using max_with_best [of f xs b None "fst (max_with f xs b None)" "snd (max_with f xs b None)"]
  by (auto simp: max_on_def split: if_splits)

lemma next_index_correct:
  assumes "next_index xs P start = int i"
  shows "i < length xs \<and> P (xs ! i)"
proof -
  obtain off where f: "List.find (\<lambda>offset. P (xs ! ((start + offset) mod length xs))) [1..<Suc (length xs)] = Some off"
    and i: "i = (start + off) mod length xs"
    using assms by (auto simp: next_index_def split: option.splits)
  from find_SomeD [OF f] have "P (xs ! i)" "off \<in> set [1..<Suc (length xs)]" by (simp_all add: i)
  moreover from this have "0 < length xs" by auto
  ultimately show ?thesis by (simp add: i)
qed

lemma next_index_none: "next_index xs P start = -1 \<Longrightarrow> x \<in> set xs \<Longrightarrow> \<not> P x"
proof -
  assume n: "next_index xs P start = -1" and x: "x \<in> set xs"
  have none: "\<not> P (xs ! ((start + off) mod length xs))" if "1 \<le> off" "off \<le> length xs" for off
    using n that by (auto simp: next_index_def find_None_iff split: option.splits)
  from x obtain k where k: "k < length xs" "x = xs ! k" by (auto simp: in_set_conv_nth)
  define off where "off = (if start mod length xs < k then k - start mod length xs
    else k + length xs - start mod length xs)"
  have m: "start mod length xs < length xs" using k by (intro mod_less_divisor) auto
  have "1 \<le> off" "off \<le> length xs" using k m by (auto simp: off_def)
  moreover have "(start + off) mod length xs = (start mod length xs + off) mod length xs"
    by (simp add: mod_add_left_eq)
  moreover have "(start mod length xs + off) mod length xs = k"
    using k m by (auto simp: off_def)
  ultimately show "\<not> P x" using none [of off] k by simp
qed

text \<open>Every element is in the group of its key, in the order of the list.\<close>

lemma map_of_group_insert:
  "map_of (group_insert k x gs) j =
     (if j = k then Some ((case map_of gs k of Some g \<Rightarrow> g | None \<Rightarrow> []) @ [x]) else map_of gs j)"
  by (induction k x gs rule: group_insert.induct) auto

lemma map_of_group_by:
  "map_of (group_by f xs) k = (if k \<in> f ` set xs then Some (filter (\<lambda>x. f x = k) xs) else None)"
proof (induction xs rule: rev_induct)
  case (snoc x xs)
  have "filter (\<lambda>y. f y = f x) xs = []" if "f x \<notin> f ` set xs"
    using that by (auto simp: filter_empty_conv image_iff)
  with snoc show ?case by (auto simp: group_by_def map_of_group_insert)
qed (simp add: group_by_def)

lemma distinct_group_insert: "distinct (map fst gs) \<Longrightarrow> distinct (map fst (group_insert k x gs))"
proof (induction k x gs rule: group_insert.induct)
  case (2 k x k' g gs)
  have "fst ` set (group_insert k x gs) = insert k (fst ` set gs)"
    by (induction k x gs rule: group_insert.induct) auto
  with 2 show ?case by auto
qed simp

lemma distinct_group_by: "distinct (map fst (group_by f xs))"
  by (induction xs rule: rev_induct) (simp_all add: group_by_def distinct_group_insert)

lemma group_by_member:
  "(k, g) \<in> set (group_by f xs) \<Longrightarrow> g = filter (\<lambda>x. f x = k) xs \<and> k \<in> f ` set xs"
  using map_of_is_SomeI [OF distinct_group_by, of k g f xs]
  by (auto simp: map_of_group_by split: if_splits)

text \<open>Insertion sort keeps the touched cards.\<close>

lemma mset_sort_orders: "mset (sort_orders xs) = mset xs"
proof -
  have "mset (insert_order x ys) = add_mset x (mset ys)" for x ys
    by (induction x ys rule: insert_order.induct) auto
  then show ?thesis by (induction xs) (simp_all add: sort_orders_def)
qed

lemma set_sort_orders [simp]: "set (sort_orders xs) = set xs"
  by (metis mset_sort_orders set_mset_mset)

lemma mset_drop_nth: "i < length xs \<Longrightarrow> add_mset (xs ! i) (mset (drop_nth i xs)) = mset xs"
  by (metis drop_nth_def id_take_nth_drop mset.simps(2) mset_append union_mset_add_mset_right)

lemma length_drop_nth: "i < length xs \<Longrightarrow> length (drop_nth i xs) = length xs - 1"
  by (simp add: drop_nth_def)

text \<open>The permutations are all the lists with the same elements.\<close>

lemma permutations_complete:
  "xs \<noteq> [] \<Longrightarrow> ys \<in> set (permutations xs) \<longleftrightarrow> mset ys = mset xs"
proof (induction xs arbitrary: ys rule: permutations.induct)
  case (1 xs)
  show ?case
  proof (cases "length xs = 1")
    case True
    then obtain a where "xs = [a]" by (auto simp: length_Suc_conv)
    then have "permutations xs = [[a]]" by (subst permutations.simps) simp
    then show ?thesis using \<open>xs = [a]\<close> by auto
  next
    case False
    have ne: "drop_nth i xs \<noteq> []" if "i < length xs" for i
      using length_drop_nth [OF that] False that by auto
    have sub: "set (permutations (drop_nth i xs)) = {zs. mset zs = mset (drop_nth i xs)}"
      if "i < length xs" for i
      using that False "1.IH" [of i] ne by auto
    have "ys \<in> set (permutations xs) \<longleftrightarrow>
        (\<exists>i<length xs. \<exists>zs. mset zs = mset (drop_nth i xs) \<and> ys = xs ! i # zs)"
      using False by (subst permutations.simps) (fastforce simp: sub image_iff)
    also have "\<dots> \<longleftrightarrow> mset ys = mset xs"
    proof
      assume "mset ys = mset xs"
      with "1.prems" obtain y zs where y: "ys = y # zs" by (cases ys) auto
      with \<open>mset ys = mset xs\<close> have "y \<in> set xs" by (metis list.set_intros(1) set_mset_mset)
      then obtain i where i: "i < length xs" "y = xs ! i" by (auto simp: in_set_conv_nth)
      then have "mset zs = mset (drop_nth i xs)"
        using mset_drop_nth [OF i(1)] y \<open>mset ys = mset xs\<close> by (metis add_mset_add_mset_same_iff mset.simps(2))
      with i y show "\<exists>i<length xs. \<exists>zs. mset zs = mset (drop_nth i xs) \<and> ys = xs ! i # zs" by blast
    qed (auto simp: mset_drop_nth)
    finally show ?thesis .
  qed
qed

text \<open>The subsets of a size have that size and are sub-multisets, and every choice is among them.\<close>

lemma all_subsets_zero: "all_subsets_of_size xs 0 = []"
proof (induction xs)
  case (Cons x xs)
  then show ?case by (subst all_subsets_of_size.simps) simp
next
  case Nil
  show ?case by (subst all_subsets_of_size.simps) simp
qed

lemma all_subsets_size: "ys \<in> set (all_subsets_of_size xs k) \<Longrightarrow> length ys = k \<and> mset ys \<subseteq># mset xs"
proof (induction xs k arbitrary: ys rule: all_subsets_of_size.induct)
  case (1 xs k)
  have k: "0 < k" using "1.prems" by (cases k) (auto simp: all_subsets_zero)
  from "1.prems" consider "k = length xs" "ys = xs" | "k = 1" "\<exists>x\<in>set xs. ys = [x]"
    | sub where "xs \<noteq> []" "k < length xs" "k \<noteq> 1" "ys = sub @ [hd xs]"
        "sub \<in> set (all_subsets_of_size (tl xs) (k - 1))"
    | "xs \<noteq> []" "k < length xs" "k \<noteq> 1" "ys \<in> set (all_subsets_of_size (tl xs) k)"
    by (subst (asm) all_subsets_of_size.simps) (auto split: if_splits)
  then show ?case
  proof cases
    case 3
    then obtain a as where a: "xs = a # as" by (cases xs) auto
    have "length sub = k - 1 \<and> mset sub \<subseteq># mset (tl xs)" using 3 "1.IH"(1) by auto
    then show ?thesis using 3 a k by simp
  next
    case 4
    then obtain a as where a: "xs = a # as" by (cases xs) auto
    have "length ys = k \<and> mset ys \<subseteq># mset (tl xs)" using 4 "1.IH"(2) by auto
    then show ?thesis using a subset_mset.order_trans [of "mset ys" "mset as" "add_mset a (mset as)"]
      by (simp add: mset_subset_eq_add_right)
  qed auto
qed

end
