(* ===== verification/Players.thy ===== *)
theory Players
  imports Utils Complex_Main
begin

text \<open>
  \<open>src/src/basics/Player.js\<close> without the hypothetical plays: what a player (or common knowledge, index
  \<open>-1\<close>) thinks of every card, and the questions the conventions ask of it: playable, trash, locked,
  loaded, linked. The types of links and waiting connections are those of \<open>src/src/types.js\<close>.
  A \<open>Set\<close> is a list in insertion order, a \<open>Map\<close> an association list.
\<close>

section \<open>Players\<close>

record link =
  l_orders :: "nat list"
  l_identities :: "basic_card list"
  l_promised :: bool
  l_target :: "nat option"

record play_link =
  pl_orders :: "nat list"
  pl_prereqs :: "basic_card list"
  pl_connected :: nat

datatype connection_type = Known | Playable | Prompt | Finesse | Terminate | Positional

record connection =
  conn_type :: connection_type
  conn_reacting :: nat
  conn_order :: nat
  conn_identities :: "basic_card list"
  conn_self :: bool
  conn_hidden :: bool
  conn_bluff :: bool
  conn_possibly_bluff :: bool
  conn_certain :: bool
  conn_linked :: "nat list option"
  conn_layered :: bool
  conn_asymmetric :: bool

record waiting_connection =
  wc_connections :: "connection list"
  wc_giver :: nat
  wc_target :: nat
  wc_conn_index :: nat
  wc_turn :: int
  wc_focus :: nat
  wc_inference :: basic_card
  wc_action_index :: int
  wc_symmetric :: bool
  wc_ambiguous_passback :: bool
  wc_self_passback :: bool

record player =
  player_index :: int
  thoughts :: "card option list"
  links :: "link list"
  play_links :: "play_link list"
  hypo_stacks :: "int list"
  hypo_plays :: "nat list"
  hypo_map :: "nat option list list"
  all_possible :: iset
  all_inferred :: iset
  unknown_plays :: "nat list"
  waiting_connections :: "waiting_connection list"
  elims :: "(string \<times> nat list) list"
  patches :: "(nat \<times> card_write list) list"

definition new_player :: "int \<Rightarrow> iset \<Rightarrow> iset \<Rightarrow> int list \<Rightarrow> player" where
  "new_player i ap ai stacks =
     \<lparr>player_index = i, thoughts = [], links = [], play_links = [], hypo_stacks = stacks,
      hypo_plays = [], hypo_map = [], all_possible = ap, all_inferred = ai, unknown_plays = [],
      waiting_connections = [], elims = [], patches = []\<rparr>"

definition card_at :: "player \<Rightarrow> nat \<Rightarrow> card" where
  "card_at p ord = the (slot (thoughts p) ord)"

definition set_add :: "'a \<Rightarrow> 'a list \<Rightarrow> 'a list" where
  "set_add x xs = (if x \<in> set xs then xs else xs @ [x])"

text \<open>\<open>new Set(xs)\<close>.\<close>

definition to_set :: "'a list \<Rightarrow> 'a list" where
  "to_set xs = fold set_add xs []"

definition all_orders :: "game_state \<Rightarrow> nat list" where
  "all_orders s = concat (hands s)"

text \<open>\<open>withThoughts\<close>: the card is produced from the draft's writes, and the patches are kept when
  someone listens (by default for common knowledge only). \<open>with\<close> throws past the end.\<close>

definition with_thoughts :: "player \<Rightarrow> nat \<Rightarrow> (card \<Rightarrow> card_write list) \<Rightarrow> bool \<Rightarrow> player result" where
  "with_thoughts p ord func listen =
     (case slot (thoughts p) ord of
        None \<Rightarrow> Inl TypeError
      | Some c \<Rightarrow>
          (let (c', ps) = produce_card c (func c) in
           bindR (with_at (thoughts p) ord c') (\<lambda>ts.
             Inr (p\<lparr>thoughts := ts,
               patches := (if listen \<and> ps \<noteq> [] then
                   AList.update ord ((case map_of (patches p) ord of Some old \<Rightarrow> old | None \<Rightarrow> []) @ ps)
                     (patches p)
                 else patches p)\<rparr>))))"

definition simulate_cm :: "player \<Rightarrow> nat list \<Rightarrow> player" where
  "simulate_cm p orders =
     p\<lparr>thoughts := fold (\<lambda>ord ts. put ts ord (update_status (Some CM) (card_at p ord)))
        orders (thoughts p)\<rparr>"

section \<open>Referring\<close>

datatype direction = ToLeft | ToRight

text \<open>The loop of \<open>refer\<close> steps around the hand until it meets a card that is not touched or newly
  clued. Without one it does not end: running out of fuel stands for that.\<close>

fun refer_loop :: "nat \<Rightarrow> player \<Rightarrow> int \<Rightarrow> nat list \<Rightarrow> int \<Rightarrow> nat option" where
  "refer_loop 0 p offset hand i = None"
| "refer_loop (Suc fuel) p offset hand i =
     (let c = card_at p (hand ! nat i) in
      if touched c \<and> \<not> newly_clued c then
        refer_loop fuel p offset hand ((i + offset + int (length hand)) mod int (length hand))
      else Some (hand ! nat i))"

definition refer :: "player \<Rightarrow> direction \<Rightarrow> nat list \<Rightarrow> nat \<Rightarrow> nat option" where
  "refer p dir hand ord =
     (let offset = (if dir = ToRight then 1 else -1); n = int (length hand)
      in refer_loop (length hand) p offset hand ((index_of hand ord + offset + n) mod n))"

section \<open>Linked cards\<close>

text \<open>\<open>unknownIdentities\<close> of \<open>src/src/basics/hanabi-util.js\<close>: copies this player cannot place.\<close>

definition unknown_identities :: "game_state \<Rightarrow> player \<Rightarrow> 'a basic_card_scheme \<Rightarrow> int" where
  "unknown_identities s p i =
     total_count s i - base_count s i -
       int (length (filter (\<lambda>ord. matches no_opts (card_at p ord) i) (all_orders s)))"

definition linked_orders :: "player \<Rightarrow> game_state \<Rightarrow> nat list" where
  "linked_orders p s =
     to_set (concat (map l_orders (filter (\<lambda>l.
       int (length (l_orders l)) > sum_list (map (unknown_identities s p) (l_identities l)))
       (links p))))"

definition dependent_connections :: "player \<Rightarrow> nat \<Rightarrow> waiting_connection list" where
  "dependent_connections p ord =
     filter (\<lambda>wc. \<exists>c \<in> set (drop (wc_conn_index wc) (wc_connections wc)). conn_order c = ord)
       (waiting_connections p)"

section \<open>Playables\<close>

text \<open>A card known to be playable from its possibilities, or from its info lock when it is the focus
  of a clue and no waiting connection has it as its focus.\<close>

definition playable_or_trash :: "game_state \<Rightarrow> basic_card list \<Rightarrow> bool" where
  "playable_or_trash s poss \<longleftrightarrow>
     list_all (\<lambda>i. is_basic_trash s i \<or> is_playable s i) poss \<and> list_ex (is_playable s) poss"

definition known_playable :: "player \<Rightarrow> game_state \<Rightarrow> card \<Rightarrow> bool" where
  "known_playable p s c \<longleftrightarrow>
     playable_or_trash s (iset_array (possible c)) \<or>
     (focused c \<and>
      (case info_lock c of None \<Rightarrow> False | Some l \<Rightarrow> playable_or_trash s (iset_array l)) \<and>
      \<not> list_ex (\<lambda>wc. wc_focus wc = order c) (waiting_connections p))"

definition depending_conn :: "waiting_connection \<Rightarrow> nat \<Rightarrow> connection option" where
  "depending_conn wc ord =
     List.find (\<lambda>c. conn_order c = ord) (drop (wc_conn_index wc) (wc_connections wc))"

text \<open>Connections are compared by reference, that is by their place in the list.\<close>

definition conflicting_conn :: "player \<Rightarrow> game_state \<Rightarrow> nat \<Rightarrow> nat \<Rightarrow> card \<Rightarrow> bool" where
  "conflicting_conn p s i ord c =
     (let wcs = waiting_connections p;
          considered = filter (\<lambda>k. \<not> (i = our_player s \<and> wc_symmetric (wcs ! k))) [0..<length wcs];
          dependents = filter (\<lambda>k. depending_conn (wcs ! k) ord \<noteq> None) considered
      in list_ex (\<lambda>k. wc_focus (wcs ! k) = ord \<and> \<not> is_playable s (wc_inference (wcs ! k)) \<and>
            iset_has (possible c) (wc_inference (wcs ! k))) considered \<or>
         list_ex (\<lambda>k. case depending_conn (wcs ! k) ord of None \<Rightarrow> False
           | Some conn \<Rightarrow> list_ex (\<lambda>d. \<not> is_playable s d \<and> iset_has (possible c) d)
               (conn_identities conn)) dependents \<or>
         (dependents \<noteq> [] \<and>
          list_all (\<lambda>k. list_ex (\<lambda>m. k \<noteq> m \<and> wc_focus (wcs ! m) = wc_focus (wcs ! k) \<and>
            list_all (\<lambda>conn. conn_order conn \<noteq> ord) (wc_connections (wcs ! m))) [0..<length wcs])
            dependents))"

record think_options =
  t_assume :: "bool option"
  t_symmetric :: bool

definition default_think :: think_options where
  "default_think = \<lparr>t_assume = None, t_symmetric = False\<rparr>"

definition unsafe_linked :: "player \<Rightarrow> game_state \<Rightarrow> nat list \<Rightarrow> nat \<Rightarrow> card \<Rightarrow> bool" where
  "unsafe_linked p s linked ord c \<longleftrightarrow>
     ord \<in> set linked \<and>
     (strikes s = 2 \<or> endgame_turns s \<noteq> -1 \<or>
      list_ex (\<lambda>i. stack_of s i + 1 < rank i \<and> rank i \<le> max_rank_of s i) (iset_array (possible c)) \<or>
      list_ex (\<lambda>o2. focused c \<and> o2 \<noteq> ord) linked)"

definition thinks_playable :: "player \<Rightarrow> game_state \<Rightarrow> nat \<Rightarrow> think_options \<Rightarrow> nat \<Rightarrow> bool" where
  "thinks_playable p s i opts ord =
     (let c = card_at p ord; poss = iset_array (possible c); cur = iset_array (possibilities c) in
      if trash c \<and> \<not> list_all (\<lambda>d. \<not> is_basic_trash s d) poss then False
      else if assume_playable c \<and> list_ex (is_playable s) poss then True
      else if unsafe_linked p s (linked_orders p s) ord c then False
      else
        list_all (\<lambda>d. (if status c = Some CM then is_basic_trash s d else False) \<or> is_playable s d) cur \<and>
        list_ex (is_playable s) cur \<and>
        ((case t_assume opts of None \<Rightarrow> True | Some b \<Rightarrow> b) \<or> known_playable p s c \<or>
         ((\<not> uncertain c \<or> i = our_player s) \<and> \<not> conflicting_conn p s i ord c)) \<and>
        (t_symmetric opts \<or> has_consistent_inferences s c))"

definition thinks_playables :: "player \<Rightarrow> game_state \<Rightarrow> nat \<Rightarrow> think_options \<Rightarrow> nat list" where
  "thinks_playables p s i opts = filter (thinks_playable p s i opts) (hands s ! i)"

section \<open>Trash, locked and loaded hands\<close>

definition visible_elsewhere :: "player \<Rightarrow> game_state \<Rightarrow> basic_card \<Rightarrow> nat \<Rightarrow> bool" where
  "visible_elsewhere p s i ord \<longleftrightarrow>
     list_ex (\<lambda>o2. let c = card_at p o2; d = deck_at s o2 in
         matches infer_opts c i \<and> actual_matches (Some True) d i \<and>
         (clued d \<or> (blind_playing c \<and> \<not> uncertain c)) \<and> o2 \<noteq> ord \<and>
         \<not> list_ex (\<lambda>l. ord \<in> set (l_orders l)) (links p))
       (all_orders s)"

definition thinks_trash_card :: "player \<Rightarrow> game_state \<Rightarrow> nat \<Rightarrow> bool" where
  "thinks_trash_card p s ord =
     (let c = card_at p ord in
      trash c \<or>
      list_all (\<lambda>i. is_basic_trash s i \<or> visible_elsewhere p s i ord)
        (iset_array (if uncertain c then possible c else possibilities c)))"

definition thinks_trash :: "player \<Rightarrow> game_state \<Rightarrow> nat \<Rightarrow> nat list" where
  "thinks_trash p s i = filter (thinks_trash_card p s) (hands s ! i)"

definition thinks_loaded :: "player \<Rightarrow> game_state \<Rightarrow> nat \<Rightarrow> think_options \<Rightarrow> bool" where
  "thinks_loaded p s i opts \<longleftrightarrow> thinks_playables p s i opts \<noteq> [] \<or> thinks_trash p s i \<noteq> []"

definition in_waiting :: "player \<Rightarrow> game_state \<Rightarrow> nat \<Rightarrow> nat \<Rightarrow> bool" where
  "in_waiting p s i ord \<longleftrightarrow>
     list_ex (\<lambda>wc. wc_target wc = i \<and>
       list_ex (\<lambda>c. conn_order c = ord \<and> list_ex (\<lambda>d. \<not> is_playable s d) (conn_identities c))
         (drop (wc_conn_index wc) (wc_connections wc))) (waiting_connections p)"

definition thinks_locked :: "player \<Rightarrow> game_state \<Rightarrow> nat \<Rightarrow> bool \<Rightarrow> bool" where
  "thinks_locked p s i symmetric \<longleftrightarrow>
     list_all (\<lambda>ord. saved (card_at p ord) \<or> (symmetric \<and> in_waiting p s i ord)) (hands s ! i) \<and>
     \<not> thinks_loaded p s i default_think"

section \<open>Choices in a locked hand\<close>

text \<open>The shares are quotients of small numbers, exact enough in a double to be compared as
  rationals; \<open>Array.prototype.sort\<close> is stable. A card without possibilities would give \<open>NaN\<close>.\<close>

definition share :: "(basic_card \<Rightarrow> bool) \<Rightarrow> card \<Rightarrow> rat" where
  "share P c =
     of_int (int (length (filter P (iset_array (possibilities c))))) /
     of_int (iset_length (possibilities c))"

definition crit_distance :: "player \<Rightarrow> bool \<Rightarrow> basic_card \<Rightarrow> int" where
  "crit_distance p all_crit i =
     (let d = (if all_crit then rank i * 5 else 0) + rank i - hypo_stacks p ! nat (suit_index i)
      in if d < 0 then 5 else d)"

definition locked_discard :: "player \<Rightarrow> game_state \<Rightarrow> nat list \<Rightarrow> nat option" where
  "locked_discard p s hand =
     (let crit = (\<lambda>ord. share (is_critical s) (card_at p ord));
          sorted = sort_key crit hand
      in case sorted of
           [] \<Rightarrow> None
         | first # _ \<Rightarrow>
             max_on (\<lambda>ord. sum_list (map (crit_distance p (crit first = 1))
                 (iset_array (possibilities (card_at p ord)))))
               (filter (\<lambda>ord. crit ord = crit first) sorted) None)"

definition anxiety_play :: "player \<Rightarrow> game_state \<Rightarrow> nat list \<Rightarrow> nat option" where
  "anxiety_play p s hand =
     (case sort_key (\<lambda>ord. - share (is_playable s) (card_at p ord)) hand of
        [] \<Rightarrow> None | first # _ \<Rightarrow> Some first)"

definition undo_hypo_stacks :: "player \<Rightarrow> 'a basic_card_scheme \<Rightarrow> player" where
  "undo_hypo_stacks p i =
     p\<lparr>hypo_stacks := (hypo_stacks p)[nat (suit_index i) :=
         min (hypo_stacks p ! nat (suit_index i)) (rank i - 1)]\<rparr>"

definition hypo_score :: "player \<Rightarrow> int" where
  "hypo_score p = sum_list (hypo_stacks p) + int (length (unknown_plays p))"

end
