(* ===== verification/Card_Elim.thy ===== *)
theory Card_Elim
  imports Players
begin

text \<open>
  \<open>card_elim\<close> of \<open>src/src/basics/player-elim.js\<close>: elimination from what is certainly known. Its local
  variables are the record \<open>elim_state\<close>: the new thoughts (a \<open>Map\<close> read before the player's own), the map of
  identity hash to order to the players the card is unknown to, the candidates of the cross elimination and
  the eliminated identities. The closures that assign to them take and return it.
\<close>

record elim_state =
  es_new :: "(nat \<times> card) list"
  es_certain :: "(string \<times> (nat \<times> nat list) list) list"
  es_cands :: "(nat \<times> nat) list"
  es_elim :: iset

definition thought :: "player \<Rightarrow> elim_state \<Rightarrow> nat \<Rightarrow> card option" where
  "thought p st ord = (case map_of (es_new st) ord of Some c \<Rightarrow> Some c | None \<Rightarrow> slot (thoughts p) ord)"

definition set_thought :: "elim_state \<Rightarrow> nat \<Rightarrow> card \<Rightarrow> elim_state" where
  "set_thought st ord c = st\<lparr>es_new := AList.update ord c (es_new st)\<rparr>"

definition certains_of :: "game_state \<Rightarrow> elim_state \<Rightarrow> basic_card \<Rightarrow> (nat \<times> nat list) list" where
  "certains_of s st i =
     (case map_of (es_certain st) (log_id (variant s) i) of Some m \<Rightarrow> m | None \<Rightarrow> [])"

definition add_certain :: "game_state \<Rightarrow> elim_state \<Rightarrow> basic_card \<Rightarrow> nat \<Rightarrow> nat list \<Rightarrow> elim_state" where
  "add_certain s st i ord unknown_to =
     st\<lparr>es_certain := map_insert_map (es_certain st) (log_id (variant s) i) ord unknown_to\<rparr>"

text \<open>The nested loops over the players and their hands.\<close>

definition hand_pairs :: "game_state \<Rightarrow> (nat \<times> nat) list" where
  "hand_pairs s = concat (map (\<lambda>i. map (Pair i) (hands s ! i)) [0..<num_players s])"

section \<open>The identities and the candidates\<close>

text \<open>The union of the possibilities of every card in hand; the loop stops when it has them all.\<close>

fun union_possible :: "player \<Rightarrow> game_state \<Rightarrow> iset \<Rightarrow> nat list \<Rightarrow> iset result" where
  "union_possible p s acc [] = Inr acc"
| "union_possible p s acc (ord # ords) =
     bindR (need (slot (thoughts p) ord)) (\<lambda>c.
       let acc' = iset_union acc (ASet (possible c)) in
       if iset_length acc' = iset_length (all_ids s) then Inr acc' else union_possible p s acc' ords)"

definition is_candidate :: "game_state \<Rightarrow> card \<Rightarrow> bool" where
  "is_candidate s c \<longleftrightarrow> iset_length (possible c) > 1 \<and>
     list_ex (\<lambda>i. \<not> is_basic_trash s i) (iset_array (possible c)) \<and>
     (iset_length (possible c) < 5 \<or> clued c)"

definition init_card :: "player \<Rightarrow> game_state \<Rightarrow> elim_state \<Rightarrow> nat \<times> nat \<Rightarrow> elim_state result" where
  "init_card p s st po =
     (case po of (pl, ord) \<Rightarrow>
       bindR (need (slot (thoughts p) ord)) (\<lambda>c.
         let unknown_to = (if identity (sym_opts True) c = None then [pl] else []);
             st' = (case identity (sym_opts (player_index p = -1)) c of
                      Some i \<Rightarrow> add_certain s st i ord unknown_to | None \<Rightarrow> st)
         in Inr (if is_candidate s c then st'\<lparr>es_cands := es_cands st' @ [(ord, pl)]\<rparr> else st')))"

definition init_elim :: "player \<Rightarrow> game_state \<Rightarrow> elim_state result" where
  "init_elim p s =
     foldR (init_card p s) \<lparr>es_new = [], es_certain = [], es_cands = [], es_elim = base_ids s\<rparr>
       (hand_pairs s)"

section \<open>Removing an identity\<close>

record map_update =
  mu_state :: elim_state
  mu_changed :: bool
  mu_recursive :: "basic_card list"
  mu_removals :: "nat list"

definition without_id :: "basic_card \<Rightarrow> card \<Rightarrow> card" where
  "without_id i c =
     c\<lparr>possible := iset_subtract (possible c) (AnId i), inferred := iset_subtract (inferred c) (AnId i)\<rparr>"

definition no_elim ::
  "game_state \<Rightarrow> elim_state \<Rightarrow> basic_card \<Rightarrow> nat list \<Rightarrow> nat \<Rightarrow> nat \<Rightarrow> card \<Rightarrow> bool" where
  "no_elim s st i exclude pl ord c \<longleftrightarrow>
     pl \<in> set exclude \<or> \<not> iset_has (possible c) i \<or>
     list_ex (\<lambda>e. fst e = ord) (certains_of s st i) \<or>
     list_ex (\<lambda>e. pl \<in> set (snd e)) (certains_of s st i)"

definition elim_card ::
  "player \<Rightarrow> game_state \<Rightarrow> basic_card \<Rightarrow> nat list \<Rightarrow> map_update \<Rightarrow> nat \<times> nat \<Rightarrow> map_update result" where
  "elim_card p s i exclude u po =
     (case po of (pl, ord) \<Rightarrow>
       bindR (need (thought p (mu_state u) ord)) (\<lambda>c.
         if no_elim s (mu_state u) i exclude pl ord c then Inr u
         else
           let d = without_id i c; st = set_thought (mu_state u) ord d; v = u\<lparr>mu_changed := True\<rparr> in
           if iset_length (possible d) = 0 then Inl (Thrown ''no more possible ids'')
           else if iset_length (inferred d) = 0 \<and> \<not> reset c then
             Inr (v\<lparr>mu_state := set_thought st ord (reset_inferences d)\<rparr>)
           else if iset_length (possible d) = 1 then
             bindR (need (identity no_opts d)) (\<lambda>r.
               Inr (v\<lparr>mu_state := add_certain s st r ord [], mu_recursive := mu_recursive u @ [r],
                 mu_removals := mu_removals u @ [ord]\<rparr>))
           else Inr (v\<lparr>mu_state := st\<rparr>)))"

definition drop_cands :: "nat list \<Rightarrow> elim_state \<Rightarrow> elim_state" where
  "drop_cands removals st = st\<lparr>es_cands := filter (\<lambda>c. fst c \<notin> set removals) (es_cands st)\<rparr>"

definition update_map ::
  "player \<Rightarrow> game_state \<Rightarrow> basic_card \<Rightarrow> nat list \<Rightarrow> elim_state \<Rightarrow> (elim_state \<times> bool \<times> basic_card list) result" where
  "update_map p s i exclude st =
     bindR (foldR (elim_card p s i exclude)
         \<lparr>mu_state = st, mu_changed = False, mu_recursive = [], mu_removals = []\<rparr> (hand_pairs s))
       (\<lambda>u. Inr (drop_cands (mu_removals u) (mu_state u), mu_changed u, mu_recursive u))"

section \<open>Basic elimination\<close>

text \<open>When every copy of an identity is certain, it is removed everywhere else. The flag and the recursive
  identities are those of the last identity that was removed, as the code overwrites them. The recursion
  ends because it follows a removal: the fuel is the number of possibilities (see \<open>possible_sum\<close>).\<close>

definition basic_step ::
  "player \<Rightarrow> game_state \<Rightarrow> elim_state \<times> bool \<times> basic_card list \<Rightarrow> basic_card \<Rightarrow>
    (elim_state \<times> bool \<times> basic_card list) result" where
  "basic_step p s acc i =
     (if base_count s i + int (length (certains_of s (fst acc) i)) \<noteq> total_count s i then Inr acc
      else update_map p s i [] ((fst acc)\<lparr>es_elim := iset_union (es_elim (fst acc)) (AnId i)\<rparr>))"

fun basic_elim ::
  "nat \<Rightarrow> player \<Rightarrow> game_state \<Rightarrow> basic_card list \<Rightarrow> elim_state \<Rightarrow> (elim_state \<times> bool) result" where
  "basic_elim 0 p s ids st = Inl OutOfFuel"
| "basic_elim (Suc fuel) p s ids st =
     bindR (foldR (basic_step p s) (st, False, []) ids) (\<lambda>(st1, changed, recursive_ids).
       if recursive_ids \<noteq> [] then
         bindR (basic_elim fuel p s recursive_ids st1) (\<lambda>(st2, _). Inr (st2, changed))
       else Inr (st1, changed))"

section \<open>Cross elimination\<close>

definition total_multiplicity :: "game_state \<Rightarrow> iset \<Rightarrow> int" where
  "total_multiplicity s ids = sum_list (map (\<lambda>i. total_count s i - base_count s i) (iset_array ids))"

definition known_id :: "player \<Rightarrow> game_state \<Rightarrow> elim_state \<Rightarrow> nat \<Rightarrow> basic_card option" where
  "known_id p s st ord =
     (case deck_id s ord of Some i \<Rightarrow> Some i
      | None \<Rightarrow> (case thought p st ord of Some c \<Rightarrow> identity no_opts c | None \<Rightarrow> None))"

text \<open>A group of entries that are all known to be \<open>i\<close>: when with the certain copies outside of it these are
  all that is left, nobody else has one.\<close>

definition elim_group ::
  "player \<Rightarrow> game_state \<Rightarrow> elim_state \<times> bool \<Rightarrow> basic_card option \<times> (nat \<times> nat) list \<Rightarrow>
    (elim_state \<times> bool) result" where
  "elim_group p s acc g =
     (case g of
        (None, _) \<Rightarrow> Inr acc
      | (Some i, grp) \<Rightarrow>
          let certains = filter (\<lambda>e. \<not> list_ex (\<lambda>x. fst x = fst e) grp) (certains_of s (fst acc) i) in
          if int (length grp) < total_multiplicity s (iset_union (base_ids s) (AnId i)) - int (length certains)
          then Inr acc
          else bindR (update_map p s i (map snd grp) (fst acc)) (\<lambda>(st, changed, _). Inr (st, changed)))"

definition perform_elim ::
  "nat \<Rightarrow> player \<Rightarrow> game_state \<Rightarrow> (nat \<times> nat) list \<Rightarrow> iset \<Rightarrow> elim_state \<Rightarrow> (elim_state \<times> bool) result" where
  "perform_elim fuel p s entries ids st =
     bindR (foldR (elim_group p s) (st, False) (group_by (\<lambda>e. known_id p s st (fst e)) entries)) (\<lambda>acc.
     bindR (foldR (\<lambda>acc i. bindR (update_map p s i (map snd entries) (fst acc))
         (\<lambda>(st', changed, _). Inr (st', changed))) acc (iset_array ids)) (\<lambda>(st1, changed).
     bindR (basic_elim fuel p s (iset_array ids) st1) (\<lambda>(st2, changed'). Inr (st2, changed' \<or> changed))))"

text \<open>The subsets of the candidates. The fuel is the number of candidates left, which never grows.\<close>

definition next_certains :: "game_state \<Rightarrow> elim_state \<Rightarrow> card \<Rightarrow> iset \<Rightarrow> nat list \<Rightarrow> nat list \<Rightarrow> nat list" where
  "next_certains s st c acc_ids certains chosen =
     filter (\<lambda>ord. ord \<notin> set chosen)
       (fold set_add (concat (map (\<lambda>i. map fst (certains_of s st i))
         (iset_array (iset_subtract (possible c) (ASet acc_ids))))) certains)"

fun gen_subset ::
  "nat \<Rightarrow> nat \<Rightarrow> player \<Rightarrow> game_state \<Rightarrow> (nat \<times> nat) list \<Rightarrow> iset \<Rightarrow> nat list \<Rightarrow> nat \<Rightarrow> elim_state \<Rightarrow>
    (elim_state \<times> bool) result" where
  "gen_subset 0 bf p s chosen acc_ids certains next st = Inl OutOfFuel"
| "gen_subset (Suc fuel) bf p s chosen acc_ids certains next st =
     (let mult = total_multiplicity s acc_ids - int (length certains) in
      if mult > int (length chosen) + (int (length (es_cands st)) - int next) then Inr (st, False)
      else
        bindR (if length chosen \<ge> 2 \<and> mult = int (length chosen)
               then perform_elim bf p s chosen acc_ids st else Inr (st, False)) (\<lambda>(st1, changed).
          if changed then Inr (st1, True)
          else
            case drop next (es_cands st1) of
              [] \<Rightarrow> Inr (st1, False)
            | item # _ \<Rightarrow>
                bindR (need (thought p st1 (fst item))) (\<lambda>c.
                bindR (gen_subset fuel bf p s (chosen @ [item]) (iset_union acc_ids (ASet (possible c)))
                    (next_certains s st1 c acc_ids certains (map fst (chosen @ [item]))) (Suc next) st1)
                  (\<lambda>(st2, included).
                     if included then Inr (st2, True)
                     else gen_subset fuel bf p s chosen acc_ids certains (Suc next) st2))))"

definition cross_elim :: "nat \<Rightarrow> player \<Rightarrow> game_state \<Rightarrow> elim_state \<Rightarrow> (elim_state \<times> bool) result" where
  "cross_elim bf p s st =
     (if length (es_cands st) \<le> 1 then Inr (st, False)
      else gen_subset (Suc (length (es_cands st))) bf p s [] (base_ids s) [] 0 st)"

section \<open>Endgame elimination\<close>

text \<open>The removals are only ever used to filter the candidates, so they are kept per call.\<close>

definition end_elim_card :: "player \<Rightarrow> game_state \<Rightarrow> basic_card \<Rightarrow> elim_state \<times> nat list \<Rightarrow> nat \<Rightarrow>
    (elim_state \<times> nat list) result" where
  "end_elim_card p s i acc ord =
     bindR (need (thought p (fst acc) ord)) (\<lambda>c.
       if \<not> iset_has (possible c) i \<or> actual_matches None (deck_at s ord) i \<or> matches no_opts c i then Inr acc
       else
         let d = without_id i c; st = set_thought (fst acc) ord d in
         if iset_length (inferred d) = 0 \<and> \<not> reset c then
           Inr (set_thought st ord (reset_inferences d), snd acc)
         else if iset_length (possible d) = 1 then
           bindR (need (identity no_opts d)) (\<lambda>r. Inr (add_certain s st r ord [], snd acc @ [ord]))
         else Inr (st, snd acc))"

definition end_perform :: "player \<Rightarrow> game_state \<Rightarrow> basic_card \<Rightarrow> elim_state \<Rightarrow> nat list \<Rightarrow> elim_state result" where
  "end_perform p s i st hand =
     bindR (foldR (end_elim_card p s i) (st, []) hand) (\<lambda>(st', removals). Inr (drop_cands removals st'))"

definition shows_id :: "player \<Rightarrow> game_state \<Rightarrow> elim_state \<Rightarrow> basic_card \<Rightarrow> nat \<Rightarrow> bool" where
  "shows_id p s st i ord \<longleftrightarrow> actual_matches None (deck_at s ord) i \<or>
     (case thought p st ord of Some c \<Rightarrow> matches no_opts c i | None \<Rightarrow> False)"

definition holders :: "player \<Rightarrow> game_state \<Rightarrow> elim_state \<Rightarrow> basic_card \<Rightarrow> nat list" where
  "holders p s st i =
     (let showing = (\<lambda>pl. length (filter (shows_id p s st i) (hands s ! pl)));
          total = base_count s i + int (sum_list (map showing [0..<num_players s]))
      in filter (\<lambda>pl. showing pl \<noteq> 0 \<or>
           (total \<noteq> total_count s i \<and> list_ex (\<lambda>ord. known_id p s st ord = None) (hands s ! pl)))
         [0..<num_players s])"

definition endgame_elim :: "player \<Rightarrow> game_state \<Rightarrow> basic_card list \<Rightarrow> elim_state \<Rightarrow> elim_state result" where
  "endgame_elim p s ids st =
     (if cards_left s > 0 \<or> player_index p \<noteq> -1 then Inr st
      else foldR (\<lambda>st i.
          let hs = holders p s st i in
          foldR (end_perform p s i) st
            (map ((!) (hands s)) (filter (\<lambda>pl. pl \<notin> set hs) [0..<num_players s]))) st ids)"

section \<open>Card elimination\<close>

fun cross_loop :: "nat \<Rightarrow> nat \<Rightarrow> player \<Rightarrow> game_state \<Rightarrow> basic_card list \<Rightarrow> elim_state \<Rightarrow> elim_state result" where
  "cross_loop 0 bf p s ids st = Inl OutOfFuel"
| "cross_loop (Suc fuel) bf p s ids st =
     bindR (cross_elim bf p s st) (\<lambda>(st1, again).
       if again then cross_loop fuel bf p s ids st1 else endgame_elim p s ids st1)"

text \<open>The number of possibilities in the hands bounds every recursion.\<close>

definition possible_sum :: "player \<Rightarrow> game_state \<Rightarrow> elim_state \<Rightarrow> nat" where
  "possible_sum p s st =
     sum_list (map (\<lambda>ord. case thought p st ord of
       Some c \<Rightarrow> length (iset_array (possible c)) | None \<Rightarrow> 0) (all_orders s))"

definition card_elim :: "player \<Rightarrow> game_state \<Rightarrow> player result" where
  "card_elim p s =
     bindR (union_possible p s (base_ids s) (all_orders s)) (\<lambda>all_identities.
     bindR (init_elim p s) (\<lambda>st0.
       let fuel = Suc (possible_sum p s st0); ids = iset_array all_identities in
     bindR (endgame_elim p s ids st0) (\<lambda>st1.
     bindR (basic_elim fuel p s ids st1) (\<lambda>(st2, _).
     bindR (cross_loop fuel fuel p s ids st2) (\<lambda>st3.
       Inr (p\<lparr>all_possible := iset_subtract (all_possible p) (ASet (es_elim st3)),
              all_inferred := iset_subtract (all_inferred p) (ASet (es_elim st3)),
              thoughts := fold (\<lambda>e ts. put ts (fst e) (snd e)) (es_new st3) (thoughts p)\<rparr>))))))"

end
