(* ===== verification/Good_Touch.thy ===== *)
theory Good_Touch
  imports Players
begin

text \<open>
  \<open>good_touch_elim\<close> of \<open>src/src/basics/player-elim.js\<close>: identities that someone is known or inferred to have are
  removed from the inferences of the other touched cards. The local maps and the candidates are the record
  \<open>gt_state\<close>. The candidates are iterated by index, because the body removes elements from the array
  that the loop runs over: the element after a removed one is skipped, as in the code.
\<close>

type_synonym candidate = "nat \<times> nat \<times> bool"

record gt_state =
  gt_new :: "(nat \<times> card) list"
  gt_match :: "(string \<times> nat list) list"
  gt_hard :: "(string \<times> nat list) list"
  gt_cross :: "(32 word \<times> nat list) list"
  gt_elims :: "(string \<times> nat list) list"
  gt_cands :: "candidate list"
  gt_ids :: iset

definition gt_thought :: "player \<Rightarrow> gt_state \<Rightarrow> nat \<Rightarrow> card option" where
  "gt_thought p st ord = (case map_of (gt_new st) ord of Some c \<Rightarrow> Some c | None \<Rightarrow> slot (thoughts p) ord)"

definition gt_put :: "nat \<Rightarrow> card \<Rightarrow> gt_state \<Rightarrow> gt_state" where
  "gt_put ord c st = st\<lparr>gt_new := AList.update ord c (gt_new st)\<rparr>"

definition holder_of :: "game_state \<Rightarrow> nat \<Rightarrow> int" where
  "holder_of s ord =
     (case List.find (\<lambda>pl. ord \<in> set (hands s ! pl)) [0..<length (hands s)] of Some pl \<Rightarrow> int pl | None \<Rightarrow> -1)"

definition lookup_set :: "('k \<times> 'v list) list \<Rightarrow> 'k \<Rightarrow> 'v list" where
  "lookup_set m k = (case map_of m k of Some xs \<Rightarrow> xs | None \<Rightarrow> [])"

section \<open>The maps\<close>

text \<open>When there are more matches than copies and one of them is seen, the hard matches are forgotten (the
  code also deletes from the set that it forgets).\<close>

definition add_match :: "game_state \<Rightarrow> card \<Rightarrow> basic_card \<Rightarrow> nat \<Rightarrow> gt_state \<Rightarrow> gt_state" where
  "add_match s c i ord st =
     (let h = log_id (variant s) i;
          hard = (if matches no_opts c i \<or> focused c
                  then AList.update h (set_add ord (lookup_set (gt_hard st) h)) (gt_hard st) else gt_hard st);
          ms = set_add ord (lookup_set (gt_match st) h);
          overfull = (case map_of hard h of None \<Rightarrow> False
            | Some hs \<Rightarrow> base_count s i + int (length ms) > total_count s i \<and>
                list_ex (\<lambda>o2. actual_matches None (deck_at s o2) i) (ms @ hs))
      in st\<lparr>gt_match := AList.update h ms (gt_match st),
            gt_hard := (if overfull then AList.delete h hard else hard)\<rparr>)"

definition add_to_maps :: "player \<Rightarrow> game_state \<Rightarrow> gt_state \<Rightarrow> nat \<Rightarrow> nat \<Rightarrow> gt_state result" where
  "add_to_maps p s st ord pl =
     bindR (need (gt_thought p st ord)) (\<lambda>c.
       if \<not> touched c \<or> uncertain c then Inr st
       else case identity (no_opts\<lparr>o_infer := Some True,
           o_symmetric := Some (player_index p = -1 \<or> player_index p = int pl)\<rparr>) c of
         None \<Rightarrow> Inr (if iset_length (inferred c) < 5 \<and> player_index p = -1
           then st\<lparr>gt_cross := AList.update (bits (inferred c))
             (set_add ord (lookup_set (gt_cross st) (bits (inferred c)))) (gt_cross st)\<rparr>
           else st)
       | Some i \<Rightarrow> Inr (add_match s c i ord st))"

section \<open>Candidates\<close>

text \<open>Touched cards are candidates, and chop moved ones; both lose the trash from their inferences.\<close>

definition gt_candidate :: "player \<Rightarrow> game_state \<Rightarrow> card \<Rightarrow> bool option" where
  "gt_candidate p s c =
     (if trash c \<or> identity (sym_opts True) c \<noteq> None then None
      else if iset_length (inferred c) > 0 \<and> list_ex (\<lambda>i. \<not> is_basic_trash s i) (iset_array (possible c)) \<and>
          \<not> certain_finessed c then
        (if touched c then Some False
         else if status c = Some CM then Some (player_index p = -1) else None)
      else None)"

definition drop_trash :: "basic_card list \<Rightarrow> nat \<Rightarrow> card \<Rightarrow> gt_state \<Rightarrow> gt_state" where
  "drop_trash trash_ids ord c st =
     (if iset_length (iset_intersect (inferred c) (Ids trash_ids)) > 0 then
        (let new_inferred = iset_subtract (inferred c) (Ids trash_ids) in
         if status c \<noteq> Some CM \<and> iset_length new_inferred = 0 \<and> \<not> reset c
         then gt_put ord (reset_inferences c) st
         else gt_put ord (c\<lparr>inferred := new_inferred\<rparr>) st)
      else st)"

definition gt_init_card ::
  "player \<Rightarrow> game_state \<Rightarrow> bool \<Rightarrow> basic_card list \<Rightarrow> gt_state \<Rightarrow> nat \<times> nat \<Rightarrow> gt_state result" where
  "gt_init_card p s only_self trash_ids st po =
     (case po of (pl, ord) \<Rightarrow>
       if only_self \<and> int pl \<noteq> player_index p then Inr st
       else
         bindR (add_to_maps p s st ord pl) (\<lambda>st1.
         bindR (need (slot (thoughts p) ord)) (\<lambda>c.
           case gt_candidate p s c of
             None \<Rightarrow> Inr st1
           | Some cm \<Rightarrow> Inr (drop_trash trash_ids ord c (st1\<lparr>gt_cands := gt_cands st1 @ [(ord, pl, cm)]\<rparr>)))))"

section \<open>Elimination by a match\<close>

definition sees :: "game_state \<Rightarrow> nat \<Rightarrow> basic_card \<Rightarrow> bool" where
  "sees s ord i \<longleftrightarrow> actual_matches None (deck_at s ord) i"

definition bad_elim :: "game_state \<Rightarrow> basic_card \<Rightarrow> nat list \<Rightarrow> bool" where
  "bad_elim s i ms \<longleftrightarrow> ms \<noteq> [] \<and>
     list_all (\<lambda>ord. (deck_id s ord \<noteq> None \<and> \<not> sees s ord i) \<or>
       base_count s i + int (length (filter (\<lambda>o2. sees s o2 i \<and> o2 \<noteq> ord) (all_orders s))) = total_count s i) ms"

definition visible_elim :: "game_state \<Rightarrow> basic_card \<Rightarrow> nat list \<Rightarrow> bool" where
  "visible_elim s i ms \<longleftrightarrow>
     list_ex (\<lambda>o2. o2 \<in> set ms \<and> actual_matches (Some True) (deck_at s o2) i) (all_orders s) \<and>
     base_count s i + int (length ms) \<ge> total_count s i"

definition touched_by :: "player \<Rightarrow> gt_state \<Rightarrow> nat \<Rightarrow> int \<Rightarrow> nat \<Rightarrow> bool" where
  "touched_by p st pl turn ord \<longleftrightarrow>
     (case gt_thought p st ord of None \<Rightarrow> False
      | Some c \<Rightarrow> (case first_touch c of None \<Rightarrow> False | Some ft \<Rightarrow> ft_giver ft = pl \<and> ft_turn ft > turn))"

definition unsure :: "player \<Rightarrow> gt_state \<Rightarrow> nat \<Rightarrow> bool" where
  "unsure p st ord \<longleftrightarrow>
     (case gt_thought p st ord of None \<Rightarrow> False | Some c \<Rightarrow> iset_length (possibilities c) > 1)"

text \<open>Every match was touched by the holder of the candidate, or is in the hand of who touched the candidate.\<close>

definition asymmetric_gt ::
  "player \<Rightarrow> game_state \<Rightarrow> gt_state \<Rightarrow> basic_card \<Rightarrow> nat list \<Rightarrow> candidate \<Rightarrow> card \<Rightarrow> bool" where
  "asymmetric_gt p s st i ms cand c \<longleftrightarrow>
     (case cand of (ord, pl, cm) \<Rightarrow>
       \<not> is_critical s i \<and> \<not> (cm \<and> visible_elim s i ms) \<and> ms \<noteq> [] \<and>
       (list_all (touched_by p st pl (case first_touch c of Some ft \<Rightarrow> ft_turn ft | None \<Rightarrow> 0)) ms \<or>
        (case first_touch c of None \<Rightarrow> False
         | Some ft \<Rightarrow> list_all (\<lambda>o2. o2 \<in> set (hands s ! ft_giver ft) \<and> unsure p st o2) ms)))"

definition self_elim :: "player \<Rightarrow> game_state \<Rightarrow> gt_state \<Rightarrow> basic_card \<Rightarrow> nat list \<Rightarrow> nat \<Rightarrow> bool" where
  "self_elim p s st i ms pl \<longleftrightarrow> player_index p \<noteq> -1 \<and> ms \<noteq> [] \<and>
     list_all (\<lambda>o2. o2 \<in> set (hands s ! pl) \<and>
       (case gt_thought p st o2 of None \<Rightarrow> False
        | Some c \<Rightarrow> \<not> (case identity (no_opts\<lparr>o_infer := Some True, o_symmetric := Some True\<rparr>) c of
            None \<Rightarrow> False | Some j \<Rightarrow> basic_matches j i))) ms"

record gt_pass =
  gp_state :: gt_state
  gp_ids :: iset
  gp_queue :: "basic_card list"
  gp_changed :: bool

definition remove_cand :: "nat \<Rightarrow> gt_state \<Rightarrow> gt_state" where
  "remove_cand ord st = st\<lparr>gt_cands := splice1 (gt_cands st) (index_of (map fst (gt_cands st)) ord)\<rparr>"

text \<open>
  \<open>old_card\<close> is the object that the draft mutates when the card has been updated before. So a card is
  only found to be newly identified on its first update, where the draft is a copy.
\<close>

definition remove_inference :: "game_state \<Rightarrow> basic_card \<Rightarrow> candidate \<Rightarrow> card \<Rightarrow> gt_pass \<Rightarrow> gt_pass" where
  "remove_inference s i cand c g =
     (case cand of (ord, pl, cm) \<Rightarrow>
       let st = gp_state g; h = log_id (variant s) i;
           new_inferred = iset_subtract (inferred c) (AnId i);
           d = c\<lparr>inferred := new_inferred\<rparr>;
           old_length = (if map_of (gt_new st) ord = None then iset_length (inferred c) else iset_length new_inferred);
           st1 = (gt_put ord d st)\<lparr>gt_elims := AList.update h (lookup_set (gt_elims st) h @ [ord]) (gt_elims st)\<rparr>;
           g1 = g\<lparr>gp_state := st1, gp_ids := iset_subtract (gp_ids g) (AnId i), gp_changed := True\<rparr>
       in if cm then g1
          else if iset_length new_inferred = 0 \<and> \<not> reset c then
            g1\<lparr>gp_state := gt_put ord (reset_inferences d) st1\<rparr>
          else if iset_length new_inferred = 1 \<and> old_length > 1 then
            (case iset_array new_inferred of
               j # _ \<Rightarrow> if is_basic_trash s j then g1 else g1\<lparr>gp_queue := gp_queue g @ [j]\<rparr>
             | [] \<Rightarrow> g1)
          else g1)"

definition gt_elim_card ::
  "player \<Rightarrow> game_state \<Rightarrow> basic_card \<Rightarrow> nat list \<Rightarrow> candidate \<Rightarrow> gt_pass \<Rightarrow> gt_pass result" where
  "gt_elim_card p s i ms cand g =
     (case cand of (ord, pl, cm) \<Rightarrow>
       let st = gp_state g in
       bindR (need (gt_thought p st ord)) (\<lambda>c.
         if ord \<in> set ms \<or> iset_length (inferred c) = 0 \<or> \<not> iset_has (inferred c) i then Inr g
         else if asymmetric_gt p s st i ms cand c then Inr g
         else if self_elim p s st i ms pl then Inr g
         else if blind_playing c \<and> (finesse_index c = turn_count s \<or> finesse_index c = turn_count s - 1) then
           Inr (g\<lparr>gp_state := remove_cand ord (gt_put ord (c\<lparr>certain_finessed := True\<rparr>) st)\<rparr>)
         else if blind_playing c \<and> pl = our_player s \<and>
             \<not> list_ex (\<lambda>o2. case gt_thought p st o2 of Some d \<Rightarrow> focused d | None \<Rightarrow> False) ms then
           Inr (g\<lparr>gp_state := remove_cand ord st\<rparr>)
         else if cm \<and> \<not> visible_elim s i ms then Inr g
         else Inr (remove_inference s i cand c g)))"

fun cand_loop :: "nat \<Rightarrow> player \<Rightarrow> game_state \<Rightarrow> basic_card \<Rightarrow> nat list \<Rightarrow> nat \<Rightarrow> gt_pass \<Rightarrow> gt_pass result" where
  "cand_loop fuel p s i ms k g =
     (if k \<ge> length (gt_cands (gp_state g)) then Inr g
      else case fuel of
        0 \<Rightarrow> Inl OutOfFuel
      | Suc f \<Rightarrow> bindR (gt_elim_card p s i ms (gt_cands (gp_state g) ! k) g) (cand_loop f p s i ms (Suc k)))"

declare cand_loop.simps [simp del]

definition gt_elim_id :: "player \<Rightarrow> game_state \<Rightarrow> basic_card \<Rightarrow> gt_pass \<Rightarrow> gt_pass result" where
  "gt_elim_id p s i g =
     (let st = gp_state g; h = log_id (variant s) i in
      case map_of (gt_match st) h of
        None \<Rightarrow> Inr g
      | Some soft \<Rightarrow>
          let ms = (case map_of (gt_hard st) h of Some hard \<Rightarrow> hard | None \<Rightarrow> soft) in
          if bad_elim s i ms then Inr g
          else cand_loop (length (gt_cands st)) p s i ms 0 g)"

text \<open>The array of identities grows while it is iterated: the queue holds what is left.\<close>

fun id_loop :: "nat \<Rightarrow> player \<Rightarrow> game_state \<Rightarrow> gt_pass \<Rightarrow> gt_pass result" where
  "id_loop fuel p s g =
     (case gp_queue g of
        [] \<Rightarrow> Inr g
      | i # queue \<Rightarrow>
          (case fuel of
             0 \<Rightarrow> Inl OutOfFuel
           | Suc f \<Rightarrow> bindR (gt_elim_id p s i (g\<lparr>gp_queue := queue\<rparr>)) (id_loop f p s)))"

declare id_loop.simps [simp del]

text \<open>Inferences, and one reset for each card: what every step uses up.\<close>

definition gt_measure :: "player \<Rightarrow> game_state \<Rightarrow> gt_state \<Rightarrow> nat" where
  "gt_measure p s st =
     sum_list (map (\<lambda>ord. case gt_thought p st ord of None \<Rightarrow> 0
       | Some c \<Rightarrow> length (iset_array (inferred c)) + (if reset c then 0 else 31)) (all_orders s))"

definition gt_basic_elim :: "player \<Rightarrow> game_state \<Rightarrow> gt_state \<Rightarrow> (gt_state \<times> bool) result" where
  "gt_basic_elim p s st =
     bindR (id_loop (length (iset_array (gt_ids st)) + gt_measure p s st) p s
       \<lparr>gp_state = st, gp_ids = gt_ids st, gp_queue = iset_array (gt_ids st), gp_changed = False\<rparr>) (\<lambda>g.
     bindR (foldR (\<lambda>st c. add_to_maps p s st (fst c) (fst (snd c))) (gp_state g) (gt_cands (gp_state g))) (\<lambda>st'.
       Inr (st'\<lparr>gt_ids := gp_ids g\<rparr>, gp_changed g)))"

section \<open>Cross elimination\<close>

text \<open>As many cards as identities: a player can subtract what the others are seen to have.\<close>

definition orig_clue :: "'a actual_card_scheme \<Rightarrow> card_clue option" where
  "orig_clue c = (case clues c of [] \<Rightarrow> None | cl # _ \<Rightarrow> Some cl)"

definition cross_asymmetric :: "player \<Rightarrow> game_state \<Rightarrow> gt_state \<Rightarrow> card \<Rightarrow> nat \<Rightarrow> nat \<Rightarrow> bool" where
  "cross_asymmetric p s st c o1 o2 \<longleftrightarrow>
     (let other = deck_at s o2 in
      \<not> is_critical s other \<and>
      ((case orig_clue other of None \<Rightarrow> False
        | Some oc \<Rightarrow> int (clue_giver oc) = holder_of s o1 \<and>
            clue_turn oc > (case orig_clue c of Some cl \<Rightarrow> clue_turn cl | None \<Rightarrow> 0)) \<or>
       (case orig_clue c of None \<Rightarrow> False
        | Some cl \<Rightarrow> int (clue_giver cl) = holder_of s o2 \<and> unsure p st o2)))"

definition cross_pair ::
  "player \<Rightarrow> game_state \<Rightarrow> gt_state \<times> bool \<Rightarrow> nat \<times> nat \<Rightarrow> (gt_state \<times> bool) result" where
  "cross_pair p s acc oo =
     (case oo of (o1, o2) \<Rightarrow>
       bindR (need (gt_thought p (fst acc) o1)) (\<lambda>c.
         if cross_asymmetric p s (fst acc) c o1 o2 then Inr acc
         else if o1 \<noteq> o2 \<and> holder_of s o1 \<noteq> holder_of s o2 \<and> iset_has (inferred c) (deck_at s o2) then
           Inr (gt_put o1 (c\<lparr>inferred := iset_subtract (inferred c) (AnId (raw (deck_at s o2)))\<rparr>) (fst acc), True)
         else Inr acc))"

text \<open>The map is iterated while entries are deleted and added: \<open>k\<close> entries are behind the iterator.\<close>

fun cross_entries :: "nat \<Rightarrow> player \<Rightarrow> game_state \<Rightarrow> nat \<Rightarrow> gt_state \<Rightarrow> bool \<Rightarrow> (gt_state \<times> bool) result" where
  "cross_entries fuel p s k st changed =
     (if k \<ge> length (gt_cross st) then Inr (st, changed)
      else case fuel of
        0 \<Rightarrow> Inl OutOfFuel
      | Suc f \<Rightarrow>
          (case gt_cross st ! k of (idens, orders) \<Rightarrow>
            if int (length orders) \<noteq> iset_length \<lparr>num_suits = n_suits s, bits = idens\<rparr>
            then cross_entries f p s (Suc k) st changed
            else
              bindR (foldR (cross_pair p s) (st, False) (List.product orders orders)) (\<lambda>(st1, change).
                if \<not> change then cross_entries f p s (Suc k) st1 changed
                else
                  bindR (foldR (\<lambda>st ord. add_to_maps p s st ord (nat (holder_of s ord)))
                      (st1\<lparr>gt_cross := AList.delete idens (gt_cross st1)\<rparr>) orders) (\<lambda>st2.
                    cross_entries f p s k st2 True))))"

declare cross_entries.simps [simp del]

definition gt_cross_elim :: "player \<Rightarrow> game_state \<Rightarrow> gt_state \<Rightarrow> (gt_state \<times> bool) result" where
  "gt_cross_elim p s st =
     cross_entries (length (gt_cross st) + gt_measure p s st * Suc (length (all_orders s))) p s 0 st False"

section \<open>Good touch elimination\<close>

fun gt_loop :: "nat \<Rightarrow> player \<Rightarrow> game_state \<Rightarrow> bool \<Rightarrow> bool \<Rightarrow> gt_state \<Rightarrow> gt_state result" where
  "gt_loop fuel p s basic_changed cross_changed st =
     (if \<not> basic_changed \<and> \<not> cross_changed then Inr st
      else case fuel of
        0 \<Rightarrow> Inl OutOfFuel
      | Suc f \<Rightarrow>
          bindR (gt_basic_elim p s st) (\<lambda>(st1, basic').
          bindR (if basic' \<or> cross_changed then gt_cross_elim p s st1 else Inr (st1, cross_changed)) (\<lambda>(st2, cross').
            gt_loop f p s basic' cross' st2)))"

declare gt_loop.simps [simp del]

definition all_inferences :: "player \<Rightarrow> game_state \<Rightarrow> iset result" where
  "all_inferences p s =
     foldR (\<lambda>acc ord. bindR (need (slot (thoughts p) ord)) (\<lambda>c. Inr (iset_union acc (ASet (inferred c)))))
       (base_ids s) (all_orders s)"

definition gt_init :: "player \<Rightarrow> game_state \<Rightarrow> bool \<Rightarrow> gt_state result" where
  "gt_init p s only_self =
     bindR (all_inferences p s) (\<lambda>identities.
       let trash_ids = filter (is_basic_trash s) (iset_array identities) in
       foldR (gt_init_card p s only_self trash_ids)
         \<lparr>gt_new = [], gt_match = [], gt_hard = [], gt_cross = [], gt_elims = elims p, gt_cands = [],
          gt_ids = iset_subtract identities (Ids trash_ids)\<rparr>
         (concat (map (\<lambda>i. map (Pair i) (hands s ! i)) [0..<num_players s])))"

definition good_touch_elim :: "player \<Rightarrow> game_state \<Rightarrow> bool \<Rightarrow> player result" where
  "good_touch_elim p s only_self =
     bindR (gt_init p s only_self) (\<lambda>st0.
     bindR (gt_basic_elim p s st0) (\<lambda>(st1, basic_changed).
     bindR (gt_cross_elim p s st1) (\<lambda>(st2, cross_changed).
     bindR (gt_loop (Suc (gt_measure p s st2)) p s basic_changed cross_changed st2) (\<lambda>st3.
       Inr (p\<lparr>thoughts := fold (\<lambda>e ts. put ts (fst e) (snd e)) (gt_new st3) (thoughts p), elims := gt_elims st3\<rparr>)))))"

end
