(* ===== verification/Card_Links.thy ===== *)
theory Card_Links
  imports Players
begin

text \<open>
  Links of \<open>src/src/basics/player-elim.js\<close>: cards of a hand that share their inferences (\<open>find_links\<close>), promised
  or not; their resolution when something is revealed (\<open>refresh_links\<close>), and the inferences given back
  after a false elimination (\<open>restore_elim\<close>).
\<close>

section \<open>Finding links\<close>

text \<open>Writing the inferences of a card, with a reset when none is left; nobody listens.\<close>

definition write_inferred :: "nat \<Rightarrow> iset \<Rightarrow> player \<Rightarrow> player result" where
  "write_inferred ord t p =
     bindR (need (slot (thoughts p) ord)) (\<lambda>c.
       Inr (p\<lparr>thoughts := put (thoughts p) ord
         (if iset_length t = 0 \<and> \<not> reset c then reset_inferences c else c\<lparr>inferred := t\<rparr>)\<rparr>))"

text \<open>The one focused card takes the identity, the others lose it.\<close>

definition settle_focus :: "nat list \<Rightarrow> nat \<Rightarrow> basic_card \<Rightarrow> player \<Rightarrow> player result" where
  "settle_focus orders focus i p =
     foldR (\<lambda>q ord. bindR (need (slot (thoughts q) ord)) (\<lambda>c.
         write_inferred ord (if ord = focus then iset_intersect (inferred c) (AnId i)
           else iset_subtract (inferred c) (AnId i)) q)) p orders"

definition linkable :: "player \<Rightarrow> game_state \<Rightarrow> nat list \<Rightarrow> nat \<Rightarrow> card \<Rightarrow> bool" where
  "linkable p s linked ord c \<longleftrightarrow>
     ord \<notin> set linked \<and> identity no_opts c = None \<and> iset_length (inferred c) \<noteq> 0 \<and>
     \<not> iset_length (inferred c) > 3 \<and> \<not> list_all (is_basic_trash s) (iset_array (inferred c))"

definition same_inferences :: "player \<Rightarrow> nat list \<Rightarrow> card \<Rightarrow> nat list" where
  "same_inferences p hand c = filter (\<lambda>o2. iset_equals (inferred c) (ASet (inferred (card_at p o2)))) hand"

definition focused_in :: "player \<Rightarrow> nat list \<Rightarrow> nat list" where
  "focused_in p orders = filter (\<lambda>o2. focused (card_at p o2)) orders"

record link_search =
  ls_player :: player
  ls_links :: "link list"
  ls_linked :: "nat list"

definition find_link :: "player \<Rightarrow> game_state \<Rightarrow> nat list \<Rightarrow> link_search \<Rightarrow> nat \<Rightarrow> link_search result" where
  "find_link p s hand acc ord =
     bindR (need (slot (thoughts p) ord)) (\<lambda>c.
       if \<not> linkable p s (ls_linked acc) ord c then Inr acc
       else
         let orders = same_inferences p hand c; focus = focused_in p orders; ids = iset_array (inferred c) in
         if length orders = 1 then Inr acc
         else if length focus = 1 \<and> iset_length (inferred c) = 1 then
           bindR (need (get ids 0)) (\<lambda>i.
           bindR (settle_focus orders (hd focus) i (ls_player acc)) (\<lambda>q. Inr (acc\<lparr>ls_player := q\<rparr>)))
         else if int (length orders) \<ge> iset_length (inferred c) then
           Inr (acc\<lparr>ls_links := ls_links acc @
               [\<lparr>l_orders = orders, l_identities = ids, l_promised = False, l_target = None\<rparr>],
             ls_linked := fold set_add orders (ls_linked acc)\<rparr>)
         else Inr acc)"

definition find_links_in :: "game_state \<Rightarrow> player \<Rightarrow> nat list \<Rightarrow> player result" where
  "find_links_in s p hand =
     bindR (foldR (find_link p s hand)
         \<lparr>ls_player = p, ls_links = [], ls_linked = to_set (concat (map l_orders (links p)))\<rparr> hand) (\<lambda>acc.
       Inr ((ls_player acc)\<lparr>links := links (ls_player acc) @ ls_links acc\<rparr>))"

text \<open>Common knowledge looks at every hand, a player at its own.\<close>

definition find_links :: "player \<Rightarrow> game_state \<Rightarrow> player result" where
  "find_links p s =
     (if player_index p = -1 then foldR (find_links_in s) p (hands s)
      else find_links_in s p (hands s ! nat (player_index p)))"

section \<open>Refreshing links\<close>

definition refresh_promised :: "player \<Rightarrow> link \<Rightarrow> player \<times> link list \<Rightarrow> (player \<times> link list) result" where
  "refresh_promised p l acc =
     (case l_identities l of
        [] \<Rightarrow>
          (if list_ex (\<lambda>o2. identity no_opts (card_at p o2) \<noteq> None) (l_orders l) \<or> l_target l = None
           then Inl TypeError else Inr acc)
      | i # rest \<Rightarrow>
          if rest \<noteq> [] then Inl (Thrown ''promised link with multiple identities'')
          else if list_ex (\<lambda>o2. matches no_opts (card_at p o2) i) (l_orders l) then Inr acc
          else if (case l_target l of None \<Rightarrow> False
              | Some t \<Rightarrow> \<not> list_ex (\<lambda>j. suit_index j = suit_index i) (iset_array (possible (card_at p t)))) then Inr acc
          else
            (case filter (\<lambda>o2. iset_has (possible (card_at p o2)) i) (l_orders l) of
               [] \<Rightarrow> Inr acc
             | [o1] \<Rightarrow>
                 bindR (need (slot (thoughts (fst acc)) o1)) (\<lambda>c.
                   Inr ((fst acc)\<lparr>thoughts := put (thoughts (fst acc)) o1
                     (c\<lparr>inferred := iset_intersect (inferred c) (AnId i)\<rparr>)\<rparr>, snd acc))
             | viable \<Rightarrow> Inr (fst acc, snd acc @ [l\<lparr>l_orders := viable\<rparr>])))"

definition revealed :: "player \<Rightarrow> link \<Rightarrow> nat \<Rightarrow> bool" where
  "revealed p l ord \<longleftrightarrow> identity no_opts (card_at p ord) \<noteq> None \<or>
     list_ex (\<lambda>i. \<not> iset_has (possible (card_at p ord)) i) (l_identities l)"

definition refresh_link :: "player \<Rightarrow> player \<times> link list \<Rightarrow> link \<Rightarrow> (player \<times> link list) result" where
  "refresh_link p acc l =
     (if l_promised l then refresh_promised p l acc
      else
        let q = fst acc; focus = focused_in q (l_orders l) in
        if list_ex (revealed q l) (l_orders l) then Inr acc
        else if length focus = 1 \<and> length (l_identities l) = 1 then
          bindR (settle_focus (l_orders l) (hd focus) (hd (l_identities l)) q) (\<lambda>q'. Inr (q', snd acc))
        else if list_ex (\<lambda>i. list_ex (\<lambda>o2. \<not> iset_has (inferred (card_at q o2)) i) (l_orders l)) (l_identities l)
        then Inr acc
        else Inr (q, snd acc @ [l]))"

definition refresh_links :: "player \<Rightarrow> game_state \<Rightarrow> player result" where
  "refresh_links p s =
     bindR (foldR (refresh_link p) (p, []) (links p)) (\<lambda>(q, new_links). find_links (q\<lparr>links := new_links\<rparr>) s)"

section \<open>Restoring an elimination\<close>

text \<open>
  The filter of the code is meant to keep the orders for which the identity is still possible, but its
  predicate returns a function, which is always truthy: every order is kept.
\<close>

definition restore_order :: "basic_card \<Rightarrow> player \<Rightarrow> nat \<Rightarrow> player result" where
  "restore_order i q ord =
     bindR (need (slot (thoughts q) ord)) (\<lambda>c.
       if focused c then Inr q
       else with_thoughts q ord (\<lambda>d. [W_inferred (iset_union (inferred c) (AnId i))]) (player_index q = -1))"

definition restore_elim :: "player \<Rightarrow> game_state \<Rightarrow> basic_card \<Rightarrow> player result" where
  "restore_elim p s i =
     (let h = log_id (variant s) i;
          elims_of = (case map_of (elims p) h of Some os \<Rightarrow> os | None \<Rightarrow> []) in
      bindR (foldR (restore_order i) p elims_of) (\<lambda>q.
        Inr (q\<lparr>all_inferred := iset_union (all_inferred q) (AnId i), elims := AList.delete h (elims q)\<rparr>)))"

section \<open>Well-formed links\<close>

text \<open>A link that was found: at least two cards of the hand that share at most three inferences, no more
  inferences than cards.\<close>

definition found_link :: "nat \<Rightarrow> nat list \<Rightarrow> link \<Rightarrow> bool" where
  "found_link n hand l \<longleftrightarrow> \<not> l_promised l \<and> 2 \<le> length (l_orders l) \<and> set (l_orders l) \<subseteq> set hand \<and>
     1 \<le> length (l_identities l) \<and> length (l_identities l) \<le> 3 \<and> length (l_identities l) \<le> length (l_orders l) \<and>
     (\<forall>i \<in> set (l_identities l). valid_id n i)"

definition hand_ok :: "nat \<Rightarrow> player \<Rightarrow> nat list \<Rightarrow> bool" where
  "hand_ok n p hand \<longleftrightarrow> (\<forall>ord \<in> set hand. \<exists>c. slot (thoughts p) ord = Some c \<and> card_ok n c)"

text \<open>The possibilities and what identifies a card, unchanged.\<close>

definition same_facts :: "player \<Rightarrow> player \<Rightarrow> bool" where
  "same_facts p q \<longleftrightarrow> player_index q = player_index p \<and> patches q = patches p \<and>
     all_possible q = all_possible p \<and> all_inferred q = all_inferred p \<and> waiting_connections q = waiting_connections p \<and>
     (\<forall>ord. case slot (thoughts p) ord of None \<Rightarrow> slot (thoughts q) ord = None
       | Some c \<Rightarrow> \<exists>d. slot (thoughts q) ord = Some d \<and> possible d = possible c \<and> suit_index d = suit_index c \<and>
           rank d = rank c \<and> rewind_ids d = rewind_ids c)"

lemma same_facts_refl: "same_facts p p"
  by (auto simp: same_facts_def split: option.splits)

lemma same_facts_trans: "same_facts p q \<Longrightarrow> same_facts q r \<Longrightarrow> same_facts p r"
  unfolding same_facts_def by (auto split: option.splits) (metis option.distinct(1) option.inject)+

lemma links_frame [simp]:
  "same_facts p (q\<lparr>links := ls\<rparr>) = same_facts p q" "hand_ok n (q\<lparr>links := ls\<rparr>) hand = hand_ok n q hand"
  by (auto simp: same_facts_def hand_ok_def split: option.splits)

lemma card_ok_inferred: "card_ok n c \<Longrightarrow> iset_ok n t \<Longrightarrow> card_ok n (c\<lparr>inferred := t\<rparr>)"
  by (simp add: card_ok_def valid_id_def)

lemma write_inferred_ok:
  assumes "hand_ok n p hand" "ord \<in> set hand" "iset_ok n t"
  shows "\<exists>q. write_inferred ord t p = Inr q \<and> hand_ok n q hand \<and> same_facts p q \<and> links q = links p"
proof -
  obtain c where c: "slot (thoughts p) ord = Some c" "card_ok n c" using assms(1,2) by (auto simp: hand_ok_def)
  define d where "d = (if iset_length t = 0 \<and> \<not> reset c then reset_inferences c else c\<lparr>inferred := t\<rparr>)"
  have d: "card_ok n d" "possible d = possible c" "suit_index d = suit_index c" "rank d = rank c" "rewind_ids d = rewind_ids c"
    using reset_inferences_ok [OF c(2)] card_ok_inferred [OF c(2) assms(3)] by (simp_all add: d_def)
  let ?q = "p\<lparr>thoughts := put (thoughts p) ord d\<rparr>"
  have "write_inferred ord t p = Inr ?q" by (simp add: write_inferred_def c(1) d_def)
  moreover have "hand_ok n ?q hand" using assms(1) d(1) by (auto simp: hand_ok_def array_simps)
  moreover have "same_facts p ?q" using c(1) d(2-5) by (auto simp: same_facts_def array_simps split: option.splits)
  ultimately show ?thesis by auto
qed

lemma settle_focus_ok:
  assumes p: "hand_ok n p hand" and o: "set orders \<subseteq> set hand"
  shows "\<exists>q. settle_focus orders focus i p = Inr q \<and> hand_ok n q hand \<and> same_facts p q \<and> links q = links p"
  unfolding settle_focus_def
proof (rule foldR_total [where P = "\<lambda>q. hand_ok n q hand \<and> same_facts p q \<and> links q = links p"])
  show "hand_ok n p hand \<and> same_facts p p \<and> links p = links p" using p by (simp add: same_facts_refl)
  fix q ord assume ord: "ord \<in> set orders" and q: "hand_ok n q hand \<and> same_facts p q \<and> links q = links p"
  obtain c where c: "slot (thoughts q) ord = Some c" "card_ok n c" using q ord o by (auto simp: hand_ok_def)
  define t where "t = (if ord = focus then iset_intersect (inferred c) (AnId i) else iset_subtract (inferred c) (AnId i))"
  have "iset_ok n t" using card_okD(2) [OF c(2)] by (simp add: t_def)
  then obtain r where "write_inferred ord t q = Inr r" "hand_ok n r hand" "same_facts q r" "links r = links q"
    using write_inferred_ok [of n q hand ord t] q ord o by blast
  with q c(1) show "\<exists>r. bindR (need (slot (thoughts q) ord)) (\<lambda>c.
      write_inferred ord (if ord = focus then iset_intersect (inferred c) (AnId i)
        else iset_subtract (inferred c) (AnId i)) q) = Inr r \<and> (hand_ok n r hand \<and> same_facts p r \<and> links r = links p)"
    by (auto simp: t_def [symmetric] intro: same_facts_trans)
qed

lemma find_link_ok:
  assumes p: "hand_ok n p all" and sub: "set hand \<subseteq> set all" and ord: "ord \<in> set hand"
    and acc: "hand_ok n (ls_player acc) all" "same_facts p (ls_player acc)" "links (ls_player acc) = links p"
      "\<forall>l \<in> set (ls_links acc). found_link n hand l"
  shows "\<exists>acc'. find_link p s hand acc ord = Inr acc' \<and> hand_ok n (ls_player acc') all \<and> same_facts p (ls_player acc') \<and>
    links (ls_player acc') = links p \<and> (\<forall>l \<in> set (ls_links acc'). found_link n hand l)"
proof -
  obtain c where c: "slot (thoughts p) ord = Some c" "card_ok n c" using p sub ord by (auto simp: hand_ok_def)
  have ok: "iset_ok n (inferred c)" using c(2) by (rule card_okD)
  let ?os = "same_inferences p hand c" and ?ids = "iset_array (inferred c)"
  have os: "set ?os \<subseteq> set hand" "ord \<in> set ?os"
    using ord c(1) by (auto simp: same_inferences_def iset_equals_def card_at_def)
  have ids: "int (length ?ids) = iset_length (inferred c)" "\<forall>i \<in> set ?ids. valid_id n i"
    using idset.size_elems [OF ok] idset.elems_mem [OF ok] by auto
  consider (skip) "\<not> linkable p s (ls_linked acc) ord c \<or> length ?os = 1"
    | (focus) "linkable p s (ls_linked acc) ord c" "length ?os \<noteq> 1" "length (focused_in p ?os) = 1" "iset_length (inferred c) = 1"
    | (rest) "linkable p s (ls_linked acc) ord c" "length ?os \<noteq> 1"
        "\<not> (length (focused_in p ?os) = 1 \<and> iset_length (inferred c) = 1)" by blast
  then show ?thesis
  proof cases
    case skip
    with acc c show ?thesis by (auto simp: find_link_def Let_def)
  next
    case focus
    obtain i where i: "?ids = [i]" using idset.size_one [OF ok focus(4)] by blast
    obtain q where "settle_focus ?os (hd (focused_in p ?os)) i (ls_player acc) = Inr q" "hand_ok n q all"
        "same_facts (ls_player acc) q" "links q = links (ls_player acc)"
      using settle_focus_ok [OF acc(1), of ?os] os(1) sub by blast
    with focus acc c i show ?thesis by (auto simp: find_link_def Let_def intro: same_facts_trans)
  next
    case rest
    have "2 \<le> length ?os" using rest(2) os(2) by (cases ?os; cases "tl ?os") auto
    moreover have "1 \<le> length ?ids" "length ?ids \<le> 3" using rest(1) ids(1) by (auto simp: linkable_def)
    moreover have "length ?ids \<le> length ?os" if "int (length ?os) \<ge> iset_length (inferred c)" using that ids(1) by simp
    ultimately show ?thesis using rest acc c os(1) ids(2)
      by (auto simp: find_link_def Let_def found_link_def)
  qed
qed

lemma find_links_in_ok:
  assumes p: "hand_ok n p all" and sub: "set hand \<subseteq> set all"
  shows "\<exists>q new. find_links_in s p hand = Inr q \<and> same_facts p q \<and> links q = links p @ new \<and> (\<forall>l \<in> set new. found_link n hand l) \<and>
    hand_ok n q all"
proof -
  let ?P = "\<lambda>acc :: link_search. hand_ok n (ls_player acc) all \<and> same_facts p (ls_player acc) \<and> links (ls_player acc) = links p \<and>
    (\<forall>l \<in> set (ls_links acc). found_link n hand l)"
  let ?start = "\<lparr>ls_player = p, ls_links = [], ls_linked = to_set (concat (map l_orders (links p)))\<rparr>"
  have "\<exists>acc. foldR (find_link p s hand) ?start hand = Inr acc \<and> ?P acc"
  proof (rule foldR_total [where P = ?P])
    show "?P ?start" using p same_facts_refl by simp
    fix acc ord assume "ord \<in> set hand" "?P acc"
    then show "\<exists>acc'. find_link p s hand acc ord = Inr acc' \<and> ?P acc'" using find_link_ok [OF p sub] by blast
  qed
  then show ?thesis by (auto simp: find_links_in_def)
qed

text \<open>An elimination that was wrong comes back even where the identity is impossible.\<close>

lemma restore_elim_adds:
  assumes "map_of (elims p) (log_id (variant s) i) = Some [ord]" "slot (thoughts p) ord = Some c" "\<not> focused c"
  shows "\<exists>q. restore_elim p s i = Inr q \<and> inferred (card_at q ord) = iset_union (inferred c) (AnId i) \<and>
    possible (card_at q ord) = possible c"
proof -
  let ?ws = "[W_inferred (iset_union (inferred c) (AnId i))]"
  have c': "fst (produce_card c ?ws) = c\<lparr>inferred := iset_union (inferred c) (AnId i)\<rparr>"
    by (simp add: produce_card_writes)
  have l: "ord < length (thoughts p)" using slot_SomeD [OF assms(2)] by simp
  obtain ps where pr: "produce_card c ?ws = (c\<lparr>inferred := iset_union (inferred c) (AnId i)\<rparr>, ps)"
    using c' by (metis prod.collapse)
  show ?thesis
    using assms l pr
    by (simp add: restore_elim_def restore_order_def with_thoughts_def Let_def with_at_def card_at_def array_simps)
qed

end
