(* ===== verification/Hypo_Stacks.thy ===== *)
theory Hypo_Stacks
  imports Players
begin

text \<open>
  \<open>update_hypo_stacks\<close> of \<open>src/src/basics/Player.js\<close>: how high the stacks get when everyone plays what is known to
  be playable. The local variables of a pass are the record \<open>hypo_loop\<close>; a pass repeats over all the hands
  until nothing new is played. For common knowledge the duplicated plays are tried again with the other
  copies ignored, and the best result is kept.
\<close>

record hypo_loop =
  hl_stacks :: "int list"
  hl_unknown :: "nat list"
  hl_played :: "nat list"
  hl_map :: "nat option list list"
  hl_elim :: iset
  hl_dups :: "(string \<times> nat list) list"
  hl_found :: bool

definition on_top :: "int list \<Rightarrow> 'a basic_card_scheme \<Rightarrow> bool" where
  "on_top stacks i \<longleftrightarrow> (case get stacks (suit_index i) of Some k \<Rightarrow> k + 1 = rank i | None \<Rightarrow> False)"

definition delayed_playable :: "hypo_loop \<Rightarrow> 'a basic_card_scheme list \<Rightarrow> bool" where
  "delayed_playable h poss \<longleftrightarrow>
     (let remaining = filter (\<lambda>i. \<not> iset_has (hl_elim h) i) poss
      in remaining \<noteq> [] \<and> list_all (on_top (hl_stacks h)) remaining)"

definition skip_card :: "nat list \<Rightarrow> hypo_loop \<Rightarrow> nat \<Rightarrow> card \<Rightarrow> bool" where
  "skip_card linked h ord c \<longleftrightarrow>
     \<not> saved c \<or> iset_has (hl_elim h) c \<or> ord \<in> set linked \<or> ord \<in> set (hl_unknown h) \<or> ord \<in> set (hl_played h)"

definition hypo_playable :: "player \<Rightarrow> game_state \<Rightarrow> hypo_loop \<Rightarrow> nat \<Rightarrow> card \<Rightarrow> bool" where
  "hypo_playable p s h ord c \<longleftrightarrow>
     (let fake = filter (\<lambda>wc. wc_focus wc = ord \<and> \<not> actual_matches (Some True) (deck_at s (wc_focus wc)) (wc_inference wc))
            (waiting_connections p)
      in has_consistent_inferences s c \<and>
         (delayed_playable h (iset_array (possible c)) \<or>
          delayed_playable h (iset_array (iset_subtract (inferred c) (Ids (map wc_inference fake)))) \<or>
          (blind_playing c \<and> delayed_playable h [c]) \<or>
          list_ex (\<lambda>pl. pl_connected pl = ord \<and> list_all (\<lambda>o2. o2 \<in> set (hl_unknown h)) (pl_orders pl)) (play_links p)))"

text \<open>Common knowledge is not updated on an identity all of whose other copies have been drawn, or when no
  inference is right.\<close>

definition false_update :: "player \<Rightarrow> game_state \<Rightarrow> nat \<Rightarrow> card \<Rightarrow> basic_card option \<Rightarrow> bool" where
  "false_update p s ord c ident \<longleftrightarrow>
     player_index p = -1 \<and>
     ((case ident of None \<Rightarrow> False
       | Some i \<Rightarrow> int (length (filter (\<lambda>d. case d of None \<Rightarrow> False
           | Some a \<Rightarrow> actual_matches None a i \<and> order a \<noteq> ord) (deck s))) = total_count s i) \<or>
      (case deck_id s ord of None \<Rightarrow> False | Some a \<Rightarrow> \<not> iset_has (inferred c) a))"

definition existing_play :: "player \<Rightarrow> game_state \<Rightarrow> hypo_loop \<Rightarrow> nat \<Rightarrow> (basic_card \<times> nat) option" where
  "existing_play p s h ord =
     (if player_index p \<noteq> -1 then None
      else case deck_id s ord of
        None \<Rightarrow> None
      | Some a \<Rightarrow> map_option (Pair a) (List.find (\<lambda>o2. actual_matches None (deck_at s o2) a) (hl_unknown h)))"

definition add_dup :: "game_state \<Rightarrow> basic_card \<Rightarrow> nat \<Rightarrow> nat \<Rightarrow> hypo_loop \<Rightarrow> hypo_loop" where
  "add_dup s a existing ord h =
     h\<lparr>hl_dups := AList.update (log_id (variant s) a)
       ((case map_of (hl_dups h) (log_id (variant s) a) of Some os \<Rightarrow> os | None \<Rightarrow> [existing]) @ [ord]) (hl_dups h)\<rparr>"

definition play_on :: "basic_card \<Rightarrow> hypo_loop \<Rightarrow> hypo_loop" where
  "play_on i h = h\<lparr>hl_stacks := (hl_stacks h)[nat (suit_index i) := rank i],
     hl_elim := iset_union (hl_elim h) (AnId i)\<rparr>"

text \<open>All the cards of a promised link are played: so is the promised identity, when it fits.\<close>

definition fulfil :: "hypo_loop \<Rightarrow> link \<Rightarrow> hypo_loop result" where
  "fulfil h l =
     (case l_identities l of
        [] \<Rightarrow> Inl TypeError
      | i # _ \<Rightarrow> Inr (if on_top (hl_stacks h) i then play_on i h else h))"

definition play_unknown :: "player \<Rightarrow> nat \<Rightarrow> hypo_loop \<Rightarrow> hypo_loop result" where
  "play_unknown p ord h =
     (let h' = h\<lparr>hl_unknown := set_add ord (hl_unknown h), hl_played := set_add ord (hl_played h), hl_found := True\<rparr>
      in foldR fulfil h'
           (filter (\<lambda>l. l_promised l \<and> ord \<in> set (l_orders l) \<and>
              list_all (\<lambda>o2. o2 \<in> set (hl_unknown h')) (l_orders l)) (links p)))"

definition play_known :: "basic_card \<Rightarrow> nat \<Rightarrow> hypo_loop \<Rightarrow> hypo_loop" where
  "play_known i ord h =
     (if \<not> on_top (hl_stacks h) i then h
      else (play_on i h)\<lparr>hl_found := True, hl_played := set_add ord (hl_played h),
        hl_map := (hl_map h)[nat (suit_index i) := put (hl_map h ! nat (suit_index i)) (nat (rank i)) ord]\<rparr>)"

definition hypo_card ::
  "player \<Rightarrow> game_state \<Rightarrow> nat list option \<Rightarrow> nat list \<Rightarrow> hypo_loop \<Rightarrow> nat \<times> nat \<Rightarrow> hypo_loop result" where
  "hypo_card p s ignore linked h po =
     (let ord = snd po in
      if (case ignore of Some os \<Rightarrow> ord \<in> set os | None \<Rightarrow> False) then Inr h
      else bindR (need (slot (thoughts p) ord)) (\<lambda>c.
        if skip_card linked h ord c \<or> \<not> hypo_playable p s h ord c then Inr h
        else
          let ident = identity (no_opts\<lparr>o_infer := Some True, o_symmetric := Some (player_index p = int (fst po))\<rparr>) c in
          if false_update p s ord c ident then Inr h
          else case existing_play p s h ord of
            Some (a, existing) \<Rightarrow> Inr (add_dup s a existing ord h)
          | None \<Rightarrow> (case ident of None \<Rightarrow> play_unknown p ord h | Some i \<Rightarrow> Inr (play_known i ord h))))"

text \<open>A round that finds something plays one more order: the number of cards in hand is fuel enough.\<close>

fun hypo_rounds ::
  "nat \<Rightarrow> player \<Rightarrow> game_state \<Rightarrow> nat list option \<Rightarrow> nat list \<Rightarrow> hypo_loop \<Rightarrow> hypo_loop result" where
  "hypo_rounds 0 p s ignore linked h = Inl OutOfFuel"
| "hypo_rounds (Suc fuel) p s ignore linked h =
     bindR (foldR (hypo_card p s ignore linked) (h\<lparr>hl_found := False\<rparr>)
         (concat (map (\<lambda>i. map (Pair i) (hands s ! i)) [0..<num_players s]))) (\<lambda>h'.
       if hl_found h' then hypo_rounds fuel p s ignore linked h' else Inr h')"

definition start_hypo :: "game_state \<Rightarrow> hypo_loop" where
  "start_hypo s =
     \<lparr>hl_stacks = play_stacks s, hl_unknown = [], hl_played = [], hl_map = replicate (n_suits s) [],
      hl_elim = iset_empty (n_suits s), hl_dups = [], hl_found = True\<rparr>"

definition hypo_pass :: "player \<Rightarrow> game_state \<Rightarrow> nat list option \<Rightarrow> hypo_loop result" where
  "hypo_pass p s ignore =
     hypo_rounds (Suc (length (all_orders s))) p s ignore (linked_orders p s) (start_hypo s)"

definition set_hypo :: "hypo_loop \<Rightarrow> player \<Rightarrow> player" where
  "set_hypo h p = p\<lparr>hypo_stacks := hl_stacks h, unknown_plays := hl_unknown h, hypo_plays := hl_played h,
     hypo_map := hl_map h\<rparr>"

definition try_ignore :: "player \<Rightarrow> game_state \<Rightarrow> player \<times> nat list \<Rightarrow> nat \<Rightarrow> (player \<times> nat list) result" where
  "try_ignore p s acc ord =
     (let ignore = set_add ord (snd acc) in
      bindR (hypo_pass p s (Some ignore)) (\<lambda>h.
        Inr (if hypo_score (set_hypo h p) > hypo_score (fst acc) then (set_hypo h p, ignore) else (fst acc, ignore))))"

definition update_hypo_stacks :: "player \<Rightarrow> game_state \<Rightarrow> nat list option \<Rightarrow> player result" where
  "update_hypo_stacks p s ignore =
     bindR (hypo_pass p s ignore) (\<lambda>h.
       if ignore \<noteq> None then Inr (set_hypo h p)
       else foldR (\<lambda>best os. bindR (foldR (try_ignore p s) (best, [hd os]) os) (\<lambda>acc. Inr (fst acc)))
              (set_hypo h p) (map snd (hl_dups h)))"

section \<open>Bounds and termination\<close>

text \<open>What the computation needs: every card in hand has its thoughts, promised links name an identity.\<close>

definition hypo_ready :: "player \<Rightarrow> game_state \<Rightarrow> bool" where
  "hypo_ready p s \<longleftrightarrow> tables_ok s \<and> stacks_ok s \<and> length (hands s) = num_players s \<and>
     (\<forall>ord \<in> set (all_orders s). \<exists>c. slot (thoughts p) ord = Some c \<and> card_ok (n_suits s) c) \<and>
     (\<forall>l \<in> set (links p). l_promised l \<longrightarrow> l_identities l \<noteq> [] \<and> in_deck s (hd (l_identities l)))"

text \<open>The identities that good touch eliminates are those that have been played, hypothetically.\<close>

definition hypo_inv :: "game_state \<Rightarrow> hypo_loop \<Rightarrow> bool" where
  "hypo_inv s h \<longleftrightarrow> length (hl_stacks h) = n_suits s \<and> iset_ok (n_suits s) (hl_elim h) \<and>
     (\<forall>k < n_suits s. play_stacks s ! k \<le> hl_stacks h ! k \<and> hl_stacks h ! k \<le> 5) \<and>
     (\<forall>i :: basic_card. in_deck s i \<longrightarrow> (iset_has (hl_elim h) i \<longleftrightarrow>
        play_stacks s ! nat (suit_index i) < rank i \<and> rank i \<le> hl_stacks h ! nat (suit_index i))) \<and>
     distinct (hl_played h) \<and> set (hl_played h) \<subseteq> set (all_orders s) \<and> set (hl_unknown h) \<subseteq> set (hl_played h)"

lemma hypo_readyD:
  assumes "hypo_ready p s"
  shows "tables_ok s" "stacks_ok s" "length (hands s) = num_players s" "length (play_stacks s) = n_suits s"
    "n_suits s \<le> 6"
  using assms tables_okD(2) by (auto simp: hypo_ready_def tables_ok_def)

lemma on_top_valid:
  "in_deck s i \<Longrightarrow> length stacks = n_suits s \<Longrightarrow> on_top stacks i \<longleftrightarrow> stacks ! nat (suit_index i) + 1 = rank i"
  by (auto simp: on_top_def get_def valid_id_def)

lemma play_on_inv:
  assumes inv: "hypo_inv s h" and i: "in_deck s i" and top: "on_top (hl_stacks h) i"
  shows "hypo_inv s (play_on i h)"
proof -
  have len: "length (hl_stacks h) = n_suits s" and ok: "iset_ok (n_suits s) (hl_elim h)"
    using inv by (simp_all add: hypo_inv_def)
  have k: "nat (suit_index i) < n_suits s" using valid_nat [OF i] by simp
  have t: "hl_stacks h ! nat (suit_index i) + 1 = rank i" using top on_top_valid [OF i len] by simp
  have r: "rank i \<le> 5" using i by (simp add: valid_id_def max_stack_rank_def)
  have has: "iset_has (iset_union (hl_elim h) (AnId i)) j \<longleftrightarrow> iset_has (hl_elim h) j \<or> j = i"
    if "in_deck s j" for j :: basic_card
    using iset_has_union [OF ok, of "AnId i" j] that i by auto
  have eq: "j = i \<longleftrightarrow> nat (suit_index j) = nat (suit_index i) \<and> rank j = rank i" if "in_deck s j" for j :: basic_card
    using raw_eq_iff [of j i] that i by (auto simp: valid_id_def)
  have pl: "play_stacks s ! nat (suit_index i) \<le> hl_stacks h ! nat (suit_index i)" using inv k by (simp add: hypo_inv_def)
  have 1: "iset_has (iset_union (hl_elim h) (AnId i)) j \<longleftrightarrow>
      play_stacks s ! nat (suit_index j) < rank j \<and> rank j \<le> (hl_stacks h)[nat (suit_index i) := rank i] ! nat (suit_index j)"
    if j: "in_deck s j" for j :: basic_card
  proof -
    have "iset_has (hl_elim h) j \<longleftrightarrow>
        play_stacks s ! nat (suit_index j) < rank j \<and> rank j \<le> hl_stacks h ! nat (suit_index j)"
      using inv j by (simp add: hypo_inv_def)
    then show ?thesis using has [OF j] eq [OF j] t pl k len by (auto simp: nth_list_update)
  qed
  have 2: "play_stacks s ! m \<le> (hl_stacks h)[nat (suit_index i) := rank i] ! m \<and>
      (hl_stacks h)[nat (suit_index i) := rank i] ! m \<le> 5" if "m < n_suits s" for m
  proof -
    have "play_stacks s ! m \<le> hl_stacks h ! m \<and> hl_stacks h ! m \<le> 5" using inv that by (simp add: hypo_inv_def)
    then show ?thesis using t r pl len that by (cases "m = nat (suit_index i)") auto
  qed
  have 3: "distinct (hl_played h)" "set (hl_played h) \<subseteq> set (all_orders s)" "set (hl_unknown h) \<subseteq> set (hl_played h)"
    using inv by (simp_all add: hypo_inv_def)
  show ?thesis using 1 2 3 len ok i by (simp add: hypo_inv_def play_on_def)
qed

definition hypo_grows :: "hypo_loop \<Rightarrow> hypo_loop \<Rightarrow> bool" where
  "hypo_grows h h' \<longleftrightarrow> length (hl_played h) \<le> length (hl_played h') \<and>
     (hl_found h' \<longrightarrow> hl_found h \<or> length (hl_played h) < length (hl_played h'))"

lemma play_on_frame [simp]:
  "hl_played (play_on i h) = hl_played h" "hl_unknown (play_on i h) = hl_unknown h" "hl_found (play_on i h) = hl_found h"
  by (simp_all add: play_on_def)

lemma set_add_simps [simp]: "set (set_add x xs) = insert x (set xs)" "distinct xs \<Longrightarrow> distinct (set_add x xs)"
  by (auto simp: set_add_def)

lemma play_known_ok:
  assumes "hypo_inv s h" "in_deck s i" "ord \<in> set (all_orders s)" "ord \<notin> set (hl_played h)"
  shows "hypo_inv s (play_known i ord h)" "hypo_grows h (play_known i ord h)"
proof -
  show "hypo_inv s (play_known i ord h)"
  proof (cases "on_top (hl_stacks h) i")
    case True
    have "hypo_inv s (play_on i h)" using assms(1,2) True by (rule play_on_inv)
    with True assms show ?thesis by (auto simp: play_known_def hypo_inv_def)
  qed (simp add: play_known_def assms(1))
  show "hypo_grows h (play_known i ord h)"
    using assms(4) by (simp add: play_known_def hypo_grows_def set_add_def)
qed

lemma play_unknown_ok:
  assumes r: "hypo_ready p s" and inv: "hypo_inv s h" and o: "ord \<in> set (all_orders s)" "ord \<notin> set (hl_played h)"
  shows "\<exists>h'. play_unknown p ord h = Inr h' \<and> hypo_inv s h' \<and> hypo_grows h h'"
proof -
  define h1 where "h1 = h\<lparr>hl_unknown := set_add ord (hl_unknown h), hl_played := set_add ord (hl_played h), hl_found := True\<rparr>"
  let ?P = "\<lambda>h'. hypo_inv s h' \<and> hl_played h' = hl_played h1"
  have start: "?P h1" using inv o by (auto simp: h1_def hypo_inv_def)
  have step: "\<exists>h'. fulfil g l = Inr h' \<and> ?P h'" if "l \<in> set (links p)" "l_promised l" "?P g" for l g
  proof -
    from that r obtain i js where i: "l_identities l = i # js" "in_deck s i"
      by (cases "l_identities l") (auto simp: hypo_ready_def)
    then show ?thesis using that(3) play_on_inv [of s g i] by (simp add: fulfil_def)
  qed
  have "\<exists>h'. play_unknown p ord h = Inr h' \<and> ?P h'"
    unfolding play_unknown_def Let_def h1_def [symmetric]
    by (rule foldR_total [where P = ?P]) (use start step in auto)
  moreover have "length (hl_played h1) = Suc (length (hl_played h))" using o(2) by (simp add: h1_def set_add_def)
  ultimately show ?thesis by (auto simp: hypo_grows_def)
qed

lemma hypo_grows_refl [simp]: "hypo_grows h h"
  by (simp add: hypo_grows_def)

lemma hypo_grows_trans: "hypo_grows h1 h2 \<Longrightarrow> hypo_grows h2 h3 \<Longrightarrow> hypo_grows h1 h3"
  by (auto simp: hypo_grows_def)

lemma hypo_card_ok:
  assumes r: "hypo_ready p s" and inv: "hypo_inv s h" and o: "snd po \<in> set (all_orders s)"
  shows "\<exists>h'. hypo_card p s ignore linked h po = Inr h' \<and> hypo_inv s h' \<and> hypo_grows h h'"
proof -
  let ?ord = "snd po"
  obtain c where c: "slot (thoughts p) ?ord = Some c" "card_ok (n_suits s) c" using r o by (auto simp: hypo_ready_def)
  show ?thesis
  proof (cases "(case ignore of Some os \<Rightarrow> ?ord \<in> set os | None \<Rightarrow> False) \<or>
      skip_card linked h ?ord c \<or> \<not> hypo_playable p s h ?ord c")
    case True
    then have "hypo_card p s ignore linked h po = Inr h" using c(1) by (auto simp: hypo_card_def Let_def)
    with inv show ?thesis by simp
  next
    case False
    then have np: "?ord \<notin> set (hl_played h)" by (simp add: skip_card_def)
    let ?ident = "identity (no_opts\<lparr>o_infer := Some True, o_symmetric := Some (player_index p = int (fst po))\<rparr>) c"
    have dup: "hypo_inv s (add_dup s a e ?ord h)" "hypo_grows h (add_dup s a e ?ord h)" for a e
      using inv by (simp_all add: add_dup_def hypo_inv_def hypo_grows_def)
    have known: "hypo_inv s (play_known i ?ord h) \<and> hypo_grows h (play_known i ?ord h)" if "?ident = Some i" for i
      using play_known_ok [OF inv identity_valid [OF c(2) that] o np] by simp
    consider (skip) "false_update p s ?ord c ?ident" | (dup) a e where "\<not> false_update p s ?ord c ?ident" "existing_play p s h ?ord = Some (a, e)"
      | (unknown) "\<not> false_update p s ?ord c ?ident" "existing_play p s h ?ord = None" "?ident = None"
      | (known) i where "\<not> false_update p s ?ord c ?ident" "existing_play p s h ?ord = None" "?ident = Some i"
      by (cases "existing_play p s h ?ord"; cases ?ident) auto
    then show ?thesis
    proof cases
      case skip
      with False c inv show ?thesis by (simp add: hypo_card_def Let_def)
    next
      case dup': dup
      with False c dup show ?thesis by (simp add: hypo_card_def Let_def)
    next
      case unknown
      with False c play_unknown_ok [OF r inv o np] show ?thesis by (simp add: hypo_card_def Let_def)
    next
      case known': known
      with False c known show ?thesis by (simp add: hypo_card_def Let_def)
    qed
  qed
qed

lemma hypo_rounds_ok:
  assumes r: "hypo_ready p s"
  shows "hypo_inv s h \<Longrightarrow> length (all_orders s) < fuel + length (hl_played h) \<Longrightarrow>
    \<exists>h'. hypo_rounds fuel p s ignore linked h = Inr h' \<and> hypo_inv s h'"
proof (induction fuel arbitrary: h)
  case 0
  then have "length (hl_played h) \<le> length (all_orders s)"
    by (metis card_length card_mono distinct_card hypo_inv_def List.finite_set order_trans)
  with 0 show ?case by simp
next
  case (Suc fuel)
  let ?h = "h\<lparr>hl_found := False\<rparr>" and ?pairs = "concat (map (\<lambda>i. map (Pair i) (hands s ! i)) [0..<num_players s])"
  let ?P = "\<lambda>h'. hypo_inv s h' \<and> hypo_grows ?h h'"
  have "\<exists>h'. foldR (hypo_card p s ignore linked) ?h ?pairs = Inr h' \<and> ?P h'"
  proof (rule foldR_total [where P = ?P])
    show "?P ?h" using Suc.prems(1) by (simp add: hypo_inv_def)
    fix g po assume po: "po \<in> set ?pairs" and g: "?P g"
    from po have "snd po \<in> set (all_orders s)" using hypo_readyD(3) [OF r] by (auto simp: all_orders_def)
    from hypo_card_ok [OF r _ this] g show "\<exists>h'. hypo_card p s ignore linked g po = Inr h' \<and> ?P h'"
      by (meson hypo_grows_trans)
  qed
  then obtain h' where h': "foldR (hypo_card p s ignore linked) ?h ?pairs = Inr h'" "hypo_inv s h'" "hypo_grows ?h h'" by blast
  show ?case
  proof (cases "hl_found h'")
    case True
    then have "length (hl_played h) < length (hl_played h')" using h'(3) by (simp add: hypo_grows_def)
    then have "length (all_orders s) < fuel + length (hl_played h')" using Suc.prems(2) by simp
    from Suc.IH [OF h'(2) this] True h'(1) show ?thesis by simp
  next
    case False
    with h' show ?thesis by simp
  qed
qed

lemma hypo_pass_ok:
  assumes r: "hypo_ready p s"
  shows "\<exists>h. hypo_pass p s ignore = Inr h \<and> hypo_inv s h"
proof -
  have "hypo_inv s (start_hypo s)"
    using hypo_readyD [OF r] iset_has_new(1) [OF _ hypo_readyD(5) [OF r]]
    by (auto simp: start_hypo_def hypo_inv_def iset_ok_new stacks_ok_def list_all2_conv_all_nth)
  then show ?thesis unfolding hypo_pass_def by (rule hypo_rounds_ok [OF r]) (simp add: start_hypo_def)
qed

definition hypo_bounds :: "game_state \<Rightarrow> player \<Rightarrow> bool" where
  "hypo_bounds s p \<longleftrightarrow> length (hypo_stacks p) = n_suits s \<and>
     (\<forall>k < n_suits s. play_stacks s ! k \<le> hypo_stacks p ! k \<and> hypo_stacks p ! k \<le> 5) \<and>
     distinct (hypo_plays p) \<and> set (hypo_plays p) \<subseteq> set (all_orders s) \<and> set (unknown_plays p) \<subseteq> set (hypo_plays p)"

lemma set_hypo_bounds: "hypo_inv s h \<Longrightarrow> hypo_bounds s (set_hypo h p)"
  by (simp add: hypo_inv_def hypo_bounds_def set_hypo_def)

text \<open>Only the hypothetical fields change, and the result is at least that of the first pass.\<close>

definition hypo_of :: "player \<Rightarrow> player \<Rightarrow> bool" where
  "hypo_of p q \<longleftrightarrow> (\<exists>h. q = set_hypo h p)"

lemma update_hypo_ok:
  assumes r: "hypo_ready p s"
  shows "\<exists>p' h. update_hypo_stacks p s ignore = Inr p' \<and> hypo_pass p s ignore = Inr h \<and>
    hypo_bounds s p' \<and> hypo_of p p' \<and> hypo_score (set_hypo h p) \<le> hypo_score p'"
proof -
  obtain h where h: "hypo_pass p s ignore = Inr h" "hypo_inv s h" using hypo_pass_ok [OF r] by blast
  let ?P = "\<lambda>q. hypo_bounds s q \<and> hypo_of p q \<and> hypo_score (set_hypo h p) \<le> hypo_score q"
  have start: "?P (set_hypo h p)" using h(2) set_hypo_bounds by (auto simp: hypo_of_def)
  have retry: "\<exists>acc'. try_ignore p s acc ord = Inr acc' \<and> ?P (fst acc')" if P: "?P (fst acc)" for acc ord
  proof -
    obtain g where g: "hypo_pass p s (Some (set_add ord (snd acc))) = Inr g" "hypo_inv s g"
      using hypo_pass_ok [OF r] by blast
    then show ?thesis using P set_hypo_bounds [OF g(2), of p]
      by (auto simp: try_ignore_def Let_def hypo_of_def)
  qed
  have outer: "\<exists>q'. bindR (foldR (try_ignore p s) (q, [hd os]) os) (\<lambda>acc. Inr (fst acc)) = Inr q' \<and> ?P q'"
    if "?P q" for q os
  proof -
    have "\<exists>acc. foldR (try_ignore p s) (q, [hd os]) os = Inr acc \<and> ?P (fst acc)"
      by (rule foldR_total [where P = "\<lambda>acc. ?P (fst acc)"]) (use that retry in auto)
    then show ?thesis by force
  qed
  have "\<exists>q. foldR (\<lambda>best os. bindR (foldR (try_ignore p s) (best, [hd os]) os) (\<lambda>acc. Inr (fst acc)))
      (set_hypo h p) (map snd (hl_dups h)) = Inr q \<and> ?P q"
    by (rule foldR_total [where P = ?P]) (use start outer in auto)
  with h start show ?thesis by (auto simp: update_hypo_stacks_def)
qed

end
