(* ===== verification/Hanabi_Utils.thy ===== *)
theory Hanabi_Utils
  imports Players
begin

text \<open>
  \<open>src/src/basics/hanabi-util.js\<close>: what a player can find, what is saved or trash in its view, and the value of
  an identity. A card's order that is not given is \<open>-1\<close>. \<open>visibleFind\<close> writes its default into the
  options it is given, which no caller reads again, so the default is computed here.
\<close>

definition visible_find :: "game_state \<Rightarrow> player \<Rightarrow> 'a basic_card_scheme \<Rightarrow> match_options \<Rightarrow> nat list \<Rightarrow> nat list" where
  "visible_find s p i opts ignore =
     (let infer = (if player_index p = int (our_player s) \<and> o_infer opts = None then Some True else o_infer opts)
      in concat (map (\<lambda>pl.
           if pl \<in> set ignore then []
           else
             let symmetric = (case o_symmetric opts of Some b \<Rightarrow> b | None \<Rightarrow> int pl = player_index p) in
             filter (\<lambda>ord. matches (opts\<lparr>o_infer := infer, o_symmetric := Some symmetric\<rparr>) (card_at p ord) i)
               (hands s ! pl)) [0..<length (hands s)]))"

definition saved_by :: "game_state \<Rightarrow> player \<Rightarrow> 'a basic_card_scheme \<Rightarrow> int \<Rightarrow> match_options \<Rightarrow> bool \<Rightarrow> nat \<Rightarrow> bool" where
  "saved_by s p i ord opts ignore_cm o2 \<longleftrightarrow>
     (let c = card_at p o2 in
      actual_matches (Some True) (deck_at s o2) i \<and> matches opts c i \<and> int o2 \<noteq> ord \<and>
      \<not> list_ex (\<lambda>l. list_ex (\<lambda>j. basic_matches j i \<and> list_ex (\<lambda>o3. int o3 = ord) (l_orders l)) (l_identities l)) (links p) \<and>
      (touched c \<or> (\<not> ignore_cm \<and> status c = Some CM)))"

definition is_saved :: "game_state \<Rightarrow> player \<Rightarrow> 'a basic_card_scheme \<Rightarrow> int \<Rightarrow> match_options \<Rightarrow> bool \<Rightarrow> bool" where
  "is_saved s p i ord opts ignore_cm \<longleftrightarrow> list_ex (saved_by s p i ord opts ignore_cm) (all_orders s)"

definition is_trash :: "game_state \<Rightarrow> player \<Rightarrow> 'a basic_card_scheme \<Rightarrow> int \<Rightarrow> match_options \<Rightarrow> bool \<Rightarrow> bool" where
  "is_trash s p i ord opts ignore_cm \<longleftrightarrow> is_basic_trash s i \<or> is_saved s p i ord opts ignore_cm"

definition save2 :: "game_state \<Rightarrow> player \<Rightarrow> 'a basic_card_scheme \<Rightarrow> bool" where
  "save2 s p i \<longleftrightarrow> rank i = 2 \<and> stack_of s i < 2 \<and> length (visible_find s p i infer_opts []) = 1"

text \<open>The average over the possibilities of an unknown card is a quotient, hence a rational. The value of an
  unknown identity without an order reads past the stacks (\<open>NaN\<close>) and is not meant.\<close>

definition id_value :: "game_state \<Rightarrow> player \<Rightarrow> 'a basic_card_scheme \<Rightarrow> int \<Rightarrow> int" where
  "id_value s p i ord =
     (if is_trash s p i ord infer_opts False \<or> length (visible_find s p i infer_opts []) > 1 then 0
      else if is_critical s i then 5
      else if save2 s p i then 4
      else 5 - (rank i - hypo_stacks p ! nat (suit_index i)))"

definition card_value :: "game_state \<Rightarrow> player \<Rightarrow> 'a basic_card_scheme \<Rightarrow> int \<Rightarrow> rat" where
  "card_value s p i ord =
     (if suit_index i = -1 \<and> rank i = -1 \<and> ord \<noteq> -1 then
        (let poss = possible (card_at p (nat ord)) in
         if iset_length poss = 0 then 0
         else of_int (sum_list (map (\<lambda>c. id_value s p c (-1)) (iset_array poss))) / of_int (iset_length poss))
      else of_int (id_value s p i ord))"

text \<open>\<open>knownAs\<close> on the common player.\<close>

definition known_as :: "player \<Rightarrow> game_state \<Rightarrow> nat \<Rightarrow> string list \<Rightarrow> bool" where
  "known_as common s ord re \<longleftrightarrow>
     list_all (\<lambda>i. regex_test re (suit_name (variant s) (suit_index i))) (iset_array (possible (card_at common ord)))"

lemma visible_find_orders: "ord \<in> set (visible_find s p i opts ignore) \<Longrightarrow> ord \<in> set (all_orders s)"
  by (auto simp: visible_find_def Let_def all_orders_def split: if_splits)

lemma id_value_critical:
  "is_critical s i \<Longrightarrow> \<not> is_trash s p i ord infer_opts False \<Longrightarrow> length (visible_find s p i infer_opts []) \<le> 1 \<Longrightarrow>
    id_value s p i ord = 5"
  by (simp add: id_value_def)

text \<open>For a player whose hypothetical stacks are on top of the play stacks, the value is between 0 and 5 when the
  identity is beyond them.\<close>

lemma id_value_range:
  assumes "in_deck s i" "0 \<le> hypo_stacks p ! nat (suit_index i)" "hypo_stacks p ! nat (suit_index i) < rank i"
  shows "0 \<le> id_value s p i ord \<and> id_value s p i ord \<le> 5"
  using assms by (auto simp: id_value_def valid_id_def max_stack_rank_def)

end
