(* ===== verification/Games.thy ===== *)
theory Games
  imports Card_Elim Good_Touch Card_Links Hypo_Stacks Hanabi_Utils
begin

text \<open>
  The class \<open>Game\<close> of \<open>src/src/basics/Game.js\<close>: the objective state, what everybody thinks, the common
  knowledge, the identities of the deck that have been seen, and the bookkeeping of the conventions.
  \<open>rewind_off\<close> is set for a simulated game, whose \<open>rewind\<close> is replaced by one that returns nothing.
\<close>

record note_entry =
  n_turn :: int
  n_last :: string
  n_full :: string

record game_base =
  b_state :: game_state
  b_players :: "player list"
  b_common :: player

text \<open>The moves that a convention records, and what a convention adds to the game. The sieves: the cards whose unlock has
  been put off (an array by order). The h-group: its level, the cards that a player finessed while being finessed, and
  whether a 5 has been stalled with. Both: the interpretations of the moves. (A discard may be recorded with the move
  \<open>undefined\<close>.)\<close>

datatype h_interp =
  H_None | H_Mistake | H_Play | H_Save | Trash_Finesse | Stall_5 | Stall_Tempo | Stall_Locked | Stall_Fillin |
  Stall_8clues | Stall_Burn | Distribution | H_Fix | Cm_Trash | Cm_5 | Cm_Tempo | Positional_Clue |
  Cm_Order | H_Sarcastic | H_Scream | H_Shout | H_Gen | Pos_Discard | Pos_Misplay | Gentlemans | Baton | H_Undefined

datatype interp =
  No_Clue | Mistake | Ref_Play | Ref_Dc | Lock | Reveal | Reclue | Stall | H_Move h_interp

record own_state =
  locked_shifts :: "int option list"
  move_history :: "(int \<times> interp) list"
  level :: nat
  finesses_while_finessed :: "actual_card list list"
  stalled_5 :: bool

definition no_own :: own_state where
  "no_own = \<lparr>locked_shifts = [], move_history = [], level = 1, finesses_while_finessed = [], stalled_5 = False\<rparr>"

record game =
  good_touch :: bool
  in_progress :: bool
  catchup :: bool
  g_state :: game_state
  deck_ids :: "basic_card option list"
  g_players :: "player list"
  common :: player
  last_actions :: "action option list"
  hand_history :: "nat list option list"
  g_notes :: "note_entry option list"
  rewinds :: nat
  rewind_depth :: nat
  copy_depth :: nat
  next_ignore :: "(nat \<times> basic_card option) list option list"
  next_finesse :: "(nat list \<times> base_clue) list"
  g_base :: game_base
  queued_notes :: "(nat \<times> string) list"
  rewind_off :: bool
  own :: own_state

definition new_game :: "game_state \<Rightarrow> bool \<Rightarrow> game_base option \<Rightarrow> game" where
  "new_game s progress base =
     (let all = iset_full (n_suits s); zeros = replicate (n_suits s) 0;
          ps = (case base of Some b \<Rightarrow> b_players b
                | None \<Rightarrow> map (\<lambda>i. new_player (int i) all all zeros) [0..<num_players s]);
          com = (case base of Some b \<Rightarrow> b_common b | None \<Rightarrow> new_player (-1) all all zeros)
      in \<lparr>good_touch = True, in_progress = progress, catchup = False, g_state = s,
          deck_ids = replicate (nat (cards_left s)) None, g_players = ps, common = com, last_actions = [],
          hand_history = [], g_notes = [], rewinds = 0, rewind_depth = 0, copy_depth = 0, next_ignore = [],
          next_finesse = [],
          g_base = (case base of Some b \<Rightarrow> b
            | None \<Rightarrow> \<lparr>b_state = minimal_copy s, b_players = ps, b_common = com\<rparr>),
          queued_notes = [], rewind_off = False, own = no_own\<rparr>)"

definition me :: "game \<Rightarrow> player" where
  "me g = g_players g ! our_player (g_state g)"

definition all_players :: "game \<Rightarrow> player list" where
  "all_players g = g_players g @ [common g]"

definition create_blank_game :: "game \<Rightarrow> game" where
  "create_blank_game g =
     (new_game (minimal_copy (b_state (g_base g))) (in_progress g) (Some (g_base g)))
       \<lparr>good_touch := good_touch g, g_notes := g_notes g, rewinds := rewinds g, g_base := g_base g, deck_ids := deck_ids g\<rparr>"

definition minimal_copy_game :: "game \<Rightarrow> game result" where
  "minimal_copy_game g =
     (if copy_depth g > 100 then Inl (Thrown ''Maximum recursive depth reached.'')
      else Inr ((new_game (minimal_copy (g_state g)) (in_progress g) None)
        \<lparr>good_touch := good_touch g, g_players := g_players g, common := common g, last_actions := last_actions g,
         rewind_depth := rewind_depth g, next_ignore := next_ignore g, next_finesse := next_finesse g,
         hand_history := hand_history g, deck_ids := deck_ids g, copy_depth := copy_depth g + 1, g_base := g_base g\<rparr>))"

text \<open>\<open>getIgnoreOrders\<close> of \<open>src/src/basics/hanabi-util.js\<close>.\<close>

definition get_ignore_orders :: "game \<Rightarrow> nat \<Rightarrow> int \<Rightarrow> bool \<Rightarrow> nat list" where
  "get_ignore_orders g index suit possibly_bluff =
     map fst (filter (\<lambda>e. case snd e of None \<Rightarrow> True | Some i \<Rightarrow> possibly_bluff \<or> suit_index i = suit)
       (case slot (next_ignore g) index of Some es \<Rightarrow> es | None \<Rightarrow> []))"

section \<open>Notes\<close>

text \<open>A note is written when it differs from the last one and the turn is later; the command to set it is
  queued unless the game is catching up.\<close>

definition link_note :: "game_state \<Rightarrow> link list \<Rightarrow> string" where
  "link_note s ls = join_with ''? '' (map (log_id (variant s)) (concat (map l_identities ls))) @ ''?''"

definition note_text :: "game \<Rightarrow> nat \<Rightarrow> card \<Rightarrow> string" where
  "note_text g ord c =
     (let text = get_note (variant (g_state g)) c;
          ls = filter (\<lambda>l. l_promised l \<and> ord \<in> set (l_orders l)) (links (common g))
      in if ls = [] then text
         else if contains '']'' text then text @ link_note (g_state g) ls
         else ''['' @ text @ ''] '' @ link_note (g_state g) ls)"

definition append_note :: "int \<Rightarrow> string \<Rightarrow> note_entry \<Rightarrow> note_entry" where
  "append_note turn text n =
     n\<lparr>n_last := text, n_turn := turn,
       n_full := (if n_full n = [] then [] else n_full n @ '' | '') @ ''t'' @ int_string turn @ '': '' @ text\<rparr>"

definition update_note :: "game \<Rightarrow> note_entry option list \<times> (nat \<times> string) list \<Rightarrow> nat \<Rightarrow>
    (note_entry option list \<times> (nat \<times> string) list) result" where
  "update_note g acc ord =
     bindR (need (slot (thoughts (common g)) ord)) (\<lambda>c.
       if status c = None then Inr acc
       else
         let n = (case slot (fst acc) ord of Some n \<Rightarrow> n | None \<Rightarrow> \<lparr>n_turn = 0, n_last = [], n_full = []\<rparr>);
             turn = turn_count (g_state g); text = note_text g ord c in
         if text \<noteq> n_last n \<and> turn > n_turn n then
           let n' = append_note turn text n in
           Inr (put (fst acc) ord n',
                if \<not> catchup g \<and> in_progress g then snd acc @ [(ord, n_full n')] else snd acc)
         else Inr (put (fst acc) ord n, snd acc))"

definition update_notes :: "game \<Rightarrow> game result" where
  "update_notes g =
     (if speedrun (options (g_state g)) then Inr g
      else bindR (foldR (update_note g) (g_notes g, queued_notes g) (all_orders (g_state g))) (\<lambda>acc.
        Inr (g\<lparr>g_notes := fst acc, queued_notes := snd acc\<rparr>)))"

text \<open>A note is never written twice for the same turn, and what has been written stays a prefix.\<close>

lemma append_note_prefix: "\<exists>rest. n_full (append_note turn text n) = n_full n @ rest"
  by (cases "n_full n = []") (simp_all add: append_note_def)

lemma create_blank_base: "g_base (create_blank_game g) = g_base g" "deck_ids (create_blank_game g) = deck_ids g"
  by (simp_all add: create_blank_game_def)

end
