(* ===== verification/Game_Basics.thy ===== *)
theory Game_Basics
  imports Games
begin

text \<open>
  \<open>src/src/basics.js\<close> and \<open>src/src/basics/helper.js\<close>: the mechanics of a clue, a play, a discard and a draw on
  the state and on common knowledge, and the update of every player from common knowledge
  (\<open>team_elimP\<close>). Card elimination, good touch elimination and the links follow each of them.
\<close>

section \<open>Every player from common knowledge\<close>

text \<open>The writes that common knowledge has recorded are replayed on the player's card, except those of the
  possibilities and inferences, which are intersected with what is possible for the player.\<close>

definition merge_patch :: "player \<Rightarrow> player \<Rightarrow> player \<Rightarrow> nat \<times> card_write list \<Rightarrow> player result" where
  "merge_patch com orig q e =
     bindR (need (slot (thoughts com) (fst e))) (\<lambda>cc.
     bindR (need (slot (thoughts orig) (fst e))) (\<lambda>oc.
     bindR (need (slot (thoughts q) (fst e))) (\<lambda>c.
       Inr (q\<lparr>thoughts := put (thoughts q) (fst e)
         ((apply_patches c (filter (\<lambda>w. \<not> is_info w) (snd e)))
           \<lparr>possible := iset_intersect (possible cc) (ASet (possible oc)),
            inferred := iset_intersect (inferred cc) (ASet (possible oc))\<rparr>)\<rparr>))))"

text \<open>The links are refreshed and the hypothetical stacks computed after the eliminations.\<close>

definition team_player :: "game \<Rightarrow> player \<Rightarrow> player result" where
  "team_player g p =
     (let s = g_state g; com = common g in
      bindR (foldR (merge_patch com p) p (patches com)) (\<lambda>q.
      bindR (card_elim (q\<lparr>waiting_connections := waiting_connections com\<rparr>) s) (\<lambda>q1.
      bindR (if good_touch g then good_touch_elim q1 s (num_players s = 2) else Inr q1) (\<lambda>q2.
      bindR (refresh_links q2 s) (\<lambda>q3. update_hypo_stacks q3 s None)))))"

fun mapR :: "('a \<Rightarrow> 'b result) \<Rightarrow> 'a list \<Rightarrow> 'b list result" where
  "mapR f [] = Inr []"
| "mapR f (x # xs) = bindR (f x) (\<lambda>y. bindR (mapR f xs) (\<lambda>ys. Inr (y # ys)))"

definition team_elim :: "game \<Rightarrow> game result" where
  "team_elim g =
     bindR (mapR (team_player g) (g_players g)) (\<lambda>ps.
       Inr (g\<lparr>g_players := ps, common := (common g)\<lparr>patches := []\<rparr>\<rparr>))"

text \<open>What follows a change of common knowledge.\<close>

definition elim_common :: "bool \<Rightarrow> game_state \<Rightarrow> game_state \<Rightarrow> player \<Rightarrow> player result" where
  "elim_common gt s gt_state com =
     bindR (card_elim com s) (\<lambda>c1.
     bindR (if gt then good_touch_elim c1 gt_state False else Inr c1) (\<lambda>c2. refresh_links c2 s))"

section \<open>Clues\<close>

definition clue_entry :: "clue_action \<Rightarrow> int \<Rightarrow> card_clue" where
  "clue_entry a turn =
     \<lparr>clue_kind = clue_kind (ca_clue a), clue_value = clue_value (ca_clue a), clue_giver = ca_giver a, clue_turn = turn\<rparr>"

definition touch_actual :: "card_clue \<Rightarrow> actual_card \<Rightarrow> actual_card" where
  "touch_actual cl d =
     (if clued d then d\<lparr>clues := clues d @ [cl]\<rparr>
      else d\<lparr>newly_clued := True, clued := True, clues := clues d @ [cl]\<rparr>)"

definition update_deck :: "(actual_card \<Rightarrow> actual_card) \<Rightarrow> nat \<Rightarrow> game_state \<Rightarrow> game_state result" where
  "update_deck f ord s = bindR (need (slot (deck s) ord)) (\<lambda>d. Inr (s\<lparr>deck := put (deck s) ord (f d)\<rparr>))"

definition clue_writes :: "clue_action \<Rightarrow> int \<Rightarrow> nat \<Rightarrow> card \<Rightarrow> ids_arg \<Rightarrow> card \<Rightarrow> card_write list" where
  "clue_writes a turn ord prior new_possible d =
     (let touched = ord \<in> set (ca_list a);
          new_p = (if touched then iset_intersect (possible prior) new_possible else iset_subtract (possible prior) new_possible);
          new_i = (if touched then iset_intersect (inferred prior) new_possible else iset_subtract (inferred prior) new_possible)
      in (if touched then
            (if \<not> clued prior then
               [W_first_touch \<lparr>ft_giver = ca_giver a, ft_turn = turn\<rparr>, W_last_status (status d), W_status (Some CLUED)] else []) @
            (if \<not> clued d then [W_newly_clued True, W_clued True] else []) @
            [W_clues (clues d @ [clue_entry a turn])] else []) @
         [W_possible new_p, W_inferred new_i] @
         (if touched \<and> iset_length new_i < iset_length (inferred prior)
          then [W_reasoning_turn (reasoning_turn d @ [turn])] else []))"

definition clue_order :: "clue_action \<Rightarrow> game_state \<Rightarrow> player \<Rightarrow> ids_arg \<Rightarrow> player \<Rightarrow> nat \<Rightarrow> player result" where
  "clue_order a s com new_possible q ord =
     bindR (need (slot (thoughts com) ord)) (\<lambda>prior.
       with_thoughts q ord (clue_writes a (turn_count s) ord prior new_possible) True)"

definition on_clue :: "game \<Rightarrow> clue_action \<Rightarrow> game result" where
  "on_clue g a =
     (let s = g_state g; new_possible = Ids (find_possibilities (ca_clue a) (variant s)) in
      bindR (foldR (\<lambda>s' ord. update_deck (touch_actual (clue_entry a (turn_count s))) ord s') s (ca_list a)) (\<lambda>s1.
      bindR (foldR (clue_order a s (common g) new_possible) (common g) (hands s ! ca_target a)) (\<lambda>c0.
      bindR (card_elim c0 s1) (\<lambda>c1.
      bindR (if good_touch g then good_touch_elim c1 s1 False else Inr c1) (\<lambda>c2.
        let s2 = s1\<lparr>endgame_turns := (if endgame_turns s1 \<noteq> -1 then endgame_turns s1 - 1 else -1),
                    clue_tokens := clue_tokens s1 - 1\<rparr> in
      bindR (refresh_links c2 s2) (\<lambda>c3. team_elim (g\<lparr>g_state := s2, common := c3\<rparr>)))))))"

section \<open>Discards and plays\<close>

definition know_card :: "basic_card \<Rightarrow> actual_card \<Rightarrow> actual_card" where
  "know_card i d = d\<lparr>suit_index := suit_index i, rank := rank i\<rparr>"

definition bump_discard :: "int list list \<Rightarrow> basic_card \<Rightarrow> int list list" where
  "bump_discard ds i =
     ds[nat (suit_index i) := (ds ! nat (suit_index i))[nat (rank i - 1) := ds ! nat (suit_index i) ! nat (rank i - 1) + 1]]"

definition remove_from_hand :: "nat \<Rightarrow> nat \<Rightarrow> game_state \<Rightarrow> game_state" where
  "remove_from_hand pl ord s =
     s\<lparr>hands := (hands s)[pl := splice1 (hands s ! pl) (index_of (hands s ! pl) ord)]\<rparr>"

definition act_id :: "card_action \<Rightarrow> basic_card" where
  "act_id a = mk_id (act_suit a) (act_rank a)"

definition known_action :: "card_action \<Rightarrow> bool" where
  "known_action a \<longleftrightarrow> act_suit a \<noteq> -1 \<and> act_rank a \<noteq> -1"

definition discard_state_of :: "game_state \<Rightarrow> card_action \<Rightarrow> bool \<Rightarrow> game_state result" where
  "discard_state_of s a failed =
     (let s1 = remove_from_hand (act_player a) (act_order a) s; i = act_id a in
      bindR (if known_action a then
          bindR (update_deck (know_card i) (act_order a) s1) (\<lambda>s2.
            let ds = bump_discard (discard_stacks s2) i in
            Inr (s2\<lparr>discard_stacks := ds,
              max_ranks := (if ds ! nat (suit_index i) ! nat (rank i - 1) = total_count s i
                then (max_ranks s2)[nat (suit_index i) := min (max_rank_of s i) (rank i - 1)] else max_ranks s2)\<rparr>))
        else Inr s1) (\<lambda>s3.
      Inr (s3\<lparr>endgame_turns := (if endgame_turns s \<noteq> -1 then endgame_turns s - 1 else -1),
        strikes := (if failed then strikes s + 1 else strikes s),
        clue_tokens := (if failed then clue_tokens s else min (clue_tokens s + 1) 8)\<rparr>)))"

definition play_state :: "game_state \<Rightarrow> card_action \<Rightarrow> game_state result" where
  "play_state s a =
     (let s1 = remove_from_hand (act_player a) (act_order a) s; i = act_id a in
      bindR (if known_action a then
          bindR (update_deck (know_card i) (act_order a) s1) (\<lambda>s2.
            Inr (s2\<lparr>play_stacks := (play_stacks s2)[nat (suit_index i) := rank i]\<rparr>))
        else Inr s1) (\<lambda>s3.
      Inr (s3\<lparr>endgame_turns := (if endgame_turns s \<noteq> -1 then endgame_turns s - 1 else -1),
        clue_tokens := (if act_rank a = 5 \<and> clue_tokens s < 8 then clue_tokens s + 1 else clue_tokens s)\<rparr>)))"

definition reveal_writes :: "basic_card \<Rightarrow> card \<Rightarrow> card_write list" where
  "reveal_writes i c =
     [W_suit_index (suit_index i), W_rank (rank i), W_old_possible (possible c), W_old_inferred (inferred c),
      W_possible (iset_intersect (possible c) (AnId i)), W_inferred (iset_intersect (inferred c) (AnId i))]"

text \<open>A card that leaves a hand is revealed to everyone; the state is already the new one.\<close>

definition card_leaves :: "game \<Rightarrow> card_action \<Rightarrow> game_state \<Rightarrow> game result" where
  "card_leaves g a s' =
     (if known_action a then
        bindR (with_at (deck_ids g) (act_order a) (act_id a)) (\<lambda>ids.
        bindR (with_thoughts (common g) (act_order a) (reveal_writes (act_id a)) True) (\<lambda>c0.
        bindR (elim_common (good_touch g) s' s' c0) (\<lambda>c1.
          team_elim (g\<lparr>deck_ids := ids, common := c1, g_state := s'\<rparr>))))
      else team_elim (g\<lparr>g_state := s'\<rparr>))"

definition on_discard :: "game \<Rightarrow> card_action \<Rightarrow> bool \<Rightarrow> game result" where
  "on_discard g a failed = bindR (discard_state_of (g_state g) a failed) (card_leaves g a)"

definition on_play :: "game \<Rightarrow> card_action \<Rightarrow> game result" where
  "on_play g a = bindR (play_state (g_state g) a) (card_leaves g a)"

section \<open>Draws\<close>

definition draw_state :: "game \<Rightarrow> card_action \<Rightarrow> game_state" where
  "draw_state g a =
     (let s = g_state g; ident = slot (deck_ids g) (act_order a);
          d = new_actual (case ident of Some i \<Rightarrow> suit_index i | None \<Rightarrow> act_suit a)
                (case ident of Some i \<Rightarrow> rank i | None \<Rightarrow> act_rank a) (act_order a) (turn_count s);
          left = cards_left s - 1
      in s\<lparr>hands := (hands s)[act_player a := act_order a # hands s ! act_player a],
           deck := put (deck s) (act_order a) d, card_order := int (act_order a), cards_left := left,
           endgame_turns := (if left = 0 then int (num_players s) else endgame_turns s)\<rparr>)"

definition drawn_card :: "player \<Rightarrow> int \<Rightarrow> int \<Rightarrow> nat \<Rightarrow> int \<Rightarrow> card" where
  "drawn_card p suit r ord turn = new_card suit r (all_possible p) (all_possible p) ord turn"

definition draw_for :: "game_state \<Rightarrow> int \<Rightarrow> card_action \<Rightarrow> nat \<Rightarrow> player \<Rightarrow> player" where
  "draw_for s turn a i p =
     (let sees = i \<noteq> act_player a \<or> i = our_player s in
      p\<lparr>thoughts := put (thoughts p) (act_order a)
         (drawn_card p (if sees then act_suit a else -1) (if sees then act_rank a else -1) (act_order a) turn)\<rparr>)"

text \<open>Good touch elimination of common knowledge is given the state before the draw.\<close>

definition on_draw :: "game \<Rightarrow> card_action \<Rightarrow> game result" where
  "on_draw g a =
     (let s = g_state g in
      if int (length (hands s ! act_player a)) > hand_size s then Inl (Thrown ''drew card when hand was full'')
      else
        let s' = draw_state g a; turn = turn_count s in
        bindR (mapR (\<lambda>(i, p). bindR (card_elim (draw_for s turn a i p) s') (\<lambda>q. refresh_links q s'))
            (zip [0..<length (g_players g)] (g_players g))) (\<lambda>ps.
        bindR (elim_common (good_touch g) s' s ((common g)\<lparr>thoughts := put (thoughts (common g)) (act_order a)
            (drawn_card (common g) (-1) (-1) (act_order a) turn)\<rparr>)) (\<lambda>c.
        bindR (if known_action a then with_at (deck_ids g) (act_order a) (act_id a) else Inr (deck_ids g)) (\<lambda>ids.
          Inr (g\<lparr>deck_ids := ids, g_state := s', g_players := ps, common := c\<rparr>)))))"

end
