(* ===== verification/Consistency.thy ===== *)
theory Consistency
  imports Players
begin

text \<open>
  What it means that a player's thoughts are right. A truth assigns to every order in the hands the
  identity that the card really has; it fits a state when no identity has more copies out than the deck has and
  the cards we can see are what we see. A card fits an identity when that identity is among its
  possibilities and everything else that names an identity of the card names this one. The eliminations and
  the handlers keep it: this is what makes them sound.
\<close>

section \<open>One card\<close>

definition fits :: "nat \<Rightarrow> card \<Rightarrow> basic_card \<Rightarrow> bool" where
  "fits n c i \<longleftrightarrow> card_ok n c \<and> iset_has (possible c) i \<and>
     (suit_index c = -1 \<or> suit_index c = suit_index i) \<and> (rank c = -1 \<or> rank c = rank i) \<and>
     (single (rewind_ids c) \<longrightarrow> first_id (rewind_ids c) = Some i)"

lemma fitsD: "fits n c i \<Longrightarrow> card_ok n c" "fits n c i \<Longrightarrow> iset_has (possible c) i"
  "fits n c i \<Longrightarrow> iset_ok n (possible c)" "fits n c i \<Longrightarrow> iset_ok n (inferred c)"
  by (simp_all add: fits_def card_okD)

lemma fits_raw: "fits n c i \<Longrightarrow> suit_index c \<noteq> -1 \<Longrightarrow> rank c \<noteq> -1 \<Longrightarrow> raw c = i"
  using raw_eq_iff [of c i] by (auto simp: fits_def)

lemma fits_identity:
  assumes "fits n c i" "valid_id n i" "o_infer opts \<noteq> Some True" "identity opts c = Some j"
  shows "j = i"
proof (cases "iset_length (possible c) = 1")
  case True
  with assms have "iset_array (possible c) = [i]" by (intro idset.size_one_unique [of n]) (auto simp: fits_def card_okD)
  with assms(4) True show ?thesis by (simp add: identity_def first_id_def)
next
  case False
  with assms fits_raw [OF assms(1)] show ?thesis by (auto simp: identity_def fits_def Let_def split: if_splits)
qed

lemma fits_matches:
  "fits n c i \<Longrightarrow> valid_id n i \<Longrightarrow> matches no_opts c j \<Longrightarrow> raw j = i"
  using fits_identity [of n c i no_opts "raw j"] by (auto simp: matches_identity) (simp add: no_opts_def)

lemma fits_reset: "fits n c i \<Longrightarrow> fits n (reset_inferences c) i"
  by (simp add: fits_def reset_inferences_ok raw_def)

lemma single_possible_identity:
  "card_ok n c \<Longrightarrow> iset_length (possible c) = 1 \<Longrightarrow> \<exists>i. identity opts c = Some i \<and> valid_id n i"
  using identity_possible_single [of n c opts] identity_valid [of n c opts] by auto

section \<open>A state and its truth\<close>

type_synonym truth = "nat \<Rightarrow> basic_card"

definition copies :: "game_state \<Rightarrow> truth \<Rightarrow> basic_card \<Rightarrow> nat set" where
  "copies s \<sigma> i = {ord \<in> set (all_orders s). \<sigma> ord = i}"

definition truth_ok :: "game_state \<Rightarrow> truth \<Rightarrow> bool" where
  "truth_ok s \<sigma> \<longleftrightarrow> tables_ok s \<and> length (hands s) = num_players s \<and> distinct (all_orders s) \<and>
     (\<forall>ord \<in> set (all_orders s). in_deck s (\<sigma> ord) \<and>
        (\<exists>d. slot (deck s) ord = Some d \<and> (basic_identity d = None \<or> basic_identity d = Some (\<sigma> ord)))) \<and>
     (\<forall>i. in_deck s i \<longrightarrow> base_count s i + int (card (copies s \<sigma> i)) \<le> total_count s i)"

definition exhausted :: "game_state \<Rightarrow> truth \<Rightarrow> basic_card \<Rightarrow> bool" where
  "exhausted s \<sigma> i \<longleftrightarrow> base_count s i + int (card (copies s \<sigma> i)) = total_count s i"

definition knows :: "player \<Rightarrow> game_state \<Rightarrow> truth \<Rightarrow> bool" where
  "knows p s \<sigma> \<longleftrightarrow>
     (\<forall>ord \<in> set (all_orders s). \<exists>c. slot (thoughts p) ord = Some c \<and> fits (n_suits s) c (\<sigma> ord))"

lemma truth_okD:
  assumes "truth_ok s \<sigma>"
  shows "tables_ok s" "length (hands s) = num_players s" "distinct (all_orders s)"
    "\<And>ord. ord \<in> set (all_orders s) \<Longrightarrow> in_deck s (\<sigma> ord)"
    "\<And>i. in_deck s i \<Longrightarrow> base_count s i + int (card (copies s \<sigma> i)) \<le> total_count s i"
  using assms by (auto simp: truth_ok_def)

lemma truth_deck_id:
  "truth_ok s \<sigma> \<Longrightarrow> ord \<in> set (all_orders s) \<Longrightarrow> deck_id s ord = Some i \<Longrightarrow> i = \<sigma> ord"
  by (fastforce simp: truth_ok_def deck_id_def deck_at_def)

lemma truth_deck_matches:
  "truth_ok s \<sigma> \<Longrightarrow> ord \<in> set (all_orders s) \<Longrightarrow> actual_matches None (deck_at s ord) i \<Longrightarrow> raw i = \<sigma> ord"
  using truth_deck_id [of s \<sigma> ord "raw (deck_at s ord)"]
  by (auto simp: actual_matches_def deck_id_def basic_identity_def raw_def split: if_splits)

lemma finite_copies [simp]: "finite (copies s \<sigma> i)"
  by (simp add: copies_def)

lemma in_hand_all_orders: "pl < length (hands s) \<Longrightarrow> ord \<in> set (hands s ! pl) \<Longrightarrow> ord \<in> set (all_orders s)"
  by (auto simp: all_orders_def)

text \<open>An order is in one hand only.\<close>

lemma distinct_concat_unique:
  "distinct (concat xss) \<Longrightarrow> i < length xss \<Longrightarrow> j < length xss \<Longrightarrow> x \<in> set (xss ! i) \<Longrightarrow> x \<in> set (xss ! j) \<Longrightarrow> i = j"
proof (induction xss arbitrary: i j)
  case (Cons xs xss)
  then show ?case
    by (cases i; cases j) (auto, (metis IntI Union_iff empty_iff image_eqI nth_mem)+)
qed simp

lemma hand_unique:
  "truth_ok s \<sigma> \<Longrightarrow> i < num_players s \<Longrightarrow> j < num_players s \<Longrightarrow>
    ord \<in> set (hands s ! i) \<Longrightarrow> ord \<in> set (hands s ! j) \<Longrightarrow> i = j"
  using distinct_concat_unique [of "hands s" i j ord] truth_okD(2,3) [of s \<sigma>]
  by (simp add: all_orders_def)

section \<open>Counting\<close>

text \<open>The copies of the identities of a set, summed over the set.\<close>

lemma card_copies_sum:
  "distinct is \<Longrightarrow> card {ord \<in> set (all_orders s). \<sigma> ord \<in> set is} = sum_list (map (\<lambda>i. card (copies s \<sigma> i)) is)"
proof (induction "is")
  case (Cons i "is")
  have "{ord \<in> set (all_orders s). \<sigma> ord \<in> set (i # is)}
      = copies s \<sigma> i \<union> {ord \<in> set (all_orders s). \<sigma> ord \<in> set is}"
    by (auto simp: copies_def)
  moreover have "copies s \<sigma> i \<inter> {ord \<in> set (all_orders s). \<sigma> ord \<in> set is} = {}"
    using Cons.prems by (auto simp: copies_def)
  ultimately show ?case using Cons by (simp add: card_Un_disjoint)
qed simp

lemma copies_bound_sum:
  assumes "truth_ok s \<sigma>" "distinct is" "\<And>i. i \<in> set is \<Longrightarrow> in_deck s i"
  shows "int (card {ord \<in> set (all_orders s). \<sigma> ord \<in> set is}) \<le> sum_list (map (\<lambda>i. total_count s i - base_count s i) is)"
proof -
  have "int (sum_list (map (\<lambda>i. card (copies s \<sigma> i)) is)) = sum_list (map (\<lambda>i. int (card (copies s \<sigma> i))) is)"
    by (induction "is") simp_all
  also have "\<dots> \<le> sum_list (map (\<lambda>i. total_count s i - base_count s i) is)"
    using truth_okD(5) [OF assms(1)] assms(3) by (intro sum_list_mono) (auto simp: algebra_simps)
  finally show ?thesis by (simp add: card_copies_sum [OF assms(2)])
qed

text \<open>As many known copies as there can be are all of them.\<close>

lemma all_copies_known:
  assumes t: "truth_ok s \<sigma>" and d: "distinct is" "\<And>i. i \<in> set is \<Longrightarrow> in_deck s i"
    and k: "set ks \<subseteq> {ord \<in> set (all_orders s). \<sigma> ord \<in> set is}" "distinct ks"
    and n: "sum_list (map (\<lambda>i. total_count s i - base_count s i) is) \<le> int (length ks)"
  shows "set ks = {ord \<in> set (all_orders s). \<sigma> ord \<in> set is}"
proof (rule card_subset_eq)
  have "card (set ks) \<le> card {ord \<in> set (all_orders s). \<sigma> ord \<in> set is}" using k(1) by (intro card_mono) auto
  with copies_bound_sum [OF t d] n k(2)
  show "card (set ks) = card {ord \<in> set (all_orders s). \<sigma> ord \<in> set is}" by (simp add: distinct_card)
qed (use k in auto)

lemma all_copies_of:
  assumes t: "truth_ok s \<sigma>" and i: "in_deck s i" and k: "set ks \<subseteq> copies s \<sigma> i" "distinct ks"
    and n: "total_count s i \<le> base_count s i + int (length ks)"
  shows "set ks = copies s \<sigma> i" "exhausted s \<sigma> i"
proof -
  show e: "set ks = copies s \<sigma> i"
    using all_copies_known [of s \<sigma> "[i]" ks] assms by (auto simp: copies_def)
  show "exhausted s \<sigma> i"
    using n truth_okD(5) [OF t i] distinct_card [OF k(2)] by (simp add: exhausted_def e)
qed

end
