(* ===== verification/Card_Elim_Sound.thy ===== *)
theory Card_Elim_Sound
  imports Card_Elim Consistency
begin

text \<open>
  Card elimination is sound and total: under a truth that fits the state and the player's thoughts it never
  throws, its recursions end, every card keeps its true identity among its possibilities, the
  possibilities only shrink, and an identity is eliminated from the future cards only when every copy
  is out. The invariant \<open>elim_inv\<close> says that the local variables agree with the truth, the preorder
  \<open>elim_le\<close> what a step of the elimination may do.
\<close>

section \<open>The invariant\<close>

abbreviation certain_orders :: "game_state \<Rightarrow> elim_state \<Rightarrow> basic_card \<Rightarrow> nat list" where
  "certain_orders s st i \<equiv> map fst (certains_of s st i)"

definition entries_ok :: "game_state \<Rightarrow> (nat \<times> nat) list \<Rightarrow> bool" where
  "entries_ok s es \<longleftrightarrow> distinct (map fst es) \<and>
     (\<forall>e \<in> set es. snd e < num_players s \<and> fst e \<in> set (hands s ! snd e))"

definition certain_ok :: "game_state \<Rightarrow> truth \<Rightarrow> elim_state \<Rightarrow> bool" where
  "certain_ok s \<sigma> st \<longleftrightarrow> (\<forall>i. in_deck s i \<longrightarrow>
     distinct (certain_orders s st i) \<and> set (certain_orders s st i) \<subseteq> copies s \<sigma> i)"

definition thoughts_fit :: "player \<Rightarrow> game_state \<Rightarrow> truth \<Rightarrow> elim_state \<Rightarrow> bool" where
  "thoughts_fit p s \<sigma> st \<longleftrightarrow>
     (\<forall>ord \<in> set (all_orders s). \<exists>c. thought p st ord = Some c \<and> fits (n_suits s) c (\<sigma> ord))"

definition elim_inv :: "player \<Rightarrow> game_state \<Rightarrow> truth \<Rightarrow> elim_state \<Rightarrow> bool" where
  "elim_inv p s \<sigma> st \<longleftrightarrow> thoughts_fit p s \<sigma> st \<and> certain_ok s \<sigma> st \<and> entries_ok s (es_cands st) \<and>
     iset_ok (n_suits s) (es_elim st) \<and>
     (\<forall>i. in_deck s i \<longrightarrow> iset_has (es_elim st) i \<longrightarrow> exhausted s \<sigma> i) \<and>
     fst ` set (es_new st) \<subseteq> set (all_orders s) \<and> distinct (map fst (es_new st))"

definition ids_left :: "player \<Rightarrow> game_state \<Rightarrow> elim_state \<Rightarrow> nat \<Rightarrow> basic_card set" where
  "ids_left p s st ord =
     {i. in_deck s i \<and> (case thought p st ord of Some c \<Rightarrow> iset_has (possible c) i | None \<Rightarrow> False)}"

definition elim_le :: "player \<Rightarrow> game_state \<Rightarrow> elim_state \<Rightarrow> elim_state \<Rightarrow> bool" where
  "elim_le p s st st' \<longleftrightarrow>
     (\<forall>i. in_deck s i \<longrightarrow> set (certain_orders s st i) \<subseteq> set (certain_orders s st' i)) \<and>
     (\<forall>ord. ids_left p s st' ord \<subseteq> ids_left p s st ord) \<and>
     (\<forall>k. set (drop k (es_cands st')) \<subseteq> set (drop k (es_cands st))) \<and>
     length (es_cands st') \<le> length (es_cands st)"

definition elim_less :: "player \<Rightarrow> game_state \<Rightarrow> elim_state \<Rightarrow> elim_state \<Rightarrow> bool" where
  "elim_less p s st st' \<longleftrightarrow> elim_le p s st st' \<and>
     (\<exists>ord \<in> set (all_orders s). ids_left p s st' ord \<subset> ids_left p s st ord)"

lemma elim_le_refl [simp]: "elim_le p s st st"
  by (simp add: elim_le_def)

lemma elim_le_trans [trans]: "elim_le p s st st' \<Longrightarrow> elim_le p s st' st'' \<Longrightarrow> elim_le p s st st''"
  unfolding elim_le_def by (meson order_trans)

lemma elim_less_le: "elim_less p s st st' \<Longrightarrow> elim_le p s st st'"
  by (simp add: elim_less_def)

lemma elim_le_less: "elim_le p s st st' \<Longrightarrow> elim_less p s st' st'' \<Longrightarrow> elim_less p s st st''"
  unfolding elim_less_def
  by (meson elim_le_def elim_le_trans psubset_subset_trans subset_psubset_trans)

lemma elim_less_trans_le: "elim_less p s st st' \<Longrightarrow> elim_le p s st' st'' \<Longrightarrow> elim_less p s st st''"
  unfolding elim_less_def
  by (meson elim_le_def elim_le_trans psubset_subset_trans subset_psubset_trans)

lemma elim_invD:
  assumes "elim_inv p s \<sigma> st"
  shows "thoughts_fit p s \<sigma> st" "certain_ok s \<sigma> st" "entries_ok s (es_cands st)" "iset_ok (n_suits s) (es_elim st)"
  using assms by (simp_all add: elim_inv_def)

lemma thoughts_fitD:
  assumes "thoughts_fit p s \<sigma> st" "ord \<in> set (all_orders s)"
  obtains c where "thought p st ord = Some c" "fits (n_suits s) c (\<sigma> ord)"
  using assms by (auto simp: thoughts_fit_def)

text \<open>The number of possibilities is the fuel.\<close>

lemma ids_left_size:
  assumes "thoughts_fit p s \<sigma> st" "ord \<in> set (all_orders s)"
  shows "(case thought p st ord of Some c \<Rightarrow> length (iset_array (possible c)) | None \<Rightarrow> 0) = card (ids_left p s st ord)"
    and "finite (ids_left p s st ord)"
proof -
  obtain c where c: "thought p st ord = Some c" "iset_ok (n_suits s) (possible c)"
    using thoughts_fitD [OF assms] by (metis fitsD(3))
  then have "ids_left p s st ord = set (iset_array (possible c))"
    by (simp add: ids_left_def idset.elems_mem)
  with c show "(case thought p st ord of Some c \<Rightarrow> length (iset_array (possible c)) | None \<Rightarrow> 0) = card (ids_left p s st ord)"
    and "finite (ids_left p s st ord)"
    by (simp_all add: distinct_card idset.elems_distinct)
qed

lemma possible_sum_ids:
  "thoughts_fit p s \<sigma> st \<Longrightarrow> possible_sum p s st = sum_list (map (\<lambda>ord. card (ids_left p s st ord)) (all_orders s))"
  by (auto simp: possible_sum_def ids_left_size intro!: arg_cong [where f = sum_list])

lemma possible_sum_le:
  assumes "thoughts_fit p s \<sigma> st" "thoughts_fit p s \<sigma> st'" "elim_le p s st st'"
  shows "possible_sum p s st' \<le> possible_sum p s st"
  unfolding possible_sum_ids [OF assms(1)] possible_sum_ids [OF assms(2)]
  by (rule sum_list_mono) (metis assms(1,3) card_mono elim_le_def ids_left_size(2))

lemma possible_sum_less:
  assumes "thoughts_fit p s \<sigma> st" "thoughts_fit p s \<sigma> st'" "elim_less p s st st'"
  shows "possible_sum p s st' < possible_sum p s st"
proof -
  obtain x where o: "x \<in> set (all_orders s)" "ids_left p s st' x \<subset> ids_left p s st x"
    using assms(3) by (auto simp: elim_less_def)
  have "card (ids_left p s st' ord) \<le> card (ids_left p s st ord)" if "ord \<in> set (all_orders s)" for ord
    using that assms(1,3) by (metis card_mono elim_le_def elim_less_le ids_left_size(2))
  moreover have "card (ids_left p s st' x) < card (ids_left p s st x)"
    using o assms(1) by (intro psubset_card_mono) (auto simp: ids_left_size)
  ultimately show ?thesis unfolding possible_sum_ids [OF assms(1)] possible_sum_ids [OF assms(2)]
    using o(1) by (intro sum_list_less)
qed

section \<open>The primitive updates\<close>

lemma thought_set [simp]: "thought p (set_thought st ord c) o2 = (if o2 = ord then Some c else thought p st o2)"
  by (simp add: thought_def set_thought_def update_conv')

lemma thought_frame [simp]:
  "thought p (add_certain s st i ord us) o2 = thought p st o2" "thought p (drop_cands rs st) o2 = thought p st o2"
  "thought p (st\<lparr>es_elim := e\<rparr>) o2 = thought p st o2" "thought p (st\<lparr>es_cands := cs\<rparr>) o2 = thought p st o2"
  by (simp_all add: thought_def add_certain_def drop_cands_def)

lemma certains_frame [simp]:
  "certains_of s (set_thought st ord c) i = certains_of s st i" "certains_of s (drop_cands rs st) i = certains_of s st i"
  "certains_of s (st\<lparr>es_elim := e\<rparr>) i = certains_of s st i" "certains_of s (st\<lparr>es_cands := cs\<rparr>) i = certains_of s st i"
  by (simp_all add: certains_of_def set_thought_def drop_cands_def)

lemma frames [simp]:
  "es_cands (set_thought st ord c) = es_cands st" "es_elim (set_thought st ord c) = es_elim st"
  "es_cands (add_certain s st i ord us) = es_cands st" "es_elim (add_certain s st i ord us) = es_elim st"
  "es_new (add_certain s st i ord us) = es_new st" "es_new (drop_cands rs st) = es_new st"
  "es_elim (drop_cands rs st) = es_elim st"
  "es_new (set_thought st ord c) = AList.update ord c (es_new st)"
  by (simp_all add: set_thought_def add_certain_def drop_cands_def)

lemma certains_add:
  assumes "wf_variant (variant s)" "in_deck s i" "in_deck s j"
  shows "certains_of s (add_certain s st i ord us) j =
    (if j = i then AList.update ord us (certains_of s st i) else certains_of s st j)"
  using log_id_inj [OF assms] by (auto simp: certains_of_def add_certain_def map_insert_map_def update_conv')

lemma ids_left_frame [simp]:
  "ids_left p s (add_certain s' st i ord us) o2 = ids_left p s st o2"
  "ids_left p s (drop_cands rs st) o2 = ids_left p s st o2" "ids_left p s (st\<lparr>es_elim := e\<rparr>) o2 = ids_left p s st o2"
  by (simp_all add: ids_left_def)

lemma drop_filter_subset: "set (drop k (filter P xs)) \<subseteq> set (drop k xs)"
proof (induction xs arbitrary: k)
  case (Cons x xs)
  show ?case
  proof (cases k)
    case 0
    then show ?thesis by auto
  next
    case (Suc m)
    have "set (drop (Suc m) (filter P xs)) \<subseteq> set (drop m (filter P xs))" by (simp add: set_drop_subset_set_drop)
    with Cons.IH [of m] Suc show ?thesis by auto
  qed
qed simp

lemma elim_le_drop: "elim_le p s st (drop_cands rs st)"
  by (simp add: elim_le_def drop_cands_def drop_filter_subset) (simp add: ids_left_def thought_def certains_of_def)

lemma entries_ok_filter: "entries_ok s es \<Longrightarrow> entries_ok s (filter P es)"
  by (auto simp: entries_ok_def distinct_map_filter)

lemma inv_drop: "elim_inv p s \<sigma> st \<Longrightarrow> elim_inv p s \<sigma> (drop_cands rs st)"
  by (auto simp: elim_inv_def thoughts_fit_def certain_ok_def)
    (simp add: drop_cands_def entries_ok_filter)

lemma inv_set_thought:
  "elim_inv p s \<sigma> st \<Longrightarrow> ord \<in> set (all_orders s) \<Longrightarrow> fits (n_suits s) c (\<sigma> ord) \<Longrightarrow>
    elim_inv p s \<sigma> (set_thought st ord c)"
  by (auto simp: elim_inv_def thoughts_fit_def certain_ok_def distinct_update dom_update)

lemma inv_add_certain:
  assumes "truth_ok s \<sigma>" "elim_inv p s \<sigma> st" "ord \<in> set (all_orders s)"
  shows "elim_inv p s \<sigma> (add_certain s st (\<sigma> ord) ord us)"
    "elim_le p s st (add_certain s st (\<sigma> ord) ord us)"
proof -
  note c = certains_add [of s "\<sigma> ord" _ st ord us]
  have v: "wf_variant (variant s)" "in_deck s (\<sigma> ord)" using assms truth_okD tables_okD by blast+
  have d: "set (certain_orders s (add_certain s st (\<sigma> ord) ord us) i)
      = set (certain_orders s st i) \<union> (if i = \<sigma> ord then {ord} else {})" if "in_deck s i" for i
    using c [OF v that] by (auto simp: dom_update)
  have e: "distinct (certain_orders s (add_certain s st (\<sigma> ord) ord us) i)" if "in_deck s i" for i
    using c [OF v that] assms(2) that v by (auto simp: distinct_update elim_inv_def certain_ok_def)
  show "elim_inv p s \<sigma> (add_certain s st (\<sigma> ord) ord us)"
    using assms d e by (auto simp: elim_inv_def thoughts_fit_def certain_ok_def copies_def split: if_splits)
  show "elim_le p s st (add_certain s st (\<sigma> ord) ord us)"
    using d by (auto simp: elim_le_def)
qed

lemma fits_without:
  assumes "fits n c i" "valid_id n i" "valid_id n j" "i \<noteq> j"
  shows "fits n (without_id j c) i"
  using assms by (auto simp: fits_def without_id_def card_ok_def valid_id_def iset_has_subtract raw_def)

section \<open>Removing an identity\<close>

text \<open>Removing \<open>i\<close> is sound when every card that is \<open>i\<close> is excluded or certain.\<close>

definition sound_elim :: "game_state \<Rightarrow> truth \<Rightarrow> elim_state \<Rightarrow> basic_card \<Rightarrow> nat list \<Rightarrow> bool" where
  "sound_elim s \<sigma> st i exclude \<longleftrightarrow>
     (\<forall>pl < num_players s. \<forall>ord \<in> set (hands s ! pl).
        \<sigma> ord = i \<longrightarrow> pl \<in> set exclude \<or> ord \<in> set (certain_orders s st i))"

lemma sound_elim_mono: "sound_elim s \<sigma> st i ex \<Longrightarrow> elim_le p s st st' \<Longrightarrow> in_deck s i \<Longrightarrow> sound_elim s \<sigma> st' i ex"
  unfolding sound_elim_def elim_le_def by blast

lemma hand_pairs_iff: "(pl, ord) \<in> set (hand_pairs s) \<longleftrightarrow> pl < num_players s \<and> ord \<in> set (hands s ! pl)"
  by (auto simp: hand_pairs_def)

lemma hand_order: "truth_ok s \<sigma> \<Longrightarrow> pl < num_players s \<Longrightarrow> ord \<in> set (hands s ! pl) \<Longrightarrow> ord \<in> set (all_orders s)"
  by (auto simp: in_hand_all_orders dest: truth_okD(2))

lemma ids_left_set:
  "ids_left p s (set_thought st ord c) o2 =
    (if o2 = ord then {i. in_deck s i \<and> iset_has (possible c) i} else ids_left p s st o2)"
  by (auto simp: ids_left_def)

lemma without_possible: "possible (without_id i c) = iset_subtract (possible c) (AnId i)"
  by (simp add: without_id_def)

text \<open>A card that loses an identity that it is not.\<close>

lemma remove_id:
  assumes t: "truth_ok s \<sigma>" and inv: "elim_inv p s \<sigma> st" and o: "ord \<in> set (all_orders s)"
    and c: "thought p st ord = Some c" and i: "in_deck s i" "iset_has (possible c) i" "\<sigma> ord \<noteq> i"
    and d: "d = without_id i c \<or> d = reset_inferences (without_id i c)"
  shows "fits (n_suits s) d (\<sigma> ord)" "elim_inv p s \<sigma> (set_thought st ord d)"
    "elim_less p s st (set_thought st ord d)" "0 < iset_length (possible d)"
proof -
  have f: "fits (n_suits s) c (\<sigma> ord)"
    using inv c o by (auto simp: elim_inv_def thoughts_fit_def)
  have v: "in_deck s (\<sigma> ord)" using t o by (rule truth_okD(4))
  show fd: "fits (n_suits s) d (\<sigma> ord)" using d fits_without [OF f v i(1,3)] fits_reset by blast
  have pd: "possible d = iset_subtract (possible c) (AnId i)" using d by (auto simp: without_possible)
  show "elim_inv p s \<sigma> (set_thought st ord d)" using inv o fd by (rule inv_set_thought)
  show "0 < iset_length (possible d)" using fd v by (intro idset.size_pos [of "n_suits s"]) (auto dest: fitsD)
  have m: "iset_has (iset_subtract (possible c) (AnId i)) j \<longleftrightarrow> iset_has (possible c) j \<and> j \<noteq> i" if "in_deck s j" for j
    using fitsD(3) [OF f] that i(1) by (rule idset.mem_remove)
  then have "ids_left p s (set_thought st ord d) ord = ids_left p s st ord - {i}"
    using c by (auto simp: ids_left_set pd ids_left_def)
  moreover have "i \<in> ids_left p s st ord" using c i by (simp add: ids_left_def)
  ultimately have "ids_left p s (set_thought st ord d) ord \<subset> ids_left p s st ord" by blast
  moreover have "ids_left p s (set_thought st ord d) o2 \<subseteq> ids_left p s st o2" for o2
    using calculation by (cases "o2 = ord") (auto simp: ids_left_set)
  ultimately show "elim_less p s st (set_thought st ord d)"
    using o by (auto simp: elim_less_def elim_le_def)
qed

definition update_ok :: "player \<Rightarrow> game_state \<Rightarrow> truth \<Rightarrow> elim_state \<Rightarrow> elim_state \<Rightarrow> bool \<Rightarrow> basic_card list \<Rightarrow> bool" where
  "update_ok p s \<sigma> st st' changed recs \<longleftrightarrow> elim_inv p s \<sigma> st' \<and> elim_le p s st st' \<and>
     (changed \<longrightarrow> elim_less p s st st') \<and> (recs \<noteq> [] \<longrightarrow> changed) \<and> (\<forall>r \<in> set recs. in_deck s r)"

lemma elim_card_ok:
  assumes t: "truth_ok s \<sigma>" and i: "in_deck s i" and po: "po \<in> set (hand_pairs s)"
    and u: "update_ok p s \<sigma> st (mu_state u) (mu_changed u) (mu_recursive u)" and snd: "sound_elim s \<sigma> st i ex"
  shows "\<exists>u'. elim_card p s i ex u po = Inr u' \<and> update_ok p s \<sigma> st (mu_state u') (mu_changed u') (mu_recursive u')"
proof -
  obtain pl ord where p: "po = (pl, ord)" by force
  have h: "pl < num_players s" "ord \<in> set (hands s ! pl)" using po by (simp_all add: p hand_pairs_iff)
  have o: "ord \<in> set (all_orders s)" using t h by (rule hand_order)
  have inv: "elim_inv p s \<sigma> (mu_state u)" and le: "elim_le p s st (mu_state u)" using u by (simp_all add: update_ok_def)
  obtain c where c: "thought p (mu_state u) ord = Some c" "fits (n_suits s) c (\<sigma> ord)"
    using elim_invD(1) [OF inv] o by (rule thoughts_fitD)
  show ?thesis
  proof (cases "no_elim s (mu_state u) i ex pl ord c")
    case True
    then show ?thesis using u c by (simp add: p elim_card_def)
  next
    case False
    then have ne: "pl \<notin> set ex" "iset_has (possible c) i" "ord \<notin> set (certain_orders s (mu_state u) i)"
      by (auto simp: no_elim_def list_ex_iff)
    moreover have "sound_elim s \<sigma> (mu_state u) i ex" using snd le i by (rule sound_elim_mono)
    ultimately have ni: "\<sigma> ord \<noteq> i" using h by (auto simp: sound_elim_def)
    note r = remove_id [OF t inv o c(1) i ne(2) ni]
    have pos: "iset_length (possible (without_id i c)) \<noteq> 0" using r(4) [of "without_id i c"] by simp
    have less: "elim_less p s st (set_thought (mu_state u) ord d)"
      if "d = without_id i c \<or> d = reset_inferences (without_id i c)" for d
      using elim_le_less [OF le r(3) [OF that]] .
    have twice: "set_thought (set_thought (mu_state u) ord a) ord b = set_thought (mu_state u) ord b" for a b
      by (simp add: set_thought_def update_last)
    have one: "identity no_opts (without_id i c) = Some (\<sigma> ord)" if one: "iset_length (possible (without_id i c)) = 1"
    proof -
      have f: "fits (n_suits s) (without_id i c) (\<sigma> ord)" using r(1) by blast
      obtain j where "identity no_opts (without_id i c) = Some j"
        using single_possible_identity [OF fitsD(1) [OF f] one] by blast
      moreover then have "j = \<sigma> ord" using f truth_okD(4) [OF t o] by (rule fits_identity [rotated 3]) (simp add: no_opts_def)
      ultimately show ?thesis by simp
    qed
    have add: "update_ok p s \<sigma> st (add_certain s (set_thought (mu_state u) ord (without_id i c)) (\<sigma> ord) ord us) True
        (mu_recursive u @ [\<sigma> ord])" for us
    proof -
      let ?st = "set_thought (mu_state u) ord (without_id i c)"
      have ia: "elim_inv p s \<sigma> (add_certain s ?st (\<sigma> ord) ord us)" "elim_le p s ?st (add_certain s ?st (\<sigma> ord) ord us)"
        using inv_add_certain [OF t _ o] r(2) by blast+
      have "elim_less p s st (add_certain s ?st (\<sigma> ord) ord us)" using less ia(2) by (blast intro: elim_less_trans_le)
      with ia u truth_okD(4) [OF t o] show ?thesis by (simp add: update_ok_def elim_less_le)
    qed
    have put: "update_ok p s \<sigma> st (set_thought (mu_state u) ord d) True (mu_recursive u)"
      if "d = without_id i c \<or> d = reset_inferences (without_id i c)" for d
      using r(2) [OF that] less [OF that] u by (simp add: update_ok_def elim_less_le)
    consider (a) "iset_length (inferred (without_id i c)) = 0 \<and> \<not> reset c"
      | (b) "\<not> (iset_length (inferred (without_id i c)) = 0 \<and> \<not> reset c)" "iset_length (possible (without_id i c)) = 1"
      | (c) "\<not> (iset_length (inferred (without_id i c)) = 0 \<and> \<not> reset c)" "iset_length (possible (without_id i c)) \<noteq> 1"
      by blast
    then show ?thesis
    proof cases
      case a
      then show ?thesis using False c pos put [of "reset_inferences (without_id i c)"]
        by (simp add: p elim_card_def Let_def twice)
    next
      case b
      then show ?thesis using False c pos one add by (auto simp: p elim_card_def Let_def)
    next
      case c': c
      then show ?thesis using False c pos put [of "without_id i c"] by (auto simp: p elim_card_def Let_def)
    qed
  qed
qed

lemma update_map_ok:
  assumes t: "truth_ok s \<sigma>" and i: "in_deck s i" and inv: "elim_inv p s \<sigma> st" and snd: "sound_elim s \<sigma> st i ex"
  shows "\<exists>st' changed recs. update_map p s i ex st = Inr (st', changed, recs) \<and> update_ok p s \<sigma> st st' changed recs"
proof -
  have "\<exists>u. foldR (elim_card p s i ex) \<lparr>mu_state = st, mu_changed = False, mu_recursive = [], mu_removals = []\<rparr> (hand_pairs s)
      = Inr u \<and> update_ok p s \<sigma> st (mu_state u) (mu_changed u) (mu_recursive u)"
    by (rule foldR_total) (use inv in \<open>simp add: update_ok_def\<close>, metis elim_card_ok [OF t i _ _ snd])
  then obtain u where u: "foldR (elim_card p s i ex) \<lparr>mu_state = st, mu_changed = False, mu_recursive = [], mu_removals = []\<rparr>
      (hand_pairs s) = Inr u" "update_ok p s \<sigma> st (mu_state u) (mu_changed u) (mu_recursive u)" by blast
  then show ?thesis
    using elim_le_drop [of p s "mu_state u" "mu_removals u"] inv_drop [of p s \<sigma> "mu_state u" "mu_removals u"]
    by (auto simp: update_map_def update_ok_def intro: elim_le_trans elim_less_trans_le)
qed

section \<open>Basic elimination\<close>

lemma update_ok_from: "elim_le p s st st1 \<Longrightarrow> update_ok p s \<sigma> st1 st2 ch recs \<Longrightarrow> update_ok p s \<sigma> st st2 ch recs"
  by (auto simp: update_ok_def intro: elim_le_trans elim_le_less)

text \<open>Every copy of an identity is certain.\<close>

lemma known_count_sound:
  assumes t: "truth_ok s \<sigma>" and i: "in_deck s i" and inv: "elim_inv p s \<sigma> st"
    and n: "base_count s i + int (length (certains_of s st i)) = total_count s i"
  shows "sound_elim s \<sigma> st i ex" "exhausted s \<sigma> i"
proof -
  have c: "set (certain_orders s st i) \<subseteq> copies s \<sigma> i" "distinct (certain_orders s st i)"
    using inv i by (auto simp: elim_inv_def certain_ok_def)
  note a = all_copies_of [OF t i c]
  have e: "set (certain_orders s st i) = copies s \<sigma> i" using a(1) n by simp
  show "exhausted s \<sigma> i" using a(2) n by simp
  show "sound_elim s \<sigma> st i ex" unfolding sound_elim_def
  proof (intro allI ballI impI disjI2)
    fix pl ord assume h: "pl < num_players s" "ord \<in> set (hands s ! pl)" "\<sigma> ord = i"
    then have "ord \<in> copies s \<sigma> i" using hand_order [OF t] by (simp add: copies_def)
    with e show "ord \<in> set (certain_orders s st i)" by simp
  qed
qed

lemma inv_eliminated:
  assumes "elim_inv p s \<sigma> st" "in_deck s i" "exhausted s \<sigma> i"
  shows "elim_inv p s \<sigma> (st\<lparr>es_elim := iset_union (es_elim st) (AnId i)\<rparr>)"
proof -
  have ok: "iset_ok (n_suits s) (es_elim st)" using assms(1) by (rule elim_invD(4))
  have "iset_has (iset_union (es_elim st) (AnId i)) j \<longleftrightarrow> iset_has (es_elim st) j \<or> j = i" if "in_deck s j" for j
    using iset_has_union [OF ok, of "AnId i" j] that assms(2) by auto
  with assms ok show ?thesis by (auto simp: elim_inv_def thoughts_fit_def certain_ok_def)
qed

lemma elim_le_eliminated [simp]: "elim_le p s st (st\<lparr>es_elim := e\<rparr>)"
  by (simp add: elim_le_def)

lemma basic_step_ok:
  assumes t: "truth_ok s \<sigma>" and i: "in_deck s i" and acc: "update_ok p s \<sigma> st (fst acc) (fst (snd acc)) (snd (snd acc))"
  shows "\<exists>acc'. basic_step p s acc i = Inr acc' \<and> update_ok p s \<sigma> st (fst acc') (fst (snd acc')) (snd (snd acc'))"
proof (cases "base_count s i + int (length (certains_of s (fst acc) i)) = total_count s i")
  case False
  then show ?thesis using acc by (simp add: basic_step_def)
next
  case True
  let ?st = "(fst acc)\<lparr>es_elim := iset_union (es_elim (fst acc)) (AnId i)\<rparr>"
  have inv: "elim_inv p s \<sigma> (fst acc)" and le: "elim_le p s st (fst acc)" using acc by (simp_all add: update_ok_def)
  note k = known_count_sound [OF t i inv True]
  have inv': "elim_inv p s \<sigma> ?st" using inv i k(2) by (rule inv_eliminated)
  have snd: "sound_elim s \<sigma> ?st i []" using k(1) [of "[]"] by (simp add: sound_elim_def)
  have le': "elim_le p s st ?st" using le by (rule elim_le_trans) simp
  obtain st' ch recs where u: "update_map p s i [] ?st = Inr (st', ch, recs)" "update_ok p s \<sigma> ?st st' ch recs"
    using update_map_ok [OF t i inv' snd] by blast
  with True le' show ?thesis by (simp add: basic_step_def) (rule update_ok_from)
qed

definition step_ok :: "player \<Rightarrow> game_state \<Rightarrow> truth \<Rightarrow> elim_state \<Rightarrow> elim_state \<times> bool \<Rightarrow> bool" where
  "step_ok p s \<sigma> st r \<longleftrightarrow> elim_inv p s \<sigma> (fst r) \<and> elim_le p s st (fst r) \<and> (snd r \<longrightarrow> elim_less p s st (fst r))"

lemma basic_elim_ok:
  assumes "truth_ok s \<sigma>" "elim_inv p s \<sigma> st" "\<And>i. i \<in> set ids \<Longrightarrow> in_deck s i" "possible_sum p s st < fuel"
  shows "\<exists>r. basic_elim fuel p s ids st = Inr r \<and> step_ok p s \<sigma> st r"
  using assms(2-)
proof (induction fuel arbitrary: st ids)
  case (Suc fuel)
  let ?P = "\<lambda>acc. update_ok p s \<sigma> st (fst acc) (fst (snd acc)) (snd (snd acc))"
  have "\<exists>acc. foldR (basic_step p s) (st, False, []) ids = Inr acc \<and> ?P acc"
    by (rule foldR_total) (use Suc.prems(1) in \<open>simp add: update_ok_def\<close>,
      use basic_step_ok [OF assms(1)] Suc.prems(2) in blast)
  then obtain st1 ch recs where f: "foldR (basic_step p s) (st, False, []) ids = Inr (st1, ch, recs)"
    and u: "update_ok p s \<sigma> st st1 ch recs" by auto
  show ?case
  proof (cases "recs = []")
    case True
    with f u show ?thesis by (simp add: step_ok_def update_ok_def)
  next
    case False
    then have less: "elim_less p s st st1" and inv: "elim_inv p s \<sigma> st1" and r: "\<And>i. i \<in> set recs \<Longrightarrow> in_deck s i"
      using u by (auto simp: update_ok_def)
    have "possible_sum p s st1 < possible_sum p s st"
      using elim_invD(1) [OF Suc.prems(1)] elim_invD(1) [OF inv] less by (rule possible_sum_less)
    then have "possible_sum p s st1 < fuel" using Suc.prems(3) by simp
    from Suc.IH [OF inv r this] obtain r' where r': "basic_elim fuel p s recs st1 = Inr r'" "step_ok p s \<sigma> st1 r'" by blast
    obtain st2 b where r2: "r' = (st2, b)" by force
    have "elim_less p s st st2" using less r'(2) by (auto simp: step_ok_def r2 intro: elim_less_trans_le)
    with f False r' show ?thesis by (simp add: step_ok_def r2 elim_less_le)
  qed
qed simp

section \<open>Cross elimination\<close>

lemma step_ok_trans: "elim_le p s st st1 \<Longrightarrow> step_ok p s \<sigma> st1 r \<Longrightarrow> step_ok p s \<sigma> st r"
  by (auto simp: step_ok_def intro: elim_le_trans elim_le_less)

lemma update_step:
  assumes "truth_ok s \<sigma>" "in_deck s i" "step_ok p s \<sigma> st acc" "sound_elim s \<sigma> (fst acc) i ex"
  shows "\<exists>acc'. bindR (update_map p s i ex (fst acc)) (\<lambda>(st', ch, _). Inr (st', ch)) = Inr acc' \<and> step_ok p s \<sigma> st acc'"
proof -
  have inv: "elim_inv p s \<sigma> (fst acc)" and le: "elim_le p s st (fst acc)" using assms(3) by (simp_all add: step_ok_def)
  obtain st' ch recs where u: "update_map p s i ex (fst acc) = Inr (st', ch, recs)" "update_ok p s \<sigma> (fst acc) st' ch recs"
    using update_map_ok [OF assms(1,2) inv assms(4)] by blast
  have "update_ok p s \<sigma> st st' ch recs" using le u(2) by (rule update_ok_from)
  with u(1) show ?thesis by (auto simp: update_ok_def step_ok_def)
qed

lemma known_id_truth:
  assumes t: "truth_ok s \<sigma>" and inv: "elim_inv p s \<sigma> st" and o: "ord \<in> set (all_orders s)"
    and k: "known_id p s st ord = Some i"
  shows "i = \<sigma> ord"
proof -
  obtain c where c: "thought p st ord = Some c" "fits (n_suits s) c (\<sigma> ord)"
    using elim_invD(1) [OF inv] o by (rule thoughts_fitD)
  have "j = \<sigma> ord" if "identity no_opts c = Some j" for j
    using c(2) truth_okD(4) [OF t o] _ that by (rule fits_identity) (simp add: no_opts_def)
  with k c(1) truth_deck_id [OF t o] show ?thesis by (auto simp: known_id_def split: option.splits)
qed

lemma distinct_singleton: "distinct xs \<Longrightarrow> set xs = {x} \<Longrightarrow> xs = [x]"
  by (cases xs) (auto simp: subset_singleton_iff)

lemma single_array:
  assumes "tables_ok s" "in_deck s i"
  shows "iset_array (iset_union (base_ids s) (AnId i)) = [i]"
proof -
  let ?s = "iset_union (base_ids s) (AnId i)"
  have ok: "iset_ok (n_suits s) ?s" using assms tables_okD(5) by auto
  have "set (iset_array ?s) = {i}"
  proof -
    have "iset_has ?s j \<longleftrightarrow> j = i" if "in_deck s j" for j
      using iset_has_union [OF tables_okD(5) [OF assms(1)], of "AnId i" j] that assms
        iset_has_new(1) [OF that] tables_okD(2,3) [OF assms(1)] by auto
    with assms(2) show ?thesis using idset.elems_mem [OF ok] by auto
  qed
  with idset.elems_distinct [OF ok] show ?thesis by (rule distinct_singleton)
qed

lemma multiplicity_single:
  "tables_ok s \<Longrightarrow> in_deck s i \<Longrightarrow> total_multiplicity s (iset_union (base_ids s) (AnId i)) = total_count s i - base_count s i"
  by (simp add: total_multiplicity_def single_array)

lemma entries_okD:
  assumes "entries_ok s es" "(ord, pl) \<in> set es"
  shows "pl < num_players s" "ord \<in> set (hands s ! pl)"
  using assms by (force simp: entries_ok_def)+

text \<open>If the copies of \<open>i\<close> are certain or among some entries, their players are the exclusion.\<close>

lemma sound_entries:
  assumes t: "truth_ok s \<sigma>" and e: "entries_ok s es"
    and all: "copies s \<sigma> i \<subseteq> set (map fst es) \<union> set (certain_orders s st i)"
  shows "sound_elim s \<sigma> st i (map snd es)"
  unfolding sound_elim_def
proof (intro allI ballI impI)
  fix pl ord assume h: "pl < num_players s" "ord \<in> set (hands s ! pl)" "\<sigma> ord = i"
  then have "ord \<in> copies s \<sigma> i" using hand_order [OF t] by (simp add: copies_def)
  with all consider pl' where "(ord, pl') \<in> set es" | "ord \<in> set (certain_orders s st i)" by fastforce
  then show "pl \<in> set (map snd es) \<or> ord \<in> set (certain_orders s st i)"
  proof cases
    case 1
    with entries_okD [OF e] have "pl' = pl" using hand_unique [OF t _ h(1) _ h(2)] by blast
    with 1 show ?thesis by force
  qed simp
qed

lemma elim_group_ok:
  assumes t: "truth_ok s \<sigma>" and acc: "step_ok p s \<sigma> st acc"
    and g: "\<And>i. fst g = Some i \<Longrightarrow> in_deck s i \<and> (\<forall>e \<in> set (snd g). \<sigma> (fst e) = i)" and e: "entries_ok s (snd g)"
  shows "\<exists>acc'. elim_group p s acc g = Inr acc' \<and> step_ok p s \<sigma> st acc'"
proof (cases "fst g")
  case None
  with acc show ?thesis by (cases g) (simp add: elim_group_def)
next
  case (Some i)
  then obtain grp where gr: "g = (Some i, grp)" by (cases g) simp
  have i: "in_deck s i" and gi: "\<And>e. e \<in> set grp \<Longrightarrow> \<sigma> (fst e) = i" using g [OF Some] gr by auto
  have eg: "entries_ok s grp" using e gr by simp
  have inv: "elim_inv p s \<sigma> (fst acc)" using acc by (simp add: step_ok_def)
  define certains where "certains = filter (\<lambda>e. \<not> list_ex (\<lambda>x. fst x = fst e) grp) (certains_of s (fst acc) i)"
  show ?thesis
  proof (cases "int (length grp) < total_count s i - base_count s i - int (length certains)")
    case True
    with acc i truth_okD(1) [OF t] show ?thesis
      by (simp add: gr elim_group_def Let_def certains_def multiplicity_single)
  next
    case False
    let ?ks = "map fst grp @ map fst certains"
    have c: "set (certain_orders s (fst acc) i) \<subseteq> copies s \<sigma> i" "distinct (certain_orders s (fst acc) i)"
      using inv i by (auto simp: elim_inv_def certain_ok_def)
    have "set (map fst grp) \<subseteq> copies s \<sigma> i"
      using gi eg hand_order [OF t] by (auto simp: copies_def entries_ok_def)
    moreover have "set (map fst certains) \<subseteq> set (certain_orders s (fst acc) i)" by (auto simp: certains_def)
    moreover have "distinct ?ks"
      using eg c(2) by (auto simp: entries_ok_def certains_def distinct_map_filter list_ex_iff)
    moreover have "total_count s i \<le> base_count s i + int (length ?ks)" using False by simp
    ultimately have "set ?ks = copies s \<sigma> i" using c(1) by (intro all_copies_of(1) [OF t i]) auto
    then have "copies s \<sigma> i \<subseteq> set (map fst grp) \<union> set (certain_orders s (fst acc) i)" by (auto simp: certains_def)
    then have "sound_elim s \<sigma> (fst acc) i (map snd grp)" by (rule sound_entries [OF t eg])
    from update_step [OF t i acc this] False i truth_okD(1) [OF t] show ?thesis
      by (simp add: gr elim_group_def Let_def certains_def multiplicity_single)
  qed
qed

lemma perform_elim_ok:
  assumes t: "truth_ok s \<sigma>" and inv: "elim_inv p s \<sigma> st" and e: "entries_ok s es"
    and ids: "iset_ok (n_suits s) ids" and fuel: "possible_sum p s st < fuel"
    and all: "\<And>i. in_deck s i \<Longrightarrow> iset_has ids i \<Longrightarrow> copies s \<sigma> i \<subseteq> set (map fst es) \<union> set (certain_orders s st i)"
  shows "\<exists>r. perform_elim fuel p s es ids st = Inr r \<and> step_ok p s \<sigma> st r"
proof -
  let ?groups = "group_by (\<lambda>e. known_id p s st (fst e)) es"
  have ord: "fst e \<in> set (all_orders s)" if "e \<in> set es" for e
    using e that hand_order [OF t] by (auto simp: entries_ok_def)
  have start: "step_ok p s \<sigma> st (st, False)" using inv by (simp add: step_ok_def)
  have grp: "entries_ok s (snd g)" "\<And>i. fst g = Some i \<Longrightarrow> in_deck s i \<and> (\<forall>e \<in> set (snd g). \<sigma> (fst e) = i)"
    if g: "g \<in> set ?groups" for g
  proof -
    have m: "snd g = filter (\<lambda>e. known_id p s st (fst e) = fst g) es" "fst g \<in> (\<lambda>e. known_id p s st (fst e)) ` set es"
      using group_by_member [of "fst g" "snd g"] g by simp_all
    show "entries_ok s (snd g)" unfolding m(1) using e by (rule entries_ok_filter)
    show "in_deck s i \<and> (\<forall>e \<in> set (snd g). \<sigma> (fst e) = i)" if "fst g = Some i" for i
      using m that known_id_truth [OF t inv ord] truth_okD(4) [OF t ord] by fastforce
  qed
  obtain acc1 where a1: "foldR (elim_group p s) (st, False) ?groups = Inr acc1" "step_ok p s \<sigma> st acc1"
    using foldR_total [of "step_ok p s \<sigma> st" "(st, False)" ?groups "elim_group p s"] start
      elim_group_ok [OF t _ grp(2) grp(1)] by blast
  let ?f = "\<lambda>acc i. bindR (update_map p s i (map snd es) (fst acc)) (\<lambda>(st', changed, _). Inr (st', changed))"
  have ar: "in_deck s i \<and> iset_has ids i" if "i \<in> set (iset_array ids)" for i
    using that idset.elems_mem [OF ids] by auto
  have snd: "sound_elim s \<sigma> (fst acc) i (map snd es)" if "step_ok p s \<sigma> st acc" "i \<in> set (iset_array ids)" for acc i
  proof -
    have "sound_elim s \<sigma> st i (map snd es)" using ar [OF that(2)] all by (intro sound_entries [OF t e]) blast
    with that ar show ?thesis by (auto simp: step_ok_def intro: sound_elim_mono)
  qed
  obtain acc2 where a2: "foldR ?f acc1 (iset_array ids) = Inr acc2" "step_ok p s \<sigma> st acc2"
    using foldR_total [of "step_ok p s \<sigma> st" acc1 "iset_array ids" ?f] a1(2) update_step [OF t _ _ snd] ar by blast
  obtain st1 ch where s1: "acc2 = (st1, ch)" by force
  have inv1: "elim_inv p s \<sigma> st1" and le1: "elim_le p s st st1" and l: "ch \<Longrightarrow> elim_less p s st st1"
    using a2(2) by (auto simp: step_ok_def s1)
  have "possible_sum p s st1 < fuel"
    using possible_sum_le [OF elim_invD(1) [OF inv] elim_invD(1) [OF inv1] le1] fuel by simp
  then obtain r where r: "basic_elim fuel p s (iset_array ids) st1 = Inr r" "step_ok p s \<sigma> st1 r"
    using basic_elim_ok [OF t inv1] ar by blast
  obtain st2 ch2 where s2: "r = (st2, ch2)" by force
  have "elim_less p s st st2" if ch
    using l [OF that] r(2) by (auto simp: step_ok_def s2 intro: elim_less_trans_le)
  then have "step_ok p s \<sigma> st (st2, ch2 \<or> ch)"
    using step_ok_trans [OF le1 r(2)] by (auto simp: step_ok_def s2)
  then show ?thesis by (simp add: perform_elim_def a1 a2 s1 r s2)
qed

text \<open>What the search over the subsets keeps of its arguments.\<close>

definition subset_inv ::
  "player \<Rightarrow> game_state \<Rightarrow> truth \<Rightarrow> (nat \<times> nat) list \<Rightarrow> iset \<Rightarrow> nat list \<Rightarrow> nat \<Rightarrow> elim_state \<Rightarrow> bool" where
  "subset_inv p s \<sigma> chosen acc certains k st \<longleftrightarrow>
     elim_inv p s \<sigma> st \<and> entries_ok s chosen \<and>
     set (map fst chosen) \<inter> set (map fst (drop k (es_cands st))) = {} \<and> iset_ok (n_suits s) acc \<and>
     distinct certains \<and> set certains \<inter> set (map fst chosen) = {} \<and>
     (\<forall>e \<in> set chosen. iset_has acc (\<sigma> (fst e))) \<and>
     (\<forall>ord \<in> set certains. ord \<in> set (all_orders s) \<and> iset_has acc (\<sigma> ord) \<and> ord \<in> set (certain_orders s st (\<sigma> ord)))"

lemma subset_inv_mono:
  assumes "truth_ok s \<sigma>" "subset_inv p s \<sigma> chosen acc certains k st" "elim_le p s st st'" "elim_inv p s \<sigma> st'" "k \<le> m"
  shows "subset_inv p s \<sigma> chosen acc certains m st'"
proof -
  have "set (drop m (es_cands st')) \<subseteq> set (drop k (es_cands st))"
    using assms(3,5) unfolding elim_le_def by (meson order_trans set_drop_subset_set_drop)
  then have "set (map fst chosen) \<inter> set (map fst (drop m (es_cands st'))) = {}"
    using assms(2) unfolding subset_inv_def by (simp only: set_map) blast
  moreover have "ord \<in> set (certain_orders s st' (\<sigma> ord))" if "ord \<in> set certains" for ord
    using that assms(1-3) truth_okD(4) unfolding subset_inv_def elim_le_def by blast
  ultimately show ?thesis using assms(2,4) by (simp add: subset_inv_def)
qed

lemma subset_complete:
  assumes t: "truth_ok s \<sigma>" and q: "subset_inv p s \<sigma> chosen acc certains k st"
    and n: "total_multiplicity s acc - int (length certains) = int (length chosen)"
    and i: "in_deck s i" "iset_has acc i"
  shows "copies s \<sigma> i \<subseteq> set (map fst chosen) \<union> set (certain_orders s st i)"
proof
  fix ord assume o: "ord \<in> copies s \<sigma> i"
  have ok: "iset_ok (n_suits s) acc" using q by (simp add: subset_inv_def)
  have el: "set (iset_array acc) = {i. in_deck s i \<and> iset_has acc i}" using ok by (rule idset.elems_mem)
  let ?ks = "map fst chosen @ certains"
  have "set ?ks = {ord \<in> set (all_orders s). \<sigma> ord \<in> set (iset_array acc)}"
  proof (rule all_copies_known [OF t])
    show "distinct (iset_array acc)" using ok by (rule idset.elems_distinct)
    show "set ?ks \<subseteq> {ord \<in> set (all_orders s). \<sigma> ord \<in> set (iset_array acc)}"
      using q hand_order [OF t] truth_okD(4) [OF t] by (force simp: subset_inv_def entries_ok_def el)
    show "distinct ?ks" using q by (auto simp: subset_inv_def entries_ok_def)
    show "sum_list (map (\<lambda>i. total_count s i - base_count s i) (iset_array acc)) \<le> int (length ?ks)"
      using n by (simp add: total_multiplicity_def)
  qed (simp add: el)
  moreover have "ord \<in> set (all_orders s)" "\<sigma> ord = i" using o by (simp_all add: copies_def)
  ultimately have "ord \<in> set ?ks" using i by (simp add: el)
  with q \<open>\<sigma> ord = i\<close> show "ord \<in> set (map fst chosen) \<union> set (certain_orders s st i)"
    by (auto simp: subset_inv_def)
qed

lemma set_fold_set_add: "set (fold set_add xs ys) = set xs \<union> set ys"
  by (induction xs arbitrary: ys) (auto simp: set_add_def)

lemma distinct_fold_set_add: "distinct ys \<Longrightarrow> distinct (fold set_add xs ys)"
  by (induction xs arbitrary: ys) (auto simp: set_add_def)

lemma subset_inv_next:
  assumes t: "truth_ok s \<sigma>" and q: "subset_inv p s \<sigma> chosen acc certains k st"
    and d: "drop k (es_cands st) = item # rest" and c: "thought p st (fst item) = Some c"
  shows "subset_inv p s \<sigma> (chosen @ [item]) (iset_union acc (ASet (possible c)))
    (next_certains s st c acc certains (map fst (chosen @ [item]))) (Suc k) st"
proof -
  let ?acc = "iset_union acc (ASet (possible c))" and ?o = "map fst (chosen @ [item])"
  have inv: "elim_inv p s \<sigma> st" and ok: "iset_ok (n_suits s) acc" using q by (simp_all add: subset_inv_def)
  have it: "item \<in> set (es_cands st)" using d by (metis in_set_dropD list.set_intros(1))
  have cands: "entries_ok s (es_cands st)" using inv by (rule elim_invD)
  have h: "snd item < num_players s" "fst item \<in> set (hands s ! snd item)"
    using entries_okD [OF cands, of "fst item" "snd item"] it by simp_all
  have o: "fst item \<in> set (all_orders s)" using t h by (rule hand_order)
  have f: "fits (n_suits s) c (\<sigma> (fst item))" using thoughts_fitD [OF elim_invD(1) [OF inv] o] c by fastforce
  have okc: "iset_ok (n_suits s) (possible c)" using f by (rule fitsD)
  have has: "iset_has ?acc i \<longleftrightarrow> iset_has acc i \<or> iset_has (possible c) i" if "in_deck s i" for i :: basic_card
    using ok okc that by (rule idset.mem_join)
  have dk: "drop (Suc k) (es_cands st) = rest" using d by (metis drop_Suc list.sel(3) tl_drop)
  have "distinct (map fst (drop k (es_cands st)))" using cands unfolding entries_ok_def by (metis distinct_drop drop_map)
  then have nin: "fst item \<notin> set (map fst rest)" by (simp add: d)
  have dis: "set (map fst chosen) \<inter> set (map fst (item # rest)) = {}" using q by (simp add: subset_inv_def d)
  have cert: "ord \<in> set (all_orders s) \<and> iset_has ?acc (\<sigma> ord) \<and> ord \<in> set (certain_orders s st (\<sigma> ord))"
    if "ord \<in> set (next_certains s st c acc certains ?o)" for ord
  proof -
    from that consider "ord \<in> set certains"
      | i where "i \<in> set (iset_array (iset_subtract (possible c) (ASet acc)))" "ord \<in> set (certain_orders s st i)"
      by (auto simp: next_certains_def set_fold_set_add)
    then show ?thesis
    proof cases
      case 1
      with q have "ord \<in> set (all_orders s)" "iset_has acc (\<sigma> ord)" "ord \<in> set (certain_orders s st (\<sigma> ord))"
        by (simp_all add: subset_inv_def)
      with has truth_okD(4) [OF t] show ?thesis by simp
    next
      case 2
      have i: "in_deck s i" "iset_has (possible c) i"
        using 2(1) idset.elems_mem [of "n_suits s" "iset_subtract (possible c) (ASet acc)"] okc ok
        by (auto simp: iset_has_subtract)
      have "ord \<in> copies s \<sigma> i" using 2(2) i(1) inv by (auto simp: elim_inv_def certain_ok_def)
      then have "ord \<in> set (all_orders s)" "\<sigma> ord = i" by (simp_all add: copies_def)
      with 2(2) i has show ?thesis by simp
    qed
  qed
  have ent: "entries_ok s (chosen @ [item])"
    using q h dis by (auto simp: subset_inv_def entries_ok_def)
  have hs: "iset_has ?acc (\<sigma> (fst e))" if "e \<in> set (chosen @ [item])" for e
  proof -
    have "in_deck s (\<sigma> (fst e))" using ent that hand_order [OF t] truth_okD(4) [OF t] by (auto simp: entries_ok_def)
    with that has f q show ?thesis by (auto simp: subset_inv_def fits_def)
  qed
  have "distinct certains" using q by (simp add: subset_inv_def)
  then have dn: "distinct (next_certains s st c acc certains ?o)" by (simp add: next_certains_def distinct_fold_set_add)
  have nn: "set (next_certains s st c acc certains ?o) \<inter> set ?o = {}" by (auto simp: next_certains_def)
  have dd: "set ?o \<inter> set (map fst (drop (Suc k) (es_cands st))) = {}" using nin dis by (auto simp: dk)
  show ?thesis unfolding subset_inv_def
    using inv ent dd dn nn hs cert iset_ok_ops(3) [OF ok] okc by (intro conjI ballI) (assumption | simp)+
qed

lemma gen_subset_ok:
  assumes t: "truth_ok s \<sigma>"
  shows "subset_inv p s \<sigma> chosen acc certains k st \<Longrightarrow> possible_sum p s st < bf \<Longrightarrow>
    length (es_cands st) < fuel + k \<Longrightarrow> 0 < fuel \<Longrightarrow>
    \<exists>r. gen_subset fuel bf p s chosen acc certains k st = Inr r \<and> step_ok p s \<sigma> st r"
proof (induction fuel arbitrary: chosen acc certains k st)
  case (Suc fuel)
  have inv: "elim_inv p s \<sigma> st" using Suc.prems(1) by (simp add: subset_inv_def)
  have stay: "step_ok p s \<sigma> st (st, False)" using inv by (simp add: step_ok_def)
  let ?mult = "total_multiplicity s acc - int (length certains)"
  let ?attempt = "if length chosen \<ge> 2 \<and> ?mult = int (length chosen)
    then perform_elim bf p s chosen acc st else Inr (st, False)"
  have "\<exists>r. ?attempt = Inr r \<and> step_ok p s \<sigma> st r"
  proof (cases "length chosen \<ge> 2 \<and> ?mult = int (length chosen)")
    case True
    have "entries_ok s chosen" "iset_ok (n_suits s) acc" using Suc.prems(1) by (simp_all add: subset_inv_def)
    from perform_elim_ok [OF t inv this Suc.prems(2) subset_complete [OF t Suc.prems(1)]] True
    show ?thesis by (simp add: del: split_paired_Ex)
  qed (use stay in auto)
  then obtain st1 ch where tr: "?attempt = Inr (st1, ch)" and s1: "step_ok p s \<sigma> st (st1, ch)" by auto
  have inv1: "elim_inv p s \<sigma> st1" and le1: "elim_le p s st st1" using s1 by (simp_all add: step_ok_def)
  have sum1: "possible_sum p s st1 < bf"
    using possible_sum_le [OF elim_invD(1) [OF inv] elim_invD(1) [OF inv1] le1] Suc.prems(2) by simp
  have len1: "length (es_cands st1) < Suc fuel + k" using le1 Suc.prems(3) by (simp add: elim_le_def)
  have q1: "subset_inv p s \<sigma> chosen acc certains k st1" using t Suc.prems(1) le1 inv1 by (rule subset_inv_mono) simp
  show ?case
  proof (cases "?mult > int (length chosen) + (int (length (es_cands st)) - int k) \<or> ch \<or> drop k (es_cands st1) = []")
    case True
    with stay tr s1 show ?thesis by (auto simp: Let_def step_ok_def)
  next
    case False
    then obtain item rest where d: "drop k (es_cands st1) = item # rest" by (cases "drop k (es_cands st1)") auto
    then have k: "k < length (es_cands st1)" by (metis drop_all list.distinct(1) not_le)
    have it: "item \<in> set (es_cands st1)" using d by (metis in_set_dropD list.set_intros(1))
    have "fst item \<in> set (all_orders s)"
      using it elim_invD(3) [OF inv1] hand_order [OF t] by (auto simp: entries_ok_def)
    then obtain c where c: "thought p st1 (fst item) = Some c"
      using elim_invD(1) [OF inv1] by (auto elim: thoughts_fitD)
    have f: "0 < fuel" "length (es_cands st1) < fuel + Suc k" using k len1 by simp_all
    obtain st2 inc where g2: "gen_subset fuel bf p s (chosen @ [item]) (iset_union acc (ASet (possible c)))
        (next_certains s st1 c acc certains (map fst (chosen @ [item]))) (Suc k) st1 = Inr (st2, inc)"
      and s2: "step_ok p s \<sigma> st1 (st2, inc)"
      using Suc.IH [OF subset_inv_next [OF t q1 d c] sum1 f(2,1)] by auto
    have s2': "step_ok p s \<sigma> st (st2, inc)" using le1 s2 by (rule step_ok_trans)
    show ?thesis
    proof (cases inc)
      case True
      with False tr d c g2 s2' show ?thesis by (simp add: Let_def)
    next
      case n: False
      have inv2: "elim_inv p s \<sigma> st2" and le2: "elim_le p s st1 st2" using s2 by (simp_all add: step_ok_def)
      have q2: "subset_inv p s \<sigma> chosen acc certains (Suc k) st2" using t q1 le2 inv2 by (rule subset_inv_mono) simp
      have sum2: "possible_sum p s st2 < bf"
        using possible_sum_le [OF elim_invD(1) [OF inv1] elim_invD(1) [OF inv2] le2] sum1 by simp
      have len2: "length (es_cands st2) < fuel + Suc k" using le2 f(2) by (simp add: elim_le_def)
      obtain r where r: "gen_subset fuel bf p s chosen acc certains (Suc k) st2 = Inr r" "step_ok p s \<sigma> st2 r"
        using Suc.IH [OF q2 sum2 len2 f(1)] by blast
      have "step_ok p s \<sigma> st r" using elim_le_trans [OF le1 le2] r(2) by (rule step_ok_trans)
      with False tr d c g2 n r(1) show ?thesis by (simp add: Let_def)
    qed
  qed
qed simp

lemma cross_elim_ok:
  assumes t: "truth_ok s \<sigma>" and inv: "elim_inv p s \<sigma> st" and n: "possible_sum p s st < bf"
  shows "\<exists>r. cross_elim bf p s st = Inr r \<and> step_ok p s \<sigma> st r"
proof (cases "length (es_cands st) \<le> 1")
  case True
  with inv show ?thesis by (simp add: cross_elim_def step_ok_def)
next
  case False
  have "subset_inv p s \<sigma> [] (base_ids s) [] 0 st"
    using inv tables_okD(5) [OF truth_okD(1) [OF t]] by (simp add: subset_inv_def entries_ok_def)
  from gen_subset_ok [OF t this n, of "Suc (length (es_cands st))"] False show ?thesis
    by (simp add: cross_elim_def del: gen_subset.simps)
qed

section \<open>Endgame elimination\<close>

lemma shows_truth:
  assumes t: "truth_ok s \<sigma>" and inv: "elim_inv p s \<sigma> st" and o: "ord \<in> set (all_orders s)"
    and sh: "shows_id p s st i ord"
  shows "\<sigma> ord = i"
proof -
  obtain c where c: "thought p st ord = Some c" "fits (n_suits s) c (\<sigma> ord)"
    using elim_invD(1) [OF inv] o by (rule thoughts_fitD)
  show ?thesis
    using sh c truth_deck_matches [OF t o, of i] fits_matches [OF c(2) truth_okD(4) [OF t o], of i]
    by (auto simp: shows_id_def)
qed

lemma known_shows: "known_id p s st ord = Some i \<Longrightarrow> shows_id p s st i ord"
  by (auto simp: known_id_def shows_id_def deck_id_def actual_matches_def basic_identity_def matches_identity raw_def
      split: option.splits if_splits)

lemma length_filter_concat: "length (filter P (concat xss)) = sum_list (map (\<lambda>xs. length (filter P xs)) xss)"
  by (induction xss) simp_all

lemma map_hands: "length (hands s) = num_players s \<Longrightarrow> map (\<lambda>pl. f (hands s ! pl)) [0..<num_players s] = map f (hands s)"
  by (metis map_map [unfolded comp_def] map_nth)

text \<open>Someone who has a copy is a holder.\<close>

lemma not_holder:
  assumes t: "truth_ok s \<sigma>" and inv: "elim_inv p s \<sigma> st" and i: "in_deck s i"
    and pl: "pl < num_players s" "pl \<notin> set (holders p s st i)" and o: "ord \<in> set (hands s ! pl)"
  shows "\<sigma> ord \<noteq> i"
proof
  assume e: "\<sigma> ord = i"
  have oa: "ord \<in> set (all_orders s)" using t pl(1) o by (rule hand_order)
  have none: "\<not> shows_id p s st i ord"
    using pl o by (auto simp: holders_def Let_def filter_empty_conv)
  then have k: "known_id p s st ord = None"
    using known_id_truth [OF t inv oa] known_shows [of p s st ord] e by (cases "known_id p s st ord") auto
  have "sum_list (map (\<lambda>pl. length (filter (shows_id p s st i) (hands s ! pl))) [0..<num_players s])
      = length (filter (shows_id p s st i) (all_orders s))"
    by (simp add: all_orders_def length_filter_concat map_hands [OF truth_okD(2) [OF t], of "\<lambda>xs. length (filter (shows_id p s st i) xs)"])
  then have total: "base_count s i + int (length (filter (shows_id p s st i) (all_orders s))) = total_count s i"
    using pl o k by (auto simp: holders_def Let_def list_ex_iff)
  have "set (filter (shows_id p s st i) (all_orders s)) \<subset> copies s \<sigma> i"
  proof
    show "set (filter (shows_id p s st i) (all_orders s)) \<subseteq> copies s \<sigma> i"
      using shows_truth [OF t inv] by (auto simp: copies_def)
    show "set (filter (shows_id p s st i) (all_orders s)) \<noteq> copies s \<sigma> i"
      using e oa none by (auto simp: copies_def)
  qed
  then have "card (set (filter (shows_id p s st i) (all_orders s))) < card (copies s \<sigma> i)"
    by (intro psubset_card_mono) simp_all
  moreover have "card (set (filter (shows_id p s st i) (all_orders s))) = length (filter (shows_id p s st i) (all_orders s))"
    using truth_okD(3) [OF t] by (intro distinct_card) simp
  ultimately show False using total truth_okD(5) [OF t i] by simp
qed

lemma end_elim_card_ok:
  assumes t: "truth_ok s \<sigma>" and i: "in_deck s i" and o: "ord \<in> set (all_orders s)" "\<sigma> ord \<noteq> i"
    and acc: "elim_inv p s \<sigma> (fst acc)" "elim_le p s st (fst acc)"
  shows "\<exists>acc'. end_elim_card p s i acc ord = Inr acc' \<and> elim_inv p s \<sigma> (fst acc') \<and> elim_le p s st (fst acc')"
proof -
  obtain c where c: "thought p (fst acc) ord = Some c" "fits (n_suits s) c (\<sigma> ord)"
    using elim_invD(1) [OF acc(1)] o(1) by (rule thoughts_fitD)
  show ?thesis
  proof (cases "\<not> iset_has (possible c) i \<or> actual_matches None (deck_at s ord) i \<or> matches no_opts c i")
    case True
    with c acc show ?thesis by (auto simp: end_elim_card_def)
  next
    case False
    then have has: "iset_has (possible c) i" by simp
    let ?d = "without_id i c"
    note r = remove_id [OF t acc(1) o(1) c(1) i has o(2)]
    have twice: "set_thought (set_thought (fst acc) ord a) ord b = set_thought (fst acc) ord b" for a b
      by (simp add: set_thought_def update_last)
    have ok: "elim_inv p s \<sigma> (set_thought (fst acc) ord d) \<and> elim_le p s st (set_thought (fst acc) ord d)"
      if "d = ?d \<or> d = reset_inferences ?d" for d
      using r(2,3) [OF that] acc(2) by (auto dest: elim_less_le intro: elim_le_trans)
    have one: "\<exists>us. need (identity no_opts ?d) = Inr (\<sigma> ord)" if one: "iset_length (possible ?d) = 1"
    proof -
      have f: "fits (n_suits s) ?d (\<sigma> ord)" using r(1) by blast
      obtain j where "identity no_opts ?d = Some j" using single_possible_identity [OF fitsD(1) [OF f] one] by blast
      moreover then have "j = \<sigma> ord"
        using f truth_okD(4) [OF t o(1)] by (rule fits_identity [rotated 3]) (simp add: no_opts_def)
      ultimately show ?thesis by simp
    qed
    have add: "elim_inv p s \<sigma> (add_certain s (set_thought (fst acc) ord ?d) (\<sigma> ord) ord us) \<and>
        elim_le p s st (add_certain s (set_thought (fst acc) ord ?d) (\<sigma> ord) ord us)" for us
      using inv_add_certain [OF t _ o(1)] ok [of ?d] by (blast intro: elim_le_trans)
    consider (a) "iset_length (inferred ?d) = 0 \<and> \<not> reset c"
      | (b) "\<not> (iset_length (inferred ?d) = 0 \<and> \<not> reset c)" "iset_length (possible ?d) = 1"
      | (c) "\<not> (iset_length (inferred ?d) = 0 \<and> \<not> reset c)" "iset_length (possible ?d) \<noteq> 1" by blast
    then show ?thesis
    proof cases
      case a
      with False c ok show ?thesis by (simp add: end_elim_card_def Let_def twice)
    next
      case b
      with False c one add show ?thesis by (auto simp: end_elim_card_def Let_def)
    next
      case c': c
      with False c ok show ?thesis by (auto simp: end_elim_card_def Let_def)
    qed
  qed
qed

lemma end_perform_ok:
  assumes t: "truth_ok s \<sigma>" and i: "in_deck s i" and h: "\<And>ord. ord \<in> set hand \<Longrightarrow> ord \<in> set (all_orders s) \<and> \<sigma> ord \<noteq> i"
    and inv: "elim_inv p s \<sigma> st" and le: "elim_le p s st0 st"
  shows "\<exists>st'. end_perform p s i st hand = Inr st' \<and> elim_inv p s \<sigma> st' \<and> elim_le p s st0 st'"
proof -
  let ?P = "\<lambda>acc. elim_inv p s \<sigma> (fst acc) \<and> elim_le p s st0 (fst acc)"
  obtain acc where "foldR (end_elim_card p s i) (st, []) hand = Inr acc" "?P acc"
    using foldR_total [of ?P "(st, [])" hand "end_elim_card p s i"] inv le h end_elim_card_ok [OF t i] by auto
  then show ?thesis
    by (cases acc) (auto simp: end_perform_def intro: inv_drop elim_le_trans elim_le_drop)
qed

lemma endgame_elim_ok:
  assumes t: "truth_ok s \<sigma>" and ids: "\<And>i. i \<in> set ids \<Longrightarrow> in_deck s i" and inv: "elim_inv p s \<sigma> st"
  shows "\<exists>st'. endgame_elim p s ids st = Inr st' \<and> elim_inv p s \<sigma> st' \<and> elim_le p s st st'"
proof (cases "cards_left s > 0 \<or> player_index p \<noteq> -1")
  case True
  with inv show ?thesis by (auto simp: endgame_elim_def)
next
  case False
  let ?P = "\<lambda>st'. elim_inv p s \<sigma> st' \<and> elim_le p s st st'"
  let ?hands = "\<lambda>hs. map ((!) (hands s)) (filter (\<lambda>pl. pl \<notin> set hs) [0..<num_players s])"
  have "\<exists>st2. foldR (end_perform p s i) st1 (?hands (holders p s st1 i)) = Inr st2 \<and> ?P st2"
    if i: "i \<in> set ids" and P: "?P st1" for i st1
  proof (rule foldR_total [where P = ?P])
    show "?P st1" by (rule P)
    fix st2 hand assume h: "hand \<in> set (?hands (holders p s st1 i))" and P2: "?P st2"
    from h obtain pl where pl: "pl < num_players s" "pl \<notin> set (holders p s st1 i)" "hand = hands s ! pl" by auto
    have "ord \<in> set (all_orders s) \<and> \<sigma> ord \<noteq> i" if "ord \<in> set hand" for ord
      using that pl hand_order [OF t] not_holder [OF t _ ids [OF i] pl(1,2)] P by blast
    with P2 end_perform_ok [OF t ids [OF i]]
    show "\<exists>st'. end_perform p s i st2 hand = Inr st' \<and> ?P st'" by blast
  qed
  note step = this
  have "\<exists>st'. foldR (\<lambda>st1 i. foldR (end_perform p s i) st1 (?hands (holders p s st1 i))) st ids = Inr st' \<and> ?P st'"
  proof (rule foldR_total [where P = ?P])
    show "?P st" using inv by simp
  qed (rule step)
  with False show ?thesis by (simp add: endgame_elim_def Let_def)
qed

lemma cross_loop_ok:
  assumes "truth_ok s \<sigma>" "\<And>i. i \<in> set ids \<Longrightarrow> in_deck s i"
  shows "elim_inv p s \<sigma> st \<Longrightarrow> possible_sum p s st < bf \<Longrightarrow> possible_sum p s st < fuel \<Longrightarrow>
    \<exists>st'. cross_loop fuel bf p s ids st = Inr st' \<and> elim_inv p s \<sigma> st' \<and> elim_le p s st st'"
proof (induction fuel arbitrary: st)
  case (Suc fuel)
  obtain st1 again where c: "cross_elim bf p s st = Inr (st1, again)" "step_ok p s \<sigma> st (st1, again)"
    using cross_elim_ok [OF assms(1) Suc.prems(1,2)] by auto
  have inv1: "elim_inv p s \<sigma> st1" and le1: "elim_le p s st st1" using c(2) by (simp_all add: step_ok_def)
  show ?case
  proof (cases again)
    case True
    then have "possible_sum p s st1 < possible_sum p s st"
      using c(2) by (intro possible_sum_less [OF elim_invD(1) [OF Suc.prems(1)] elim_invD(1) [OF inv1]]) (simp add: step_ok_def)
    with Suc.IH [OF inv1] Suc.prems c le1 True show ?thesis by (auto intro: elim_le_trans)
  next
    case False
    with endgame_elim_ok [OF assms inv1] c le1 show ?thesis by (auto intro: elim_le_trans)
  qed
qed simp

section \<open>Card elimination\<close>

lemma init_card_ok:
  assumes t: "truth_ok s \<sigma>" and k: "knows p s \<sigma>" and po: "(pl, ord) \<in> set (hand_pairs s)"
    and inv: "elim_inv p s \<sigma> st" and n: "ord \<notin> fst ` set (es_cands st)"
  shows "\<exists>st'. init_card p s st (pl, ord) = Inr st' \<and> elim_inv p s \<sigma> st' \<and> es_new st' = es_new st \<and>
    fst ` set (es_cands st') \<subseteq> insert ord (fst ` set (es_cands st))"
proof -
  have h: "pl < num_players s" "ord \<in> set (hands s ! pl)" using po by (simp_all add: hand_pairs_iff)
  have o: "ord \<in> set (all_orders s)" using t h by (rule hand_order)
  obtain c where c: "slot (thoughts p) ord = Some c" "fits (n_suits s) c (\<sigma> ord)" using k o by (auto simp: knows_def)
  define us where "us = (if identity (sym_opts True) c = None then [pl] else [])"
  define st1 where "st1 = (case identity (sym_opts (player_index p = -1)) c of
    Some i \<Rightarrow> add_certain s st i ord us | None \<Rightarrow> st)"
  have "j = \<sigma> ord" if "identity (sym_opts b) c = Some j" for j b
    using c(2) truth_okD(4) [OF t o] _ that by (rule fits_identity) (simp add: no_opts_def)
  then have 1: "elim_inv p s \<sigma> st1" "es_new st1 = es_new st" "es_cands st1 = es_cands st"
    using inv inv_add_certain(1) [OF t inv o] by (auto simp: st1_def split: option.splits)
  have 2: "elim_inv p s \<sigma> (st1\<lparr>es_cands := es_cands st1 @ [(ord, pl)]\<rparr>)"
    using 1 n h by (auto simp: elim_inv_def thoughts_fit_def certain_ok_def entries_ok_def)
  have 3: "init_card p s st (pl, ord) = Inr (if is_candidate s c then st1\<lparr>es_cands := es_cands st1 @ [(ord, pl)]\<rparr> else st1)"
    unfolding init_card_def st1_def us_def Let_def by (simp add: c(1))
  show ?thesis
  proof (cases "is_candidate s c")
    case True
    with 1 2 3 show ?thesis by (intro exI [of _ "st1\<lparr>es_cands := es_cands st1 @ [(ord, pl)]\<rparr>"]) simp
  next
    case False
    with 1 3 show ?thesis by (intro exI [of _ st1]) auto
  qed
qed

lemma init_fold_ok:
  assumes t: "truth_ok s \<sigma>" and k: "knows p s \<sigma>"
  shows "elim_inv p s \<sigma> st \<Longrightarrow> set pos \<subseteq> set (hand_pairs s) \<Longrightarrow> distinct (map snd pos) \<Longrightarrow>
    fst ` set (es_cands st) \<inter> snd ` set pos = {} \<Longrightarrow>
    \<exists>st'. foldR (init_card p s) st pos = Inr st' \<and> elim_inv p s \<sigma> st' \<and> es_new st' = es_new st"
proof (induction pos arbitrary: st)
  case (Cons po pos)
  obtain pl ord where po: "po = (pl, ord)" by force
  have "(pl, ord) \<in> set (hand_pairs s)" "ord \<notin> fst ` set (es_cands st)" using Cons.prems(2,4) po by auto
  then obtain st1 where s1: "init_card p s st (pl, ord) = Inr st1" "elim_inv p s \<sigma> st1" "es_new st1 = es_new st"
      "fst ` set (es_cands st1) \<subseteq> insert ord (fst ` set (es_cands st))"
    using init_card_ok [OF t k _ Cons.prems(1)] by blast
  have "ord \<notin> snd ` set pos" "fst ` set (es_cands st) \<inter> snd ` set pos = {}" using Cons.prems(3,4) po by auto
  with s1(4) have "fst ` set (es_cands st1) \<inter> snd ` set pos = {}" by blast
  then obtain st' where "foldR (init_card p s) st1 pos = Inr st'" "elim_inv p s \<sigma> st'" "es_new st' = es_new st1"
    using Cons.IH [OF s1(2)] Cons.prems(2,3) by auto
  with s1 po show ?case by simp
qed simp

lemma map_snd_pairs: "length (hands s) = num_players s \<Longrightarrow> map snd (hand_pairs s) = all_orders s"
  using map_hands [of s "\<lambda>x. x"] by (simp add: hand_pairs_def all_orders_def map_concat comp_def)

lemma init_elim_ok:
  assumes t: "truth_ok s \<sigma>" and k: "knows p s \<sigma>"
  shows "\<exists>st. init_elim p s = Inr st \<and> elim_inv p s \<sigma> st \<and> es_new st = []"
proof -
  let ?st = "\<lparr>es_new = [], es_certain = [], es_cands = [], es_elim = base_ids s\<rparr> :: elim_state"
  note tab = tables_okD [OF truth_okD(1) [OF t]]
  have "elim_inv p s \<sigma> ?st"
    using k tab iset_has_new(1) [OF _ tab(2)]
    by (auto simp: elim_inv_def thoughts_fit_def knows_def thought_def certain_ok_def certains_of_def entries_ok_def)
  with init_fold_ok [OF t k, of ?st "hand_pairs s"] truth_okD(2,3) [OF t]
  show ?thesis by (simp add: init_elim_def map_snd_pairs)
qed

lemma union_possible_ok:
  assumes k: "knows p s \<sigma>"
  shows "iset_ok (n_suits s) acc \<Longrightarrow> set ords \<subseteq> set (all_orders s) \<Longrightarrow>
    \<exists>r. union_possible p s acc ords = Inr r \<and> iset_ok (n_suits s) r"
proof (induction ords arbitrary: acc)
  case (Cons ord ords)
  from Cons.prems obtain c where c: "slot (thoughts p) ord = Some c" "fits (n_suits s) c (\<sigma> ord)"
    using k by (auto simp: knows_def)
  then have "iset_ok (n_suits s) (iset_union acc (ASet (possible c)))" using Cons.prems(1) by (auto dest: fitsD)
  with Cons.IH Cons.prems c show ?case by (auto simp: Let_def)
qed simp

text \<open>Soundness and totality.\<close>

lemma card_elim_total:
  assumes t: "truth_ok s \<sigma>" and k: "knows p s \<sigma>"
  shows "\<exists>ts st0 st. card_elim p s = Inr (p\<lparr>all_possible := iset_subtract (all_possible p) (ASet (es_elim st)),
          all_inferred := iset_subtract (all_inferred p) (ASet (es_elim st)), thoughts := ts\<rparr>) \<and>
    elim_inv p s \<sigma> st \<and> elim_le p s st0 st \<and> es_new st0 = [] \<and> (\<forall>ord. slot ts ord = thought p st ord)"
proof -
  obtain u where u: "union_possible p s (base_ids s) (all_orders s) = Inr u" "iset_ok (n_suits s) u"
    using union_possible_ok [OF k tables_okD(5) [OF truth_okD(1) [OF t]]] by blast
  have ids: "in_deck s i" if "i \<in> set (iset_array u)" for i using that idset.elems_mem [OF u(2)] by auto
  obtain st0 where s0: "init_elim p s = Inr st0" "elim_inv p s \<sigma> st0" "es_new st0 = []" using init_elim_ok [OF t k] by blast
  define n where "n = Suc (possible_sum p s st0)"
  obtain st1 where s1: "endgame_elim p s (iset_array u) st0 = Inr st1" "elim_inv p s \<sigma> st1" "elim_le p s st0 st1"
    using endgame_elim_ok [OF t ids s0(2)] by blast
  have n1: "possible_sum p s st1 < n"
    using possible_sum_le [OF elim_invD(1) [OF s0(2)] elim_invD(1) [OF s1(2)] s1(3)] by (simp add: n_def)
  have "\<exists>r. basic_elim n p s (iset_array u) st1 = Inr r \<and> step_ok p s \<sigma> st1 r"
    by (rule basic_elim_ok [OF t s1(2) _ n1]) (rule ids)
  then obtain st2 b where s2: "basic_elim n p s (iset_array u) st1 = Inr (st2, b)" "elim_inv p s \<sigma> st2" "elim_le p s st1 st2"
    by (auto simp: step_ok_def)
  have n2: "possible_sum p s st2 < n"
    using possible_sum_le [OF elim_invD(1) [OF s1(2)] elim_invD(1) [OF s2(2)] s2(3)] n1 by simp
  obtain st3 where s3: "cross_loop n n p s (iset_array u) st2 = Inr st3" "elim_inv p s \<sigma> st3" "elim_le p s st2 st3"
    using cross_loop_ok [OF t ids s2(2) n2 n2] by blast
  have le: "elim_le p s st0 st3" using s1(3) s2(3) s3(3) by (blast intro: elim_le_trans)
  have "slot (fold (\<lambda>e ts. put ts (fst e) (snd e)) (es_new st3) (thoughts p)) ord = thought p st3 ord" for ord
    using s3(2) by (simp add: slot_fold_put elim_inv_def thought_def)
  moreover have "card_elim p s = Inr (p\<lparr>all_possible := iset_subtract (all_possible p) (ASet (es_elim st3)),
      all_inferred := iset_subtract (all_inferred p) (ASet (es_elim st3)),
      thoughts := fold (\<lambda>e ts. put ts (fst e) (snd e)) (es_new st3) (thoughts p)\<rparr>)"
    using s1(1) s2(1) s3(1) unfolding n_def
    by (simp add: card_elim_def Let_def u(1) s0(1) del: basic_elim.simps cross_loop.simps)
  ultimately show ?thesis using s3(2) le s0(3) by blast
qed

theorem card_elim_sound:
  assumes t: "truth_ok s \<sigma>" and k: "knows p s \<sigma>"
    and ap: "iset_ok (n_suits s) (all_possible p)" "iset_ok (n_suits s) (all_inferred p)"
  shows "\<exists>p'. card_elim p s = Inr p' \<and> knows p' s \<sigma> \<and>
    player_index p' = player_index p \<and> links p' = links p \<and> patches p' = patches p \<and>
    iset_ok (n_suits s) (all_possible p') \<and> iset_ok (n_suits s) (all_inferred p') \<and>
    (\<forall>ord \<in> set (all_orders s). \<forall>i :: basic_card. in_deck s i \<longrightarrow>
       iset_has (possible (card_at p' ord)) i \<longrightarrow> iset_has (possible (card_at p ord)) i) \<and>
    (\<forall>i :: basic_card. in_deck s i \<longrightarrow> iset_has (all_possible p) i \<longrightarrow> \<not> iset_has (all_possible p') i \<longrightarrow> exhausted s \<sigma> i) \<and>
    (\<forall>ord. ord \<notin> set (all_orders s) \<longrightarrow> slot (thoughts p') ord = slot (thoughts p) ord)"
proof -
  obtain ts st0 st where r: "card_elim p s = Inr (p\<lparr>all_possible := iset_subtract (all_possible p) (ASet (es_elim st)),
          all_inferred := iset_subtract (all_inferred p) (ASet (es_elim st)), thoughts := ts\<rparr>)"
    and inv: "elim_inv p s \<sigma> st" and le: "elim_le p s st0 st" and n: "es_new st0 = []"
    and sl: "\<And>ord. slot ts ord = thought p st ord"
    using card_elim_total [OF t k] by blast
  define p' where "p' = p\<lparr>all_possible := iset_subtract (all_possible p) (ASet (es_elim st)),
          all_inferred := iset_subtract (all_inferred p) (ASet (es_elim st)), thoughts := ts\<rparr>"
  have same: "player_index p' = player_index p" "links p' = links p" "patches p' = patches p" by (simp_all add: p'_def)
  have a: "all_possible p' = iset_subtract (all_possible p) (ASet (es_elim st))"
    "all_inferred p' = iset_subtract (all_inferred p) (ASet (es_elim st))" "thoughts p' = ts" by (simp_all add: p'_def)
  have ok: "iset_ok (n_suits s) (es_elim st)" using inv by (rule elim_invD)
  have 1: "knows p' s \<sigma>" using elim_invD(1) [OF inv] by (simp add: knows_def thoughts_fit_def sl a)
  have 2: "iset_has (possible (card_at p ord)) i"
    if o: "ord \<in> set (all_orders s)" "in_deck s i" "iset_has (possible (card_at p' ord)) i" for ord and i :: basic_card
  proof -
    obtain c where c: "thought p st ord = Some c"
      using thoughts_fitD [OF elim_invD(1) [OF inv] o(1)] by blast
    have "i \<in> ids_left p s st ord" using o c by (simp add: ids_left_def card_at_def sl a)
    then have "i \<in> ids_left p s st0 ord" using le by (auto simp: elim_le_def)
    then show ?thesis by (auto simp: ids_left_def thought_def n card_at_def split: option.splits)
  qed
  have 3: "exhausted s \<sigma> i"
    if "in_deck s i" "iset_has (all_possible p) i" "\<not> iset_has (all_possible p') i" for i :: basic_card
    using that inv ok ap by (auto simp: a iset_has_subtract elim_inv_def)
  have 4: "slot (thoughts p') ord = slot (thoughts p) ord" if "ord \<notin> set (all_orders s)" for ord
  proof -
    have "map_of (es_new st) ord = None" using inv that by (auto simp: elim_inv_def map_of_eq_None_iff)
    then show ?thesis by (simp add: sl thought_def a)
  qed
  have 5: "iset_ok (n_suits s) (all_possible p')" "iset_ok (n_suits s) (all_inferred p')"
    unfolding a using ap by (auto intro: iset_ok_ops)
  have "\<forall>ord \<in> set (all_orders s). \<forall>i :: basic_card. in_deck s i \<longrightarrow>
      iset_has (possible (card_at p' ord)) i \<longrightarrow> iset_has (possible (card_at p ord)) i" using 2 by blast
  moreover have "\<forall>i :: basic_card. in_deck s i \<longrightarrow> iset_has (all_possible p) i \<longrightarrow> \<not> iset_has (all_possible p') i \<longrightarrow> exhausted s \<sigma> i"
    using 3 by blast
  moreover have "\<forall>ord. ord \<notin> set (all_orders s) \<longrightarrow> slot (thoughts p') ord = slot (thoughts p) ord"
    using 4 by blast
  ultimately show ?thesis using r [folded p'_def] 1 5 same by (intro exI [of _ p'] conjI)
qed

end
