(* ===== verification/Good_Touch_Sound.thy ===== *)
theory Good_Touch_Sound
  imports Good_Touch Consistency
begin

text \<open>
  Good touch elimination ends, does not throw, and only changes inferences: the possibilities and
  what identifies a card stay, and a card that has not lost all its inferences only has fewer of them. The
  measure counts the inferences and the resets that are left.
\<close>

section \<open>Sizes\<close>

lemma iset_length_30:
  assumes "iset_ok n s"
  shows "length (iset_array s) \<le> 30"
proof -
  have n: "n \<le> 6" using assms by (simp add: iset_ok_def)
  have "set (iset_array s) \<subseteq> set (all_identities (replicate n []))"
    using idset.elems_mem [OF assms] by (auto simp: set_all_identities)
  then have "card (set (iset_array s)) \<le> card (set (all_identities (replicate n [])))" by (intro card_mono) auto
  also have "\<dots> \<le> length (all_identities (replicate n []))" by (rule card_length)
  also have "\<dots> = 5 * n" by (simp add: all_identities_def length_concat sum_list_triv comp_def)
  finally show ?thesis using n idset.elems_distinct [OF assms] by (simp add: distinct_card)
qed

lemma length_array: "iset_ok n s \<Longrightarrow> int (length (iset_array s)) = iset_length s"
  by (simp add: idset.size_elems)

section \<open>The invariant\<close>

definition weight :: "card \<Rightarrow> nat" where
  "weight c = length (iset_array (inferred c)) + (if reset c then 0 else 31)"

text \<open>What may have happened to a card.\<close>

definition gt_rel :: "nat \<Rightarrow> card \<Rightarrow> card \<Rightarrow> bool" where
  "gt_rel n c d \<longleftrightarrow> card_ok n d \<and> possible d = possible c \<and> suit_index d = suit_index c \<and> rank d = rank c \<and>
     rewind_ids d = rewind_ids c \<and>
     (reset d \<or> (\<forall>i :: basic_card. valid_id n i \<longrightarrow> iset_has (inferred d) i \<longrightarrow> iset_has (inferred c) i))"

definition gt_inv :: "player \<Rightarrow> game_state \<Rightarrow> gt_state \<Rightarrow> bool" where
  "gt_inv p s st \<longleftrightarrow>
     (\<forall>ord \<in> set (all_orders s). \<exists>c d. slot (thoughts p) ord = Some c \<and> gt_thought p st ord = Some d \<and>
        gt_rel (n_suits s) c d) \<and>
     fst ` set (gt_cands st) \<subseteq> set (all_orders s) \<and>
     (\<forall>e \<in> set (gt_cross st). distinct (snd e) \<and> set (snd e) \<subseteq> set (all_orders s)) \<and>
     iset_ok (n_suits s) (gt_ids st) \<and> fst ` set (gt_new st) \<subseteq> set (all_orders s) \<and> distinct (map fst (gt_new st))"

definition gt_ready :: "player \<Rightarrow> game_state \<Rightarrow> bool" where
  "gt_ready p s \<longleftrightarrow> tables_ok s \<and> length (hands s) = num_players s \<and>
     (\<forall>ord \<in> set (all_orders s). \<exists>c. slot (thoughts p) ord = Some c \<and> card_ok (n_suits s) c)"

definition gt_weight :: "player \<Rightarrow> gt_state \<Rightarrow> nat \<Rightarrow> nat" where
  "gt_weight p st ord = (case gt_thought p st ord of None \<Rightarrow> 0 | Some c \<Rightarrow> weight c)"

lemma gt_measure_weight: "gt_measure p s st = sum_list (map (gt_weight p st) (all_orders s))"
  by (auto simp: gt_measure_def gt_weight_def weight_def intro!: arg_cong [where f = sum_list] split: option.splits)

lemma gt_thought_put [simp]: "gt_thought p (gt_put o1 c st) ord = (if ord = o1 then Some c else gt_thought p st ord)"
  by (simp add: gt_thought_def gt_put_def update_conv')

lemma gt_put_frame [simp]:
  "gt_cands (gt_put o1 c st) = gt_cands st" "gt_cross (gt_put o1 c st) = gt_cross st"
  "gt_ids (gt_put o1 c st) = gt_ids st" "gt_match (gt_put o1 c st) = gt_match st"
  "gt_new (gt_put o1 c st) = AList.update o1 c (gt_new st)"
  by (simp_all add: gt_put_def)

lemma gt_thought_cong: "gt_new st' = gt_new st \<Longrightarrow> gt_thought p st' ord = gt_thought p st ord"
  by (simp add: gt_thought_def)

lemma gt_measure_cong: "gt_new st' = gt_new st \<Longrightarrow> gt_measure p s st' = gt_measure p s st"
  by (simp add: gt_measure_def gt_thought_cong [of st' st])

lemma gt_invD:
  assumes "gt_inv p s st" "ord \<in> set (all_orders s)"
  obtains c d where "slot (thoughts p) ord = Some c" "gt_thought p st ord = Some d" "gt_rel (n_suits s) c d"
    "card_ok (n_suits s) d"
  using assms by (auto simp: gt_inv_def gt_rel_def)

text \<open>Only the new thoughts matter to the first part.\<close>

lemma gt_inv_cong:
  "gt_inv p s st \<Longrightarrow> gt_new st' = gt_new st \<Longrightarrow> fst ` set (gt_cands st') \<subseteq> set (all_orders s) \<Longrightarrow>
    (\<And>e. e \<in> set (gt_cross st') \<Longrightarrow> distinct (snd e) \<and> set (snd e) \<subseteq> set (all_orders s)) \<Longrightarrow>
    iset_ok (n_suits s) (gt_ids st') \<Longrightarrow> gt_inv p s st'"
  by (simp add: gt_inv_def gt_thought_cong [of st' st])


lemma gt_put_ok:
  assumes inv: "gt_inv p s st" and o: "ord \<in> set (all_orders s)"
    and c: "slot (thoughts p) ord = Some c0" "gt_thought p st ord = Some c"
    and d: "gt_rel (n_suits s) c0 d" "weight d \<le> weight c"
  shows "gt_inv p s (gt_put ord d st)" "gt_measure p s (gt_put ord d st) \<le> gt_measure p s st"
    "weight d < weight c \<Longrightarrow> gt_measure p s (gt_put ord d st) < gt_measure p s st"
proof -
  show "gt_inv p s (gt_put ord d st)"
    using inv o c d by (auto simp: gt_inv_def distinct_update dom_update)
  have w: "gt_weight p (gt_put ord d st) x \<le> gt_weight p st x" for x
    using c d by (simp add: gt_weight_def)
  then show "gt_measure p s (gt_put ord d st) \<le> gt_measure p s st"
    unfolding gt_measure_weight by (intro sum_list_mono)
  show "gt_measure p s (gt_put ord d st) < gt_measure p s st" if "weight d < weight c"
    unfolding gt_measure_weight using w o by (rule sum_list_less) (use that c in \<open>simp add: gt_weight_def\<close>)
qed

text \<open>The three changes of a card: fewer inferences, a reset when none is left, another flag.\<close>

lemma gt_rel_fewer:
  assumes "gt_rel n c0 c" "iset_ok n s" "\<And>i :: basic_card. valid_id n i \<Longrightarrow> iset_has s i \<Longrightarrow> iset_has (inferred c) i"
  shows "gt_rel n c0 (c\<lparr>inferred := s\<rparr>)"
  using assms by (auto simp: gt_rel_def card_ok_def valid_id_def)

lemma gt_rel_reset: "gt_rel n c0 c \<Longrightarrow> gt_rel n c0 (reset_inferences c)"
  by (simp add: gt_rel_def reset_inferences_ok)

lemma gt_rel_refl: "card_ok n c \<Longrightarrow> gt_rel n c c"
  by (simp add: gt_rel_def)

lemma weight_reset: "card_ok n c \<Longrightarrow> \<not> reset c \<Longrightarrow> weight (reset_inferences c) < weight c"
proof -
  assume c: "card_ok n c" "\<not> reset c"
  have "length (iset_array (inferred (reset_inferences c))) \<le> 30"
    using iset_length_30 [OF card_okD(2) [OF reset_inferences_ok [OF c(1)]]] .
  with c(2) show ?thesis by (simp add: weight_def)
qed

lemma fewer_length:
  assumes "iset_ok n s" "iset_ok n t" "\<And>i :: basic_card. valid_id n i \<Longrightarrow> iset_has s i \<Longrightarrow> iset_has t i"
  shows "length (iset_array s) \<le> length (iset_array t)"
  using idset.size_mono [OF assms] length_array [OF assms(1)] length_array [OF assms(2)] by simp

lemma subtract_id:
  assumes "card_ok n c" "valid_id n i" "iset_has (inferred c) i"
  shows "iset_ok n (iset_subtract (inferred c) (AnId i))"
    "\<And>j :: basic_card. valid_id n j \<Longrightarrow> iset_has (iset_subtract (inferred c) (AnId i)) j \<Longrightarrow> iset_has (inferred c) j"
    "length (iset_array (iset_subtract (inferred c) (AnId i))) < length (iset_array (inferred c))"
proof -
  have ok: "iset_ok n (inferred c)" using assms(1) by (rule card_okD)
  show ok': "iset_ok n (iset_subtract (inferred c) (AnId i))" using ok by simp
  show "iset_has (inferred c) j" if "valid_id n j" "iset_has (iset_subtract (inferred c) (AnId i)) j" for j :: basic_card
    using idset.mem_remove [OF ok that(1) assms(2)] that(2) by simp
  show "length (iset_array (iset_subtract (inferred c) (AnId i))) < length (iset_array (inferred c))"
    using idset.size_remove_less [OF ok assms(2,3)] length_array [OF ok] length_array [OF ok'] by simp
qed

section \<open>The maps\<close>

lemma update_entry: "e \<in> set (AList.update k v m) \<Longrightarrow> e = (k, v) \<or> e \<in> set m"
  by (induction m) (auto split: if_splits)

lemma length_update: "length (AList.update k v m) \<le> Suc (length m)"
  by (induction m) auto

text \<open>A step that keeps the thoughts, the candidates and the identities.\<close>

definition maps_step :: "gt_state \<Rightarrow> gt_state \<Rightarrow> bool" where
  "maps_step st st' \<longleftrightarrow> gt_new st' = gt_new st \<and> gt_cands st' = gt_cands st \<and> gt_ids st' = gt_ids st"

lemma add_match_frame [simp]: "gt_cross (add_match s c i ord st) = gt_cross st" "maps_step st (add_match s c i ord st)"
  by (simp_all add: add_match_def maps_step_def Let_def)

lemma lookup_set_entry: "map_of m k = Some xs \<Longrightarrow> (k, xs) \<in> set m"
  by (rule map_of_SomeD)

lemma add_cross_ok:
  assumes "\<And>e. e \<in> set m \<Longrightarrow> distinct (snd e) \<and> set (snd e) \<subseteq> H" "ord \<in> H"
    and "e \<in> set (AList.update k (set_add ord (lookup_set m k)) m)"
  shows "distinct (snd e) \<and> set (snd e) \<subseteq> H"
proof -
  have l: "distinct (lookup_set m k) \<and> set (lookup_set m k) \<subseteq> H"
    using assms(1) by (force simp: lookup_set_def split: option.splits dest: lookup_set_entry)
  show ?thesis using update_entry [OF assms(3)]
  proof
    assume "e = (k, set_add ord (lookup_set m k))"
    with l assms(2) show ?thesis by (auto simp: set_add_def)
  qed (rule assms(1))
qed

lemma add_to_maps_ok:
  assumes inv: "gt_inv p s st" and o: "ord \<in> set (all_orders s)"
  shows "\<exists>st'. add_to_maps p s st ord pl = Inr st' \<and> gt_inv p s st' \<and> maps_step st st' \<and>
    length (gt_cross st') \<le> Suc (length (gt_cross st))"
proof -
  obtain c d where c: "gt_thought p st ord = Some d" using gt_invD [OF inv o] by blast
  have cr: "\<And>e. e \<in> set (gt_cross st) \<Longrightarrow> distinct (snd e) \<and> set (snd e) \<subseteq> set (all_orders s)"
    using inv by (simp add: gt_inv_def)
  let ?m = "AList.update (bits (inferred d)) (set_add ord (lookup_set (gt_cross st) (bits (inferred d)))) (gt_cross st)"
  have cross: "gt_inv p s (st\<lparr>gt_cross := ?m\<rparr>)"
    by (rule gt_inv_cong [OF inv])
      (use inv add_cross_ok [OF cr o] in \<open>auto simp: gt_inv_def\<close>)
  have m: "gt_inv p s (add_match s d i ord st)" for i
    using inv by (intro gt_inv_cong [OF inv]) (auto simp: gt_inv_def add_match_def Let_def)
  let ?id = "identity (no_opts\<lparr>o_infer := Some True,
      o_symmetric := Some (player_index p = -1 \<or> player_index p = int pl)\<rparr>) d"
  have fr: "maps_step st (st\<lparr>gt_cross := ?m\<rparr>)" "maps_step st st" by (simp_all add: maps_step_def)
  show ?thesis
  proof (cases "\<not> touched d \<or> uncertain d")
    case True
    with inv c fr show ?thesis by (simp add: add_to_maps_def)
  next
    case False
    show ?thesis
    proof (cases ?id)
      case None
      with False inv c cross fr show ?thesis by (simp add: add_to_maps_def length_update)
    next
      case (Some i)
      with False c m show ?thesis by (simp add: add_to_maps_def)
    qed
  qed
qed

lemma maps_step_trans: "maps_step a b \<Longrightarrow> maps_step b c \<Longrightarrow> maps_step a c"
  by (simp add: maps_step_def)

lemma maps_step_measure: "maps_step st st' \<Longrightarrow> gt_measure p s st' = gt_measure p s st"
  unfolding maps_step_def by (blast intro: gt_measure_cong)

lemma add_all_ok:
  assumes "gt_inv p s st" "\<And>x. x \<in> set xs \<Longrightarrow> f x \<in> set (all_orders s)"
  shows "\<exists>st'. foldR (\<lambda>st x. add_to_maps p s st (f x) (g x)) st xs = Inr st' \<and> gt_inv p s st' \<and> maps_step st st' \<and>
    length (gt_cross st') \<le> length (gt_cross st) + length xs"
  using assms
proof (induction xs arbitrary: st)
  case Nil
  then show ?case by (simp add: maps_step_def)
next
  case (Cons x xs)
  obtain st1 where st1: "add_to_maps p s st (f x) (g x) = Inr st1" "gt_inv p s st1" "maps_step st st1"
      "length (gt_cross st1) \<le> Suc (length (gt_cross st))"
    using add_to_maps_ok [OF Cons.prems(1), of "f x" "g x"] Cons.prems(2) by auto
  obtain st2 where "foldR (\<lambda>st x. add_to_maps p s st (f x) (g x)) st1 xs = Inr st2" "gt_inv p s st2" "maps_step st1 st2"
      "length (gt_cross st2) \<le> length (gt_cross st1) + length xs"
    using Cons.IH [OF st1(2)] Cons.prems(2) by auto
  with st1 show ?case by (auto intro: maps_step_trans)
qed

section \<open>Elimination by a match\<close>

lemma length_splice1_le: "length (splice1 xs i) \<le> length xs"
  by (simp add: splice1_def Let_def)

lemma remove_cand_ok: "gt_inv p s st \<Longrightarrow> gt_inv p s (remove_cand ord st)"
  by (rule gt_inv_cong)
    (auto simp: remove_cand_def gt_inv_def dest!: set_splice1 [THEN subsetD])

lemma remove_cand_frame [simp]:
  "gt_new (remove_cand ord st) = gt_new st" "gt_ids (remove_cand ord st) = gt_ids st"
  "length (gt_cands (remove_cand ord st)) \<le> length (gt_cands st)"
  by (simp_all add: remove_cand_def length_splice1_le)

definition pass_inv :: "player \<Rightarrow> game_state \<Rightarrow> gt_pass \<Rightarrow> bool" where
  "pass_inv p s g \<longleftrightarrow> gt_inv p s (gp_state g) \<and> iset_ok (n_suits s) (gp_ids g) \<and>
     (\<forall>i \<in> set (gp_queue g). in_deck s i)"

text \<open>Every new entry of the queue and every change uses up some measure.\<close>

definition pass_le :: "player \<Rightarrow> game_state \<Rightarrow> gt_pass \<Rightarrow> gt_pass \<Rightarrow> bool" where
  "pass_le p s g g' \<longleftrightarrow>
     length (gp_queue g') + gt_measure p s (gp_state g') \<le> length (gp_queue g) + gt_measure p s (gp_state g) \<and>
     gt_measure p s (gp_state g') \<le> gt_measure p s (gp_state g) \<and>
     (gp_changed g' \<longrightarrow> gp_changed g \<or> gt_measure p s (gp_state g') < gt_measure p s (gp_state g)) \<and>
     length (gt_cands (gp_state g')) \<le> length (gt_cands (gp_state g))"

lemma pass_le_refl [simp]: "pass_le p s g g"
  by (simp add: pass_le_def)

lemma pass_le_trans: "pass_le p s g1 g2 \<Longrightarrow> pass_le p s g2 g3 \<Longrightarrow> pass_le p s g1 g3"
  by (auto simp: pass_le_def)

lemma gt_elims_frame:
  "gt_inv p s (st\<lparr>gt_elims := e\<rparr>) = gt_inv p s st" "gt_measure p s (st\<lparr>gt_elims := e\<rparr>) = gt_measure p s st"
  by (simp_all add: gt_inv_def gt_measure_def gt_thought_def)

lemma gt_put_twice: "gt_put o1 d ((gt_put o1 c st)\<lparr>gt_elims := e\<rparr>) = (gt_put o1 d st)\<lparr>gt_elims := e\<rparr>"
  by (simp add: gt_put_def update_last)

lemma remove_inference_ok:
  assumes g: "pass_inv p s g" and o: "ord \<in> set (all_orders s)" and c: "gt_thought p (gp_state g) ord = Some c"
    and i: "in_deck s i" "iset_has (inferred c) i"
  shows "pass_inv p s (remove_inference s i (ord, pl, cm) c g)" "pass_le p s g (remove_inference s i (ord, pl, cm) c g)"
proof -
  let ?st = "gp_state g"
  have inv: "gt_inv p s ?st" using g by (simp add: pass_inv_def)
  obtain c0 where c0: "slot (thoughts p) ord = Some c0" "gt_rel (n_suits s) c0 c" "card_ok (n_suits s) c"
    using gt_invD [OF inv o] c by force
  define n where "n = iset_subtract (inferred c) (AnId i)"
  define d where "d = c\<lparr>inferred := n\<rparr>"
  define e where "e = AList.update (log_id (variant s) i) (lookup_set (gt_elims ?st) (log_id (variant s) i) @ [ord]) (gt_elims ?st)"
  note sub = subtract_id [OF c0(3) i, folded n_def]
  have rd: "gt_rel (n_suits s) c0 d" unfolding d_def using c0(2) sub(1,2) by (rule gt_rel_fewer)
  have okd: "card_ok (n_suits s) d" using rd by (simp add: gt_rel_def)
  have w: "weight d < weight c" using sub(3) by (simp add: weight_def d_def)
  have r: "weight (reset_inferences d) < weight c" if "\<not> reset c"
    using weight_reset [OF okd] that w by (simp add: d_def)
  have put: "gt_inv p s (gt_put ord x ?st) \<and> gt_measure p s (gt_put ord x ?st) < gt_measure p s ?st"
    if "gt_rel (n_suits s) c0 x" "weight x < weight c" for x
    using gt_put_ok [OF inv o c0(1) c that(1)] that(2) by simp
  have pd: "gt_inv p s (gt_put ord d ?st)" "gt_measure p s (gt_put ord d ?st) < gt_measure p s ?st"
    using put rd w by blast+
  have pr: "gt_inv p s (gt_put ord (reset_inferences d) ?st)"
    "gt_measure p s (gt_put ord (reset_inferences d) ?st) < gt_measure p s ?st" if "\<not> reset c"
    using put [OF gt_rel_reset [OF rd] r [OF that]] by blast+
  have q: "in_deck s j" if "iset_array n = j # js" for j js
    using idset.elems_mem [OF sub(1)] that by (metis list.set_intros(1) mem_Collect_eq)
  have ids: "iset_ok (n_suits s) (iset_subtract (gp_ids g) (AnId i))" using g by (simp add: pass_inv_def)
  show "pass_inv p s (remove_inference s i (ord, pl, cm) c g)"
    using g pd(1) pr(1) q ids
    by (auto simp: remove_inference_def Let_def pass_inv_def n_def [symmetric] d_def [symmetric] e_def [symmetric]
        gt_put_twice gt_elims_frame split: list.splits)
  show "pass_le p s g (remove_inference s i (ord, pl, cm) c g)"
    using pd(2) pr(2)
    by (auto simp: remove_inference_def Let_def pass_le_def n_def [symmetric] d_def [symmetric] e_def [symmetric]
        gt_put_twice gt_elims_frame split: list.splits)
qed

lemma gt_elim_card_ok:
  assumes g: "pass_inv p s g" and o: "ord \<in> set (all_orders s)" and i: "in_deck s i"
  shows "\<exists>g'. gt_elim_card p s i ms (ord, pl, cm) g = Inr g' \<and> pass_inv p s g' \<and> pass_le p s g g'"
proof -
  let ?st = "gp_state g"
  have inv: "gt_inv p s ?st" using g by (simp add: pass_inv_def)
  obtain c0 c where c: "slot (thoughts p) ord = Some c0" "gt_thought p ?st ord = Some c" "gt_rel (n_suits s) c0 c"
    using gt_invD [OF inv o] by blast
  let ?f = "c\<lparr>certain_finessed := True\<rparr>"
  have f: "gt_rel (n_suits s) c0 ?f" "weight ?f \<le> weight c"
    using c(3) by (auto simp: gt_rel_def card_ok_def valid_id_def weight_def)
  note put = gt_put_ok [OF inv o c(1,2) f]
  have "pass_inv p s (g\<lparr>gp_state := remove_cand ord (gt_put ord ?f ?st)\<rparr>)"
    using g put(1) by (auto simp: pass_inv_def intro: remove_cand_ok)
  moreover have "pass_le p s g (g\<lparr>gp_state := remove_cand ord (gt_put ord ?f ?st)\<rparr>)"
    using put(2) gt_measure_cong [of "remove_cand ord (gt_put ord ?f ?st)" "gt_put ord ?f ?st" p s]
      remove_cand_frame(3) [of ord "gt_put ord ?f ?st"]
    by (simp add: pass_le_def)
  moreover have "pass_inv p s (g\<lparr>gp_state := remove_cand ord ?st\<rparr>)" "pass_le p s g (g\<lparr>gp_state := remove_cand ord ?st\<rparr>)"
    using g gt_measure_cong [of "remove_cand ord ?st" ?st p s] by (auto simp: pass_inv_def pass_le_def intro: remove_cand_ok)
  moreover have "pass_inv p s (remove_inference s i (ord, pl, cm) c g)" "pass_le p s g (remove_inference s i (ord, pl, cm) c g)"
    if "iset_has (inferred c) i"
    using remove_inference_ok [OF g o c(2) i that] by blast+
  ultimately show ?thesis using g c(2) by (simp add: gt_elim_card_def Let_def)
qed

lemma cand_loop_ok:
  assumes "in_deck s i"
  shows "pass_inv p s g \<Longrightarrow> length (gt_cands (gp_state g)) \<le> fuel + k \<Longrightarrow>
    \<exists>g'. cand_loop fuel p s i ms k g = Inr g' \<and> pass_inv p s g' \<and> pass_le p s g g'"
proof (induction fuel arbitrary: k g)
  case 0
  then show ?case by (simp add: cand_loop.simps)
next
  case (Suc f)
  show ?case
  proof (cases "k \<ge> length (gt_cands (gp_state g))")
    case True
    with Suc.prems(1) show ?thesis by (simp add: cand_loop.simps)
  next
    case False
    obtain ord pl cm where e: "gt_cands (gp_state g) ! k = (ord, pl, cm)" by (metis prod_cases3)
    have "(ord, pl, cm) \<in> set (gt_cands (gp_state g))" using False e by (metis not_le nth_mem)
    then have "ord \<in> set (all_orders s)" using Suc.prems(1) by (force simp: pass_inv_def gt_inv_def)
    then obtain g1 where g1: "gt_elim_card p s i ms (ord, pl, cm) g = Inr g1" "pass_inv p s g1" "pass_le p s g g1"
      using gt_elim_card_ok [OF Suc.prems(1) _ assms] by blast
    have "length (gt_cands (gp_state g1)) \<le> f + Suc k" using g1(3) Suc.prems(2) by (simp add: pass_le_def)
    from Suc.IH [OF g1(2) this] obtain g2 where
      "cand_loop f p s i ms (Suc k) g1 = Inr g2" "pass_inv p s g2" "pass_le p s g1 g2" by blast
    with False e g1 show ?thesis by (auto simp: cand_loop.simps [of "Suc f"] intro: pass_le_trans)
  qed
qed

lemma gt_elim_id_ok:
  assumes "pass_inv p s g" "in_deck s i"
  shows "\<exists>g'. gt_elim_id p s i g = Inr g' \<and> pass_inv p s g' \<and> pass_le p s g g'"
  using assms cand_loop_ok [OF assms(2,1), of "length (gt_cands (gp_state g))" 0]
  by (auto simp: gt_elim_id_def Let_def split: option.splits)

lemma id_loop_ok:
  "pass_inv p s g \<Longrightarrow> length (gp_queue g) + gt_measure p s (gp_state g) \<le> fuel \<Longrightarrow>
    \<exists>g'. id_loop fuel p s g = Inr g' \<and> pass_inv p s g' \<and>
      gt_measure p s (gp_state g') \<le> gt_measure p s (gp_state g) \<and>
      (gp_changed g' \<longrightarrow> gp_changed g \<or> gt_measure p s (gp_state g') < gt_measure p s (gp_state g))"
proof (induction fuel arbitrary: g)
  case 0
  then show ?case by (simp add: id_loop.simps)
next
  case (Suc f)
  show ?case
  proof (cases "gp_queue g")
    case Nil
    with Suc.prems(1) show ?thesis by (simp add: id_loop.simps)
  next
    case (Cons i queue)
    let ?g = "g\<lparr>gp_queue := queue\<rparr>"
    have "pass_inv p s ?g" "in_deck s i" using Suc.prems(1) Cons by (auto simp: pass_inv_def)
    then obtain g1 where g1: "gt_elim_id p s i ?g = Inr g1" "pass_inv p s g1" "pass_le p s ?g g1"
      using gt_elim_id_ok by blast
    have "length (gp_queue g1) + gt_measure p s (gp_state g1) \<le> f" using g1(3) Suc.prems(2) Cons by (simp add: pass_le_def)
    from Suc.IH [OF g1(2) this] obtain g2 where g2: "id_loop f p s g1 = Inr g2" "pass_inv p s g2"
      "gt_measure p s (gp_state g2) \<le> gt_measure p s (gp_state g1)"
      "gp_changed g2 \<longrightarrow> gp_changed g1 \<or> gt_measure p s (gp_state g2) < gt_measure p s (gp_state g1)" by blast
    with g1 Cons show ?thesis by (auto simp: id_loop.simps [of "Suc f"] pass_le_def)
  qed
qed

lemma gt_basic_elim_ok:
  assumes inv: "gt_inv p s st"
  shows "\<exists>st' ch. gt_basic_elim p s st = Inr (st', ch) \<and> gt_inv p s st' \<and> gt_measure p s st' \<le> gt_measure p s st \<and>
    (ch \<longrightarrow> gt_measure p s st' < gt_measure p s st)"
proof -
  let ?g = "\<lparr>gp_state = st, gp_ids = gt_ids st, gp_queue = iset_array (gt_ids st), gp_changed = False\<rparr>"
  have ids: "iset_ok (n_suits s) (gt_ids st)" using inv by (simp add: gt_inv_def)
  have "pass_inv p s ?g" using inv ids idset.elems_mem [OF ids] by (simp add: pass_inv_def)
  then obtain g where g: "id_loop (length (iset_array (gt_ids st)) + gt_measure p s st) p s ?g = Inr g" "pass_inv p s g"
      "gt_measure p s (gp_state g) \<le> gt_measure p s st" "gp_changed g \<Longrightarrow> gt_measure p s (gp_state g) < gt_measure p s st"
    using id_loop_ok [of p s ?g "length (iset_array (gt_ids st)) + gt_measure p s st"] by auto
  have "gt_inv p s (gp_state g)" using g(2) by (simp add: pass_inv_def)
  moreover then have "fst x \<in> set (all_orders s)" if "x \<in> set (gt_cands (gp_state g))" for x
    using that by (auto simp: gt_inv_def)
  ultimately obtain st1 where st1: "foldR (\<lambda>st c. add_to_maps p s st (fst c) (fst (snd c))) (gp_state g) (gt_cands (gp_state g)) = Inr st1"
      "gt_inv p s st1" "maps_step (gp_state g) st1"
    using add_all_ok [of p s "gp_state g" "gt_cands (gp_state g)" fst "\<lambda>c. fst (snd c)"] by blast
  have "gt_inv p s (st1\<lparr>gt_ids := gp_ids g\<rparr>)"
    by (rule gt_inv_cong [OF st1(2)]) (use st1(2) g(2) in \<open>auto simp: gt_inv_def pass_inv_def\<close>)
  moreover have "gt_measure p s (st1\<lparr>gt_ids := gp_ids g\<rparr>) = gt_measure p s (gp_state g)"
    using maps_step_measure [OF st1(3)] gt_measure_cong [of "st1\<lparr>gt_ids := gp_ids g\<rparr>" st1 p s] by simp
  ultimately show ?thesis using g st1 by (simp add: gt_basic_elim_def)
qed

section \<open>Cross elimination\<close>

definition deck_valid :: "game_state \<Rightarrow> bool" where
  "deck_valid s \<longleftrightarrow> (\<forall>ord \<in> set (all_orders s). case deck_id s ord of Some i \<Rightarrow> in_deck s i | None \<Rightarrow> True)"

definition cross_le :: "player \<Rightarrow> game_state \<Rightarrow> gt_state \<times> bool \<Rightarrow> gt_state \<times> bool \<Rightarrow> bool" where
  "cross_le p s acc acc' \<longleftrightarrow> gt_cross (fst acc') = gt_cross (fst acc) \<and>
     gt_measure p s (fst acc') \<le> gt_measure p s (fst acc) \<and>
     (snd acc' \<longrightarrow> snd acc \<or> gt_measure p s (fst acc') < gt_measure p s (fst acc))"

lemma cross_pair_ok:
  assumes dv: "deck_valid s" and inv: "gt_inv p s (fst acc)" and o: "fst oo \<in> set (all_orders s)" "snd oo \<in> set (all_orders s)"
  shows "\<exists>acc'. cross_pair p s acc oo = Inr acc' \<and> gt_inv p s (fst acc') \<and> cross_le p s acc acc'"
proof -
  obtain o1 o2 where oo: "oo = (o1, o2)" by force
  obtain c0 c where c: "slot (thoughts p) o1 = Some c0" "gt_thought p (fst acc) o1 = Some c" "gt_rel (n_suits s) c0 c"
    "card_ok (n_suits s) c"
    using gt_invD [OF inv, of o1] o by (auto simp: oo)
  let ?i = "raw (deck_at s o2)"
  let ?d = "c\<lparr>inferred := iset_subtract (inferred c) (AnId ?i)\<rparr>"
  show ?thesis
  proof (cases "cross_asymmetric p s (fst acc) c o1 o2 \<or>
      \<not> (o1 \<noteq> o2 \<and> holder_of s o1 \<noteq> holder_of s o2 \<and> iset_has (inferred c) (deck_at s o2))")
    case True
    then have "cross_pair p s acc oo = Inr acc" using c(2) by (auto simp: cross_pair_def oo)
    with inv show ?thesis by (intro exI [of _ acc]) (simp add: cross_le_def)
  next
    case False
    then have has: "iset_has (inferred c) ?i" by simp
    then have "deck_id s o2 = Some ?i"
      by (auto simp: iset_has_def deck_id_def basic_identity_def split: if_splits)
    with dv o(2) have "in_deck s ?i" by (force simp: deck_valid_def oo)
    note sub = subtract_id [OF c(4) this has]
    have d: "gt_rel (n_suits s) c0 ?d" using c(3) sub(1,2) by (rule gt_rel_fewer)
    have w: "weight ?d < weight c" using sub(3) by (simp add: weight_def)
    show ?thesis using False c(2) gt_put_ok [OF inv _ c(1,2) d] w o by (simp add: cross_pair_def oo cross_le_def)
  qed
qed

lemma cross_le_trans: "cross_le p s a b \<Longrightarrow> cross_le p s b c \<Longrightarrow> cross_le p s a c"
  by (auto simp: cross_le_def)

lemma cross_pairs_ok:
  assumes dv: "deck_valid s" and inv: "gt_inv p s st" and o: "set orders \<subseteq> set (all_orders s)"
  shows "\<exists>st' ch. foldR (cross_pair p s) (st, False) (List.product orders orders) = Inr (st', ch) \<and>
    gt_inv p s st' \<and> cross_le p s (st, False) (st', ch)"
proof -
  let ?P = "\<lambda>acc. gt_inv p s (fst acc) \<and> cross_le p s (st, False) acc"
  have "\<exists>acc. foldR (cross_pair p s) (st, False) (List.product orders orders) = Inr acc \<and> ?P acc"
  proof (rule foldR_total [where P = ?P])
    show "?P (st, False)" using inv by (simp add: cross_le_def)
    fix acc oo assume "oo \<in> set (List.product orders orders)" "?P acc"
    with o cross_pair_ok [OF dv, of p acc oo] show "\<exists>acc'. cross_pair p s acc oo = Inr acc' \<and> ?P acc'"
      by (force intro: cross_le_trans)
  qed
  then show ?thesis by auto
qed

lemma delete_entry: "(k, v) \<in> set m \<Longrightarrow> Suc (length (AList.delete k m)) \<le> length m"
proof (induction m)
  case (Cons e m)
  have "length (AList.delete k m) \<le> length m" by (simp add: AList.length_delete_le)
  with Cons show ?case by (auto split: if_splits)
qed simp

lemma cross_entries_ok:
  assumes dv: "deck_valid s"
  shows "gt_inv p s st \<Longrightarrow> length (gt_cross st) + gt_measure p s st * Suc (length (all_orders s)) \<le> fuel + k \<Longrightarrow>
    \<exists>st' ch'. cross_entries fuel p s k st ch = Inr (st', ch') \<and> gt_inv p s st' \<and>
      gt_measure p s st' \<le> gt_measure p s st \<and> (ch' \<longrightarrow> ch \<or> gt_measure p s st' < gt_measure p s st)"
proof (induction fuel arbitrary: k st ch)
  case 0
  then show ?case by (simp add: cross_entries.simps)
next
  case (Suc f)
  show ?case
  proof (cases "k \<ge> length (gt_cross st)")
    case True
    with Suc.prems(1) show ?thesis by (simp add: cross_entries.simps)
  next
    case False
    obtain idens orders where e: "gt_cross st ! k = (idens, orders)" by force
    have m: "(idens, orders) \<in> set (gt_cross st)" using False e by (metis not_le nth_mem)
    then have o: "distinct orders" "set orders \<subseteq> set (all_orders s)"
      using Suc.prems(1) m by (force simp: gt_inv_def)+
    have skip: "\<exists>st' ch'. cross_entries f p s (Suc k) st1 ch1 = Inr (st', ch') \<and> gt_inv p s st' \<and>
        gt_measure p s st' \<le> gt_measure p s st1 \<and> (ch' \<longrightarrow> ch1 \<or> gt_measure p s st' < gt_measure p s st1)"
      if "gt_inv p s st1" "gt_cross st1 = gt_cross st" "gt_measure p s st1 \<le> gt_measure p s st" for st1 ch1
    proof (rule Suc.IH [OF that(1)])
      have "gt_measure p s st1 * Suc (length (all_orders s)) \<le> gt_measure p s st * Suc (length (all_orders s))"
        using that(3) by (rule mult_le_mono1)
      with Suc.prems(2) that(2)
      show "length (gt_cross st1) + gt_measure p s st1 * Suc (length (all_orders s)) \<le> f + Suc k" by simp
    qed
    show ?thesis
    proof (cases "int (length orders) \<noteq> iset_length \<lparr>num_suits = n_suits s, bits = idens\<rparr>")
      case True
      with False e skip [of st ch] Suc.prems(1) show ?thesis by (simp add: cross_entries.simps [of "Suc f"])
    next
      case eq: False
      obtain st1 change where p1: "foldR (cross_pair p s) (st, False) (List.product orders orders) = Inr (st1, change)"
        and i1: "gt_inv p s st1" and le1: "cross_le p s (st, False) (st1, change)"
        using cross_pairs_ok [OF dv Suc.prems(1) o(2)] by blast
      have c1: "gt_cross st1 = gt_cross st" "gt_measure p s st1 \<le> gt_measure p s st" using le1 by (simp_all add: cross_le_def)
      show ?thesis
      proof (cases change)
        case False: False
        obtain st' ch' where s': "cross_entries f p s (Suc k) st1 ch = Inr (st', ch')" "gt_inv p s st'"
          "gt_measure p s st' \<le> gt_measure p s st1" "ch' \<longrightarrow> ch \<or> gt_measure p s st' < gt_measure p s st1"
          using skip [OF i1 c1] by blast
        with c1(2) \<open>\<not> k \<ge> length (gt_cross st)\<close> e eq p1 False
        show ?thesis by (auto simp: cross_entries.simps [of "Suc f"])
      next
        case True
        then have less: "gt_measure p s st1 < gt_measure p s st" using le1 by (simp add: cross_le_def)
        let ?st1 = "st1\<lparr>gt_cross := AList.delete idens (gt_cross st1)\<rparr>"
        have i1': "gt_inv p s ?st1"
        proof (rule gt_inv_cong [OF i1])
          show "distinct (snd x) \<and> set (snd x) \<subseteq> set (all_orders s)" if "x \<in> set (gt_cross ?st1)" for x
            using that i1 by (auto simp: gt_inv_def AList.delete_eq)
        qed (use i1 in \<open>auto simp: gt_inv_def\<close>)
        obtain st2 where s2: "foldR (\<lambda>st ord. add_to_maps p s st ord (nat (holder_of s ord))) ?st1 orders = Inr st2"
            "gt_inv p s st2" "maps_step ?st1 st2" "length (gt_cross st2) \<le> length (gt_cross ?st1) + length orders"
          using add_all_ok [OF i1', of orders "\<lambda>x. x" "\<lambda>ord. nat (holder_of s ord)"] o(2) by auto
        have m2: "gt_measure p s st2 = gt_measure p s st1"
          using maps_step_measure [OF s2(3)] gt_measure_cong [of ?st1 st1 p s] by simp
        have "length orders \<le> length (all_orders s)" using o by (metis card_length card_mono distinct_card List.finite_set order_trans)
        moreover have "Suc (length (gt_cross ?st1)) \<le> length (gt_cross st)" using delete_entry [OF m] c1(1) by simp
        moreover have "Suc (gt_measure p s st1) * Suc (length (all_orders s)) \<le> gt_measure p s st * Suc (length (all_orders s))"
          using less by (intro mult_le_mono1) simp
        ultimately have "length (gt_cross st2) + gt_measure p s st2 * Suc (length (all_orders s)) \<le> f + k"
          using s2(4) Suc.prems(2) by (simp add: m2)
        from Suc.IH [OF s2(2) this, of True] obtain st' ch' where
          "cross_entries f p s k st2 True = Inr (st', ch')" "gt_inv p s st'" "gt_measure p s st' \<le> gt_measure p s st2" by blast
        with less m2 s2(1) \<open>\<not> k \<ge> length (gt_cross st)\<close> e eq p1 True
        show ?thesis by (auto simp: cross_entries.simps [of "Suc f"])
      qed
    qed
  qed
qed

lemma gt_cross_elim_ok:
  assumes "deck_valid s" "gt_inv p s st"
  shows "\<exists>st' ch. gt_cross_elim p s st = Inr (st', ch) \<and> gt_inv p s st' \<and> gt_measure p s st' \<le> gt_measure p s st \<and>
    (ch \<longrightarrow> gt_measure p s st' < gt_measure p s st)"
  using cross_entries_ok [OF assms, of "length (gt_cross st) + gt_measure p s st * Suc (length (all_orders s))" 0 False]
  by (simp add: gt_cross_elim_def)

lemma gt_loop_ok:
  assumes dv: "deck_valid s"
  shows "gt_inv p s st \<Longrightarrow> gt_measure p s st < fuel \<Longrightarrow> \<exists>st'. gt_loop fuel p s b c st = Inr st' \<and> gt_inv p s st'"
proof (induction fuel arbitrary: st b c)
  case (Suc f)
  show ?case
  proof (cases "b \<or> c")
    case False
    with Suc.prems show ?thesis by (simp add: gt_loop.simps)
  next
    case True
    obtain st1 b1 where s1: "gt_basic_elim p s st = Inr (st1, b1)" "gt_inv p s st1" "gt_measure p s st1 \<le> gt_measure p s st"
        "b1 \<longrightarrow> gt_measure p s st1 < gt_measure p s st"
      using gt_basic_elim_ok [OF Suc.prems(1)] by blast
    obtain st2 c2 where s2: "(if b1 \<or> c then gt_cross_elim p s st1 else Inr (st1, c)) = Inr (st2, c2)" "gt_inv p s st2"
        "gt_measure p s st2 \<le> gt_measure p s st1" "c2 \<longrightarrow> gt_measure p s st2 < gt_measure p s st1"
      using gt_cross_elim_ok [OF dv s1(2)] s1(2) by (cases "b1 \<or> c") auto
    have unf: "gt_loop (Suc f) p s b c st = gt_loop f p s b1 c2 st2"
      using True s1(1) s2(1) by (auto simp: gt_loop.simps [of "Suc f"])
    show ?thesis
    proof (cases "b1 \<or> c2")
      case True
      then have "gt_measure p s st2 < f" using s1 s2 Suc.prems(2) by auto
      with Suc.IH [OF s2(2)] unf show ?thesis by simp
    next
      case False
      with s2(2) unf show ?thesis by (simp add: gt_loop.simps)
    qed
  qed
qed simp

section \<open>Good touch elimination\<close>

lemma all_inferences_ok:
  assumes r: "gt_ready p s"
  shows "\<exists>t. all_inferences p s = Inr t \<and> iset_ok (n_suits s) t"
  unfolding all_inferences_def
proof (rule foldR_total [where P = "iset_ok (n_suits s)"])
  show "iset_ok (n_suits s) (base_ids s)" using r by (auto simp: gt_ready_def intro: tables_okD)
  fix acc ord assume "ord \<in> set (all_orders s)" "iset_ok (n_suits s) acc"
  with r show "\<exists>t. bindR (need (slot (thoughts p) ord)) (\<lambda>c. Inr (iset_union acc (ASet (inferred c)))) = Inr t \<and>
      iset_ok (n_suits s) t"
    by (fastforce simp: gt_ready_def dest: card_okD)
qed

lemma drop_trash_ok:
  assumes inv: "gt_inv p s st" and o: "ord \<in> set (all_orders s)"
    and c: "slot (thoughts p) ord = Some c" "gt_thought p st ord = Some c" "card_ok (n_suits s) c"
  shows "gt_inv p s (drop_trash tids ord c st)"
proof -
  let ?n = "iset_subtract (inferred c) (Ids tids)"
  have ok: "iset_ok (n_suits s) ?n" using card_okD(2) [OF c(3)] by simp
  have fewer: "iset_has (inferred c) i" if "valid_id (n_suits s) i" "iset_has ?n i" for i :: basic_card
    using that(2) by (auto simp: iset_has_def iset_subtract_def bit_eq_iff bit_simps split: if_splits)
  have d: "gt_rel (n_suits s) c (c\<lparr>inferred := ?n\<rparr>)"
    using gt_rel_refl [OF c(3)] ok fewer by (rule gt_rel_fewer)
  have r: "gt_rel (n_suits s) c (reset_inferences c)" using gt_rel_refl [OF c(3)] by (rule gt_rel_reset)
  have put: "gt_inv p s (gt_put ord x st)" if "gt_rel (n_suits s) c x" for x
    using inv o c that by (auto simp: gt_inv_def distinct_update dom_update)
  show ?thesis using inv put d r by (simp add: drop_trash_def Let_def)
qed

lemma gt_init_ok:
  assumes r: "gt_ready p s" and dist: "distinct (all_orders s)"
  shows "\<exists>st. gt_init p s only_self = Inr st \<and> gt_inv p s st"
proof -
  obtain t where t: "all_inferences p s = Inr t" "iset_ok (n_suits s) t" using all_inferences_ok [OF r] by blast
  define tids where "tids = filter (is_basic_trash s) (iset_array t)"
  define st0 where "st0 = \<lparr>gt_new = [], gt_match = [], gt_hard = [], gt_cross = [], gt_elims = elims p, gt_cands = [],
      gt_ids = iset_subtract t (Ids tids)\<rparr>"
  let ?pairs = "concat (map (\<lambda>i. map (Pair i) (hands s ! i)) [0..<num_players s])"
  have "map snd ?pairs = concat (map ((!) (hands s)) [0..<length (hands s)])"
    using r by (simp add: gt_ready_def map_concat comp_def)
  then have pairs: "map snd ?pairs = all_orders s" by (simp add: map_nth all_orders_def)
  have init: "gt_inv p s st0"
    using r t(2) by (fastforce simp: gt_ready_def gt_inv_def st0_def gt_thought_def intro: gt_rel_refl)
  have fold: "\<exists>st'. foldR (gt_init_card p s only_self tids) st pos = Inr st' \<and> gt_inv p s st'"
    if "gt_inv p s st" "distinct (map snd pos)" "set (map snd pos) \<subseteq> set (all_orders s)"
      "\<forall>ord \<in> set (map snd pos). map_of (gt_new st) ord = None" for st pos
    using that
  proof (induction pos arbitrary: st)
    case (Cons po pos)
    obtain pl ord where po: "po = (pl, ord)" by force
    have o: "ord \<in> set (all_orders s)" "map_of (gt_new st) ord = None" using Cons.prems(3,4) by (simp_all add: po)
    obtain c where c: "slot (thoughts p) ord = Some c" "card_ok (n_suits s) c" using r o(1) by (auto simp: gt_ready_def)
    obtain st1 where s1: "add_to_maps p s st ord pl = Inr st1" "gt_inv p s st1" "maps_step st st1"
      using add_to_maps_ok [OF Cons.prems(1) o(1)] by blast
    have n1: "gt_new st1 = gt_new st" using s1(3) by (simp add: maps_step_def)
    have ex: "\<exists>st2. gt_init_card p s only_self tids st (pl, ord) = Inr st2 \<and> gt_inv p s st2 \<and>
        (\<forall>o2. o2 \<noteq> ord \<longrightarrow> map_of (gt_new st2) o2 = map_of (gt_new st) o2)"
    proof (cases "gt_candidate p s c")
      case None
      with Cons.prems(1) s1 c n1 show ?thesis by (simp add: gt_init_card_def)
    next
      case (Some cm)
      let ?st1 = "st1\<lparr>gt_cands := gt_cands st1 @ [(ord, pl, cm)]\<rparr>"
      have i1: "gt_inv p s ?st1" by (rule gt_inv_cong [OF s1(2)]) (use s1(2) o(1) in \<open>auto simp: gt_inv_def\<close>)
      have "gt_thought p ?st1 ord = Some c" using o(2) c(1) n1 by (simp add: gt_thought_def)
      then have "gt_inv p s (drop_trash tids ord c ?st1)" using drop_trash_ok [OF i1 o(1) c(1) _ c(2)] by blast
      moreover have "map_of (gt_new (drop_trash tids ord c ?st1)) o2 = map_of (gt_new st) o2" if "o2 \<noteq> ord" for o2
        using that n1 by (simp add: drop_trash_def Let_def update_conv')
      ultimately show ?thesis using Some s1(1) c(1) Cons.prems(1) by (simp add: gt_init_card_def)
    qed
    then obtain st2 where s2: "gt_init_card p s only_self tids st (pl, ord) = Inr st2" "gt_inv p s st2"
        "\<And>o2. o2 \<noteq> ord \<Longrightarrow> map_of (gt_new st2) o2 = map_of (gt_new st) o2" by blast
    have "\<forall>o2 \<in> set (map snd pos). map_of (gt_new st2) o2 = None"
    proof
      fix o2 assume o2: "o2 \<in> set (map snd pos)"
      then have "o2 \<noteq> ord" using Cons.prems(2) by (auto simp: po)
      with s2(3) Cons.prems(4) o2 show "map_of (gt_new st2) o2 = None" by auto
    qed
    with Cons.IH [OF s2(2)] Cons.prems(2,3) s2(1) show ?case by (simp add: po)
  qed simp
  have "\<exists>st. foldR (gt_init_card p s only_self tids) st0 ?pairs = Inr st \<and> gt_inv p s st"
    by (rule fold [OF init]) (use pairs dist in \<open>auto simp: st0_def\<close>)
  with t(1) show ?thesis by (simp add: gt_init_def Let_def tids_def [symmetric] st0_def [symmetric])
qed

theorem good_touch_elim_total:
  assumes r: "gt_ready p s" and dist: "distinct (all_orders s)" and dv: "deck_valid s"
  shows "\<exists>p'. good_touch_elim p s only_self = Inr p' \<and> player_index p' = player_index p \<and> links p' = links p \<and>
    patches p' = patches p \<and> all_possible p' = all_possible p \<and> all_inferred p' = all_inferred p \<and>
    (\<forall>ord \<in> set (all_orders s). gt_rel (n_suits s) (card_at p ord) (card_at p' ord) \<and> slot (thoughts p') ord \<noteq> None) \<and>
    (\<forall>ord. ord \<notin> set (all_orders s) \<longrightarrow> slot (thoughts p') ord = slot (thoughts p) ord)"
proof -
  obtain st0 where s0: "gt_init p s only_self = Inr st0" "gt_inv p s st0" using gt_init_ok [OF r dist] by blast
  obtain st1 b where s1: "gt_basic_elim p s st0 = Inr (st1, b)" "gt_inv p s st1" using gt_basic_elim_ok [OF s0(2)] by blast
  obtain st2 c where s2: "gt_cross_elim p s st1 = Inr (st2, c)" "gt_inv p s st2" using gt_cross_elim_ok [OF dv s1(2)] by blast
  obtain st3 where s3: "gt_loop (Suc (gt_measure p s st2)) p s b c st2 = Inr st3" "gt_inv p s st3"
    using gt_loop_ok [OF dv s2(2)] by blast
  define p' where "p' = p\<lparr>thoughts := fold (\<lambda>e ts. put ts (fst e) (snd e)) (gt_new st3) (thoughts p), elims := gt_elims st3\<rparr>"
  have res: "good_touch_elim p s only_self = Inr p'"
    by (simp add: good_touch_elim_def s0(1) s1(1) s2(1) s3(1) p'_def)
  have sl: "slot (thoughts p') ord = gt_thought p st3 ord" for ord
    using s3(2) by (simp add: p'_def slot_fold_put gt_inv_def gt_thought_def)
  have "gt_rel (n_suits s) (card_at p ord) (card_at p' ord) \<and> slot (thoughts p') ord \<noteq> None" if "ord \<in> set (all_orders s)" for ord
    using gt_invD [OF s3(2) that] by (metis card_at_def option.distinct(1) option.sel sl)
  moreover have "slot (thoughts p') ord = slot (thoughts p) ord" if "ord \<notin> set (all_orders s)" for ord
  proof -
    have "map_of (gt_new st3) ord = None" using s3(2) that by (auto simp: gt_inv_def map_of_eq_None_iff)
    then show ?thesis by (simp add: sl gt_thought_def)
  qed
  moreover have "player_index p' = player_index p" "links p' = links p" "patches p' = patches p"
    "all_possible p' = all_possible p" "all_inferred p' = all_inferred p" by (simp_all add: p'_def)
  ultimately show ?thesis using res by (intro exI [of _ p'] conjI ballI allI impI) blast+
qed

text \<open>So it keeps what a truth says of the cards.\<close>

lemma gt_rel_fits: "fits n c i \<Longrightarrow> gt_rel n c d \<Longrightarrow> fits n d i"
  by (auto simp: fits_def gt_rel_def raw_def)

end
