(* ===== verification/Views.thy ===== *)
theory Views
  imports Game_Basics Card_Elim_Sound Good_Touch_Sound
begin

text \<open>
  A view is right when the player knows the truth of the hands, its cards and links are well formed, and the
  identities it has eliminated from the deck are exhausted. Every step of the update of a player (merging the
  patches of common knowledge, the eliminations, the links, the hypothetical stacks) keeps a view right and
  returns: this is the contract that the handlers of the next theory rely on.
\<close>

section \<open>Players\<close>

definition link_ok :: "nat \<Rightarrow> player \<Rightarrow> link \<Rightarrow> bool" where
  "link_ok n p l \<longleftrightarrow> (\<forall>ord \<in> set (l_orders l). slot (thoughts p) ord \<noteq> None) \<and> l_identities l \<noteq> [] \<and>
     (\<forall>i \<in> set (l_identities l). valid_id n i) \<and> (l_promised l \<longrightarrow> length (l_identities l) = 1)"

definition cards_ok :: "nat \<Rightarrow> player \<Rightarrow> bool" where
  "cards_ok n p \<longleftrightarrow> (\<forall>ord c. slot (thoughts p) ord = Some c \<longrightarrow> card_ok n c)"

definition player_ok :: "nat \<Rightarrow> player \<Rightarrow> bool" where
  "player_ok n p \<longleftrightarrow> cards_ok n p \<and> (\<forall>l \<in> set (links p). link_ok n p l) \<and>
     iset_ok n (all_possible p) \<and> iset_ok n (all_inferred p)"

definition view_ok :: "game_state \<Rightarrow> truth \<Rightarrow> player \<Rightarrow> bool" where
  "view_ok s \<sigma> p \<longleftrightarrow> knows p s \<sigma> \<and> player_ok (n_suits s) p \<and>
     (player_index p = -1 \<or> nat (player_index p) < length (hands s)) \<and>
     (\<forall>i :: basic_card. in_deck s i \<longrightarrow> \<not> iset_has (all_possible p) i \<longrightarrow> exhausted s \<sigma> i)"

lemma view_okD:
  assumes "view_ok s \<sigma> p"
  shows "knows p s \<sigma>" "player_ok (n_suits s) p" "cards_ok (n_suits s) p"
    "iset_ok (n_suits s) (all_possible p)" "iset_ok (n_suits s) (all_inferred p)"
  using assms by (simp_all add: view_ok_def player_ok_def)

lemma knows_slot: "knows p s \<sigma> \<Longrightarrow> ord \<in> set (all_orders s) \<Longrightarrow> slot (thoughts p) ord \<noteq> None"
  by (auto simp: knows_def)

lemma link_ok_mono:
  "link_ok n p l \<Longrightarrow> (\<And>ord. slot (thoughts p) ord \<noteq> None \<Longrightarrow> slot (thoughts q) ord \<noteq> None) \<Longrightarrow> link_ok n q l"
  by (auto simp: link_ok_def)

text \<open>The cards that are not in a hand keep what they fit.\<close>

definition keeps :: "game_state \<Rightarrow> player \<Rightarrow> player \<Rightarrow> bool" where
  "keeps s p q \<longleftrightarrow> player_index q = player_index p \<and> patches q = patches p \<and>
     (\<forall>ord c i. ord \<notin> set (all_orders s) \<longrightarrow> slot (thoughts p) ord = Some c \<longrightarrow> fits (n_suits s) c i \<longrightarrow>
        (\<exists>d. slot (thoughts q) ord = Some d \<and> fits (n_suits s) d i))"

lemma keeps_trans: "keeps s p q \<Longrightarrow> keeps s q r \<Longrightarrow> keeps s p r"
  unfolding keeps_def by metis

section \<open>Card elimination\<close>

lemma view_card_elim:
  assumes t: "truth_ok s \<sigma>" and v: "view_ok s \<sigma> p"
  shows "\<exists>q. card_elim p s = Inr q \<and> view_ok s \<sigma> q \<and> keeps s p q"
proof -
  obtain q where q: "card_elim p s = Inr q" "knows q s \<sigma>" "player_index q = player_index p" "links q = links p"
      "patches q = patches p" "iset_ok (n_suits s) (all_possible q)" "iset_ok (n_suits s) (all_inferred q)"
    and ex: "\<And>i :: basic_card. in_deck s i \<Longrightarrow> iset_has (all_possible p) i \<Longrightarrow> \<not> iset_has (all_possible q) i \<Longrightarrow> exhausted s \<sigma> i"
    and out: "\<And>ord. ord \<notin> set (all_orders s) \<Longrightarrow> slot (thoughts q) ord = slot (thoughts p) ord"
    using card_elim_sound [OF t view_okD(1,4,5) [OF v]] by auto
  have cards: "cards_ok (n_suits s) q"
    unfolding cards_ok_def
  proof (intro allI impI)
    fix ord c assume c: "slot (thoughts q) ord = Some c"
    show "card_ok (n_suits s) c"
    proof (cases "ord \<in> set (all_orders s)")
      case True
      then obtain d where "slot (thoughts q) ord = Some d" "fits (n_suits s) d (\<sigma> ord)"
        using q(2) by (auto simp: knows_def)
      with c show ?thesis by (simp add: fits_def)
    next
      case False
      with out c view_okD(3) [OF v] show ?thesis by (simp add: cards_ok_def)
    qed
  qed
  have def: "slot (thoughts q) ord \<noteq> None" if "slot (thoughts p) ord \<noteq> None" for ord
    using that knows_slot [OF q(2)] out by (cases "ord \<in> set (all_orders s)") auto
  have "player_ok (n_suits s) q"
    using v cards q(4,6,7) def by (auto simp: player_ok_def view_ok_def intro: link_ok_mono)
  moreover have "exhausted s \<sigma> i" if "in_deck s i" "\<not> iset_has (all_possible q) i" for i :: basic_card
    using that ex v by (cases "iset_has (all_possible p) i") (auto simp: view_ok_def)
  moreover have "keeps s p q" using q(3,5) out by (simp add: keeps_def)
  ultimately show ?thesis using q v by (simp add: view_ok_def)
qed

section \<open>Good touch elimination\<close>

lemma truth_deck_valid: "truth_ok s \<sigma> \<Longrightarrow> deck_valid s"
  using truth_deck_id [of s \<sigma>] truth_okD(4) [of s \<sigma>] by (auto simp: deck_valid_def split: option.splits)

lemma view_gt_ready: "truth_ok s \<sigma> \<Longrightarrow> view_ok s \<sigma> p \<Longrightarrow> gt_ready p s"
  by (fastforce simp: gt_ready_def view_ok_def knows_def fits_def dest: truth_okD)

lemma same_factsD:
  assumes "same_facts p q" "slot (thoughts p) ord = Some c"
  shows "\<exists>d. slot (thoughts q) ord = Some d \<and> possible d = possible c \<and> suit_index d = suit_index c \<and>
    rank d = rank c \<and> rewind_ids d = rewind_ids c"
proof -
  have "case slot (thoughts p) ord of None \<Rightarrow> slot (thoughts q) ord = None
     | Some c \<Rightarrow> \<exists>d. slot (thoughts q) ord = Some d \<and> possible d = possible c \<and> suit_index d = suit_index c \<and>
         rank d = rank c \<and> rewind_ids d = rewind_ids c"
    using assms(1) by (simp add: same_facts_def)
  with assms(2) show ?thesis by simp
qed

lemma same_facts_None:
  assumes "same_facts p q" "slot (thoughts p) ord = None"
  shows "slot (thoughts q) ord = None"
proof -
  have "case slot (thoughts p) ord of None \<Rightarrow> slot (thoughts q) ord = None
     | Some c \<Rightarrow> \<exists>d. slot (thoughts q) ord = Some d \<and> possible d = possible c \<and> suit_index d = suit_index c \<and>
         rank d = rank c \<and> rewind_ids d = rewind_ids c"
    using assms(1) by (simp add: same_facts_def)
  with assms(2) show ?thesis by simp
qed

lemma same_facts_slot: "same_facts p q \<Longrightarrow> slot (thoughts p) ord \<noteq> None \<longleftrightarrow> slot (thoughts q) ord \<noteq> None"
  using same_factsD [of p q ord] same_facts_None [of p q ord] by (cases "slot (thoughts p) ord") auto

text \<open>What keeps a view: the same facts for every card, well-formed cards, and well-formed links.\<close>

lemma view_same_facts:
  assumes v: "view_ok s \<sigma> p" and sf: "same_facts p q" and c: "cards_ok (n_suits s) q"
    and l: "\<And>l. l \<in> set (links q) \<Longrightarrow> link_ok (n_suits s) q l"
  shows "view_ok s \<sigma> q"
proof -
  have f: "\<exists>d. slot (thoughts q) ord = Some d \<and> fits (n_suits s) d (\<sigma> ord)" if o: "ord \<in> set (all_orders s)" for ord
  proof -
    obtain e where e: "slot (thoughts p) ord = Some e" "fits (n_suits s) e (\<sigma> ord)"
      using v o by (auto simp: view_ok_def knows_def)
    then obtain d where d: "slot (thoughts q) ord = Some d" "possible d = possible e" "suit_index d = suit_index e"
        "rank d = rank e" "rewind_ids d = rewind_ids e"
      using same_factsD [OF sf] by blast
    moreover have "card_ok (n_suits s) d" using c d(1) by (simp add: cards_ok_def)
    ultimately show ?thesis using e(2) by (auto simp: fits_def)
  qed
  have "all_possible q = all_possible p" "all_inferred q = all_inferred p" "player_index q = player_index p"
    using sf by (simp_all add: same_facts_def)
  with v c l f show ?thesis by (simp add: view_ok_def knows_def player_ok_def)
qed

lemma view_good_touch:
  assumes t: "truth_ok s \<sigma>" and v: "view_ok s \<sigma> p"
  shows "\<exists>q. good_touch_elim p s b = Inr q \<and> view_ok s \<sigma> q \<and> keeps s p q"
proof -
  obtain q where q: "good_touch_elim p s b = Inr q" "player_index q = player_index p" "links q = links p"
      "patches q = patches p" "all_possible q = all_possible p" "all_inferred q = all_inferred p"
    and rel: "\<And>ord. ord \<in> set (all_orders s) \<Longrightarrow>
      gt_rel (n_suits s) (card_at p ord) (card_at q ord) \<and> slot (thoughts q) ord \<noteq> None"
    and out: "\<And>ord. ord \<notin> set (all_orders s) \<Longrightarrow> slot (thoughts q) ord = slot (thoughts p) ord"
    using good_touch_elim_total [OF view_gt_ready [OF t v] truth_okD(3) [OF t] truth_deck_valid [OF t], of b] by auto
  have f: "\<exists>d. slot (thoughts q) ord = Some d \<and> fits (n_suits s) d (\<sigma> ord)" if o: "ord \<in> set (all_orders s)" for ord
  proof -
    obtain c where c: "slot (thoughts p) ord = Some c" "fits (n_suits s) c (\<sigma> ord)"
      using view_okD(1) [OF v] o by (auto simp: knows_def)
    obtain d where d: "slot (thoughts q) ord = Some d" using rel [OF o] by blast
    with rel [OF o] c have "gt_rel (n_suits s) c d" by (simp add: card_at_def)
    with c(2) d show ?thesis by (auto intro: gt_rel_fits)
  qed
  have cards: "cards_ok (n_suits s) q"
    unfolding cards_ok_def
  proof (intro allI impI)
    fix ord c assume c: "slot (thoughts q) ord = Some c"
    show "card_ok (n_suits s) c"
    proof (cases "ord \<in> set (all_orders s)")
      case True
      with f c show ?thesis by (force simp: fits_def)
    next
      case False
      with out c view_okD(3) [OF v] show ?thesis by (simp add: cards_ok_def)
    qed
  qed
  have def: "slot (thoughts q) ord \<noteq> None" if "slot (thoughts p) ord \<noteq> None" for ord
    using that rel out by (cases "ord \<in> set (all_orders s)") auto
  have "player_ok (n_suits s) q"
    using v cards q def by (auto simp: player_ok_def view_ok_def intro: link_ok_mono)
  moreover have "keeps s p q" using q(2,4) out by (simp add: keeps_def)
  ultimately show ?thesis using q v f by (simp add: view_ok_def knows_def)
qed

section \<open>Links\<close>

definition defined_orders :: "player \<Rightarrow> nat list" where
  "defined_orders p = filter (\<lambda>ord. slot (thoughts p) ord \<noteq> None) [0..<length (thoughts p)]"

lemma set_defined: "set (defined_orders p) = {ord. slot (thoughts p) ord \<noteq> None}"
  by (auto simp: defined_orders_def slot_def split: if_splits)

lemma cards_ok_hand: "cards_ok n p \<longleftrightarrow> hand_ok n p (defined_orders p)"
  by (auto simp: cards_ok_def hand_ok_def set_defined)

lemma cards_ok_same: "hand_ok n q (defined_orders p) \<Longrightarrow> same_facts p q \<Longrightarrow> cards_ok n q"
  unfolding cards_ok_def
proof (intro allI impI)
  fix ord c assume h: "hand_ok n q (defined_orders p)" "same_facts p q" and c: "slot (thoughts q) ord = Some c"
  have "ord \<in> set (defined_orders p)" using same_facts_slot [OF h(2), of ord] c by (simp add: set_defined)
  with h(1) c show "card_ok n c" by (auto simp: hand_ok_def)
qed

text \<open>A step on the links: the facts stay, the cards stay well formed.\<close>

definition links_step :: "nat \<Rightarrow> player \<Rightarrow> player \<Rightarrow> bool" where
  "links_step n p q \<longleftrightarrow> same_facts p q \<and> hand_ok n q (defined_orders p)"

lemma links_step_refl: "cards_ok n p \<Longrightarrow> links_step n p p"
  by (simp add: links_step_def same_facts_refl cards_ok_hand)

lemma defined_same: "same_facts p q \<Longrightarrow> set (defined_orders q) = set (defined_orders p)"
  using same_facts_slot [of p q] by (auto simp: set_defined)

lemma links_step_trans: "links_step n p q \<Longrightarrow> links_step n q r \<Longrightarrow> links_step n p r"
  using defined_same [of p q] by (auto simp: links_step_def hand_ok_def intro: same_facts_trans)

lemma links_step_links [simp]: "links_step n p (q\<lparr>links := ls\<rparr>) = links_step n p q"
  by (simp add: links_step_def)

lemma links_step_link_ok:
  assumes "links_step n p q" "link_ok n p l"
  shows "link_ok n q l"
proof (rule link_ok_mono [OF assms(2)])
  have "same_facts p q" using assms(1) by (simp add: links_step_def)
  then show "slot (thoughts q) ord \<noteq> None" if "slot (thoughts p) ord \<noteq> None" for ord
    using that same_facts_slot by blast
qed

lemma found_link_ok:
  "found_link n hand l \<Longrightarrow> (\<And>ord. ord \<in> set hand \<Longrightarrow> slot (thoughts q) ord \<noteq> None) \<Longrightarrow> link_ok n q l"
  by (auto simp: found_link_def link_ok_def)

lemma find_in_ok:
  assumes p: "cards_ok n p" and l: "\<forall>l \<in> set (links p). link_ok n p l"
    and h: "\<And>ord. ord \<in> set hand \<Longrightarrow> slot (thoughts p) ord \<noteq> None"
  shows "\<exists>q. find_links_in s p hand = Inr q \<and> links_step n p q \<and> (\<forall>l \<in> set (links q). link_ok n q l)"
proof -
  have sub: "set hand \<subseteq> set (defined_orders p)" using h by (auto simp: set_defined)
  obtain q new where q: "find_links_in s p hand = Inr q" "same_facts p q" "links q = links p @ new"
      "\<forall>l \<in> set new. found_link n hand l" "hand_ok n q (defined_orders p)"
    using find_links_in_ok [OF p [unfolded cards_ok_hand] sub] by blast
  have st: "links_step n p q" using q(2,5) by (simp add: links_step_def)
  have "link_ok n q l" if "l \<in> set (links q)" for l
  proof -
    from that q(3) consider "l \<in> set (links p)" | "l \<in> set new" by auto
    then show ?thesis
    proof cases
      case 1
      with assms(2) links_step_link_ok [OF st] show ?thesis by simp
    next
      case 2
      with q(4) h same_facts_slot [OF q(2)] show ?thesis by (auto intro: found_link_ok)
    qed
  qed
  with q(1) st show ?thesis by blast
qed

lemma find_links_ok:
  assumes p: "cards_ok n p" and l: "\<forall>l \<in> set (links p). link_ok n p l"
    and h: "\<And>ord. ord \<in> set (all_orders s) \<Longrightarrow> slot (thoughts p) ord \<noteq> None"
    and i: "player_index p = -1 \<or> nat (player_index p) < length (hands s)"
  shows "\<exists>q. find_links p s = Inr q \<and> links_step n p q \<and> (\<forall>l \<in> set (links q). link_ok n q l)"
proof (cases "player_index p = -1")
  case True
  let ?P = "\<lambda>q. links_step n p q \<and> (\<forall>l \<in> set (links q). link_ok n q l)"
  have "\<exists>q. foldR (find_links_in s) p (hands s) = Inr q \<and> ?P q"
  proof (rule foldR_total [where P = ?P])
    show "?P p" using p l links_step_refl by blast
    fix q hand assume hand: "hand \<in> set (hands s)" and q: "?P q"
    have c: "cards_ok n q" using q by (auto simp: links_step_def intro: cards_ok_same)
    have "slot (thoughts q) ord \<noteq> None" if "ord \<in> set hand" for ord
      using h [of ord] hand that q same_facts_slot [of p q ord] by (auto simp: all_orders_def links_step_def)
    then obtain r where "find_links_in s q hand = Inr r" "links_step n q r" "\<forall>l \<in> set (links r). link_ok n r l"
      using find_in_ok [OF c] q by blast
    with q show "\<exists>r. find_links_in s q hand = Inr r \<and> ?P r" by (blast intro: links_step_trans)
  qed
  with True show ?thesis by (simp add: find_links_def)
next
  case False
  with i have "nat (player_index p) < length (hands s)" by simp
  then have "slot (thoughts p) ord \<noteq> None" if "ord \<in> set (hands s ! nat (player_index p))" for ord
    using that h in_hand_all_orders by blast
  from find_in_ok [OF p l this] False show ?thesis by (simp add: find_links_def)
qed

lemma promised_ok:
  assumes p: "cards_ok n p" and l: "link_ok n p l" "l_promised l" and acc: "links_step n p (fst acc)" "\<forall>l \<in> set (snd acc). link_ok n p l"
  shows "\<exists>acc'. refresh_promised p l acc = Inr acc' \<and> links_step n p (fst acc') \<and> (\<forall>l \<in> set (snd acc'). link_ok n p l)"
proof -
  obtain i where i: "l_identities l = [i]" "valid_id n i"
    using l by (cases "l_identities l") (auto simp: link_ok_def)
  define viable where "viable = filter (\<lambda>o2. iset_has (possible (card_at p o2)) i) (l_orders l)"
  have vo: "slot (thoughts p) ord \<noteq> None" if "ord \<in> set viable" for ord
    using that l(1) by (auto simp: viable_def link_ok_def)
  have one: "\<exists>c. slot (thoughts (fst acc)) o1 = Some c \<and>
      links_step n p ((fst acc)\<lparr>thoughts := put (thoughts (fst acc)) o1 (c\<lparr>inferred := iset_intersect (inferred c) (AnId i)\<rparr>)\<rparr>)"
    if "viable = [o1]" for o1
  proof -
    have sf: "same_facts p (fst acc)" and ho: "hand_ok n (fst acc) (defined_orders p)"
      using acc(1) by (simp_all add: links_step_def)
    have d: "o1 \<in> set (defined_orders p)" using vo that by (simp add: set_defined)
    then obtain c where c: "slot (thoughts (fst acc)) o1 = Some c" "card_ok n c" using ho by (auto simp: hand_ok_def)
    let ?d = "c\<lparr>inferred := iset_intersect (inferred c) (AnId i)\<rparr>"
    have "card_ok n ?d" using c(2) card_okD(2) [OF c(2)] by (intro card_ok_inferred) simp_all
    then have "hand_ok n ((fst acc)\<lparr>thoughts := put (thoughts (fst acc)) o1 ?d\<rparr>) (defined_orders p)"
      using ho by (auto simp: hand_ok_def array_simps)
    moreover have "same_facts (fst acc) ((fst acc)\<lparr>thoughts := put (thoughts (fst acc)) o1 ?d\<rparr>)"
      using c(1) by (auto simp: same_facts_def array_simps split: option.splits)
    ultimately show ?thesis using c(1) sf by (auto simp: links_step_def intro: same_facts_trans)
  qed
  have many: "link_ok n p (l\<lparr>l_orders := viable\<rparr>)" using l(1) vo by (simp add: link_ok_def)
  show ?thesis
  proof (cases "list_ex (\<lambda>o2. matches no_opts (card_at p o2) i) (l_orders l) \<or>
      (case l_target l of None \<Rightarrow> False
       | Some t \<Rightarrow> \<not> list_ex (\<lambda>j. suit_index j = suit_index i) (iset_array (possible (card_at p t))))")
    case True
    then have "refresh_promised p l acc = Inr acc" by (auto simp: refresh_promised_def i(1))
    with acc show ?thesis by blast
  next
    case False
    then have e: "refresh_promised p l acc = (case viable of
               [] \<Rightarrow> Inr acc
             | [o1] \<Rightarrow> bindR (need (slot (thoughts (fst acc)) o1)) (\<lambda>c.
                   Inr ((fst acc)\<lparr>thoughts := put (thoughts (fst acc)) o1
                     (c\<lparr>inferred := iset_intersect (inferred c) (AnId i)\<rparr>)\<rparr>, snd acc))
             | v # w # vs \<Rightarrow> Inr (fst acc, snd acc @ [l\<lparr>l_orders := viable\<rparr>]))"
      unfolding viable_def by (auto simp: refresh_promised_def i(1) split: list.splits)
    show ?thesis
    proof (cases viable)
      case Nil
      with e acc show ?thesis by simp
    next
      case (Cons o1 os)
      show ?thesis
      proof (cases os)
        case Nil
        with Cons e one acc show ?thesis by fastforce
      next
        case c2: (Cons o2 os2)
        with Cons e acc many show ?thesis by auto
      qed
    qed
  qed
qed

lemma refresh_link_ok:
  assumes p: "cards_ok n p" and l: "link_ok n p l" and acc: "links_step n p (fst acc)" "\<forall>l \<in> set (snd acc). link_ok n p l"
  shows "\<exists>acc'. refresh_link p acc l = Inr acc' \<and> links_step n p (fst acc') \<and> (\<forall>l \<in> set (snd acc'). link_ok n p l)"
proof (cases "l_promised l")
  case True
  with promised_ok [OF p l True acc] show ?thesis by (simp add: refresh_link_def)
next
  case False
  let ?q = "fst acc"
  have "set (l_orders l) \<subseteq> set (defined_orders p)" using l by (auto simp: link_ok_def set_defined)
  then obtain q' where q': "settle_focus (l_orders l) (hd (focused_in ?q (l_orders l))) (hd (l_identities l)) ?q = Inr q'"
      "hand_ok n q' (defined_orders p)" "same_facts ?q q'"
    using settle_focus_ok [of n ?q "defined_orders p"] acc(1) by (meson links_step_def)
  then have "links_step n p q'" using acc(1) by (auto simp: links_step_def intro: same_facts_trans)
  with False q'(1) acc l show ?thesis by (cases acc) (simp add: refresh_link_def Let_def)
qed

lemma refresh_links_ok:
  assumes p: "cards_ok n p" and l: "\<forall>l \<in> set (links p). link_ok n p l"
    and h: "\<And>ord. ord \<in> set (all_orders s) \<Longrightarrow> slot (thoughts p) ord \<noteq> None"
    and i: "player_index p = -1 \<or> nat (player_index p) < length (hands s)"
  shows "\<exists>q. refresh_links p s = Inr q \<and> links_step n p q \<and> (\<forall>l \<in> set (links q). link_ok n q l)"
proof -
  let ?P = "\<lambda>acc. links_step n p (fst acc) \<and> (\<forall>l \<in> set (snd acc). link_ok n p l)"
  have "\<exists>acc. foldR (refresh_link p) (p, []) (links p) = Inr acc \<and> ?P acc"
    by (rule foldR_total [where P = ?P]) (use links_step_refl [OF p] refresh_link_ok [OF p] l in auto)
  then obtain q ls where q: "foldR (refresh_link p) (p, []) (links p) = Inr (q, ls)" "links_step n p q"
      "\<forall>l \<in> set ls. link_ok n p l" by auto
  let ?q = "q\<lparr>links := ls\<rparr>"
  have st: "links_step n p ?q" using q(2) by simp
  then have sf: "same_facts p ?q" by (simp add: links_step_def)
  have c: "cards_ok n ?q" using st by (auto simp: links_step_def intro: cards_ok_same)
  have "\<forall>l \<in> set (links ?q). link_ok n ?q l" using q(3) links_step_link_ok [OF st] by simp
  moreover have "slot (thoughts ?q) ord \<noteq> None" if "ord \<in> set (all_orders s)" for ord
    using h [OF that] same_facts_slot [OF sf] by simp
  moreover have "player_index ?q = -1 \<or> nat (player_index ?q) < length (hands s)" using i sf by (simp add: same_facts_def)
  ultimately obtain r where "find_links ?q s = Inr r" "links_step n ?q r" "\<forall>l \<in> set (links r). link_ok n r l"
    using find_links_ok [OF c] by blast
  with q(1) links_step_trans [OF st] show ?thesis by (auto simp: refresh_links_def)
qed

lemma view_refresh:
  assumes v: "view_ok s \<sigma> p"
  shows "\<exists>q. refresh_links p s = Inr q \<and> view_ok s \<sigma> q \<and> keeps s p q"
proof -
  have "\<exists>q. refresh_links p s = Inr q \<and> links_step (n_suits s) p q \<and> (\<forall>l \<in> set (links q). link_ok (n_suits s) q l)"
    by (rule refresh_links_ok) (use v knows_slot [of p s \<sigma>] in \<open>auto simp: view_ok_def player_ok_def\<close>)
  then obtain q where q: "refresh_links p s = Inr q" "links_step (n_suits s) p q"
      "\<forall>l \<in> set (links q). link_ok (n_suits s) q l" by blast
  then have "view_ok s \<sigma> q"
    by (intro view_same_facts [OF v]) (auto simp: links_step_def intro: cards_ok_same)
  moreover have "keeps s p q"
  proof -
    have sf: "same_facts p q" and c: "cards_ok (n_suits s) q"
      using q(2) by (auto simp: links_step_def intro: cards_ok_same)
    have "\<exists>d. slot (thoughts q) ord = Some d \<and> fits (n_suits s) d i"
      if e: "slot (thoughts p) ord = Some e" "fits (n_suits s) e i" for ord e i
    proof -
      obtain d where d: "slot (thoughts q) ord = Some d" "possible d = possible e" "suit_index d = suit_index e"
          "rank d = rank e" "rewind_ids d = rewind_ids e"
        using same_factsD [OF sf e(1)] by blast
      moreover have "card_ok (n_suits s) d" using c d(1) by (simp add: cards_ok_def)
      ultimately show ?thesis using e(2) by (auto simp: fits_def)
    qed
    moreover have "player_index q = player_index p" "patches q = patches p" using sf by (simp_all add: same_facts_def)
    ultimately show ?thesis by (simp add: keeps_def)
  qed
  ultimately show ?thesis using q(1) by blast
qed

section \<open>Hypothetical stacks\<close>

lemma view_hypo_ready: "truth_ok s \<sigma> \<Longrightarrow> stacks_ok s \<Longrightarrow> view_ok s \<sigma> p \<Longrightarrow> hypo_ready p s"
  by (fastforce simp: hypo_ready_def view_ok_def knows_def fits_def player_ok_def link_ok_def dest: truth_okD)

lemma view_hypo:
  assumes t: "truth_ok s \<sigma>" and st: "stacks_ok s" and v: "view_ok s \<sigma> p"
  shows "\<exists>q. update_hypo_stacks p s ign = Inr q \<and> view_ok s \<sigma> q \<and> keeps s p q \<and>
    hypo_bounds s q"
proof -
  have "hypo_ready p s" by (rule view_hypo_ready [OF t st v])
  then obtain q h where q: "update_hypo_stacks p s ign = Inr q" "hypo_bounds s q" "hypo_of p q"
    using update_hypo_ok by blast
  from q(3) have e: "thoughts q = thoughts p" "links q = links p" "all_possible q = all_possible p"
    "all_inferred q = all_inferred p" "player_index q = player_index p" "patches q = patches p"
    by (auto simp: hypo_of_def set_hypo_def)
  then have "view_ok s \<sigma> q" using v by (simp add: view_ok_def knows_def player_ok_def cards_ok_def link_ok_def)
  moreover have "keeps s p q" using e by (simp add: keeps_def)
  ultimately show ?thesis using q by auto
qed

section \<open>The contract of an update\<close>

text \<open>What the handlers rely on: a step of the update of a player returns, keeps the view right and keeps what the
  cards outside of the hands fit. Steps compose.\<close>

locale view_step =
  fixes step :: "game_state \<Rightarrow> player \<Rightarrow> player result"
  assumes step_ok: "truth_ok s \<sigma> \<Longrightarrow> stacks_ok s \<Longrightarrow> view_ok s \<sigma> p \<Longrightarrow>
    \<exists>q. step s p = Inr q \<and> view_ok s \<sigma> q \<and> keeps s p q"
begin

lemma step_returns: "truth_ok s \<sigma> \<Longrightarrow> stacks_ok s \<Longrightarrow> view_ok s \<sigma> p \<Longrightarrow> step s p \<noteq> Inl e"
  using step_ok by fastforce

lemma step_patches: "truth_ok s \<sigma> \<Longrightarrow> stacks_ok s \<Longrightarrow> view_ok s \<sigma> p \<Longrightarrow> step s p = Inr q \<Longrightarrow> patches q = patches p"
  using step_ok [of s \<sigma> p] by (auto simp: keeps_def)

lemma then_ok:
  assumes "truth_ok s \<sigma>" "stacks_ok s" "\<exists>q. m = Inr q \<and> view_ok s \<sigma> q \<and> keeps s p q"
  shows "\<exists>q. bindR m (step s) = Inr q \<and> view_ok s \<sigma> q \<and> keeps s p q"
proof -
  obtain q where q: "m = Inr q" "view_ok s \<sigma> q" "keeps s p q" using assms(3) by blast
  obtain r where "step s q = Inr r" "view_ok s \<sigma> r" "keeps s q r" using step_ok [OF assms(1,2) q(2)] by blast
  with q show ?thesis by (auto intro: keeps_trans)
qed

end

interpretation card_elim_step: view_step "\<lambda>s p. card_elim p s"
  by unfold_locales (rule view_card_elim)

interpretation good_touch_step: view_step "\<lambda>s p. if gt then good_touch_elim p s b else Inr p" for gt b
proof
  fix s \<sigma> p assume "truth_ok s \<sigma>" "view_ok s \<sigma> p"
  then show "\<exists>q. (if gt then good_touch_elim p s b else Inr p) = Inr q \<and> view_ok s \<sigma> q \<and> keeps s p q"
    using view_good_touch [of s \<sigma> p b] by (cases gt) (auto simp: keeps_def)
qed

interpretation refresh_step: view_step "\<lambda>s p. refresh_links p s"
  by unfold_locales (rule view_refresh)

interpretation hypo_step: view_step "\<lambda>s p. update_hypo_stacks p s ign" for ign
  by unfold_locales (use view_hypo in blast)

text \<open>The update of a player after its cards have been written.\<close>

lemma view_update:
  assumes "truth_ok s \<sigma>" "stacks_ok s" "view_ok s \<sigma> p"
  shows "\<exists>q. bindR (card_elim p s) (\<lambda>q1. bindR (if gt then good_touch_elim q1 s b else Inr q1) (\<lambda>q2.
      bindR (refresh_links q2 s) (\<lambda>q3. update_hypo_stacks q3 s ign))) = Inr q \<and> view_ok s \<sigma> q \<and> keeps s p q"
proof -
  have "\<exists>q. bindR (bindR (bindR (card_elim p s) (\<lambda>q. if gt then good_touch_elim q s b else Inr q)) (\<lambda>q. refresh_links q s))
      (\<lambda>q. update_hypo_stacks q s ign) = Inr q \<and> view_ok s \<sigma> q \<and> keeps s p q"
    by (intro hypo_step.then_ok refresh_step.then_ok good_touch_step.then_ok card_elim_step.step_ok assms)
  then show ?thesis by (simp add: bindR_assoc)
qed

end
