(* ===== verification/Handlers_Sound.thy ===== *)
theory Handlers_Sound
  imports Views
begin

text \<open>
  The handlers keep everybody's knowledge right: after a clue that touches the cards that it
  says, a discard, a play or a draw of the true card, nothing is thrown, the state is well formed and every
  player's possibilities still contain the truth.
\<close>

section \<open>Writes and patches\<close>

text \<open>A write is safe for the card that is \<open>i\<close> when it names nothing else.\<close>

fun safe_write :: "nat \<Rightarrow> basic_card \<Rightarrow> card_write \<Rightarrow> bool" where
  "safe_write n i (W_suit_index x) = (x = suit_index i)"
| "safe_write n i (W_rank x) = (x = rank i)"
| "safe_write n i (W_possible t) = (iset_ok n t \<and> iset_has t i)"
| "safe_write n i (W_inferred t) = iset_ok n t"
| "safe_write n i (W_old_inferred t) = iset_ok n t"
| "safe_write n i (W_info_lock t) = opt_ok n t"
| "safe_write n i _ = True"

lemma safe_write_fits: "safe_write n i w \<Longrightarrow> fits n c i \<Longrightarrow> valid_id n i \<Longrightarrow> fits n (apply_write w c) i"
  by (cases w) (auto simp: fits_def card_ok_def valid_id_def)

lemma safe_writes_fits:
  "list_all (safe_write n i) ws \<Longrightarrow> fits n c i \<Longrightarrow> valid_id n i \<Longrightarrow> fits n (fold apply_write ws c) i"
  by (induction ws arbitrary: c) (auto intro: safe_write_fits)

lemma list_all_dropWhile: "list_all P xs \<Longrightarrow> list_all P (dropWhile Q xs)"
  by (induction xs) auto

lemma list_all_filter: "list_all P xs \<Longrightarrow> list_all P (filter Q xs)"
  by (induction xs) auto

definition patches_safe :: "nat \<Rightarrow> truth \<Rightarrow> player \<Rightarrow> bool" where
  "patches_safe n \<sigma> p \<longleftrightarrow> (\<forall>e \<in> set (patches p). list_all (safe_write n (\<sigma> (fst e))) (snd e))"

lemma update_entry_set: "e \<in> set (AList.update k v m) \<Longrightarrow> e = (k, v) \<or> e \<in> set m"
  by (induction m) (auto split: if_splits)

lemma with_thoughts_fits:
  assumes c: "slot (thoughts p) ord = Some c" "fits n c (\<sigma> ord)" and v: "valid_id n (\<sigma> ord)"
    and w: "list_all (safe_write n (\<sigma> ord)) (f c)" and ps: "patches_safe n \<sigma> p"
  shows "\<exists>c' pp. with_thoughts p ord f True = Inr (p\<lparr>thoughts := put (thoughts p) ord c', patches := pp\<rparr>) \<and>
    fits n c' (\<sigma> ord) \<and> patches_safe n \<sigma> (p\<lparr>thoughts := put (thoughts p) ord c', patches := pp\<rparr>) \<and>
    fst ` set pp \<subseteq> insert ord (fst ` set (patches p))"
proof -
  let ?c = "fold apply_write (f c) c" and ?ps = "recorded c (f c)"
  have pr: "produce_card c (f c) = (?c, ?ps)"
    using produce_card_writes [of c "f c"] by (simp add: produce_card_def Let_def)
  have fc: "fits n ?c (\<sigma> ord)" using w c(2) v by (rule safe_writes_fits)
  have sp: "list_all (safe_write n (\<sigma> ord)) ?ps" using w by (simp add: recorded_def list_all_dropWhile)
  let ?old = "case map_of (patches p) ord of Some old \<Rightarrow> old | None \<Rightarrow> []"
  let ?pp = "if ?ps \<noteq> [] then AList.update ord (?old @ ?ps) (patches p) else patches p"
  have "list_all (safe_write n (\<sigma> ord)) ?old"
    using ps by (auto simp: patches_safe_def split: option.splits dest!: map_of_SomeD)
  with sp ps have pp: "\<forall>e \<in> set ?pp. list_all (safe_write n (\<sigma> (fst e))) (snd e)"
    by (auto simp: patches_safe_def dest: update_entry_set)
  have keys: "fst ` set ?pp \<subseteq> insert ord (fst ` set (patches p))" by (auto simp: dom_update)
  have l: "with_at (thoughts p) ord ?c = Inr (put (thoughts p) ord ?c)"
    using slot_SomeD [OF c(1)] by (auto simp: with_at_def put_def)
  show ?thesis
    using fc pp keys by (intro exI [of _ ?c] exI [of _ ?pp]) (simp add: with_thoughts_def c(1) pr l patches_safe_def)
qed

text \<open>Merging the patches of common knowledge into a player's view.\<close>

definition patches_known :: "nat \<Rightarrow> truth \<Rightarrow> player \<Rightarrow> player \<Rightarrow> bool" where
  "patches_known n \<sigma> com p \<longleftrightarrow> (\<forall>ord \<in> fst ` set (patches com). valid_id n (\<sigma> ord) \<and>
     (\<exists>cc. slot (thoughts com) ord = Some cc \<and> fits n cc (\<sigma> ord)) \<and>
     (\<exists>oc. slot (thoughts p) ord = Some oc \<and> fits n oc (\<sigma> ord)))"

lemma view_put:
  assumes v: "view_ok s \<sigma> p" and c: "fits (n_suits s) c (\<sigma> ord)"
  shows "view_ok s \<sigma> (p\<lparr>thoughts := put (thoughts p) ord c\<rparr>)"
proof -
  have "link_ok (n_suits s) (p\<lparr>thoughts := put (thoughts p) ord c\<rparr>) l" if "l \<in> set (links p)" for l
    by (rule link_ok_mono [of _ p]) (use that v in \<open>auto simp: view_ok_def player_ok_def array_simps\<close>)
  moreover have "cards_ok (n_suits s) (p\<lparr>thoughts := put (thoughts p) ord c\<rparr>)"
    using v c by (auto simp: view_ok_def player_ok_def cards_ok_def array_simps fits_def)
  moreover have "knows (p\<lparr>thoughts := put (thoughts p) ord c\<rparr>) s \<sigma>"
    using v c by (auto simp: view_ok_def knows_def array_simps)
  ultimately show ?thesis using v by (simp add: view_ok_def player_ok_def)
qed

lemma merge_fits:
  assumes "fits n c i" "fits n cc i" "fits n oc i" "valid_id n i" "list_all (safe_write n i) ws"
  shows "fits n ((apply_patches c (filter (\<lambda>w. \<not> is_info w) ws))
    \<lparr>possible := iset_intersect (possible cc) (ASet (possible oc)),
     inferred := iset_intersect (inferred cc) (ASet (possible oc))\<rparr>) i"
proof -
  have f: "fits n (apply_patches c (filter (\<lambda>w. \<not> is_info w) ws)) i"
    unfolding apply_patches_def using assms by (intro safe_writes_fits list_all_filter)
  have "iset_has (iset_intersect (possible cc) (ASet (possible oc))) i"
    using idset.mem_inter [of n "possible cc" "possible oc" i] assms by (auto simp: fits_def card_okD)
  moreover have "iset_ok n (iset_intersect (possible cc) (ASet (possible oc)))"
    "iset_ok n (iset_intersect (inferred cc) (ASet (possible oc)))"
    using assms(2) by (auto simp: fits_def card_okD)
  ultimately show ?thesis using f by (auto simp: fits_def card_ok_def valid_id_def)
qed

lemma view_merge:
  assumes v: "view_ok s \<sigma> p" and k: "patches_known (n_suits s) \<sigma> com p" and ps: "patches_safe (n_suits s) \<sigma> com"
  shows "\<exists>q. foldR (merge_patch com p) p (patches com) = Inr q \<and> view_ok s \<sigma> q"
proof -
  let ?n = "n_suits s"
  let ?P = "\<lambda>q. view_ok s \<sigma> q \<and> patches_known ?n \<sigma> com q"
  have "\<exists>q. foldR (merge_patch com p) p (patches com) = Inr q \<and> ?P q"
  proof (rule foldR_total [where P = ?P])
    show "?P p" using v k by blast
    fix q e assume e: "e \<in> set (patches com)" and q: "?P q"
    obtain ord ws where ew: "e = (ord, ws)" by force
    have ke: "ord \<in> fst ` set (patches com)" using e by (force simp: ew)
    obtain cc where cc: "slot (thoughts com) ord = Some cc" "fits ?n cc (\<sigma> ord)" using k ke by (auto simp: patches_known_def)
    obtain oc where oc: "slot (thoughts p) ord = Some oc" "fits ?n oc (\<sigma> ord)" using k ke by (auto simp: patches_known_def)
    obtain c where c: "slot (thoughts q) ord = Some c" "fits ?n c (\<sigma> ord)" using q ke by (auto simp: patches_known_def)
    have vi: "valid_id ?n (\<sigma> ord)" using k ke by (auto simp: patches_known_def)
    have w: "list_all (safe_write ?n (\<sigma> ord)) ws" using ps e by (auto simp: patches_safe_def ew)
    let ?d = "(apply_patches c (filter (\<lambda>w. \<not> is_info w) ws))
      \<lparr>possible := iset_intersect (possible cc) (ASet (possible oc)),
       inferred := iset_intersect (inferred cc) (ASet (possible oc))\<rparr>"
    have d: "fits ?n ?d (\<sigma> ord)" using c(2) cc(2) oc(2) vi w by (rule merge_fits)
    let ?q = "q\<lparr>thoughts := put (thoughts q) ord ?d\<rparr>"
    have "merge_patch com p q e = Inr ?q" by (simp add: merge_patch_def ew cc(1) oc(1) c(1))
    moreover have "view_ok s \<sigma> ?q" using q d by (intro view_put) blast
    moreover have "patches_known ?n \<sigma> com ?q" using q d by (auto simp: patches_known_def array_simps)
    ultimately show "\<exists>q'. merge_patch com p q e = Inr q' \<and> ?P q'" by blast
  qed
  then show ?thesis by blast
qed

section \<open>Team elimination\<close>

definition game_ok :: "game \<Rightarrow> truth \<Rightarrow> bool" where
  "game_ok g \<sigma> \<longleftrightarrow> truth_ok (g_state g) \<sigma> \<and> stacks_ok (g_state g) \<and>
     length (g_players g) = num_players (g_state g) \<and> (\<forall>p \<in> set (g_players g). view_ok (g_state g) \<sigma> p) \<and>
     view_ok (g_state g) \<sigma> (common g) \<and> patches (common g) = []"

lemma mapR_ok: "(\<And>x. x \<in> set xs \<Longrightarrow> \<exists>y. f x = Inr y \<and> P y) \<Longrightarrow> \<exists>ys. mapR f xs = Inr ys \<and> length ys = length xs \<and> (\<forall>y \<in> set ys. P y)"
proof (induction xs)
  case (Cons x xs)
  obtain y where "f x = Inr y" "P y" using Cons.prems [of x] by auto
  moreover obtain ys where "mapR f xs = Inr ys" "length ys = length xs" "\<forall>y \<in> set ys. P y" using Cons by auto
  ultimately show ?case by simp
qed simp

lemma view_waiting [simp]: "view_ok s \<sigma> (p\<lparr>waiting_connections := w\<rparr>) = view_ok s \<sigma> p"
  by (simp add: view_ok_def knows_def player_ok_def cards_ok_def link_ok_def)

lemma view_patches [simp]: "view_ok s \<sigma> (p\<lparr>patches := w\<rparr>) = view_ok s \<sigma> p"
  by (simp add: view_ok_def knows_def player_ok_def cards_ok_def link_ok_def)

lemma team_player_ok:
  assumes t: "truth_ok (g_state g) \<sigma>" and st: "stacks_ok (g_state g)" and v: "view_ok (g_state g) \<sigma> p"
    and k: "patches_known (n_suits (g_state g)) \<sigma> (common g) p" and ps: "patches_safe (n_suits (g_state g)) \<sigma> (common g)"
  shows "\<exists>q. team_player g p = Inr q \<and> view_ok (g_state g) \<sigma> q"
proof -
  let ?s = "g_state g"
  obtain q where q: "foldR (merge_patch (common g) p) p (patches (common g)) = Inr q" "view_ok ?s \<sigma> q"
    using view_merge [OF v k ps] by blast
  have "view_ok ?s \<sigma> (q\<lparr>waiting_connections := waiting_connections (common g)\<rparr>)" using q(2) by simp
  then obtain r where "bindR (card_elim (q\<lparr>waiting_connections := waiting_connections (common g)\<rparr>) ?s) (\<lambda>q1.
      bindR (if good_touch g then good_touch_elim q1 ?s (num_players ?s = 2) else Inr q1) (\<lambda>q2.
      bindR (refresh_links q2 ?s) (\<lambda>q3. update_hypo_stacks q3 ?s None))) = Inr r" "view_ok ?s \<sigma> r"
    using view_update [OF t st, where gt = "good_touch g" and b = "num_players ?s = 2" and ign = None] by blast
  with q show ?thesis by (simp add: team_player_def Let_def)
qed

lemma team_elim_ok:
  assumes t: "truth_ok (g_state g) \<sigma>" and st: "stacks_ok (g_state g)" and len: "length (g_players g) = num_players (g_state g)"
    and v: "\<And>p. p \<in> set (g_players g) \<Longrightarrow> view_ok (g_state g) \<sigma> p" and vc: "view_ok (g_state g) \<sigma> (common g)"
    and k: "\<And>p. p \<in> set (g_players g) \<Longrightarrow> patches_known (n_suits (g_state g)) \<sigma> (common g) p"
    and ps: "patches_safe (n_suits (g_state g)) \<sigma> (common g)"
  shows "\<exists>g'. team_elim g = Inr g' \<and> game_ok g' \<sigma> \<and> g_state g' = g_state g \<and> deck_ids g' = deck_ids g"
proof -
  obtain qs where "mapR (team_player g) (g_players g) = Inr qs" "length qs = length (g_players g)"
      "\<forall>q \<in> set qs. view_ok (g_state g) \<sigma> q"
    using mapR_ok [of "g_players g" "team_player g" "view_ok (g_state g) \<sigma>"] team_player_ok [OF t st v k ps] by blast
  with t st len vc show ?thesis by (simp add: team_elim_def game_ok_def)
qed

lemma elim_common_ok:
  assumes t: "truth_ok s \<sigma>" and v: "view_ok s \<sigma> p"
  shows "\<exists>q. elim_common gt s s p = Inr q \<and> view_ok s \<sigma> q \<and> keeps s p q"
proof -
  obtain q1 where q1: "card_elim p s = Inr q1" "view_ok s \<sigma> q1" "keeps s p q1" using view_card_elim [OF t v] by blast
  obtain q2 where q2: "(if gt then good_touch_elim q1 s False else Inr q1) = Inr q2" "view_ok s \<sigma> q2" "keeps s q1 q2"
    using view_good_touch [OF t q1(2)] q1(2) by (cases gt) (fastforce simp: keeps_def)+
  obtain q3 where q3: "refresh_links q2 s = Inr q3" "view_ok s \<sigma> q3" "keeps s q2 q3" using view_refresh [OF q2(2)] by blast
  have "keeps s p q3" using keeps_trans [OF keeps_trans [OF q1(3) q2(3)] q3(3)] .
  with q1 q2 q3 show ?thesis by (simp add: elim_common_def)
qed

end
