(* ===== verification/Handlers.thy ===== *)
theory Handlers
  imports Handlers_Sound
begin

text \<open>
  One preservation lemma for each handler of \<open>src/src/basics.js\<close>: when the action is true (a clue touches
  the cards that it would touch, the card that leaves a hand is the one it is said to be, a drawn card is one that
  the deck still has), the handler returns and the game that it returns is right.
\<close>

section \<open>States that only differ off the board\<close>

definition same_deck :: "actual_card option list \<Rightarrow> actual_card option list \<Rightarrow> bool" where
  "same_deck d d' \<longleftrightarrow> (\<forall>ord. map_option raw (slot d' ord) = map_option raw (slot d ord))"

definition same_board :: "game_state \<Rightarrow> game_state \<Rightarrow> bool" where
  "same_board s s' \<longleftrightarrow> variant s' = variant s \<and> card_counts s' = card_counts s \<and> base_ids s' = base_ids s \<and>
     all_ids s' = all_ids s \<and> play_stacks s' = play_stacks s \<and> max_ranks s' = max_ranks s \<and>
     discard_stacks s' = discard_stacks s \<and> hands s' = hands s \<and> num_players s' = num_players s \<and>
     same_deck (deck s) (deck s')"

lemma same_board_refl: "same_board s s"
  by (simp add: same_board_def same_deck_def)

lemma same_boardD:
  assumes "same_board s s'"
  shows "n_suits s' = n_suits s" "all_orders s' = all_orders s" "tables_ok s' = tables_ok s" "stacks_ok s' = stacks_ok s"
    "hands s' = hands s" "num_players s' = num_players s"
    "base_count s' (i :: basic_card) = base_count s i" "total_count s' (i :: basic_card) = total_count s i"
    "copies s' \<sigma> j = copies s \<sigma> j"
  using assms
  by (simp_all add: same_board_def all_orders_def tables_ok_def stacks_ok_def base_count_def stack_of_def
      discards_of_def total_count_def copies_def)

lemma basic_identity_raw: "basic_identity (raw d) = basic_identity d"
  by (simp add: basic_identity_def raw_def)

lemma same_deck_some:
  "same_deck d d' \<Longrightarrow> slot d ord = Some a \<Longrightarrow> \<exists>b. slot d' ord = Some b \<and> basic_identity b = basic_identity a"
proof -
  assume "same_deck d d'" and a: "slot d ord = Some a"
  then have "map_option raw (slot d' ord) = Some (raw a)" by (simp add: same_deck_def)
  then obtain b where b: "slot d' ord = Some b" "raw b = raw a" by auto
  then show ?thesis using basic_identity_raw [of a] basic_identity_raw [of b] by auto
qed

lemma same_board_truth:
  assumes b: "same_board s s'" and t: "truth_ok s \<sigma>"
  shows "truth_ok s' \<sigma>"
proof -
  note e = same_boardD [OF b]
  have d: "\<exists>d. slot (deck s') ord = Some d \<and> (basic_identity d = None \<or> basic_identity d = Some (\<sigma> ord))"
    if "ord \<in> set (all_orders s)" for ord
  proof -
    obtain a where a: "slot (deck s) ord = Some a" "basic_identity a = None \<or> basic_identity a = Some (\<sigma> ord)"
      using t \<open>ord \<in> set (all_orders s)\<close> by (auto simp: truth_ok_def)
    then show ?thesis using same_deck_some [OF _ a(1), of "deck s'"] b by (auto simp: same_board_def)
  qed
  show ?thesis using t d by (simp add: truth_ok_def e)
qed

lemma same_board_view: "same_board s s' \<Longrightarrow> view_ok s' \<sigma> p = view_ok s \<sigma> p"
  by (simp add: view_ok_def knows_def same_boardD exhausted_def)

lemma same_board_keeps: "same_board s s' \<Longrightarrow> keeps s' p q = keeps s p q"
  by (simp add: keeps_def same_boardD)

lemma same_board_trans: "same_board s t \<Longrightarrow> same_board t u \<Longrightarrow> same_board s u"
  by (simp add: same_board_def same_deck_def)

lemma update_deck_board:
  assumes f: "\<And>d. raw (f d) = raw d" and d: "slot (deck s) ord \<noteq> None"
  shows "\<exists>t. update_deck f ord s = Inr t \<and> same_board s t"
  using d f by (auto simp: update_deck_def same_board_def same_deck_def array_simps)

lemma update_decks_board:
  assumes f: "\<And>ord d. raw (f ord d) = raw d" and d: "\<And>ord. ord \<in> set os \<Longrightarrow> slot (deck s) ord \<noteq> None"
  shows "\<exists>t. foldR (\<lambda>s' ord. update_deck (f ord) ord s') s os = Inr t \<and> same_board s t"
proof (rule foldR_total [where P = "same_board s"])
  show "same_board s s" by (rule same_board_refl)
  fix t ord assume "ord \<in> set os" and b: "same_board s t"
  then have "map_option raw (slot (deck t) ord) = map_option raw (slot (deck s) ord)" "slot (deck s) ord \<noteq> None"
    using d [of ord] by (simp_all add: same_board_def same_deck_def)
  then have "slot (deck t) ord \<noteq> None" by (metis option.map_disc_iff)
  then show "\<exists>u. update_deck (f ord) ord t = Inr u \<and> same_board s u"
    using update_deck_board [of "f ord" t ord] f same_board_trans [OF b] by blast
qed

lemma touch_actual_raw: "raw (touch_actual cl d) = raw d"
  by (simp add: touch_actual_def raw_def)

section \<open>Clues\<close>

definition clue_true :: "game_state \<Rightarrow> truth \<Rightarrow> clue_action \<Rightarrow> bool" where
  "clue_true s \<sigma> a \<longleftrightarrow> ca_target a < num_players s \<and> set (ca_list a) \<subseteq> set (hands s ! ca_target a) \<and>
     (\<forall>ord \<in> set (hands s ! ca_target a).
        ord \<in> set (ca_list a) \<longleftrightarrow> card_touched (\<sigma> ord) (variant s) (ca_clue a))"

lemma clue_writes_safe:
  assumes c: "fits (n_suits s) c (\<sigma> ord)" and v: "in_deck s (\<sigma> ord)"
    and t: "ord \<in> set (ca_list a) \<longleftrightarrow> card_touched (\<sigma> ord) (variant s) (ca_clue a)"
  shows "list_all (safe_write (n_suits s) (\<sigma> ord))
    (clue_writes a turn ord c (Ids (find_possibilities (ca_clue a) (variant s))) d)"
proof -
  let ?n = "n_suits s" and ?arg = "Ids (find_possibilities (ca_clue a) (variant s))"
  have arg: "arg_ok ?n ?arg" by (auto simp: set_find_possibilities list_all_iff)
  have p: "iset_ok ?n (possible c)" and i: "iset_ok ?n (inferred c)" and h: "iset_has (possible c) (\<sigma> ord)"
    using c by (auto dest: fitsD)
  have "iset_has (iset_intersect (possible c) ?arg) (\<sigma> ord)" if "card_touched (\<sigma> ord) (variant s) (ca_clue a)"
    using h v that by (simp add: iset_has_intersect [OF p arg v] set_find_possibilities)
  moreover have "iset_has (iset_subtract (possible c) ?arg) (\<sigma> ord)" if "\<not> card_touched (\<sigma> ord) (variant s) (ca_clue a)"
    using h v that by (simp add: iset_has_subtract [OF p arg v] set_find_possibilities)
  ultimately show ?thesis using t p i by (auto simp: clue_writes_def Let_def)
qed

text \<open>Writes on common knowledge, and what is recorded for the players.\<close>

definition common_ok :: "game_state \<Rightarrow> truth \<Rightarrow> player \<Rightarrow> bool" where
  "common_ok s \<sigma> com \<longleftrightarrow> view_ok s \<sigma> com \<and> patches_safe (n_suits s) \<sigma> com \<and>
     fst ` set (patches com) \<subseteq> set (all_orders s)"

lemma common_write_ok:
  assumes t: "truth_ok s \<sigma>" and c: "common_ok s \<sigma> q" and o: "ord \<in> set (all_orders s)"
    and w: "\<And>d. slot (thoughts q) ord = Some d \<Longrightarrow> list_all (safe_write (n_suits s) (\<sigma> ord)) (f d)"
  shows "\<exists>r. with_thoughts q ord f True = Inr r \<and> common_ok s \<sigma> r"
proof -
  have v: "view_ok s \<sigma> q" "patches_safe (n_suits s) \<sigma> q" using c by (simp_all add: common_ok_def)
  obtain d where d: "slot (thoughts q) ord = Some d" "fits (n_suits s) d (\<sigma> ord)"
    using view_okD(1) [OF v(1)] o by (auto simp: knows_def)
  obtain d' pp where r: "with_thoughts q ord f True = Inr (q\<lparr>thoughts := put (thoughts q) ord d', patches := pp\<rparr>)"
      "fits (n_suits s) d' (\<sigma> ord)"
      "patches_safe (n_suits s) \<sigma> (q\<lparr>thoughts := put (thoughts q) ord d', patches := pp\<rparr>)"
      "fst ` set pp \<subseteq> insert ord (fst ` set (patches q))"
    using with_thoughts_fits [where \<sigma> = \<sigma> and f = f, OF d truth_okD(4) [OF t o] w [OF d(1)] v(2)] by blast
  have "view_ok s \<sigma> (q\<lparr>thoughts := put (thoughts q) ord d'\<rparr>)" using v(1) r(2) by (rule view_put)
  then have "view_ok s \<sigma> ((q\<lparr>thoughts := put (thoughts q) ord d'\<rparr>)\<lparr>patches := pp\<rparr>)" by (simp only: view_patches)
  then show ?thesis using r c o by (auto simp: common_ok_def)
qed

lemma clue_orders_ok:
  assumes t: "truth_ok s \<sigma>" and com: "view_ok s \<sigma> com" and q: "common_ok s \<sigma> com" and a: "clue_true s \<sigma> a"
  shows "\<exists>r. foldR (clue_order a s com (Ids (find_possibilities (ca_clue a) (variant s)))) com (hands s ! ca_target a) = Inr r \<and>
    common_ok s \<sigma> r"
proof (rule foldR_total [where P = "common_ok s \<sigma>"])
  show "common_ok s \<sigma> com" by (rule q)
  fix q ord assume o: "ord \<in> set (hands s ! ca_target a)" and q: "common_ok s \<sigma> q"
  have o2: "ord \<in> set (all_orders s)"
    using o a truth_okD(2) [OF t] by (auto simp: clue_true_def intro: in_hand_all_orders)
  obtain c where c: "slot (thoughts com) ord = Some c" "fits (n_suits s) c (\<sigma> ord)"
    using view_okD(1) [OF com] o2 by (auto simp: knows_def)
  have "ord \<in> set (ca_list a) \<longleftrightarrow> card_touched (\<sigma> ord) (variant s) (ca_clue a)" using a o by (simp add: clue_true_def)
  note w = clue_writes_safe [where \<sigma> = \<sigma> and ord = ord, OF c(2) truth_okD(4) [OF t o2] this]
  show "\<exists>r. clue_order a s com (Ids (find_possibilities (ca_clue a) (variant s))) q ord = Inr r \<and> common_ok s \<sigma> r"
    using common_write_ok [OF t q o2 w] by (simp add: clue_order_def c(1))
qed

text \<open>What follows the write to common knowledge: the eliminations and the update of the players.\<close>

lemma common_known:
  assumes t: "truth_ok s \<sigma>" and com: "view_ok s \<sigma> com" "fst ` set (patches com) \<subseteq> set (all_orders s)"
    and p: "view_ok s \<sigma> p"
  shows "patches_known (n_suits s) \<sigma> com p"
  using com(2) view_okD(1) [OF com(1)] view_okD(1) [OF p] truth_okD(4) [OF t]
  unfolding patches_known_def knows_def by blast

lemma patches_safe_cong: "patches q = patches p \<Longrightarrow> patches_safe n \<sigma> q = patches_safe n \<sigma> p"
  by (simp add: patches_safe_def)

theorem on_clue_ok:
  assumes g: "game_ok g \<sigma>" and a: "clue_true (g_state g) \<sigma> a"
  shows "\<exists>g'. on_clue g a = Inr g' \<and> game_ok g' \<sigma> \<and> hands (g_state g') = hands (g_state g) \<and>
    clue_tokens (g_state g') = clue_tokens (g_state g) - 1"
proof -
  let ?s = "g_state g" and ?com = "common g"
  have t: "truth_ok ?s \<sigma>" and st: "stacks_ok ?s" and ps: "\<forall>p \<in> set (g_players g). view_ok ?s \<sigma> p"
    and len: "length (g_players g) = num_players ?s" and vc: "view_ok ?s \<sigma> ?com"
    and pc: "common_ok ?s \<sigma> ?com"
    using g by (simp_all add: game_ok_def common_ok_def patches_safe_def)
  have "slot (deck ?s) ord \<noteq> None" if "ord \<in> set (ca_list a)" for ord
  proof -
    have "ord \<in> set (all_orders ?s)"
      using that a truth_okD(2) [OF t] by (auto simp: clue_true_def intro: in_hand_all_orders)
    then show ?thesis using t by (auto simp: truth_ok_def)
  qed
  then obtain s1 where s1: "foldR (\<lambda>s' ord. update_deck (touch_actual (clue_entry a (turn_count ?s))) ord s') ?s (ca_list a) = Inr s1"
      "same_board ?s s1"
    using update_decks_board [of "\<lambda>_. touch_actual (clue_entry a (turn_count ?s))", OF touch_actual_raw] by blast
  obtain c0 where c0: "foldR (clue_order a ?s ?com (Ids (find_possibilities (ca_clue a) (variant ?s)))) ?com
        (hands ?s ! ca_target a) = Inr c0" "common_ok ?s \<sigma> c0"
    using clue_orders_ok [OF t vc pc a] by blast
  define s2 where "s2 = s1\<lparr>endgame_turns := (if endgame_turns s1 \<noteq> -1 then endgame_turns s1 - 1 else -1),
                    clue_tokens := clue_tokens s1 - 1\<rparr>"
  have b2: "same_board ?s s2" using s1(2) by (simp add: s2_def same_board_def)
  have t1: "truth_ok s1 \<sigma>" and t2: "truth_ok s2 \<sigma>" using same_board_truth t s1(2) b2 by blast+
  have v0: "view_ok s1 \<sigma> c0" using c0(2) by (simp add: common_ok_def same_board_view [OF s1(2)])
  obtain c1 where c1: "card_elim c0 s1 = Inr c1" "view_ok s1 \<sigma> c1" "keeps s1 c0 c1" using view_card_elim [OF t1 v0] by blast
  obtain c2 where c2: "(if good_touch g then good_touch_elim c1 s1 False else Inr c1) = Inr c2" "view_ok s1 \<sigma> c2" "keeps s1 c1 c2"
    using view_good_touch [OF t1 c1(2)] c1(2) by (cases "good_touch g") (fastforce simp: keeps_def)+
  have v2: "view_ok s2 \<sigma> c2" using c2(2) by (simp add: same_board_view [OF s1(2)] same_board_view [OF b2])
  obtain c3 where c3: "refresh_links c2 s2 = Inr c3" "view_ok s2 \<sigma> c3" "keeps s2 c2 c3" using view_refresh [OF v2] by blast
  have pt: "patches c3 = patches c0" using c1(3) c2(3) c3(3) by (simp add: keeps_def)
  let ?g = "g\<lparr>g_state := s2, common := c3\<rparr>"
  have vp: "view_ok s2 \<sigma> p" if "p \<in> set (g_players g)" for p using ps that by (simp add: same_board_view [OF b2])
  have keys: "fst ` set (patches c3) \<subseteq> set (all_orders s2)"
    using c0(2) by (simp add: pt common_ok_def same_boardD [OF b2])
  have safe: "patches_safe (n_suits s2) \<sigma> c3"
    using c0(2) patches_safe_cong [OF pt] by (simp add: common_ok_def same_boardD [OF b2])
  obtain g' where g': "team_elim ?g = Inr g'" "game_ok g' \<sigma>" "g_state g' = s2"
  proof -
    have "\<exists>g'. team_elim ?g = Inr g' \<and> game_ok g' \<sigma> \<and> g_state g' = g_state ?g \<and> deck_ids g' = deck_ids ?g"
      by (rule team_elim_ok)
        (use t2 st len vp c3(2) safe common_known [OF t2 c3(2) keys] in \<open>simp_all add: same_boardD [OF b2]\<close>)
    then show ?thesis using that by auto
  qed
  have "clue_tokens s1 = clue_tokens ?s"
    by (rule foldR_inv [OF s1(1), where P = "\<lambda>u. clue_tokens u = clue_tokens ?s"])
      (auto simp: update_deck_def result_simps)
  moreover have "on_clue g a = Inr g'"
    using s1(1) c0(1) c1(1) c2(1) c3(1) g'(1) unfolding s2_def by (simp add: on_clue_def Let_def)
  ultimately show ?thesis using g' same_boardD(5) [OF b2] by (simp add: s2_def)
qed

section \<open>A card leaves a hand\<close>

lemma concat_remove1:
  assumes "distinct (concat xss)" "k < length xss" "x \<in> set (xss ! k)"
  shows "set (concat (xss[k := remove1 x (xss ! k)])) = set (concat xss) - {x}"
    and "distinct (concat (xss[k := remove1 x (xss ! k)]))"
proof -
  have "set (concat (xss[k := remove1 x (xss ! k)])) = set (concat xss) - {x} \<and>
      distinct (concat (xss[k := remove1 x (xss ! k)]))"
    using assms
  proof (induction xss arbitrary: k)
    case (Cons xs xss)
    show ?case
    proof (cases k)
      case 0
      have "x \<notin> set (concat xss)" using Cons.prems 0 by auto
      then show ?thesis using Cons.prems 0 by (auto simp: set_remove1_eq distinct_remove1)
    next
      case (Suc j)
      have j: "j < length xss" "x \<in> set (xss ! j)" using Cons.prems Suc by simp_all
      then have "x \<in> set (concat xss)" by auto
      then have "x \<notin> set xs" using Cons.prems(1) by auto
      moreover have "set (concat (xss[j := remove1 x (xss ! j)])) = set (concat xss) - {x}"
          "distinct (concat (xss[j := remove1 x (xss ! j)]))"
        using Cons.IH [OF _ j] Cons.prems(1) by simp_all
      moreover have "set xs \<inter> set (concat xss) = {}" using Cons.prems(1) by simp
      ultimately show ?thesis using Cons.prems(1) Suc by auto
    qed
  qed simp
  then show "set (concat (xss[k := remove1 x (xss ! k)])) = set (concat xss) - {x}"
    and "distinct (concat (xss[k := remove1 x (xss ! k)]))" by blast+
qed

text \<open>The card \<open>ord\<close> of player \<open>pl\<close> has left: one copy of its identity has moved from a hand to the stacks.\<close>

definition card_left :: "game_state \<Rightarrow> truth \<Rightarrow> nat \<Rightarrow> nat \<Rightarrow> game_state \<Rightarrow> bool" where
  "card_left s \<sigma> pl ord s' \<longleftrightarrow> variant s' = variant s \<and> num_players s' = num_players s \<and>
     card_counts s' = card_counts s \<and> tables_ok s' \<and>
     hands s' = (hands s)[pl := remove1 ord (hands s ! pl)] \<and>
     (\<forall>o2. o2 \<noteq> ord \<longrightarrow> slot (deck s') o2 = slot (deck s) o2) \<and>
     (\<forall>i :: basic_card. in_deck s i \<longrightarrow> base_count s' i = base_count s i + (if i = \<sigma> ord then 1 else 0))"

lemma card_left_orders:
  assumes "truth_ok s \<sigma>" "card_left s \<sigma> pl ord s'" "pl < num_players s" "ord \<in> set (hands s ! pl)"
  shows "set (all_orders s') = set (all_orders s) - {ord}" "distinct (all_orders s')"
  using concat_remove1 [of "hands s" pl ord] assms truth_okD(2,3) [OF assms(1)]
  by (simp_all add: card_left_def all_orders_def)

lemma card_left_copies:
  assumes t: "truth_ok s \<sigma>" and l: "card_left s \<sigma> pl ord s'" and o: "pl < num_players s" "ord \<in> set (hands s ! pl)"
  shows "int (card (copies s' \<sigma> i)) = int (card (copies s \<sigma> i)) - (if i = \<sigma> ord then 1 else 0)"
proof (cases "i = \<sigma> ord")
  case True
  have m: "ord \<in> copies s \<sigma> i"
    using o True truth_okD(2) [OF t] by (auto simp: copies_def intro: in_hand_all_orders)
  have "copies s' \<sigma> i = copies s \<sigma> i - {ord}" using card_left_orders(1) [OF t l o] by (auto simp: copies_def)
  moreover have "0 < card (copies s \<sigma> i)" using m by (auto simp: card_gt_0_iff)
  ultimately show ?thesis using m True by simp
next
  case False
  then have "copies s' \<sigma> i = copies s \<sigma> i" using card_left_orders(1) [OF t l o] by (auto simp: copies_def)
  with False show ?thesis by simp
qed

lemma card_left_total: "card_left s \<sigma> pl ord s' \<Longrightarrow> total_count s' (i :: basic_card) = total_count s i"
  by (simp add: card_left_def total_count_def)

lemma card_left_truth:
  assumes t: "truth_ok s \<sigma>" and l: "card_left s \<sigma> pl ord s'" and o: "pl < num_players s" "ord \<in> set (hands s ! pl)"
  shows "truth_ok s' \<sigma>"
proof -
  note os = card_left_orders [OF t l o]
  have d: "\<exists>d. slot (deck s') o2 = Some d \<and> (basic_identity d = None \<or> basic_identity d = Some (\<sigma> o2))"
    if "o2 \<in> set (all_orders s')" for o2
    using that os(1) t l by (auto simp: truth_ok_def card_left_def)
  have "base_count s' i + int (card (copies s' \<sigma> i)) \<le> total_count s' i" if "in_deck s i" for i :: basic_card
  proof -
    have "base_count s' i = base_count s i + (if i = \<sigma> ord then 1 else 0)" using l that by (simp add: card_left_def)
    with truth_okD(5) [OF t that] card_left_copies [OF t l o, of i] show ?thesis
      by (cases "i = \<sigma> ord") (simp_all add: card_left_total [OF l])
  qed
  then show ?thesis using t l d os by (simp add: truth_ok_def card_left_def)
qed

lemma card_left_exhausted:
  assumes t: "truth_ok s \<sigma>" and l: "card_left s \<sigma> pl ord s'" and o: "pl < num_players s" "ord \<in> set (hands s ! pl)"
    and i: "in_deck s i"
  shows "exhausted s' \<sigma> i = exhausted s \<sigma> i"
  using card_left_copies [OF t l o, of i] l i by (auto simp: exhausted_def card_left_total [OF l]) (auto simp: card_left_def)

lemma card_left_view:
  assumes t: "truth_ok s \<sigma>" and l: "card_left s \<sigma> pl ord s'" and o: "pl < num_players s" "ord \<in> set (hands s ! pl)"
    and v: "view_ok s \<sigma> p"
  shows "view_ok s' \<sigma> p"
proof -
  have e: "n_suits s' = n_suits s" "length (hands s') = length (hands s)" using l by (simp_all add: card_left_def)
  have "knows p s' \<sigma>" using v card_left_orders(1) [OF t l o] by (auto simp: view_ok_def knows_def e)
  moreover have "exhausted s' \<sigma> i" if "in_deck s i" "\<not> iset_has (all_possible p) i" for i :: basic_card
    using card_left_exhausted [OF t l o that(1)] v that by (simp add: view_ok_def)
  ultimately show ?thesis using v by (simp add: view_ok_def e)
qed

text \<open>The card is revealed to everyone.\<close>

lemma reveal_safe:
  assumes "fits n c i" "valid_id n i"
  shows "list_all (safe_write n i) (reveal_writes i c)"
  using assms iset_has_intersect [of n "possible c" "AnId i" i]
  by (auto simp: reveal_writes_def fits_def card_okD)

lemma card_leaves_ok:
  assumes g: "game_ok g \<sigma>" and l: "card_left (g_state g) \<sigma> pl ord s'"
    and o: "pl < num_players (g_state g)" "ord \<in> set (hands (g_state g) ! pl)" and st: "stacks_ok s'"
    and a: "act_order a = ord" "act_id a = \<sigma> ord" and len: "ord < length (deck_ids g)"
  shows "\<exists>g'. card_leaves g a s' = Inr g' \<and> game_ok g' \<sigma> \<and> g_state g' = s' \<and> deck_ids g' = put (deck_ids g) ord (\<sigma> ord)"
proof -
  let ?s = "g_state g" and ?com = "common g"
  have t: "truth_ok ?s \<sigma>" and ps: "\<forall>p \<in> set (g_players g). view_ok ?s \<sigma> p"
    and gl: "length (g_players g) = num_players ?s" and pc: "common_ok ?s \<sigma> ?com" and np: "patches ?com = []"
    using g by (simp_all add: game_ok_def common_ok_def patches_safe_def)
  have oo: "ord \<in> set (all_orders ?s)" using o truth_okD(2) [OF t] by (auto intro: in_hand_all_orders)
  have id: "in_deck ?s (\<sigma> ord)" using truth_okD(4) [OF t oo] .
  have known: "known_action a"
    using valid_known [OF id [folded a(2)]] by (simp add: known_action_def act_id_def)
  have w: "list_all (safe_write (n_suits ?s) (\<sigma> ord)) (reveal_writes (\<sigma> ord) d)" if "slot (thoughts ?com) ord = Some d" for d
  proof -
    have "fits (n_suits ?s) d (\<sigma> ord)" using pc oo that by (auto simp: common_ok_def view_ok_def knows_def)
    then show ?thesis using id by (rule reveal_safe)
  qed
  obtain c0 where c0: "with_thoughts ?com ord (reveal_writes (\<sigma> ord)) True = Inr c0" "common_ok ?s \<sigma> c0"
    using common_write_ok [where f = "reveal_writes (\<sigma> ord)", OF t pc oo w] by blast
  have key: "fst ` set (patches c0) \<subseteq> {ord}"
    using c0(1) np by (auto simp: with_thoughts_def result_simps split: option.splits prod.splits if_splits)
  have e: "n_suits s' = n_suits ?s" "num_players s' = num_players ?s" using l by (simp_all add: card_left_def)
  note lv = card_left_view [OF t l o]
  have t': "truth_ok s' \<sigma>" by (rule card_left_truth [OF t l o])
  have v0: "view_ok s' \<sigma> c0" using c0(2) lv by (simp add: common_ok_def)
  obtain c1 where c1: "elim_common (good_touch g) s' s' c0 = Inr c1" "view_ok s' \<sigma> c1" "keeps s' c0 c1"
    using elim_common_ok [OF t' v0] by blast
  obtain d0 where d0: "slot (thoughts c0) ord = Some d0" "fits (n_suits s') d0 (\<sigma> ord)"
    using c0(2) oo by (auto simp: common_ok_def view_ok_def knows_def e)
  have out: "ord \<notin> set (all_orders s')" using card_left_orders(1) [OF t l o] by simp
  then obtain d1 where d1: "slot (thoughts c1) ord = Some d1" "fits (n_suits s') d1 (\<sigma> ord)"
    using c1(3) d0 unfolding keeps_def by blast
  have pt: "patches c1 = patches c0" using c1(3) by (simp add: keeps_def)
  have kn: "patches_known (n_suits s') \<sigma> c1 p" if vp: "view_ok ?s \<sigma> p" for p
  proof -
    obtain x where "slot (thoughts p) ord = Some x" "fits (n_suits s') x (\<sigma> ord)"
      using vp oo by (auto simp: view_ok_def knows_def e)
    then show ?thesis using key d1 id by (auto simp: patches_known_def pt e)
  qed
  let ?g = "g\<lparr>deck_ids := put (deck_ids g) ord (\<sigma> ord), common := c1, g_state := s'\<rparr>"
  have "\<exists>g'. team_elim ?g = Inr g' \<and> game_ok g' \<sigma> \<and> g_state g' = g_state ?g \<and> deck_ids g' = deck_ids ?g"
    by (rule team_elim_ok)
      (use t' st gl e ps lv c1(2) kn c0(2) patches_safe_cong [OF pt] in \<open>simp_all add: common_ok_def\<close>)
  then show ?thesis using c0(1) c1(1) a known len
    by (auto simp: card_leaves_def with_at_def put_def)
qed

section \<open>Discards and plays\<close>

text \<open>A known card leaves the hand of its holder.\<close>

definition leaves_true :: "game_state \<Rightarrow> truth \<Rightarrow> card_action \<Rightarrow> bool" where
  "leaves_true s \<sigma> a \<longleftrightarrow> act_player a < num_players s \<and> act_order a \<in> set (hands s ! act_player a) \<and>
     act_id a = \<sigma> (act_order a)"

lemma leaves_trueD:
  assumes t: "truth_ok s \<sigma>" and a: "leaves_true s \<sigma> a"
  shows "act_order a \<in> set (all_orders s)" "in_deck s (\<sigma> (act_order a))" "known_action a"
    "\<exists>d. slot (deck s) (act_order a) = Some d"
proof -
  show o: "act_order a \<in> set (all_orders s)" using a truth_okD(2) [OF t] by (auto simp: leaves_true_def intro: in_hand_all_orders)
  show i: "in_deck s (\<sigma> (act_order a))" using truth_okD(4) [OF t o] .
  then have "in_deck s (act_id a)" using a by (simp add: leaves_true_def)
  from valid_known [OF this] show "known_action a" by (simp add: known_action_def act_id_def)
  show "\<exists>d. slot (deck s) (act_order a) = Some d" using t o by (auto simp: truth_ok_def)
qed

lemma remove_order_hands:
  "leaves_true s \<sigma> a \<Longrightarrow> hands (remove_from_hand (act_player a) (act_order a) s) =
    (hands s)[act_player a := remove1 (act_order a) (hands s ! act_player a)]"
  by (simp add: remove_from_hand_def leaves_true_def splice_index_of)

lemma bump_discard_nth:
  assumes "nat (suit_index i) < length ds" "nat (rank i - 1) < length (ds ! nat (suit_index i))"
  shows "bump_discard ds i ! x ! y =
    ds ! x ! y + (if x = nat (suit_index i) \<and> y = nat (rank i - 1) then 1 else 0)"
  using assms by (auto simp: bump_discard_def nth_list_update)

lemma nat_id_eq:
  assumes "valid_id n i" "valid_id n (j :: basic_card)"
  shows "nat (suit_index j) = nat (suit_index i) \<and> nat (rank j - 1) = nat (rank i - 1) \<longleftrightarrow> j = (i :: basic_card)"
  using assms raw_eq_iff [of j i] by (auto simp: valid_id_def)

lemma bump_discard_rows:
  "length (bump_discard ds i) = length ds"
  "list_all (\<lambda>row. length row = 5) ds \<Longrightarrow> list_all (\<lambda>row. length row = 5) (bump_discard ds i)"
  by (auto simp: bump_discard_def list_all_length) (metis length_list_update nth_list_update_eq nth_list_update_neq)

lemma list_all_write: "list_all P xs \<Longrightarrow> P v \<Longrightarrow> list_all P (xs[k := v])"
  by (auto simp: list_all_iff dest!: set_update_subset_insert [THEN subsetD])

lemma sum_list_write: "k < length xs \<Longrightarrow> sum_list (xs[k := v]) = sum_list xs - xs ! k + (v :: int)"
proof (induction xs arbitrary: k)
  case (Cons x xs)
  then show ?case by (cases k) auto
qed simp

lemma list_all2_write:
  assumes "list_all2 P xs ys" "k < length xs"
  shows "P v (ys ! k) \<Longrightarrow> list_all2 P (xs[k := v]) ys" "P (xs ! k) v \<Longrightarrow> list_all2 P xs (ys[k := v])"
  using assms by (auto simp: list_all2_conv_all_nth nth_list_update)

lemma discard_state_ok:
  assumes t: "truth_ok s \<sigma>" and st: "stacks_ok s" and a: "leaves_true s \<sigma> a"
  shows "\<exists>s'. discard_state_of s a failed = Inr s' \<and> card_left s \<sigma> (act_player a) (act_order a) s' \<and> stacks_ok s'"
proof -
  let ?ord = "act_order a" and ?i = "\<sigma> (act_order a)"
  note l = leaves_trueD [OF t a]
  have id: "act_id a = ?i" using a by (simp add: leaves_true_def)
  obtain d where d: "slot (deck s) ?ord = Some d" using l(4) by blast
  let ?ds = "bump_discard (discard_stacks s) ?i"
  define full where "full \<longleftrightarrow> ?ds ! nat (suit_index ?i) ! nat (rank ?i - 1) = total_count s ?i"
  define mr where "mr = (if full then (max_ranks s)[nat (suit_index ?i) := min (max_rank_of s ?i) (rank ?i - 1)] else max_ranks s)"
  define s' where "s' = (remove_from_hand (act_player a) ?ord s)\<lparr>deck := put (deck s) ?ord (know_card ?i d),
      discard_stacks := ?ds, max_ranks := mr,
      endgame_turns := (if endgame_turns s \<noteq> -1 then endgame_turns s - 1 else -1),
      strikes := (if failed then strikes s + 1 else strikes s),
      clue_tokens := (if failed then clue_tokens s else min (clue_tokens s + 1) 8)\<rparr>"
  have r: "discard_state_of s a failed = Inr s'"
    using l(3) d by (simp add: discard_state_of_def update_deck_def remove_from_hand_def id s'_def mr_def full_def total_count_def max_rank_of_def Let_def)
  have tab: "tables_ok s" using truth_okD(1) [OF t] .
  have rows: "nat (suit_index ?i) < length (discard_stacks s)" "nat (rank ?i - 1) < length (discard_stacks s ! nat (suit_index ?i))"
    using tab valid_nat [OF l(2)] by (auto simp: tables_ok_def list_all_length)
  have "tables_ok s'"
    using tab bump_discard_rows [of "discard_stacks s" ?i] by (simp add: tables_ok_def s'_def remove_from_hand_def mr_def)
  moreover have base: "base_count s' i = base_count s i + (if i = ?i then 1 else 0)" if i: "in_deck s i" for i :: basic_card
    using valid_known [OF i] nat_id_eq [OF l(2) i]
    by (auto simp: base_count_def discards_of_def stack_of_def bump_discard_nth [OF rows] s'_def remove_from_hand_def)
  ultimately have left: "card_left s \<sigma> (act_player a) ?ord s'"
    using remove_order_hands [OF a] by (simp add: card_left_def s'_def array_simps) (simp add: remove_from_hand_def)
  have below: "stack_of s ?i \<le> rank ?i - 1" if f: full
  proof (rule ccontr)
    assume "\<not> stack_of s ?i \<le> rank ?i - 1"
    then have "base_count s ?i = 1 + discards_of s ?i" using valid_known [OF l(2)] by (simp add: base_count_def)
    moreover have "discards_of s ?i + 1 = total_count s ?i" using f by (simp add: full_def discards_of_def bump_discard_nth [OF rows])
    moreover have "0 < card (copies s \<sigma> ?i)" using l(1) by (auto simp: copies_def card_gt_0_iff)
    ultimately show False using truth_okD(5) [OF t l(2)] by simp
  qed
  have "stacks_ok s'"
  proof -
    have m: "list_all2 (\<lambda>p m. 0 \<le> p \<and> p \<le> m \<and> m \<le> 5) (play_stacks s) (max_ranks s)" using st by (simp add: stacks_ok_def)
    have "list_all2 (\<lambda>p m. 0 \<le> p \<and> p \<le> m \<and> m \<le> 5) (play_stacks s) mr"
    proof (cases full)
      case True
      have "list_all2 (\<lambda>p m. 0 \<le> p \<and> p \<le> m \<and> m \<le> 5) (play_stacks s)
          ((max_ranks s)[nat (suit_index ?i) := min (max_rank_of s ?i) (rank ?i - 1)])"
        by (rule list_all2_write(2) [OF m]) (use below [OF True] stack_bounds [OF tab st l(2)] tab valid_nat [OF l(2)]
            in \<open>auto simp: stack_of_def tables_ok_def\<close>)
      with True show ?thesis by (simp add: mr_def)
    qed (use m in \<open>simp add: mr_def\<close>)
    moreover have "list_all (list_all (\<lambda>k. 0 \<le> k)) ?ds"
    proof -
      have dn: "list_all (list_all (\<lambda>k. 0 \<le> k)) (discard_stacks s)" using st by (simp add: stacks_ok_def)
      then have row: "list_all (\<lambda>k. 0 \<le> k) (discard_stacks s ! nat (suit_index ?i))" using rows(1) by (simp add: list_all_length)
      then have "0 \<le> discard_stacks s ! nat (suit_index ?i) ! nat (rank ?i - 1)" using rows(2) by (simp add: list_all_length)
      then show ?thesis unfolding bump_discard_def by (intro list_all_write dn row) simp
    qed
    ultimately show ?thesis by (simp add: stacks_ok_def s'_def remove_from_hand_def)
  qed
  with r left show ?thesis by blast
qed

lemma play_state_ok:
  assumes t: "truth_ok s \<sigma>" and st: "stacks_ok s" and a: "leaves_true s \<sigma> a"
    and p: "is_playable s (\<sigma> (act_order a))" "\<not> is_basic_trash s (\<sigma> (act_order a))"
  shows "\<exists>s'. play_state s a = Inr s' \<and> card_left s \<sigma> (act_player a) (act_order a) s' \<and> stacks_ok s' \<and> score s' = score s + 1"
proof -
  let ?ord = "act_order a" and ?i = "\<sigma> (act_order a)"
  note l = leaves_trueD [OF t a]
  have id: "act_id a = ?i" using a by (simp add: leaves_true_def)
  have known: "suit_index ?i \<noteq> -1" "rank ?i \<noteq> -1" using valid_known [OF l(2)] by simp_all
  have nxt: "stack_of s ?i + 1 = rank ?i" using p(1) known by (simp add: is_playable_def playable_away_def)
  have reach: "rank ?i \<le> max_rank_of s ?i" using p(2) known by (simp add: is_basic_trash_def)
  obtain d where d: "slot (deck s) ?ord = Some d" using l(4) by blast
  define s' where "s' = (remove_from_hand (act_player a) ?ord s)\<lparr>deck := put (deck s) ?ord (know_card ?i d),
      play_stacks := (play_stacks s)[nat (suit_index ?i) := rank ?i],
      endgame_turns := (if endgame_turns s \<noteq> -1 then endgame_turns s - 1 else -1),
      clue_tokens := (if act_rank a = 5 \<and> clue_tokens s < 8 then clue_tokens s + 1 else clue_tokens s)\<rparr>"
  have r: "play_state s a = Inr s'"
    using l(3) d by (simp add: play_state_def update_deck_def remove_from_hand_def id s'_def Let_def)
  have tab: "tables_ok s" using truth_okD(1) [OF t] .
  have len: "nat (suit_index ?i) < length (play_stacks s)" using tab valid_nat [OF l(2)] by (simp add: tables_ok_def)
  have "tables_ok s'" using tab by (simp add: tables_ok_def s'_def remove_from_hand_def)
  moreover have "base_count s' i = base_count s i + (if i = ?i then 1 else 0)" if i: "in_deck s i" for i :: basic_card
  proof (cases "nat (suit_index i) = nat (suit_index ?i)")
    case True
    then have same: "suit_index i = suit_index ?i" using i l(2) by (auto simp: valid_id_def)
    have "i = ?i \<longleftrightarrow> rank i = rank ?i" using same raw_eq_iff [of i ?i] by auto
    then show ?thesis using valid_known [OF i] True nxt len
      by (auto simp: base_count_def discards_of_def stack_of_def s'_def remove_from_hand_def)
  next
    case False
    then have "i \<noteq> ?i" by auto
    with False show ?thesis using valid_known [OF i]
      by (auto simp: base_count_def discards_of_def stack_of_def s'_def remove_from_hand_def)
  qed
  ultimately have left: "card_left s \<sigma> (act_player a) ?ord s'"
    using remove_order_hands [OF a] by (simp add: card_left_def s'_def array_simps) (simp add: remove_from_hand_def)
  have m5: "max_rank_of s ?i \<le> 5" using stack_bounds [OF tab st l(2)] by simp
  have "list_all2 (\<lambda>p m. 0 \<le> p \<and> p \<le> m \<and> m \<le> 5) (play_stacks s) (max_ranks s)" using st by (simp add: stacks_ok_def)
  then have "list_all2 (\<lambda>p m. 0 \<le> p \<and> p \<le> m \<and> m \<le> 5) ((play_stacks s)[nat (suit_index ?i) := rank ?i]) (max_ranks s)"
    by (rule list_all2_write(1)) (use nxt reach len l(2) m5 in \<open>auto simp: max_rank_of_def valid_id_def\<close>)
  then have "stacks_ok s'" using st by (simp add: stacks_ok_def s'_def remove_from_hand_def)
  moreover have "score s' = score s + 1"
    using len nxt by (simp add: remove_from_hand_def score_def s'_def sum_list_write stack_of_def)
  ultimately show ?thesis using r left by blast
qed

theorem on_discard_ok:
  assumes g: "game_ok g \<sigma>" and a: "leaves_true (g_state g) \<sigma> a" and len: "act_order a < length (deck_ids g)"
  shows "\<exists>g'. on_discard g a failed = Inr g' \<and> game_ok g' \<sigma> \<and> deck_ids g' = put (deck_ids g) (act_order a) (\<sigma> (act_order a))"
proof -
  have t: "truth_ok (g_state g) \<sigma>" "stacks_ok (g_state g)" using g by (simp_all add: game_ok_def)
  obtain s' where s': "discard_state_of (g_state g) a failed = Inr s'"
      "card_left (g_state g) \<sigma> (act_player a) (act_order a) s'" "stacks_ok s'"
    using discard_state_ok [OF t a] by blast
  from a card_leaves_ok [OF g s'(2) _ _ s'(3) refl _ len] s'(1) show ?thesis
    by (auto simp: on_discard_def leaves_true_def)
qed

theorem on_play_ok:
  assumes g: "game_ok g \<sigma>" and a: "leaves_true (g_state g) \<sigma> a" and len: "act_order a < length (deck_ids g)"
    and p: "is_playable (g_state g) (\<sigma> (act_order a))" "\<not> is_basic_trash (g_state g) (\<sigma> (act_order a))"
  shows "\<exists>g'. on_play g a = Inr g' \<and> game_ok g' \<sigma> \<and> deck_ids g' = put (deck_ids g) (act_order a) (\<sigma> (act_order a)) \<and>
    score (g_state g') = score (g_state g) + 1"
proof -
  have t: "truth_ok (g_state g) \<sigma>" "stacks_ok (g_state g)" using g by (simp_all add: game_ok_def)
  obtain s' where s': "play_state (g_state g) a = Inr s'" "card_left (g_state g) \<sigma> (act_player a) (act_order a) s'"
      "stacks_ok s'" "score s' = score (g_state g) + 1"
    using play_state_ok [OF t a p] by blast
  from a card_leaves_ok [OF g s'(2) _ _ s'(3) refl _ len] s'(1,4) show ?thesis
    by (auto simp: on_play_def leaves_true_def)
qed

section \<open>Draws\<close>

definition draw_true :: "game \<Rightarrow> truth \<Rightarrow> card_action \<Rightarrow> bool" where
  "draw_true g \<sigma> a \<longleftrightarrow> (let s = g_state g; ord = act_order a in
     act_player a < num_players s \<and> ord \<notin> set (all_orders s) \<and> ord < length (deck_ids g) \<and>
     int (length (hands s ! act_player a)) \<le> hand_size s \<and>
     in_deck s (\<sigma> ord) \<and> base_count s (\<sigma> ord) + int (card (copies s \<sigma> (\<sigma> ord))) < total_count s (\<sigma> ord) \<and>
     (act_suit a = -1 \<and> act_rank a = -1 \<or> act_id a = \<sigma> ord) \<and>
     (slot (deck_ids g) ord = None \<or> slot (deck_ids g) ord = Some (\<sigma> ord)))"

lemma mset_concat_insert: "k < length xss \<Longrightarrow> mset (concat (xss[k := x # xss ! k])) = mset (x # concat xss)"
proof (induction xss arbitrary: k)
  case (Cons xs xss)
  then show ?case by (cases k) auto
qed simp

text \<open>The state after the draw: one more order, one more copy of its identity out.\<close>

lemma draw_orders:
  assumes t: "truth_ok (g_state g) \<sigma>" and a: "draw_true g \<sigma> a"
  shows "set (all_orders (draw_state g a)) = insert (act_order a) (set (all_orders (g_state g)))"
    "distinct (all_orders (draw_state g a))"
proof -
  have "mset (all_orders (draw_state g a)) = mset (act_order a # all_orders (g_state g))"
    using a truth_okD(2) [OF t] mset_concat_insert [of "act_player a" "hands (g_state g)" "act_order a"]
    by (simp add: draw_state_def Let_def all_orders_def draw_true_def)
  from mset_eq_setD [OF this] mset_eq_imp_distinct_iff [OF this]
  show "set (all_orders (draw_state g a)) = insert (act_order a) (set (all_orders (g_state g)))"
    "distinct (all_orders (draw_state g a))"
    using a truth_okD(3) [OF t] by (simp_all add: draw_true_def Let_def)
qed

lemma draw_same:
  "n_suits (draw_state g a) = n_suits (g_state g)" "num_players (draw_state g a) = num_players (g_state g)"
  "length (hands (draw_state g a)) = length (hands (g_state g))" "tables_ok (draw_state g a) = tables_ok (g_state g)"
  "stacks_ok (draw_state g a) = stacks_ok (g_state g)"
  "base_count (draw_state g a) (i :: basic_card) = base_count (g_state g) i"
  "total_count (draw_state g a) (i :: basic_card) = total_count (g_state g) i"
  by (simp_all add: draw_state_def Let_def tables_ok_def stacks_ok_def base_count_def total_count_def stack_of_def discards_of_def)

lemma draw_copies:
  assumes t: "truth_ok (g_state g) \<sigma>" and a: "draw_true g \<sigma> a"
  shows "card (copies (draw_state g a) \<sigma> i) = card (copies (g_state g) \<sigma> i) + (if i = \<sigma> (act_order a) then 1 else 0)"
proof -
  have "copies (draw_state g a) \<sigma> i =
      (if i = \<sigma> (act_order a) then insert (act_order a) (copies (g_state g) \<sigma> i) else copies (g_state g) \<sigma> i)"
    using draw_orders(1) [OF t a] by (auto simp: copies_def)
  moreover have "act_order a \<notin> copies (g_state g) \<sigma> i" using a by (simp add: draw_true_def Let_def copies_def)
  ultimately show ?thesis by (cases "i = \<sigma> (act_order a)") auto
qed

lemma draw_deck:
  assumes a: "draw_true g \<sigma> a"
  shows "slot (deck (draw_state g a)) ord = (if ord = act_order a then
      Some (case slot (deck_ids g) ord of Some i \<Rightarrow> new_actual (suit_index (\<sigma> ord)) (rank (\<sigma> ord)) ord (turn_count (g_state g))
        | None \<Rightarrow> new_actual (act_suit a) (act_rank a) ord (turn_count (g_state g)))
    else slot (deck (g_state g)) ord)"
  using a by (auto simp: draw_state_def Let_def array_simps draw_true_def)

lemma shown_id:
  assumes "draw_true g \<sigma> a"
  shows "act_suit a = -1 \<and> act_rank a = -1 \<or> act_suit a = suit_index (\<sigma> (act_order a)) \<and> act_rank a = rank (\<sigma> (act_order a))"
  using assms by (auto simp: draw_true_def Let_def act_id_def dest: sym)

lemma draw_truth:
  assumes t: "truth_ok (g_state g) \<sigma>" and a: "draw_true g \<sigma> a"
  shows "truth_ok (draw_state g a) \<sigma>"
proof -
  let ?s = "g_state g" and ?t = "draw_state g a" and ?o = "act_order a"
  have d: "in_deck ?s (\<sigma> ord) \<and> (\<exists>d. slot (deck ?t) ord = Some d \<and> (basic_identity d = None \<or> basic_identity d = Some (\<sigma> ord)))"
    if "ord \<in> set (all_orders ?t)" for ord
  proof (cases "ord = ?o")
    case True
    then show ?thesis using a shown_id [OF a]
      by (auto simp: draw_deck [OF a] draw_true_def Let_def basic_identity_def new_actual_def raw_eq_iff mk_id_def
          split: option.splits)
  next
    case False
    then show ?thesis using that t by (auto simp: draw_deck [OF a] draw_orders(1) [OF t a] truth_ok_def)
  qed
  have "base_count ?t i + int (card (copies ?t \<sigma> i)) \<le> total_count ?t i" if "in_deck ?s i" for i :: basic_card
    using truth_okD(5) [OF t that] a by (auto simp: draw_same draw_copies [OF t a] draw_true_def Let_def)
  then show ?thesis using t d draw_orders(2) [OF t a] by (simp add: truth_ok_def draw_same)
qed

text \<open>A player thinks of the new card as whatever it thinks is left, and of what it sees.\<close>

lemma draw_view:
  assumes t: "truth_ok (g_state g) \<sigma>" and a: "draw_true g \<sigma> a" and v: "view_ok (g_state g) \<sigma> p"
    and c: "\<exists>suit r. (suit = -1 \<and> r = -1 \<or> suit = act_suit a \<and> r = act_rank a) \<and> c = drawn_card p suit r (act_order a) turn"
  shows "view_ok (draw_state g a) \<sigma> (p\<lparr>thoughts := put (thoughts p) (act_order a) c\<rparr>)"
proof -
  let ?s = "g_state g" and ?t = "draw_state g a" and ?o = "act_order a" and ?n = "n_suits (g_state g)"
  have id: "in_deck ?s (\<sigma> ?o)" using a by (simp add: draw_true_def Let_def)
  have "\<not> exhausted ?s \<sigma> (\<sigma> ?o)" using a by (simp add: draw_true_def Let_def exhausted_def)
  then have has: "iset_has (all_possible p) (\<sigma> ?o)" using v id by (auto simp: view_ok_def)
  obtain suit r where c: "suit = -1 \<and> r = -1 \<or> suit = suit_index (\<sigma> ?o) \<and> r = rank (\<sigma> ?o)" "c = drawn_card p suit r ?o turn"
    using c shown_id [OF a] by auto
  have "valid_id ?n c" if "suit_index c \<noteq> -1" "rank c \<noteq> -1"
    using that c id by (auto simp: drawn_card_def new_card_def valid_id_def)
  then have fit: "fits ?n c (\<sigma> ?o)"
    using c has view_okD(4) [OF v] by (auto simp: fits_def card_ok_def drawn_card_def new_card_def single_def)
  let ?p = "p\<lparr>thoughts := put (thoughts p) ?o c\<rparr>"
  have "knows ?p ?t \<sigma>"
    using v fit by (auto simp: view_ok_def knows_def draw_same draw_orders(1) [OF t a] array_simps)
  moreover have "player_ok ?n ?p"
    using view_put [OF v fit] by (simp add: view_ok_def)
  moreover have "exhausted ?t \<sigma> i" if i: "in_deck ?s i" "\<not> iset_has (all_possible p) i" for i :: basic_card
  proof -
    have "i \<noteq> \<sigma> ?o" using has i(2) by auto
    moreover have "exhausted ?s \<sigma> i" using v i by (simp add: view_ok_def)
    ultimately show ?thesis by (simp add: exhausted_def draw_same draw_copies [OF t a])
  qed
  ultimately show ?thesis using v by (simp add: view_ok_def draw_same)
qed

text \<open>Good touch elimination with the state before the draw leaves the new card alone.\<close>

lemma view_good_touch_before:
  assumes t: "truth_ok s \<sigma>" and v: "view_ok s' \<sigma> p" and n: "n_suits s' = n_suits s"
    and o: "set (all_orders s) \<subseteq> set (all_orders s')"
  shows "\<exists>q. good_touch_elim p s b = Inr q \<and> view_ok s' \<sigma> q \<and> patches q = patches p"
proof -
  have ready: "gt_ready p s"
    using v o t by (fastforce simp: gt_ready_def view_ok_def knows_def fits_def n dest: truth_okD)
  obtain q where q: "good_touch_elim p s b = Inr q" "player_index q = player_index p" "links q = links p"
      "patches q = patches p" "all_possible q = all_possible p" "all_inferred q = all_inferred p"
    and rel: "\<And>ord. ord \<in> set (all_orders s) \<Longrightarrow>
      gt_rel (n_suits s) (card_at p ord) (card_at q ord) \<and> slot (thoughts q) ord \<noteq> None"
    and out: "\<And>ord. ord \<notin> set (all_orders s) \<Longrightarrow> slot (thoughts q) ord = slot (thoughts p) ord"
    using good_touch_elim_total [OF ready truth_okD(3) [OF t] truth_deck_valid [OF t], of b] by auto
  have f: "\<exists>d. slot (thoughts q) ord = Some d \<and> fits (n_suits s) d (\<sigma> ord)" if o': "ord \<in> set (all_orders s')" for ord
  proof -
    obtain c where c: "slot (thoughts p) ord = Some c" "fits (n_suits s) c (\<sigma> ord)"
      using view_okD(1) [OF v] o' by (auto simp: knows_def n)
    show ?thesis
    proof (cases "ord \<in> set (all_orders s)")
      case True
      obtain d where d: "slot (thoughts q) ord = Some d" using rel [OF True] by blast
      with rel [OF True] c have "gt_rel (n_suits s) c d" by (simp add: card_at_def)
      with c(2) d show ?thesis by (auto intro: gt_rel_fits)
    qed (use out c in simp)
  qed
  have cards: "cards_ok (n_suits s) q"
    unfolding cards_ok_def
  proof (intro allI impI)
    fix ord c assume c: "slot (thoughts q) ord = Some c"
    show "card_ok (n_suits s) c"
    proof (cases "ord \<in> set (all_orders s)")
      case True
      with f o c show ?thesis by (force simp: fits_def)
    next
      case False
      with out c view_okD(3) [OF v] show ?thesis by (simp add: cards_ok_def n)
    qed
  qed
  have "slot (thoughts q) ord \<noteq> None" if "slot (thoughts p) ord \<noteq> None" for ord
    using that rel out by (cases "ord \<in> set (all_orders s)") auto
  then have "player_ok (n_suits s) q"
    using v cards q by (auto simp: player_ok_def view_ok_def n intro: link_ok_mono)
  then show ?thesis using q v f by (simp add: view_ok_def knows_def n)
qed

theorem on_draw_ok:
  assumes g: "game_ok g \<sigma>" and a: "draw_true g \<sigma> a"
  shows "\<exists>g'. on_draw g a = Inr g' \<and> game_ok g' \<sigma> \<and> g_state g' = draw_state g a \<and>
    deck_ids g' = (if known_action a then put (deck_ids g) (act_order a) (\<sigma> (act_order a)) else deck_ids g)"
proof -
  let ?s = "g_state g" and ?t = "draw_state g a" and ?o = "act_order a"
  have t: "truth_ok ?s \<sigma>" and ps: "\<forall>p \<in> set (g_players g). view_ok ?s \<sigma> p" and vc: "view_ok ?s \<sigma> (common g)"
    and gl: "length (g_players g) = num_players ?s" and np: "patches (common g) = []"
    using g by (simp_all add: game_ok_def)
  have t': "truth_ok ?t \<sigma>" by (rule draw_truth [OF t a])
  let ?f = "\<lambda>(i, p). bindR (card_elim (draw_for ?s (turn_count ?s) a i p) ?t) (\<lambda>q. refresh_links q ?t)"
  have "\<exists>qs. mapR ?f (zip [0..<length (g_players g)] (g_players g)) = Inr qs \<and>
      length qs = length (zip [0..<length (g_players g)] (g_players g)) \<and> (\<forall>q \<in> set qs. view_ok ?t \<sigma> q)"
  proof (rule mapR_ok)
    fix e assume e: "e \<in> set (zip [0..<length (g_players g)] (g_players g))"
    obtain i p where ip: "e = (i, p)" by force
    with e have p: "view_ok ?s \<sigma> p" using ps by (auto dest: set_zip_rightD)
    have "view_ok ?t \<sigma> (draw_for ?s (turn_count ?s) a i p)"
      unfolding draw_for_def Let_def by (rule draw_view [OF t a p]) auto
    then obtain q where q: "card_elim (draw_for ?s (turn_count ?s) a i p) ?t = Inr q" "view_ok ?t \<sigma> q"
      using view_card_elim [OF t'] by blast
    then show "\<exists>y. ?f e = Inr y \<and> view_ok ?t \<sigma> y" using view_refresh [OF q(2)] by (auto simp: ip)
  qed
  then obtain qs where qs: "mapR ?f (zip [0..<length (g_players g)] (g_players g)) = Inr qs"
      "length qs = num_players ?s" "\<forall>q \<in> set qs. view_ok ?t \<sigma> q" using gl by auto
  let ?c = "(common g)\<lparr>thoughts := put (thoughts (common g)) ?o (drawn_card (common g) (-1) (-1) ?o (turn_count ?s))\<rparr>"
  have "view_ok ?t \<sigma> ?c" by (rule draw_view [OF t a vc]) auto
  then obtain c1 where c1: "card_elim ?c ?t = Inr c1" "view_ok ?t \<sigma> c1" "patches c1 = []"
    using view_card_elim [OF t'] np by (fastforce simp: keeps_def)
  obtain c2 where c2: "(if good_touch g then good_touch_elim c1 ?s False else Inr c1) = Inr c2" "view_ok ?t \<sigma> c2" "patches c2 = []"
    using view_good_touch_before [OF t c1(2)] draw_orders(1) [OF t a] c1 by (cases "good_touch g") (fastforce simp: draw_same)+
  obtain c3 where c3: "refresh_links c2 ?t = Inr c3" "view_ok ?t \<sigma> c3" "patches c3 = []"
    using view_refresh [OF c2(2)] c2(3) by (auto simp: keeps_def)
  have el: "elim_common (good_touch g) ?t ?s ?c = Inr c3" using c1(1) c2(1) c3(1) by (simp add: elim_common_def)
  have full: "\<not> int (length (hands ?s ! act_player a)) > hand_size ?s" using a by (simp add: draw_true_def Let_def)
  have ids: "(if known_action a then with_at (deck_ids g) ?o (act_id a) else Inr (deck_ids g)) =
      Inr (if known_action a then put (deck_ids g) ?o (\<sigma> ?o) else deck_ids g)"
    using a by (auto simp: draw_true_def Let_def with_at_def put_def known_action_def)
  have "game_ok (g\<lparr>deck_ids := ids, g_state := ?t, g_players := qs, common := c3\<rparr>) \<sigma>" for ids
    using t' qs c3 g by (simp add: game_ok_def draw_same)
  then show ?thesis using full qs(1) el ids by (simp add: on_draw_def Let_def)
qed

end
