(* ===== verification/Runs.thy ===== *)
theory Runs
  imports Handlers
begin

text \<open>
  Runs of the game: the handlers of \<open>src/src/basics.js\<close> on actions that are true of a deck, as a step relation.
  Whatever a run reaches from a new game is right: every player's possibilities contain every card's identity,
  and no handler has thrown. A play of a card that does not fit arrives as a failed discard, as the server sends it.
\<close>

inductive true_step :: "truth \<Rightarrow> game \<Rightarrow> game \<Rightarrow> bool" for \<sigma> where
  clue_step: "clue_true (g_state g) \<sigma> a \<Longrightarrow> on_clue g a = Inr g' \<Longrightarrow> true_step \<sigma> g g'"
| discard_step: "leaves_true (g_state g) \<sigma> a \<Longrightarrow> act_order a < length (deck_ids g) \<Longrightarrow>
    on_discard g a failed = Inr g' \<Longrightarrow> true_step \<sigma> g g'"
| play_step: "leaves_true (g_state g) \<sigma> a \<Longrightarrow> act_order a < length (deck_ids g) \<Longrightarrow>
    is_playable (g_state g) (\<sigma> (act_order a)) \<Longrightarrow> \<not> is_basic_trash (g_state g) (\<sigma> (act_order a)) \<Longrightarrow>
    on_play g a = Inr g' \<Longrightarrow> true_step \<sigma> g g'"
| draw_step: "draw_true g \<sigma> a \<Longrightarrow> on_draw g a = Inr g' \<Longrightarrow> true_step \<sigma> g g'"

inductive_cases true_stepE: "true_step \<sigma> g g'"

abbreviation true_run :: "truth \<Rightarrow> game \<Rightarrow> game \<Rightarrow> bool" where
  "true_run \<sigma> \<equiv> (true_step \<sigma>)\<^sup>*\<^sup>*"

lemma step_ok: "true_step \<sigma> g g' \<Longrightarrow> game_ok g \<sigma> \<Longrightarrow> game_ok g' \<sigma>"
proof (induction rule: true_step.induct)
  case (clue_step g a g')
  then show ?case using on_clue_ok [of g \<sigma> a] by auto
next
  case (discard_step g a failed g')
  then show ?case using on_discard_ok [of g \<sigma> a failed] by auto
next
  case (play_step g a g')
  then show ?case using on_play_ok [of g \<sigma> a] by auto
next
  case (draw_step g a g')
  then show ?case using on_draw_ok [of g \<sigma> a] by auto
qed

lemma run_ok: "true_run \<sigma> g g' \<Longrightarrow> game_ok g \<sigma> \<Longrightarrow> game_ok g' \<sigma>"
  by (induction rule: rtranclp_induct) (auto intro: step_ok)

text \<open>A new game is right for every deck.\<close>

lemma new_truth_ok:
  assumes v: "wf_variant v"
  shows "truth_ok (new_state n u v opts) \<sigma>"
proof -
  let ?s = "new_state n u v opts"
  have tab: "tables_ok ?s" using new_state_ok [OF v] by blast
  have "base_count ?s i = 0" if i: "in_deck ?s i" for i :: basic_card
  proof -
    have "[0, 0, 0, 0, 0] ! nat (rank i - 1) = (0 :: int)"
      using i rank_cases [of "rank i"] by (auto simp: valid_id_def max_stack_rank_def)
    with i show ?thesis using valid_nat [OF i]
      by (auto simp: base_count_def stack_of_def discards_of_def new_state_def valid_id_def)
  qed
  moreover have none: "all_orders ?s = []" by (simp add: all_orders_def new_state_def)
  moreover have "length (hands ?s) = num_players ?s" by (simp add: new_state_def)
  ultimately show ?thesis using tab total_count_range [OF tab]
    by (auto simp: truth_ok_def copies_def) fastforce
qed

lemma new_game_ok:
  assumes v: "wf_variant v"
  shows "game_ok (new_game (new_state n u v opts) progress None) \<sigma>"
proof -
  let ?s = "new_state n u v opts" and ?all = "iset_full (num_ids v)" and ?zeros = "replicate (num_ids v) 0"
  have n: "num_ids v \<le> 6" using v by (simp add: wf_variant_def)
  have p: "view_ok ?s \<sigma> (new_player k ?all ?all ?zeros)" if "k = -1 \<or> nat k < n" for k
    using that n
    by (auto simp: view_ok_def knows_def all_orders_def new_state_def new_player_def player_ok_def cards_ok_def slot_def
        iset_ok_new iset_has_new)
  have "variant ?s = v" "num_players ?s = n" by (simp_all add: new_state_def)
  then show ?thesis using p new_truth_ok [OF v] new_state_ok [OF v]
    by (auto simp: game_ok_def new_game_def Let_def) (simp_all add: new_player_def)
qed

text \<open>What everybody thinks possible of a card contains what the card is.\<close>

lemma game_ok_possible:
  assumes g: "game_ok g \<sigma>" and p: "p \<in> set (all_players g)" and o: "ord \<in> set (all_orders (g_state g))"
  shows "iset_has (possible (card_at p ord)) (\<sigma> ord)"
proof -
  have "view_ok (g_state g) \<sigma> p" using g p by (auto simp: game_ok_def all_players_def)
  then show ?thesis using o by (auto simp: view_ok_def knows_def fits_def card_at_def)
qed

end
