(* ===== verification/Demo.thy ===== *)
theory Demo
  imports Runs
begin

text \<open>
  A small deck on which the hypotheses of the properties hold: two suits, two players, red cards at the even
  orders and blue ones at the odd. Nothing but the witnesses uses it.
\<close>

definition demo_variant :: suit_variant where
  "demo_variant = \<lparr>suits = [''Red'', ''Blue''], short_forms = [''r'', ''b''], special_rank = None,
     all_clue_colours = False, all_clue_ranks = False, no_clue_colours = False, no_clue_ranks = False,
     deceptive = False, chimneys = False, funnels = False, critical_rank = None, clue_ranks = None\<rparr>"

definition demo_options :: table_options where
  "demo_options = \<lparr>one_less_card = False, one_extra_card = False, speedrun = False\<rparr>"

definition demo_start :: game_state where
  "demo_start = new_state 2 0 demo_variant demo_options"

definition demo_game :: game where
  "demo_game = new_game demo_start True None"

definition demo_deal :: truth where
  "demo_deal ord = mk_id (int (ord mod 2)) 1"

text \<open>Bob draws a red 1, Alice clues it, Bob plays or discards it.\<close>

definition demo_card :: card_action where
  "demo_card = \<lparr>act_order = 0, act_player = 1, act_suit = 0, act_rank = 1\<rparr>"

definition demo_clue :: clue_action where
  "demo_clue = \<lparr>ca_giver = 0, ca_target = 1, ca_list = [0], ca_clue = \<lparr>clue_kind = ColourClue, clue_value = 0\<rparr>,
     ca_mistake = False, ca_lock = False, ca_important = False, ca_hypothetical = False\<rparr>"

lemma demo_wf: "wf_variant demo_variant"
  by code_simp

lemma demo_game_ok: "game_ok demo_game demo_deal"
  unfolding demo_game_def demo_start_def by (rule new_game_ok [OF demo_wf])

lemma demo_state: "g_state demo_game = demo_start"
  by (simp add: demo_game_def new_game_def Let_def)

lemma demo_start_orders: "all_orders demo_start = []"
  by (simp add: demo_start_def new_state_def all_orders_def)

lemma demo_counts: "in_deck demo_start (demo_deal 0) \<and> base_count demo_start (demo_deal 0) < total_count demo_start (demo_deal 0)"
  by code_simp

lemma demo_ids: "deck_ids demo_game = replicate 20 None"
proof -
  have "cards_left demo_start = 20" by code_simp
  then show ?thesis by (simp add: demo_game_def new_game_def Let_def)
qed

lemma demo_hand: "num_players demo_start = 2 \<and> length (hands demo_start ! 1) = 0 \<and> 0 \<le> hand_size demo_start"
  by code_simp

lemma demo_draw: "draw_true demo_game demo_deal demo_card"
  using demo_counts demo_hand
  by (auto simp: draw_true_def Let_def demo_state demo_ids demo_start_orders demo_card_def copies_def slot_def act_id_def demo_deal_def)

definition demo_drawn :: game where
  "demo_drawn = (case on_draw demo_game demo_card of Inr g \<Rightarrow> g | Inl _ \<Rightarrow> demo_game)"

lemma demo_drawn:
  "on_draw demo_game demo_card = Inr demo_drawn" "game_ok demo_drawn demo_deal"
  "g_state demo_drawn = draw_state demo_game demo_card" "length (deck_ids demo_drawn) = 20"
  using on_draw_ok [OF demo_game_ok demo_draw]
  by (auto simp: demo_drawn_def demo_ids put_def demo_card_def split: if_splits)

lemma demo_run: "true_run demo_deal (new_game (new_state 2 0 demo_variant demo_options) True None) demo_drawn"
  using draw_step [OF demo_draw demo_drawn(1)] by (simp add: demo_game_def demo_start_def)

lemma demo_clue_true: "clue_true (g_state demo_drawn) demo_deal demo_clue"
  unfolding demo_drawn(3) by code_simp

lemma demo_leaves: "leaves_true (g_state demo_drawn) demo_deal demo_card" "act_order demo_card < length (deck_ids demo_drawn)"
proof -
  show "leaves_true (g_state demo_drawn) demo_deal demo_card" unfolding demo_drawn(3) by code_simp
  show "act_order demo_card < length (deck_ids demo_drawn)" by (simp add: demo_drawn(4)) (simp add: demo_card_def)
qed

lemma demo_fits: "is_playable (g_state demo_drawn) (demo_deal 0)" "\<not> is_basic_trash (g_state demo_drawn) (demo_deal 0)"
  unfolding demo_drawn(3) by code_simp+

lemma demo_orders: "0 \<in> set (all_orders (g_state demo_drawn))"
  unfolding demo_drawn(3) by code_simp

lemma demo_common: "common demo_drawn \<in> set (all_players demo_drawn)"
  by (simp add: all_players_def)

text \<open>A player who has wrongly eliminated red 5 from a card that can only be a red 1.\<close>

definition demo_red :: iset where
  "demo_red = iset_create 2 (AnId (mk_id 0 1))"

definition demo_wrong :: player where
  "demo_wrong = (new_player (-1) (iset_full 2) (iset_full 2) [0, 0])
     \<lparr>thoughts := [Some (new_card (-1) (-1) demo_red demo_red 0 0)], elims := [(''r5'', [0])]\<rparr>"

lemma demo_wrong:
  "map_of (elims demo_wrong) (log_id (variant demo_start) (mk_id 0 5)) = Some [0]"
  "slot (thoughts demo_wrong) 0 = Some (new_card (-1) (-1) demo_red demo_red 0 0)"
  "\<not> focused (new_card (-1) (-1) demo_red demo_red 0 0)"
  "card_ok (n_suits demo_start) (new_card (-1) (-1) demo_red demo_red 0 0)" "in_deck demo_start (mk_id 0 5)"
  "\<not> iset_has (possible (new_card (-1) (-1) demo_red demo_red 0 0)) (mk_id 0 5)"
  by code_simp+

end
