(* ===== verification/Clue_Results.thy ===== *)
theory Clue_Results
  imports Games
begin

text \<open>
  \<open>src/src/basics/clue-result.js\<close>: what a clue achieves, seen by comparing the game before it with the hypothetical
  game after it. The cards that a clue touches are split into trash, bad touches and duplicates of chop moved cards.
\<close>

section \<open>Eliminations\<close>

record elim_count =
  new_touched :: "card list"
  n_fill :: nat
  n_elim :: nat

definition count_elim :: "game_state \<Rightarrow> player \<Rightarrow> player \<Rightarrow> nat list \<Rightarrow> nat \<Rightarrow> elim_count \<Rightarrow> elim_count" where
  "count_elim s p hp touched_orders ord acc =
     (let old = card_at p ord; c = card_at hp ord in
      if clued c \<and> status c \<noteq> Some CALLED_TO_DC \<and> iset_length (possible c) < iset_length (possible old) then
        (if newly_clued c \<and> \<not> blind_playing old then acc\<lparr>new_touched := new_touched acc @ [c]\<rparr>
         else if ord \<in> set touched_orders \<and> has_consistent_inferences s c then acc\<lparr>n_fill := n_fill acc + 1\<rparr>
         else if has_consistent_inferences s c then acc\<lparr>n_elim := n_elim acc + 1\<rparr>
         else acc)
      else acc)"

definition elim_result :: "game_state \<Rightarrow> player \<Rightarrow> player \<Rightarrow> nat list \<Rightarrow> nat list \<Rightarrow> elim_count" where
  "elim_result s p hp hand touched_orders =
     fold (count_elim s p hp touched_orders) hand \<lparr>new_touched = [], n_fill = 0, n_elim = 0\<rparr>"

section \<open>Bad touches\<close>

text \<open>The new cards of the target that a player may hold a copy of; the score of the target itself is infinite, that is
  never the least.\<close>

definition dupe_score :: "game_state \<Rightarrow> nat \<Rightarrow> nat \<Rightarrow> player \<Rightarrow> nat" where
  "dupe_score s target k p =
     sum_list (map (\<lambda>ord.
       let d = deck_at s ord in
       if \<not> newly_clued d then 0
       else case basic_identity d of
         None \<Rightarrow> 0
       | Some i \<Rightarrow>
           if is_basic_trash s i then 0
           else length (filter (\<lambda>o2. let c = card_at p o2 in
               clued c \<and> iset_length (inferred c) > 1 \<and> iset_has (inferred c) i) (hands s ! k)))
       (hands s ! target))"

definition dupe_scores :: "game \<Rightarrow> game_state \<Rightarrow> nat \<Rightarrow> (nat \<times> nat) list" where
  "dupe_scores g s target =
     map (\<lambda>(k, p). (k, dupe_score s target k p))
       (filter (\<lambda>(k, p). k \<noteq> target) (zip [0..<length (g_players g)] (g_players g)))"

definition avoidable_dupes :: "game \<Rightarrow> game_state \<Rightarrow> nat \<Rightarrow> nat \<Rightarrow> int" where
  "avoidable_dupes g s giver target =
     (let scores = dupe_scores g s target in
      case map_of scores giver of
        None \<Rightarrow> 0
      | Some n \<Rightarrow> int n - int (Min (set (map snd scores))))"

definition known_trash :: "game_state \<Rightarrow> player \<Rightarrow> nat \<Rightarrow> bool" where
  "known_trash s hp ord \<longleftrightarrow>
     (let c = card_at hp ord; poss = iset_array (possible c) in
      (trash c \<and> list_ex (\<lambda>i. \<not> is_critical s i) poss) \<or>
      list_all (\<lambda>i. is_trash s hp i (int ord) infer_opts False) poss)"

definition dupes_cm :: "game_state \<Rightarrow> player \<Rightarrow> nat \<Rightarrow> bool" where
  "dupes_cm s hp ord \<longleftrightarrow>
     list_ex (\<lambda>o2. let c = card_at hp o2 in
       status c = Some CM \<and> \<not> clued c \<and> o2 \<noteq> ord \<and> actual_matches None (deck_at s o2) (deck_at s ord)) (all_orders s)"

text \<open>A copy that is touched before or after the clue. Copies in the hand of the target count when they are older.\<close>

definition dupes_touched :: "game \<Rightarrow> game \<Rightarrow> nat \<Rightarrow> nat \<Rightarrow> bool" where
  "dupes_touched g hg target ord \<longleftrightarrow>
     (let s = g_state hg in
      list_ex (\<lambda>k. list_ex (\<lambda>o2.
        let c = card_at (me hg) o2 in
        (touched (card_at (me g) o2) \<or> touched c) \<and> matches infer_opts c (deck_at s ord) \<and> (k \<noteq> target \<or> o2 < ord))
        (hands s ! k)) [0..<length (hands s)])"

record bad_touches =
  bad_touch :: "nat list"
  cm_dupe :: "nat list"
  trash_touch :: "nat list"
  avoidable_dupe :: int

definition bad_touch_result :: "game \<Rightarrow> game \<Rightarrow> player \<Rightarrow> nat \<Rightarrow> nat \<Rightarrow> bad_touches" where
  "bad_touch_result g hg hp giver target =
     (let s = g_state hg;
          new = filter (\<lambda>ord. newly_clued (deck_at s ord)) (hands s ! target);
          tr = filter (known_trash s hp) new;
          rest = filter (\<lambda>ord. \<not> known_trash s hp ord) new;
          bad = filter (\<lambda>ord. is_basic_trash s (deck_at s ord)) rest;
          cm = filter (\<lambda>ord. \<not> is_basic_trash s (deck_at s ord) \<and> dupes_cm s hp ord) rest;
          good = filter (\<lambda>ord. ord \<notin> set bad \<and> ord \<notin> set tr \<and> ord \<notin> set cm) new
      in \<lparr>bad_touch = bad @ filter (dupes_touched g hg target) good, cm_dupe = cm, trash_touch = tr,
          avoidable_dupe = avoidable_dupes g s giver target\<rparr>)"

section \<open>Playables and chop moves\<close>

definition already_playing :: "game_state \<Rightarrow> player \<Rightarrow> nat \<Rightarrow> bool" where
  "already_playing s m ord \<longleftrightarrow>
     ord \<in> set (hypo_plays m) \<or>
     list_ex (\<lambda>o2. actual_matches None (deck_at s o2) (deck_at s ord)) (hypo_plays m) \<or>
     list_ex (\<lambda>l. list_all (\<lambda>i. actual_matches None (deck_at s ord) i) (l_identities l) \<and>
       list_all (\<lambda>o2. o2 \<in> set (hypo_plays m)) (l_orders l)) (links m)"

definition playables_result :: "game_state \<Rightarrow> player \<Rightarrow> player \<Rightarrow> player \<Rightarrow> (int \<times> card) list \<times> (int \<times> card) list" where
  "playables_result s p hp m =
     (let found = map (\<lambda>ord. (holder_of s ord, card_at hp ord)) (filter (\<lambda>ord. \<not> already_playing s m ord) (hypo_plays hp));
          blind = map (\<lambda>ord. (holder_of s ord, card_at hp ord))
            (filter (\<lambda>ord. \<not> already_playing s m ord \<and> blind_playing (card_at hp ord) \<and> \<not> blind_playing (card_at p ord)) (hypo_plays hp))
      in (blind, found))"

definition cm_result :: "player \<Rightarrow> player \<Rightarrow> nat list \<Rightarrow> nat list" where
  "cm_result p hp hand = filter (\<lambda>ord. status (card_at hp ord) = Some CM \<and> status (card_at p ord) \<noteq> Some CM) hand"

section \<open>Facts\<close>

text \<open>Every new card of the target is in exactly one of the three lists or fine, and the giver can do no better than the
  least score.\<close>

lemma bad_touch_split:
  fixes g hg hp giver target
  defines "r \<equiv> bad_touch_result g hg hp giver target"
  shows "set (bad_touch r) \<inter> set (cm_dupe r) = {}" "set (bad_touch r) \<inter> set (trash_touch r) = {}"
    "set (cm_dupe r) \<inter> set (trash_touch r) = {}"
    "set (bad_touch r) \<union> set (cm_dupe r) \<union> set (trash_touch r) \<subseteq> {ord \<in> set (hands (g_state hg) ! target). newly_clued (deck_at (g_state hg) ord)}"
  by (auto simp: r_def bad_touch_result_def Let_def)

lemma bad_touch_distinct:
  "distinct (hands (g_state hg) ! target) \<Longrightarrow> distinct (bad_touch (bad_touch_result g hg hp giver target))"
  by (auto simp: bad_touch_result_def Let_def)

lemma known_bad_touch:
  assumes "ord \<in> set (hands (g_state hg) ! target)" "newly_clued (deck_at (g_state hg) ord)" "is_basic_trash (g_state hg) (deck_at (g_state hg) ord)"
  shows "ord \<in> set (bad_touch (bad_touch_result g hg hp giver target)) \<or> ord \<in> set (trash_touch (bad_touch_result g hg hp giver target))"
  using assms by (auto simp: bad_touch_result_def Let_def)

lemma avoidable_nonneg: "0 \<le> avoidable_dupe (bad_touch_result g hg hp giver target)"
proof -
  let ?s = "g_state hg"
  have "Min (set (map snd (dupe_scores g ?s target))) \<le> n" if "map_of (dupe_scores g ?s target) giver = Some n" for n
    using map_of_SomeD [OF that] by (intro Min_le) force+
  then show ?thesis by (auto simp: bad_touch_result_def avoidable_dupes_def Let_def split: option.splits)
qed

lemma elim_result_counts:
  "length (new_touched (elim_result s p hp hand l)) + n_fill (elim_result s p hp hand l) + n_elim (elim_result s p hp hand l) \<le> length hand"
proof -
  have "length (new_touched (fold (count_elim s p hp l) hand acc)) + n_fill (fold (count_elim s p hp l) hand acc)
      + n_elim (fold (count_elim s p hp l) hand acc) \<le> length (new_touched acc) + n_fill acc + n_elim acc + length hand" for acc
  proof (induction hand arbitrary: acc)
    case (Cons ord hand)
    show ?case using Cons.IH [of "count_elim s p hp l ord acc"] by (auto simp: count_elim_def Let_def split: if_splits)
  qed simp
  from this [of "\<lparr>new_touched = [], n_fill = 0, n_elim = 0\<rparr>"] show ?thesis by (simp add: elim_result_def)
qed

end
