(* ===== verification/Thinking.thy ===== *)
theory Thinking
  imports Game_Basics
begin

text \<open>
  What the conventions share when they think and write: the questions of \<open>src/src/basics/Player.js\<close> that go through the
  method \<open>thinksPlayables\<close> of the convention's own players (here an argument), a write to one card of common knowledge,
  and the connections of \<open>src/src/types.js\<close>.
\<close>

section \<open>Loaded and locked hands\<close>

type_synonym playables_fun = "player \<Rightarrow> game_state \<Rightarrow> nat \<Rightarrow> think_options \<Rightarrow> nat list"

definition loaded_by :: "playables_fun \<Rightarrow> player \<Rightarrow> game_state \<Rightarrow> nat \<Rightarrow> think_options \<Rightarrow> bool" where
  "loaded_by playables p s i opts \<longleftrightarrow> playables p s i opts \<noteq> [] \<or> thinks_trash p s i \<noteq> []"

definition locked_by :: "playables_fun \<Rightarrow> player \<Rightarrow> game_state \<Rightarrow> nat \<Rightarrow> bool \<Rightarrow> bool" where
  "locked_by playables p s i symmetric \<longleftrightarrow>
     list_all (\<lambda>ord. saved (card_at p ord) \<or> (symmetric \<and> in_waiting p s i ord)) (hands s ! i) \<and>
     \<not> loaded_by playables p s i default_think"

lemma base_loaded: "loaded_by thinks_playables p s i opts = thinks_loaded p s i opts"
  by (simp add: loaded_by_def thinks_loaded_def)

lemma base_locked: "locked_by thinks_playables p s i b = thinks_locked p s i b"
  by (simp add: locked_by_def thinks_locked_def base_loaded)

text \<open>A player is never both loaded and locked, and a convention that finds fewer playables locks more hands.\<close>

lemma locked_not_loaded: "locked_by f p s i b \<Longrightarrow> \<not> loaded_by f p s i default_think"
  by (simp add: locked_by_def)

lemma locked_by_mono:
  "set (f p s i default_think) \<subseteq> set (g p s i default_think) \<Longrightarrow> locked_by g p s i b \<Longrightarrow> locked_by f p s i b"
  by (auto simp: locked_by_def loaded_by_def)

section \<open>Writes\<close>

text \<open>A write of \<open>withThoughts\<close> and \<open>updateThoughts\<close> with the default listener: only common knowledge keeps the patches.\<close>

definition write_card :: "player \<Rightarrow> nat \<Rightarrow> (card \<Rightarrow> card_write list) \<Rightarrow> player result" where
  "write_card p ord f = with_thoughts p ord f (player_index p = -1)"

text \<open>\<open>updateStatus\<close> and \<open>revertStatus\<close> on a draft.\<close>

definition status_writes :: "card_status \<Rightarrow> card \<Rightarrow> card_write list" where
  "status_writes st d = [W_last_status (status d), W_status (Some st)]"

definition revert_writes :: "card \<Rightarrow> card_write list" where
  "revert_writes d = [W_status (if clued d then Some CLUED else last_status d), W_last_status None]"

lemma status_writes_update: "fold apply_write (status_writes st d) d = update_status (Some st) d"
  by (simp add: status_writes_def update_status_def)

lemma revert_writes_revert: "fold apply_write (revert_writes d) d = revert_status d"
  by (simp add: revert_writes_def revert_status_def)

section \<open>Connections\<close>

definition mk_conn :: "connection_type \<Rightarrow> nat \<Rightarrow> nat \<Rightarrow> basic_card list \<Rightarrow> connection" where
  "mk_conn t pl ord ids =
     \<lparr>conn_type = t, conn_reacting = pl, conn_order = ord, conn_identities = ids, conn_self = False, conn_hidden = False,
      conn_bluff = False, conn_possibly_bluff = False, conn_certain = False, conn_linked = None, conn_layered = False,
      conn_asymmetric = False\<rparr>"

text \<open>\<open>findLast\<close>, and \<open>Math.max\<close> and \<open>Math.min\<close> of orders (infinite, hence no order, for no argument).\<close>

definition find_last :: "('a \<Rightarrow> bool) \<Rightarrow> 'a list \<Rightarrow> 'a option" where
  "find_last P xs = List.find P (rev xs)"

definition max_order :: "nat list \<Rightarrow> nat option" where
  "max_order os = (if os = [] then None else Some (Max (set os)))"

definition min_order :: "nat list \<Rightarrow> nat option" where
  "min_order os = (if os = [] then None else Some (Min (set os)))"

lemma find_last_SomeD: "find_last P xs = Some x \<Longrightarrow> x \<in> set xs \<and> P x"
  by (auto simp: find_last_def dest: find_SomeD)

lemma max_order_in: "max_order os = Some x \<Longrightarrow> x \<in> set os \<and> (\<forall>y \<in> set os. y \<le> x)"
  by (auto simp: max_order_def split: if_splits)

lemma min_order_in: "min_order os = Some x \<Longrightarrow> x \<in> set os \<and> (\<forall>y \<in> set os. x \<le> y)"
  by (auto simp: min_order_def split: if_splits)

section \<open>Prompts\<close>

text \<open>A prompt has been clued before, may be the identity and is not known to be another, and one of its clues touches it.\<close>

definition may_prompt :: "game_state \<Rightarrow> player \<Rightarrow> basic_card \<Rightarrow> nat list \<Rightarrow> nat \<Rightarrow> bool" where
  "may_prompt s p i used ord \<longleftrightarrow>
     (let d = deck_at s ord; c = card_at p ord in
      order d \<notin> set used \<and> clued d \<and> \<not> newly_clued d \<and> iset_has (possible c) i \<and>
      (case info_lock c of None \<Rightarrow> True | Some l \<Rightarrow> iset_has l i) \<and>
      (iset_length (inferred c) \<noteq> 1 \<or>
        (case first_id (Some (inferred c)) of Some j \<Rightarrow> basic_matches j i | None \<Rightarrow> False)) \<and>
      list_ex (card_touched i (variant s)) (clues d))"

definition same_clues :: "card_clue list \<Rightarrow> bool" where
  "same_clues cls \<longleftrightarrow>
     list_all (\<lambda>c1. list_all (\<lambda>c2. clue_kind c1 = clue_kind c2 \<and> clue_value c1 = clue_value c2) cls) cls"

text \<open>A card clued only with one other rank is not prompted for a pink identity.\<close>

definition only_rank_clued :: "basic_card \<Rightarrow> card_clue list \<Rightarrow> bool" where
  "only_rank_clued i cls \<longleftrightarrow>
     same_clues cls \<and> cls \<noteq> [] \<and> clue_kind (hd cls) = RankClue \<and> clue_value (hd cls) \<noteq> rank i"

text \<open>An order that is found but ignored is not given.\<close>

definition unless_ignored :: "nat list \<Rightarrow> nat option \<Rightarrow> nat option" where
  "unless_ignored ignored o1 = (case o1 of Some ord \<Rightarrow> if ord \<in> set ignored then None else Some ord | None \<Rightarrow> None)"

lemma unless_ignored_SomeD: "unless_ignored ignored o1 = Some ord \<Longrightarrow> o1 = Some ord \<and> ord \<notin> set ignored"
  by (auto simp: unless_ignored_def split: option.splits if_splits)

section \<open>Sorting\<close>

text \<open>\<open>sort\<close> with a comparison; \<open>after x y\<close> says that it is positive. For a comparison that orders the elements the result of a stable
  sort is unique; where it does not, the model takes that of an insertion sort.\<close>

fun insert_before :: "('a \<Rightarrow> 'a \<Rightarrow> bool) \<Rightarrow> 'a \<Rightarrow> 'a list \<Rightarrow> 'a list" where
  "insert_before after x [] = [x]"
| "insert_before after x (y # ys) = (if after x y then y # insert_before after x ys else x # y # ys)"

definition js_sort :: "('a \<Rightarrow> 'a \<Rightarrow> bool) \<Rightarrow> 'a list \<Rightarrow> 'a list" where
  "js_sort after xs = foldr (insert_before after) xs []"

lemma insert_before_mset [simp]: "mset (insert_before after x ys) = add_mset x (mset ys)"
  by (induction ys) auto

lemma js_sort_mset [simp]: "mset (js_sort after xs) = mset xs"
  by (induction xs) (simp_all add: js_sort_def)

lemma js_sort_set [simp]: "set (js_sort after xs) = set xs"
  by (rule mset_eq_setD) simp

text \<open>A comparison by a key is a stable sort by the key.\<close>

lemma insert_before_key:
  "(\<And>y. y \<in> set ys \<Longrightarrow> after x y \<longleftrightarrow> key y < key x) \<Longrightarrow> insert_before after x ys = insort_key key x ys"
  by (induction ys) (auto simp: not_le [symmetric])

lemma js_sort_key:
  fixes key :: "'a \<Rightarrow> 'b :: linorder"
  assumes "distinct xs" "\<And>x y. x \<in> set xs \<Longrightarrow> y \<in> set xs \<Longrightarrow> x \<noteq> y \<Longrightarrow> after x y \<longleftrightarrow> key y < key x"
  shows "js_sort after xs = sort_key key xs"
  using assms
proof (induction xs)
  case (Cons x xs)
  then have "js_sort after xs = sort_key key xs" by simp
  moreover have "insert_before after x (sort_key key xs) = insort_key key x (sort_key key xs)"
    using Cons.prems by (intro insert_before_key) auto
  ultimately show ?case by (simp add: js_sort_def)
qed (simp add: js_sort_def)

end
