(* ===== verification/Special_Discards.thy ===== *)
theory Special_Discards
  imports Thinking
begin

text \<open>
  \<open>src/src/conventions/shared/special-discards.js\<close>: a playable card that is discarded (a gentleman's discard) is in the finesse
  position of another player, perhaps below cards that play first; a baton discard passes the card on to a target. Where
  a finesse is found and what the targets of a baton are belong to the convention and are arguments. Both write on common
  knowledge, which is returned with the targets.
\<close>

text \<open>Others come before us, and the player who discards is no target.\<close>

definition player_precedence :: "game_state \<Rightarrow> nat \<Rightarrow> nat list" where
  "player_precedence s pl =
     filter (\<lambda>i. i \<noteq> pl) (filter (\<lambda>i. i \<noteq> our_player s) (range_list 0 (num_players s)) @ [our_player s])"

definition may_be_target :: "game \<Rightarrow> basic_card \<Rightarrow> nat \<Rightarrow> nat \<Rightarrow> bool" where
  "may_be_target g i index ord \<longleftrightarrow>
     (let s = g_state g in
      actual_matches None (deck_at s ord) i \<or>
      (index = our_player s \<and> deck_id s ord = None \<and> iset_has (possible (card_at (common g) ord)) i))"

section \<open>Gentleman's discards\<close>

type_synonym finesse_fun = "game_state \<Rightarrow> nat \<Rightarrow> nat list \<Rightarrow> nat option"

text \<open>The next identity of every suit, on hypothetical stacks.\<close>

definition next_ids :: "int list \<Rightarrow> basic_card list" where
  "next_ids stacks = map (\<lambda>k. mk_id (int k) (stacks ! k + 1)) [0..<length stacks]"

text \<open>The cards on top of the target are played on the hypothetical stacks one after the other.\<close>

fun gd_layers :: "nat \<Rightarrow> game \<Rightarrow> finesse_fun \<Rightarrow> basic_card \<Rightarrow> nat \<Rightarrow> nat option \<Rightarrow> game_state \<Rightarrow>
    (nat \<times> basic_card list) list \<Rightarrow> (nat \<times> basic_card list) list result" where
  "gd_layers fuel g ff i index finesse hs finessed =
     (case finesse of
        None \<Rightarrow> Inr []
      | Some f \<Rightarrow>
          if \<not> is_playable hs (deck_at (g_state g) f) then Inr []
          else
            (case fuel of
               0 \<Rightarrow> Inl OutOfFuel
             | Suc k \<Rightarrow>
                 let d = deck_at (g_state g) f; suit = nat (suit_index d);
                     finessed' = finessed @ [(f, next_ids (play_stacks hs))];
                     hs' = hs\<lparr>play_stacks := (play_stacks hs)[suit := play_stacks hs ! suit + 1]\<rparr>;
                     next_f = ff (g_state g) index (map fst finessed') in
                 (case next_f of
                    Some f' \<Rightarrow>
                      if may_be_target g i index f' then Inr (finessed' @ [(f', [i])])
                      else gd_layers k g ff i index next_f hs' finessed'
                  | None \<Rightarrow> gd_layers k g ff i index next_f hs' finessed')))"

declare gd_layers.simps [simp del]

definition gd_target :: "game \<Rightarrow> finesse_fun \<Rightarrow> basic_card \<Rightarrow> nat \<Rightarrow> (nat \<times> basic_card list) list result" where
  "gd_target g ff i index =
     (let s = g_state g; f = ff s index [] in
      case f of
        Some ord \<Rightarrow> if may_be_target g i index ord then Inr [(ord, [i])] else gd_layers (5 * n_suits s) g ff i index f s []
      | None \<Rightarrow> gd_layers (5 * n_suits s) g ff i index f s [])"

definition gd_writes :: "game_state \<Rightarrow> bool \<Rightarrow> bool \<Rightarrow> basic_card \<Rightarrow> basic_card list \<Rightarrow> card \<Rightarrow> card_write list" where
  "gd_writes s is_last maybe i ids d =
     (if is_last then [W_inferred (iset_intersect (inferred d) (AnId i))]
      else [W_inferred (iset_intersect (inferred d) (Ids ids)), W_hidden True]) @
     status_writes GD d @ [W_trash False] @
     (if maybe then [W_maybe_layered True, W_finesse_ids (Some (iset_union (base_ids s) (Ids ids)))] else [W_known True])"

text \<open>The first condition makes every gentleman's discard a possibly layered one.\<close>

definition gd_maybe_layered :: "game \<Rightarrow> basic_card \<Rightarrow> nat \<Rightarrow> (nat \<times> basic_card list) list \<Rightarrow> bool" where
  "gd_maybe_layered g i index targets \<longleftrightarrow>
     targets \<noteq> [] \<or>
     list_ex (\<lambda>ord. ord < fst (hd targets) \<and> \<not> touched (card_at (common g) ord) \<and>
       iset_has (possible (card_at (g_players g ! index) ord)) i) (hands (g_state g) ! index)"

definition interpret_gd :: "game \<Rightarrow> nat \<Rightarrow> basic_card \<Rightarrow> finesse_fun \<Rightarrow> (player \<times> nat list) result" where
  "interpret_gd g pl i ff =
     bindR (mapR (\<lambda>index. bindR (gd_target g ff i index) (\<lambda>ts. Inr (index, ts))) (player_precedence (g_state g) pl)) (\<lambda>found.
       case List.find (\<lambda>(index, ts). ts \<noteq> []) found of
         None \<Rightarrow> Inr (common g, [])
       | Some (index, ts) \<Rightarrow>
           bindR (foldR (\<lambda>c (ord, ids). write_card c ord
                 (gd_writes (g_state g) (ord = fst (last ts)) (gd_maybe_layered g i index ts) i ids))
               (common g) ts) (\<lambda>c. Inr (c, map fst ts)))"

section \<open>Batons\<close>

definition interpret_baton :: "game \<Rightarrow> nat \<Rightarrow> basic_card \<Rightarrow> (game_state \<Rightarrow> nat \<Rightarrow> nat list) \<Rightarrow> (player \<times> nat list) result" where
  "interpret_baton g pl i baton_targets =
     (let s = g_state g;
          found = List.find (\<lambda>os. os \<noteq> [])
            (map (\<lambda>index. filter (may_be_target g i index) (baton_targets s index)) (player_precedence s pl)) in
      case found of
        None \<Rightarrow> Inr (common g, [])
      | Some os \<Rightarrow>
          bindR (case os of
              [ord] \<Rightarrow> write_card (common g) ord (\<lambda>d. [W_inferred (iset_intersect (inferred d) (AnId i)), W_known True, W_trash False])
            | _ \<Rightarrow> foldR (\<lambda>c ord. write_card c ord (\<lambda>d. [W_inferred (iset_union (inferred d) (AnId i)), W_trash False])) (common g) os)
            (\<lambda>c. Inr (c, os)))"

section \<open>Facts\<close>

lemma precedence_not_self: "index \<in> set (player_precedence s pl) \<Longrightarrow> index \<noteq> pl"
  unfolding player_precedence_def set_filter by blast

lemma gd_always_layered: "targets \<noteq> [] \<Longrightarrow> gd_maybe_layered g i index targets"
  by (simp add: gd_maybe_layered_def)

text \<open>The loop ends: every step plays a card on the hypothetical stacks, which do not pass five, when the cards of the
  deck are identities of the variant.\<close>

lemma sum_list_update_Suc:
  "k < length xs \<Longrightarrow> sum_list (xs[k := xs ! k + 1]) = sum_list xs + (1::int)"
proof (induction xs arbitrary: k)
  case (Cons x xs)
  then show ?case by (cases k) simp_all
qed simp

lemma gd_layers_fuel:
  assumes deck: "\<And>ord. deck_id (g_state g) ord \<noteq> None \<Longrightarrow> valid_id n (deck_at (g_state g) ord)"
    and len: "length (play_stacks hs) = n" and le: "\<And>k. k < n \<Longrightarrow> play_stacks hs ! k \<le> 5"
    and fuel: "5 * int n \<le> int fuel + sum_list (play_stacks hs)"
  shows "gd_layers fuel g ff i index finesse hs finessed \<noteq> Inl OutOfFuel"
  using len le fuel
proof (induction fuel arbitrary: finesse hs finessed)
  case 0
  have "sum_list (play_stacks hs) \<le> 5 * int n"
  proof -
    have "sum_list (play_stacks hs) \<le> sum_list (map (\<lambda>_. 5) (play_stacks hs))"
      using 0 by (intro sum_list_mono2) (auto simp: in_set_conv_nth)
    then show ?thesis using 0(1) by (simp add: map_replicate_const sum_list_replicate)
  qed
  have "\<not> is_playable hs (deck_at (g_state g) f)" for f
  proof
    let ?d = "deck_at (g_state g) f" and ?k = "nat (suit_index (deck_at (g_state g) f))"
    assume p: "is_playable hs ?d"
    then have "deck_id (g_state g) f \<noteq> None"
      by (auto simp: is_playable_def playable_away_def deck_id_def basic_identity_def split: if_splits)
    from valid_nat [OF deck [OF this]] deck [OF this] p 0(1)
    have k: "?k < n" "play_stacks hs ! ?k < 5"
      by (auto simp: is_playable_def playable_away_def stack_of_def valid_id_def max_stack_rank_def split: if_splits)
    have "sum_list (play_stacks hs) < sum_list (map (\<lambda>_. 5) (play_stacks hs))"
    proof -
      have "sum_list ((play_stacks hs)[?k := play_stacks hs ! ?k + 1]) \<le> sum_list (map (\<lambda>_. 5) (play_stacks hs))"
        using 0(1,2) k by (intro sum_list_mono2) (auto simp: nth_list_update)
      then show ?thesis using sum_list_update_Suc [of ?k "play_stacks hs"] k 0(1) by simp
    qed
    then show False using 0 by (simp add: map_replicate_const sum_list_replicate)
  qed
  then show ?case by (subst gd_layers.simps) (simp split: option.splits)
next
  case (Suc fuel)
  show ?case
  proof (cases finesse)
    case None
    then show ?thesis by (subst gd_layers.simps) simp
  next
    case (Some f)
    let ?d = "deck_at (g_state g) f" and ?k = "nat (suit_index (deck_at (g_state g) f))"
    let ?hs = "hs\<lparr>play_stacks := (play_stacks hs)[?k := play_stacks hs ! ?k + 1]\<rparr>"
    show ?thesis
    proof (cases "is_playable hs ?d")
      case True
      then have "deck_id (g_state g) f \<noteq> None"
        by (auto simp: is_playable_def playable_away_def deck_id_def basic_identity_def split: if_splits)
      from valid_nat [OF deck [OF this]] deck [OF this] True Suc.prems(1)
      have k: "?k < n" "play_stacks hs ! ?k < 5"
        by (auto simp: is_playable_def playable_away_def stack_of_def valid_id_def max_stack_rank_def split: if_splits)
      have "gd_layers fuel g ff i index next_f ?hs fs \<noteq> Inl OutOfFuel" for next_f fs
        using Suc.prems k sum_list_update_Suc [of ?k "play_stacks hs"]
        by (intro Suc.IH) (auto simp: nth_list_update)
      then show ?thesis using Some True by (subst gd_layers.simps) (simp add: Let_def split: option.splits)
    next
      case False
      then show ?thesis using Some by (subst gd_layers.simps) simp
    qed
  qed
qed

lemma gd_target_total:
  assumes "tables_ok (g_state g)" "stacks_ok (g_state g)"
    and "\<And>ord. deck_id (g_state g) ord \<noteq> None \<Longrightarrow> in_deck (g_state g) (deck_at (g_state g) ord)"
  shows "gd_target g ff i index \<noteq> Inl OutOfFuel"
proof -
  let ?s = "g_state g"
  have b: "length (play_stacks ?s) = n_suits ?s" "\<And>k. k < n_suits ?s \<Longrightarrow> 0 \<le> play_stacks ?s ! k \<and> play_stacks ?s ! k \<le> 5"
    using assms(1,2) by (auto simp: tables_ok_def stacks_ok_def list_all2_conv_all_nth)
  have "0 \<le> sum_list (play_stacks ?s)" using b by (intro sum_list_nonneg) (auto simp: in_set_conv_nth)
  then have "gd_layers (5 * n_suits ?s) g ff i index f ?s [] \<noteq> Inl OutOfFuel" for f
    using assms(3) b by (intro gd_layers_fuel [where n = "n_suits ?s"]) auto
  then show ?thesis by (auto simp: gd_target_def Let_def split: option.splits)
qed

text \<open>Every target but the last lies above it in the order of the plays.\<close>

lemma interpret_gd_writes:
  assumes "interpret_gd g pl i ff = Inr (c, os)" "os \<noteq> []"
  shows "\<exists>index ts. index \<noteq> pl \<and> gd_target g ff i index = Inr ts \<and> os = map fst ts"
proof -
  let ?f = "\<lambda>index. bindR (gd_target g ff i index) (\<lambda>ts. Inr (index, ts))"
  obtain found where m: "mapR ?f (player_precedence (g_state g) pl) = Inr found"
    and f: "(case List.find (\<lambda>(index, ts). ts \<noteq> []) found of None \<Rightarrow> Inr (common g, [])
       | Some (index, ts) \<Rightarrow> bindR (foldR (\<lambda>c (ord, ids). write_card c ord (gd_writes (g_state g) (ord = fst (last ts))
            (gd_maybe_layered g i index ts) i ids)) (common g) ts) (\<lambda>c. Inr (c, map fst ts))) = Inr (c, os)"
    using assms(1) unfolding interpret_gd_def bindR_Inr_iff by blast
  have "\<forall>e \<in> set found. fst e \<in> set xs \<and> gd_target g ff i (fst e) = Inr (snd e)" if "mapR ?f xs = Inr found" for xs found
    using that by (induction xs arbitrary: found) (fastforce simp: result_simps)+
  note found = this [OF m]
  from f assms(2) obtain index ts where t: "List.find (\<lambda>(index, ts). ts \<noteq> []) found = Some (index, ts)" "os = map fst ts"
    by (auto simp: result_simps split: option.splits)
  from find_SomeD [OF t(1)] found have "index \<in> set (player_precedence (g_state g) pl)" "gd_target g ff i index = Inr ts"
    by fastforce+
  with t(2) precedence_not_self show ?thesis by blast
qed

end
