(* ===== verification/Endgame_States.thy ===== *)
theory Endgame_States
  imports Players
begin

text \<open>
  The states of the endgame search: \<open>src/src/conventions/shared/endgame-helper.js\<close>, without the search itself. A move
  is a \<open>perform\<close> of the player whose turn it is (the \<open>playerIndex\<close> of the source's action is that player), and a clue
  is any clue, with target \<open>-1\<close>. \<open>advance_state\<close> plays a move out on the objective state, drawing a given card.
\<close>

section \<open>Players between\<close>

text \<open>\<open>playersBetween\<close> and \<open>inBetween\<close> of \<open>src/src/conventions/h-group/hanabi-logic.js\<close>.\<close>

definition players_between :: "nat \<Rightarrow> nat \<Rightarrow> nat \<Rightarrow> nat list" where
  "players_between n a b =
     (let gap = (b + n - a) mod n in if gap = 0 then [] else map (\<lambda>inc. (a + inc) mod n) (range_list 1 gap))"

definition in_between :: "nat \<Rightarrow> nat \<Rightarrow> nat \<Rightarrow> nat \<Rightarrow> bool" where
  "in_between n i a b \<longleftrightarrow> i \<in> set (players_between n a b)"

section \<open>Lost positions\<close>

text \<open>All remaining copies of an identity that is still needed are in the group.\<close>

definition must_group :: "game_state \<Rightarrow> nat list \<Rightarrow> bool" where
  "must_group s g =
     (let d = deck_at s (hd g) in
      \<not> (suit_index d = -1 \<or> is_basic_trash s d) \<and> total_count s d - base_count s d = int (length g))"

definition find_must_plays :: "game_state \<Rightarrow> nat list \<Rightarrow> basic_card list" where
  "find_must_plays s hand =
     map (\<lambda>kg. raw (deck_at s (hd (snd kg))))
       (filter (\<lambda>kg. must_group s (snd kg)) (group_by (\<lambda>ord. log_id (variant s) (deck_at s ord)) hand))"

definition dead_card :: "game_state \<Rightarrow> nat \<Rightarrow> bool" where
  "dead_card s ord \<longleftrightarrow> deck_id s ord = None \<or> is_basic_trash s (deck_at s ord)"

definition void_player :: "game_state \<Rightarrow> nat \<Rightarrow> bool" where
  "void_player s i \<longleftrightarrow> list_all (dead_card s) (hands s ! i)"

text \<open>Whose turn it is in \<open>k\<close> turns.\<close>

definition player_after :: "game_state \<Rightarrow> nat \<Rightarrow> nat \<Rightarrow> nat" where
  "player_after s turn k = (turn + k) mod num_players s"

definition last_round_lost :: "game_state \<Rightarrow> nat \<Rightarrow> nat list \<Rightarrow> basic_card list list \<Rightarrow> bool" where
  "last_round_lost s turn voids musts \<longleftrightarrow>
     int (length (filter (\<lambda>k. player_after s turn k \<notin> set voids) (range_list 0 (nat (endgame_turns s))))) + score s < max_score s \<or>
     list_ex (\<lambda>k. length (musts ! player_after s turn k) > 1) [0..<nat (endgame_turns s)]"

text \<open>With one card left, two players who must play two cards each cannot both start the last round. A single one
  who is too far away makes the code return \<open>false\<close> as well.\<close>

definition unwinnable_state :: "game_state \<Rightarrow> nat \<Rightarrow> bool" where
  "unwinnable_state s turn =
     (if ended s \<or> pace s < 0 then True
      else
        let voids = filter (void_player s) (range_list 0 (num_players s)) in
        if int (length voids) > pace s then True
        else
          let musts = map (find_must_plays s) (hands s);
              starters = find_indices (\<lambda>ids. length ids > 1) musts in
          if endgame_turns s \<noteq> -1 \<and> last_round_lost s turn voids musts then True
          else if cards_left s = 1 then
            (if length starters > 1 then True
             else if length starters = 1 \<and> turn \<noteq> hd starters \<and>
               int (length (players_between (num_players s) turn (hd starters))) > clue_tokens s then False
             else False)
          else False)"

section \<open>Moves\<close>

abbreviation some_clue :: perform where
  "some_clue \<equiv> P_Rank (-1) (-1)"

definition next_up :: "'a basic_card_scheme \<Rightarrow> basic_card" where
  "next_up i = mk_id (suit_index i) (rank i + 1)"

definition connects_other :: "game_state \<Rightarrow> nat \<Rightarrow> 'a basic_card_scheme \<Rightarrow> bool" where
  "connects_other s turn i \<longleftrightarrow>
     list_ex (\<lambda>j. j \<noteq> turn \<and> list_ex (\<lambda>ord. actual_matches None (deck_at s ord) (next_up i)) (hands s ! j)) [0..<length (hands s)]"

definition connects_self :: "game_state \<Rightarrow> nat \<Rightarrow> 'a basic_card_scheme \<Rightarrow> bool" where
  "connects_self s turn i \<longleftrightarrow> list_ex (\<lambda>ord. actual_matches None (deck_at s ord) (next_up i)) (hands s ! turn)"

text \<open>The comparator, as whether the first card is sorted to the front. It is not consistent on two cards with the
  same rank (each comes after the other); cards are inserted one by one, from the left.\<close>

definition plays_first :: "game_state \<Rightarrow> nat \<Rightarrow> nat \<Rightarrow> nat \<Rightarrow> bool" where
  "plays_first s turn a b =
     (let c = deck_at s a; d = deck_at s b in
      if connects_other s turn c \<noteq> connects_other s turn d then connects_other s turn c
      else if connects_self s turn c \<noteq> connects_self s turn d then connects_self s turn c
      else if is_critical s c \<noteq> is_critical s d then is_critical s c
      else rank c < rank d)"

fun insert_play :: "('a \<Rightarrow> 'a \<Rightarrow> bool) \<Rightarrow> 'a \<Rightarrow> 'a list \<Rightarrow> 'a list" where
  "insert_play goes x [] = [x]"
| "insert_play goes x (y # ys) = (if goes x y then x # y # ys else y # insert_play goes x ys)"

definition get_playables :: "game_state \<Rightarrow> nat \<Rightarrow> nat list" where
  "get_playables s turn =
     fold (insert_play (plays_first s turn)) (filter (\<lambda>ord. is_playable s (deck_at s ord)) (hands s ! turn)) []"

definition search_moves :: "game_state \<Rightarrow> nat \<Rightarrow> perform list" where
  "search_moves s turn =
     map (\<lambda>ord. P_Play (int ord)) (get_playables s turn) @
     (if clue_tokens s > 0 then [some_clue] else []) @
     (case List.find (dead_card s) (hands s ! turn) of
        Some ord \<Rightarrow> if pace s \<ge> 0 then [P_Discard (int ord)] else []
      | None \<Rightarrow> [])"

section \<open>Playing a move out\<close>

definition add_discard :: "game_state \<Rightarrow> basic_card \<Rightarrow> game_state \<Rightarrow> game_state" where
  "add_discard s i ns =
     ns\<lparr>discard_stacks := (discard_stacks s)[nat (suit_index i) := (discard_stacks s ! nat (suit_index i))[nat (rank i - 1) := discards_of s i + 1]]\<rparr>"

definition remove_and_draw :: "game_state \<Rightarrow> nat \<Rightarrow> nat \<Rightarrow> actual_card option \<Rightarrow> game_state \<Rightarrow> game_state" where
  "remove_and_draw s i ord drawn ns =
     (let fresh = nat (card_order s + 1);
          rest = splice1 (hands ns ! i) (index_of (hands s ! i) ord);
          ns1 = (if endgame_turns s = -1
                 then ns\<lparr>hands := (hands ns)[i := fresh # rest], card_order := card_order ns + 1, cards_left := cards_left ns - 1,
                     endgame_turns := (if cards_left ns - 1 = 0 then int (num_players s) else endgame_turns ns)\<rparr>
                 else ns\<lparr>hands := (hands ns)[i := rest], endgame_turns := endgame_turns ns - 1\<rparr>)
      in if slot (deck s) fresh = None
         then ns1\<lparr>deck := put (deck ns) fresh (case drawn of Some c \<Rightarrow> c | None \<Rightarrow> new_actual (-1) (-1) fresh (turn_count s))\<rparr>
         else ns1)"

definition advance_state :: "game_state \<Rightarrow> nat \<Rightarrow> perform \<Rightarrow> actual_card option \<Rightarrow> game_state" where
  "advance_state s i act drawn =
     (let ns = s\<lparr>turn_count := turn_count s + 1\<rparr> in
      case act of
        P_Play t \<Rightarrow> remove_and_draw s i (nat t) drawn
          (case deck_id s (nat t) of
             Some c \<Rightarrow>
               if is_playable s c
               then ns\<lparr>play_stacks := (play_stacks s)[nat (suit_index c) := rank c],
                   clue_tokens := (if rank c = 5 then min (clue_tokens s + 1) 8 else clue_tokens s)\<rparr>
               else (add_discard s c ns)\<lparr>strikes := strikes s + 1\<rparr>
           | None \<Rightarrow> ns\<lparr>strikes := strikes s + 1\<rparr>)
      | P_Discard t \<Rightarrow> remove_and_draw s i (nat t) drawn
          ((case deck_id s (nat t) of Some c \<Rightarrow> add_discard s c ns | None \<Rightarrow> ns)\<lparr>clue_tokens := min (clue_tokens s + 1) 8\<rparr>)
      | P_Colour _ _ \<Rightarrow> ns\<lparr>clue_tokens := clue_tokens s - 1, endgame_turns := (if endgame_turns s = -1 then -1 else endgame_turns s - 1)\<rparr>
      | P_Rank _ _ \<Rightarrow> ns\<lparr>clue_tokens := clue_tokens s - 1, endgame_turns := (if endgame_turns s = -1 then -1 else endgame_turns s - 1)\<rparr>
      | P_EndGame _ _ \<Rightarrow> ns)"

section \<open>Identities left\<close>

record remaining =
  r_id :: basic_card
  missing :: int
  r_all :: bool

definition remove_remaining :: "remaining list \<Rightarrow> basic_card \<Rightarrow> remaining list result" where
  "remove_remaining rs i =
     (case find_indices (\<lambda>r. suit_index (r_id r) = suit_index i \<and> rank (r_id r) = rank i) rs of
        [] \<Rightarrow> Inl TypeError
      | k # _ \<Rightarrow>
          if missing (rs ! k) = 1 then Inr (drop_nth k rs)
          else Inr (rs[k := \<lparr>r_id = i, missing = missing (rs ! k) - 1, r_all = r_all (rs ! k)\<rparr>]))"

end
