(* ===== verification/Sieve_Players.thy ===== *)
theory Sieve_Players
  imports Thinking Consistency Endgame_States
begin

text \<open>
  The players of the referential sieve, \<open>src/src/conventions/rs-player.js\<close>, and how they connect a clue,
  \<open>src/src/conventions/ref-sieve/connecting-cards.js\<close>: the playables of a player leave out linked cards and cards that may be
  unplayable; a connection looks for a known, playable, prompted or finessed card for every missing rank, going round
  the table. A run of the loops that does not end within the fuel is the error \<open>OutOfFuel\<close>.
\<close>

section \<open>Playables, prompts and finesses\<close>

definition sieve_playables :: "player \<Rightarrow> game_state \<Rightarrow> nat \<Rightarrow> think_options \<Rightarrow> nat list" where
  "sieve_playables p s i opts =
     (let linked = linked_orders p s in
      filter (\<lambda>ord. ord \<notin> set linked \<and> list_all (is_playable s) (iset_array (possibilities (card_at p ord))))
        (thinks_playables p s i opts))"

definition pink_clued :: "game_state \<Rightarrow> card_clue list \<Rightarrow> bool" where
  "pink_clued s cls \<longleftrightarrow>
     list_ex (\<lambda>cl. clue_kind cl = ColourClue \<and>
       regex_test pinkish (case get (colourable_suits (variant s)) (clue_value cl) of Some n \<Rightarrow> n | None \<Rightarrow> ''undefined'')) cls"

definition pink_prompt :: "game_state \<Rightarrow> basic_card \<Rightarrow> bool \<Rightarrow> nat \<Rightarrow> bool" where
  "pink_prompt s i force_pink ord \<longleftrightarrow>
     (let cls = clues (deck_at s ord) in
      \<not> regex_test pinkish (suit_name (variant s) (suit_index i)) \<or> force_pink \<or> \<not> only_rank_clued i cls \<or> pink_clued s cls)"

definition sieve_prompt :: "player \<Rightarrow> game_state \<Rightarrow> nat \<Rightarrow> basic_card \<Rightarrow> nat list \<Rightarrow> nat list \<Rightarrow> bool \<Rightarrow> nat option" where
  "sieve_prompt p s pl i used ignored force_pink =
     unless_ignored ignored
       (find_last (\<lambda>ord. may_prompt s p i used ord \<and> pink_prompt s i force_pink ord) (hands s ! pl))"

definition sieve_finesse :: "player \<Rightarrow> game_state \<Rightarrow> nat \<Rightarrow> nat list \<Rightarrow> nat list \<Rightarrow> nat option" where
  "sieve_finesse p s pl used ignored =
     unless_ignored ignored (List.find (\<lambda>ord. \<not> touched (card_at p ord) \<and> ord \<notin> set used) (hands s ! pl))"

section \<open>One connection\<close>

definition known_conn :: "player \<Rightarrow> basic_card \<Rightarrow> nat list \<Rightarrow> nat \<Rightarrow> bool" where
  "known_conn com i used ord \<longleftrightarrow> ord \<notin> set used \<and> matches infer_opts (card_at com ord) i"

definition playable_conn :: "game_state \<Rightarrow> player \<Rightarrow> basic_card \<Rightarrow> nat list \<Rightarrow> nat \<Rightarrow> bool" where
  "playable_conn s com i used ord \<longleftrightarrow>
     (let c = card_at com ord in
      ord \<notin> set used \<and> (blind_playing c \<or> list_all (is_playable s) (iset_array (possible c))) \<and> iset_has (inferred c) i)"

definition usable :: "game_state \<Rightarrow> basic_card \<Rightarrow> nat list \<Rightarrow> nat option \<Rightarrow> bool" where
  "usable s i ignored o1 \<longleftrightarrow>
     (case o1 of Some ord \<Rightarrow> actual_matches None (deck_at s ord) i \<and> ord \<notin> set ignored | None \<Rightarrow> False)"

definition find_connecting ::
  "game \<Rightarrow> basic_card \<Rightarrow> nat \<Rightarrow> nat list \<Rightarrow> bool \<Rightarrow> nat list \<Rightarrow> connection option" where
  "find_connecting g i pl used looks_direct ignored =
     (let s = g_state g; com = common g; hand = hands s ! pl;
          kn = List.find (known_conn com i used) hand;
          pb = List.find (playable_conn s com i used) hand;
          pr = sieve_prompt com s pl i used [] False;
          fi = sieve_finesse com s pl used [] in
      case unless_ignored ignored kn of
        Some ord \<Rightarrow> Some (mk_conn Known pl ord [i])
      | None \<Rightarrow>
          if usable s i ignored pb then Some (mk_conn Playable pl (the pb) [i])
          else if looks_direct \<or> pb \<noteq> None then None
          else if (case pr of Some ord \<Rightarrow> \<not> actual_matches None (deck_at s ord) i | None \<Rightarrow> False) then None
          else if usable s i ignored pr then Some (mk_conn Prompt pl (the pr) [i])
          else if usable s i ignored fi then Some (mk_conn Finesse pl (the fi) [i])
          else None)"

section \<open>The loops\<close>

definition ignored_for :: "game \<Rightarrow> basic_card \<Rightarrow> int \<Rightarrow> nat list" where
  "ignored_for g i next_rank = get_ignore_orders g (nat (next_rank - stack_of (g_state g) i - 1)) (suit_index i) False"

definition conn_orders :: "nat \<Rightarrow> connection list \<Rightarrow> nat list" where
  "conn_orders target conns = target # map conn_order conns"

text \<open>The loop variables: the next rank, the player, whether the target has been passed since the last connection, and the
  connections.\<close>

fun connect_loop :: "nat \<Rightarrow> game \<Rightarrow> nat \<Rightarrow> basic_card \<Rightarrow> nat \<Rightarrow> bool \<Rightarrow> int \<Rightarrow> nat \<Rightarrow> bool \<Rightarrow> connection list \<Rightarrow>
    (int \<times> connection list) result" where
  "connect_loop 0 g ord i target unknown next_rank pl looped conns = Inl OutOfFuel"
| "connect_loop (Suc fuel) g ord i target unknown next_rank pl looped conns =
     (if next_rank = rank i then Inr (next_rank, conns)
      else
        let nxt = next_player (g_state g) pl in
        case find_connecting g (mk_id (suit_index i) next_rank) pl (conn_orders ord conns) (unknown \<and> pl = target)
            (ignored_for g i next_rank) of
          Some conn \<Rightarrow>
            if pl = target \<and> unknown then Inr (next_rank + 1, conns @ [conn])
            else connect_loop fuel g ord i target unknown (next_rank + 1) nxt (pl = target) (conns @ [conn])
        | None \<Rightarrow>
            if pl = target \<and> (unknown \<or> looped) then Inr (next_rank, conns)
            else connect_loop fuel g ord i target unknown next_rank nxt (looped \<or> pl = target) conns)"

text \<open>Enough fuel: between two connections every player is passed at most twice, and a card connects once.\<close>

definition connect_fuel :: "game \<Rightarrow> nat" where
  "connect_fuel g = (length (all_orders (g_state g)) + 2) * (2 * num_players (g_state g)) + 1"

definition connect :: "game \<Rightarrow> nat \<Rightarrow> basic_card \<Rightarrow> nat \<Rightarrow> nat \<Rightarrow> bool \<Rightarrow> connection list option result" where
  "connect g ord i giver target unknown =
     (let s = g_state g in
      bindR (connect_loop (connect_fuel g) g ord i target unknown (stack_of s i + 1) (next_player s giver) False []) (\<lambda>(r, conns).
        Inr (if r \<noteq> rank i then None else Some conns)))"

definition own_playable :: "game_state \<Rightarrow> player \<Rightarrow> basic_card \<Rightarrow> nat \<Rightarrow> bool" where
  "own_playable s m i ord \<longleftrightarrow>
     (let c = card_at m ord in
      (blind_playing c \<or> list_all (is_playable s) (iset_array (inferred c))) \<and> iset_has (inferred c) i)"

text \<open>A connection on ourselves; what has been connected does not exclude a playable card.\<close>

definition find_own_connecting :: "game \<Rightarrow> basic_card \<Rightarrow> nat list \<Rightarrow> nat list \<Rightarrow> bool \<Rightarrow> connection option" where
  "find_own_connecting g i used ignored unknown_us =
     (let s = g_state g; us = our_player s in
      case unless_ignored ignored (List.find (own_playable s (me g) i) (our_hand s)) of
        Some ord \<Rightarrow> Some (mk_conn Playable us ord [i])
      | None \<Rightarrow>
          if unknown_us then None
          else
            (case unless_ignored ignored (sieve_prompt (common g) s us i used [] False) of
               Some ord \<Rightarrow> Some (mk_conn Prompt us ord [i])
             | None \<Rightarrow>
                 (case unless_ignored ignored (sieve_finesse (common g) s us used []) of
                    Some ord \<Rightarrow> Some (mk_conn Finesse us ord [i])
                  | None \<Rightarrow> None)))"

definition tries_us :: "game_state \<Rightarrow> nat \<Rightarrow> nat \<Rightarrow> bool \<Rightarrow> bool" where
  "tries_us s giver target unknown \<longleftrightarrow> \<not> unknown \<or> in_between (num_players s) (our_player s) giver target"

fun own_loop :: "nat \<Rightarrow> game \<Rightarrow> nat \<Rightarrow> basic_card \<Rightarrow> nat \<Rightarrow> nat \<Rightarrow> bool \<Rightarrow> int \<Rightarrow> nat \<Rightarrow> bool \<Rightarrow> connection list \<Rightarrow>
    (int \<times> connection list) result" where
  "own_loop 0 g ord i giver target unknown next_rank pl looped conns = Inl OutOfFuel"
| "own_loop (Suc fuel) g ord i giver target unknown next_rank pl looped conns =
     (if next_rank = rank i then Inr (next_rank, conns)
      else
        let s = g_state g; nxt = next_player s pl; ignored = ignored_for g i next_rank; ni = mk_id (suit_index i) next_rank;
            conn = find_connecting g ni pl (conn_orders ord conns) ((unknown \<and> pl = target) \<or> pl = giver) ignored;
            (r1, looped1, conns1) = (case conn of Some c \<Rightarrow> (next_rank + 1, False, conns @ [c]) | None \<Rightarrow> (next_rank, looped, conns))
        in
        if pl \<noteq> target then own_loop fuel g ord i giver target unknown r1 nxt looped1 conns1
        else
          case (if tries_us s giver target unknown
                then find_own_connecting g ni (map conn_order conns1) ignored (unknown \<and> our_player s = target) else None) of
            Some c \<Rightarrow>
              own_loop fuel g ord i giver target unknown (r1 + 1) (next_player s (our_player s)) False (conns1 @ [c])
          | None \<Rightarrow>
              if unknown \<or> looped1 then Inr (r1, conns1)
              else own_loop fuel g ord i giver target unknown r1 nxt True conns1)"

text \<open>A playable card of ours may connect again for the next rank; the masks of six suits leave two of the 32 bits free, so at
  most 32 such connections lie between two that use up a card.\<close>

definition own_fuel :: "game \<Rightarrow> nat" where
  "own_fuel g = (32 * (length (all_orders (g_state g)) + 1) + 1) * (2 * num_players (g_state g)) + 1"

definition find_own_finesses :: "game \<Rightarrow> nat \<Rightarrow> basic_card \<Rightarrow> nat \<Rightarrow> nat \<Rightarrow> bool \<Rightarrow> connection list option result" where
  "find_own_finesses g ord i giver target unknown =
     (let s = g_state g in
      bindR (own_loop (own_fuel g) g ord i giver target unknown (stack_of s i + 1) (next_player s giver) False []) (\<lambda>(r, conns).
        Inr (if r \<noteq> rank i then None else Some conns)))"

section \<open>Playables\<close>

text \<open>A playable of the sieve is playable whatever it turns out to be.\<close>

lemma sieve_playables_sub: "set (sieve_playables p s i opts) \<subseteq> set (thinks_playables p s i opts)"
  by (auto simp: sieve_playables_def Let_def)

lemma sieve_playable_all:
  "ord \<in> set (sieve_playables p s i opts) \<Longrightarrow> j \<in> set (iset_array (possibilities (card_at p ord))) \<Longrightarrow> is_playable s j"
  by (auto simp: sieve_playables_def Let_def list_all_iff)

lemma usable_SomeD: "usable s i ignored o1 \<Longrightarrow> \<exists>ord. o1 = Some ord \<and> actual_matches None (deck_at s ord) i \<and> ord \<notin> set ignored"
  by (auto simp: usable_def split: option.splits)

section \<open>The connections of a clue\<close>

text \<open>The cards of the deck are filed under their order.\<close>

definition deck_filed :: "game_state \<Rightarrow> bool" where
  "deck_filed s \<longleftrightarrow> (\<forall>ord \<in> set (all_orders s). order (deck_at s ord) = ord)"

lemma sieve_prompt_new:
  "sieve_prompt p s pl i used ignored b = Some ord \<Longrightarrow> ord \<in> set (hands s ! pl) \<and> order (deck_at s ord) \<notin> set used"
  by (auto simp: sieve_prompt_def may_prompt_def Let_def dest!: unless_ignored_SomeD find_last_SomeD)

lemma sieve_finesse_new:
  "sieve_finesse p s pl used ignored = Some ord \<Longrightarrow> ord \<in> set (hands s ! pl) \<and> ord \<notin> set used"
  by (auto simp: sieve_finesse_def dest!: unless_ignored_SomeD find_SomeD)

definition conn_source :: "game \<Rightarrow> basic_card \<Rightarrow> nat \<Rightarrow> nat list \<Rightarrow> nat \<Rightarrow> bool" where
  "conn_source g i pl used ord \<longleftrightarrow>
     List.find (known_conn (common g) i used) (hands (g_state g) ! pl) = Some ord \<or>
     List.find (playable_conn (g_state g) (common g) i used) (hands (g_state g) ! pl) = Some ord \<or>
     sieve_prompt (common g) (g_state g) pl i used [] False = Some ord \<or>
     sieve_finesse (common g) (g_state g) pl used [] = Some ord"

lemma find_connecting_source:
  "find_connecting g i pl used b ignored = Some conn \<Longrightarrow>
    \<exists>t ord. conn = mk_conn t pl ord [i] \<and> ord \<notin> set ignored \<and> conn_source g i pl used ord"
  unfolding find_connecting_def conn_source_def Let_def
  by (auto split: option.splits if_splits dest!: usable_SomeD unless_ignored_SomeD, blast+)

lemma find_connecting_new:
  assumes "find_connecting g i pl used b ignored = Some conn" "deck_filed (g_state g)" "pl < length (hands (g_state g))"
  shows "conn_order conn \<in> set (hands (g_state g) ! pl)" "conn_order conn \<notin> set used" "conn_identities conn = [i]"
    "conn_reacting conn = pl" "conn_order conn \<notin> set ignored"
proof -
  have filed: "order (deck_at (g_state g) ord) = ord" if "ord \<in> set (hands (g_state g) ! pl)" for ord
    using that assms(2) in_hand_all_orders [OF assms(3) that] by (simp add: deck_filed_def)
  obtain t ord where c: "conn = mk_conn t pl ord [i]" "ord \<notin> set ignored" and src: "conn_source g i pl used ord"
    using find_connecting_source [OF assms(1)] by blast
  from src have "ord \<in> set (hands (g_state g) ! pl) \<and> ord \<notin> set used"
    unfolding conn_source_def
    by (auto simp: known_conn_def playable_conn_def Let_def filed dest!: find_SomeD sieve_prompt_new sieve_finesse_new)
  with c show "conn_order conn \<in> set (hands (g_state g) ! pl)" "conn_order conn \<notin> set used" "conn_identities conn = [i]"
    "conn_reacting conn = pl" "conn_order conn \<notin> set ignored" by (simp_all add: mk_conn_def)
qed

text \<open>The turns from a player to the target.\<close>

definition turns_to :: "game_state \<Rightarrow> nat \<Rightarrow> nat \<Rightarrow> nat" where
  "turns_to s pl target = (target + num_players s - pl) mod num_players s"

lemma turns_to_next:
  assumes "pl < num_players s" "target < num_players s"
  shows "pl \<noteq> target \<Longrightarrow> turns_to s (next_player s pl) target < turns_to s pl target"
    "turns_to s (next_player s pl) target < num_players s"
proof -
  show "turns_to s (next_player s pl) target < num_players s" using assms by (simp add: turns_to_def)
  assume ne: "pl \<noteq> target"
  have p: "next_player s pl = (if Suc pl = num_players s then 0 else Suc pl)" using assms by (auto simp: next_player_def)
  have "turns_to s pl target = (if pl \<le> target then target - pl else target + num_players s - pl)"
    using assms by (auto simp: turns_to_def le_mod_geq)
  moreover have "turns_to s (next_player s pl) target =
      (if next_player s pl \<le> target then target - next_player s pl else target + num_players s - next_player s pl)"
    using assms by (auto simp: turns_to_def p le_mod_geq)
  ultimately show "turns_to s (next_player s pl) target < turns_to s pl target" using ne assms by (auto simp: p split: if_splits)
qed

definition free_orders :: "game_state \<Rightarrow> nat list \<Rightarrow> nat set" where
  "free_orders s used = set (all_orders s) - set used"

lemma free_orders_less:
  "ord \<in> set (all_orders s) \<Longrightarrow> ord \<notin> set used \<Longrightarrow> card (free_orders s (used @ [ord])) < card (free_orders s used)"
  unfolding free_orders_def by (intro psubset_card_mono) auto

lemma conn_orders_snoc: "conn_orders ord (conns @ [c]) = conn_orders ord conns @ [conn_order c]"
  by (simp add: conn_orders_def)

lemma connect_loop_total:
  assumes d: "deck_filed (g_state g)" and t: "target < num_players (g_state g)"
    and len: "length (hands (g_state g)) = num_players (g_state g)"
  shows "pl < num_players (g_state g) \<Longrightarrow>
    card (free_orders (g_state g) (conn_orders ord conns)) * (2 * num_players (g_state g)) + turns_to (g_state g) pl target
      + (if looped then 0 else num_players (g_state g)) < fuel \<Longrightarrow>
    \<exists>r. connect_loop fuel g ord i target unknown next_rank pl looped conns = Inr r"
proof (induction fuel arbitrary: next_rank pl looped conns)
  case (Suc fuel)
  let ?s = "g_state g" and ?n = "num_players (g_state g)" and ?nx = "next_player (g_state g) pl"
  let ?F = "\<lambda>conns. card (free_orders ?s (conn_orders ord conns))"
  have nx: "?nx < ?n" using Suc.prems(1) by (simp add: next_player_def)
  note tn = turns_to_next [OF Suc.prems(1) t]
  show ?case
  proof (cases "find_connecting g (mk_id (suit_index i) next_rank) pl (conn_orders ord conns) (unknown \<and> pl = target)
      (ignored_for g i next_rank)")
    case (Some conn)
    note c = find_connecting_new [OF Some d, unfolded len, OF Suc.prems(1)]
    have "conn_order conn \<in> set (all_orders ?s)"
      using c(1) in_hand_all_orders Suc.prems(1) len by metis
    then have "?F (conns @ [conn]) < ?F conns" using c(2) by (simp add: conn_orders_snoc free_orders_less)
    then have "?F (conns @ [conn]) * (2 * ?n) + 2 * ?n \<le> ?F conns * (2 * ?n)"
      using mult_le_mono1 [of "Suc (?F (conns @ [conn]))" "?F conns" "2 * ?n"] by simp
    then have "?F (conns @ [conn]) * (2 * ?n) + turns_to ?s ?nx target + (if pl = target then 0 else ?n) < fuel"
      using Suc.prems(2) tn(2) by (auto split: if_splits)
    then have "\<exists>r. connect_loop fuel g ord i target unknown (next_rank + 1) ?nx (pl = target) (conns @ [conn]) = Inr r"
      by (intro Suc.IH nx)
    then show ?thesis using Some by (simp add: Let_def)
  next
    case None
    have "\<exists>r. connect_loop fuel g ord i target unknown next_rank ?nx (looped \<or> pl = target) conns = Inr r"
      if "pl \<noteq> target \<or> \<not> looped"
    proof (rule Suc.IH [OF nx])
      show "?F conns * (2 * ?n) + turns_to ?s ?nx target + (if looped \<or> pl = target then 0 else ?n) < fuel"
        using Suc.prems(2) tn that by (cases "pl = target") (auto split: if_splits)
    qed
    then show ?thesis using None by (auto simp: Let_def)
  qed
qed simp

lemma connect_returns:
  assumes "deck_filed (g_state g)" "target < num_players (g_state g)" "length (hands (g_state g)) = num_players (g_state g)"
  shows "\<exists>r. connect g ord i giver target unknown = Inr r"
proof -
  let ?s = "g_state g"
  have n: "0 < num_players ?s" using assms(2) by simp
  have "card (free_orders ?s (conn_orders ord [])) \<le> length (all_orders ?s)"
    unfolding free_orders_def
    by (rule order_trans [OF card_mono [OF finite_set] card_length]) auto
  then have "card (free_orders ?s (conn_orders ord [])) * (2 * num_players ?s) \<le> length (all_orders ?s) * (2 * num_players ?s)"
    by (rule mult_le_mono1)
  moreover have "turns_to ?s (next_player ?s giver) target < num_players ?s" using n by (simp add: turns_to_def)
  ultimately have "card (free_orders ?s (conn_orders ord [])) * (2 * num_players ?s) + turns_to ?s (next_player ?s giver) target
      + (if False then 0 else num_players ?s) < connect_fuel g"
    unfolding connect_fuel_def add_mult_distrib if_False by linarith
  moreover have "next_player ?s giver < num_players ?s" using n by (simp add: next_player_def)
  ultimately obtain r where "connect_loop (connect_fuel g) g ord i target unknown (stack_of ?s i + 1) (next_player ?s giver) False [] = Inr r"
    using connect_loop_total [OF assms] by blast
  then show ?thesis by (cases r) (simp add: connect_def Let_def)
qed

text \<open>The connections are the missing ranks in order, on cards of their own.\<close>

definition conns_ok :: "game_state \<Rightarrow> nat \<Rightarrow> basic_card \<Rightarrow> int \<Rightarrow> connection list \<Rightarrow> bool" where
  "conns_ok s ord i next_rank conns \<longleftrightarrow>
     next_rank = stack_of s i + 1 + int (length conns) \<and> distinct (conn_orders ord conns) \<and>
     map conn_identities conns = map (\<lambda>k. [mk_id (suit_index i) (stack_of s i + 1 + int k)]) [0..<length conns] \<and>
     (\<forall>c \<in> set conns. conn_reacting c < num_players s \<and> conn_order c \<in> set (hands s ! conn_reacting c))"

lemma connect_loop_ok:
  assumes d: "deck_filed (g_state g)" and len: "length (hands (g_state g)) = num_players (g_state g)"
  shows "connect_loop fuel g ord i target unknown next_rank pl looped conns = Inr (r, cs) \<Longrightarrow> pl < num_players (g_state g) \<Longrightarrow>
    conns_ok (g_state g) ord i next_rank conns \<Longrightarrow> conns_ok (g_state g) ord i r cs"
proof (induction fuel arbitrary: next_rank pl looped conns)
  case (Suc fuel)
  let ?s = "g_state g" and ?nx = "next_player (g_state g) pl"
  have nx: "?nx < num_players ?s" using Suc.prems(2) by (simp add: next_player_def)
  have "conns_ok ?s ord i (next_rank + 1) (conns @ [conn])"
    if f: "find_connecting g (mk_id (suit_index i) next_rank) pl (conn_orders ord conns) (unknown \<and> pl = target)
      (ignored_for g i next_rank) = Some conn" for conn
    using find_connecting_new [OF f d, unfolded len, OF Suc.prems(2)] Suc.prems(2,3)
    by (auto simp: conns_ok_def conn_orders_snoc)
  with Suc nx show ?case by (auto simp: Let_def split: if_splits option.splits)
qed simp

lemma connect_missing_ranks:
  assumes "connect g ord i giver target unknown = Inr (Some conns)" "deck_filed (g_state g)"
    "length (hands (g_state g)) = num_players (g_state g)" "0 < num_players (g_state g)"
  shows "conns_ok (g_state g) ord i (rank i) conns"
proof -
  let ?s = "g_state g"
  obtain r where r: "connect_loop (connect_fuel g) g ord i target unknown (stack_of ?s i + 1) (next_player ?s giver) False [] = Inr (r, conns)"
    "r = rank i"
    using assms(1) by (auto simp: connect_def Let_def result_simps split: if_splits)
  have "conns_ok ?s ord i (stack_of ?s i + 1) []" by (simp add: conns_ok_def conn_orders_def)
  moreover have "next_player ?s giver < num_players ?s" using assms(4) by (simp add: next_player_def)
  ultimately show ?thesis using connect_loop_ok [OF assms(2,3) r(1)] r(2) by blast
qed

end
