(* ===== verification/Actions.thy ===== *)
theory Actions
  imports Game_Basics
begin

text \<open>
  \<open>src/src/action-handler.js\<close> and the methods of \<open>src/src/basics/Game.js\<close> that replay actions: a convention
  interprets clues, discards, plays and turns, and may rewind the game, which handles all actions again. The
  convention is the record \<open>convention\<close> of the methods that it overrides (how a blank game and a copy are made and
  which cards its players think playable too); the interpreting methods are given the \<open>rewind\<close> of the game. An action
  that an interpretation marks (a clue that locks, a discard that was intentional) is kept as the last action: the marked
  clue is returned with the game, and so is whether a discard has been marked.
\<close>

section \<open>Single writes\<close>

definition set_thoughts :: "(card \<Rightarrow> card) \<Rightarrow> nat \<Rightarrow> player \<Rightarrow> player result" where
  "set_thoughts f ord p = bindR (need (slot (thoughts p) ord)) (\<lambda>c. Inr (p\<lparr>thoughts := put (thoughts p) ord (f c)\<rparr>))"

definition set_player :: "(player \<Rightarrow> player result) \<Rightarrow> nat \<Rightarrow> game \<Rightarrow> game result" where
  "set_player f i g =
     (if i < length (g_players g)
      then bindR (f (g_players g ! i)) (\<lambda>p. Inr (g\<lparr>g_players := (g_players g)[i := p]\<rparr>))
      else Inl TypeError)"

definition set_state :: "(game_state \<Rightarrow> game_state result) \<Rightarrow> game \<Rightarrow> game result" where
  "set_state f g = bindR (f (g_state g)) (\<lambda>s. Inr (g\<lparr>g_state := s\<rparr>))"

definition not_new :: "'a actual_card_scheme \<Rightarrow> 'a actual_card_scheme" where
  "not_new c = c\<lparr>newly_clued := False\<rparr>"

definition know_id :: "basic_card \<Rightarrow> card \<Rightarrow> card" where
  "know_id i c = c\<lparr>suit_index := suit_index i, rank := rank i\<rparr>"

text \<open>Removing the \<open>newly_clued\<close> flag of some orders, from the deck and everyone's thoughts.\<close>

definition clear_new :: "nat list \<Rightarrow> game \<Rightarrow> game result" where
  "clear_new os g =
     bindR (foldR (\<lambda>s ord. update_deck not_new ord s) (g_state g) os) (\<lambda>s.
     bindR (mapR (\<lambda>p. foldR (\<lambda>q ord. set_thoughts not_new ord q) p os) (g_players g)) (\<lambda>ps.
     bindR (foldR (\<lambda>q ord. set_thoughts not_new ord q) (common g) os) (\<lambda>c.
       Inr (g\<lparr>g_state := s, g_players := ps, common := c\<rparr>))))"

definition no_discards :: "game_state \<Rightarrow> game_state" where
  "no_discards s = s\<lparr>dda := None, discard_state := None\<rparr>"

section \<open>Handling an action\<close>

type_synonym rewinder = "game \<Rightarrow> int \<Rightarrow> action list \<Rightarrow> (game \<times> game option) result"

record convention =
  interpret_clue :: "rewinder \<Rightarrow> clue_action \<Rightarrow> game \<Rightarrow> (game \<times> clue_action) result"
  interpret_discard :: "rewinder \<Rightarrow> card_action \<Rightarrow> bool \<Rightarrow> game \<Rightarrow> (game \<times> bool) result"
  interpret_play :: "rewinder \<Rightarrow> card_action \<Rightarrow> game \<Rightarrow> game result"
  update_turn :: "rewinder \<Rightarrow> int \<Rightarrow> nat \<Rightarrow> game \<Rightarrow> game result"
  blank_of :: "game \<Rightarrow> game"
  copy_of :: "game \<Rightarrow> game result"
  playables_of :: "player \<Rightarrow> game_state \<Rightarrow> nat \<Rightarrow> think_options \<Rightarrow> nat list"

text \<open>The interpreting methods of the class itself are abstract: they throw.\<close>

definition abstract_convention :: convention where
  "abstract_convention =
     (let e = Thrown ''must be implemented by subclass!'' in
      \<lparr>interpret_clue = (\<lambda>rw a g. Inl e), interpret_discard = (\<lambda>rw a f g. Inl e), interpret_play = (\<lambda>rw a g. Inl e),
       update_turn = (\<lambda>rw n i g. Inl e), blank_of = create_blank_game, copy_of = minimal_copy_game,
       playables_of = thinks_playables\<rparr>)"

text \<open>Every action is logged under the turn it happens in, with our hand when we clue.\<close>

definition log_action :: "action \<Rightarrow> game \<Rightarrow> game" where
  "log_action a g =
     (let s = g_state g; t = nat (turn_count s);
          l = (case slot (action_list s) t of Some as \<Rightarrow> as | None \<Rightarrow> [])
      in g\<lparr>g_state := s\<lparr>action_list := put (action_list s) t (l @ [a])\<rparr>,
           hand_history := (case a of
               ClueAction ca \<Rightarrow> if ca_giver ca = our_player s then put (hand_history g) t (our_hand s) else hand_history g
             | _ \<Rightarrow> hand_history g)\<rparr>)"

definition handle_clue :: "convention \<Rightarrow> rewinder \<Rightarrow> clue_action \<Rightarrow> game \<Rightarrow> game result" where
  "handle_clue cv rw a g =
     bindR (interpret_clue cv rw a g) (\<lambda>(g1, a1).
       let g2 = g1\<lparr>last_actions := put (last_actions g1) (ca_giver a) (ClueAction a1),
                   g_state := no_discards (g_state g1)\<rparr>
       in bindR (clear_new (ca_list a) g2) (\<lambda>g3. Inr (g3\<lparr>next_ignore := [], next_finesse := []\<rparr>)))"

text \<open>The card that is discarded or played is shown to the deck, if it was unknown, and to its holder.\<close>

definition reveal_card :: "card_action \<Rightarrow> game \<Rightarrow> game result" where
  "reveal_card a g =
     bindR (need (slot (deck (g_state g)) (act_order a))) (\<lambda>d.
     bindR (if basic_identity d = None then set_state (update_deck (know_card (act_id a)) (act_order a)) g else Inr g) (\<lambda>g1.
       set_player (set_thoughts (know_id (act_id a)) (act_order a)) (act_player a) g1))"

definition handle_discard :: "convention \<Rightarrow> rewinder \<Rightarrow> card_action \<Rightarrow> bool \<Rightarrow> bool \<Rightarrow> game \<Rightarrow> game result" where
  "handle_discard cv rw a failed intended g =
     bindR (reveal_card a g) (\<lambda>g1.
     bindR (interpret_discard cv rw a failed (g1\<lparr>g_state := no_discards (g_state g1)\<rparr>)) (\<lambda>(g2, marked).
       Inr (g2\<lparr>last_actions := put (last_actions g2) (act_player a) (DiscardAction a failed (intended \<or> marked))\<rparr>)))"

definition handle_play :: "convention \<Rightarrow> rewinder \<Rightarrow> card_action \<Rightarrow> game \<Rightarrow> game result" where
  "handle_play cv rw a g =
     bindR (reveal_card a g) (\<lambda>g1.
     bindR (interpret_play cv rw a g1) (\<lambda>g2.
       Inr (g2\<lparr>last_actions := put (last_actions g2) (act_player a) (PlayAction a),
               g_state := no_discards (g_state g2)\<rparr>)))"

text \<open>The game starts when every hand is full. The sizes are those without the options of the table.\<close>

definition handle_draw :: "card_action \<Rightarrow> game \<Rightarrow> game result" where
  "handle_draw a g =
     bindR (on_draw g a) (\<lambda>g1.
       Inr (if turn_count (g_state g) = 0 \<and>
               list_all (\<lambda>h. int (length h) = hand_size_table ! num_players (g_state g)) (hands (g_state g1))
            then g1\<lparr>g_state := (g_state g1)\<lparr>turn_count := 1\<rparr>\<rparr> else g1))"

definition handle_turn :: "convention \<Rightarrow> rewinder \<Rightarrow> int \<Rightarrow> nat \<Rightarrow> game \<Rightarrow> game result" where
  "handle_turn cv rw num pl g =
     bindR (update_turn cv rw num pl (g\<lparr>g_state := (g_state g)\<lparr>current_player := pl, turn_count := num + 1\<rparr>\<rparr>)) update_notes"

text \<open>Identities that a rewind inserts.\<close>

definition handle_identify :: "nat \<Rightarrow> nat \<Rightarrow> basic_card list \<Rightarrow> bool \<Rightarrow> game \<Rightarrow> game result" where
  "handle_identify ord pl ids infer g =
     (let s = g_state g; us = our_player s;
          rewind_to = set_thoughts (\<lambda>c. c\<lparr>rewind_ids := Some (iset_union (base_ids s) (Ids ids))\<rparr>) ord in
      if pl \<ge> length (hands s) then Inl TypeError
      else if ord \<notin> set (hands s ! pl) then Inl (Thrown ''Could not find card to rewrite!'')
      else
        bindR (with_thoughts (common g) ord (\<lambda>c. [W_rewinded True] @
            (case ids of [i] \<Rightarrow> if infer then [] else [W_suit_index (suit_index i), W_rank (rank i)] | _ \<Rightarrow> [])) True) (\<lambda>com.
        bindR (if infer then set_player rewind_to us g else Inr g) (\<lambda>g1.
          let g2 = g1\<lparr>common := com\<rparr> in
        bindR (case ids of
              [i] \<Rightarrow> if infer then set_player rewind_to us g2
                else bindR (set_state (update_deck (know_card i) ord) g2) (set_player (set_thoughts (know_id i) ord) us)
            | _ \<Rightarrow> Inr g2) team_elim)))"

definition handle_ignore :: "nat \<Rightarrow> nat \<Rightarrow> basic_card option \<Rightarrow> game \<Rightarrow> game" where
  "handle_ignore index ord inference g =
     g\<lparr>next_ignore := put (next_ignore g) index
         ((case slot (next_ignore g) index of Some es \<Rightarrow> es | None \<Rightarrow> []) @ [(ord, inference)])\<rparr>"

definition handle_with :: "convention \<Rightarrow> rewinder \<Rightarrow> action \<Rightarrow> game \<Rightarrow> game result" where
  "handle_with cv rw a g =
     (let g0 = log_action a g in
      case a of
        ClueAction ca \<Rightarrow> handle_clue cv rw ca g0
      | DiscardAction ca failed intended \<Rightarrow> handle_discard cv rw ca failed intended g0
      | DrawAction ca \<Rightarrow> handle_draw ca g0
      | GameOverAction _ _ \<Rightarrow> Inr (g0\<lparr>in_progress := False\<rparr>)
      | TurnAction num pl \<Rightarrow> handle_turn cv rw num pl g0
      | PlayAction ca \<Rightarrow> handle_play cv rw ca g0
      | IdentifyAction ord pl ids infer \<Rightarrow> handle_identify ord pl ids infer g0
      | IgnoreAction index ord inference \<Rightarrow> Inr (handle_ignore index ord inference g0)
      | FinesseAction list cl \<Rightarrow> Inr (g0\<lparr>next_finesse := next_finesse g0 @ [(list, cl)]\<rparr>)
      | StatusAction _ _ _ \<Rightarrow> Inr g0)"

end
