(* ===== verification/Rewinds.thy ===== *)
theory Rewinds
  imports Actions
begin

text \<open>
  \<open>rewind\<close>, \<open>navigate\<close> and the simulations of \<open>src/src/basics/Game.js\<close>. A rewind blanks the game and handles every
  logged action again, with some inserted; the interpretation of a replayed action may rewind once more. The blank
  game keeps the number of rewinds, and a game that has rewound a hundred times throws, so the nesting is bounded:
  the fuel of \<open>handle_action\<close> is the bound on the nesting (see the theory \<open>Rewinds_Sound\<close>).
\<close>

section \<open>Rewinding\<close>

text \<open>The elements of an array of arrays that may have holes: \<open>flat\<close>.\<close>

definition flat_actions :: "action list option list \<Rightarrow> action list" where
  "flat_actions turns = concat (map (\<lambda>t. case t of Some as \<Rightarrow> as | None \<Rightarrow> []) turns)"

definition clean_actions :: "action list option list \<Rightarrow> action list option list" where
  "clean_actions = map (map_option (map clean_action))"

definition is_pivotal :: "action \<Rightarrow> bool" where
  "is_pivotal a = (case a of ClueAction _ \<Rightarrow> True | PlayAction _ \<Rightarrow> True | DiscardAction _ _ _ \<Rightarrow> True | _ \<Rightarrow> False)"

text \<open>The first clue, play or discard of the turn is marked as a mistake when it is a clue and a rewind is going on already.\<close>

fun mark_pivotal :: "bool \<Rightarrow> action list \<Rightarrow> action list" where
  "mark_pivotal b [] = []"
| "mark_pivotal b (a # as) =
     (if is_pivotal a then (case a of ClueAction ca \<Rightarrow> ClueAction (ca\<lparr>ca_mistake := b\<rparr>) | _ \<Rightarrow> a) # as
      else a # mark_pivotal b as)"

definition update_game :: "(action \<Rightarrow> game \<Rightarrow> game result) \<Rightarrow> game \<Rightarrow> action \<Rightarrow> game result" where
  "update_game h g a =
     (case a of
        DrawAction ca \<Rightarrow> if act_order ca \<in> set (hands (g_state g) ! act_player ca) then Inr g else h a g
      | _ \<Rightarrow> h a g)"

text \<open>An identification of a card that has not been drawn yet waits for its draw.\<close>

definition after_draw :: "(action \<Rightarrow> game \<Rightarrow> game result) \<Rightarrow> action \<Rightarrow> game \<times> action list \<Rightarrow> (game \<times> action list) result" where
  "after_draw h a acc =
     (case (a, snd acc) of
        (DrawAction ca, IdentifyAction ord pl ids infer # rest) \<Rightarrow>
          if act_order ca = ord then bindR (h (IdentifyAction ord pl ids infer) (fst acc)) (\<lambda>g. Inr (g, rest)) else Inr acc
      | _ \<Rightarrow> Inr acc)"

definition redo_action :: "(action \<Rightarrow> game \<Rightarrow> game result) \<Rightarrow> game \<times> action list \<Rightarrow> action \<Rightarrow> (game \<times> action list) result" where
  "redo_action h acc a = bindR (update_game h (fst acc) a) (\<lambda>g. after_draw h a (g, snd acc))"

definition insert_action :: "(action \<Rightarrow> game \<Rightarrow> game result) \<Rightarrow> game \<times> action list \<Rightarrow> action \<Rightarrow> (game \<times> action list) result" where
  "insert_action h acc a =
     (case a of
        IdentifyAction ord pl ids infer \<Rightarrow>
          if ord \<notin> set (hands (g_state (fst acc)) ! pl) then Inr (fst acc, snd acc @ [a]) else redo_action h acc a
      | _ \<Rightarrow> redo_action h acc a)"

text \<open>The replay: what was before, the inserted actions, what was after, and the last turn, which is no longer caught up.\<close>

definition replay_with :: "convention \<Rightarrow> (action \<Rightarrow> game \<Rightarrow> game result) \<Rightarrow> game \<Rightarrow> nat \<Rightarrow> action list \<Rightarrow> game result" where
  "replay_with cv h g index inserted =
     (let turns = action_list (g_state g); blank = (blank_of cv g)\<lparr>catchup := True, g_notes := []\<rparr> in
      bindR (foldR (update_game h) blank (flat_actions (take index turns))) (\<lambda>g1.
      bindR (foldR (insert_action h) (g1, []) inserted) (\<lambda>acc2.
      bindR (foldR (redo_action h) acc2 (flat_actions (drop index (butlast turns)))) (\<lambda>acc3.
      bindR (need (last turns)) (\<lambda>current.
      bindR (foldR (\<lambda>g a. h a g) ((fst acc3)\<lparr>catchup := catchup g\<rparr>) current) (\<lambda>g4.
        Inr (g4\<lparr>g_notes := g_notes g @ drop (length (g_notes g)) (g_notes g4)\<rparr>)))))))"

text \<open>The game that is rewound is changed, also when nothing is returned: it counts its rewinds, its actions are cleaned.\<close>

definition rewind_with :: "convention \<Rightarrow> (action \<Rightarrow> game \<Rightarrow> game result) \<Rightarrow> rewinder" where
  "rewind_with cv h g index inserted =
     (if rewind_off g then Inr (g, None)
      else
        let turns = clean_actions (action_list (g_state g));
            g1 = g\<lparr>rewinds := rewinds g + 1, g_state := (g_state g)\<lparr>action_list := turns\<rparr>\<rparr> in
        if rewinds g1 > 100 then Inl (Thrown ''Attempted to rewind too many times!'')
        else if rewind_depth g1 > 3 then Inl (Thrown ''Rewind depth went too deep!'')
        else if index < 0 \<or> index \<ge> int (length turns) then Inr (g1, None)
        else
          let g2 = g1\<lparr>rewind_depth := rewind_depth g1 + 1\<rparr> in
          bindR (need (slot turns (nat index))) (\<lambda>turn.
            if list_ex (\<lambda>a. a \<in> set inserted) turn then Inr (g2, None)
            else
              let marked = turns[nat index := Some (mark_pivotal (rewind_depth g2 > 1) turn)];
                  g3 = g2\<lparr>g_state := (g_state g2)\<lparr>action_list := marked\<rparr>\<rparr> in
              bindR (replay_with cv h g3 (nat index) inserted) (\<lambda>g'. Inr (g3, Some g'))))"

fun rewind_game :: "nat \<Rightarrow> convention \<Rightarrow> rewinder" where
  "rewind_game 0 cv = (\<lambda>g index inserted. Inl OutOfFuel)"
| "rewind_game (Suc fuel) cv = rewind_with cv (handle_with cv (rewind_game fuel cv))"

definition handle_action :: "convention \<Rightarrow> action \<Rightarrow> game \<Rightarrow> game result" where
  "handle_action cv = handle_with cv (rewind_game 102 cv)"

section \<open>Navigating\<close>

text \<open>An action past the end of the list is \<open>undefined\<close>, and handling it throws.\<close>

fun nav_draws :: "convention \<Rightarrow> game \<Rightarrow> action list \<Rightarrow> game result" where
  "nav_draws cv g [] = Inl TypeError"
| "nav_draws cv g (a # as) =
     (case a of DrawAction _ \<Rightarrow> bindR (handle_action cv a g) (\<lambda>g'. nav_draws cv g' as) | _ \<Rightarrow> Inr g)"

fun nav_until :: "convention \<Rightarrow> int \<Rightarrow> bool \<Rightarrow> game \<Rightarrow> action list \<Rightarrow> (game \<times> action list) result" where
  "nav_until cv turn strict g [] = (if turn_count (g_state g) < turn \<and> strict then Inl TypeError else Inr (g, []))"
| "nav_until cv turn strict g (a # as) =
     (if turn_count (g_state g) < turn then bindR (handle_action cv a g) (\<lambda>g'. nav_until cv turn strict g' as)
      else Inr (g, a # as))"

definition is_special :: "action \<Rightarrow> bool" where
  "is_special a = (case a of IdentifyAction _ _ _ _ \<Rightarrow> True | IgnoreAction _ _ _ \<Rightarrow> True | FinesseAction _ _ \<Rightarrow> True | _ \<Rightarrow> False)"

text \<open>The suggestion for our turn that is logged afterwards is left out.\<close>

definition navigate :: "convention \<Rightarrow> game \<Rightarrow> int \<Rightarrow> game result" where
  "navigate cv g turn =
     (let blank = (blank_of cv g)\<lparr>catchup := True, g_notes := []\<rparr>;
          turns = clean_actions (map (map_option (filter (\<lambda>a. \<not> is_special a))) (action_list (g_state g)));
          actions = flat_actions turns in
      bindR (if turn = 1 \<and> our_player (g_state blank) = 0 then nav_draws cv blank actions
             else bindR (nav_until cv (turn - 1) True blank actions) (\<lambda>(g1, rest).
                  bindR (nav_until cv turn False g1 rest) (\<lambda>(g2, _). Inr g2))) (\<lambda>g3.
        Inr (g3\<lparr>catchup := catchup g, g_state := (g_state g3)\<lparr>action_list := turns\<rparr>\<rparr>)))"

section \<open>Simulations\<close>

definition simulate_clean :: "convention \<Rightarrow> game \<Rightarrow> game result" where
  "simulate_clean cv g =
     bindR (copy_of cv g) (\<lambda>h.
       clear_new (all_orders (g_state g)) (h\<lparr>catchup := True, rewind_off := True\<rparr>))"

text \<open>A clue is only interpreted, an action is handled; after a play or a discard the player draws, if a card is left.\<close>

definition simulate_clue :: "convention \<Rightarrow> game \<Rightarrow> clue_action \<Rightarrow> game result" where
  "simulate_clue cv g a =
     bindR (simulate_clean cv g) (\<lambda>h.
     bindR (interpret_clue cv (rewind_game 102 cv) a h) (\<lambda>(h1, _).
       Inr (h1\<lparr>catchup := False, g_state := (g_state h1)\<lparr>turn_count := turn_count (g_state h1) + 1\<rparr>\<rparr>)))"

definition turn_and_draw :: "convention \<Rightarrow> game \<Rightarrow> nat \<Rightarrow> game \<Rightarrow> game result" where
  "turn_and_draw cv g pl h =
     bindR (handle_action cv (TurnAction (turn_count (g_state h)) pl) h) (\<lambda>h1.
       if cards_left (g_state h1) > 0 then
         let ord = nat (card_order (g_state h1) + 1);
             i = (case slot (deck_ids g) ord of Some i \<Rightarrow> i | None \<Rightarrow> mk_id (-1) (-1)) in
         handle_action cv (DrawAction \<lparr>act_order = ord, act_player = pl, act_suit = suit_index i, act_rank = rank i\<rparr>) h1
       else Inr h1)"

definition simulate_action :: "convention \<Rightarrow> game \<Rightarrow> action \<Rightarrow> game result" where
  "simulate_action cv g a =
     bindR (simulate_clean cv g) (\<lambda>h.
     bindR (handle_action cv a h) (\<lambda>h1.
     bindR (case a of
              PlayAction ca \<Rightarrow> turn_and_draw cv g (act_player ca) h1
            | DiscardAction ca _ _ \<Rightarrow> turn_and_draw cv g (act_player ca) h1
            | _ \<Rightarrow> Inr h1) (\<lambda>h2. Inr (h2\<lparr>catchup := False\<rparr>))))"

end
