(* ===== verification/Helpers.thy ===== *)
theory Helpers
  imports Thinking Rewinds
begin

text \<open>
  The rest of \<open>src/src/basics/helper.js\<close> (\<open>team_elimP\<close> is in the theory \<open>Game_Basics\<close>): whether a clue fixed a mistake
  (\<open>checkFix\<close>, which may rewind the game), the reset of superpositions, whether a player can be made to have a playable by
  playing what is known (\<open>connectable_simple\<close>), and distribution clues. \<open>checkFix\<close> also lowers a hypothetical stack and removes
  an entry of an array in place; the model changes the returned common knowledge only.
\<close>

section \<open>Fixes\<close>

text \<open>\<open>unknown_1\<close> of \<open>src/src/conventions/h-group/hanabi-logic.js\<close>.\<close>

definition unknown_1 :: "'a actual_card_scheme \<Rightarrow> bool \<Rightarrow> bool" where
  "unknown_1 c before_clue \<longleftrightarrow>
     (before_clue \<or> clues c \<noteq> []) \<and> list_all (\<lambda>cl. clue_kind cl = RankClue \<and> clue_value cl = 1) (clues c)"

record fix_result =
  fr_clued_resets :: "nat list"
  fr_all_resets :: "nat list"
  fr_duplicate_reveal :: "nat list"
  fr_rewinded :: bool
  fr_game :: game
  fr_before :: game

definition clue_reset :: "game \<Rightarrow> player \<Rightarrow> clue_action \<Rightarrow> nat \<Rightarrow> bool" where
  "clue_reset g old a ord \<longleftrightarrow>
     (let s = g_state g; c = card_at (common g) ord; oc = card_at old ord; cl = ca_clue a in
      (iset_length (inferred oc) > 0 \<and> iset_length (inferred c) = 0) \<or>
      (ord \<in> set (ca_list a) \<and> includes_variant s pinkish \<and> list_ex (\<lambda>k. k = 0) (hypo_stacks (common g)) \<and>
       \<not> focused oc \<and> unknown_1 oc False \<and> clue_kind cl = RankClue \<and> clue_value cl \<noteq> 1))"

definition rewind_reset :: "player \<Rightarrow> nat \<Rightarrow> bool" where
  "rewind_reset p ord \<longleftrightarrow>
     (let c = card_at p ord in
      \<not> rewinded c \<and> iset_length (possible c) = 1 \<and> dependent_connections p ord \<noteq> [])"

text \<open>A reset card must not regain the inference it had, which is given back to the other cards that lost it.\<close>

definition forget_elim :: "game_state \<Rightarrow> basic_card \<Rightarrow> nat \<Rightarrow> player \<Rightarrow> player" where
  "forget_elim s i ord p =
     (let h = log_id (variant s) i; k = nat (suit_index i);
          p' = p\<lparr>hypo_stacks := (hypo_stacks p)[k := min (hypo_stacks p ! k) (rank i - 1)]\<rparr> in
      case map_of (elims p') h of
        Some os \<Rightarrow> if ord \<in> set os then p'\<lparr>elims := AList.update h (splice1 os (index_of os ord)) (elims p')\<rparr> else p'
      | None \<Rightarrow> p')"

definition reset_ids :: "player \<Rightarrow> nat list \<Rightarrow> (basic_card \<times> nat) list" where
  "reset_ids old os =
     concat (map (\<lambda>ord. case identity infer_opts (card_at old ord) of Some i \<Rightarrow> [(i, ord)] | None \<Rightarrow> []) os)"

definition recheck_elims :: "game_state \<Rightarrow> player \<Rightarrow> nat list \<Rightarrow> player \<Rightarrow> player result" where
  "recheck_elims s old os p =
     (let ids = reset_ids old os in
      foldR (\<lambda>q i. restore_elim q s i) (fold (\<lambda>(i, ord). forget_elim s i ord) ids p) (map fst ids))"

definition repeats_last_clue :: "card \<Rightarrow> bool" where
  "repeats_last_clue c \<longleftrightarrow>
     length (filter (\<lambda>cl. clue_kind cl = clue_kind (last (clues c)) \<and> clue_value cl = clue_value (last (clues c))) (clues c)) > 1"

definition reveals_duplicate :: "game_state \<Rightarrow> player \<Rightarrow> player \<Rightarrow> clue_action \<Rightarrow> nat \<Rightarrow> bool" where
  "reveals_duplicate s old p a ord \<longleftrightarrow>
     (let c = card_at p ord in
      iset_length (possible c) \<noteq> iset_length (possible (card_at old ord)) \<and>
      (case identity no_opts c of
         None \<Rightarrow> False
       | Some i \<Rightarrow>
           \<not> repeats_last_clue c \<and>
           list_ex (\<lambda>o2. touched (card_at p o2) \<and> o2 \<noteq> ord) (visible_find s p i infer_opts [ca_giver a])))"

text \<open>The clued cards that lost all inferences are reset. A reset card that others wait for rewinds the game to its draw;
  the game that was checked is kept beside the rewound one.\<close>

definition finish_fix :: "game \<Rightarrow> player \<Rightarrow> clue_action \<Rightarrow> nat list \<Rightarrow> player \<Rightarrow> fix_result" where
  "finish_fix g old a resets com =
     (let s = g_state g in
      \<lparr>fr_clued_resets = filter (\<lambda>ord. ord \<in> set resets \<and> \<not> newly_clued (deck_at s ord)) (ca_list a),
       fr_all_resets = resets, fr_duplicate_reveal = filter (reveals_duplicate s old com a) (ca_list a),
       fr_rewinded = False, fr_game = g\<lparr>common := com\<rparr>, fr_before = g\<rparr>)"

definition rewound_fix :: "game \<Rightarrow> game \<Rightarrow> fix_result result" where
  "rewound_fix g0 g =
     bindR (update_notes g) (\<lambda>g'.
       Inr \<lparr>fr_clued_resets = [], fr_all_resets = [], fr_duplicate_reveal = [], fr_rewinded = True, fr_game = g',
         fr_before = g0\<rparr>)"

definition rewind_fix :: "rewinder \<Rightarrow> game \<Rightarrow> player \<Rightarrow> nat \<Rightarrow> (game \<times> game option) result" where
  "rewind_fix rw g com ord =
     (let c = card_at com ord in
      bindR (need (first_id (Some (possible c)))) (\<lambda>i.
        rw g (drawn_index c + 1) [IdentifyAction ord (nat (holder_of (g_state g) ord)) [i] False]))"

definition close_fix :: "player \<Rightarrow> clue_action \<Rightarrow> nat list \<Rightarrow> player \<Rightarrow> game \<times> game option \<Rightarrow> fix_result result" where
  "close_fix old a resets com gg =
     (case snd gg of
        Some g2 \<Rightarrow> rewound_fix (fst gg) g2
      | None \<Rightarrow> bindR (recheck_elims (g_state (fst gg)) old resets com) (\<lambda>c. Inr (finish_fix (fst gg) old a resets c)))"

definition check_fix :: "rewinder \<Rightarrow> game \<Rightarrow> player \<Rightarrow> clue_action \<Rightarrow> fix_result result" where
  "check_fix rw g old a =
     (let s = g_state g; resets = filter (clue_reset g old a) (hands s ! ca_target a) in
      bindR (foldR (\<lambda>p ord. set_thoughts reset_inferences ord p) (common g) resets) (\<lambda>c1.
      bindR (refresh_links c1 s) (\<lambda>c2.
        if resets = [] then Inr (finish_fix g old a resets c2)
        else
          bindR (case List.find (rewind_reset c2) resets of Some ord \<Rightarrow> rewind_fix rw g c2 ord | None \<Rightarrow> Inr (g, None))
            (close_fix old a resets c2))))"

section \<open>Superpositions\<close>

definition reset_superpositions :: "game \<Rightarrow> player result" where
  "reset_superpositions g =
     foldR (\<lambda>p ord. write_card p ord (\<lambda>d. [W_superposition False])) (common g) (all_orders (g_state g))"

section \<open>Distribution clues\<close>

text \<open>The option \<open>infer\<close> is given to \<open>some\<close> and not to \<open>matches\<close>, so it has no effect.\<close>

definition shared_elsewhere :: "game \<Rightarrow> nat \<Rightarrow> basic_card \<Rightarrow> bool" where
  "shared_elsewhere g target i \<longleftrightarrow>
     (let s = g_state g in
      list_ex (\<lambda>pl. pl \<noteq> target \<and>
        list_ex (\<lambda>ord. touched (card_at (common g) ord) \<and> matches no_opts (card_at (me g) ord) i) (hands s ! pl))
        [0..<length (hands s)])"

text \<open>Without a focus there is no new card, and the first condition returns before the focus is looked at.\<close>

definition distribution_clue :: "game \<Rightarrow> clue_action \<Rightarrow> nat option \<Rightarrow> iset option result" where
  "distribution_clue g a focus =
     (let s = g_state g; cl = ca_clue a in
      if (\<not> in_endgame s \<and> max_score s - score s > int (n_suits s)) \<or>
         \<not> list_ex (\<lambda>ord. newly_clued (deck_at s ord)) (ca_list a) then Inr None
      else
        bindR (need focus) (\<lambda>ord.
          let c = card_at (common g) ord;
              poss = filter (\<lambda>i. clue_kind cl = RankClue \<longrightarrow> rank i = clue_value cl) (iset_array (possible c));
              useful = filter (\<lambda>i. \<not> is_basic_trash s i) poss in
          if (case identity infer_opts c of Some i \<Rightarrow> is_basic_trash s i | None \<Rightarrow> False) then Inr None
          else if \<not> list_all (shared_elsewhere g (ca_target a)) useful then Inr None
          else
            let shared = fold (\<lambda>i acc. iset_union acc (AnId i)) useful (base_ids s) in
            Inr (if iset_length shared > 0 then Some shared else None)))"

section \<open>Connecting by playing what is known\<close>

text \<open>The turns go round from the start to the target, so that the number of players bounds the recursion.\<close>

fun connectable_simple :: "nat \<Rightarrow> convention \<Rightarrow> game \<Rightarrow> nat \<Rightarrow> nat \<Rightarrow> basic_card option \<Rightarrow> bool result" where
  "connectable_simple fuel cv g start target ident =
     (let s = g_state g; opts = default_think\<lparr>t_assume := Some False\<rparr> in
      if (case ident of Some i \<Rightarrow> is_playable s i | None \<Rightarrow> False) then Inr True
      else if start = target then Inr (playables_of cv (g_players g ! target) s target opts \<noteq> [])
      else
        (case fuel of
           0 \<Rightarrow> Inl OutOfFuel
         | Suc k \<Rightarrow>
             let nxt = next_player s start; p = g_players g ! start in
             bindR (foldR (\<lambda>found ord.
                 if found then Inr True
                 else
                   case identity infer_opts (card_at p ord) of
                     None \<Rightarrow> Inr False
                   | Some i \<Rightarrow>
                       bindR (simulate_action cv g
                           (PlayAction \<lparr>act_order = ord, act_player = start, act_suit = suit_index i, act_rank = rank i\<rparr>)) (\<lambda>g1.
                       bindR (simulate_action cv g1 (TurnAction (turn_count s) nxt)) (\<lambda>g2.
                         connectable_simple k cv g2 nxt target ident))) False (playables_of cv p s start opts)) (\<lambda>found.
               if found then Inr True else connectable_simple k cv g nxt target ident)))"

declare connectable_simple.simps [simp del]

section \<open>Facts\<close>

text \<open>Every reset card is in the hand that was clued, and every revealed duplicate has been clued.\<close>

lemma reset_ids_from: "e \<in> set (reset_ids old os) \<Longrightarrow> snd e \<in> set os"
  by (auto simp: reset_ids_def split: option.splits)

lemma finish_fix_in:
  "set (fr_all_resets (finish_fix g old a resets c)) = set resets"
  "set (fr_duplicate_reveal (finish_fix g old a resets c)) \<subseteq> set (ca_list a)"
  "set (fr_clued_resets (finish_fix g old a resets c)) \<subseteq> set (ca_list a) \<inter> set resets"
  by (auto simp: finish_fix_def Let_def)

lemma check_fix_sets:
  assumes "check_fix rw g old a = Inr r" "\<not> fr_rewinded r"
  shows "set (fr_all_resets r) \<subseteq> set (hands (g_state g) ! ca_target a)" "set (fr_duplicate_reveal r) \<subseteq> set (ca_list a)"
proof -
  define R where "R = filter (clue_reset g old a) (hands (g_state g) ! ca_target a)"
  have "fr_rewinded r \<or> (\<exists>g1 c. r = finish_fix g1 old a R c)"
    using assms(1) unfolding check_fix_def Let_def R_def [symmetric]
    by (cases "R = []") (auto simp: close_fix_def rewound_fix_def result_simps split: option.splits, blast+)
  with assms(2) obtain g1 c where r: "r = finish_fix g1 old a R c" by blast
  have "set R \<subseteq> set (hands (g_state g) ! ca_target a)" by (auto simp: R_def)
  with finish_fix_in [of g1 old a R c] r
  show "set (fr_all_resets r) \<subseteq> set (hands (g_state g) ! ca_target a)" "set (fr_duplicate_reveal r) \<subseteq> set (ca_list a)"
    by auto
qed

text \<open>The identities of a distribution clue are not trash and have a touched copy in another hand that is seen.\<close>

lemma distribution_shared:
  assumes "distribution_clue g a (Some ord) = Inr (Some ids)" "iset_length (base_ids (g_state g)) = 0"
  shows "\<exists>is. is \<noteq> [] \<and> ids = fold (\<lambda>i acc. iset_union acc (AnId i)) is (base_ids (g_state g)) \<and>
    (\<forall>i \<in> set is. i \<in> set (iset_array (possible (card_at (common g) ord))) \<and> \<not> is_basic_trash (g_state g) i \<and>
      shared_elsewhere g (ca_target a) i)"
  using assms
  by (auto simp: distribution_clue_def Let_def list_all_iff split: if_splits option.splits
      intro!: exI [of _ "filter (\<lambda>i. \<not> is_basic_trash (g_state g) i) (filter (\<lambda>i. clue_kind (ca_clue a) = RankClue \<longrightarrow> rank i = clue_value (ca_clue a))
         (iset_array (possible (card_at (common g) ord))))"])

end
