(* ===== verification/Sieve_Clues.thy ===== *)
theory Sieve_Clues
  imports Sieve_Players Helpers
begin

text \<open>
  \<open>src/src/conventions/ref-sieve/interpret-clue.js\<close>: a clue of the referential sieve. A new common knowledge is drafted for the
  interpretation, and what was recorded of the draft is applied to every player. The recorder of \<open>src/src/StateProxy.js\<close>
  only records what was written at the top of the drafted object (its test for nested patches never succeeds), so what
  a producer on a player records is its whole array of thoughts or of waiting connections (\<open>player_patch\<close>).
\<close>

section \<open>Patches of a player\<close>

datatype player_patch = Thoughts "card option list" | Waiting "waiting_connection list"

definition recorded_player :: "player \<Rightarrow> player \<Rightarrow> player_patch list" where
  "recorded_player p q =
     (if thoughts q \<noteq> thoughts p then [Thoughts (thoughts q)] else []) @
     (if waiting_connections q \<noteq> waiting_connections p then [Waiting (waiting_connections q)] else [])"

fun apply_player_patch :: "player_patch \<Rightarrow> player \<Rightarrow> player" where
  "apply_player_patch (Thoughts ts) p = p\<lparr>thoughts := ts\<rparr>"
| "apply_player_patch (Waiting ws) p = p\<lparr>waiting_connections := ws\<rparr>"

section \<open>The focus\<close>

definition newly_touched :: "game_state \<Rightarrow> nat list \<Rightarrow> nat list" where
  "newly_touched s os = filter (\<lambda>ord. newly_clued (deck_at s ord)) os"

text \<open>With a push the first of the sorted new cards: the least priority comes last, the others are taken from the right or
  from the left.\<close>

definition determine_focus :: "game_state \<Rightarrow> clue_action \<Rightarrow> bool \<Rightarrow> bool \<Rightarrow> nat option" where
  "determine_focus s a push right =
     (let new = newly_touched s (ca_list a); hand = hands s ! ca_target a in
      if push then
        (let least = (if right then find_last (\<lambda>ord. clued (deck_at s ord) \<and> \<not> newly_clued (deck_at s ord)) hand
                      else (case hand of [] \<Rightarrow> None | ord # _ \<Rightarrow> Some ord));
             others = filter (\<lambda>ord. Some ord \<noteq> least) new
         in if others = [] then (case new of [] \<Rightarrow> None | ord # _ \<Rightarrow> Some ord)
            else if right then min_order others else max_order others)
      else max_order new)"

record sieve_result =
  sr_common :: player
  sr_patches :: "player_patch list"
  sr_interp :: interp

definition no_clue :: "player \<Rightarrow> sieve_result" where
  "no_clue com = \<lparr>sr_common = com, sr_patches = [], sr_interp = No_Clue\<rparr>"

section \<open>Making a card playable\<close>

type_synonym focus_poss = "basic_card \<times> connection list"

text \<open>The identities of the inferences that can be connected, in the order of the set.\<close>

definition connected_poss :: "game \<Rightarrow> clue_action \<Rightarrow> nat \<Rightarrow> bool \<Rightarrow> focus_poss list result" where
  "connected_poss g a target unknown =
     bindR (mapR (\<lambda>i. bindR (connect g target i (ca_giver a) (ca_target a) unknown) (\<lambda>c. Inr (i, c)))
         (iset_array (inferred (card_at (common g) target)))) (\<lambda>found.
       Inr (concat (map (\<lambda>(i, c). case c of Some conns \<Rightarrow> [(i, conns)] | None \<Rightarrow> []) found)))"

text \<open>The inferences of a connecting card are those it had before the clue was interpreted: the first connection through it
  intersects them, the others add to it.\<close>

definition connect_writes :: "clue_action \<Rightarrow> int \<Rightarrow> iset \<Rightarrow> connection \<Rightarrow> card \<Rightarrow> card" where
  "connect_writes a turn infs conn d =
     (let ids = Ids (conn_identities conn);
          d1 = d\<lparr>inferred := (if superposition d then iset_union infs ids else iset_intersect infs ids), superposition := True\<rparr>
      in if conn_type conn = Finesse then
           (update_status (Some FINESSED) d1)\<lparr>first_touch := Some \<lparr>ft_giver = ca_giver a, ft_turn = turn\<rparr>, old_inferred := Some infs\<rparr>
         else d1)"

definition write_connection :: "clue_action \<Rightarrow> int \<Rightarrow> player \<Rightarrow> player \<Rightarrow> connection \<Rightarrow> player result" where
  "write_connection a turn orig p conn =
     bindR (need (slot (thoughts orig) (conn_order conn))) (\<lambda>c.
       set_thoughts (connect_writes a turn (inferred c) conn) (conn_order conn) p)"

text \<open>The connections that are waited for; the property \<open>target\<close> gets the order of the card.\<close>

definition new_waiting :: "clue_action \<Rightarrow> int \<Rightarrow> nat \<Rightarrow> basic_card option \<Rightarrow> focus_poss \<Rightarrow> waiting_connection list" where
  "new_waiting a turn target target_id fp =
     (case fp of (i, conns) \<Rightarrow>
        if conns = [] then []
        else [\<lparr>wc_connections = conns, wc_giver = ca_giver a, wc_target = target, wc_conn_index = 0, wc_turn = turn,
               wc_focus = target, wc_inference = i, wc_action_index = turn,
               wc_symmetric = (case target_id of Some t \<Rightarrow> \<not> basic_matches t i | None \<Rightarrow> False),
               wc_ambiguous_passback = False, wc_self_passback = False\<rparr>])"

definition target_writes :: "clue_action \<Rightarrow> int \<Rightarrow> nat \<Rightarrow> basic_card list \<Rightarrow> card \<Rightarrow> card \<Rightarrow> card" where
  "target_writes a turn target poss orig d =
     (let d1 = update_status (Some CALLED_TO_PLAY)
            (d\<lparr>inferred := (if superposition d then iset_union (inferred orig) (Ids poss) else iset_intersect (inferred orig) (Ids poss))\<rparr>);
          d2 = d1\<lparr>info_lock := Some (iset_intersect (possible orig) (Ids poss))\<rparr>;
          d3 = (if clued orig then d2 else d2\<lparr>first_touch := Some \<lparr>ft_giver = ca_giver a, ft_turn = turn\<rparr>\<rparr>);
          d4 = d3\<lparr>superposition := True\<rparr>
      in if target \<in> set (ca_list a) then d4\<lparr>focused := True\<rparr> else d4)"

definition same_id :: "basic_card option \<Rightarrow> focus_poss \<Rightarrow> bool" where
  "same_id target_id fp \<longleftrightarrow> (case target_id of Some t \<Rightarrow> basic_matches t (fst fp) | None \<Rightarrow> True)"

definition write_target_play :: "game \<Rightarrow> clue_action \<Rightarrow> nat \<Rightarrow> basic_card option \<Rightarrow> focus_poss list \<Rightarrow> player result" where
  "write_target_play g a target target_id fps =
     (let com = common g; turn = turn_count (g_state g) in
      bindR (foldR (write_connection a turn com) com (concat (map snd (filter (same_id target_id) fps)))) (\<lambda>c1.
      bindR (need (slot (thoughts com) target)) (\<lambda>orig.
        set_thoughts (target_writes a turn target (map fst fps) orig) target
          (c1\<lparr>waiting_connections := waiting_connections c1 @ concat (map (new_waiting a turn target target_id) fps)\<rparr>))))"

text \<open>\<open>None\<close> when the card cannot be played and its giver knows it.\<close>

definition target_play :: "game \<Rightarrow> clue_action \<Rightarrow> nat \<Rightarrow> (player \<times> player_patch list) option result" where
  "target_play g a target =
     (let s = g_state g; com = common g; c = card_at com target;
          unknown = (identity (infer_opts\<lparr>o_symmetric := Some True\<rparr>) c = None);
          target_id = (case identity no_opts c of Some i \<Rightarrow> Some i | None \<Rightarrow> deck_id s target) in
      bindR (connected_poss g a target unknown) (\<lambda>fps.
      bindR (case target_id of
               None \<Rightarrow> Inr (Some fps)
             | Some i \<Rightarrow>
                 if list_ex (\<lambda>fp. basic_matches i (fst fp)) fps then Inr (Some fps)
                 else if ca_giver a = our_player s then Inr None
                 else bindR (find_own_finesses g target i (ca_giver a) (ca_target a) unknown) (\<lambda>own.
                   Inr (case own of Some conns \<Rightarrow> Some (fps @ [(i, conns)]) | None \<Rightarrow> None))) (\<lambda>r.
        case r of
          None \<Rightarrow> Inr None
        | Some fps' \<Rightarrow>
            bindR (write_target_play g a target target_id fps') (\<lambda>c'.
              Inr (Some (c', Thoughts (thoughts c') #
                (if waiting_connections c' \<noteq> waiting_connections com then [Waiting (waiting_connections c')] else [])))))))"

definition played_result :: "player \<Rightarrow> interp \<Rightarrow> (player \<times> player_patch list) option \<Rightarrow> sieve_result" where
  "played_result com move r =
     (case r of Some (c, ps) \<Rightarrow> \<lparr>sr_common = c, sr_patches = ps, sr_interp = move\<rparr> | None \<Rightarrow> no_clue com)"

section \<open>Referential clues\<close>

text \<open>A card that refers past touched cards only never stops looking: the loop of \<open>refer\<close> does not end.\<close>

definition referred :: "game \<Rightarrow> clue_action \<Rightarrow> direction \<Rightarrow> nat list \<Rightarrow> nat list result" where
  "referred g a dir os =
     mapR (\<lambda>ord. case refer (common g) dir (hands (g_state g) ! ca_target a) ord of Some r \<Rightarrow> Inr r | None \<Rightarrow> Inl OutOfFuel) os"

definition ref_play :: "game \<Rightarrow> clue_action \<Rightarrow> bool \<Rightarrow> sieve_result result" where
  "ref_play g a right =
     (let com = common g in
      bindR (referred g a (if right then ToRight else ToLeft) (newly_touched (g_state g) (ca_list a))) (\<lambda>os.
      bindR (need (if right then min_order os else max_order os)) (\<lambda>target.
        if blind_playing (card_at com target) \<or> status (card_at com target) = Some CALLED_TO_DC then Inr (no_clue com)
        else bindR (target_play g a target) (\<lambda>r. Inr (played_result com Ref_Play r)))))"

definition focus_card :: "card \<Rightarrow> card" where
  "focus_card c = c\<lparr>focused := True\<rparr>"

definition first_unclued_after :: "game_state \<Rightarrow> nat list \<Rightarrow> nat \<Rightarrow> nat option" where
  "first_unclued_after s hand focus =
     map_option snd (List.find (\<lambda>(k, ord). int k > index_of hand focus \<and> \<not> clued (deck_at s ord)) (zip [0..<length hand] hand))"

text \<open>Without a card to discard the hand is locked: every card without a status is chop moved.\<close>

definition lock_card :: "player \<Rightarrow> player \<Rightarrow> nat \<Rightarrow> player result" where
  "lock_card orig p ord =
     bindR (need (slot (thoughts orig) ord)) (\<lambda>c.
       if status c = None then set_thoughts (update_status (Some CM)) ord p else Inr p)"

definition ref_discard :: "game \<Rightarrow> clue_action \<Rightarrow> sieve_result result" where
  "ref_discard g a =
     (let s = g_state g; com = common g; hand = hands s ! ca_target a in
      bindR (need (determine_focus s a False False)) (\<lambda>focus.
      bindR (case first_unclued_after s hand focus of
               None \<Rightarrow> bindR (foldR (lock_card com) com hand) (\<lambda>c. Inr (c, Lock))
             | Some target \<Rightarrow> bindR (set_thoughts (update_status (Some CALLED_TO_DC)) target com) (\<lambda>c. Inr (c, Ref_Dc))) (\<lambda>(c, move).
      bindR (set_thoughts focus_card focus c) (\<lambda>c'.
        Inr \<lparr>sr_common = c', sr_patches = recorded_player com c', sr_interp = move\<rparr>))))"

section \<open>The interpretation\<close>

definition reveal_distribution :: "game \<Rightarrow> nat \<Rightarrow> sieve_result result" where
  "reveal_distribution g intent =
     (let s = g_state g in
      bindR (set_thoughts (\<lambda>c. c\<lparr>inferred := iset_intersect (inferred c) (Ids (filter (\<lambda>i. \<not> is_basic_trash s i) (iset_array (inferred c)))),
          certain_finessed := True, reset := False\<rparr>) intent (common g)) (\<lambda>c.
        Inr \<lparr>sr_common = c, sr_patches = [Thoughts (thoughts c)], sr_interp = Reveal\<rparr>))"

text \<open>The card that a distribution clue is about.\<close>

definition intent_of :: "game \<Rightarrow> clue_action \<Rightarrow> nat list \<Rightarrow> nat option result" where
  "intent_of g a new =
     (if clue_kind (ca_clue a) = ColourClue then bindR (referred g a ToLeft new) (\<lambda>os. Inr (max_order os))
      else Inr (determine_focus (g_state g) a False False))"

text \<open>What was known before the clue.\<close>

definition prev_loaded :: "game \<Rightarrow> nat \<Rightarrow> nat list \<Rightarrow> bool" where
  "prev_loaded g target fixed \<longleftrightarrow>
     (let s = g_state g; com = common g in
      thinks_trash com s target \<noteq> [] \<or>
      list_ex (\<lambda>ord. status (card_at com ord) = Some CALLED_TO_DC) (hands s ! target) \<or>
      list_ex (\<lambda>ord. ord \<notin> set fixed) (sieve_playables com s target (default_think\<lparr>t_symmetric := True\<rparr>)))"

definition reclue :: "game \<Rightarrow> clue_action \<Rightarrow> sieve_result result" where
  "reclue g a =
     bindR (need (max_order (ca_list a))) (\<lambda>target.
     bindR (target_play g a target) (\<lambda>r. Inr (played_result (common g) Reclue r)))"

definition reveal_action :: "game \<Rightarrow> clue_action \<Rightarrow> bool \<Rightarrow> nat list \<Rightarrow> nat list \<Rightarrow> sieve_result result" where
  "reveal_action g a fix_clue new new_playables =
     (if \<not> fix_clue \<and> clue_kind (ca_clue a) = RankClue \<and> list_all (\<lambda>ord. ord \<in> set new) new_playables then
        bindR (need (max_order new)) (\<lambda>focus.
        bindR (set_thoughts focus_card focus (common g)) (\<lambda>c.
          Inr \<lparr>sr_common = c, sr_patches = recorded_player (common g) c, sr_interp = Reveal\<rparr>))
      else Inr \<lparr>sr_common = common g, sr_patches = [], sr_interp = Reveal\<rparr>)"

definition read_clue :: "game \<Rightarrow> game \<Rightarrow> clue_action \<Rightarrow> nat list \<Rightarrow> nat list \<Rightarrow> bool \<Rightarrow> sieve_result result" where
  "read_clue prev g a new fixed trash_push =
     (let s = g_state g; target = ca_target a; fix_clue = (fixed \<noteq> []); kind = clue_kind (ca_clue a);
          prev_playables = sieve_playables (common prev) (g_state prev) target (default_think\<lparr>t_symmetric := True\<rparr>);
          new_playables = filter (\<lambda>ord. ord \<notin> set prev_playables) (sieve_playables (common g) s target default_think);
          loaded = loaded_by sieve_playables (common g) s target default_think in
      if \<not> fix_clue \<and> prev_loaded prev target fixed then
        (if new \<noteq> [] then ref_play g a (kind = RankClue \<and> \<not> trash_push) else reclue g a)
      else if new = [] then
        (if loaded then Inr \<lparr>sr_common = common g, sr_patches = [], sr_interp = Reveal\<rparr> else reclue g a)
      else if trash_push then ref_play g a False
      else if fix_clue \<or> (loaded \<and> \<not> (kind = ColourClue \<and> list_all (\<lambda>ord. ord \<in> set new) new_playables)) then
        reveal_action g a fix_clue new new_playables
      else if kind = ColourClue then ref_play g a False
      else ref_discard g a)"

definition sieve_reading :: "game \<Rightarrow> game \<Rightarrow> clue_action \<Rightarrow> nat list \<Rightarrow> nat list \<Rightarrow> bool \<Rightarrow> sieve_result result" where
  "sieve_reading prev g a new fixed trash_push =
     bindR (if fixed = [] \<and> \<not> trash_push then
              bindR (intent_of g a new) (\<lambda>intent.
              bindR (distribution_clue g a intent) (\<lambda>d. Inr (if d = None then None else intent)))
            else Inr None) (\<lambda>dist.
       case dist of
         Some intent \<Rightarrow> reveal_distribution g intent
       | None \<Rightarrow> read_clue prev g a new fixed trash_push)"

section \<open>Telling the players\<close>

definition tell_patches :: "player \<Rightarrow> player \<Rightarrow> player result" where
  "tell_patches com p =
     bindR (foldR (merge_patch com p) p (patches com)) (\<lambda>q. Inr (q\<lparr>waiting_connections := waiting_connections com\<rparr>))"

definition tell_player :: "game_state \<Rightarrow> player_patch list \<Rightarrow> player \<Rightarrow> player result" where
  "tell_player s ps p =
     bindR (good_touch_elim (fold apply_player_patch ps p) s (num_players s = 2)) (\<lambda>q1.
     bindR (refresh_links q1 s) (\<lambda>q2. update_hypo_stacks q2 s None))"

definition record_move :: "interp \<Rightarrow> game \<Rightarrow> game" where
  "record_move move g =
     g\<lparr>own := (own g)\<lparr>move_history := move_history (own g) @ [(turn_count (g_state g), move)]\<rparr>\<rparr>"

definition finish_clue :: "game \<Rightarrow> sieve_result \<Rightarrow> game result" where
  "finish_clue g r =
     (let s = g_state g; g1 = record_move (sr_interp r) g in
      if sr_interp r = No_Clue then Inr (g1\<lparr>common := sr_common r\<rparr>)
      else
        bindR (good_touch_elim (sr_common r) s False) (\<lambda>c1.
        bindR (refresh_links c1 s) (\<lambda>c2.
        bindR (update_hypo_stacks c2 s None) (\<lambda>c3.
        bindR (mapR (tell_patches c3) (g_players g1)) (\<lambda>ps1.
        bindR (mapR (tell_player s (sr_patches r)) ps1) (\<lambda>ps2.
          Inr (g1\<lparr>common := c3\<lparr>patches := []\<rparr>, g_players := ps2\<rparr>)))))))"

definition after_fix :: "game \<Rightarrow> clue_action \<Rightarrow> fix_result \<Rightarrow> (game \<times> clue_action) result" where
  "after_fix prev a r =
     (if fr_rewinded r then Inr (fr_game r, a)
      else
        let s = g_state (fr_game r); new = filter (\<lambda>ord. \<not> clued (deck_at (g_state prev) ord)) (ca_list a);
            fixed = to_set (fr_all_resets r @ fr_duplicate_reveal r) in
        bindR (good_touch_elim (common (fr_game r)) s False) (\<lambda>c1.
        bindR (refresh_links c1 s) (\<lambda>c2.
          let g2 = (fr_game r)\<lparr>common := c2\<rparr>;
              trash_push = (fixed = [] \<and>
                list_all (\<lambda>ord. list_all (is_basic_trash s) (iset_array (possible (card_at c2 ord)))) new) in
        bindR (sieve_reading prev g2 a new fixed trash_push) (\<lambda>res.
        bindR (finish_clue g2 res) (\<lambda>g3. Inr (g3, a))))))"

definition sieve_clue :: "rewinder \<Rightarrow> clue_action \<Rightarrow> game \<Rightarrow> (game \<times> clue_action) result" where
  "sieve_clue rw a g =
     bindR (on_clue g a) (\<lambda>g1. bindR (check_fix rw g1 (common g) a) (after_fix g a))"

section \<open>Facts\<close>

text \<open>A card that is called to be played records the whole array of thoughts.\<close>

lemma target_play_patches:
  assumes "target_play g a target = Inr (Some (c, ps))"
  shows "ps = [Thoughts (thoughts c)] \<or> ps = [Thoughts (thoughts c), Waiting (waiting_connections c)]"
proof -
  have "\<exists>(m :: focus_poss list option result) f. target_play g a target = bindR m (\<lambda>r. case r of None \<Rightarrow> Inr None
      | Some fps' \<Rightarrow> bindR (f fps') (\<lambda>c'. Inr (Some (c', Thoughts (thoughts c') #
          (if waiting_connections c' \<noteq> waiting_connections (common g) then [Waiting (waiting_connections c')] else [])))))"
    unfolding target_play_def Let_def bindR_assoc [symmetric] by (intro exI) (rule refl)
  with assms show ?thesis by (elim exE) (auto simp: result_simps split: option.splits if_splits)
qed

end
