(* ===== verification/Sarcastics.thy ===== *)
theory Sarcastics
  imports Thinking
begin

text \<open>
  \<open>src/src/conventions/shared/sarcastic.js\<close>: a player who knows that a partner holds a copy of a card may discard it, and
  the partner's copy is then known, or is one of several linked cards. The playables of the convention's players are
  an argument.
\<close>

section \<open>The targets\<close>

definition known_sarcastic :: "player \<Rightarrow> basic_card \<Rightarrow> nat \<Rightarrow> bool" where
  "known_sarcastic p i ord \<longleftrightarrow> matches (infer_opts\<lparr>o_symmetric := Some True\<rparr>) (card_at p ord) i"

definition could_be_sarcastic :: "player \<Rightarrow> basic_card \<Rightarrow> nat \<Rightarrow> bool" where
  "could_be_sarcastic p i ord \<longleftrightarrow>
     (let c = card_at p ord in
      (clued c \<or> hidden c) \<and> iset_has (possible c) i \<and>
      \<not> (iset_length (inferred c) = 1 \<and>
         (case first_id (Some (inferred c)) of Some j \<Rightarrow> rank j < rank i | None \<Rightarrow> False)) \<and>
      (case info_lock c of None \<Rightarrow> True | Some l \<Rightarrow> iset_has l i))"

definition find_sarcastics :: "game_state \<Rightarrow> nat \<Rightarrow> player \<Rightarrow> basic_card \<Rightarrow> nat list" where
  "find_sarcastics s pl p i =
     (let kn = filter (known_sarcastic p i) (hands s ! pl)
      in if kn \<noteq> [] then kn else filter (could_be_sarcastic p i) (hands s ! pl))"

section \<open>The transfer\<close>

text \<open>One of several cards: the identity is added to what they may be, and a promised link records that one of them is it.\<close>

definition regain_id :: "basic_card \<Rightarrow> player \<Rightarrow> nat \<Rightarrow> player result" where
  "regain_id i p ord = write_card p ord (\<lambda>d. [W_inferred (iset_union (inferred d) (AnId i)), W_trash False])"

definition promise_link :: "nat list \<Rightarrow> basic_card \<Rightarrow> player \<Rightarrow> player" where
  "promise_link os i p =
     p\<lparr>links := links p @ [\<lparr>l_orders = os, l_identities = [i], l_promised = True, l_target = None\<rparr>]\<rparr>"

definition apply_unknown_sarcastic :: "game_state \<Rightarrow> player \<Rightarrow> nat list \<Rightarrow> basic_card \<Rightarrow> player result" where
  "apply_unknown_sarcastic s com os i =
     bindR (foldR (regain_id i) com os) (\<lambda>c1.
       let c2 = (if os \<noteq> [] then promise_link os i c1 else c1) in
       Inr (if os = [] \<or> list_ex (\<lambda>ord. list_ex (\<lambda>j. playable_away s j > 0) (iset_array (inferred (card_at c2 ord)))) os
            then undo_hypo_stacks c2 i else c2))"

definition chop_move :: "player \<Rightarrow> nat \<Rightarrow> player result" where
  "chop_move p ord =
     bindR (need (slot (thoughts p) ord)) (\<lambda>c.
       if status c = None then write_card p ord (status_writes CM) else Inr p)"

definition apply_locked_discard :: "game_state \<Rightarrow> player \<Rightarrow> nat \<Rightarrow> player result" where
  "apply_locked_discard s com pl = foldR chop_move com (hands s ! next_player s pl)"

text \<open>The card is known: it is nothing but the identity.\<close>

definition only_id :: "game_state \<Rightarrow> basic_card \<Rightarrow> iset" where
  "only_id s i = iset_union (base_ids s) (AnId i)"

text \<open>A discard in a locked hand with two players locks the other, unless the last action of the other was a lock. The
  mark is read from the last action, which must exist.\<close>

definition is_lock :: "action \<Rightarrow> bool" where
  "is_lock a = (case a of ClueAction ca \<Rightarrow> ca_lock ca | _ \<Rightarrow> False)"

definition locked_discard_of :: "playables_fun \<Rightarrow> game \<Rightarrow> nat \<Rightarrow> bool result" where
  "locked_discard_of playables g pl =
     (let s = g_state g in
      if num_players s = 2 \<and> locked_by playables (common g) s pl False then
        bindR (need (slot (last_actions g) (next_player s pl))) (\<lambda>a. Inr (\<not> is_lock a))
      else Inr False)"

definition unknown_transfer :: "game_state \<Rightarrow> bool \<Rightarrow> nat \<Rightarrow> basic_card \<Rightarrow> nat list \<Rightarrow> player \<Rightarrow> player result" where
  "unknown_transfer s lock pl i os com =
     bindR (apply_unknown_sarcastic s com os i) (\<lambda>c. if lock then apply_locked_discard s c pl else Inr c)"

definition receivers :: "game_state \<Rightarrow> nat \<Rightarrow> nat list" where
  "receivers s pl = filter (\<lambda>r. r \<noteq> pl) (map (\<lambda>k. (our_player s + k) mod num_players s) [0..<num_players s])"

definition sees_sarcastic :: "game \<Rightarrow> basic_card \<Rightarrow> nat \<Rightarrow> bool" where
  "sees_sarcastic g i r \<longleftrightarrow>
     (let s = g_state g in
      list_ex (\<lambda>ord. matches (no_opts\<lparr>o_infer := Some (r = our_player s)\<rparr>) (card_at (me g) ord) i)
        (find_sarcastics s r (common g) i))"

text \<open>The game stays as it is but for common knowledge, which is returned with the targets.\<close>

definition interpret_sarcastic :: "playables_fun \<Rightarrow> game \<Rightarrow> nat \<Rightarrow> basic_card \<Rightarrow> (player \<times> nat list) result" where
  "interpret_sarcastic playables g pl i =
     (let s = g_state g; com = common g in
      bindR (locked_discard_of playables g pl) (\<lambda>lock.
        if visible_find s (me g) i no_opts [] = [] then
          if pl = our_player s then Inr (com, [])
          else
            let os = find_sarcastics s (our_player s) (me g) i in
            bindR (case os of
                [ord] \<Rightarrow> write_card com ord (\<lambda>d. [W_inferred (only_id s i), W_trash False])
              | _ \<Rightarrow> unknown_transfer s lock pl i os com) (\<lambda>c. Inr (c, os))
        else case List.find (sees_sarcastic g i) (receivers s pl) of
            None \<Rightarrow> Inr (com, [])
          | Some r \<Rightarrow>
              let os = find_sarcastics s r com i in
              bindR (case os of
                  [ord] \<Rightarrow> write_card com ord (\<lambda>d. [W_inferred (only_id s i)])
                | _ \<Rightarrow> unknown_transfer s lock pl i os com) (\<lambda>c. Inr (c, os))))"

section \<open>Facts\<close>

text \<open>The targets are in the hand of the receiver, never in that of the player who discarded, and they may be the card.\<close>

lemma find_sarcastics_hand: "ord \<in> set (find_sarcastics s pl p i) \<Longrightarrow> ord \<in> set (hands s ! pl)"
  by (auto simp: find_sarcastics_def Let_def split: if_splits)

lemma find_sarcastics_may:
  assumes "ord \<in> set (find_sarcastics s pl p i)"
  shows "known_sarcastic p i ord \<or> iset_has (possible (card_at p ord)) i"
  using assms by (auto simp: find_sarcastics_def could_be_sarcastic_def Let_def split: if_splits)

lemma receivers_not_self: "r \<in> set (receivers s pl) \<Longrightarrow> r \<noteq> pl \<and> r < num_players s"
  by (auto simp: receivers_def)

lemma interpret_sarcastic_targets:
  assumes "interpret_sarcastic playables g pl i = Inr (c, os)" "os \<noteq> []" "our_player (g_state g) < num_players (g_state g)"
  shows "\<exists>r. r \<noteq> pl \<and> r < num_players (g_state g) \<and> set os \<subseteq> set (hands (g_state g) ! r)"
proof (cases "visible_find (g_state g) (me g) i no_opts [] = []")
  case True
  with assms have "our_player (g_state g) \<noteq> pl"
    "os = find_sarcastics (g_state g) (our_player (g_state g)) (me g) i"
    by (auto simp: interpret_sarcastic_def Let_def result_simps split: if_splits)
  with assms(3) find_sarcastics_hand show ?thesis by blast
next
  case False
  with assms(1,2) obtain r where r: "List.find (sees_sarcastic g i) (receivers (g_state g) pl) = Some r"
    "os = find_sarcastics (g_state g) r (common g) i"
    by (auto simp: interpret_sarcastic_def Let_def result_simps split: option.splits)
  from find_SomeD [OF r(1)] receivers_not_self [of r "g_state g" pl] find_sarcastics_hand r(2)
  show ?thesis by blast
qed

end
