(* ===== verification/Waiting_Conns.thy ===== *)
theory Waiting_Conns
  imports Helpers
begin

text \<open>
  Waiting connections, which both conventions resolve after a turn (\<open>src/src/conventions/ref-sieve/update-turn.js\<close>,
  \<open>src/src/conventions/h-group/update-wcs.js\<close>): taking back the notes of a connection, and where it goes on.
\<close>

section \<open>Taking back\<close>

text \<open>The notes of a waiting connection are taken back: what a finesse or a prompt added is subtracted, and a card that loses
  everything gets its old inferences back.\<close>

definition removed_inferences :: "connection \<Rightarrow> card \<Rightarrow> iset" where
  "removed_inferences conn c =
     (if conn_type conn = Finesse \<or> conn_type conn = Prompt then
        (if hidden c then iset_intersect (inferred c) (Ids []) else iset_subtract (inferred c) (Ids (conn_identities conn)))
      else inferred c)"

definition removal_writes :: "connection \<Rightarrow> card \<Rightarrow> card_write list" where
  "removal_writes conn c =
     (let infs = removed_inferences conn c; lost = (\<not> superposition c \<and> iset_length infs = 0) in
      (case old_inferred c of
         Some old \<Rightarrow>
           if lost then [W_inferred (iset_intersect old (ASet (possible c)))]
           else if conn_type conn = Finesse \<or> conn_type conn = Prompt then [W_inferred infs] else []
       | None \<Rightarrow> if conn_type conn = Finesse \<or> conn_type conn = Prompt then [W_inferred infs] else []) @
      (if lost then
         revert_writes c @ [W_hidden False] @
         (if old_inferred c \<noteq> None then [W_superposition True, W_no_old_inferred] else [])
       else []))"

definition remove_finesse_conns :: "player \<Rightarrow> waiting_connection \<Rightarrow> player result" where
  "remove_finesse_conns com wc =
     bindR (if wc_symmetric wc then Inr com
            else foldR (\<lambda>p conn. write_card p (conn_order conn) (removal_writes conn)) com (wc_connections wc)) (\<lambda>c1.
     bindR (need (slot (thoughts c1) (wc_focus wc))) (\<lambda>f.
     bindR (if iset_length (possible f) > 1
            then write_card c1 (wc_focus wc) (\<lambda>d. [W_inferred (iset_subtract (inferred d) (AnId (wc_inference wc)))])
            else Inr c1) (\<lambda>c2.
       let d = card_at c2 (wc_focus wc) in
       if iset_length (inferred d) = 0 \<and> \<not> reset d then set_thoughts reset_inferences (wc_focus wc) c2 else Inr c2)))"

section \<open>Going on\<close>

definition current_conn :: "waiting_connection \<Rightarrow> connection option" where
  "current_conn wc =
     (if wc_conn_index wc < length (wc_connections wc) then Some (wc_connections wc ! wc_conn_index wc) else None)"

definition is_play :: "action option \<Rightarrow> bool" where
  "is_play la = (case la of Some (PlayAction _) \<Rightarrow> True | _ \<Rightarrow> False)"

text \<open>The player played another card that was finessed earlier, or jumped ahead in a layered finesse.\<close>

definition older_finesse :: "player \<Rightarrow> nat \<Rightarrow> nat \<Rightarrow> bool" where
  "older_finesse com played ord \<longleftrightarrow>
     (let c = card_at com played; e = card_at com ord in
      blind_playing c \<and>
      (finesse_index c < finesse_index e \<or> (hidden e \<and> clued e \<and> finesse_index c = finesse_index e)))"

text \<open>A connection that was played goes on with the next card that is still held.\<close>

definition next_conn_index :: "game_state \<Rightarrow> waiting_connection \<Rightarrow> nat option" where
  "next_conn_index s wc =
     List.find (\<lambda>k. let conn = wc_connections wc ! k in
         k > wc_conn_index wc \<and> conn_order conn \<in> set (hands s ! conn_reacting conn)) [0..<length (wc_connections wc)]"

end
