(* ===== verification/Sieve_Moves.thy ===== *)
theory Sieve_Moves
  imports Sieve_Players Sarcastics Waiting_Conns
begin

text \<open>
  Plays, discards and turns in the referential sieve: \<open>src/src/conventions/ref-sieve/interpret-play.js\<close>,
  \<open>src/src/conventions/ref-sieve/interpret-discard.js\<close> and \<open>src/src/conventions/ref-sieve/update-turn.js\<close>.
\<close>

section \<open>Plays\<close>

text \<open>The cards of a list from the oldest inference to the newest. A card without a turn of reasoning compares as neither older nor
  newer (\<open>NaN\<close>); where that makes the order undefined in the language, the model takes that of an insertion sort.\<close>

definition reasoned_after :: "player \<Rightarrow> nat \<Rightarrow> nat \<Rightarrow> bool" where
  "reasoned_after com a b \<longleftrightarrow>
     (let ra = reasoning_turn (card_at com a); rb = reasoning_turn (card_at com b) in
      ra \<noteq> [] \<and> rb \<noteq> [] \<and> last ra > last rb)"

definition oldest_first :: "player \<Rightarrow> nat list \<Rightarrow> nat list" where
  "oldest_first com os = js_sort (reasoned_after com) os"

text \<open>The loop runs through the locked hand from the oldest card and skips as many connections as the unlock has been put off.\<close>

fun find_unlock :: "player \<Rightarrow> basic_card \<Rightarrow> nat list \<Rightarrow> int \<Rightarrow> int \<Rightarrow> nat list \<Rightarrow> nat option" where
  "find_unlock com i possible_matches put_off shifts [] = None"
| "find_unlock com i possible_matches put_off shifts (ord # os) =
     (let c = card_at com ord in
      if iset_has (inferred c) i \<and>
         (possible_matches = [] \<or> order c \<in> set possible_matches \<or> shifts \<ge> int (length possible_matches)) then
        (if shifts < put_off then find_unlock com i possible_matches put_off (shifts + 1) os else Some (order c))
      else find_unlock com i possible_matches put_off shifts os)"

definition clued_like :: "game_state \<Rightarrow> basic_card \<Rightarrow> nat \<Rightarrow> bool" where
  "clued_like s i ord \<longleftrightarrow>
     (let d = deck_at s ord in
      clued d \<and> list_ex (\<lambda>cl. if clue_kind cl = RankClue then clue_value cl = rank i else clue_value cl = suit_index i) (clues d))"

text \<open>A known connecting card unlocks; the order 0 counts as none.\<close>

definition unlock_promise :: "game \<Rightarrow> card_action \<Rightarrow> nat \<Rightarrow> nat \<Rightarrow> int \<Rightarrow> nat option" where
  "unlock_promise g a unlocked locked put_off =
     (let s = g_state g; com = common g; nxt = mk_id (act_suit a) (act_rank a + 1);
          sorted = oldest_first com (sieve_playables com s unlocked default_think); hand = hands s ! locked in
      if identity infer_opts (card_at com (act_order a)) = None then None
      else if thinks_trash com s unlocked = [] \<and>
              filter (\<lambda>ord. status (card_at com ord) = Some CALLED_TO_DC) (hands s ! unlocked) = [] \<and>
              (case sorted of ord # _ \<Rightarrow> act_order a = ord | [] \<Rightarrow> False) then None
      else
        case List.find (\<lambda>ord. matches infer_opts (card_at com ord) nxt) hand of
          Some (Suc k) \<Rightarrow> Some (Suc k)
        | _ \<Rightarrow> find_unlock com nxt (filter (clued_like s nxt) hand) put_off 0 (rev hand))"

abbreviation shifts_of :: "game \<Rightarrow> int option list" where
  "shifts_of g \<equiv> locked_shifts (own g)"

definition set_shifts :: "int option list \<Rightarrow> game \<Rightarrow> game" where
  "set_shifts xs g = g\<lparr>own := (own g)\<lparr>locked_shifts := xs\<rparr>\<rparr>"

definition bump_shift :: "int option list \<Rightarrow> nat \<Rightarrow> int option list" where
  "bump_shift xs ord = put xs ord ((case slot xs ord of Some k \<Rightarrow> k | None \<Rightarrow> 0) + 1)"

text \<open>A card that unlocks is written with the connecting identity, unless the unlocked player may hold it as well.\<close>

definition write_unlock :: "game \<Rightarrow> card_action \<Rightarrow> nat \<Rightarrow> nat \<Rightarrow> game result" where
  "write_unlock g a other ord =
     (let s = g_state g; com = common g; nxt = mk_id (act_suit a) (act_rank a + 1); c = card_at com ord in
      if list_ex (\<lambda>o2. case identity infer_opts (card_at com o2) of Some j \<Rightarrow> basic_matches j nxt | None \<Rightarrow> False)
           (hands s ! act_player a) \<and>
         list_ex (\<lambda>o2. list_ex (\<lambda>j. suit_index j = act_suit a \<and> rank j > act_rank a + 1) (iset_array (inferred (card_at com o2))))
           (hands s ! other) then Inr g
      else if \<not> iset_has (inferred c) nxt then
        (if iset_has (possible c) nxt then
           bindR (write_card com ord (\<lambda>d. [W_inferred (iset_create (n_suits s) (AnId nxt))])) (\<lambda>com'. Inr (g\<lparr>common := com'\<rparr>))
         else Inr g)
      else
        bindR (write_card com ord (\<lambda>d. [W_inferred (iset_intersect (inferred c) (AnId nxt))])) (\<lambda>com'.
          Inr (set_shifts [] (g\<lparr>common := com'\<rparr>))))"

text \<open>With two players a play may unlock the other.\<close>

definition unlock_other :: "game \<Rightarrow> card_action \<Rightarrow> game result" where
  "unlock_other g a =
     (let s = g_state g; com = common g; pl = act_player a; other = next_player s pl;
          shifts = slot (shifts_of g) (act_order a);
          g1 = (if shifts \<noteq> None then set_shifts ((shifts_of g)[act_order a := None]) g else g) in
      if locked_by sieve_playables com s other False then
        (case unlock_promise g1 a pl other (case shifts of Some k \<Rightarrow> k | None \<Rightarrow> 0) of
           Some ord \<Rightarrow> write_unlock g1 a other ord
         | None \<Rightarrow>
             Inr (set_shifts (fold (\<lambda>ord xs. if ord = act_order a then xs else bump_shift xs ord)
               (sieve_playables com s pl default_think) (shifts_of g1)) g1))
      else Inr (set_shifts [] g1))"

text \<open>A card that was called to be discarded is not any more when its holder does something else.\<close>

definition drop_call :: "player \<Rightarrow> player \<Rightarrow> nat \<Rightarrow> player result" where
  "drop_call orig p ord =
     bindR (need (slot (thoughts orig) ord)) (\<lambda>c.
       if status c = Some CALLED_TO_DC then write_card p ord (\<lambda>d. [W_status None]) else Inr p)"

definition settle :: "game_state \<Rightarrow> game \<Rightarrow> player \<Rightarrow> game result" where
  "settle s g com =
     bindR (good_touch_elim com s False) (\<lambda>c1. bindR (refresh_links c1 s) (\<lambda>c2. team_elim (g\<lparr>common := c2\<rparr>)))"

text \<open>The good touch elimination and the links that follow a play are given the state before it.\<close>

definition play_on_table :: "game \<Rightarrow> card_action \<Rightarrow> game result" where
  "play_on_table g a =
     (let s = g_state g in
      if num_players s \<noteq> 2 then
        bindR (on_play g a) (\<lambda>g1.
        bindR (foldR (drop_call (common g)) (common g1) (hands s ! act_player a)) (\<lambda>c. settle s g1 c))
      else
        bindR (unlock_other g a) (\<lambda>g1. bindR (on_play g1 a) (\<lambda>g2. settle s g2 (common g2))))"

definition unexpected_play :: "game \<Rightarrow> card_action \<Rightarrow> bool" where
  "unexpected_play g a \<longleftrightarrow>
     (let c = card_at (common g) (act_order a) in
      act_player a = our_player (g_state g) \<and>
      (iset_length (inferred c) \<noteq> 1 \<or>
       (case first_id (Some (inferred c)) of Some j \<Rightarrow> \<not> basic_matches j (act_id a) | None \<Rightarrow> True)) \<and> \<not> rewinded c)"

definition sieve_play :: "rewinder \<Rightarrow> card_action \<Rightarrow> game \<Rightarrow> game result" where
  "sieve_play rw a g =
     (if unexpected_play g a then
        bindR (rw g (drawn_index (card_at (common g) (act_order a)) + 1)
            [IdentifyAction (act_order a) (act_player a) [act_id a] False]) (\<lambda>gg.
          case snd gg of Some g2 \<Rightarrow> update_notes g2 | None \<Rightarrow> play_on_table (fst gg) a)
      else play_on_table g a)"

section \<open>Discards\<close>

text \<open>A receiver who holds the card, as far as we see, is written on at the first of the targets although the oldest is meant.\<close>

definition sees_target :: "game \<Rightarrow> player \<Rightarrow> basic_card \<Rightarrow> nat \<Rightarrow> bool" where
  "sees_target g com i r \<longleftrightarrow>
     (let s = g_state g in
      case min_order (find_sarcastics s r com i) of
        Some ord \<Rightarrow> matches (no_opts\<lparr>o_infer := Some (r = our_player s)\<rparr>) (card_at (me g) ord) i
      | None \<Rightarrow> False)"

definition sieve_sarcastic :: "game \<Rightarrow> card_action \<Rightarrow> (player \<times> nat list) result" where
  "sieve_sarcastic g a =
     (let s = g_state g; i = act_id a in
      bindR (if is_playable s i then Inr (common g)
             else bindR (interpret_sarcastic sieve_playables g (act_player a) i) (\<lambda>(c, _). Inr c)) (\<lambda>com.
        case List.find (sees_target g com i) (receivers s (act_player a)) of
          Some r \<Rightarrow>
            (case find_sarcastics s r com i of
               [] \<Rightarrow> Inr (com, [])
             | ord # os \<Rightarrow> bindR (write_card com ord (\<lambda>d. [W_inferred (only_id s i)])) (\<lambda>c. Inr (c, [Min (set (ord # os))])))
        | None \<Rightarrow>
            (case min_order (find_sarcastics s (our_player s) (me g) i) of
               Some ord \<Rightarrow>
                 bindR (write_card com ord (\<lambda>d. [W_inferred (only_id s i), W_trash False])) (\<lambda>c. Inr (c, [ord]))
             | None \<Rightarrow> Inr (com, []))))"

definition useful_discard :: "game_state \<Rightarrow> card_action \<Rightarrow> bool" where
  "useful_discard s a \<longleftrightarrow>
     clued (deck_at s (act_order a)) \<and>
     (case get (play_stacks s) (act_suit a) of Some k \<Rightarrow> act_rank a > k | None \<Rightarrow> False) \<and>
     (case get (max_ranks s) (act_suit a) of Some k \<Rightarrow> act_rank a \<le> k | None \<Rightarrow> False)"

text \<open>A sarcastic discard is interpreted on the game before the discard, whose common knowledge replaces the new one.\<close>

definition discard_knowledge :: "game \<Rightarrow> game \<Rightarrow> card_action \<Rightarrow> bool \<Rightarrow> player result" where
  "discard_knowledge old g a failed =
     (let s = g_state g; com = common g in
      if useful_discard s a then
        bindR (restore_elim com s (raw (deck_at s (act_order a)))) (\<lambda>c1.
          if failed then Inr (undo_hypo_stacks c1 (act_id a))
          else bindR (sieve_sarcastic old a) (\<lambda>(c2, _). Inr c2))
      else Inr com)"

text \<open>With two players: a locked partner puts off the unlocks, and a partner without a safe action may discard the first card.\<close>

definition discard_permission :: "game \<Rightarrow> nat \<Rightarrow> player \<Rightarrow> player result" where
  "discard_permission g partner com =
     (let s = g_state g in
      if \<not> loaded_by sieve_playables com s partner default_think \<and>
         \<not> list_ex (\<lambda>ord. status (card_at com ord) = Some CALLED_TO_DC) (hands s ! partner) then
        (case hands s ! partner of
           [] \<Rightarrow> Inl TypeError
         | ord # _ \<Rightarrow> write_card com ord (\<lambda>d. [W_permission_to_discard True]))
      else Inr com)"

definition sieve_discard :: "rewinder \<Rightarrow> card_action \<Rightarrow> bool \<Rightarrow> game \<Rightarrow> game result" where
  "sieve_discard rw a failed g =
     bindR (on_discard g a failed) (\<lambda>g1.
     bindR (discard_knowledge g g1 a failed) (\<lambda>com.
       let s = g_state g1; pl = act_player a; partner = next_player s pl in
       if num_players s = 2 then
         (let g2 = (if locked_by sieve_playables com s partner False
                    then set_shifts (fold (\<lambda>ord xs. bump_shift xs ord) (sieve_playables com s pl default_think) (shifts_of g1)) g1
                    else g1)
          in bindR (discard_permission g1 partner com) (\<lambda>c. settle s g2 c))
       else bindR (foldR (\<lambda>p ord. drop_call p p ord) com (hands s ! pl)) (\<lambda>c. settle s g1 c)))"

section \<open>Turns\<close>

datatype resolution = Keep | Remove bool | Advance nat | Rewind_To

text \<open>The card may also be waited for by another connection that is not playable yet, and the player has to wait, or has
  tried to play.\<close>

definition waits_elsewhere :: "game_state \<Rightarrow> waiting_connection list \<Rightarrow> nat \<Rightarrow> nat \<Rightarrow> connection \<Rightarrow> action option \<Rightarrow> bool result" where
  "waits_elsewhere s wcs k index conn la =
     foldR (\<lambda>found m.
       let wc = wcs ! m in
       if m \<noteq> k \<and> list_ex (\<lambda>cn. conn_order cn = conn_order conn \<and> list_ex (\<lambda>i. playable_away s i > 0) (conn_identities cn))
            (drop index (wc_connections wc)) then
         bindR (need (current_conn wc)) (\<lambda>cur. Inr (found \<or> conn_reacting cur \<noteq> conn_reacting conn \<or> is_play la))
       else Inr found) False [0..<length wcs]"

definition missed_conn :: "game \<Rightarrow> waiting_connection list \<Rightarrow> nat \<Rightarrow> waiting_connection \<Rightarrow> connection \<Rightarrow> resolution result" where
  "missed_conn g wcs k wc conn =
     (let s = g_state g; com = common g; la = slot (last_actions g) (conn_reacting conn); d = deck_at s (conn_order conn) in
      if suit_index d \<noteq> -1 \<and> stack_of s d + 1 < rank d then Inr Keep
      else if (case la of Some (ClueAction _) \<Rightarrow> True | _ \<Rightarrow> False) then Inr (Remove True)
      else if (case la of Some (PlayAction pa) \<Rightarrow> conn_type conn = Prompt \<or> older_finesse com (act_order pa) (conn_order conn)
               | _ \<Rightarrow> False) then Inr Keep
      else
        bindR (waits_elsewhere s wcs k (wc_conn_index wc) conn la) (\<lambda>waits.
          let bombed = (case la of Some (DiscardAction da True _) \<Rightarrow>
                  list_ex (iset_has (possible (card_at (g_players g ! conn_reacting conn) (act_order da)))) (conn_identities conn)
                | _ \<Rightarrow> False);
              delayed = (conn_type conn = Prompt \<and> (case la of Some (DiscardAction _ _ True) \<Rightarrow> True | _ \<Rightarrow> False))
          in Inr (if waits \<or> bombed \<or> delayed then Keep else Remove True)))"

definition resolve_card_retained :: "game \<Rightarrow> waiting_connection list \<Rightarrow> nat \<Rightarrow> waiting_connection \<Rightarrow> connection \<Rightarrow> resolution result" where
  "resolve_card_retained g wcs k wc conn =
     (let s = g_state g in
      if conn_type conn = Finesse \<or> conn_type conn = Prompt then missed_conn g wcs k wc conn
      else
        Inr (case slot (last_actions g) (conn_reacting conn) of
            Some (DiscardAction _ False False) \<Rightarrow>
              if discard_state s = None \<and>
                 \<not> list_ex (\<lambda>i. \<not> is_basic_trash s i \<and> \<not> is_playable s i) (conn_identities conn) then Rewind_To else Keep
          | _ \<Rightarrow> Keep))"

definition resolve_card_gone :: "game \<Rightarrow> waiting_connection \<Rightarrow> connection \<Rightarrow> resolution result" where
  "resolve_card_gone g wc conn =
     (let s = g_state g in
      bindR (need (slot (last_actions g) (conn_reacting conn))) (\<lambda>la.
        Inr (case la of
            PlayAction pa \<Rightarrow>
              if act_order pa = conn_order conn \<and>
                 list_ex (\<lambda>i. actual_matches None (deck_at s (act_order pa)) i) (conn_identities conn)
              then (case next_conn_index s wc of Some k \<Rightarrow> Advance k | None \<Rightarrow> Remove False)
              else Remove True
          | _ \<Rightarrow> Remove True)))"

text \<open>The loop over the waiting connections: those to be removed, those whose notes are taken back too, the connections with
  their new indices, or a game that was rewound instead.\<close>

record turn_loop =
  tl_game :: game
  tl_conns :: "waiting_connection list"
  tl_remove :: "nat list"
  tl_finesses :: "nat list"
  tl_rewound :: "game option"

definition drop_conn :: "nat \<Rightarrow> bool \<Rightarrow> turn_loop \<Rightarrow> turn_loop" where
  "drop_conn k finesse t =
     t\<lparr>tl_remove := tl_remove t @ [k], tl_finesses := tl_finesses t @ (if finesse then [k] else [])\<rparr>"

definition ignore_conn :: "nat \<Rightarrow> turn_loop \<Rightarrow> game \<times> game option \<Rightarrow> turn_loop result" where
  "ignore_conn k t gg =
     (case snd gg of
        Some g \<Rightarrow> bindR (update_notes g) (\<lambda>g'. Inr (t\<lparr>tl_rewound := Some g'\<rparr>))
      | None \<Rightarrow> Inr (drop_conn k True (t\<lparr>tl_game := fst gg\<rparr>)))"

definition take_resolution :: "rewinder \<Rightarrow> turn_loop \<Rightarrow> nat \<Rightarrow> connection \<Rightarrow> resolution \<Rightarrow> turn_loop result" where
  "take_resolution rw t k conn r =
     (let wc = tl_conns t ! k in
      case r of
        Keep \<Rightarrow> Inr t
      | Remove finesse \<Rightarrow> Inr (drop_conn k finesse t)
      | Advance m \<Rightarrow> Inr (t\<lparr>tl_conns := (tl_conns t)[k := wc\<lparr>wc_conn_index := m\<rparr>]\<rparr>)
      | Rewind_To \<Rightarrow>
          bindR (rw (tl_game t) (wc_action_index wc) [IgnoreAction 0 (conn_order conn) (Some (wc_inference wc))])
            (ignore_conn k t))"

definition resolve_conn :: "rewinder \<Rightarrow> nat \<Rightarrow> turn_loop \<Rightarrow> nat \<Rightarrow> turn_loop result" where
  "resolve_conn rw pl t k =
     (if tl_rewound t \<noteq> None then Inr t
      else
        let g = tl_game t; s = g_state g; wc = tl_conns t ! k in
        bindR (need (current_conn wc)) (\<lambda>conn.
          if last_player s pl \<noteq> conn_reacting conn then Inr t
          else
            bindR (if conn_order conn \<in> set (hands s ! conn_reacting conn) then resolve_card_retained g (tl_conns t) k wc conn
                   else resolve_card_gone g wc conn) (take_resolution rw t k conn)))"

definition kept_conns :: "turn_loop \<Rightarrow> waiting_connection list" where
  "kept_conns t = map snd (filter (\<lambda>(k, _). k \<notin> set (tl_remove t)) (zip [0..<length (tl_conns t)] (tl_conns t)))"

text \<open>The copy that is updated has been made before the loop: a rewind that returned nothing is only counted by the game it was
  made from, whose cleaned actions they share.\<close>

definition finish_turn :: "game \<Rightarrow> turn_loop \<Rightarrow> game result" where
  "finish_turn g t =
     (case tl_rewound t of
        Some g' \<Rightarrow> Inr g'
      | None \<Rightarrow>
          let s = (g_state g)\<lparr>action_list := action_list (g_state (tl_game t))\<rparr> in
          bindR (foldR (\<lambda>c k. remove_finesse_conns c (tl_conns t ! k)) (common g) (tl_finesses t)) (\<lambda>c1.
          bindR (good_touch_elim (c1\<lparr>waiting_connections := kept_conns t\<rparr>) s False) (\<lambda>c2.
          bindR (update_hypo_stacks c2 s None) (\<lambda>c3. team_elim (g\<lparr>g_state := s, common := c3\<rparr>)))))"

definition sieve_turn :: "rewinder \<Rightarrow> int \<Rightarrow> nat \<Rightarrow> game \<Rightarrow> game result" where
  "sieve_turn rw num pl g =
     (let wcs = waiting_connections (common g) in
      bindR (foldR (resolve_conn rw pl)
          \<lparr>tl_game = g, tl_conns = wcs, tl_remove = [], tl_finesses = [], tl_rewound = None\<rparr> [0..<length wcs]) (finish_turn g))"

end
