(* ===== verification/Rewinds_Sound.thy ===== *)
theory Rewinds_Sound
  imports Rewinds
begin

text \<open>
  Rewinding ends: the result of handling an action does not depend on the fuel, once it is 101, because a game that
  has been rewound a hundred times throws instead of replaying, and a replay starts from one more rewind. It is asked
  of the convention that it never lowers the count of rewinds and only rewinds games it has been given or made.
\<close>

definition agree :: "nat \<Rightarrow> rewinder \<Rightarrow> rewinder \<Rightarrow> bool" where
  "agree r rw rw' \<longleftrightarrow> (\<forall>g index as. r \<le> rewinds g \<longrightarrow> rw g index as = rw' g index as \<and>
     (\<forall>g1 og. rw g index as = Inr (g1, og) \<longrightarrow> r \<le> rewinds g1 \<and> (\<forall>g2. og = Some g2 \<longrightarrow> r \<le> rewinds g2)))"

abbreviation least_rewinds :: "nat \<Rightarrow> game result \<Rightarrow> bool" where
  "least_rewinds r m \<equiv> (\<forall>g'. m = Inr g' \<longrightarrow> r \<le> rewinds g')"

text \<open>What rewinding asks of a convention.\<close>

locale convention_ok =
  fixes cv :: convention
  assumes clue_same: "agree r rw rw' \<Longrightarrow> r \<le> rewinds g \<Longrightarrow> interpret_clue cv rw ca g = interpret_clue cv rw' ca g"
    and clue_rewinds: "agree r rw rw' \<Longrightarrow> r \<le> rewinds g \<Longrightarrow> interpret_clue cv rw ca g = Inr (g', ca') \<Longrightarrow> r \<le> rewinds g'"
    and discard_same: "agree r rw rw' \<Longrightarrow> r \<le> rewinds g \<Longrightarrow> interpret_discard cv rw a f g = interpret_discard cv rw' a f g"
    and discard_rewinds: "agree r rw rw' \<Longrightarrow> r \<le> rewinds g \<Longrightarrow> interpret_discard cv rw a f g = Inr (g', b) \<Longrightarrow> r \<le> rewinds g'"
    and play_same: "agree r rw rw' \<Longrightarrow> r \<le> rewinds g \<Longrightarrow> interpret_play cv rw a g = interpret_play cv rw' a g"
    and play_rewinds: "agree r rw rw' \<Longrightarrow> r \<le> rewinds g \<Longrightarrow> interpret_play cv rw a g = Inr g' \<Longrightarrow> r \<le> rewinds g'"
    and turn_same: "agree r rw rw' \<Longrightarrow> r \<le> rewinds g \<Longrightarrow> update_turn cv rw n i g = update_turn cv rw' n i g"
    and turn_rewinds: "agree r rw rw' \<Longrightarrow> r \<le> rewinds g \<Longrightarrow> update_turn cv rw n i g = Inr g' \<Longrightarrow> r \<le> rewinds g'"
    and blank_rewinds: "rewinds g \<le> rewinds (blank_of cv g)"

section \<open>What does not touch the count\<close>

lemma team_elim_rewinds: "team_elim g = Inr g' \<Longrightarrow> rewinds g' = rewinds g"
  by (auto simp: team_elim_def result_simps)

lemma on_draw_rewinds: "on_draw g a = Inr g' \<Longrightarrow> rewinds g' = rewinds g"
  by (auto simp: on_draw_def Let_def result_simps split: if_splits)

lemma update_notes_rewinds: "update_notes g = Inr g' \<Longrightarrow> rewinds g' = rewinds g"
  by (auto simp: update_notes_def result_simps split: if_splits)

lemma set_rewinds:
  "set_player f i g = Inr g' \<Longrightarrow> rewinds g' = rewinds g" "set_state h g = Inr g' \<Longrightarrow> rewinds g' = rewinds g"
  by (auto simp: set_player_def set_state_def result_simps split: if_splits)

lemma clear_new_rewinds: "clear_new os g = Inr g' \<Longrightarrow> rewinds g' = rewinds g"
  by (auto simp: clear_new_def result_simps)

lemma reveal_card_rewinds: "reveal_card a g = Inr g' \<Longrightarrow> rewinds g' = rewinds g"
  by (auto simp: reveal_card_def result_simps dest!: set_rewinds split: if_splits)

lemma handle_draw_rewinds: "handle_draw a g = Inr g' \<Longrightarrow> rewinds g' = rewinds g"
  by (auto simp: handle_draw_def result_simps dest: on_draw_rewinds split: if_splits)

lemma handle_identify_rewinds: "handle_identify ord pl ids infer g = Inr g' \<Longrightarrow> rewinds g' = rewinds g"
  by (auto simp: handle_identify_def Let_def result_simps dest!: set_rewinds team_elim_rewinds split: if_splits list.splits)

lemma log_action_rewinds [simp]: "rewinds (log_action a g) = rewinds g"
  by (simp add: log_action_def Let_def)

section \<open>Agreement\<close>

lemma rewinds_102: "102 = Suc 101"
  by simp

text \<open>Two computations agree and establish \<open>P\<close>.\<close>

definition agrees :: "('a \<Rightarrow> bool) \<Rightarrow> 'a result \<Rightarrow> 'a result \<Rightarrow> bool" where
  "agrees P m m' \<longleftrightarrow> m' = m \<and> (\<forall>x. m = Inr x \<longrightarrow> P x)"

lemma agrees_simps [simp]: "agrees P (Inl e) m' \<longleftrightarrow> m' = Inl e" "agrees P (Inr x) m' \<longleftrightarrow> m' = Inr x \<and> P x"
  by (auto simp: agrees_def)

lemma agrees_bind: "agrees P m m' \<Longrightarrow> (\<And>x. P x \<Longrightarrow> agrees Q (f x) (f' x)) \<Longrightarrow> agrees Q (bindR m f) (bindR m' f')"
  by (cases m) (auto simp: agrees_def)

lemma agrees_same: "(\<And>x. m = Inr x \<Longrightarrow> P x) \<Longrightarrow> agrees P m m"
  by (simp add: agrees_def)

lemma agrees_fold:
  assumes "P s" and "\<And>s x. P s \<Longrightarrow> agrees P (f s x) (h s x)"
  shows "agrees P (foldR f s xs) (foldR h s xs)"
  using assms(1)
proof (induction xs arbitrary: s)
  case (Cons x xs)
  show ?case unfolding foldR.simps using assms(2) [OF Cons.prems] Cons.IH by (rule agrees_bind)
qed simp

abbreviation rewound :: "nat \<Rightarrow> game \<Rightarrow> bool" where
  "rewound r g \<equiv> r \<le> rewinds g"

definition same_handler :: "nat \<Rightarrow> (action \<Rightarrow> game \<Rightarrow> game result) \<Rightarrow> (action \<Rightarrow> game \<Rightarrow> game result) \<Rightarrow> bool" where
  "same_handler r h h' \<longleftrightarrow> (\<forall>a g. rewound r g \<longrightarrow> agrees (rewound r) (h a g) (h' a g))"

lemma same_handlerD: "same_handler r h h' \<Longrightarrow> rewound r g \<Longrightarrow> agrees (rewound r) (h a g) (h' a g)"
  by (simp add: same_handler_def)

lemma update_game_agree:
  "same_handler r h h' \<Longrightarrow> rewound r g \<Longrightarrow> agrees (rewound r) (update_game h g a) (update_game h' g a)"
  using same_handlerD [of r h h' g a] by (cases a) (auto simp: update_game_def)

lemma after_draw_agree:
  assumes "same_handler r h h'" "rewound r (fst acc)"
  shows "agrees (\<lambda>acc. rewound r (fst acc)) (after_draw h a acc) (after_draw h' a acc)"
proof -
  have "agrees (\<lambda>acc. rewound r (fst acc)) (bindR (h b (fst acc)) (\<lambda>g. Inr (g, rest))) (bindR (h' b (fst acc)) (\<lambda>g. Inr (g, rest)))"
    for b rest
    using same_handlerD [OF assms] by (rule agrees_bind) simp
  then show ?thesis using assms(2) by (auto simp: after_draw_def split: action.splits list.splits)
qed

lemma redo_action_agree:
  assumes "same_handler r h h'" "rewound r (fst acc)"
  shows "agrees (\<lambda>acc. rewound r (fst acc)) (redo_action h acc a) (redo_action h' acc a)"
  unfolding redo_action_def
  using update_game_agree [OF assms] by (rule agrees_bind) (use after_draw_agree [OF assms(1)] in simp)

lemma insert_action_agree:
  assumes "same_handler r h h'" "rewound r (fst acc)"
  shows "agrees (\<lambda>acc. rewound r (fst acc)) (insert_action h acc a) (insert_action h' acc a)"
  using redo_action_agree [OF assms, of a] assms(2) by (auto simp: insert_action_def split: action.splits)

section \<open>Handlers and replays\<close>

context convention_ok
begin

lemma handle_clue_agree:
  assumes "agree r rw rw'" "r \<le> rewinds g"
  shows "handle_clue cv rw a g = handle_clue cv rw' a g \<and> least_rewinds r (handle_clue cv rw a g)"
  using clue_same [OF assms] clue_rewinds [OF assms]
  by (auto simp: handle_clue_def result_simps dest!: clear_new_rewinds)

lemma handle_discard_agree:
  assumes "agree r rw rw'" "r \<le> rewinds g"
  shows "handle_discard cv rw a f i g = handle_discard cv rw' a f i g \<and> least_rewinds r (handle_discard cv rw a f i g)"
proof (cases "reveal_card a g")
  case (Inr g1)
  let ?g = "g1\<lparr>g_state := no_discards (g_state g1)\<rparr>"
  have "r \<le> rewinds ?g" using reveal_card_rewinds [OF Inr] assms(2) by simp
  note d = discard_same [OF assms(1) this] discard_rewinds [OF assms(1) this]
  show ?thesis using d(1) [of a f] d(2) [of a f] by (auto simp: handle_discard_def Inr result_simps)
qed (simp add: handle_discard_def)

lemma handle_play_agree:
  assumes "agree r rw rw'" "r \<le> rewinds g"
  shows "handle_play cv rw a g = handle_play cv rw' a g \<and> least_rewinds r (handle_play cv rw a g)"
proof (cases "reveal_card a g")
  case (Inr g1)
  have "r \<le> rewinds g1" using reveal_card_rewinds [OF Inr] assms(2) by simp
  note d = play_same [OF assms(1) this] play_rewinds [OF assms(1) this]
  show ?thesis using d(1) [of a] d(2) [of a] by (auto simp: handle_play_def Inr result_simps)
qed (simp add: handle_play_def)

lemma handle_turn_agree:
  assumes "agree r rw rw'" "r \<le> rewinds g"
  shows "handle_turn cv rw n i g = handle_turn cv rw' n i g \<and> least_rewinds r (handle_turn cv rw n i g)"
proof -
  let ?g = "g\<lparr>g_state := (g_state g)\<lparr>current_player := i, turn_count := n + 1\<rparr>\<rparr>"
  have "r \<le> rewinds ?g" using assms(2) by simp
  note d = turn_same [OF assms(1) this] turn_rewinds [OF assms(1) this]
  show ?thesis using d(1) [of n i] d(2) [of n i] by (auto simp: handle_turn_def result_simps dest!: update_notes_rewinds)
qed

lemma handle_with_agree:
  assumes "agree r rw rw'" "r \<le> rewinds g"
  shows "handle_with cv rw a g = handle_with cv rw' a g \<and> least_rewinds r (handle_with cv rw a g)"
proof -
  have r: "r \<le> rewinds (log_action a g)" using assms(2) by simp
  show ?thesis
    using handle_clue_agree [OF assms(1) r] handle_discard_agree [OF assms(1) r] handle_play_agree [OF assms(1) r]
      handle_turn_agree [OF assms(1) r] handle_draw_rewinds [of _ "log_action a g"]
      handle_identify_rewinds [of _ _ _ _ "log_action a g"] r
    by (cases a) (force simp: handle_with_def Let_def handle_ignore_def)+
qed

lemma replay_agree:
  assumes s: "same_handler r h h'" and g: "rewound r g"
  shows "agrees (rewound r) (replay_with cv h g index ins) (replay_with cv h' g index ins)"
  unfolding replay_with_def Let_def
proof (intro agrees_bind)
  show "agrees (rewound r) (foldR (update_game h) ((blank_of cv g)\<lparr>catchup := True, g_notes := []\<rparr>) as)
      (foldR (update_game h') ((blank_of cv g)\<lparr>catchup := True, g_notes := []\<rparr>) as)" for as
    by (rule agrees_fold) (use g update_game_agree [OF s] in \<open>auto intro: order_trans [OF _ blank_rewinds]\<close>)
  show "agrees (\<lambda>acc. rewound r (fst acc)) (foldR (insert_action h) (g1, []) ins) (foldR (insert_action h') (g1, []) ins)"
    if "rewound r g1" for g1
    by (rule agrees_fold) (use that insert_action_agree [OF s] in auto)
  show "agrees (\<lambda>acc. rewound r (fst acc)) (foldR (redo_action h) acc as) (foldR (redo_action h') acc as)"
    if "rewound r (fst acc)" for acc as
    by (rule agrees_fold) (use that redo_action_agree [OF s] in auto)
  show "agrees (\<lambda>_. True) (need (last turns)) (need (last turns))" for turns :: "action list option list"
    by (simp add: agrees_def)
  show "agrees (rewound r) (foldR (\<lambda>g a. h a g) ((fst acc)\<lparr>catchup := catchup g\<rparr>) as) (foldR (\<lambda>g a. h' a g) ((fst acc)\<lparr>catchup := catchup g\<rparr>) as)"
    if "rewound r (fst acc)" for acc :: "game \<times> action list" and as
    by (rule agrees_fold) (use that same_handlerD [OF s] in auto)
qed simp

lemma rewind_with_agree:
  assumes s: "r < 100 \<Longrightarrow> same_handler (Suc r) h h'"
  shows "agree r (rewind_with cv h) (rewind_with cv h')"
proof -
  let ?Q = "\<lambda>res :: game \<times> game option. rewound r (fst res) \<and> (\<forall>g2. snd res = Some g2 \<longrightarrow> rewound r g2)"
  have "agrees ?Q (rewind_with cv h g index ins) (rewind_with cv h' g index ins)" if r: "rewound r g" for g index ins
  proof (cases "rewind_off g \<or> rewinds g \<ge> 100")
    case True
    then show ?thesis using r by (auto simp: rewind_with_def Let_def)
  next
    case False
    then have s': "same_handler (Suc r) h h'" using r s by simp
    have rp: "agrees ?Q (bindR (replay_with cv h g3 i ins) (\<lambda>g'. Inr (g3, Some g'))) (bindR (replay_with cv h' g3 i ins) (\<lambda>g'. Inr (g3, Some g')))"
      if w: "rewound (Suc r) g3" for g3 i
      using replay_agree [OF s' w] by (rule agrees_bind) (use w in auto)
    have "agrees ?Q (bindR (need t) f) (bindR (need t) f')" if "\<And>x. agrees ?Q (f x) (f' x)"
      for t :: "action list option" and f f'
      using that by (cases t) simp_all
    then show ?thesis using r False rp by (auto simp: rewind_with_def Let_def)
  qed
  then show ?thesis unfolding agree_def agrees_def by (metis fst_conv snd_conv)
qed

lemma rewind_game_agree:
  "100 \<le> n + r \<Longrightarrow> 100 \<le> m + r \<Longrightarrow> agree r (rewind_game (Suc n) cv) (rewind_game (Suc m) cv)"
proof (induction n arbitrary: m r)
  case 0
  show ?case unfolding rewind_game.simps by (rule rewind_with_agree) (use 0 in simp)
next
  case (Suc n)
  show ?case
    unfolding rewind_game.simps(2) [of "Suc n"] rewind_game.simps(2) [of m]
  proof (rule rewind_with_agree)
    assume r: "r < 100"
    then obtain k where m: "m = Suc k" using Suc.prems(2) by (cases m) auto
    have "agree (Suc r) (rewind_game (Suc n) cv) (rewind_game (Suc k) cv)" using Suc.prems m by (intro Suc.IH) auto
    then show "same_handler (Suc r) (handle_with cv (rewind_game (Suc n) cv)) (handle_with cv (rewind_game m cv))"
      unfolding m same_handler_def agrees_def using handle_with_agree by metis
  qed
qed

lemma handle_action_fuel:
  assumes "101 \<le> fuel"
  shows "handle_with cv (rewind_game fuel cv) a g = handle_action cv a g"
proof -
  obtain n where n: "fuel = Suc n" "100 \<le> n" using assms by (cases fuel) auto
  have "agree 0 (rewind_game fuel cv) (rewind_game 102 cv)"
    unfolding n rewinds_102 using n(2) by (intro rewind_game_agree) simp_all
  from handle_with_agree [OF this, of g a] show ?thesis by (simp add: handle_action_def)
qed

lemma handle_action_rewinds:
  assumes "handle_action cv a g = Inr g'"
  shows "rewinds g \<le> rewinds g'"
proof -
  have "agree (rewinds g) (rewind_game 102 cv) (rewind_game 102 cv)"
    unfolding rewinds_102 by (rule rewind_game_agree) simp_all
  from handle_with_agree [OF this, of g a] assms show ?thesis by (simp add: handle_action_def)
qed

lemma solution_agree:
  assumes rw: "rw = rewind_with cv (handle_with cv rw)"
  shows "100 \<le> n + r \<Longrightarrow> agree r rw (rewind_game (Suc n) cv)"
proof (induction n arbitrary: r)
  case 0
  then show ?case unfolding rewind_game.simps by (subst rw) (rule rewind_with_agree, simp)
next
  case (Suc n)
  show ?case
    unfolding rewind_game.simps(2) [of "Suc n"]
  proof (subst rw, rule rewind_with_agree)
    have "agree (Suc r) rw (rewind_game (Suc n) cv)" using Suc.prems by (intro Suc.IH) simp
    then show "same_handler (Suc r) (handle_with cv rw) (handle_with cv (rewind_game (Suc n) cv))"
      unfolding same_handler_def agrees_def using handle_with_agree by metis
  qed
qed

lemma handle_action_only:
  assumes "rw = rewind_with cv (handle_with cv rw)"
  shows "handle_with cv rw a g = handle_action cv a g"
proof -
  have "agree 0 rw (rewind_game 102 cv)" unfolding rewinds_102 by (rule solution_agree [OF assms]) simp
  from handle_with_agree [OF this, of g a] show ?thesis by (simp add: handle_action_def)
qed

lemma handle_action_rec: "handle_action cv a g = handle_with cv (rewind_with cv (handle_action cv)) a g"
proof -
  have "rewind_game (Suc 102) cv = rewind_with cv (handle_action cv)"
    unfolding rewind_game.simps handle_action_def [abs_def] by simp
  then show ?thesis using handle_action_fuel [of "Suc 102" a g] by simp
qed

end

text \<open>A convention that looks for a misplay: every play rewinds to the first turn and ignores the card.\<close>

definition demo_convention :: convention where
  "demo_convention = abstract_convention\<lparr>interpret_play := (\<lambda>rw a g.
     bindR (rw g 1 [IgnoreAction (act_order a) 0 None]) (\<lambda>(g1, og). Inr (case og of Some g2 \<Rightarrow> g2 | None \<Rightarrow> g1)))\<rparr>"

interpretation demo_rewinding: convention_ok demo_convention
proof
  fix r rw rw' a and g :: game
  assume a: "agree r rw rw'" and g: "r \<le> rewinds g"
  have "rw g 1 as = rw' g 1 as \<and> (\<forall>g1 og. rw g 1 as = Inr (g1, og) \<longrightarrow> r \<le> rewinds g1 \<and> (\<forall>g2. og = Some g2 \<longrightarrow> r \<le> rewinds g2))" for as
    using a g unfolding agree_def by blast
  then show "interpret_play demo_convention rw a g = interpret_play demo_convention rw' a g"
    "\<And>g'. interpret_play demo_convention rw a g = Inr g' \<Longrightarrow> r \<le> rewinds g'"
    by (auto simp: demo_convention_def abstract_convention_def Let_def result_simps split: option.splits)
qed (auto simp: demo_convention_def abstract_convention_def Let_def create_blank_game_def)

lemmas demo_convention_ok = demo_rewinding.convention_ok_axioms

end
