(* ===== verification/Ref_Sieve.thy ===== *)
theory Ref_Sieve
  imports Sieve_Clues Sieve_Moves Rewinds_Sound
begin

text \<open>
  The class \<open>RefSieve\<close> of \<open>src/src/conventions/ref-sieve.js\<close> as a convention, and that it meets what rewinding asks of one. A blank
  game starts with the locked shifts of the game it blanks and without its history of moves. A copy for a simulation is a
  shallow one: a waiting connection whose index a simulation changes in place is shared with the game that is simulated,
  which the model, where games are values, leaves out.
\<close>

definition sieve_blank :: "game \<Rightarrow> game" where
  "sieve_blank g = set_shifts (shifts_of g) (create_blank_game g)"

definition sieve_copy :: "game \<Rightarrow> game result" where
  "sieve_copy g = Inr (g\<lparr>copy_depth := copy_depth g + 1\<rparr>)"

definition sieve_last_move :: "game \<Rightarrow> interp" where
  "sieve_last_move g = (case rev (move_history (own g)) of [] \<Rightarrow> No_Clue | (_, m) # _ \<Rightarrow> m)"

definition ref_sieve :: convention where
  "ref_sieve =
     \<lparr>interpret_clue = sieve_clue, interpret_discard = (\<lambda>rw a f g. bindR (sieve_discard rw a f g) (\<lambda>g'. Inr (g', False))), interpret_play = sieve_play, update_turn = sieve_turn,
      blank_of = sieve_blank, copy_of = sieve_copy, playables_of = sieve_playables\<rparr>"

section \<open>Rewinds\<close>

lemma card_leaves_rewinds: "card_leaves g a s = Inr g' \<Longrightarrow> rewinds g' = rewinds g"
  by (auto simp: card_leaves_def result_simps dest!: team_elim_rewinds split: if_splits)

lemma on_rewinds:
  "on_clue g ca = Inr g' \<Longrightarrow> rewinds g' = rewinds g" "on_discard g a f = Inr g' \<Longrightarrow> rewinds g' = rewinds g"
  "on_play g a = Inr g' \<Longrightarrow> rewinds g' = rewinds g"
  by (auto simp: on_clue_def on_discard_def on_play_def Let_def result_simps dest!: team_elim_rewinds card_leaves_rewinds)

lemma settle_rewinds: "settle s g c = Inr g' \<Longrightarrow> rewinds g' = rewinds g"
  by (auto simp: settle_def result_simps dest!: team_elim_rewinds)

lemma set_shifts_rewinds [simp]: "rewinds (set_shifts xs g) = rewinds g"
  by (simp add: set_shifts_def)

lemma write_unlock_rewinds: "write_unlock g a other ord = Inr g' \<Longrightarrow> rewinds g' = rewinds g"
  by (auto simp: write_unlock_def Let_def result_simps split: if_splits)

lemma unlock_other_rewinds: "unlock_other g a = Inr g' \<Longrightarrow> rewinds g' = rewinds g"
  by (auto simp: unlock_other_def Let_def dest!: write_unlock_rewinds split: if_splits option.splits)

lemma play_on_table_rewinds: "play_on_table g a = Inr g' \<Longrightarrow> rewinds g' = rewinds g"
  by (auto simp: play_on_table_def Let_def result_simps dest!: on_rewinds settle_rewinds unlock_other_rewinds split: if_splits)

lemma finish_clue_rewinds: "finish_clue g r = Inr g' \<Longrightarrow> rewinds g' = rewinds g"
  by (auto simp: finish_clue_def record_move_def Let_def result_simps split: if_splits)

lemma sieve_discard_rewinds: "sieve_discard rw a f g = Inr g' \<Longrightarrow> rewinds g' = rewinds g"
  by (auto simp: sieve_discard_def Let_def result_simps dest!: on_rewinds settle_rewinds split: if_splits)

section \<open>Agreement\<close>

text \<open>A rewind agrees and does not lower the count; what follows it decides the rest.\<close>

abbreviation rewound2 :: "nat \<Rightarrow> game \<times> game option \<Rightarrow> bool" where
  "rewound2 r gg \<equiv> rewound r (fst gg) \<and> (\<forall>g. snd gg = Some g \<longrightarrow> rewound r g)"

lemma agree_rw: "agree r rw rw' \<Longrightarrow> rewound r g \<Longrightarrow> agrees (rewound2 r) (rw g index as) (rw' g index as)"
  unfolding agree_def agrees_def by (metis fst_conv snd_conv surj_pair)

lemma agrees_bind_same: "(\<And>x. m = Inr x \<Longrightarrow> agrees Q (f x) (f' x)) \<Longrightarrow> agrees Q (bindR m f) (bindR m f')"
  by (cases m) simp_all

lemma rewind_fix_agree:
  "agree r rw rw' \<Longrightarrow> rewound r g \<Longrightarrow> agrees (rewound2 r) (rewind_fix rw g com ord) (rewind_fix rw' g com ord)"
  unfolding rewind_fix_def Let_def by (intro agrees_bind_same agree_rw)

lemma finish_fix_game [simp]: "rewinds (fr_game (finish_fix g old a R c)) = rewinds g"
  by (simp add: finish_fix_def Let_def)

lemma close_fix_rewinds: "rewound2 r gg \<Longrightarrow> close_fix old a R c gg = Inr res \<Longrightarrow> rewound r (fr_game res)"
  by (auto simp: close_fix_def rewound_fix_def result_simps dest!: update_notes_rewinds split: option.splits)

lemma check_fix_agree:
  assumes "agree r rw rw'" "rewound r g"
  shows "agrees (\<lambda>res. rewound r (fr_game res)) (check_fix rw g old a) (check_fix rw' g old a)"
proof -
  have "agrees (rewound2 r) (case o1 of Some ord \<Rightarrow> rewind_fix rw g c2 ord | None \<Rightarrow> Inr (g, None))
      (case o1 of Some ord \<Rightarrow> rewind_fix rw' g c2 ord | None \<Rightarrow> Inr (g, None))" for c2 and o1
    using rewind_fix_agree [OF assms] assms(2) by (cases o1) simp_all
  then have fix_agrees: "agrees (\<lambda>res. rewound r (fr_game res))
      (bindR (case o1 of Some ord \<Rightarrow> rewind_fix rw g c2 ord | None \<Rightarrow> Inr (g, None)) (close_fix old a R c2))
      (bindR (case o1 of Some ord \<Rightarrow> rewind_fix rw' g c2 ord | None \<Rightarrow> Inr (g, None)) (close_fix old a R c2))" for c2 R and o1
    by (rule agrees_bind) (rule agrees_same, erule (1) close_fix_rewinds)
  show ?thesis
    unfolding check_fix_def Let_def using assms(2)
    by (intro agrees_bind_same) (simp add: fix_agrees)
qed

lemma after_fix_rewinds: "rewound r (fr_game res) \<Longrightarrow> after_fix g a res = Inr (g', a') \<Longrightarrow> rewound r g'"
  by (auto simp: after_fix_def Let_def result_simps dest!: finish_clue_rewinds split: if_splits)

lemma sieve_clue_agree:
  assumes "agree r rw rw'" "rewound r g"
  shows "agrees (\<lambda>x. rewound r (fst x)) (sieve_clue rw a g) (sieve_clue rw' a g)"
  unfolding sieve_clue_def
proof (rule agrees_bind_same, rule agrees_bind)
  fix g1 assume "on_clue g a = Inr g1"
  with on_rewinds(1) assms(2) have "rewound r g1" by fastforce
  then show "agrees (\<lambda>res. rewound r (fr_game res)) (check_fix rw g1 (common g) a) (check_fix rw' g1 (common g) a)"
    by (rule check_fix_agree [OF assms(1)])
qed (auto intro!: agrees_same dest: after_fix_rewinds)

lemma sieve_play_agree:
  assumes "agree r rw rw'" "rewound r g"
  shows "agrees (rewound r) (sieve_play rw a g) (sieve_play rw' a g)"
proof -
  have "agrees (rewound r) (bindR (rw g index as) (\<lambda>gg. case snd gg of Some g2 \<Rightarrow> update_notes g2 | None \<Rightarrow> play_on_table (fst gg) a))
      (bindR (rw' g index as) (\<lambda>gg. case snd gg of Some g2 \<Rightarrow> update_notes g2 | None \<Rightarrow> play_on_table (fst gg) a))" for index as
    by (rule agrees_bind [OF agree_rw [OF assms]])
      (auto intro!: agrees_same dest!: update_notes_rewinds play_on_table_rewinds split: option.splits)
  moreover have "agrees (rewound r) (play_on_table g a) (play_on_table g a)"
    using assms(2) by (auto intro!: agrees_same dest!: play_on_table_rewinds)
  ultimately show ?thesis by (simp add: sieve_play_def)
qed

definition turn_rewound :: "nat \<Rightarrow> turn_loop \<Rightarrow> bool" where
  "turn_rewound r t \<longleftrightarrow> rewound r (tl_game t) \<and> (\<forall>g. tl_rewound t = Some g \<longrightarrow> rewound r g)"

lemma ignore_conn_rewinds: "turn_rewound r t \<Longrightarrow> rewound2 r gg \<Longrightarrow> ignore_conn k t gg = Inr t' \<Longrightarrow> turn_rewound r t'"
  by (auto simp: ignore_conn_def turn_rewound_def drop_conn_def result_simps dest!: update_notes_rewinds split: option.splits)

lemma take_resolution_agree:
  assumes "agree r rw rw'" "turn_rewound r t"
  shows "agrees (turn_rewound r) (take_resolution rw t k conn res) (take_resolution rw' t k conn res)"
proof (cases res)
  case Rewind_To
  have "rewound r (tl_game t)" using assms(2) by (simp add: turn_rewound_def)
  note rw_agree = agree_rw [OF assms(1) this]
  show ?thesis
    unfolding take_resolution_def Let_def Rewind_To resolution.case
    by (rule agrees_bind [OF rw_agree]) (use assms(2) in \<open>auto intro!: agrees_same dest: ignore_conn_rewinds\<close>)
qed (use assms(2) in \<open>simp_all add: take_resolution_def turn_rewound_def drop_conn_def Let_def\<close>)

lemma resolve_conn_agree:
  assumes "agree r rw rw'" "turn_rewound r t"
  shows "agrees (turn_rewound r) (resolve_conn rw pl t k) (resolve_conn rw' pl t k)"
proof -
  have "agrees (turn_rewound r) (bindR m (take_resolution rw t k conn)) (bindR m (take_resolution rw' t k conn))" for m conn
    by (intro agrees_bind_same take_resolution_agree assms)
  with assms(2) have "agrees (turn_rewound r)
      (if b then Inr t else bindR m (take_resolution rw t k conn)) (if b then Inr t else bindR m (take_resolution rw' t k conn))"
    for b m conn by simp
  then have "agrees (turn_rewound r)
      (bindR n (\<lambda>conn. if B conn then Inr t else bindR (m conn) (take_resolution rw t k conn)))
      (bindR n (\<lambda>conn. if B conn then Inr t else bindR (m conn) (take_resolution rw' t k conn)))" for n m B
    by (intro agrees_bind_same)
  with assms(2) show ?thesis unfolding resolve_conn_def Let_def by simp
qed

lemma finish_turn_rewinds: "rewound r g \<Longrightarrow> turn_rewound r t \<Longrightarrow> finish_turn g t = Inr g' \<Longrightarrow> rewound r g'"
  by (auto simp: finish_turn_def turn_rewound_def Let_def result_simps dest!: team_elim_rewinds split: option.splits)

lemma sieve_turn_agree:
  assumes "agree r rw rw'" "rewound r g"
  shows "agrees (rewound r) (sieve_turn rw n pl g) (sieve_turn rw' n pl g)"
  unfolding sieve_turn_def Let_def
proof (rule agrees_bind [OF agrees_fold [where P = "turn_rewound r"]])
  show "turn_rewound r \<lparr>tl_game = g, tl_conns = waiting_connections (common g), tl_remove = [], tl_finesses = [], tl_rewound = None\<rparr>"
    using assms(2) by (simp add: turn_rewound_def)
  show "agrees (turn_rewound r) (resolve_conn rw pl t k) (resolve_conn rw' pl t k)" if "turn_rewound r t" for t k
    using resolve_conn_agree [OF assms(1) that] .
  show "agrees (rewound r) (finish_turn g t) (finish_turn g t)" if "turn_rewound r t" for t
    using finish_turn_rewinds [OF assms(2) that] by (rule agrees_same)
qed

interpretation sieve_rewinding: convention_ok ref_sieve
proof
  fix r rw rw' ca a f n i and g g' :: game and ca'
  assume a: "agree r rw rw'" and g: "r \<le> rewinds g"
  show "interpret_clue ref_sieve rw ca g = interpret_clue ref_sieve rw' ca g"
    using sieve_clue_agree [OF a g, of ca] by (simp add: ref_sieve_def agrees_def)
  show "r \<le> rewinds g'" if "interpret_clue ref_sieve rw ca g = Inr (g', ca')"
    using sieve_clue_agree [OF a g, of ca] that by (auto simp: ref_sieve_def agrees_def)
  show "interpret_discard ref_sieve rw a f g = interpret_discard ref_sieve rw' a f g"
    by (simp add: ref_sieve_def sieve_discard_def)
  show "r \<le> rewinds g'" if "interpret_discard ref_sieve rw a f g = Inr (g', b)" for b
    using sieve_discard_rewinds [of rw a f g g'] that g by (auto simp: ref_sieve_def result_simps)
  show "interpret_play ref_sieve rw a g = interpret_play ref_sieve rw' a g"
    using sieve_play_agree [OF a g, of a] by (simp add: ref_sieve_def agrees_def)
  show "r \<le> rewinds g'" if "interpret_play ref_sieve rw a g = Inr g'"
    using sieve_play_agree [OF a g, of a] that by (auto simp: ref_sieve_def agrees_def)
  show "update_turn ref_sieve rw n i g = update_turn ref_sieve rw' n i g"
    using sieve_turn_agree [OF a g, of n i] by (simp add: ref_sieve_def agrees_def)
  show "r \<le> rewinds g'" if "update_turn ref_sieve rw n i g = Inr g'"
    using sieve_turn_agree [OF a g, of n i] that by (auto simp: ref_sieve_def agrees_def)
qed (simp add: ref_sieve_def sieve_blank_def create_blank_game_def)

lemmas ref_sieve_ok = sieve_rewinding.convention_ok_axioms

end
