(* ===== verification/Convention_Demo.thy ===== *)
theory Convention_Demo
  imports Demo Clue_Results Special_Discards Ref_Sieve
begin

text \<open>
  A table on which the hypotheses of the properties of the conventions hold: the red 1 in the hand of Bob, who has
  not been told anything of it.
\<close>

definition demo_unknown :: card where
  "demo_unknown = new_card (-1) (-1) (iset_full 2) (iset_full 2) 0 0"

definition demo_table :: game where
  "demo_table = demo_game
     \<lparr>g_state := draw_state demo_game demo_card,
      common := (common demo_game)\<lparr>thoughts := [Some demo_unknown]\<rparr>,
      g_players := map (\<lambda>p. p\<lparr>thoughts := [Some demo_unknown]\<rparr>) (g_players demo_game)\<rparr>"

lemma demo_table_state: "g_state demo_table = draw_state demo_game demo_card"
  by (simp add: demo_table_def)

lemma demo_table_filed: "deck_filed (g_state demo_table)" "length (hands (g_state demo_table)) = num_players (g_state demo_table)"
  "0 < num_players (g_state demo_table)" "our_player (g_state demo_table) = 0"
  unfolding demo_table_state by code_simp+

text \<open>Bob has to play the red 1 from his finesse position before a red 2 is playable.\<close>

lemma demo_connected: "\<exists>c. connect demo_table 5 (mk_id 0 2) 0 1 False = Inr (Some [c])"
proof -
  have "case connect demo_table 5 (mk_id 0 2) 0 1 False of Inr (Some [c]) \<Rightarrow> conn_type c = Finesse | _ \<Rightarrow> False" by code_simp
  then show ?thesis by (auto split: sum.splits option.splits list.splits)
qed

text \<open>A clue on it makes it playable.\<close>

lemma demo_played: "\<exists>c ps. target_play demo_table demo_clue 0 = Inr (Some (c, ps))"
proof -
  have "case target_play demo_table demo_clue 0 of Inr (Some _) \<Rightarrow> True | _ \<Rightarrow> False" by code_simp
  then show ?thesis by (auto split: sum.splits option.splits)
qed

text \<open>The clue loses no inference of anyone's.\<close>

lemma demo_fixed: "\<exists>r. check_fix (\<lambda>g _ _. Inr (g, None)) demo_table (common demo_table) demo_clue = Inr r \<and> \<not> fr_rewinded r"
proof -
  have "case check_fix (\<lambda>g _ _. Inr (g, None)) demo_table (common demo_table) demo_clue of Inr r \<Rightarrow> \<not> fr_rewinded r | _ \<Rightarrow> False" by code_simp
  then show ?thesis by (auto split: sum.splits)
qed

text \<open>When we discard a red 1, Bob's card takes over once it has been clued.\<close>

definition demo_told :: game where
  "demo_told = demo_table
     \<lparr>last_actions := [None, Some (ClueAction demo_clue)],
      common := (common demo_table)\<lparr>thoughts := [Some (demo_unknown\<lparr>clued := True\<rparr>)]\<rparr>,
      g_players := map (\<lambda>p. p\<lparr>thoughts := [Some (demo_unknown\<lparr>suit_index := 0, rank := 1\<rparr>)]\<rparr>) (g_players demo_table)\<rparr>"

lemma demo_sarcastic: "\<exists>c. interpret_sarcastic sieve_playables demo_told 0 (mk_id 0 1) = Inr (c, [0])"
proof -
  have "case interpret_sarcastic sieve_playables demo_told 0 (mk_id 0 1) of Inr (c, os) \<Rightarrow> os = [0] | _ \<Rightarrow> False" by code_simp
  then show ?thesis by (auto split: sum.splits)
qed

text \<open>The last two cards of the game: Bob is told of a red 5 of which Alice has been told as well.\<close>

definition demo_last_card :: "nat \<Rightarrow> bool \<Rightarrow> actual_card" where
  "demo_last_card ord new = (deck_at (g_state demo_table) 0)\<lparr>order := ord, suit_index := 0, rank := 5, clued := True, newly_clued := new\<rparr>"

definition demo_five :: "int \<Rightarrow> card" where
  "demo_five k = demo_unknown\<lparr>suit_index := k, rank := (if k = 0 then 5 else -1), clued := True, status := Some CLUED,
     possible := iset_create 2 (AnId (mk_id 0 5)), inferred := iset_create 2 (AnId (mk_id 0 5))\<rparr>"

definition demo_fives :: game where
  "demo_fives = demo_table
     \<lparr>g_state := (g_state demo_table)\<lparr>hands := [[1], [0]], deck := map Some [demo_last_card 0 True, demo_last_card 1 False], play_stacks := [4, 4]\<rparr>,
      common := (common demo_table)\<lparr>thoughts := [Some (demo_five (-1)), Some (demo_five (-1))]\<rparr>,
      g_players := map (\<lambda>p. p\<lparr>thoughts := [Some (demo_five 0), Some (demo_five 0)]\<rparr>) (g_players demo_table)\<rparr>"

lemma demo_distributed: "\<exists>ids. distribution_clue demo_fives demo_clue (Some 0) = Inr (Some ids)"
  "iset_length (base_ids (g_state demo_fives)) = 0"
proof -
  have "case distribution_clue demo_fives demo_clue (Some 0) of Inr (Some _) \<Rightarrow> True | _ \<Rightarrow> False" by code_simp
  then show "\<exists>ids. distribution_clue demo_fives demo_clue (Some 0) = Inr (Some ids)" by (auto split: sum.splits option.splits)
qed code_simp

end
