(* ===== verification/H_Players.thy ===== *)
theory H_Players
  imports Helpers Endgame_States "HOL-Library.List_Lexorder"
begin

text \<open>
  The players of the h-group, \<open>src/src/conventions/h-player.js\<close>, and what its logic asks of a hand
  (\<open>src/src/conventions/h-group/hanabi-logic.js\<close>, \<open>src/src/conventions/h-group/action-helper.js\<close>): the chop, the playables behind
  older finesses, prompts and finesses, the order in which unknown 1s are played, and how severe a stall is.
\<close>

section \<open>Levels\<close>

abbreviation level_cm :: nat where "level_cm \<equiv> 4"
abbreviation level_finesses :: nat where "level_finesses \<equiv> 5"
abbreviation level_trash_moves :: nat where "level_trash_moves \<equiv> 14"

section \<open>Finesses\<close>

text \<open>An earlier finesse is in the way unless every card to its right is clued.\<close>

definition right_all_clued :: "game_state \<Rightarrow> nat list \<Rightarrow> nat \<Rightarrow> bool" where
  "right_all_clued s hand k \<longleftrightarrow> list_all (\<lambda>ord. clued (deck_at s ord)) (drop (Suc k) hand)"

definition older_queued_finesse :: "game_state \<Rightarrow> nat \<Rightarrow> player \<Rightarrow> nat \<Rightarrow> nat option" where
  "older_queued_finesse s pl p new =
     map_option (\<lambda>k. hands s ! pl ! k)
       (List.find (\<lambda>k. let ord = hands s ! pl ! k; c = card_at p ord in
           \<not> clued (deck_at s ord) \<and> \<not> right_all_clued s (hands s ! pl) k \<and>
           (blind_playing c \<or> (status c = Some GD \<and> maybe_layered c)) \<and>
           finesse_index c < finesse_index (card_at p new))
         [0..<length (hands s ! pl)])"

definition real_connects :: "connection list \<Rightarrow> nat \<Rightarrow> nat" where
  "real_connects conns index = length (filter (\<lambda>conn. \<not> conn_hidden conn) (take index conns))"

text \<open>A playable that is queued behind an older finesse is not playable yet.\<close>

definition h_playables :: playables_fun where
  "h_playables p s pl opts =
     filter (\<lambda>ord. \<not> blind_playing (card_at p ord) \<or> older_queued_finesse s pl p ord = None) (thinks_playables p s pl opts)"

section \<open>The chop\<close>

definition chop_index :: "player \<Rightarrow> nat list \<Rightarrow> int" where
  "chop_index p hand =
     (case find_last (\<lambda>k. status (card_at p (hand ! k)) = None) [0..<length hand] of Some k \<Rightarrow> int k | None \<Rightarrow> -1)"

definition chop :: "player \<Rightarrow> nat list \<Rightarrow> nat option" where
  "chop p hand = (if chop_index p hand = -1 then None else Some (hand ! nat (chop_index p hand)))"

definition chop_value :: "player \<Rightarrow> game_state \<Rightarrow> nat \<Rightarrow> rat option \<Rightarrow> rat" where
  "chop_value p s pl no_chop =
     (case chop p (hands s ! pl) of
        Some ord \<Rightarrow> card_value s p (deck_at s ord) (int ord)
      | None \<Rightarrow> (case no_chop of Some q \<Rightarrow> q | None \<Rightarrow> if loaded_by h_playables p s pl default_think then 0 else 4))"

text \<open>The distance counts from the card to the chop and skips cards that were clued before.\<close>

fun chop_steps :: "player \<Rightarrow> nat option \<Rightarrow> nat \<Rightarrow> bool \<Rightarrow> int \<Rightarrow> nat list \<Rightarrow> int option" where
  "chop_steps p ch ord counting n [] = None"
| "chop_steps p ch ord counting n (o1 # os) =
     (let c = card_at p o1 in
      if \<not> (counting \<or> o1 = ord) then chop_steps p ch ord False n os
      else if ch = Some o1 then Some n
      else if clued c \<and> \<not> newly_clued c then chop_steps p ch ord True n os
      else chop_steps p ch ord True (n + 1) os)"

definition chop_distance :: "player \<Rightarrow> nat list \<Rightarrow> nat \<Rightarrow> int result" where
  "chop_distance p hand ord =
     (case chop_steps p (chop p hand) ord False 0 hand of
        Some d \<Rightarrow> Inr d
      | None \<Rightarrow> Inl (Thrown ''distance to chop was negative''))"

section \<open>Prompts and finesses\<close>

definition find_clued :: "player \<Rightarrow> game_state \<Rightarrow> nat \<Rightarrow> basic_card \<Rightarrow> nat list \<Rightarrow> nat list \<Rightarrow> nat list" where
  "find_clued p s pl i used ignored = filter (\<lambda>ord. may_prompt s p i used ord \<and> ord \<notin> set ignored) (hands s ! pl)"

definition h_pink_prompt :: "game_state \<Rightarrow> player \<Rightarrow> basic_card \<Rightarrow> bool \<Rightarrow> nat \<Rightarrow> bool" where
  "h_pink_prompt s p i force_pink ord \<longleftrightarrow>
     \<not> regex_test pinkish (suit_name (variant s) (suit_index i)) \<or> force_pink \<or>
     list_all (\<lambda>j. regex_test pinkish (suit_name (variant s) (suit_index j))) (iset_array (possible (card_at p ord))) \<or>
     \<not> only_rank_clued i (clues (deck_at s ord))"

definition h_prompt :: "player \<Rightarrow> game_state \<Rightarrow> nat \<Rightarrow> basic_card \<Rightarrow> nat list \<Rightarrow> nat list \<Rightarrow> bool \<Rightarrow> nat option" where
  "h_prompt p s pl i used ignored force_pink =
     unless_ignored ignored
       (List.find (\<lambda>ord. may_prompt s p i used ord \<and> h_pink_prompt s p i force_pink ord) (hands s ! pl))"

definition h_finesse :: "player \<Rightarrow> game_state \<Rightarrow> nat \<Rightarrow> nat list \<Rightarrow> nat list \<Rightarrow> nat option" where
  "h_finesse p s pl used ignored =
     unless_ignored ignored (List.find (\<lambda>ord. \<not> touched (card_at p ord) \<and> ord \<notin> set used) (hands s ! pl))"

section \<open>Unknown 1s\<close>

definition first_clued_turn :: "game_state \<Rightarrow> nat \<Rightarrow> int" where
  "first_clued_turn s ord = (case clues (deck_at s ord) of cl # _ \<Rightarrow> clue_turn cl | [] \<Rightarrow> turn_count s)"

definition was_chop_moved :: "card \<Rightarrow> bool" where
  "was_chop_moved c \<longleftrightarrow> status c = Some CM \<or> last_status c = Some CM"

text \<open>The comparison of two orders; positive when the first is played later.\<close>

definition compare_1s :: "game_state \<Rightarrow> player \<Rightarrow> nat \<Rightarrow> nat \<Rightarrow> int" where
  "compare_1s s p o1 o2 =
     (let c1 = card_at p o1; c2 = card_at p o2; start1 = in_starting_hand s o1; start2 = in_starting_hand s o2 in
      if first_clued_turn s o1 \<noteq> first_clued_turn s o2 then first_clued_turn s o2 - first_clued_turn s o1
      else if blind_playing c1 \<and> blind_playing c2 then finesse_index c1 - finesse_index c2
      else if blind_playing c1 then -1
      else if blind_playing c2 then 1
      else if was_chop_moved c1 \<and> was_chop_moved c2 then int o2 - int o1
      else if was_chop_moved c1 then 1
      else if was_chop_moved c2 then -1
      else if chop_when_first_clued c1 \<and> chop_when_first_clued c2 then int o2 - int o1
      else if chop_when_first_clued c1 then -1
      else if chop_when_first_clued c2 then 1
      else if \<not> start1 \<and> (start2 \<or> o1 > o2) then -1
      else if start1 \<and> start2 \<and> o2 > o1 then -1
      else 1)"

definition order_1s :: "game_state \<Rightarrow> player \<Rightarrow> nat list \<Rightarrow> bool \<Rightarrow> nat list" where
  "order_1s s p os no_filter =
     js_sort (\<lambda>o1 o2. compare_1s s p o1 o2 > 0)
       (if no_filter then os
        else filter (\<lambda>ord. unknown_1 (deck_at s ord) False \<and> list_all (\<lambda>i. rank i = 1) (iset_array (possible (card_at p ord)))) os)"

section \<open>Stalls\<close>

definition stall_severity :: "game_state \<Rightarrow> player \<Rightarrow> nat \<Rightarrow> player \<Rightarrow> nat" where
  "stall_severity s p giver after_p =
     (if clue_tokens s = 8 \<and> turn_count s \<noteq> 1 then 4
      else if locked_by h_playables p s giver False then 3
      else if discard_state s = Some Scream \<or> discard_state s = Some Shout \<or>
        (case (dda s, chop p (hands s ! giver)) of
           (Some i, Some ord) \<Rightarrow> iset_has (possible (card_at after_p ord)) i
         | _ \<Rightarrow> False) then 2
      else if early_game s then 1
      else 0)"

definition minimum_clue_value :: "game_state \<Rightarrow> rat" where
  "minimum_clue_value s = 1 - (if num_players s = 2 then 1 / 2 else 0) - (if in_endgame s then 10 else 0)"

section \<open>Facts\<close>

lemma chop_index_find:
  "chop_index p hand \<noteq> -1 \<Longrightarrow> \<exists>k < length hand. chop_index p hand = int k \<and> status (card_at p (hand ! k)) = None \<and>
    (\<forall>m. k < m \<and> m < length hand \<longrightarrow> status (card_at p (hand ! m)) \<noteq> None)"
proof (induction hand rule: rev_induct)
  case Nil
  then show ?case by (simp add: chop_index_def find_last_def)
next
  case (snoc ord hand)
  have e: "List.find (\<lambda>k. status (card_at p ((hand @ [ord]) ! k)) = None) (rev [0..<length hand]) =
      List.find (\<lambda>k. status (card_at p (hand ! k)) = None) (rev [0..<length hand])"
    by (rule find_cong) (simp_all add: nth_append)
  show ?case
  proof (cases "status (card_at p ord) = None")
    case True
    then have "chop_index p (hand @ [ord]) = int (length hand)" by (simp add: chop_index_def find_last_def)
    with True show ?thesis by (auto simp: nth_append)
  next
    case False
    then have c: "chop_index p (hand @ [ord]) = chop_index p hand"
      using e False by (simp add: chop_index_def find_last_def del: not_None_eq)
    with snoc obtain k where k: "k < length hand" "chop_index p hand = int k" "status (card_at p (hand ! k)) = None"
      "\<forall>m. k < m \<and> m < length hand \<longrightarrow> status (card_at p (hand ! m)) \<noteq> None" by auto
    show ?thesis
    proof (intro exI conjI allI impI)
      show "k < length (hand @ [ord])" "chop_index p (hand @ [ord]) = int k" "status (card_at p ((hand @ [ord]) ! k)) = None"
        using k c by (simp_all add: nth_append)
      fix m assume "k < m \<and> m < length (hand @ [ord])"
      then show "status (card_at p ((hand @ [ord]) ! m)) \<noteq> None"
        using k(4) False by (cases "m = length hand") (auto simp: nth_append)
    qed
  qed
qed

text \<open>The comparison of unknown 1s is that of a key: the turn of the first clue (late first), then finessed cards (in the
  order of the finesses), chop focus (new first), fresh cards (new first), cards of the starting hand (old first), and
  chop moved cards (new first).\<close>

definition key_class :: "game_state \<Rightarrow> player \<Rightarrow> nat \<Rightarrow> int" where
  "key_class s p ord =
     (let c = card_at p ord in
      if blind_playing c then 0 else if was_chop_moved c then 4 else if chop_when_first_clued c then 1
      else if \<not> in_starting_hand s ord then 2 else 3)"

definition key_1s :: "game_state \<Rightarrow> player \<Rightarrow> nat \<Rightarrow> int list" where
  "key_1s s p ord =
     [- first_clued_turn s ord, key_class s p ord,
      if key_class s p ord = 0 then finesse_index (card_at p ord) else if key_class s p ord = 3 then int ord else - int ord]"

lemma compare_1s_key: "o1 \<noteq> o2 \<Longrightarrow> compare_1s s p o1 o2 > 0 \<longleftrightarrow> key_1s s p o2 < key_1s s p o1"
  by (auto simp: compare_1s_def key_1s_def key_class_def Let_def)

lemma order_1s_sorted:
  assumes "distinct os"
  shows "order_1s s p os True = sort_key (key_1s s p) os"
  unfolding order_1s_def if_True by (rule js_sort_key [OF assms]) (simp add: compare_1s_key)

end
