(* ===== verification/H_Logic.thy ===== *)
theory H_Logic
  imports H_Players
begin

text \<open>
  The logic of the h-group: \<open>src/src/conventions/h-group/hanabi-logic.js\<close> (the focus of a clue, trash pushes, tempo clues)
  and \<open>src/src/conventions/h-group/clue-interpretation/interpret-cm.js\<close> (chop moves).
\<close>

section \<open>Trash clues\<close>

definition focus_ids :: "game \<Rightarrow> 'b base_clue_scheme \<Rightarrow> nat \<Rightarrow> basic_card list" where
  "focus_ids g cl focus =
     filter (\<lambda>i. (clue_kind cl = RankClue \<longrightarrow> rank i = clue_value cl) \<and> card_touched i (variant (g_state g)) cl)
       (iset_array (possible (card_at (common g) focus)))"

text \<open>A focus that can be played as one card only is still trash when its holder knows better, or when we may hold that card.\<close>

definition is_trash_clue :: "game \<Rightarrow> nat \<Rightarrow> 'b base_clue_scheme \<Rightarrow> nat \<Rightarrow> nat \<Rightarrow> player \<Rightarrow> bool" where
  "is_trash_clue g giver cl target focus old =
     (let s = g_state g; us = our_player s;
          ids = filter (\<lambda>i. \<not> is_trash s old i (int focus) infer_opts False) (focus_ids g cl focus) in
      case ids of
        [] \<Rightarrow> True
      | i # _ \<Rightarrow>
          if level (own g) < level_trash_moves \<or> sum_list (map (\<lambda>j. total_count s j - discards_of s j) ids) > 1 then False
          else \<not> iset_has (possible (card_at (g_players g ! target) focus)) i \<or>
            (giver \<noteq> us \<and> target \<noteq> us \<and> list_ex (\<lambda>ord. iset_has (possible (card_at (me g) ord)) i) (our_hand s)))"

text \<open>A trash push: the new chop after a trash clue on the chop.\<close>

definition interpret_tp :: "game \<Rightarrow> nat list \<Rightarrow> player \<Rightarrow> nat list \<Rightarrow> nat \<Rightarrow> nat \<Rightarrow> 'b base_clue_scheme \<Rightarrow> nat option" where
  "interpret_tp g hand p os giver target cl =
     (case chop p hand of
        None \<Rightarrow> None
      | Some ch \<Rightarrow>
          if ch \<notin> set os then None
          else
            (case find_last (\<lambda>ord. status (card_at p ord) = None \<and> ord \<notin> set os) (take (nat (chop_index p hand)) hand) of
               None \<Rightarrow> None
             | Some ord \<Rightarrow> if is_trash_clue g giver cl target ch p then Some ord else None))"

section \<open>The focus\<close>

record focus_result =
  fo_focus :: "nat option"
  fo_chop :: bool
  fo_positional :: bool
  fo_trash_push :: bool

definition focused_on :: "nat option \<Rightarrow> focus_result" where
  "focused_on o1 = \<lparr>fo_focus = o1, fo_chop = False, fo_positional = False, fo_trash_push = False\<rparr>"

definition colour_name :: "game_state \<Rightarrow> int \<Rightarrow> string" where
  "colour_name s k = (case get (colourable_suits (variant s)) k of Some n \<Rightarrow> n | None \<Rightarrow> ''undefined'')"

text \<open>A reclue with a rank in a pink variant chooses the slot of that number, when it and the leftmost card are pink.\<close>

definition shown_pink :: "game_state \<Rightarrow> int \<Rightarrow> nat \<Rightarrow> bool" where
  "shown_pink s r ord \<longleftrightarrow>
     list_ex (\<lambda>cl. if clue_kind cl = ColourClue then regex_test pinkish (colour_name s (clue_value cl)) else clue_value cl \<noteq> r)
       (clues (deck_at s ord))"

definition reclued :: "game_state \<Rightarrow> nat list \<Rightarrow> bool" where
  "reclued s os \<longleftrightarrow> list_all (\<lambda>ord. clued (deck_at s ord)) os"

definition pink_choice :: "game_state \<Rightarrow> nat list \<Rightarrow> nat list \<Rightarrow> 'b base_clue_scheme \<Rightarrow> bool" where
  "pink_choice s hand os cl \<longleftrightarrow>
     clue_kind cl = RankClue \<and> includes_variant s pinkish \<and> reclued s os \<and> clue_value cl \<le> int (length hand) \<and>
     (case get hand (clue_value cl - 1) of
        Some ord \<Rightarrow> ord \<in> set os \<and> list_all (shown_pink s (clue_value cl)) [Max (set os), ord]
      | None \<Rightarrow> False)"

definition brown_tempo :: "game_state \<Rightarrow> nat list \<Rightarrow> 'b base_clue_scheme \<Rightarrow> bool" where
  "brown_tempo s os cl \<longleftrightarrow>
     clue_kind cl = ColourClue \<and> regex_test [''Brown''] (colour_name s (clue_value cl)) \<and> reclued s os"

definition muddy :: "string list" where
  "muddy = [''Muddy'', ''Cocoa'']"

definition may_be_muddy :: "game \<Rightarrow> nat \<Rightarrow> bool" where
  "may_be_muddy g ord \<longleftrightarrow>
     (let k = (case find_indices (regex_test muddy) (suits (variant (g_state g))) of k # _ \<Rightarrow> int k | [] \<Rightarrow> -1) in
      list_ex (\<lambda>i. suit_index i = k) (iset_array (possible (card_at (common g) ord))))"

text \<open>A reclue with a colour of a muddy variant counts through the cards that may be muddy.\<close>

definition muddy_focus :: "game \<Rightarrow> nat list \<Rightarrow> 'b base_clue_scheme \<Rightarrow> nat option" where
  "muddy_focus g desc cl =
     (let s = g_state g; may = filter (may_be_muddy g) desc; n = int (length (colourable_suits (variant s))); amt = int (length may) in
      if clue_kind cl = ColourClue \<and> includes_variant s muddy \<and> reclued s desc \<and>
         (case desc of ord # _ \<Rightarrow> may_be_muddy g ord | [] \<Rightarrow> False)
      then get may (js_rem (clue_value cl - n + n * amt) amt) else None)"

definition first_of :: "'a option list \<Rightarrow> 'a option" where
  "first_of xs = (case List.find (\<lambda>x. x \<noteq> None) xs of Some x \<Rightarrow> x | None \<Rightarrow> None)"

definition leftmost_chop_moved :: "player \<Rightarrow> nat list \<Rightarrow> nat option" where
  "leftmost_chop_moved p desc = List.find (\<lambda>ord. status (card_at p ord) = Some CM) desc"

definition first_order :: "nat list \<Rightarrow> nat option" where
  "first_order os = (case os of ord # _ \<Rightarrow> Some ord | [] \<Rightarrow> None)"

text \<open>In a pink variant a stall with rank 5 has its focus on the rightmost unclued card.\<close>

definition plain_focus :: "game \<Rightarrow> player \<Rightarrow> nat list \<Rightarrow> 'b base_clue_scheme \<Rightarrow> nat option" where
  "plain_focus g p desc cl =
     (let s = g_state g in
      if clue_kind cl = RankClue \<and> clue_value cl = 5 \<and> includes_variant s pinkish \<and>
         stall_severity s (common g) (our_player s) (common g) > 0
      then first_of [find_last (\<lambda>ord. \<not> known (card_at p ord) \<and> status (card_at p ord) = None) desc,
             leftmost_chop_moved p desc, first_order desc]
      else first_of [List.find (\<lambda>ord. \<not> known (card_at p ord) \<and> \<not> clued (deck_at s ord)) desc,
             leftmost_chop_moved p desc, first_order desc])"

definition tempo_focus :: "game \<Rightarrow> nat list \<Rightarrow> player \<Rightarrow> nat list \<Rightarrow> 'b base_clue_scheme \<Rightarrow> focus_result result" where
  "tempo_focus g hand p os cl =
     (let s = g_state g; desc = rev (sort os);
          ones = order_1s s (common g) (filter (\<lambda>ord. unknown_1 (deck_at s ord) True) os) True in
      if pink_choice s hand os cl then Inr ((focused_on (get hand (clue_value cl - 1)))\<lparr>fo_positional := True\<rparr>)
      else if brown_tempo s os cl then Inr ((focused_on (find_last (\<lambda>ord. ord \<in> set os) hand))\<lparr>fo_positional := True\<rparr>)
      else if clue_kind cl = RankClue \<and> clue_value cl = 1 \<and> ones \<noteq> [] then Inr (focused_on (first_order ones))
      else
        case muddy_focus g desc cl of
          Some ord \<Rightarrow> Inr ((focused_on (Some ord))\<lparr>fo_positional := True\<rparr>)
        | None \<Rightarrow>
            (case plain_focus g p desc cl of
               Some ord \<Rightarrow> Inr (focused_on (Some ord))
             | None \<Rightarrow> Inl (Thrown ''No focus found!'')))"

definition h_focus :: "game \<Rightarrow> nat list \<Rightarrow> player \<Rightarrow> nat list \<Rightarrow> nat \<Rightarrow> nat \<Rightarrow> 'b base_clue_scheme \<Rightarrow> focus_result result" where
  "h_focus g hand p os giver target cl =
     (case chop p hand of
        Some ch \<Rightarrow>
          if ch \<in> set os then
            (case (if level (own g) \<ge> level_trash_moves then interpret_tp g hand p os giver target cl else None) of
               Some tp \<Rightarrow> Inr \<lparr>fo_focus = Some tp, fo_chop = True, fo_positional = False, fo_trash_push = True\<rparr>
             | None \<Rightarrow> Inr ((focused_on (Some ch))\<lparr>fo_chop := True\<rparr>))
          else tempo_focus g hand p os cl
      | None \<Rightarrow> tempo_focus g hand p os cl)"

section \<open>What a clue says\<close>

text \<open>The hypothetical stacks as the giver thinks the target knows them. A card whose suit is not stored writes past the
  array's indices.\<close>

definition resolve_unknown :: "game \<Rightarrow> nat \<Rightarrow> nat \<Rightarrow> nat \<Rightarrow> int list \<Rightarrow> int list" where
  "resolve_unknown g giver target ord stacks =
     (let s = g_state g; c = card_at (g_players g ! giver) ord; k = nat (suit_index c) in
      if ord \<in> set (hands s ! target) \<or>
         (ord \<in> set (hands s ! giver) \<and> identity infer_opts (card_at (common g) ord) = None) \<or>
         identity no_opts c = None \<or> suit_index c < 0 then stacks
      else stacks[k := max (stacks ! k) (rank c)])"

definition rank_looks_playable :: "game \<Rightarrow> int \<Rightarrow> nat \<Rightarrow> nat \<Rightarrow> nat \<Rightarrow> bool" where
  "rank_looks_playable g r giver target ord \<longleftrightarrow>
     (let s = g_state g; com = common g; stacks = fold (resolve_unknown g giver target) (unknown_plays com) (hypo_stacks com) in
      list_ex (\<lambda>k. let i = mk_id (int k) r in
          stacks ! k + 1 = r \<and>
          base_count s i + int (length (filter (\<lambda>o2. o2 \<noteq> ord) (visible_find s com i no_opts []))) < total_count s i \<and>
          iset_has (inferred (card_at (g_players g ! target) ord)) i)
        [0..<length stacks])"

record tempo_result =
  tr_tempo :: bool
  tr_valuable :: bool

definition colour_known :: "game \<Rightarrow> nat list \<Rightarrow> bool" where
  "colour_known g os \<longleftrightarrow>
     list_ex (\<lambda>v. includes_variant (g_state g) v \<and> list_all (\<lambda>ord. known_as (common g) (g_state g) ord v) os) [pinkish, brownish]"

definition valuable_tempo_clue :: "game \<Rightarrow> clue \<Rightarrow> card list \<Rightarrow> nat \<Rightarrow> tempo_result" where
  "valuable_tempo_clue g cl playables focus =
     (let s = g_state g; com = common g; target = clue_target cl; p = g_players g ! target;
          os = clue_touched s (hands s ! target) cl; none = \<lparr>tr_tempo = False, tr_valuable = False\<rparr>;
          prev = h_playables p s target default_think in
      if list_ex (\<lambda>ord. \<not> clued (deck_at s ord)) os then none
      else if colour_known g os then \<lparr>tr_tempo = True, tr_valuable = True\<rparr>
      else
        case h_prompt com s target (raw (deck_at s focus)) [] [] False of
          None \<Rightarrow> none
        | Some pr \<Rightarrow>
            if list_all (\<lambda>c. order c \<in> set prev \<or>
                 (case identity infer_opts (card_at p (order c)) of Some i \<Rightarrow> basic_matches i (deck_at s (order c)) | None \<Rightarrow> False))
               playables then none
            else \<lparr>tr_tempo = True,
              tr_valuable = length playables > 1 \<or> (rank (deck_at s focus) \<noteq> 5 \<and> pr \<noteq> focus) \<or>
                list_ex (\<lambda>c. let d = card_at com (order c) in last_status d = Some CM \<and> newly_clued d) playables\<rparr>)"

definition clue_uncertain :: "game \<Rightarrow> game \<Rightarrow> nat \<Rightarrow> bool" where
  "clue_uncertain g hg focus \<longleftrightarrow>
     list_ex (\<lambda>ord. uncertain (card_at (common g) ord) \<and>
         played_before False (deck_at (g_state hg) ord) (deck_at (g_state hg) focus))
       (hypo_plays (common hg))"

text \<open>The giver could have touched the same cards with a colour that the prompt has been clued with, but did not.\<close>

definition rainbow_id :: "game_state \<Rightarrow> 'a basic_card_scheme \<Rightarrow> bool" where
  "rainbow_id s i \<longleftrightarrow> regex_test rainbowish (suit_name (variant s) (suit_index i))"

definition rainbow_mismatch :: "game \<Rightarrow> clue_action \<Rightarrow> basic_card \<Rightarrow> nat \<Rightarrow> bool" where
  "rainbow_mismatch g a i prompt \<longleftrightarrow>
     (let s = g_state g; target = ca_target a; cl = ca_clue a;
          free = filter (\<lambda>c. sort (clue_touched s (hands s ! target) c) = sort (ca_list a)) (all_valid_clues s target);
          matching = filter (\<lambda>c. list_ex (\<lambda>old. clue_kind c = ColourClue \<and> clue_kind old = ColourClue \<and> clue_value c = clue_value old)
            (clues (deck_at s prompt))) free in
      clue_kind cl = ColourClue \<and> rainbow_id s i \<and> \<not> known_as (common g) s prompt rainbowish \<and>
      list_all (\<lambda>ord. if target = our_player s then list_all (rainbow_id s) (iset_array (possible (card_at (me g) ord)))
          else rainbow_id s (deck_at s ord)) (ca_list a) \<and>
      matching \<noteq> [] \<and> \<not> list_ex (\<lambda>c. clue_value c = clue_value cl) matching)"

section \<open>Chop moves\<close>

text \<open>A trash chop move: every unclued card to the right of the oldest new card. With \<open>assuming\<close> any new focus counts as trash.\<close>

definition interpret_tcm :: "game \<Rightarrow> clue_action \<Rightarrow> nat \<Rightarrow> player \<Rightarrow> bool \<Rightarrow> nat list" where
  "interpret_tcm g a focus old assuming =
     (let s = g_state g; hand = hands s ! ca_target a;
          oldest = find_last (\<lambda>k. newly_clued (deck_at s (hand ! k))) [0..<length hand] in
      if \<not> newly_clued (deck_at s focus) \<or>
         (\<not> assuming \<and> \<not> is_trash_clue g (ca_giver a) (ca_clue a) (ca_target a) focus old) then []
      else filter (\<lambda>ord. \<not> clued (deck_at s ord) \<and> status (card_at (common g) ord) \<noteq> Some CM)
        (case oldest of Some k \<Rightarrow> drop (Suc k) hand | None \<Rightarrow> hand))"

text \<open>A 5's chop move: the rightmost new 5 is one away from the chop, which is not known trash.\<close>

definition interpret_5cm :: "game \<Rightarrow> nat \<Rightarrow> nat \<Rightarrow> 'b base_clue_scheme \<Rightarrow> player \<Rightarrow> nat list result" where
  "interpret_5cm g target focus cl old =
     (let s = g_state g; hand = hands s ! target; ci = chop_index old hand;
          five = find_last (\<lambda>k. int k \<le> ci \<and> newly_clued (deck_at s (hand ! k)) \<and>
            list_ex (\<lambda>c. clue_kind c = RankClue \<and> clue_value c = 5) (clues (deck_at s (hand ! k)))) [0..<length hand] in
      if clue_kind cl \<noteq> RankClue \<or> clue_value cl \<noteq> 5 \<or> \<not> newly_clued (deck_at s focus) \<or> early_game s then Inr []
      else
        case five of
          None \<Rightarrow> Inr []
        | Some k \<Rightarrow>
            bindR (chop_distance old hand (hand ! k)) (\<lambda>d.
              let ord = hand ! nat ci in
              Inr (if d = 1 \<and> \<not> list_all (\<lambda>i. is_trash s (common g) i (int ord) infer_opts False)
                     (iset_array (possible (card_at (common g) ord)))
                   then [ord] else [])))"

text \<open>A tempo clue chop move: the clue brings exactly one play that was already promised by a prompt. A target without a chop
  gives an array that holds \<open>undefined\<close>, whose thoughts cannot be read.\<close>

definition not_tccm :: "game \<Rightarrow> player \<Rightarrow> nat \<Rightarrow> nat list \<Rightarrow> actual_card \<Rightarrow> bool" where
  "not_tccm g old target os f \<longleftrightarrow>
     (let s = g_state g; com = common g; fc = card_at com (order f) in
      in_endgame s \<or> list_ex (\<lambda>v. known_as com s (order f) v) [brownish, pinkish] \<or>
      list_ex (\<lambda>k. hypo_stacks old ! k > hypo_stacks com ! k) [0..<length (hypo_stacks old)] \<or>
      locked_by h_playables old s target False \<or>
      list_ex (\<lambda>ord. newly_clued (deck_at s ord) \<and>
        \<not> list_all (\<lambda>i. is_trash s old i (int (order f)) infer_opts False) (iset_array (possible (card_at com ord)))) os \<or>
      hypo_score com \<noteq> hypo_score old + 1 \<or>
      (order f \<notin> set (unknown_plays com) \<and>
        (case basic_identity f of Some i \<Rightarrow> hypo_stacks com ! nat (suit_index i) < rank i | None \<Rightarrow> False)) \<or>
      (list_all (\<lambda>i. case h_prompt old s target i [] [] False of Some pr \<Rightarrow> pr \<noteq> order f | None \<Rightarrow> False)
          (iset_array (inferred fc)) \<and>
        (case identity infer_opts fc of Some i \<Rightarrow> rank i \<noteq> 5 | None \<Rightarrow> True)) \<or>
      list_ex (\<lambda>ord. \<not> blind_playing (card_at old ord) \<and> blind_playing (card_at com ord)) (all_orders s))"

definition interpret_tccm :: "game \<Rightarrow> player \<Rightarrow> nat \<Rightarrow> nat list \<Rightarrow> actual_card \<Rightarrow> nat list result" where
  "interpret_tccm g old target os f =
     (if not_tccm g old target os f then Inr []
      else bindR (need (chop (common g) (hands (g_state g) ! target))) (\<lambda>ord. Inr [ord]))"

definition perform_cm_card :: "game_state \<Rightarrow> player \<Rightarrow> nat \<Rightarrow> player result" where
  "perform_cm_card s p ord =
     write_card p ord (\<lambda>d.
       W_inferred (iset_subtract (inferred d)
         (Ids (filter (\<lambda>i. is_trash s p i (int ord) infer_opts False) (iset_array (inferred d))))) # status_writes CM d)"

definition perform_cm :: "game_state \<Rightarrow> player \<Rightarrow> nat list \<Rightarrow> player result" where
  "perform_cm s = foldR (perform_cm_card s)"

section \<open>Facts\<close>

lemma first_of_SomeD: "first_of xs = Some x \<Longrightarrow> Some x \<in> set xs"
  by (auto simp: first_of_def split: option.splits dest!: find_SomeD)

lemma plain_focus_in: "plain_focus g p desc cl = Some ord \<Longrightarrow> ord \<in> set desc"
  by (auto simp: plain_focus_def leftmost_chop_moved_def first_order_def Let_def
      dest!: first_of_SomeD find_SomeD find_last_SomeD sym [of "Some ord"] split: if_splits list.splits)

lemma plain_focus_total: "desc \<noteq> [] \<Longrightarrow> plain_focus g p desc cl \<noteq> None"
  by (cases desc) (auto simp: plain_focus_def first_of_def first_order_def Let_def split: option.splits)

lemma get_in: "get xs k = Some x \<Longrightarrow> x \<in> set xs"
  by (auto simp: get_def split: if_splits)

text \<open>A clue that touches a card has a focus; it is touched, except for the new chop of a trash push.\<close>

lemma muddy_focus_in: "muddy_focus g desc cl = Some ord \<Longrightarrow> ord \<in> set desc"
  by (auto simp: muddy_focus_def Let_def dest!: get_in split: if_splits)

lemma tempo_focus_in:
  assumes "tempo_focus g hand p os cl = Inr r" "os \<noteq> []" "set os \<subseteq> set hand"
  shows "\<exists>ord \<in> set os. fo_focus r = Some ord \<and> \<not> fo_trash_push r"
proof -
  have last_in: "\<exists>ord. find_last (\<lambda>ord. ord \<in> set os) hand = Some ord \<and> ord \<in> set os"
  proof (cases "find_last (\<lambda>ord. ord \<in> set os) hand")
    case None
    with assms(2,3) show ?thesis by (cases os) (auto simp: find_last_def find_None_iff)
  qed (auto dest: find_last_SomeD)
  define ones where "ones = order_1s (g_state g) (common g) (filter (\<lambda>ord. unknown_1 (deck_at (g_state g) ord) True) os) True"
  have first: "\<exists>ord \<in> set os. first_order ones = Some ord" if "ones \<noteq> []"
  proof -
    have "set ones \<subseteq> set os" by (auto simp: ones_def order_1s_def)
    with that show ?thesis by (cases ones) (auto simp: first_order_def)
  qed
  show ?thesis
    using assms(1) last_in first unfolding tempo_focus_def Let_def ones_def [symmetric]
    by (auto simp: focused_on_def pink_choice_def dest!: muddy_focus_in plain_focus_in get_in split: if_splits option.splits)
qed

lemma tempo_focus_total:
  assumes "os \<noteq> []"
  shows "\<exists>r. tempo_focus g hand p os cl = Inr r"
proof -
  have "rev (sort os) \<noteq> []" using assms by (metis rev_is_Nil_conv set_empty set_sort)
  then obtain ord where "plain_focus g p (rev (sort os)) cl = Some ord" using plain_focus_total by blast
  then show ?thesis by (simp add: tempo_focus_def Let_def split: option.splits)
qed

lemma chop_in: "chop p hand = Some ord \<Longrightarrow> ord \<in> set hand \<and> status (card_at p ord) = None"
  using chop_index_find [of p hand] by (auto simp: chop_def split: if_splits)

lemma interpret_tp_in:
  "interpret_tp g hand p os giver target cl = Some ord \<Longrightarrow> ord \<in> set hand \<and> ord \<notin> set os \<and> status (card_at p ord) = None"
  by (auto simp: interpret_tp_def dest!: find_last_SomeD dest: in_set_takeD split: option.splits if_splits)

lemma h_focus_found:
  assumes "os \<noteq> []" "set os \<subseteq> set hand"
  shows "\<exists>r ord. h_focus g hand p os giver target cl = Inr r \<and> fo_focus r = Some ord \<and> ord \<in> set hand \<and>
    (if fo_trash_push r then ord \<notin> set os \<and> status (card_at p ord) = None else ord \<in> set os)"
proof -
  obtain r where r: "tempo_focus g hand p os cl = Inr r" using tempo_focus_total [OF assms(1)] by blast
  from tempo_focus_in [OF r assms] assms(2) obtain ord where "fo_focus r = Some ord" "ord \<in> set os" "ord \<in> set hand" "\<not> fo_trash_push r"
    by blast
  with r assms(2) show ?thesis
    by (cases "chop p hand")
      (auto simp: h_focus_def focused_on_def dest!: interpret_tp_in split: option.splits if_splits)
qed

end
