(* ===== verification/H_Turns.thy ===== *)
theory H_Turns
  imports H_Players Waiting_Conns
begin

text \<open>
  Plays and turns in the h-group: \<open>src/src/conventions/h-group/interpret-play.js\<close>, \<open>src/src/conventions/h-group/update-turn.js\<close>
  and \<open>src/src/conventions/h-group/update-wcs.js\<close>. The handlers change the game that they are given; here they return it. The loop
  over the waiting connections marks one that is done with the index \<open>-1\<close>: the model keeps these marks beside the
  connections and gives them the index 0, which is as far as anything but the mark can tell.
\<close>

section \<open>Plays\<close>

text \<open>\<open>mutate\<close> of \<open>src/src/basics.js\<close>: the new state, common knowledge and players, but not the new identities of the deck.\<close>

definition mutate :: "game \<Rightarrow> game \<Rightarrow> game" where
  "mutate g g' = g\<lparr>g_state := g_state g', common := common g', g_players := g_players g'\<rparr>"

definition check_ocm :: "game \<Rightarrow> card_action \<Rightarrow> nat option" where
  "check_ocm g a =
     (let s = g_state g; com = common g; pl = act_player a;
          k = index_of (order_1s s com (hands s ! pl) False) (act_order a);
          target = (pl + nat k) mod num_players s in
      if k = -1 \<or> k = 0 \<or> target = pl then None else chop com (hands s ! target))"

definition play_surprise :: "game \<Rightarrow> card_action \<Rightarrow> bool" where
  "play_surprise g a \<longleftrightarrow>
     (let c = card_at (common g) (act_order a) in
      act_player a = our_player (g_state g) \<and> act_suit a \<noteq> -1 \<and>
      (iset_length (inferred c) \<noteq> 1 \<or>
       (case first_id (Some (inferred c)) of Some j \<Rightarrow> \<not> basic_matches j (act_id a) | None \<Rightarrow> True) \<or>
       list_ex (\<lambda>l. act_order a \<in> set (pl_orders l)) (play_links (common g))) \<and>
      \<not> rewinded c)"

definition chop_move_ocm :: "game \<Rightarrow> card_action \<Rightarrow> game result" where
  "chop_move_ocm g a =
     (if level (own g) \<ge> level_cm \<and> act_rank a = 1 then
        (case check_ocm g a of
           Some ord \<Rightarrow> bindR (write_card (common g) ord (status_writes CM)) (\<lambda>c. Inr (g\<lparr>common := c\<rparr>))
         | None \<Rightarrow> Inr g)
      else Inr g)"

definition settle_certain :: "game \<Rightarrow> nat \<Rightarrow> game result" where
  "settle_certain g pl =
     (if pl = our_player (g_state g) then
        bindR (foldR (\<lambda>p ord.
            bindR (need (slot (thoughts p) ord)) (\<lambda>c. if uncertain c then write_card p ord (\<lambda>d. [W_uncertain False]) else Inr p))
          (common g) (our_hand (g_state g))) (\<lambda>c. Inr (g\<lparr>common := c\<rparr>))
      else Inr g)"

definition elim_and_tell :: "game \<Rightarrow> game result" where
  "elim_and_tell g =
     bindR (good_touch_elim (common g) (g_state g) False) (\<lambda>c1.
     bindR (update_hypo_stacks c1 (g_state g) None) (\<lambda>c2. team_elim (g\<lparr>common := c2\<rparr>)))"

definition h_play_on :: "game \<Rightarrow> card_action \<Rightarrow> game result" where
  "h_play_on g a =
     (let pl = act_player a;
          g1 = (if blind_playing (card_at (common g) (act_order a))
                then g\<lparr>own := (own g)\<lparr>finesses_while_finessed := (finesses_while_finessed (own g))[pl := []]\<rparr>\<rparr> else g) in
      bindR (chop_move_ocm g1 a) (\<lambda>g2.
      bindR (on_play g2 a) (\<lambda>g3.
      bindR (elim_and_tell (mutate g2 g3)) (\<lambda>g4. settle_certain g4 pl))))"

definition h_play :: "rewinder \<Rightarrow> card_action \<Rightarrow> game \<Rightarrow> game result" where
  "h_play rw a g =
     (if play_surprise g a then
        bindR (rw g (drawn_index (card_at (common g) (act_order a)) + 1)
            [IdentifyAction (act_order a) (act_player a) [act_id a] False]) (\<lambda>gg.
          case snd gg of Some g2 \<Rightarrow> update_notes g2 | None \<Rightarrow> h_play_on (fst gg) a)
      else h_play_on g a)"

section \<open>Taking back a finesse\<close>

definition remove_finesse :: "game \<Rightarrow> waiting_connection \<Rightarrow> game result" where
  "remove_finesse g wc =
     bindR (remove_finesse_conns (common g) wc) (\<lambda>c1.
     bindR (update_hypo_stacks c1 (g_state g) None) (\<lambda>c2. Inr (g\<lparr>common := c2\<rparr>)))"

section \<open>What becomes of a connection\<close>

record demonstration =
  de_order :: nat
  de_inference :: basic_card
  de_connections :: "connection list"

record wc_result =
  wr_remove :: bool
  wr_finesse :: bool
  wr_next :: "nat option"
  wr_demonstration :: "demonstration option"
  wr_ambiguous :: bool
  wr_self :: bool

definition keep_wc :: wc_result where
  "keep_wc = \<lparr>wr_remove = False, wr_finesse = False, wr_next = None, wr_demonstration = None, wr_ambiguous = False, wr_self = False\<rparr>"

definition drop_wc :: wc_result where
  "drop_wc = keep_wc\<lparr>wr_remove := True, wr_finesse := True\<rparr>"

text \<open>The card has been clued since, and the clue made it playable by itself. (A clued card has clues.)\<close>

definition stomped_finesse :: "game \<Rightarrow> nat \<Rightarrow> nat \<Rightarrow> waiting_connection \<Rightarrow> bool \<Rightarrow> bool result" where
  "stomped_finesse g reacting ord wc played =
     (let s = g_state g; com = common g; c = card_at com ord in
      if \<not> (clued c \<and> clues c \<noteq> [] \<and> clue_turn (last (clues c)) > wc_turn wc) then Inr False
      else if focused c then Inr True
      else if h_playables com s reacting default_think \<noteq> [] then Inr False
      else
        bindR (if played then need (old_possible c) else Inr (possible c)) (\<lambda>poss.
          Inr (list_all (\<lambda>i. is_playable s i \<or> matches (no_opts\<lparr>o_assume := Some True\<rparr>) c i \<or> is_basic_trash s i) (iset_array poss))))"

text \<open>The connections in the loop, the place of the one in question, and the marks of those that are done.\<close>

record wc_loop =
  wl_place :: nat
  wl_done :: "nat set"

definition passback :: "game_state \<Rightarrow> waiting_connection \<Rightarrow> nat \<Rightarrow> bool" where
  "passback s wc reacting \<longleftrightarrow>
     (let n = length (filter (\<lambda>conn. \<not> conn_hidden conn \<and> conn_reacting conn = reacting \<and> conn_type conn = Finesse)
            (drop (wc_conn_index wc) (wc_connections wc))) in
      reacting \<noteq> our_player s \<and> n > 1 \<and> int n = rank (wc_inference wc) - stack_of s (wc_inference wc) - 1 \<and>
      \<not> wc_ambiguous_passback wc)"

text \<open>A newer finesse on the player of a later connection, of another suit. (Connections have identities.)\<close>

definition new_finesse_queued :: "game_state \<Rightarrow> player \<Rightarrow> waiting_connection \<Rightarrow> bool" where
  "new_finesse_queued s com wc \<longleftrightarrow>
     list_ex (\<lambda>conn. conn_type conn = Finesse \<and>
       list_ex (\<lambda>ord. let c = card_at com ord in
         blind_playing c \<and> finesse_index c > finesse_index (card_at com (conn_order conn)) \<and>
         \<not> list_ex (\<lambda>i. suit_index i = suit_index (hd (conn_identities conn))) (iset_array (inferred c)))
         (hands s ! conn_reacting conn))
       (drop (wc_conn_index wc) (wc_connections wc))"

definition useful_move :: "interp \<Rightarrow> bool" where
  "useful_move m \<longleftrightarrow> m \<in> set (map H_Move [H_Play, H_Save, H_Fix, Cm_Trash, Cm_5, Cm_Tempo])"

definition h_last_move :: "game \<Rightarrow> interp" where
  "h_last_move g =
     (case rev (move_history (own g)) of
        [] \<Rightarrow> H_Move H_None
      | (_, m) # _ \<Rightarrow> if m = H_Move H_Undefined then H_Move H_None else m)"

text \<open>A clue that was given instead may put the connection off.\<close>

definition deferred_by_clue :: "game \<Rightarrow> waiting_connection \<Rightarrow> connection \<Rightarrow> bool result" where
  "deferred_by_clue g wc conn =
     (case slot (last_actions g) (conn_reacting conn) of
        Some (ClueAction ca) \<Rightarrow>
          bindR (stomped_finesse g (conn_reacting conn) (conn_order conn) wc False) (\<lambda>stomped.
            Inr (stomped \<or> (conn_type conn = Prompt \<and> useful_move (h_last_move g)) \<or>
              (level (own g) \<ge> level_finesses \<and> ca_important ca \<and> \<not> conn_bluff conn \<and> \<not> conn_possibly_bluff conn)))
      | _ \<Rightarrow> Inr False)"

definition alternate_conn :: "game_state \<Rightarrow> player \<Rightarrow> waiting_connection \<Rightarrow> connection \<Rightarrow> bool" where
  "alternate_conn s com wc conn \<longleftrightarrow>
     list_ex (\<lambda>w. wc_focus w = wc_focus wc \<and> list_all (\<lambda>c. conn_order c \<noteq> conn_order conn) (wc_connections w) \<and>
         \<not> (wc_symmetric w \<and> conn_reacting conn = our_player s)) (waiting_connections com)"

definition linked_ids :: "player \<Rightarrow> nat \<Rightarrow> waiting_connection \<Rightarrow> nat \<Rightarrow> basic_card list" where
  "linked_ids com place wc ord =
     concat (map (\<lambda>k. let w = waiting_connections com ! k in
         if wc_focus w = wc_focus wc \<and> k \<noteq> place then
           concat (map conn_identities (filter (\<lambda>c. conn_order c = ord \<or> conn_self c) (drop (wc_conn_index w) (wc_connections w))))
         else [])
       [0..<length (waiting_connections com)])"

definition players_until :: "game_state \<Rightarrow> nat \<Rightarrow> nat \<Rightarrow> nat list" where
  "players_until s pl stop =
     takeWhile (\<lambda>p. p \<noteq> stop) (map (\<lambda>k. (pl + k) mod num_players s) [1..<num_players s + 1])"

definition may_hesitate :: "game_state \<Rightarrow> player \<Rightarrow> basic_card list \<Rightarrow> nat \<Rightarrow> bool" where
  "may_hesitate s com ids pl \<longleftrightarrow>
     (case h_finesse com s pl [] [] of
        Some ord \<Rightarrow> list_ex (iset_has (inferred (card_at com ord))) ids
      | None \<Rightarrow> False)"

definition deferred_by_play :: "player \<Rightarrow> connection \<Rightarrow> action option \<Rightarrow> bool" where
  "deferred_by_play com conn la \<longleftrightarrow>
     (case la of
        Some (PlayAction pa) \<Rightarrow> conn_type conn \<noteq> Finesse \<or> older_finesse com (act_order pa) (conn_order conn)
      | _ \<Rightarrow> False)"

text \<open>The card may also be waited for by a connection that is not playable yet, or that was not when its player played.\<close>

definition not_yet :: "game_state \<Rightarrow> action option \<Rightarrow> basic_card \<Rightarrow> bool" where
  "not_yet s la i \<longleftrightarrow>
     playable_away s i > 0 \<or>
     (case la of Some (PlayAction pa) \<Rightarrow> act_suit pa = suit_index i \<and> act_rank pa = rank i - 1 | _ \<Rightarrow> False)"

definition superposed :: "game_state \<Rightarrow> player \<Rightarrow> wc_loop \<Rightarrow> waiting_connection \<Rightarrow> connection \<Rightarrow> action option \<Rightarrow> bool result" where
  "superposed s com wl wc conn la =
     foldR (\<lambda>found k.
       let w = waiting_connections com ! k in
       if found \<or> k \<in> wl_done wl \<or> k = wl_place wl \<or> (wc_symmetric w \<and> conn_reacting conn = our_player s) then Inr found
       else
         bindR (need (current_conn w)) (\<lambda>cur.
           Inr ((conn_reacting cur \<noteq> conn_reacting conn \<or> is_play la) \<and>
             list_ex (\<lambda>c. conn_order c = conn_order conn \<and> list_ex (not_yet s la) (conn_identities c))
               (drop (wc_conn_index wc) (wc_connections w)))))
       False [0..<length (waiting_connections com)]"

definition attempted_bomb :: "game \<Rightarrow> connection \<Rightarrow> bool" where
  "attempted_bomb g conn \<longleftrightarrow>
     (case slot (last_actions g) (conn_reacting conn) of
        Some (DiscardAction da True _) \<Rightarrow>
          list_ex (iset_has (possible (card_at (g_players g ! conn_reacting conn) (act_order da)))) (conn_identities conn)
      | _ \<Rightarrow> False)"

definition self_delay :: "game \<Rightarrow> waiting_connection \<Rightarrow> connection \<Rightarrow> bool" where
  "self_delay g wc conn \<longleftrightarrow>
     (let s = g_state g; us = our_player s in
      \<not> conn_bluff conn \<and> conn_reacting conn = us \<and> catchup g \<and> \<not> in_between (num_players s) us (wc_giver wc) (wc_target wc) \<and>
      (case h_finesse (common g) s (wc_target wc) [] [] of
         Some ord \<Rightarrow> actual_matches None (deck_at s ord) (hd (conn_identities conn))
       | None \<Rightarrow> False) \<and>
      \<not> wc_self_passback wc)"

definition delayed_prompt :: "game \<Rightarrow> connection \<Rightarrow> bool" where
  "delayed_prompt g conn \<longleftrightarrow>
     conn_type conn = Prompt \<and>
     (case slot (last_actions g) (conn_reacting conn) of Some (DiscardAction _ _ True) \<Rightarrow> True | _ \<Rightarrow> False)"

text \<open>Nobody is to blame but the connection: the game is rewound, unless the connection is symmetric and not about us.\<close>

definition rewinds_missed :: "game_state \<Rightarrow> waiting_connection \<Rightarrow> connection \<Rightarrow> bool" where
  "rewinds_missed s wc conn \<longleftrightarrow>
     conn_reacting conn \<noteq> our_player s \<and>
     (wc_target wc = our_player s \<or>
      \<not> (wc_symmetric wc \<and> list_all (\<lambda>c. conn_reacting c \<noteq> our_player s) (drop (wc_conn_index wc) (wc_connections wc))))"

text \<open>The outcome for one connection: a game that was rewound instead, or the game and what is to be done.\<close>

type_synonym wc_outcome = "game + game \<times> wc_result"

definition ignore_wc :: "rewinder \<Rightarrow> game \<Rightarrow> waiting_connection \<Rightarrow> connection \<Rightarrow> nat \<Rightarrow> wc_outcome result" where
  "ignore_wc rw g wc conn k =
     bindR (rw g (wc_action_index wc) [IgnoreAction k (conn_order conn) (Some (wc_inference wc))]) (\<lambda>gg.
       case snd gg of
         Some g' \<Rightarrow> bindR (update_notes g') (\<lambda>g2. Inr (Inl g2))
       | None \<Rightarrow> Inr (Inr (fst gg, drop_wc)))"

text \<open>What may put a finesse or a prompt off before its player's last action is looked at.\<close>

definition put_off_early :: "game \<Rightarrow> wc_loop \<Rightarrow> waiting_connection \<Rightarrow> connection \<Rightarrow> wc_result option result" where
  "put_off_early g wl wc conn =
     (let s = g_state g; com = common g; d = deck_at s (conn_order conn); reacting = conn_reacting conn in
      if suit_index d \<noteq> -1 \<and> stack_of s d + 1 < rank d then Inr (Some keep_wc)
      else
        bindR (deferred_by_clue g wc conn) (\<lambda>deferred.
          Inr (if deferred then Some keep_wc
            else if passback s wc reacting then Some (keep_wc\<lparr>wr_ambiguous := True\<rparr>)
            else if level (own g) \<ge> level_finesses \<and> older_queued_finesse s reacting com (conn_order conn) \<noteq> None then Some keep_wc
            else if \<not> conn_bluff conn \<and> (reacting = wc_target wc \<or> reacting = our_player s) then
              (if alternate_conn s com wc conn then Some keep_wc
               else if \<not> wc_self_passback wc \<and>
                 list_ex (may_hesitate s com (linked_ids com (wl_place wl) wc (conn_order conn))) (players_until s reacting (wc_giver wc))
               then Some (keep_wc\<lparr>wr_self := True\<rparr>) else None)
            else None)))"

definition put_off_late :: "game \<Rightarrow> wc_loop \<Rightarrow> waiting_connection \<Rightarrow> connection \<Rightarrow> wc_result option result" where
  "put_off_late g wl wc conn =
     (let s = g_state g; com = common g; la = slot (last_actions g) (conn_reacting conn) in
      if deferred_by_play com conn la then Inr (Some keep_wc)
      else
        bindR (superposed s com wl wc conn la) (\<lambda>found.
          Inr (if found \<or> attempted_bomb g conn then Some keep_wc
            else if self_delay g wc conn then Some (keep_wc\<lparr>wr_self := True\<rparr>)
            else if \<not> conn_bluff conn \<and> conn_reacting conn = our_player s \<and> rewinded (card_at com (conn_order conn)) then Some keep_wc
            else if delayed_prompt g conn then Some keep_wc
            else None)))"

definition put_off :: "game \<Rightarrow> wc_loop \<Rightarrow> waiting_connection \<Rightarrow> connection \<Rightarrow> wc_result option result" where
  "put_off g wl wc conn =
     bindR (put_off_early g wl wc conn) (\<lambda>r. if r \<noteq> None then Inr r else put_off_late g wl wc conn)"

definition h_retained :: "rewinder \<Rightarrow> game \<Rightarrow> wc_loop \<Rightarrow> waiting_connection \<Rightarrow> connection \<Rightarrow> wc_outcome result" where
  "h_retained rw g wl wc conn =
     (let s = g_state g; la = slot (last_actions g) (conn_reacting conn) in
      if conn_type conn = Finesse \<or> conn_type conn = Prompt \<or> new_finesse_queued s (common g) wc then
        bindR (put_off g wl wc conn) (\<lambda>r.
          case r of
            Some res \<Rightarrow> Inr (Inr (g, res))
          | None \<Rightarrow>
              if rewinds_missed s wc conn then ignore_wc rw g wc conn (real_connects (wc_connections wc) (wc_conn_index wc))
              else Inr (Inr (g, drop_wc)))
      else
        case la of
          Some (DiscardAction _ _ False) \<Rightarrow>
            if discard_state s \<noteq> None \<or> list_ex (\<lambda>i. \<not> is_basic_trash s i \<and> \<not> is_playable s i) (conn_identities conn)
            then Inr (Inr (g, keep_wc)) else ignore_wc rw g wc conn 0
        | _ \<Rightarrow> Inr (Inr (g, keep_wc)))"

section \<open>A connection that was played\<close>

definition demonstrated :: "game \<Rightarrow> waiting_connection \<Rightarrow> connection \<Rightarrow> demonstration option" where
  "demonstrated g wc conn =
     (if conn_type conn = Finesse \<or> level (own g) < level_finesses then
        Some \<lparr>de_order = wc_focus wc, de_inference = wc_inference wc, de_connections = drop (wc_conn_index wc + 1) (wc_connections wc)\<rparr>
      else None)"

definition next_result :: "nat option \<Rightarrow> wc_result" where
  "next_result nxt = keep_wc\<lparr>wr_remove := (nxt = None), wr_next := nxt\<rparr>"

text \<open>After the next connection nothing but clued cards, or cards of the target, is needed. Without a next connection all of
  them count.\<close>

definition clued_left :: "waiting_connection \<Rightarrow> nat option \<Rightarrow> bool" where
  "clued_left wc nxt \<longleftrightarrow>
     list_all (\<lambda>conn. conn_type conn \<noteq> Finesse \<or> conn_reacting conn = wc_target wc)
       (drop (case nxt of Some k \<Rightarrow> k | None \<Rightarrow> 0) (wc_connections wc))"

definition h_played :: "game \<Rightarrow> waiting_connection \<Rightarrow> connection \<Rightarrow> nat \<Rightarrow> wc_result result" where
  "h_played g wc conn ord =
     (let nxt = next_conn_index (g_state g) wc; c = card_at (common g) ord; conns = wc_connections wc; k = wc_conn_index wc in
      if conn_type conn = Finesse \<or> conn_type conn = Prompt then
        bindR (if conn_type conn = Finesse then stomped_finesse g (conn_reacting conn) ord wc True else Inr False) (\<lambda>stomped.
          if stomped then
            Inr (if k + 1 < length conns \<and> conn_self (conns ! (k + 1)) then drop_wc else next_result nxt)
          else
            bindR (if conn_type conn = Prompt then bindR (need (old_possible c)) (\<lambda>p. Inr (iset_length p = 1)) else Inr False) (\<lambda>filled.
              if filled then Inr (next_result nxt)
              else
                let dem = demonstrated g wc conn in
                Inr ((next_result nxt)\<lparr>wr_demonstration := dem,
                  wr_remove := (dem \<noteq> None \<and> clued_left wc nxt) \<or> nxt = None\<rparr>)))
      else Inr (next_result nxt))"

definition other_writes :: "connection \<Rightarrow> card \<Rightarrow> card_write list" where
  "other_writes conn c =
     (let infs = iset_subtract (inferred c) (Ids (conn_identities conn)) in
      W_inferred infs #
      (if iset_length infs = 0 then
         (case old_inferred c of
            Some old \<Rightarrow> [W_inferred (iset_intersect old (ASet (possible c))), W_no_old_inferred]
          | None \<Rightarrow> []) @ revert_writes c
       else []))"

definition resolve_other_play :: "game \<Rightarrow> waiting_connection \<Rightarrow> connection \<Rightarrow> (game \<times> wc_result) result" where
  "resolve_other_play g wc conn =
     bindR (write_card (common g) (conn_order conn) (other_writes conn)) (\<lambda>c.
       Inr (g\<lparr>common := c\<rparr>,
         (next_result (next_conn_index (g_state g) wc))\<lparr>wr_demonstration := demonstrated g wc conn\<rparr>))"

section \<open>The turn\<close>

definition find_impossible_conn :: "game \<Rightarrow> connection list \<Rightarrow> connection option" where
  "find_impossible_conn g conns =
     List.find (\<lambda>conn.
       let d = deck_at (g_state g) (conn_order conn) in
       bits (iset_intersect (possible (card_at (common g) (conn_order conn))) (Ids (conn_identities conn))) = 0 \<or>
       (case slot (last_actions g) (conn_reacting conn) of
          Some (PlayAction pa) \<Rightarrow> act_order pa = conn_order conn \<and> \<not> list_ex (actual_matches None d) (conn_identities conn)
        | _ \<Rightarrow> False)) conns"

text \<open>Someone else played the connecting card, which is not hidden under others.\<close>

definition other_play :: "game \<Rightarrow> connection \<Rightarrow> nat \<Rightarrow> bool" where
  "other_play g conn last_pl \<longleftrightarrow>
     (case slot (last_actions g) last_pl of
        Some (PlayAction pa) \<Rightarrow>
          last_pl \<noteq> conn_reacting conn \<and>
          (case conn_identities conn of
             [i] \<Rightarrow> matches infer_opts (card_at (me g) (conn_order conn)) (act_id pa) \<and>
               matches infer_opts (card_at (me g) (conn_order conn)) i
           | _ \<Rightarrow> False) \<and> \<not> conn_hidden conn
      | _ \<Rightarrow> False)"

definition h_gone :: "game \<Rightarrow> waiting_connection \<Rightarrow> connection \<Rightarrow> wc_result result" where
  "h_gone g wc conn =
     (let s = g_state g in
      bindR (need (slot (last_actions g) (conn_reacting conn))) (\<lambda>la.
        case la of
          PlayAction pa \<Rightarrow> h_played g wc conn (act_order pa)
        | DiscardAction _ _ False \<Rightarrow>
            Inr (if visible_find s (me g) (deck_at s (conn_order conn)) no_opts [] = [] then drop_wc else keep_wc)
        | _ \<Rightarrow> Inr keep_wc))"

definition with_game :: "game \<Rightarrow> wc_result result \<Rightarrow> wc_outcome result" where
  "with_game g m = bindR m (\<lambda>r. Inr (Inr (g, r)))"

definition update_wc :: "rewinder \<Rightarrow> nat \<Rightarrow> game \<Rightarrow> wc_loop \<Rightarrow> waiting_connection \<Rightarrow> wc_outcome result" where
  "update_wc rw last_pl g wl wc =
     bindR (need (current_conn wc)) (\<lambda>conn.
       if find_impossible_conn g (drop (wc_conn_index wc) (wc_connections wc)) \<noteq> None \<or>
          (conn_type (hd (wc_connections wc)) \<noteq> Positional \<and>
           \<not> iset_has (possible (card_at (common g) (wc_focus wc))) (wc_inference wc)) then Inr (Inr (g, drop_wc))
       else if other_play g conn last_pl then bindR (resolve_other_play g wc conn) (\<lambda>x. Inr (Inr x))
       else if last_pl \<noteq> conn_reacting conn then Inr (Inr (g, keep_wc))
       else if conn_order conn \<in> set (hands (g_state g) ! conn_reacting conn) then h_retained rw g wl wc conn
       else with_game g (h_gone g wc conn))"

record h_loop =
  ht_game :: game
  ht_done :: "nat set"
  ht_remove :: "nat list"
  ht_finesses :: "nat list"
  ht_shown :: "(nat \<times> demonstration list) list"
  ht_rewound :: "game option"

definition updated_wc :: "waiting_connection \<Rightarrow> wc_result \<Rightarrow> waiting_connection" where
  "updated_wc wc r =
     wc\<lparr>wc_conn_index := (if wr_remove r then 0 else case wr_next r of Some k \<Rightarrow> k | None \<Rightarrow> wc_conn_index wc),
        wc_ambiguous_passback := wc_ambiguous_passback wc \<or> wr_ambiguous r,
        wc_self_passback := wc_self_passback wc \<or> wr_self r\<rparr>"

definition record_wc :: "nat \<Rightarrow> h_loop \<Rightarrow> game \<times> wc_result \<Rightarrow> h_loop" where
  "record_wc k t gr =
     (let g = fst gr; r = snd gr; wcs = waiting_connections (common g);
          g' = g\<lparr>common := (common g)\<lparr>waiting_connections := wcs[k := updated_wc (wcs ! k) r]\<rparr>\<rparr> in
      t\<lparr>ht_game := g',
        ht_done := (if wr_remove r then insert k (ht_done t) else ht_done t),
        ht_remove := (if wr_remove r then set_add k (ht_remove t) else ht_remove t),
        ht_finesses := (if wr_finesse r then set_add k (ht_finesses t) else ht_finesses t),
        ht_shown := (case wr_demonstration r of
            Some d \<Rightarrow> map_insert_arr (ht_shown t) (de_order d) d
          | None \<Rightarrow> ht_shown t)\<rparr>)"

definition take_outcome :: "nat \<Rightarrow> h_loop \<Rightarrow> wc_outcome \<Rightarrow> h_loop" where
  "take_outcome k t out = (case out of Inl g \<Rightarrow> t\<lparr>ht_rewound := Some g\<rparr> | Inr gr \<Rightarrow> record_wc k t gr)"

definition wc_step :: "rewinder \<Rightarrow> nat \<Rightarrow> h_loop \<Rightarrow> nat \<Rightarrow> h_loop result" where
  "wc_step rw last_pl t k =
     (if ht_rewound t \<noteq> None then Inr t
      else
        bindR (update_wc rw last_pl (ht_game t) \<lparr>wl_place = k, wl_done = ht_done t\<rparr> (waiting_connections (common (ht_game t)) ! k))
          (\<lambda>out. Inr (take_outcome k t out)))"

text \<open>A demonstrated focus is one of the inferences that were demonstrated.\<close>

definition shown_writes :: "game_state \<Rightarrow> nat \<Rightarrow> basic_card list \<Rightarrow> card \<Rightarrow> card_write list" where
  "shown_writes s ord ids c =
     (let infs = (if superposition c then iset_union (inferred c) (Ids ids) else iset_intersect (inferred c) (Ids ids));
          new = (case deck_id s ord of Some i \<Rightarrow> iset_union infs (AnId i) | None \<Rightarrow> iset_union infs (ASet (base_ids s))) in
      [W_inferred new, W_superposition True, W_uncertain False, W_info_lock (Some new)])"

definition write_shown :: "game_state \<Rightarrow> player \<Rightarrow> nat \<times> demonstration list \<Rightarrow> player result" where
  "write_shown s p od = write_card p (fst od) (shown_writes s (fst od) (map de_inference (snd od)))"

text \<open>Our own demonstrated cards are identified by a rewind to the draw of the oldest.\<close>

definition shown_actions :: "game_state \<Rightarrow> player \<Rightarrow> nat list \<Rightarrow> (nat \<times> basic_card) list" where
  "shown_actions s com os =
     concat (map (\<lambda>ord. let c = card_at com ord in
         if holder_of s ord \<noteq> int (our_player s) \<or> rewinded c then []
         else case identity infer_opts c of Some i \<Rightarrow> [(ord, i)] | None \<Rightarrow> []) os)"

definition rewind_shown :: "rewinder \<Rightarrow> game \<Rightarrow> nat list \<Rightarrow> (game \<times> game option) result" where
  "rewind_shown rw g os =
     (let s = g_state g; acts = shown_actions s (common g) os in
      if acts = [] then Inr (g, None)
      else rw g (Min (set (turn_count s # map (\<lambda>a. drawn_index (deck_at s (fst a))) acts)) + 1)
        (map (\<lambda>(ord, i). IdentifyAction ord (our_player s) [i] True) acts))"

text \<open>Other connections to a demonstrated focus are removed with their notes.\<close>

definition contradicted :: "(nat \<times> demonstration list) list \<Rightarrow> waiting_connection \<Rightarrow> bool" where
  "contradicted shown wc \<longleftrightarrow>
     (case map_of shown (wc_focus wc) of
        Some ds \<Rightarrow> \<not> list_ex (\<lambda>d. de_inference d = wc_inference wc) ds
      | None \<Rightarrow> False)"

definition contradicted_places :: "(nat \<times> demonstration list) list \<Rightarrow> waiting_connection list \<Rightarrow> nat list" where
  "contradicted_places shown wcs = filter (\<lambda>k. contradicted shown (wcs ! k)) [0..<length wcs]"

text \<open>Without clue tokens and locked, we play the card that is most likely to be playable.\<close>

definition find_anxiety :: "game \<Rightarrow> nat \<Rightarrow> player result" where
  "find_anxiety g current =
     (let s = g_state g; com = common g; us = our_player s in
      if current = us \<and> clue_tokens s = 0 \<and> locked_by h_playables (me g) s us False then
        bindR (need (anxiety_play (me g) s (our_hand s))) (\<lambda>ord.
          let poss = filter (is_playable s) (iset_array (possible (card_at (me g) ord))) in
          if poss \<noteq> [] then write_card com ord (\<lambda>d. [W_inferred (iset_intersect (possible d) (Ids poss))]) else Inr com)
      else Inr com)"

definition reset_all :: "game \<Rightarrow> game result" where
  "reset_all g = bindR (reset_superpositions g) (\<lambda>c. Inr (g\<lparr>common := c\<rparr>))"

definition kept_wcs :: "nat list \<Rightarrow> waiting_connection list \<Rightarrow> waiting_connection list" where
  "kept_wcs gone wcs = map (\<lambda>k. wcs ! k) (filter (\<lambda>k. k \<notin> set gone) [0..<length wcs])"

definition close_turn :: "nat \<Rightarrow> h_loop \<Rightarrow> game \<Rightarrow> game result" where
  "close_turn current t g =
     (let wcs = waiting_connections (common g); extra = contradicted_places (ht_shown t) wcs;
          gone = fold set_add extra (ht_remove t); undo = fold set_add extra (ht_finesses t) in
      bindR (foldR (\<lambda>g k. remove_finesse g (wcs ! k)) g undo) (\<lambda>g1.
      bindR (reset_all (g1\<lparr>common := (common g1)\<lparr>waiting_connections := kept_wcs gone wcs\<rparr>\<rparr>)) (\<lambda>g2.
      bindR (find_anxiety g2 current) (\<lambda>c. elim_and_tell (g2\<lparr>common := c\<rparr>)))))"

definition settle_turn :: "nat \<Rightarrow> h_loop \<Rightarrow> game \<times> game option \<Rightarrow> game result" where
  "settle_turn current t gg =
     (case snd gg of Some g' \<Rightarrow> update_notes g' | None \<Rightarrow> close_turn current t (fst gg))"

definition finish_h_turn :: "rewinder \<Rightarrow> nat \<Rightarrow> h_loop \<Rightarrow> game result" where
  "finish_h_turn rw current t =
     (case ht_rewound t of
        Some g \<Rightarrow> Inr g
      | None \<Rightarrow>
          bindR (reset_all (ht_game t)) (\<lambda>g1.
          bindR (foldR (write_shown (g_state g1)) (common g1) (ht_shown t)) (\<lambda>c.
          bindR (rewind_shown rw (g1\<lparr>common := c\<rparr>) (map fst (ht_shown t))) (settle_turn current t))))"

definition h_turn :: "rewinder \<Rightarrow> int \<Rightarrow> nat \<Rightarrow> game \<Rightarrow> game result" where
  "h_turn rw num current g =
     bindR (foldR (wc_step rw (last_player (g_state g) current))
         \<lparr>ht_game = g, ht_done = {}, ht_remove = [], ht_finesses = [], ht_shown = [], ht_rewound = None\<rparr>
         [0..<length (waiting_connections (common g))])
       (finish_h_turn rw current)"

end
