(* ===== verification/H_Turns_Sound.thy ===== *)
theory H_Turns_Sound
  imports H_Turns
begin

text \<open>
  The invariant of the waiting connections through a turn of the h-group: every connection that is still waited for has a
  current card, so that its index, which the code writes as \<open>-1\<close> for a moment, is never out of range when it is read.
\<close>

section \<open>What leaves the waiting connections alone\<close>

named_theorems waiting_kept \<open>operations that keep the waiting connections of a player\<close>

lemma write_card_waiting [waiting_kept]: "write_card p ord f = Inr q \<Longrightarrow> waiting_connections q = waiting_connections p"
  by (auto simp: write_card_def with_thoughts_def Let_def result_simps split: option.splits prod.splits)

lemma set_thoughts_waiting [waiting_kept]: "set_thoughts f ord p = Inr q \<Longrightarrow> waiting_connections q = waiting_connections p"
  by (auto simp: set_thoughts_def result_simps)

lemma good_touch_waiting [waiting_kept]: "good_touch_elim p s b = Inr q \<Longrightarrow> waiting_connections q = waiting_connections p"
  by (auto simp: good_touch_elim_def result_simps split: prod.splits)

lemma fold_waiting:
  assumes "foldR f p xs = Inr q" "\<And>x u v. x \<in> set xs \<Longrightarrow> f u x = Inr v \<Longrightarrow> waiting_connections v = waiting_connections u"
  shows "waiting_connections q = waiting_connections p"
  by (rule foldR_inv [OF assms(1), where P = "\<lambda>r. waiting_connections r = waiting_connections p"]) (use assms(2) in auto)

lemma set_hypo_waiting [simp]: "waiting_connections (set_hypo h p) = waiting_connections p"
  by (simp add: set_hypo_def)

lemma try_ignore_waiting:
  assumes "foldR (try_ignore p s) acc os = Inr acc'" "waiting_connections (fst acc) = waiting_connections p"
  shows "waiting_connections (fst acc') = waiting_connections p"
  by (rule foldR_inv [OF assms(1), where P = "\<lambda>a. waiting_connections (fst a) = waiting_connections p"])
    (use assms(2) in \<open>auto simp: try_ignore_def Let_def result_simps split: if_splits\<close>)

lemma update_hypo_waiting [waiting_kept]:
  assumes "update_hypo_stacks p s ig = Inr q"
  shows "waiting_connections q = waiting_connections p"
proof -
  obtain h where h: "(if ig \<noteq> None then Inr (set_hypo h p)
       else foldR (\<lambda>best os. bindR (foldR (try_ignore p s) (best, [hd os]) os) (\<lambda>acc. Inr (fst acc)))
              (set_hypo h p) (map snd (hl_dups h))) = Inr q"
    using assms by (auto simp: update_hypo_stacks_def result_simps)
  then show ?thesis
  proof (cases "ig = None")
    case True
    with h have f: "foldR (\<lambda>best os. bindR (foldR (try_ignore p s) (best, [hd os]) os) (\<lambda>acc. Inr (fst acc)))
              (set_hypo h p) (map snd (hl_dups h)) = Inr q" by simp
    show ?thesis
      by (rule foldR_inv [OF f, where P = "\<lambda>r. waiting_connections r = waiting_connections p"])
        (auto simp: result_simps dest: try_ignore_waiting)
  next
    case False
    with h show ?thesis by auto
  qed
qed

lemma remove_conns_waiting [waiting_kept]:
  assumes "remove_finesse_conns p wc = Inr q"
  shows "waiting_connections q = waiting_connections p"
proof -
  have "waiting_connections c1 = waiting_connections p"
    if "(if wc_symmetric wc then Inr p
       else foldR (\<lambda>p conn. write_card p (conn_order conn) (removal_writes conn)) p (wc_connections wc)) = Inr c1" for c1
    using that by (auto dest!: fold_waiting intro: write_card_waiting split: if_splits)
  with assms show ?thesis
    by (fastforce simp: remove_finesse_conns_def Let_def result_simps dest!: waiting_kept split: if_splits)
qed

lemma reset_superpositions_waiting [waiting_kept]:
  "reset_superpositions g = Inr q \<Longrightarrow> waiting_connections q = waiting_connections (common g)"
  unfolding reset_superpositions_def by (erule fold_waiting) (erule write_card_waiting)

lemma team_elim_waiting: "team_elim g = Inr g' \<Longrightarrow> waiting_connections (common g') = waiting_connections (common g)"
  by (auto simp: team_elim_def result_simps)

section \<open>The invariant\<close>

definition wc_current :: "waiting_connection \<Rightarrow> bool" where
  "wc_current wc \<longleftrightarrow> current_conn wc \<noteq> None"

definition wcs_current :: "game \<Rightarrow> bool" where
  "wcs_current g \<longleftrightarrow> (\<forall>wc \<in> set (waiting_connections (common g)). wc_current wc)"

definition rewinds_current :: "rewinder \<Rightarrow> bool" where
  "rewinds_current rw \<longleftrightarrow>
     (\<forall>g index as gg. wcs_current g \<longrightarrow> rw g index as = Inr gg \<longrightarrow>
        waiting_connections (common (fst gg)) = waiting_connections (common g) \<and> (\<forall>g'. snd gg = Some g' \<longrightarrow> wcs_current g'))"

lemma wc_current_iff: "wc_current wc \<longleftrightarrow> wc_conn_index wc < length (wc_connections wc)"
  by (simp add: wc_current_def current_conn_def)

lemma update_notes_common: "update_notes g = Inr g' \<Longrightarrow> common g' = common g"
  by (auto simp: update_notes_def result_simps split: if_splits)

text \<open>What a connection becomes keeps the connections of the game, and points to one of its own.\<close>

definition outcome_ok :: "game \<Rightarrow> waiting_connection \<Rightarrow> wc_outcome \<Rightarrow> bool" where
  "outcome_ok g wc out \<longleftrightarrow>
     (case out of
        Inl g' \<Rightarrow> wcs_current g'
      | Inr (g', r) \<Rightarrow> waiting_connections (common g') = waiting_connections (common g) \<and>
          (\<forall>k. wr_next r = Some k \<longrightarrow> k < length (wc_connections wc)))"

lemma outcome_simps [simp]:
  "outcome_ok g wc (Inl g') \<longleftrightarrow> wcs_current g'"
  "outcome_ok g wc (Inr (g', r)) \<longleftrightarrow> waiting_connections (common g') = waiting_connections (common g) \<and>
      (\<forall>k. wr_next r = Some k \<longrightarrow> k < length (wc_connections wc))"
  by (simp_all add: outcome_ok_def)

lemma next_less: "next_conn_index s wc = Some k \<Longrightarrow> k < length (wc_connections wc)"
  by (auto simp: next_conn_index_def Let_def dest!: find_SomeD)

lemma next_simps [simp]:
  "wr_next keep_wc = None" "wr_next drop_wc = None" "wr_next (next_result nxt) = nxt"
  by (simp_all add: keep_wc_def drop_wc_def next_result_def)

lemma ignore_wc_ok:
  assumes "rewinds_current rw" "wcs_current g" "ignore_wc rw g wc conn k = Inr out"
  shows "outcome_ok g wc out"
proof -
  obtain gg where gg: "rw g (wc_action_index wc) [IgnoreAction k (conn_order conn) (Some (wc_inference wc))] = Inr gg"
    "(case snd gg of Some g' \<Rightarrow> bindR (update_notes g') (\<lambda>g2. Inr (Inl g2)) | None \<Rightarrow> Inr (Inr (fst gg, drop_wc))) = Inr out"
    using assms(3) by (auto simp: ignore_wc_def result_simps)
  have "waiting_connections (common (fst gg)) = waiting_connections (common g)" "\<forall>g'. snd gg = Some g' \<longrightarrow> wcs_current g'"
    using assms(1,2) gg(1) unfolding rewinds_current_def by blast+
  with gg(2) show ?thesis
    by (auto simp: result_simps wcs_current_def dest!: update_notes_common split: option.splits)
qed

lemma put_off_next:
  "put_off g wl wc conn = Inr (Some r) \<Longrightarrow> wr_next r = None"
  by (auto simp: put_off_def put_off_early_def put_off_late_def Let_def result_simps keep_wc_def split: if_splits)

lemma h_retained_ok:
  assumes "rewinds_current rw" "wcs_current g" "h_retained rw g wl wc conn = Inr out"
  shows "outcome_ok g wc out"
  using assms(3)
  by (auto simp: h_retained_def Let_def result_simps dest!: put_off_next ignore_wc_ok [OF assms(1,2)]
      split: if_splits option.splits action.splits bool.splits)

lemma h_played_next: "h_played g wc conn ord = Inr r \<Longrightarrow> wr_next r = Some k \<Longrightarrow> k < length (wc_connections wc)"
  by (auto simp: h_played_def Let_def result_simps dest: next_less split: if_splits)

lemma h_gone_next:
  assumes "h_gone g wc conn = Inr r" "wr_next r = Some k"
  shows "k < length (wc_connections wc)"
proof -
  obtain la where la: "slot (last_actions g) (conn_reacting conn) = Some la"
    using assms(1) by (cases "slot (last_actions g) (conn_reacting conn)") (auto simp: h_gone_def)
  show ?thesis
  proof (cases la)
    case (PlayAction pa)
    then have "h_played g wc conn (act_order pa) = Inr r" using assms(1) la by (simp add: h_gone_def Let_def)
    with assms(2) h_played_next show ?thesis by blast
  next
    case (DiscardAction da failed intentional)
    with assms la have False by (cases intentional) (auto simp: h_gone_def Let_def split: if_splits)
    then show ?thesis ..
  qed (use assms la in \<open>auto simp: h_gone_def Let_def\<close>)
qed

lemma resolve_other_ok: "resolve_other_play g wc conn = Inr x \<Longrightarrow> outcome_ok g wc (Inr x)"
proof -
  assume "resolve_other_play g wc conn = Inr x"
  then obtain c where "write_card (common g) (conn_order conn) (other_writes conn) = Inr c"
    "x = (g\<lparr>common := c\<rparr>, (next_result (next_conn_index (g_state g) wc))\<lparr>wr_demonstration := demonstrated g wc conn\<rparr>)"
    unfolding resolve_other_play_def bindR_Inr_iff by blast
  then show ?thesis using next_less [of "g_state g" wc] write_card_waiting by (simp add: next_result_def)
qed

lemma update_wc_ok:
  assumes "rewinds_current rw" "wcs_current g" "update_wc rw pl g wl wc = Inr out"
  shows "outcome_ok g wc out"
proof -
  obtain conn where c: "current_conn wc = Some conn"
    using assms(3) by (cases "current_conn wc") (auto simp: update_wc_def)
  have "update_wc rw pl g wl wc =
      (if find_impossible_conn g (drop (wc_conn_index wc) (wc_connections wc)) \<noteq> None \<or>
          (conn_type (hd (wc_connections wc)) \<noteq> Positional \<and>
           \<not> iset_has (possible (card_at (common g) (wc_focus wc))) (wc_inference wc)) then Inr (Inr (g, drop_wc))
       else if other_play g conn pl then bindR (resolve_other_play g wc conn) (\<lambda>x. Inr (Inr x))
       else if pl \<noteq> conn_reacting conn then Inr (Inr (g, keep_wc))
       else if conn_order conn \<in> set (hands (g_state g) ! conn_reacting conn) then h_retained rw g wl wc conn
       else with_game g (h_gone g wc conn))"
    by (simp add: update_wc_def c)
  note out = assms(3) [unfolded this]
  have drop: "outcome_ok g wc (Inr (g, drop_wc))" "outcome_ok g wc (Inr (g, keep_wc))" by simp_all
  show ?thesis
  proof (cases "other_play g conn pl")
    case True
    with out drop resolve_other_ok show ?thesis by (auto simp: result_simps simp del: outcome_simps split: if_splits)
  next
    case False
    have "with_game g (h_gone g wc conn) = Inr out \<Longrightarrow> outcome_ok g wc out"
      by (auto simp: with_game_def result_simps dest: h_gone_next)
    with False out drop h_retained_ok [OF assms(1,2)] show ?thesis by (auto simp del: outcome_simps split: if_splits)
  qed
qed

definition turn_ok :: "nat \<Rightarrow> h_loop \<Rightarrow> bool" where
  "turn_ok n t \<longleftrightarrow>
     (case ht_rewound t of
        Some g \<Rightarrow> wcs_current g
      | None \<Rightarrow> wcs_current (ht_game t) \<and> length (waiting_connections (common (ht_game t))) = n)"

lemma updated_current:
  "wc_current wc \<Longrightarrow> (\<And>k. wr_next r = Some k \<Longrightarrow> k < length (wc_connections wc)) \<Longrightarrow> wc_current (updated_wc wc r)"
  by (auto simp: wc_current_iff updated_wc_def split: option.splits)

lemma record_wc_ok:
  assumes "turn_ok n t" "ht_rewound t = None" "k < n" "outcome_ok (ht_game t) (waiting_connections (common (ht_game t)) ! k) (Inr gr)"
  shows "turn_ok n (record_wc k t gr)"
proof -
  obtain g r where gr: "gr = (g, r)" by (cases gr)
  let ?wcs = "waiting_connections (common g)"
  have w: "?wcs = waiting_connections (common (ht_game t))" "\<forall>m. wr_next r = Some m \<longrightarrow> m < length (wc_connections (?wcs ! k))"
    and all: "\<forall>wc \<in> set ?wcs. wc_current wc" and n: "length ?wcs = n"
    using assms by (auto simp: gr turn_ok_def wcs_current_def)
  have "wc_current (updated_wc (?wcs ! k) r)" using all n assms(3) w(2) by (intro updated_current) auto
  then have "\<forall>wc \<in> set (?wcs[k := updated_wc (?wcs ! k) r]). wc_current wc"
    using all by (auto dest!: set_update_subset_insert [THEN subsetD])
  then show ?thesis using n assms(2) by (simp add: gr record_wc_def Let_def turn_ok_def wcs_current_def)
qed

lemma wc_step_ok:
  assumes "rewinds_current rw" "turn_ok n t" "k < n" "wc_step rw pl t k = Inr t'"
  shows "turn_ok n t'"
proof (cases "ht_rewound t")
  case None
  let ?g = "ht_game t"
  obtain out where out: "update_wc rw pl ?g \<lparr>wl_place = k, wl_done = ht_done t\<rparr> (waiting_connections (common ?g) ! k) = Inr out"
    "t' = take_outcome k t out"
    using assms(4) None by (auto simp: wc_step_def result_simps)
  have "wcs_current ?g" using assms(2) None by (simp add: turn_ok_def)
  from update_wc_ok [OF assms(1) this out(1)] have ok: "outcome_ok ?g (waiting_connections (common ?g) ! k) out" .
  show ?thesis
  proof (cases out)
    case (Inl g')
    with ok out(2) show ?thesis by (simp add: take_outcome_def turn_ok_def)
  next
    case (Inr gr)
    with ok out(2) record_wc_ok [OF assms(2) None assms(3)] show ?thesis by (simp add: take_outcome_def)
  qed
qed (use assms in \<open>simp add: wc_step_def\<close>)

lemma kept_current: "\<forall>wc \<in> set wcs. wc_current wc \<Longrightarrow> wc \<in> set (kept_wcs gone wcs) \<Longrightarrow> wc_current wc"
  by (auto simp: kept_wcs_def)

lemma remove_finesse_waiting:
  "remove_finesse g wc = Inr g' \<Longrightarrow> waiting_connections (common g') = waiting_connections (common g)"
  by (auto simp: remove_finesse_def result_simps dest!: waiting_kept)

lemma elim_and_tell_waiting:
  "elim_and_tell g = Inr g' \<Longrightarrow> waiting_connections (common g') = waiting_connections (common g)"
  by (auto simp: elim_and_tell_def result_simps dest!: waiting_kept team_elim_waiting)

lemma find_anxiety_waiting: "find_anxiety g pl = Inr c \<Longrightarrow> waiting_connections c = waiting_connections (common g)"
  by (auto simp: find_anxiety_def Let_def result_simps dest!: waiting_kept split: if_splits)

lemma reset_all_waiting: "reset_all g = Inr g' \<Longrightarrow> waiting_connections (common g') = waiting_connections (common g)"
  by (auto simp: reset_all_def result_simps dest!: waiting_kept)

lemma close_turn_ok:
  assumes "wcs_current g" "close_turn pl t g = Inr g'"
  shows "wcs_current g'"
proof -
  obtain g1 g2 c gone where "waiting_connections (common g2) = kept_wcs gone (waiting_connections (common g))"
    "find_anxiety g2 pl = Inr c" "elim_and_tell (g2\<lparr>common := c\<rparr>) = Inr g'"
    using assms(2) by (auto simp: close_turn_def Let_def result_simps dest!: reset_all_waiting)
  then show ?thesis
    using assms(1) by (auto simp: wcs_current_def dest!: find_anxiety_waiting elim_and_tell_waiting kept_current)
qed

lemma finish_h_turn_ok:
  assumes "rewinds_current rw" "turn_ok n t" "finish_h_turn rw pl t = Inr g'"
  shows "wcs_current g'"
proof (cases "ht_rewound t")
  case None
  then obtain g1 c gg where g: "reset_all (ht_game t) = Inr g1" "foldR (write_shown (g_state g1)) (common g1) (ht_shown t) = Inr c"
    "rewind_shown rw (g1\<lparr>common := c\<rparr>) (map fst (ht_shown t)) = Inr gg" "settle_turn pl t gg = Inr g'"
    using assms(3) by (auto simp: finish_h_turn_def result_simps)
  have "waiting_connections c = waiting_connections (common g1)"
    by (rule fold_waiting [OF g(2)]) (auto simp: write_shown_def dest: write_card_waiting)
  with reset_all_waiting [OF g(1)] assms(2) None have cur: "wcs_current (g1\<lparr>common := c\<rparr>)"
    by (simp add: turn_ok_def wcs_current_def)
  have "wcs_current (fst gg) \<and> (\<forall>g'. snd gg = Some g' \<longrightarrow> wcs_current g')"
  proof (cases "shown_actions (g_state g1) c (map fst (ht_shown t)) = []")
    case True
    with g(3) cur show ?thesis by (auto simp: rewind_shown_def)
  next
    case False
    then obtain index as where "rw (g1\<lparr>common := c\<rparr>) index as = Inr gg" using g(3) by (auto simp: rewind_shown_def Let_def)
    with assms(1) cur show ?thesis unfolding rewinds_current_def wcs_current_def by metis
  qed
  with g(4) close_turn_ok show ?thesis
    by (auto simp: settle_turn_def wcs_current_def dest!: update_notes_common split: option.splits)
qed (use assms(2,3) in \<open>simp add: finish_h_turn_def turn_ok_def\<close>)

lemma h_turn_current:
  assumes "rewinds_current rw" "wcs_current g" "h_turn rw num pl g = Inr g'"
  shows "wcs_current g'"
proof -
  let ?n = "length (waiting_connections (common g))"
  obtain t where t: "foldR (wc_step rw (last_player (g_state g) pl))
      \<lparr>ht_game = g, ht_done = {}, ht_remove = [], ht_finesses = [], ht_shown = [], ht_rewound = None\<rparr> [0..<?n] = Inr t"
    "finish_h_turn rw pl t = Inr g'"
    using assms(3) by (auto simp: h_turn_def result_simps)
  have "turn_ok ?n t"
  proof (rule foldR_inv [OF t(1)])
    show "turn_ok ?n t'" if "k \<in> set [0..<?n]" "turn_ok ?n u" "wc_step rw (last_player (g_state g) pl) u k = Inr t'" for u k t'
      using wc_step_ok [OF assms(1) that(2) _ that(3)] that(1) by simp
  qed (use assms(2) in \<open>simp add: turn_ok_def\<close>)
  with finish_h_turn_ok [OF assms(1)] t(2) show ?thesis by blast
qed

end
