(* ===== verification/H_Actions.thy ===== *)
theory H_Actions
  imports H_Players Clue_Results
begin

text \<open>
  \<open>src/src/conventions/h-group/action-helper.js\<close>: how the h-group values a clue, which of the playable cards to play first,
  which trash to discard first, and positional discards. Values of clues are rationals, where the code computes with
  floating point numbers.
\<close>

section \<open>The value of a clue\<close>

record clue_result =
  cr_focus :: nat
  cr_elim :: nat
  cr_new_touched :: "card list"
  cr_bad_touch :: "nat list"
  cr_cm_dupe :: "nat list"
  cr_trash :: "nat list"
  cr_avoidable_dupe :: int
  cr_remainder :: rat
  cr_discard :: "nat option"
  cr_playables :: "(int \<times> card) list"
  cr_finesses :: "(int \<times> card) list"
  cr_chop_moved :: "nat list"
  cr_interp :: h_interp
  cr_safe :: bool

definition js_round :: "rat \<Rightarrow> int" where
  "js_round q = \<lfloor>q + 1 / 2\<rfloor>"

definition good_touched :: "clue_result \<Rightarrow> card list" where
  "good_touched r = filter (\<lambda>c. order c \<notin> set (cr_trash r)) (cr_new_touched r)"

definition touched_value :: "clue_result \<Rightarrow> rat" where
  "touched_value r =
     (if length (good_touched r) \<ge> 1 then 51 / 100 + 1 / 10 * (of_nat (length (good_touched r)) - 1) else 0)"

definition precision_value :: "clue_result \<Rightarrow> rat" where
  "precision_value r =
     (if good_touched r \<noteq> [] then
        of_int (js_round (1000 / (of_int (sum_list (map (\<lambda>c. iset_length (inferred c)) (good_touched r))) + 10))) / 1000
      else 0)"

definition find_clue_value :: "clue_result \<Rightarrow> rat" where
  "find_clue_value r =
     1 / 2 * of_nat (length (cr_finesses r) + length (cr_playables r)) + touched_value r + 1 / 100 * of_nat (cr_elim r)
       - of_nat (length (cr_bad_touch r)) - 1 / 10 * of_nat (length (cr_cm_dupe r)) - 1 / 10 * of_int (cr_avoidable_dupe r)
       - 1 / 10 * (cr_remainder r)\<^sup>2 + precision_value r"

definition better_clue :: "('a \<Rightarrow> clue_result) \<Rightarrow> 'a option \<times> rat \<Rightarrow> 'a \<Rightarrow> 'a option \<times> rat" where
  "better_clue result best cl =
     (if find_clue_value (result cl) > snd best then (Some cl, find_clue_value (result cl)) else best)"

definition select_play_clue :: "('a \<Rightarrow> clue_result) \<Rightarrow> 'a list \<Rightarrow> 'a option \<times> rat" where
  "select_play_clue result cls = foldl (better_clue result) (None, -99) cls"

section \<open>Trash\<close>

definition visible_self :: "game \<Rightarrow> nat \<Rightarrow> basic_card \<Rightarrow> nat \<Rightarrow> bool" where
  "visible_self g pl i ord \<longleftrightarrow>
     (let s = g_state g; com = common g in
      list_ex (\<lambda>o2. let c = card_at com o2; d = deck_at s o2 in
        matches infer_opts c i \<and> actual_matches (Some True) d i \<and> (clued d \<or> (blind_playing c \<and> \<not> uncertain c)) \<and>
        o2 \<noteq> ord \<and> \<not> list_ex (\<lambda>l. ord \<in> set (l_orders l)) (links com)) (hands s ! pl))"

text \<open>The chop is only added when there is trash and there is none, that is never.\<close>

definition order_trash :: "game \<Rightarrow> nat \<Rightarrow> nat list" where
  "order_trash g pl =
     filter (\<lambda>ord. let c = card_at (common g) ord in
       trash c \<or>
       list_all (\<lambda>i. is_basic_trash (g_state g) i \<or> visible_self g pl i ord)
         (iset_array (if uncertain c then possible c else possibilities c)))
       (hands (g_state g) ! pl)"

section \<open>Which card to play\<close>

definition in_finesse :: "game \<Rightarrow> nat \<Rightarrow> bool" where
  "in_finesse g ord \<longleftrightarrow>
     blind_playing (card_at (me g) ord) \<or>
     (\<not> list_ex (\<lambda>l. ord \<in> set (pl_orders l)) (play_links (common g)) \<and>
      list_ex (\<lambda>wc. \<not> wc_symmetric wc \<and> list_ex (\<lambda>conn. conn_type conn = Finesse) (drop (wc_conn_index wc) (wc_connections wc)))
        (dependent_connections (common g) ord))"

text \<open>The first player after us who has the next card, ourselves last.\<close>

definition connecting_player :: "game \<Rightarrow> basic_card \<Rightarrow> nat option" where
  "connecting_player g i =
     (let s = g_state g; nxt = mk_id (suit_index i) (rank i + 1) in
      List.find (\<lambda>pl. list_ex (\<lambda>ord. matches infer_opts (card_at (me g) ord) nxt) (hands s ! pl))
        (map (\<lambda>k. (our_player s + k) mod num_players s) [1..<num_players s + 1]))"

definition connect_priority :: "game \<Rightarrow> basic_card list \<Rightarrow> nat" where
  "connect_priority g poss =
     (if list_ex (\<lambda>i. connecting_player g i = None) poss then 3
      else if list_ex (\<lambda>i. connecting_player g i = Some (our_player (g_state g))) poss then 2 else 1)"

definition lowest_rank :: "basic_card list \<Rightarrow> int" where
  "lowest_rank poss = fold (\<lambda>i low. if rank i < low then rank i else low) poss 5"

definition add_to :: "nat \<Rightarrow> nat \<Rightarrow> nat list list \<Rightarrow> nat list list" where
  "add_to k ord ps = ps[k := ps ! k @ [ord]]"

definition place_playable :: "game \<Rightarrow> nat \<Rightarrow> nat list list \<times> int \<Rightarrow> nat list list \<times> int" where
  "place_playable g ord acc =
     (let s = g_state g; c = card_at (me g) ord; ps = fst acc; poss = iset_array (possibilities c);
          priority = connect_priority g poss; low = lowest_rank poss in
      if in_finesse g ord then (add_to (if num_players s > 2 then 0 else 1) ord ps, snd acc)
      else if status c = Some CM \<and> \<not> clued c \<and> list_ex (\<lambda>i. playable_away s i \<noteq> 0) (iset_array (possible c)) then
        (if strikes s \<noteq> 2 then add_to 5 ord ps else ps, snd acc)
      else if priority < 3 then (add_to priority ord ps, snd acc)
      else if low = 5 then (add_to 3 ord ps, snd acc)
      else if length poss > 1 then (add_to 4 ord ps, snd acc)
      else if low \<le> snd acc then (ps[5 := ord # ps ! 5], low)
      else acc)"

text \<open>The finessed cards before the others, unclued before clued, open before hidden, then the oldest finesse.\<close>

definition compare_finessed :: "player \<Rightarrow> nat \<Rightarrow> nat \<Rightarrow> int" where
  "compare_finessed p o1 o2 =
     (let c1 = card_at p o1; c2 = card_at p o2 in
      if blind_playing c1 \<and> \<not> blind_playing c2 then -1
      else if blind_playing c2 \<and> \<not> blind_playing c1 then 1
      else if clued c1 \<and> \<not> clued c2 then 1
      else if \<not> clued c1 \<and> clued c2 then -1
      else if hidden c1 \<and> \<not> hidden c2 then 1
      else if \<not> hidden c1 \<and> hidden c2 then -1
      else finesse_index c1 - finesse_index c2)"

definition determine_playable_card :: "game \<Rightarrow> nat list \<Rightarrow> nat list list" where
  "determine_playable_card g os =
     (let ps = fst (fold (place_playable g) os (replicate 6 [], 5)) in
      ps[0 := js_sort (\<lambda>o1 o2. compare_finessed (me g) o1 o2 > 0) (ps ! 0)])"

section \<open>Positional discards\<close>

definition discard_trash :: "game \<Rightarrow> nat \<Rightarrow> nat list" where
  "discard_trash g pl =
     (let s = g_state g; p = g_players g ! pl in
      filter (\<lambda>ord. list_all (\<lambda>i. is_basic_trash s i \<or>
          list_ex (\<lambda>o2. ord \<noteq> o2 \<and> matches infer_opts (card_at p o2) i) (all_orders s)) (iset_array (possible (card_at p ord))))
        (hands s ! pl))"

definition valid_positional :: "convention \<Rightarrow> game \<Rightarrow> nat \<Rightarrow> nat \<Rightarrow> nat option \<Rightarrow> bool result" where
  "valid_positional cv g discarder pl o1 =
     (let s = g_state g; m = me g in
      case (case o1 of Some ord \<Rightarrow> map_option (Pair ord) (slot (deck s) ord) | None \<Rightarrow> None) of
        None \<Rightarrow> Inr False
      | Some (ord, d) \<Rightarrow>
          if \<not> is_trash s m d (int ord) no_opts False \<and>
             (case get (hypo_stacks m) (suit_index d) of Some k \<Rightarrow> k + 1 = rank d | None \<Rightarrow> False) \<and>
             ord \<notin> set (hypo_plays m) \<and>
             \<not> list_ex (\<lambda>o2. o2 \<in> set (hands s ! pl) \<and> played_before False (deck_at s o2) d) (hypo_plays m)
          then connectable_simple (num_players s) cv g discarder pl (Some (raw d))
          else Inr False)"

definition nth_order :: "nat list \<Rightarrow> nat \<Rightarrow> nat option" where
  "nth_order os k = (if k < length os then Some (os ! k) else None)"

text \<open>The first target for which the search succeeds. The slot of the second target is the number of turns to its player,
  where the slot of the discard is meant (the index of the slot is hidden by the parameter of the search).\<close>

definition first_valid :: "('a \<Rightarrow> bool result) \<Rightarrow> 'a list \<Rightarrow> 'a option result" where
  "first_valid f xs =
     foldR (\<lambda>found x. if found \<noteq> None then Inr found else bindR (f x) (\<lambda>b. Inr (if b then Some x else None))) None xs"

definition second_target :: "convention \<Rightarrow> game \<Rightarrow> nat \<Rightarrow> nat \<Rightarrow> nat option result" where
  "second_target cv g discarder k =
     (let s = g_state g; n = num_players s in
      first_valid (\<lambda>j. let pl = (discarder + j) mod n in valid_positional cv g discarder pl (nth_order (hands s ! pl) j))
        [k + 1..<n])"

record positional =
  po_misplay :: bool
  po_order :: nat

definition try_positional :: "convention \<Rightarrow> game \<Rightarrow> nat \<Rightarrow> nat option \<Rightarrow> positional option \<Rightarrow> nat \<times> nat \<Rightarrow> positional option result" where
  "try_positional cv g discarder expected found kj =
     (let s = g_state g; pl = (discarder + fst kj) mod num_players s; slot_order = nth_order (hands s ! discarder) (snd kj) in
      case (found, slot_order) of
        (None, Some ord) \<Rightarrow>
          if ord \<notin> set (discard_trash g discarder) then Inr None
          else
            bindR (valid_positional cv g discarder pl (nth_order (hands s ! pl) (snd kj))) (\<lambda>b.
              if \<not> b then Inr None
              else bindR (second_target cv g discarder (fst kj)) (\<lambda>pl2.
                if pl2 \<noteq> None \<and> strikes s < 2 then Inr (Some \<lparr>po_misplay = True, po_order = ord\<rparr>)
                else if Some ord = expected \<and> strikes s = 2 then Inr None
                else Inr (Some \<lparr>po_misplay = (Some ord = expected), po_order = ord\<rparr>)))
      | _ \<Rightarrow> Inr found)"

definition find_positional_discard :: "convention \<Rightarrow> game \<Rightarrow> nat \<Rightarrow> nat option \<Rightarrow> positional option result" where
  "find_positional_discard cv g discarder expected =
     (let s = g_state g; n = num_players s in
      if \<not> (in_endgame s \<or> (max_score s - score s = 1 \<and> cards_left s = 1)) then Inr None
      else foldR (try_positional cv g discarder expected) None
        (concat (map (\<lambda>k. map (Pair k) [0..<length (hands s ! ((discarder + k) mod n))]) [1..<n])))"

section \<open>Facts\<close>

text \<open>The clue that is selected has the highest value of all, which is more than -99.\<close>

lemma select_play_clue_best:
  "foldl (better_clue result) acc cls = (b, q) \<Longrightarrow>
    snd acc \<le> q \<and> (\<forall>cl \<in> set cls. find_clue_value (result cl) \<le> q) \<and>
    ((b, q) = acc \<or> (\<exists>cl \<in> set cls. b = Some cl \<and> q = find_clue_value (result cl)))"
proof (induction cls arbitrary: acc)
  case (Cons cl cls)
  let ?acc = "better_clue result acc cl"
  have step: "snd acc \<le> snd ?acc" "find_clue_value (result cl) \<le> snd ?acc"
    "?acc = acc \<or> ?acc = (Some cl, find_clue_value (result cl))"
    by (auto simp: better_clue_def)
  from Cons.IH [of ?acc] Cons.prems have ih: "snd ?acc \<le> q" "\<forall>cl \<in> set cls. find_clue_value (result cl) \<le> q"
    "(b, q) = ?acc \<or> (\<exists>cl \<in> set cls. b = Some cl \<and> q = find_clue_value (result cl))" by auto
  from ih(1) step have "snd acc \<le> q" "find_clue_value (result cl) \<le> q" by linarith+
  moreover have "(b, q) = acc \<or> (\<exists>c \<in> set (cl # cls). b = Some c \<and> q = find_clue_value (result c))"
    using ih(3) step(3) by auto
  ultimately show ?case using ih(2) by simp
qed simp

text \<open>Every playable card gets one priority at most, and the priorities hold nothing else.\<close>

lemma mset_add_to:
  "k < length ps \<Longrightarrow> mset (concat (add_to k ord ps)) = add_mset ord (mset (concat ps))"
proof (induction ps arbitrary: k)
  case (Cons xs ps)
  then show ?case by (cases k) (auto simp: add_to_def)
qed simp

lemma mset_cons_to:
  "k < length ps \<Longrightarrow> mset (concat (ps[k := ord # ps ! k])) = add_mset ord (mset (concat ps))"
proof (induction ps arbitrary: k)
  case (Cons xs ps)
  then show ?case by (cases k) auto
qed simp

lemma place_playable_mset:
  assumes "length (fst acc) = 6"
  shows "mset (concat (fst (place_playable g ord acc))) \<subseteq># add_mset ord (mset (concat (fst acc))) \<and>
    length (fst (place_playable g ord acc)) = 6"
proof -
  have "connect_priority g poss < 6" for poss by (simp add: connect_priority_def)
  then show ?thesis using assms
    by (auto simp: place_playable_def Let_def mset_add_to mset_cons_to, auto simp: add_to_def)
qed

lemma place_playables_mset:
  "length (fst acc) = 6 \<Longrightarrow> mset (concat (fst (fold (place_playable g) os acc))) \<subseteq># mset os + mset (concat (fst acc)) \<and>
    length (fst (fold (place_playable g) os acc)) = 6"
proof (induction os arbitrary: acc)
  case (Cons ord os)
  note p = place_playable_mset [OF Cons.prems, of g ord]
  have "mset (concat (fst (fold (place_playable g) os (place_playable g ord acc)))) \<subseteq># mset os + mset (concat (fst (place_playable g ord acc)))"
    using Cons.IH p by blast
  also have "\<dots> \<subseteq># mset os + add_mset ord (mset (concat (fst acc)))" using p by (simp add: subset_mset.add_left_mono)
  finally show ?case using Cons.IH p by simp
qed simp

lemma sort_first_mset: "0 < length ps \<Longrightarrow> mset (concat (ps[0 := js_sort f (ps ! 0)])) = mset (concat ps)"
  by (cases ps) auto

lemma determine_playable_mset:
  "mset (concat (determine_playable_card g os)) \<subseteq># mset os \<and> length (determine_playable_card g os) = 6"
  using place_playables_mset [of "(replicate 6 [], 5)" g os]
  by (simp add: determine_playable_card_def Let_def sort_first_mset)

end
