(* ===== verification/H_Discards.thy ===== *)
theory H_Discards
  imports H_Turns H_Actions Sarcastics Special_Discards
begin

text \<open>
  Discards in the h-group: \<open>src/src/conventions/h-group/interpret-discard.js\<close>. A discard may hand a connecting card over to another player
  (sarcastic, gentleman's and baton discards), chop move (order chop moves, screams and shouts), or call others to play
  the same slot (positional discards). The handler changes the game that it is given; here it returns it, with whether
  the action has been marked as intentional.
\<close>

abbreviation level_last_resorts :: nat where "level_last_resorts \<equiv> 7"
abbreviation level_endgame :: nat where "level_endgame \<equiv> 8"
abbreviation level_stalling :: nat where "level_stalling \<equiv> 9"
abbreviation level_special :: nat where "level_special \<equiv> 10"

section \<open>Handing a connecting card over\<close>

definition interpret_move :: "h_interp \<Rightarrow> game \<Rightarrow> game" where
  "interpret_move m g = g\<lparr>own := (own g)\<lparr>move_history := move_history (own g) @ [(turn_count (g_state g), H_Move m)]\<rparr>\<rparr>"

text \<open>The finesse position on common knowledge.\<close>

definition finesse_of :: "player \<Rightarrow> finesse_fun" where
  "finesse_of com s pl used = h_finesse com s pl used []"

text \<open>The first connection from an index on that is the card.\<close>

definition conn_place :: "nat \<Rightarrow> nat \<Rightarrow> connection list \<Rightarrow> nat option" where
  "conn_place from ord conns = List.find (\<lambda>k. k \<ge> from \<and> conn_order (conns ! k) = ord) [0..<length conns]"

definition replaceable :: "game \<Rightarrow> card_action \<Rightarrow> bool \<Rightarrow> bool" where
  "replaceable g a failed \<longleftrightarrow>
     (let s = g_state g; c = card_at (common g) (act_order a) in
      status c \<noteq> Some BLUFFED \<and> (clued (deck_at s (act_order a)) \<or> (level (own g) \<ge> level_special \<and> touched c)) \<and>
      act_rank a > stack_of s (act_id a) \<and> act_rank a \<le> max_rank_of s (act_id a) \<and> \<not> failed)"

text \<open>The cards that the discarded one may have been handed over to, which are written on common knowledge.\<close>

definition transfers_of :: "game \<Rightarrow> card_action \<Rightarrow> (game \<times> nat list \<times> h_interp) result" where
  "transfers_of g a =
     bindR (interpret_sarcastic h_playables g (act_player a) (act_id a)) (\<lambda>(c1, os).
       let g1 = g\<lparr>common := c1\<rparr> in
       if os = [] \<and> level (own g) \<ge> level_special then
         bindR (interpret_gd g1 (act_player a) (act_id a) (finesse_of c1)) (\<lambda>(c2, os2). Inr (g1\<lparr>common := c2\<rparr>, os2, Gentlemans))
       else Inr (g1, os, H_Sarcastic))"

definition with_conn :: "nat \<Rightarrow> connection \<Rightarrow> waiting_connection \<Rightarrow> waiting_connection" where
  "with_conn k conn wc = wc\<lparr>wc_connections := (wc_connections wc)[k := conn]\<rparr>"

text \<open>The later connections that wait for the card wait for the new one; they are searched from the index of the first.\<close>

definition rewrite_rest :: "nat \<Rightarrow> nat \<Rightarrow> connection \<Rightarrow> waiting_connection \<Rightarrow> waiting_connection" where
  "rewrite_rest from ord conn wc = (case conn_place from ord (wc_connections wc) of None \<Rightarrow> wc | Some k \<Rightarrow> with_conn k conn wc)"

definition handed_over :: "game_state \<Rightarrow> nat list \<Rightarrow> connection \<Rightarrow> connection" where
  "handed_over s os conn = conn\<lparr>conn_reacting := nat (holder_of s (hd os)), conn_order := hd os\<rparr>"

text \<open>What the connection becomes: a known card, or one of several linked cards of the giver's hand, among which one may be the
  card, so that the search for it succeeds.\<close>

definition new_conn :: "game_state \<Rightarrow> nat \<Rightarrow> basic_card \<Rightarrow> nat list \<Rightarrow> connection \<Rightarrow> connection option result" where
  "new_conn s giver i os conn =
     (case os of
        [_] \<Rightarrow> Inr (Some ((handed_over s os conn)\<lparr>conn_type := Known\<rparr>))
      | _ \<Rightarrow>
          if length os > 1 \<and> list_all (\<lambda>ord. ord \<in> set (hands s ! giver)) os then
            bindR (need (List.find (\<lambda>ord. actual_matches (Some True) (deck_at s ord) i) os)) (\<lambda>ord.
              Inr (Some ((handed_over s os conn)\<lparr>conn_type := Playable, conn_order := ord, conn_linked := Some os\<rparr>)))
          else Inr None)"

record transfer_loop =
  tr_game :: game
  tr_wcs :: "waiting_connection list"
  tr_marked :: bool
  tr_done :: "h_interp option"

text \<open>The loop ends with the connections rewritten, or with a rewind after which the discarded card is ignored (and the move is
  that of the discard, \<open>undefined\<close> when it was none).\<close>

definition finish_transfer :: "nat \<Rightarrow> nat \<Rightarrow> transfer_loop \<Rightarrow> nat \<Rightarrow> waiting_connection \<Rightarrow> nat \<Rightarrow> h_interp \<Rightarrow> connection \<Rightarrow> transfer_loop" where
  "finish_transfer from ord t k wc place move conn =
     (let g = tr_game t; com = common g;
          wcs = tr_wcs t @ [with_conn place conn wc] @ map (rewrite_rest from ord conn) (drop (Suc k) (waiting_connections com)) in
      t\<lparr>tr_game := g\<lparr>common := com\<lparr>waiting_connections := wcs\<rparr>\<rparr>, tr_done := Some move\<rparr>)"

definition other_waiting :: "transfer_loop \<Rightarrow> nat \<Rightarrow> waiting_connection \<Rightarrow> bool" where
  "other_waiting t k wc \<longleftrightarrow>
     list_ex (\<lambda>w. \<not> wc_symmetric w \<and> wc_action_index w = wc_action_index wc)
       (tr_wcs t @ drop (Suc k) (waiting_connections (common (tr_game t))))"

definition cancel_conn :: "rewinder \<Rightarrow> card_action \<Rightarrow> transfer_loop \<Rightarrow> nat \<Rightarrow> waiting_connection \<Rightarrow> nat \<Rightarrow> h_interp \<Rightarrow> transfer_loop result" where
  "cancel_conn rw a t k wc place move =
     (if other_waiting t k wc then Inr t
      else
        bindR (rw (tr_game t) (wc_action_index wc)
            [IgnoreAction (real_connects (wc_connections wc) place) (act_order a) (Some (wc_inference wc))]) (\<lambda>gg.
          case snd gg of
            Some g2 \<Rightarrow> bindR (update_notes g2) (\<lambda>g3. Inr (t\<lparr>tr_game := g3, tr_done := Some move\<rparr>))
          | None \<Rightarrow> Inr (t\<lparr>tr_game := fst gg\<rparr>)))"

definition transfer_conn :: "rewinder \<Rightarrow> card_action \<Rightarrow> bool \<Rightarrow> transfer_loop \<Rightarrow> nat \<Rightarrow> waiting_connection \<Rightarrow> nat \<Rightarrow> transfer_loop result" where
  "transfer_conn rw a failed t k wc place =
     (if replaceable (tr_game t) a failed then
        bindR (transfers_of (tr_game t) a) (\<lambda>(g1, os, move).
        bindR (new_conn (g_state g1) (wc_giver wc) (act_id a) os (wc_connections wc ! place)) (\<lambda>conn.
          case conn of
            Some cn \<Rightarrow> Inr (finish_transfer (wc_conn_index wc) (act_order a) (t\<lparr>tr_game := g1\<rparr>) k wc place move cn)
          | None \<Rightarrow> cancel_conn rw a (t\<lparr>tr_game := g1\<rparr>) k wc place move))
      else cancel_conn rw a t k wc place H_Undefined)"

definition bombed_duplicate :: "game \<Rightarrow> card_action \<Rightarrow> bool \<Rightarrow> bool" where
  "bombed_duplicate g a failed \<longleftrightarrow>
     failed \<and> list_ex (\<lambda>c. actual_matches None c (act_id a)) (finesses_while_finessed (own g) ! act_player a)"

definition transfer_step :: "rewinder \<Rightarrow> card_action \<Rightarrow> bool \<Rightarrow> waiting_connection list \<Rightarrow> transfer_loop \<Rightarrow> nat \<Rightarrow> transfer_loop result" where
  "transfer_step rw a failed wcs t k =
     (if tr_done t \<noteq> None then Inr t
      else
        let wc = wcs ! k; kept = t\<lparr>tr_wcs := tr_wcs t @ [wc]\<rparr> in
        case conn_place (wc_conn_index wc) (act_order a) (wc_connections wc) of
          None \<Rightarrow> Inr kept
        | Some place \<Rightarrow>
            if bombed_duplicate (tr_game t) a failed then Inr (kept\<lparr>tr_marked := True\<rparr>)
            else transfer_conn rw a failed t k wc place)"

text \<open>The game, how the discard is interpreted, and whether the action has been marked.\<close>

definition check_transfer :: "rewinder \<Rightarrow> card_action \<Rightarrow> bool \<Rightarrow> game \<Rightarrow> (game \<times> h_interp \<times> bool) result" where
  "check_transfer rw a failed g =
     (let wcs = waiting_connections (common g) in
      bindR (foldR (transfer_step rw a failed wcs) \<lparr>tr_game = g, tr_wcs = [], tr_marked = False, tr_done = None\<rparr> [0..<length wcs]) (\<lambda>t.
        case tr_done t of
          Some move \<Rightarrow> Inr (tr_game t, move, tr_marked t)
        | None \<Rightarrow> Inr ((tr_game t)\<lparr>common := (common (tr_game t))\<lparr>waiting_connections := tr_wcs t\<rparr>\<rparr>, H_None, tr_marked t)))"

definition resolve_discard :: "nat \<Rightarrow> h_interp \<Rightarrow> game \<Rightarrow> game result" where
  "resolve_discard pl m g = bindR (team_elim (interpret_move m g)) (\<lambda>g1. settle_certain g1 pl)"

section \<open>Chop moves\<close>

definition is_loaded :: "player \<Rightarrow> game_state \<Rightarrow> nat \<Rightarrow> bool" where
  "is_loaded p s pl = loaded_by h_playables p s pl default_think"

text \<open>Known trash that is discarded out of order chop moves another player; a playable makes the order one later.\<close>

definition check_tocm :: "game \<Rightarrow> card_action \<Rightarrow> nat list" where
  "check_tocm g a =
     (let s = g_state g; com = common g; pl = act_player a; k = index_of (order_trash g pl) (act_order a);
          offset = (if h_playables com s pl default_think \<noteq> [] then nat k + 1 else nat k); target = (pl + offset) mod num_players s in
      if k = -1 \<or> offset = 0 \<or> target = pl then []
      else case chop com (hands s ! target) of Some ord \<Rightarrow> [ord] | None \<Rightarrow> [])"

definition chop_move_card :: "nat \<Rightarrow> game \<Rightarrow> game result" where
  "chop_move_card ord g = bindR (write_card (common g) ord (status_writes CM)) (\<lambda>c. Inr (g\<lparr>common := c\<rparr>))"

definition chop_move_all :: "nat list \<Rightarrow> game \<Rightarrow> game result" where
  "chop_move_all os g = foldR (\<lambda>g ord. chop_move_card ord g) g os"

text \<open>A bombed 1 may be an order chop move.\<close>

definition discard_ocm :: "game \<Rightarrow> card_action \<Rightarrow> bool \<Rightarrow> game result" where
  "discard_ocm g a failed =
     (case (if level (own g) \<ge> level_cm \<and> act_rank a = 1 \<and> failed then check_ocm g a else None) of
        Some ord \<Rightarrow> bindR (chop_move_card ord g) (\<lambda>g1. Inr (interpret_move Cm_Order g1))
      | None \<Rightarrow> Inr g)"

text \<open>With one token left for the next player, a discard of the chop with something else to do is a scream if it locks them.\<close>

definition valid_scream :: "game \<Rightarrow> nat \<Rightarrow> bool" where
  "valid_scream g nxt \<longleftrightarrow>
     (let s = g_state g in
      clue_tokens s = 2 \<and>
      (case chop (common g) (hands s ! nxt) of
         Some ord \<Rightarrow> locked_by h_playables (simulate_cm (g_players g ! nxt) [ord]) s nxt False
       | None \<Rightarrow> False))"

definition is_scream :: "game \<Rightarrow> card_action \<Rightarrow> nat list \<Rightarrow> nat option \<Rightarrow> bool" where
  "is_scream g a before_trash old_chop \<longleftrightarrow>
     (let s = g_state g; pl = act_player a in
      (clue_tokens s = 1 \<or> valid_scream g (next_player s pl)) \<and>
      (h_playables (common g) s pl default_think \<noteq> [] \<or> before_trash \<noteq> []) \<and> old_chop = Some (act_order a))"

definition is_shout :: "game \<Rightarrow> card_action \<Rightarrow> nat list \<Rightarrow> bool" where
  "is_shout g a before_trash \<longleftrightarrow>
     (let s = g_state g in
      h_playables (common g) s (act_player a) default_think \<noteq> [] \<and> act_order a \<in> set before_trash \<and>
      is_trash s (common g) (act_id a) (int (act_order a)) infer_opts False)"

definition check_sdcm :: "game \<Rightarrow> card_action \<Rightarrow> nat list \<Rightarrow> nat option \<Rightarrow> h_interp" where
  "check_sdcm g a before_trash old_chop =
     (let s = g_state g; com = common g; pl = act_player a; nxt = next_player s pl; nxt2 = next_player s nxt;
          res = (if is_scream g a before_trash old_chop then H_Scream else H_Shout) in
      if locked_by h_playables com s nxt False \<and> clue_tokens s = 1 then H_None
      else if \<not> is_scream g a before_trash old_chop \<and> \<not> is_shout g a before_trash then H_None
      else if num_players s = 2 then res
      else if clue_tokens s = 1 \<and> is_loaded com s nxt then H_Gen
      else if chop com (hands s ! nxt2) = None \<or> nxt2 = our_player s \<or> is_loaded com s nxt2 then res
      else if clue_tokens s = 1 \<and> chop_value (g_players g ! pl) s nxt2 None \<ge> 4 then H_Gen else res)"

definition set_discard_state :: "discard_state \<Rightarrow> game \<Rightarrow> game" where
  "set_discard_state d g = g\<lparr>g_state := (g_state g)\<lparr>discard_state := Some d\<rparr>\<rparr>"

text \<open>What a scream, a shout or a generation discard does; a shout with an order chop move records a move that the code does not
  have. A scream on a player without a chop is none, although the state remembers it.\<close>

definition apply_sdcm :: "game \<Rightarrow> card_action \<Rightarrow> nat list \<Rightarrow> h_interp \<Rightarrow> (game \<times> h_interp) result" where
  "apply_sdcm g a tocm move =
     (let s = g_state g; nxt = next_player s (act_player a) in
      if move = H_Gen then Inr (set_discard_state Gen g, move)
      else
        let g1 = set_discard_state (if move = H_Shout then Shout else Scream) g in
        if move = H_Shout \<and> tocm \<noteq> [] then bindR (chop_move_all tocm (interpret_move H_Undefined g1)) (\<lambda>g2. Inr (g2, move))
        else
          case chop (common g) (hands s ! nxt) of
            None \<Rightarrow> Inr (g1, H_None)
          | Some ord \<Rightarrow> bindR (chop_move_card ord g1) (\<lambda>g2. Inr (g2, move)))"

definition last_resorts :: "game \<Rightarrow> card_action \<Rightarrow> bool \<Rightarrow> nat list \<Rightarrow> nat option \<Rightarrow> nat list \<Rightarrow> (game \<times> h_interp) result" where
  "last_resorts g a failed before_trash old_chop tocm =
     (if level (own g) \<ge> level_last_resorts \<and> \<not> failed \<and> \<not> in_endgame (g_state g) then
        let move = check_sdcm g a before_trash old_chop in
        if move \<noteq> H_None then apply_sdcm g a tocm move
        else if tocm \<noteq> [] then bindR (chop_move_all tocm (interpret_move H_Undefined g)) (\<lambda>g1. Inr (g1, H_None))
        else Inr (g, H_None)
      else Inr (g, H_None))"

section \<open>Positional discards\<close>

text \<open>The discard that was expected is not positional, nor is a misplay of a chop moved card that could have been good.\<close>

definition expected_discard :: "nat list \<Rightarrow> nat option \<Rightarrow> nat option" where
  "expected_discard before_trash old_chop = (case before_trash of ord # _ \<Rightarrow> Some ord | [] \<Rightarrow> old_chop)"

definition may_have_played :: "game_state \<Rightarrow> card \<Rightarrow> bool" where
  "may_have_played s c \<longleftrightarrow>
     status c = Some CM \<and>
     (case old_possible c of
        None \<Rightarrow> False
      | Some poss \<Rightarrow> list_ex (\<lambda>i. \<not> is_basic_trash s i) (iset_array poss) \<and> list_ex (is_playable s) (iset_array poss))"

definition not_intended :: "game \<Rightarrow> card_action \<Rightarrow> bool \<Rightarrow> nat option \<Rightarrow> bool" where
  "not_intended g a failed expected \<longleftrightarrow>
     expected = None \<or>
     (if failed then may_have_played (g_state g) (card_at (common g) (act_order a)) else expected = Some (act_order a))"

text \<open>The next cards of the player's hypothetical stacks that do not rest on a play of the player or of the discarder.\<close>

definition slow_play :: "game_state \<Rightarrow> player \<Rightarrow> nat \<Rightarrow> basic_card \<Rightarrow> bool" where
  "slow_play s p ord i \<longleftrightarrow>
     (case (case deck_id s ord of Some j \<Rightarrow> Some j | None \<Rightarrow> identity infer_opts (card_at p ord)) of
        Some j \<Rightarrow> played_before False j i
      | None \<Rightarrow> False)"

definition playable_possibilities :: "game \<Rightarrow> nat \<Rightarrow> nat \<Rightarrow> basic_card list" where
  "playable_possibilities g pl index =
     (let s = g_state g; p = g_players g ! index;
          slow = filter (\<lambda>ord. ord \<in> set (hands s ! index) \<or> ord \<in> set (hands s ! pl)) (hypo_plays p) in
      filter (\<lambda>i. \<not> is_trash s (common g) i (-1) infer_opts False \<and> \<not> list_ex (\<lambda>ord. slow_play s p ord i) slow)
        (next_ids (hypo_stacks p)))"

definition calls_slot :: "game \<Rightarrow> nat \<Rightarrow> nat \<Rightarrow> nat \<Rightarrow> (nat \<times> basic_card list) list" where
  "calls_slot g pl k index =
     (let s = g_state g; poss = playable_possibilities g pl index in
      case nth_order (hands s ! index) k of
        None \<Rightarrow> []
      | Some ord \<Rightarrow>
          if index = our_player s \<or> ord \<in> set (map fst (case slot (next_ignore g) 0 of Some es \<Rightarrow> es | None \<Rightarrow> [])) then []
          else if list_ex (actual_matches None (deck_at s ord)) poss \<and> ord \<notin> set (h_playables (common g) s index default_think)
          then [(index, poss)] else [])"

definition calls_us :: "game \<Rightarrow> nat \<Rightarrow> nat \<Rightarrow> (nat \<times> basic_card list) list" where
  "calls_us g pl k =
     (let s = g_state g; us = our_player s; poss = playable_possibilities g pl us in
      case nth_order (our_hand s) k of
        None \<Rightarrow> []
      | Some ord \<Rightarrow>
          if list_ex (\<lambda>i. list_ex (basic_matches i) poss) (iset_array (inferred (card_at (me g) ord))) then [(us, poss)] else [])"

text \<open>The players that are called to play the slot (counted from 0), with the identities their cards may have: the last one or two of
  those whose card fits, ourselves when there are not enough others.\<close>

definition check_positional_discard :: "game \<Rightarrow> card_action \<Rightarrow> bool \<Rightarrow> nat list \<Rightarrow> nat option \<Rightarrow> nat \<Rightarrow> (nat \<times> basic_card list) list" where
  "check_positional_discard g a failed before_trash old_chop k =
     (let s = g_state g; pl = act_player a; expected = expected_discard before_trash old_chop;
          plays = (if failed \<and> expected \<noteq> Some (act_order a) then 2 else 1);
          others = concat (map (\<lambda>j. calls_slot g pl k ((pl + j) mod num_players s)) [1..<num_players s]) in
      if not_intended g a failed expected then []
      else if length others < plays \<and> pl \<noteq> our_player s then
        (let all = others @ calls_us g pl k in if length all \<noteq> plays then [] else all)
      else drop (length others - plays) others)"

definition positional_writes :: "basic_card list \<Rightarrow> card \<Rightarrow> card_write list" where
  "positional_writes poss d =
     (if status d \<noteq> Some CLUED then status_writes CALLED_TO_PLAY d else []) @
     [W_focused True, W_old_inferred (inferred d), W_inferred (iset_intersect (inferred d) (Ids poss))]"

definition call_slot :: "nat \<Rightarrow> game \<times> connection list \<Rightarrow> nat \<times> basic_card list \<Rightarrow> (game \<times> connection list) result" where
  "call_slot k acc target =
     (let g = fst acc; pl = fst target in
      bindR (need (nth_order (hands (g_state g) ! pl) k)) (\<lambda>ord.
      bindR (write_card (common g) ord (positional_writes (snd target))) (\<lambda>c.
        Inr (g\<lparr>common := c\<rparr>, snd acc @ [mk_conn Positional pl ord (iset_array (inferred (card_at c ord)))]))))"

definition positional_wait :: "game_state \<Rightarrow> nat \<Rightarrow> nat \<Rightarrow> connection list \<Rightarrow> waiting_connection" where
  "positional_wait s giver target conns =
     \<lparr>wc_connections = conns, wc_giver = giver, wc_target = target, wc_conn_index = 0, wc_turn = turn_count s,
      wc_focus = conn_order (last conns), wc_inference = raw (deck_at s (conn_order (last conns))), wc_action_index = turn_count s,
      wc_symmetric = False, wc_ambiguous_passback = False, wc_self_passback = False\<rparr>"

definition call_slots :: "game \<Rightarrow> nat \<Rightarrow> nat \<Rightarrow> (nat \<times> basic_card list) list \<Rightarrow> game result" where
  "call_slots g giver k targets =
     bindR (foldR (call_slot k) (g, []) targets) (\<lambda>(g1, conns).
       let com = common g1; wc = positional_wait (g_state g1) giver (fst (last targets)) conns in
       Inr (g1\<lparr>common := com\<lparr>waiting_connections := waiting_connections com @ [wc]\<rparr>\<rparr>))"

section \<open>The interpretation\<close>

text \<open>A card of ours that was bombed, or that none of our inferences allowed for, is identified from its draw on.\<close>

definition discard_surprise :: "game \<Rightarrow> card_action \<Rightarrow> bool \<Rightarrow> bool" where
  "discard_surprise g a failed \<longleftrightarrow>
     (let s = g_state g; ord = act_order a; c = card_at (common g) ord in
      \<not> rewinded c \<and> act_player a = our_player s \<and>
      (failed \<or> (\<not> has_consistent_inferences s c \<and> \<not> is_trash s (me g) (deck_at s ord) (int ord) no_opts False)))"

definition useful_gone :: "game \<Rightarrow> basic_card \<Rightarrow> bool" where
  "useful_gone g i \<longleftrightarrow>
     (let s = g_state g in
      rank i > stack_of s i \<and> rank i \<le> max_rank_of s i \<and>
      \<not> list_ex (\<lambda>ord. matches infer_opts (card_at (common g) ord) i) (all_orders s))"

definition restore_everyone :: "basic_card \<Rightarrow> game \<Rightarrow> game result" where
  "restore_everyone i g =
     bindR (mapR (\<lambda>p. restore_elim p (g_state g) i) (g_players g)) (\<lambda>ps.
     bindR (restore_elim (common g) (g_state g) i) (\<lambda>c. Inr (g\<lparr>g_players := ps, common := c\<rparr>)))"

text \<open>A useful card that had been clued may have been handed over.\<close>

definition hand_over :: "game \<Rightarrow> card_action \<Rightarrow> (game \<times> nat list \<times> h_interp) result" where
  "hand_over g a =
     (let pl = act_player a; i = act_id a in
      bindR (interpret_sarcastic h_playables g pl i) (\<lambda>(c1, os).
        let g1 = g\<lparr>common := c1\<rparr> in
        if os = [] \<and> level (own g) \<ge> level_special then
          (if is_playable (g_state g) i \<or> act_order a \<in> set (hypo_plays c1) then
             bindR (interpret_gd g1 pl i (finesse_of c1)) (\<lambda>(c2, os2). Inr (g1\<lparr>common := c2\<rparr>, os2, Gentlemans))
           else
             bindR (interpret_baton g1 pl i (\<lambda>s index. case finesse_of c1 s index [] of Some ord \<Rightarrow> [ord] | None \<Rightarrow> []))
               (\<lambda>(c2, os2). Inr (g1\<lparr>common := c2\<rparr>, os2, Baton)))
        else Inr (g1, os, H_Sarcastic)))"

text \<open>The next player avoids a double discard when the last copy may be on their chop.\<close>

definition double_discard :: "game \<Rightarrow> card_action \<Rightarrow> game" where
  "double_discard g a =
     (let s = g_state g in
      if level (own g) \<ge> level_stalling \<and> num_players s > 2 \<and> is_critical s (act_id a) then
        (case (chop (common g) (hands s ! next_player s (act_player a)), deck_id s (act_order a)) of
           (Some ord, Some i) \<Rightarrow>
             if iset_has (possible (card_at (common g) ord)) i then g\<lparr>g_state := s\<lparr>dda := Some i\<rparr>\<rparr> else g
         | _ \<Rightarrow> g)
      else g)"

text \<open>What becomes of a useful card: the game, and how the discard is read if the card was handed over.\<close>

definition useful_discard_of :: "game \<Rightarrow> card_action \<Rightarrow> bool \<Rightarrow> (game \<times> h_interp option) result" where
  "useful_discard_of g a failed =
     (if \<not> useful_gone g (act_id a) then Inr (g, None)
      else if \<not> clued (deck_at (g_state g) (act_order a)) then Inr (double_discard g a, None)
      else
        bindR (restore_everyone (raw (deck_at (g_state g) (act_order a))) g) (\<lambda>g1.
          if failed then Inr (double_discard (g1\<lparr>common := undo_hypo_stacks (common g1) (act_id a)\<rparr>) a, None)
          else if status (card_at (common g1) (act_order a)) = Some BLUFFED then Inr (double_discard g1 a, None)
          else bindR (hand_over g1 a) (\<lambda>(g2, os, move).
            Inr (if os \<noteq> [] then (g2, Some move) else (double_discard g2 a, None)))))"

text \<open>The end of the handler: last resorts, then positional discards.\<close>

definition other_discard :: "card_action \<Rightarrow> bool \<Rightarrow> nat list \<Rightarrow> nat option \<Rightarrow> nat \<Rightarrow> nat list \<Rightarrow> game \<Rightarrow> (game \<times> bool) result" where
  "other_discard a failed before_trash old_chop k tocm g =
     (let pl = act_player a in
      bindR (last_resorts g a failed before_trash old_chop tocm) (\<lambda>(g1, move).
        if move \<noteq> H_None then bindR (resolve_discard pl move g1) (\<lambda>g2. Inr (g2, False))
        else
          let s = g_state g1;
              targets = (if discard_state s = None \<and> level (own g1) \<ge> level_endgame \<and> (in_endgame s \<or> max_score s - score s < 4)
                then check_positional_discard g1 a failed before_trash old_chop k else []) in
          if targets \<noteq> [] then
            bindR (call_slots g1 pl k targets) (\<lambda>g2.
            bindR (resolve_discard pl (if failed then Pos_Misplay else Pos_Discard) g2) (\<lambda>g3. Inr (g3, True)))
          else bindR (resolve_discard pl H_None g1) (\<lambda>g2. Inr (g2, False))))"

definition end_early_game :: "card_action \<Rightarrow> bool \<Rightarrow> game \<Rightarrow> game" where
  "end_early_game a failed g =
     (let s = g_state g in
      if early_game s \<and> \<not> failed \<and> \<not> clued (deck_at s (act_order a)) then g\<lparr>g_state := s\<lparr>early_game := False\<rparr>\<rparr> else g)"

definition read_discard :: "card_action \<Rightarrow> bool \<Rightarrow> nat list \<Rightarrow> nat option \<Rightarrow> nat \<Rightarrow> nat list \<Rightarrow> game \<Rightarrow> (game \<times> bool) result" where
  "read_discard a failed before_trash old_chop k tocm g =
     bindR (useful_discard_of g a failed) (\<lambda>(g1, move).
       case move of
         Some m \<Rightarrow> bindR (resolve_discard (act_player a) m g1) (\<lambda>g2. Inr (g2, True))
       | None \<Rightarrow> other_discard a failed before_trash old_chop k tocm g1)"

definition after_transfer :: "rewinder \<Rightarrow> card_action \<Rightarrow> bool \<Rightarrow> nat list \<Rightarrow> nat option \<Rightarrow> nat \<Rightarrow> nat list \<Rightarrow> game \<Rightarrow> (game \<times> bool) result" where
  "after_transfer rw a failed before_trash old_chop k tocm g0 =
     (let g = end_early_game a failed g0; s = g_state g in
      if discard_surprise g a failed then
        bindR (rw g (drawn_index (deck_at s (act_order a)) + 1) [IdentifyAction (act_order a) (act_player a) [act_id a] False]) (\<lambda>gg.
          case snd gg of
            Some g2 \<Rightarrow> bindR (update_notes g2) (\<lambda>g3. Inr (g3, False))
          | None \<Rightarrow> read_discard a failed before_trash old_chop k tocm (fst gg))
      else read_discard a failed before_trash old_chop k tocm g)"

text \<open>The slot is counted from 0, as the hand has the card before the discard.\<close>

definition h_discard :: "rewinder \<Rightarrow> card_action \<Rightarrow> bool \<Rightarrow> game \<Rightarrow> (game \<times> bool) result" where
  "h_discard rw a failed g =
     (let s = g_state g; com = common g; pl = act_player a; hand = hands s ! pl;
          before_trash = filter (\<lambda>ord. saved (card_at com ord)) (thinks_trash com s pl); old_chop = chop com hand;
          k = nat (index_of hand (act_order a)) in
      bindR (discard_ocm g a failed) (\<lambda>g1.
        let tocm = (if level (own g1) \<ge> level_trash_moves then check_tocm g1 a else []) in
      bindR (on_discard g1 a failed) (\<lambda>g2.
      bindR (check_transfer rw a failed (mutate g1 g2)) (\<lambda>(g3, move, marked).
        if move \<noteq> H_None then bindR (resolve_discard pl move g3) (\<lambda>g4. Inr (g4, True))
        else bindR (after_transfer rw a failed before_trash old_chop k tocm g3) (\<lambda>(g4, m). Inr (g4, marked \<or> m))))))"

end
