(* ===== verification/H_Discards_Sound.thy ===== *)
theory H_Discards_Sound
  imports H_Turns_Sound H_Discards
begin

text \<open>
  The invariant of the waiting connections through plays and discards of the h-group: handing a card over rewrites connections
  in place, and a positional discard adds a connection that begins with its first card.
\<close>

section \<open>What leaves the waiting connections alone\<close>

lemma with_thoughts_waiting [waiting_kept]: "with_thoughts p ord f b = Inr q \<Longrightarrow> waiting_connections q = waiting_connections p"
  by (auto simp: with_thoughts_def Let_def result_simps split: option.splits prod.splits)

lemma card_elim_waiting [waiting_kept]: "card_elim p s = Inr q \<Longrightarrow> waiting_connections q = waiting_connections p"
  by (auto simp: card_elim_def Let_def result_simps split: prod.splits)

lemma write_inferred_waiting [waiting_kept]: "write_inferred ord t p = Inr q \<Longrightarrow> waiting_connections q = waiting_connections p"
  by (auto simp: write_inferred_def result_simps)

lemma settle_focus_waiting [waiting_kept]: "settle_focus os f i p = Inr q \<Longrightarrow> waiting_connections q = waiting_connections p"
  unfolding settle_focus_def by (erule fold_waiting) (auto simp: result_simps dest: write_inferred_waiting)

lemma find_link_waiting: "find_link p s hand acc ord = Inr acc' \<Longrightarrow> waiting_connections (ls_player acc') = waiting_connections (ls_player acc)"
  by (auto simp: find_link_def Let_def result_simps dest!: settle_focus_waiting split: if_splits)

lemma find_links_in_waiting:
  assumes "find_links_in s p hand = Inr q"
  shows "waiting_connections q = waiting_connections p"
proof -
  obtain acc where acc: "foldR (find_link p s hand)
      \<lparr>ls_player = p, ls_links = [], ls_linked = to_set (concat (map l_orders (links p)))\<rparr> hand = Inr acc"
    "q = (ls_player acc)\<lparr>links := links (ls_player acc) @ ls_links acc\<rparr>"
    using assms by (auto simp: find_links_in_def result_simps)
  have "waiting_connections (ls_player acc) = waiting_connections p"
    by (rule foldR_inv [OF acc(1), where P = "\<lambda>a. waiting_connections (ls_player a) = waiting_connections p"])
      (auto dest: find_link_waiting)
  with acc(2) show ?thesis by simp
qed

lemma find_links_waiting [waiting_kept]: "find_links p s = Inr q \<Longrightarrow> waiting_connections q = waiting_connections p"
  by (auto simp: find_links_def dest: find_links_in_waiting elim!: fold_waiting split: if_splits)

lemma refresh_promised_waiting:
  "refresh_promised p l acc = Inr acc' \<Longrightarrow> waiting_connections (fst acc') = waiting_connections (fst acc)"
  by (auto simp: refresh_promised_def result_simps split: list.splits if_splits option.splits)

lemma refresh_link_waiting:
  "refresh_link p acc l = Inr acc' \<Longrightarrow> waiting_connections (fst acc') = waiting_connections (fst acc)"
  by (auto simp: refresh_link_def Let_def result_simps dest: refresh_promised_waiting settle_focus_waiting split: if_splits)

lemma refresh_links_waiting [waiting_kept]:
  assumes "refresh_links p s = Inr q"
  shows "waiting_connections q = waiting_connections p"
proof -
  obtain acc where acc: "foldR (refresh_link p) (p, []) (links p) = Inr acc" "find_links ((fst acc)\<lparr>links := snd acc\<rparr>) s = Inr q"
    using assms by (auto simp: refresh_links_def result_simps split: prod.splits)
  have "waiting_connections (fst acc) = waiting_connections p"
    by (rule foldR_inv [OF acc(1), where P = "\<lambda>a. waiting_connections (fst a) = waiting_connections p"])
      (auto dest: refresh_link_waiting)
  with find_links_waiting [OF acc(2)] show ?thesis by simp
qed

lemma elim_common_waiting [waiting_kept]: "elim_common gt s t c = Inr q \<Longrightarrow> waiting_connections q = waiting_connections c"
  by (auto simp: elim_common_def result_simps dest!: waiting_kept split: if_splits)

lemma restore_order_waiting [waiting_kept]: "restore_order i p ord = Inr q \<Longrightarrow> waiting_connections q = waiting_connections p"
  unfolding restore_order_def by (auto simp: bindR_Inr_iff dest!: with_thoughts_waiting split: if_splits)

lemma restore_elim_waiting [waiting_kept]: "restore_elim p s i = Inr q \<Longrightarrow> waiting_connections q = waiting_connections p"
  unfolding restore_elim_def Let_def bindR_Inr_iff by (auto elim!: fold_waiting dest: restore_order_waiting)

lemma write_cards_waiting [waiting_kept]:
  "foldR (\<lambda>c ord. write_card c ord f) p os = Inr q \<Longrightarrow> waiting_connections q = waiting_connections p"
  by (erule fold_waiting) (erule write_card_waiting)

lemma undo_hypo_waiting [simp]: "waiting_connections (undo_hypo_stacks p i) = waiting_connections p"
  by (simp add: undo_hypo_stacks_def)

lemma card_leaves_waiting: "card_leaves g a s = Inr g' \<Longrightarrow> waiting_connections (common g') = waiting_connections (common g)"
  by (auto simp: card_leaves_def result_simps dest!: team_elim_waiting waiting_kept split: if_splits)

lemma on_leave_waiting:
  "on_discard g a f = Inr g' \<Longrightarrow> waiting_connections (common g') = waiting_connections (common g)"
  "on_play g a = Inr g' \<Longrightarrow> waiting_connections (common g') = waiting_connections (common g)"
  by (auto simp: on_discard_def on_play_def result_simps dest!: card_leaves_waiting)

text \<open>So do the special discards.\<close>

lemma chop_move_waiting [waiting_kept]: "chop_move p ord = Inr q \<Longrightarrow> waiting_connections q = waiting_connections p"
  by (auto simp: chop_move_def result_simps dest: waiting_kept split: if_splits)

lemma apply_locked_waiting [waiting_kept]: "apply_locked_discard s p pl = Inr q \<Longrightarrow> waiting_connections q = waiting_connections p"
  unfolding apply_locked_discard_def by (erule fold_waiting) (erule chop_move_waiting)

lemma apply_unknown_waiting [waiting_kept]:
  assumes "apply_unknown_sarcastic s p os i = Inr q"
  shows "waiting_connections q = waiting_connections p"
proof -
  obtain c1 where "foldR (regain_id i) p os = Inr c1" "waiting_connections q = waiting_connections c1"
    using assms by (auto simp: apply_unknown_sarcastic_def Let_def result_simps promise_link_def split: if_splits)
  then show ?thesis by (auto elim!: fold_waiting simp: regain_id_def dest: write_card_waiting)
qed

lemma unknown_transfer_waiting [waiting_kept]:
  "unknown_transfer s l pl i os p = Inr q \<Longrightarrow> waiting_connections q = waiting_connections p"
  by (auto simp: unknown_transfer_def result_simps dest!: waiting_kept split: if_splits)

lemma interpret_sarcastic_waiting:
  "interpret_sarcastic f g pl i = Inr (c, os) \<Longrightarrow> waiting_connections c = waiting_connections (common g)"
  by (auto simp: interpret_sarcastic_def Let_def result_simps dest!: waiting_kept split: if_splits option.splits list.splits)

lemma interpret_gd_waiting: "interpret_gd g pl i ff = Inr (c, os) \<Longrightarrow> waiting_connections c = waiting_connections (common g)"
  by (auto simp: interpret_gd_def result_simps dest: write_card_waiting elim!: fold_waiting split: option.splits)

lemma interpret_baton_waiting:
  assumes "interpret_baton g pl i bt = Inr (c, os)"
  shows "waiting_connections c = waiting_connections (common g)"
proof -
  have "waiting_connections c = waiting_connections (common g)"
    if "bindR (case xs of
              [ord] \<Rightarrow> write_card (common g) ord (\<lambda>d. [W_inferred (iset_intersect (inferred d) (AnId i)), W_known True, W_trash False])
            | _ \<Rightarrow> foldR (\<lambda>c ord. write_card c ord (\<lambda>d. [W_inferred (iset_union (inferred d) (AnId i)), W_trash False])) (common g) xs)
            (\<lambda>c. Inr (c, xs)) = Inr (c, os)" for xs
    using that unfolding bindR_Inr_iff by (auto dest!: waiting_kept simp del: foldR.simps split: list.splits)
  then show ?thesis using assms by (auto simp: interpret_baton_def Let_def split: option.splits)
qed

section \<open>Handing over\<close>

lemma with_conn_current [simp]: "wc_current (with_conn k conn wc) = wc_current wc"
  by (simp add: wc_current_iff with_conn_def)

lemma rewrite_rest_current [simp]: "wc_current (rewrite_rest from ord conn wc) = wc_current wc"
  by (auto simp: rewrite_rest_def split: option.splits)

lemma transfers_of_waiting:
  "transfers_of g a = Inr (g1, os, move) \<Longrightarrow> waiting_connections (common g1) = waiting_connections (common g)"
  by (auto simp: transfers_of_def Let_def result_simps dest!: interpret_sarcastic_waiting interpret_gd_waiting split: if_splits)

definition transfer_ok :: "waiting_connection list \<Rightarrow> transfer_loop \<Rightarrow> bool" where
  "transfer_ok wcs t \<longleftrightarrow>
     (if tr_done t \<noteq> None then wcs_current (tr_game t)
      else waiting_connections (common (tr_game t)) = wcs \<and> (\<forall>w \<in> set (tr_wcs t). wc_current w))"

lemma cancel_conn_ok:
  assumes "rewinds_current rw" "\<forall>w \<in> set wcs. wc_current w" "transfer_ok wcs t" "tr_done t = None"
    and "cancel_conn rw a t k wc place move = Inr t'"
  shows "transfer_ok wcs t'"
proof (cases "other_waiting t k wc")
  case False
  then obtain gg where gg: "rw (tr_game t) (wc_action_index wc)
      [IgnoreAction (real_connects (wc_connections wc) place) (act_order a) (Some (wc_inference wc))] = Inr gg"
    "(case snd gg of Some g2 \<Rightarrow> bindR (update_notes g2) (\<lambda>g3. Inr (t\<lparr>tr_game := g3, tr_done := Some move\<rparr>))
      | None \<Rightarrow> Inr (t\<lparr>tr_game := fst gg\<rparr>)) = Inr t'"
    using assms(5) by (auto simp: cancel_conn_def result_simps)
  have "wcs_current (tr_game t)" using assms(2-4) by (simp add: transfer_ok_def wcs_current_def)
  then have "waiting_connections (common (fst gg)) = waiting_connections (common (tr_game t))" "\<forall>g'. snd gg = Some g' \<longrightarrow> wcs_current g'"
    using assms(1) gg(1) unfolding rewinds_current_def by blast+
  with gg(2) assms(3,4) show ?thesis
    by (auto simp: transfer_ok_def result_simps wcs_current_def dest!: update_notes_common split: option.splits)
qed (use assms(3,5) in \<open>simp add: cancel_conn_def\<close>)

lemma finish_transfer_ok:
  assumes "\<forall>w \<in> set wcs. wc_current w" "wc_current wc" "transfer_ok wcs t" "tr_done t = None"
  shows "transfer_ok wcs (finish_transfer from ord t k wc place move conn)"
  using assms by (auto simp: transfer_ok_def finish_transfer_def Let_def wcs_current_def dest: in_set_dropD)

lemma transfer_conn_ok:
  assumes "rewinds_current rw" "\<forall>w \<in> set wcs. wc_current w" "wc_current wc" "transfer_ok wcs t" "tr_done t = None"
    and "transfer_conn rw a failed t k wc place = Inr t'"
  shows "transfer_ok wcs t'"
proof (cases "replaceable (tr_game t) a failed")
  case True
  then obtain g1 os move conn where g1: "transfers_of (tr_game t) a = Inr (g1, os, move)"
    "(case conn of Some cn \<Rightarrow> Inr (finish_transfer (wc_conn_index wc) (act_order a) (t\<lparr>tr_game := g1\<rparr>) k wc place move cn)
      | None \<Rightarrow> cancel_conn rw a (t\<lparr>tr_game := g1\<rparr>) k wc place move) = Inr t'"
    using assms(6) by (auto simp: transfer_conn_def result_simps)
  have t1: "transfer_ok wcs (t\<lparr>tr_game := g1\<rparr>)" "tr_done (t\<lparr>tr_game := g1\<rparr>) = None"
    using transfers_of_waiting [OF g1(1)] assms(4,5) by (simp_all add: transfer_ok_def)
  show ?thesis
    using g1(2) finish_transfer_ok [OF assms(2,3) t1] cancel_conn_ok [OF assms(1,2) t1] by (auto split: option.splits)
next
  case False
  with cancel_conn_ok [OF assms(1,2,4,5)] assms(6) show ?thesis by (simp add: transfer_conn_def)
qed

lemma transfer_step_ok:
  assumes "rewinds_current rw" "\<forall>w \<in> set wcs. wc_current w" "k < length wcs" "transfer_ok wcs t"
    and "transfer_step rw a failed wcs t k = Inr t'"
  shows "transfer_ok wcs t'"
proof (cases "tr_done t")
  case None
  have wc: "wc_current (wcs ! k)" using assms(2,3) by simp
  then have kept: "transfer_ok wcs (t\<lparr>tr_wcs := tr_wcs t @ [wcs ! k]\<rparr>)" "transfer_ok wcs (t\<lparr>tr_wcs := tr_wcs t @ [wcs ! k], tr_marked := True\<rparr>)"
    using assms(4) None by (auto simp: transfer_ok_def)
  with assms(5) None transfer_conn_ok [OF assms(1,2) wc assms(4) None] show ?thesis
    by (auto simp: transfer_step_def Let_def split: option.splits if_splits)
qed (use assms(4,5) in \<open>simp add: transfer_step_def\<close>)

lemma check_transfer_ok:
  assumes "rewinds_current rw" "wcs_current g" "check_transfer rw a failed g = Inr (g', move, marked)"
  shows "wcs_current g'"
proof -
  let ?wcs = "waiting_connections (common g)"
  obtain t where t: "foldR (transfer_step rw a failed ?wcs) \<lparr>tr_game = g, tr_wcs = [], tr_marked = False, tr_done = None\<rparr> [0..<length ?wcs] = Inr t"
    "(case tr_done t of Some move \<Rightarrow> Inr (tr_game t, move, tr_marked t)
      | None \<Rightarrow> Inr ((tr_game t)\<lparr>common := (common (tr_game t))\<lparr>waiting_connections := tr_wcs t\<rparr>\<rparr>, H_None, tr_marked t)) =
      (Inr (g', move, marked) :: (game \<times> h_interp \<times> bool) result)"
    using assms(3) by (auto simp: check_transfer_def Let_def result_simps)
  have wcs: "\<forall>w \<in> set ?wcs. wc_current w" using assms(2) by (simp add: wcs_current_def)
  have "transfer_ok ?wcs t"
  proof (rule foldR_inv [OF t(1)])
    show "transfer_ok ?wcs u'" if "k \<in> set [0..<length ?wcs]" "transfer_ok ?wcs u" "transfer_step rw a failed ?wcs u k = Inr u'" for u k u'
      using transfer_step_ok [OF assms(1) wcs _ that(2,3)] that(1) by simp
  qed (simp add: transfer_ok_def)
  with t(2) show ?thesis by (auto simp: transfer_ok_def wcs_current_def split: option.splits)
qed

section \<open>The handlers\<close>

lemma settle_certain_current: "settle_certain g pl = Inr g' \<Longrightarrow> wcs_current g \<Longrightarrow> wcs_current g'"
proof -
  assume g: "settle_certain g pl = Inr g'" "wcs_current g"
  have "waiting_connections c = waiting_connections p"
    if "foldR (\<lambda>p ord. bindR (need (slot (thoughts p) ord)) (\<lambda>c. if uncertain c then write_card p ord (\<lambda>d. [W_uncertain False]) else Inr p))
          p os = Inr c" for c p os
    using that by (rule fold_waiting) (auto simp: result_simps dest: write_card_waiting split: if_splits)
  with g show ?thesis by (fastforce simp: settle_certain_def wcs_current_def result_simps split: if_splits)
qed

lemma interpret_move_common [simp]: "common (interpret_move m g) = common g" "g_state (interpret_move m g) = g_state g"
  by (simp_all add: interpret_move_def)

lemma current_cong: "waiting_connections (common g') = waiting_connections (common g) \<Longrightarrow> wcs_current g' = wcs_current g"
  by (simp add: wcs_current_def)

lemma resolve_discard_current:
  assumes "resolve_discard pl m g = Inr g'" "wcs_current g"
  shows "wcs_current g'"
proof -
  obtain g1 where g1: "team_elim (interpret_move m g) = Inr g1" "settle_certain g1 pl = Inr g'"
    using assms(1) by (auto simp: resolve_discard_def result_simps)
  have "wcs_current g1" using team_elim_waiting [OF g1(1)] assms(2) by (simp add: wcs_current_def)
  with g1(2) show ?thesis by (rule settle_certain_current)
qed

lemma chop_move_card_current: "chop_move_card ord g = Inr g' \<Longrightarrow> wcs_current g \<Longrightarrow> wcs_current g'"
  by (auto simp: chop_move_card_def result_simps wcs_current_def dest!: write_card_waiting)

lemma chop_move_all_current: "chop_move_all os g = Inr g' \<Longrightarrow> wcs_current g \<Longrightarrow> wcs_current g'"
  unfolding chop_move_all_def by (erule foldR_inv) (auto dest: chop_move_card_current)

lemma set_discard_current [simp]: "wcs_current (set_discard_state d g) = wcs_current g"
  by (simp add: wcs_current_def set_discard_state_def)

lemma interpret_move_current [simp]: "wcs_current (interpret_move m g) = wcs_current g"
  by (simp add: wcs_current_def)

lemma apply_sdcm_current:
  assumes "apply_sdcm g a tocm move = Inr (g', m)" "wcs_current g"
  shows "wcs_current g'"
proof -
  have c: "wcs_current (set_discard_state d g)" "wcs_current (interpret_move k (set_discard_state d g))" for d k
    using assms(2) by simp_all
  from assms(1) show ?thesis
    unfolding apply_sdcm_def Let_def
    by (auto simp del: set_discard_current interpret_move_current simp: result_simps c
        dest: chop_move_all_current [OF _ c(2)] chop_move_card_current [OF _ c(1)] split: if_splits option.splits)
qed

lemma last_resorts_current:
  assumes "last_resorts g a f bt oc tocm = Inr (g', m)" "wcs_current g"
  shows "wcs_current g'"
proof -
  have "wcs_current (interpret_move k g)" for k using assms(2) by simp
  note moved = chop_move_all_current [OF _ this]
  from assms show ?thesis
    by (auto simp: last_resorts_def Let_def result_simps dest: apply_sdcm_current moved split: if_splits)
qed

lemma call_slots_current:
  assumes "call_slots g giver k targets = Inr g'" "wcs_current g" "targets \<noteq> []"
  shows "wcs_current g'"
proof -
  obtain g1 conns where g1: "foldR (call_slot k) (g, []) targets = Inr (g1, conns)"
    "g' = g1\<lparr>common := (common g1)\<lparr>waiting_connections := waiting_connections (common g1) @
       [positional_wait (g_state g1) giver (fst (last targets)) conns]\<rparr>\<rparr>"
    using assms(1) by (auto simp: call_slots_def Let_def result_simps)
  obtain t ts where ts: "targets = t # ts" using assms(3) by (cases targets) auto
  then obtain acc where acc: "call_slot k (g, []) t = Inr acc" "foldR (call_slot k) acc ts = Inr (g1, conns)"
    using g1(1) by (auto simp: result_simps)
  have "wcs_current (fst (g1, conns)) \<and> snd (g1, conns) \<noteq> []"
    by (rule foldR_inv [OF acc(2), where P = "\<lambda>x. wcs_current (fst x) \<and> snd x \<noteq> []"])
      (use acc(1) assms(2) in \<open>auto simp: call_slot_def Let_def result_simps wcs_current_def dest!: write_card_waiting\<close>)
  with g1(2) show ?thesis by (auto simp: wcs_current_def wc_current_iff positional_wait_def)
qed

lemma restore_everyone_current: "restore_everyone i g = Inr g' \<Longrightarrow> wcs_current g \<Longrightarrow> wcs_current g'"
  by (auto simp: restore_everyone_def result_simps wcs_current_def dest!: restore_elim_waiting)

lemma hand_over_current: "hand_over g a = Inr (g', os, m) \<Longrightarrow> wcs_current g \<Longrightarrow> wcs_current g'"
  by (auto simp: hand_over_def Let_def result_simps wcs_current_def
      dest!: interpret_sarcastic_waiting interpret_gd_waiting interpret_baton_waiting split: if_splits)

lemma double_discard_current [simp]: "wcs_current (double_discard g a) = wcs_current g"
  by (auto simp: double_discard_def wcs_current_def Let_def split: option.splits)

lemma useful_discard_current:
  assumes "useful_discard_of g a f = Inr (g', m)" "wcs_current g"
  shows "wcs_current g'"
proof (cases "useful_gone g (act_id a) \<and> clued (deck_at (g_state g) (act_order a))")
  case True
  then obtain g1 where g1: "restore_everyone (raw (deck_at (g_state g) (act_order a))) g = Inr g1"
    "(if f then Inr (double_discard (g1\<lparr>common := undo_hypo_stacks (common g1) (act_id a)\<rparr>) a, None)
      else if status (card_at (common g1) (act_order a)) = Some BLUFFED then Inr (double_discard g1 a, None)
      else bindR (hand_over g1 a) (\<lambda>(g2, os, move).
            Inr (if os \<noteq> [] then (g2, Some move) else (double_discard g2 a, None)))) = Inr (g', m)"
    using assms(1) by (auto simp: useful_discard_of_def bindR_Inr_iff)
  have c: "wcs_current g1" using g1(1) assms(2) by (rule restore_everyone_current)
  moreover have "wcs_current (g1\<lparr>common := undo_hypo_stacks (common g1) (act_id a)\<rparr>)" using c by (simp add: wcs_current_def)
  ultimately show ?thesis
    using g1(2) hand_over_current [OF _ c] by (auto simp: result_simps split: if_splits)
qed (use assms in \<open>auto simp: useful_discard_of_def split: if_splits\<close>)

lemma other_discard_current:
  assumes "other_discard a f bt oc k tocm g = Inr (g', m)" "wcs_current g"
  shows "wcs_current g'"
proof -
  obtain g1 move where g1: "last_resorts g a f bt oc tocm = Inr (g1, move)"
    using assms(1) by (auto simp: other_discard_def Let_def result_simps)
  then have c: "wcs_current g1" using assms(2) by (rule last_resorts_current)
  from assms(1) show ?thesis
    unfolding other_discard_def Let_def g1 bindR_simps prod.case
    by (auto simp: bindR_Inr_iff dest!: call_slots_current [OF _ c] dest: resolve_discard_current [OF _ c] resolve_discard_current
        split: if_splits)
qed

lemma end_early_current [simp]: "wcs_current (end_early_game a f g) = wcs_current g"
  by (auto simp: end_early_game_def wcs_current_def Let_def)

lemma read_discard_current:
  assumes "read_discard a f bt oc k tocm g = Inr (g', m)" "wcs_current g"
  shows "wcs_current g'"
proof -
  obtain g1 move where g1: "useful_discard_of g a f = Inr (g1, move)"
    using assms(1) by (auto simp: read_discard_def result_simps)
  then have "wcs_current g1" using assms(2) by (rule useful_discard_current)
  with assms(1) g1 show ?thesis
    by (auto simp: read_discard_def bindR_Inr_iff dest: other_discard_current resolve_discard_current split: option.splits)
qed

lemma rewound_current:
  assumes "rewinds_current rw" "wcs_current g" "rw g index as = Inr gg"
  shows "wcs_current (fst gg)" "\<And>g2 g3. snd gg = Some g2 \<Longrightarrow> update_notes g2 = Inr g3 \<Longrightarrow> wcs_current g3"
proof -
  have "waiting_connections (common (fst gg)) = waiting_connections (common g)" "\<forall>g'. snd gg = Some g' \<longrightarrow> wcs_current g'"
    using assms unfolding rewinds_current_def by blast+
  with assms(2) show "wcs_current (fst gg)" "\<And>g2 g3. snd gg = Some g2 \<Longrightarrow> update_notes g2 = Inr g3 \<Longrightarrow> wcs_current g3"
    by (auto simp: wcs_current_def dest!: update_notes_common)
qed

lemma after_transfer_current:
  assumes "rewinds_current rw" "after_transfer rw a f bt oc k tocm g = Inr (g', m)" "wcs_current g"
  shows "wcs_current g'"
proof (cases "discard_surprise (end_early_game a f g) a f")
  case True
  let ?g = "end_early_game a f g"
  obtain gg where gg: "rw ?g (drawn_index (deck_at (g_state ?g) (act_order a)) + 1) [IdentifyAction (act_order a) (act_player a) [act_id a] False] = Inr gg"
    "(case snd gg of Some g2 \<Rightarrow> bindR (update_notes g2) (\<lambda>g3. Inr (g3, False))
      | None \<Rightarrow> read_discard a f bt oc k tocm (fst gg)) = Inr (g', m)"
    using assms(2) True by (auto simp: after_transfer_def Let_def result_simps)
  have "wcs_current ?g" using assms(3) by simp
  note r = rewound_current [OF assms(1) this gg(1)]
  from gg(2) r show ?thesis by (auto simp: bindR_Inr_iff dest: read_discard_current split: option.splits)
next
  case False
  with assms(2) have "read_discard a f bt oc k tocm (end_early_game a f g) = Inr (g', m)"
    by (simp add: after_transfer_def Let_def)
  then show ?thesis by (rule read_discard_current) (simp add: assms(3))
qed

lemma mutate_waiting: "waiting_connections (common (mutate g g')) = waiting_connections (common g')"
  by (simp add: mutate_def)

lemma discard_ocm_current: "discard_ocm g a f = Inr g' \<Longrightarrow> wcs_current g \<Longrightarrow> wcs_current g'"
  by (auto simp: discard_ocm_def result_simps dest: chop_move_card_current split: option.splits)

lemma h_discard_current:
  assumes "rewinds_current rw" "wcs_current g" "h_discard rw a failed g = Inr (g', marked)"
  shows "wcs_current g'"
proof -
  obtain g1 g2 g3 move m tocm where g: "discard_ocm g a failed = Inr g1" "on_discard g1 a failed = Inr g2"
    "check_transfer rw a failed (mutate g1 g2) = Inr (g3, move, m)"
    "(if move \<noteq> H_None then bindR (resolve_discard (act_player a) move g3) (\<lambda>g4. Inr (g4, True))
      else bindR (after_transfer rw a failed
          (filter (\<lambda>ord. saved (card_at (common g) ord)) (thinks_trash (common g) (g_state g) (act_player a)))
          (chop (common g) (hands (g_state g) ! act_player a)) (nat (index_of (hands (g_state g) ! act_player a) (act_order a))) tocm g3)
        (\<lambda>(g4, m'). Inr (g4, m \<or> m'))) = Inr (g', marked)"
    using assms(3) unfolding h_discard_def Let_def bindR_Inr_iff by fastforce
  have "wcs_current g1" using g(1) assms(2) by (rule discard_ocm_current)
  then have "wcs_current (mutate g1 g2)" using on_leave_waiting(1) [OF g(2)] by (simp add: wcs_current_def mutate_def)
  with check_transfer_ok [OF assms(1) _ g(3)] have "wcs_current g3" by blast
  with g(4) show ?thesis
    by (auto simp: bindR_Inr_iff dest: resolve_discard_current after_transfer_current [OF assms(1)] split: if_splits)
qed

section \<open>Plays\<close>

lemma elim_and_tell_current: "elim_and_tell g = Inr g' \<Longrightarrow> wcs_current g \<Longrightarrow> wcs_current g'"
  by (auto simp: elim_and_tell_def result_simps wcs_current_def dest!: team_elim_waiting waiting_kept)

lemma chop_move_ocm_current: "chop_move_ocm g a = Inr g' \<Longrightarrow> wcs_current g \<Longrightarrow> wcs_current g'"
  by (auto simp: chop_move_ocm_def result_simps wcs_current_def dest!: write_card_waiting split: if_splits option.splits)

lemma h_play_on_current:
  assumes "h_play_on g a = Inr g'" "wcs_current g"
  shows "wcs_current g'"
proof -
  define g1 where "g1 = (if blind_playing (card_at (common g) (act_order a))
      then g\<lparr>own := (own g)\<lparr>finesses_while_finessed := (finesses_while_finessed (own g))[act_player a := []]\<rparr>\<rparr> else g)"
  obtain g2 g3 g4 where g: "chop_move_ocm g1 a = Inr g2" "on_play g2 a = Inr g3" "elim_and_tell (mutate g2 g3) = Inr g4"
    "settle_certain g4 (act_player a) = Inr g'"
    using assms(1) unfolding h_play_on_def Let_def g1_def [symmetric] bindR_Inr_iff by blast
  have "wcs_current g1" using assms(2) by (simp add: g1_def wcs_current_def)
  with chop_move_ocm_current [OF g(1)] have "wcs_current g2" by blast
  then have "wcs_current (mutate g2 g3)" using on_leave_waiting(2) [OF g(2)] by (simp add: wcs_current_def mutate_def)
  with elim_and_tell_current [OF g(3)] settle_certain_current [OF g(4)] show ?thesis by blast
qed

lemma h_play_current:
  assumes "rewinds_current rw" "wcs_current g" "h_play rw a g = Inr g'"
  shows "wcs_current g'"
proof (cases "play_surprise g a")
  case True
  then obtain gg where gg: "rw g (drawn_index (card_at (common g) (act_order a)) + 1)
      [IdentifyAction (act_order a) (act_player a) [act_id a] False] = Inr gg"
    "(case snd gg of Some g2 \<Rightarrow> update_notes g2 | None \<Rightarrow> h_play_on (fst gg) a) = Inr g'"
    using assms(3) by (auto simp: h_play_def result_simps)
  note r = rewound_current [OF assms(1,2) gg(1)]
  from gg(2) r show ?thesis by (auto dest: h_play_on_current split: option.splits)
next
  case False
  with assms show ?thesis by (auto simp: h_play_def dest: h_play_on_current)
qed

end
