(* ===== verification/H_Demo.thy ===== *)
theory H_Demo
  imports Convention_Demo H_Logic H_Discards_Sound
begin

text \<open>
  A table on which the hypotheses of the properties of the h-group hold: Bob has a red 1 in his finesse position, Alice
  a red 2 that a clue has told her of, and Bob is to play first.
\<close>

definition demo_conn :: "connection_type \<Rightarrow> nat \<Rightarrow> nat \<Rightarrow> basic_card \<Rightarrow> connection" where
  "demo_conn t pl ord i = \<lparr>conn_type = t, conn_reacting = pl, conn_order = ord, conn_identities = [i], conn_self = False,
     conn_hidden = False, conn_bluff = False, conn_possibly_bluff = False, conn_certain = False, conn_linked = None,
     conn_layered = False, conn_asymmetric = False\<rparr>"

definition demo_waiting_conn :: waiting_connection where
  "demo_waiting_conn = \<lparr>wc_connections = [demo_conn Finesse 1 0 (mk_id 0 1), demo_conn Playable 0 1 (mk_id 0 2)], wc_giver = 1,
     wc_target = 0, wc_conn_index = 0, wc_turn = 1, wc_focus = 1, wc_inference = mk_id 0 2, wc_action_index = 1,
     wc_symmetric = False, wc_ambiguous_passback = False, wc_self_passback = False\<rparr>"

definition demo_waiting :: game where
  "demo_waiting = demo_table
     \<lparr>g_state := (g_state demo_table)\<lparr>hands := [[1], []],
        deck := [Some (deck_at (g_state demo_table) 0),
          Some ((deck_at (g_state demo_table) 0)\<lparr>order := 1, suit_index := -1, rank := -1, clued := True\<rparr>)]\<rparr>,
      common := (common demo_table)\<lparr>thoughts := [Some demo_unknown, Some (demo_unknown\<lparr>clued := True, status := Some CLUED\<rparr>)],
        waiting_connections := [demo_waiting_conn]\<rparr>,
      g_players := map (\<lambda>p. p\<lparr>thoughts := [Some demo_unknown, Some (demo_unknown\<lparr>clued := True, status := Some CLUED\<rparr>)]\<rparr>)
        (g_players demo_table),
      last_actions := [None, Some (PlayAction \<lparr>act_order = 0, act_player = 1, act_suit = 0, act_rank = 1\<rparr>)]\<rparr>"

definition no_rewind :: rewinder where
  "no_rewind g index as = Inr (g, None)"

lemma no_rewind_current: "rewinds_current no_rewind"
  by (simp add: rewinds_current_def no_rewind_def)

lemma demo_waiting_current: "wcs_current demo_waiting"
  unfolding wcs_current_def by code_simp

text \<open>Bob has played the red 1; a turn of Alice's keeps the connection, a turn of Bob's completes it.\<close>

lemma demo_turn: "\<exists>g'. h_turn no_rewind 2 1 demo_waiting = Inr g' \<and> waiting_connections (common g') = [demo_waiting_conn]"
proof -
  have "case h_turn no_rewind 2 1 demo_waiting of Inr g' \<Rightarrow> waiting_connections (common g') = [demo_waiting_conn] | Inl e \<Rightarrow> False"
    by code_simp
  then show ?thesis by (auto split: sum.splits)
qed

text \<open>Bob's first and only card is on chop, and a clue on it has it as its focus.\<close>

lemma demo_chop: "chop (common demo_table) [0] = Some 0"
  by code_simp

end
