(* ===== verification/H_Connecting.thy ===== *)
theory H_Connecting
  imports H_Logic
begin

text \<open>
  The cards that connect to a clued one in the h-group: \<open>src/src/conventions/h-group/clue-interpretation/connecting-cards.js\<close>, with
  \<open>valid_bluff\<close> of \<open>connection-helper.js\<close>. A connection is a known card, a playable one, a prompt, a finesse or a bluff. A
  hidden connection is a layer: the search goes on behind it, on stacks on which the hidden cards have been played. The
  code puts these stacks into the state and takes them back; here they are an argument. A hand is as long as the fuel of
  the layers, since every layer uses a card of it (\<open>layers_enough\<close>).
\<close>

abbreviation level_bluffs :: nat where "level_bluffs \<equiv> 11"

section \<open>Options and connections\<close>

record connect_options =
  known_only :: "nat list"
  assume_truth :: bool
  bluffed_only :: bool
  immediate_only :: bool
  player_order :: "nat list option"

definition no_connect :: connect_options where
  "no_connect = \<lparr>known_only = [], assume_truth = False, bluffed_only = False, immediate_only = False, player_order = None\<rparr>"

text \<open>A search may find nothing, find a connection, or say that there is nothing to look for.\<close>

datatype found = Nothing_Found | Stop_Looking | Found connection

section \<open>Known cards\<close>

definition rest_conns :: "waiting_connection \<Rightarrow> connection list" where
  "rest_conns wc = drop (wc_conn_index wc) (wc_connections wc)"

text \<open>We cannot verify the finesses and prompts up to a card when we gave the clue and are the target of the connection.\<close>

definition possibly_fake :: "game \<Rightarrow> nat \<Rightarrow> nat \<Rightarrow> bool" where
  "possibly_fake g giver ord \<longleftrightarrow>
     (let us = our_player (g_state g) in
      giver = us \<and>
      list_ex (\<lambda>wc. let conns = rest_conns wc in
          wc_target wc = us \<and> list_ex (\<lambda>c. conn_order c = ord) conns \<and>
          list_ex (\<lambda>k. conn_type (conns ! k) \<in> {Finesse, Prompt} \<and> list_all (\<lambda>c. conn_order c \<noteq> ord) (take k conns)) [0..<length conns])
        (waiting_connections (common g)))"

text \<open>The inferences that are left when the identity has been played, and the connection on the card has been resolved.\<close>

definition inferences_later :: "game \<Rightarrow> nat \<Rightarrow> nat \<Rightarrow> basic_card \<Rightarrow> nat \<Rightarrow> iset" where
  "inferences_later g giver pl i ord =
     (let com = common g; inferred1 = inferred (card_at com ord) in
      if giver = pl then inferred1
      else
        let left = iset_subtract inferred1 (Ids (filter (\<lambda>j. played_before False j i) (iset_array inferred1))) in
        case List.find (\<lambda>wc. \<not> wc_symmetric wc \<and> wc_focus wc = ord \<and> wc_target wc \<noteq> our_player (g_state g)) (waiting_connections com) of
          Some wc \<Rightarrow> iset_intersect left (AnId (wc_inference wc))
        | None \<Rightarrow> left)"

definition globally_known :: "game \<Rightarrow> nat \<Rightarrow> basic_card \<Rightarrow> nat list \<Rightarrow> nat \<Rightarrow> nat \<Rightarrow> bool" where
  "globally_known g giver i ignored pl ord \<longleftrightarrow>
     (let s = g_state g; com = common g; c = card_at com ord in
      ord \<notin> set ignored \<and> touched c \<and> actual_matches (Some True) (deck_at s ord) i \<and>
      \<not> (uncertain c \<and> possibly_fake g giver ord) \<and> ord \<notin> set (linked_orders com s) \<and>
      \<not> (pl = our_player s \<and> ord \<in> set (linked_orders (me g) s)) \<and>
      matches (no_opts\<lparr>o_infer := Some True, o_symmetric := Some True\<rparr>) (c\<lparr>inferred := inferences_later g giver pl i ord\<rparr>) i)"

definition has_id :: "basic_card \<Rightarrow> basic_card list \<Rightarrow> bool" where
  "has_id i ids \<longleftrightarrow> list_ex (\<lambda>j. basic_matches j i) ids"

definition known_link :: "game \<Rightarrow> basic_card \<Rightarrow> nat \<Rightarrow> link option" where
  "known_link g i ord =
     List.find (\<lambda>l. l_promised l \<and> has_id i (l_identities l) \<and> ord \<in> set (l_orders l) \<and> length (l_orders l) \<ge> length (l_identities l))
       (links (common g))"

text \<open>A link for other identities on the same card is in the way. (It is not the link that was found, which has the identity.)\<close>

definition conflicting_link :: "game \<Rightarrow> basic_card \<Rightarrow> nat \<Rightarrow> bool" where
  "conflicting_link g i ord \<longleftrightarrow>
     list_ex (\<lambda>l. l_promised l \<and> \<not> has_id i (l_identities l) \<and> ord \<in> set (l_orders l)) (links (common g))"

definition linked_in_hand :: "game \<Rightarrow> basic_card \<Rightarrow> nat list \<Rightarrow> nat \<Rightarrow> connection option" where
  "linked_in_hand g i ignored pl =
     (case List.find (\<lambda>ord. ord \<notin> set ignored \<and> actual_matches (Some True) (deck_at (g_state g) ord) i \<and> known_link g i ord \<noteq> None)
         (hands (g_state g) ! pl) of
        None \<Rightarrow> None
      | Some ord \<Rightarrow>
          if conflicting_link g i ord then None
          else Some ((mk_conn Playable pl ord [i])\<lparr>conn_linked := map_option l_orders (known_link g i ord)\<rparr>))"

text \<open>The order that was found is tested for being truthy: the card of order 0 is never taken for a known one.\<close>

definition known_in_hand :: "game \<Rightarrow> nat \<Rightarrow> basic_card \<Rightarrow> nat list \<Rightarrow> nat \<Rightarrow> connection option" where
  "known_in_hand g giver i ignored pl =
     (case List.find (globally_known g giver i ignored pl) (hands (g_state g) ! pl) of
        Some (Suc n) \<Rightarrow> Some (mk_conn Known pl (Suc n) [i])
      | _ \<Rightarrow> linked_in_hand g i ignored pl)"

section \<open>Playables\<close>

definition will_play :: "game \<Rightarrow> basic_card \<Rightarrow> nat list \<Rightarrow> nat \<Rightarrow> bool" where
  "will_play g i ignored ord \<longleftrightarrow>
     (let c = card_at (common g) ord in
      ord \<notin> set ignored \<and> touched c \<and> iset_has (inferred c) i \<and>
      (list_all (is_playable (g_state g)) (iset_array (inferred c)) \<or> ord \<in> set (hypo_plays (common g)) \<or> blind_playing c) \<and>
      \<not> uncertain c)"

definition duplicated_by_giver :: "game \<Rightarrow> nat \<Rightarrow> basic_card \<Rightarrow> bool" where
  "duplicated_by_giver g giver i \<longleftrightarrow>
     (let s = g_state g in
      giver = our_player s \<and>
      list_ex (\<lambda>ord. clued (deck_at s ord) \<and> iset_has (inferred (card_at (g_players g ! giver) ord)) i) (hands s ! giver))"

definition playable_in_hand :: "game \<Rightarrow> nat \<Rightarrow> basic_card \<Rightarrow> nat list \<Rightarrow> nat \<Rightarrow> found option" where
  "playable_in_hand g giver i ignored pl =
     (let s = g_state g; playables = filter (will_play g i ignored) (hands s ! pl);
          hit = List.find (\<lambda>ord. actual_matches None (deck_at s ord) i) playables in
      if length playables > 1 \<and> duplicated_by_giver g giver i then
        Some (if hit \<noteq> None then Stop_Looking else Nothing_Found)
      else map_option (\<lambda>ord. Found ((mk_conn Playable pl ord [i])\<lparr>conn_linked := Some playables\<rparr>)) hit)"

section \<open>The giver's own cards\<close>

text \<open>The giver may know more about the card than we do: the identities that it cannot exclude but we could hold.\<close>

definition missing_ids :: "game \<Rightarrow> nat \<Rightarrow> nat \<Rightarrow> basic_card list" where
  "missing_ids g giver ord =
     (let s = g_state g in
      concat (map (\<lambda>j. replicate (nat (total_count s j - base_count s j -
            int (length (visible_find s (g_players g ! giver) j no_opts [])) -
            (if actual_matches None (deck_at s ord) j then 1 else 0))) j)
        (iset_array (inferred (card_at (common g) ord)))))"

definition giver_knows :: "game \<Rightarrow> nat \<Rightarrow> basic_card \<Rightarrow> nat list \<Rightarrow> nat \<Rightarrow> bool" where
  "giver_knows g giver i ignored ord \<longleftrightarrow>
     (let s = g_state g in
      ord \<notin> set ignored \<and> actual_matches None (deck_at s ord) i \<and>
      (case missing_ids g giver ord of
         [] \<Rightarrow> True
       | [j] \<Rightarrow> list_ex (\<lambda>o2. o2 \<notin> set ignored \<and> iset_has (possible (card_at (me g) o2)) j) (our_hand s)
       | _ \<Rightarrow> False))"

definition first_some :: "('a \<Rightarrow> 'b option) \<Rightarrow> 'a list \<Rightarrow> 'b option" where
  "first_some f xs = (case dropWhile (\<lambda>x. f x = None) xs of x # _ \<Rightarrow> f x | [] \<Rightarrow> None)"

definition find_known_connecting :: "game \<Rightarrow> nat \<Rightarrow> basic_card \<Rightarrow> nat list \<Rightarrow> connect_options \<Rightarrow> found" where
  "find_known_connecting g giver i ignored opts =
     (let s = g_state g; n = num_players s;
          known_order = (case player_order opts of Some pls \<Rightarrow> pls | None \<Rightarrow> map (\<lambda>k. (n + giver + k) mod n) [0..<n]);
          play_order = (case player_order opts of Some pls \<Rightarrow> pls | None \<Rightarrow> map (\<lambda>k. (giver + k) mod n) [1..<n]) in
      case first_some (known_in_hand g giver i ignored) known_order of
        Some conn \<Rightarrow> Found conn
      | None \<Rightarrow>
          (case first_some (playable_in_hand g giver i ignored) (filter (\<lambda>pl. pl \<notin> set (known_only opts)) play_order) of
             Some r \<Rightarrow> r
           | None \<Rightarrow>
               (case (if (case player_order opts of None \<Rightarrow> True | Some pls \<Rightarrow> giver \<in> set pls)
                      then List.find (giver_knows g giver i ignored) (hands s ! giver) else None) of
                  Some ord \<Rightarrow> Found (mk_conn Known giver ord [i])
                | None \<Rightarrow> Nothing_Found)))"

section \<open>Bluffs\<close>

definition valid_bluff :: "game \<Rightarrow> clue_action \<Rightarrow> 'a basic_card_scheme \<Rightarrow> basic_card \<Rightarrow> nat \<Rightarrow> nat list \<Rightarrow> bool \<Rightarrow> bool" where
  "valid_bluff g a blind truth reacting used symmetric \<longleftrightarrow>
     (let s = g_state g; cl = ca_clue a in
      level (own g) \<ge> level_bluffs \<and> next_player s (ca_giver a) = reacting \<and>
      (case used of
         [focus] \<Rightarrow>
           symmetric \<or> (clue_kind cl = RankClue \<and> clue_value cl \<noteq> rank blind + 1) \<or> rank blind = max_stack_rank \<or>
           \<not> iset_has (possible (card_at (common g) focus)) (mk_id (suit_index blind) (rank blind + 1))
       | _ \<Rightarrow> False) \<and>
      \<not> (clue_kind cl = ColourClue \<and> reacting = ca_target a) \<and>
      \<not> list_ex (\<lambda>ord. let c = card_at (g_players g ! reacting) ord in
          (blind_playing c \<or> (status c = Some GD \<and> maybe_layered c)) \<and> iset_has (possible c) truth) (hands s ! reacting))"

section \<open>Prompts and finesses\<close>

record unknown_options =
  u_assume_truth :: bool
  u_no_layer :: bool
  u_bluffed :: bool

text \<open>A prompt that is tried ends the search for this player, with or without a connection.\<close>

definition try_prompt :: "game \<Rightarrow> clue_action \<Rightarrow> nat \<Rightarrow> basic_card \<Rightarrow> nat option \<Rightarrow> connection option option" where
  "try_prompt g a reacting i prompt =
     (case prompt of
        None \<Rightarrow> None
      | Some ord \<Rightarrow>
          let s = g_state g; d = deck_at s ord in
          if basic_identity d = None \<or> rainbow_mismatch g a i ord then None
          else if actual_matches None d i then Some (Some (mk_conn Prompt reacting ord [i]))
          else if level (own g) \<ge> level_finesses \<and> stack_of s d + 1 = rank d then
            (if duplicated_by_giver g (ca_giver a) i then Some None
             else Some (Some ((mk_conn Prompt reacting ord [raw d])\<lparr>conn_hidden := True\<rparr>)))
          else Some (Some (mk_conn Terminate reacting ord [i])))"

definition order_touched :: "game \<Rightarrow> nat \<Rightarrow> bool" where
  "order_touched g ord \<longleftrightarrow>
     (let s = g_state g; c = card_at (common g) ord in
      touched c \<and> \<not> newly_clued c \<and>
      (basic_identity (deck_at s ord) \<noteq> None \<or>
       list_all (\<lambda>wc. \<not> wc_symmetric wc \<and> actual_matches (Some True) (deck_at s (wc_focus wc)) (wc_inference wc))
         (dependent_connections (common g) ord)))"

definition clued_elsewhere :: "game \<Rightarrow> nat \<Rightarrow> actual_card \<Rightarrow> bool" where
  "clued_elsewhere g giver d \<longleftrightarrow>
     (let s = g_state g in
      list_ex (\<lambda>pl. pl \<noteq> giver \<and> list_ex (\<lambda>ord. order_touched g ord \<and> actual_matches None (deck_at s ord) d) (hands s ! pl))
        [0..<length (hands s)])"

text \<open>When we gave the clue, we must not hold the finessed card (a bluff) or the true one (a layer).\<close>

definition bluff_duplicated :: "game \<Rightarrow> actual_card \<Rightarrow> bool" where
  "bluff_duplicated g d \<longleftrightarrow>
     (let cs = filter (\<lambda>c. touched c \<and> iset_has (inferred c) d) (map (card_at (me g)) (our_hand (g_state g))) in
      list_ex (\<lambda>c. iset_length (inferred c) \<le> 2) cs \<or> length cs \<ge> 2)"

definition layer_duplicated :: "game \<Rightarrow> basic_card \<Rightarrow> bool" where
  "layer_duplicated g i \<longleftrightarrow>
     list_ex (\<lambda>ord. let c = card_at (me g) ord in touched c \<and> iset_has (inferred c) i) (our_hand (g_state g))"

definition try_finesse :: "game \<Rightarrow> clue_action \<Rightarrow> nat \<Rightarrow> basic_card \<Rightarrow> nat list \<Rightarrow> unknown_options \<Rightarrow> nat \<Rightarrow> connection option" where
  "try_finesse g a reacting i used opts ord =
     (let s = g_state g; d = deck_at s ord;
          bluff = (\<not> u_assume_truth opts \<and> valid_bluff g a d i reacting used False) in
      if basic_identity d = None \<or> clued_elsewhere g (ca_giver a) d then None
      else if actual_matches None d i then
        (if level (own g) = 1 \<and> \<not> in_between (num_players s) reacting (ca_giver a) (ca_target a) then None
         else Some ((mk_conn Finesse reacting ord [i])\<lparr>conn_possibly_bluff := bluff\<rparr>))
      else if \<not> u_no_layer opts \<and> level (own g) \<ge> level_finesses \<and> stack_of s d + 1 = rank d \<and>
        \<not> (ca_giver a = our_player s \<and> (if bluff then bluff_duplicated g d else layer_duplicated g i))
      then Some ((mk_conn Finesse reacting ord [raw d])\<lparr>conn_hidden := \<not> bluff, conn_bluff := bluff, conn_possibly_bluff := bluff\<rparr>)
      else None)"

definition pink_retry :: "game \<Rightarrow> nat option \<Rightarrow> bool" where
  "pink_retry g finesse \<longleftrightarrow>
     (case finesse of
        None \<Rightarrow> True
      | Some ord \<Rightarrow> level (own g) < level_bluffs \<or>
          \<not> list_ex (is_playable (g_state g)) (iset_array (possible (card_at (common g) ord)))) \<and>
     includes_variant (g_state g) pinkish"

definition find_unknown_connecting :: "game \<Rightarrow> clue_action \<Rightarrow> nat \<Rightarrow> basic_card \<Rightarrow> nat list \<Rightarrow> nat list \<Rightarrow> unknown_options \<Rightarrow>
    connection option" where
  "find_unknown_connecting g a reacting i used ignored opts =
     (let s = g_state g; com = common g in
      if u_bluffed opts then
        let os = find_clued com s reacting i used ignored in
        map_option (\<lambda>ord. (mk_conn Playable reacting ord [i])\<lparr>conn_linked := Some os\<rparr>)
          (List.find (\<lambda>ord. actual_matches None (deck_at s ord) i) os)
      else
        let prompt = h_prompt com s reacting i used ignored False; finesse = h_finesse com s reacting used ignored in
        case try_prompt g a reacting i prompt of
          Some conn \<Rightarrow> conn
        | None \<Rightarrow>
            let pink = (if pink_retry g finesse then h_prompt com s reacting i used ignored True else None) in
            (case (if pink = prompt then None else try_prompt g a reacting i pink) of
               Some conn \<Rightarrow> conn
             | None \<Rightarrow> Option.bind finesse (try_finesse g a reacting i used opts)))"

section \<open>Layers\<close>

definition with_stacks :: "int list \<Rightarrow> game \<Rightarrow> game" where
  "with_stacks st g = g\<lparr>g_state := (g_state g)\<lparr>play_stacks := st\<rparr>\<rparr>"

definition bump_stack :: "'a basic_card_scheme \<Rightarrow> int list \<Rightarrow> int list" where
  "bump_stack d st = (let k = nat (suit_index d) in st[k := st ! k + 1])"

text \<open>The hidden connections of a player, and the one that ends them.\<close>

fun find_layers :: "nat \<Rightarrow> game \<Rightarrow> clue_action \<Rightarrow> nat \<Rightarrow> basic_card \<Rightarrow> nat list \<Rightarrow> nat list \<Rightarrow> unknown_options \<Rightarrow> connection option \<Rightarrow>
    (connection list \<times> connection option) result" where
  "find_layers fuel g a reacting i used ignored opts conn =
     (case conn of
        Some c \<Rightarrow>
          if conn_hidden c then
            (case fuel of
               0 \<Rightarrow> Inl OutOfFuel
             | Suc fuel' \<Rightarrow>
                 let g' = with_stacks (bump_stack (deck_at (g_state g) (conn_order c)) (play_stacks (g_state g))) g; used' = used @ [conn_order c] in
                 bindR (find_layers fuel' g' a reacting i used' ignored opts (find_unknown_connecting g' a reacting i used' ignored opts))
                   (\<lambda>(cs, l). Inr (c # cs, l)))
          else Inr ([], Some c)
      | None \<Rightarrow> Inr ([], None))"

declare find_layers.simps [simp del]

text \<open>What the search in one player's hand gives: a wrong prompt, connections, or nothing.\<close>

datatype layered = No_Layers | Wrong_Prompt connection | Layers "connection list"

definition is_terminate :: "connection option \<Rightarrow> bool" where
  "is_terminate conn \<longleftrightarrow> (case conn of Some c \<Rightarrow> conn_type c = Terminate | None \<Rightarrow> False)"

definition connect_in_hand :: "game \<Rightarrow> clue_action \<Rightarrow> basic_card \<Rightarrow> nat list \<Rightarrow> nat list \<Rightarrow> connect_options \<Rightarrow> bool \<Rightarrow> nat \<Rightarrow> layered result" where
  "connect_in_hand g a i used ignored opts no_layer pl =
     (let s = g_state g;
          uopts = \<lparr>u_assume_truth = assume_truth opts, u_no_layer = no_layer, u_bluffed = bluffed_only opts\<rparr>;
          first = find_unknown_connecting g a pl i used ignored uopts in
      if is_terminate first then Inr (Wrong_Prompt (the first))
      else if immediate_only opts \<and>
        (list_ex (\<lambda>ord. blind_playing (card_at (common g) ord)) (hands s ! pl) \<or> (case first of Some c \<Rightarrow> conn_hidden c | None \<Rightarrow> False))
      then Inr No_Layers
      else
        bindR (find_layers (length (hands s ! pl)) g a pl i used ignored uopts first) (\<lambda>(cs, l).
          Inr (case l of
              None \<Rightarrow> No_Layers
            | Some c \<Rightarrow> if conn_type c = Terminate then Wrong_Prompt c else Layers (cs @ [c]))))"

section \<open>Connecting\<close>

text \<open>A copy that is clued in another hand must be the prompt there, behind prompts that are playable one after the other.\<close>

fun prompt_reaches :: "nat \<Rightarrow> game \<Rightarrow> nat \<Rightarrow> basic_card \<Rightarrow> nat list \<Rightarrow> nat \<Rightarrow> int list \<Rightarrow> nat list \<Rightarrow> bool result" where
  "prompt_reaches fuel g pl i ignored hit st used =
     (case h_prompt (common g) (g_state g) pl i used ignored True of
        None \<Rightarrow> Inr False
      | Some ord \<Rightarrow>
          if ord = hit then Inr True
          else
            let d = deck_at (g_state g) ord in
            if suit_index d = -1 \<or> st ! nat (suit_index d) + 1 \<noteq> rank d then Inr False
            else
              (case fuel of
                 0 \<Rightarrow> Inl OutOfFuel
               | Suc fuel' \<Rightarrow> prompt_reaches fuel' g pl i ignored hit (bump_stack d st) (used @ [ord])))"

declare prompt_reaches.simps [simp del]

definition clued_copy :: "game \<Rightarrow> basic_card \<Rightarrow> nat list \<Rightarrow> nat list \<Rightarrow> nat \<Rightarrow> nat option" where
  "clued_copy g i used ignored pl =
     List.find (\<lambda>ord. let d = deck_at (g_state g) ord in
         actual_matches None d i \<and> clued d \<and> \<not> newly_clued d \<and> ord \<notin> set used \<and> ord \<notin> set ignored)
       (hands (g_state g) ! pl)"

definition non_prompt_copy :: "game \<Rightarrow> nat \<Rightarrow> basic_card \<Rightarrow> nat list \<Rightarrow> nat list \<Rightarrow> bool result" where
  "non_prompt_copy g giver i used ignored =
     (let s = g_state g in
      foldR (\<lambda>found pl.
          if found \<or> pl = giver then Inr found
          else
            case clued_copy g i used ignored pl of
              None \<Rightarrow> Inr False
            | Some hit \<Rightarrow> bindR (prompt_reaches (length (hands s ! pl)) g pl i ignored hit (play_stacks s) used) (\<lambda>b. Inr (\<not> b)))
        False [0..<length (hands s)])"

text \<open>We wait for the player to prove a finesse to us.\<close>

definition must_prove :: "game \<Rightarrow> nat \<Rightarrow> nat \<Rightarrow> bool" where
  "must_prove g giver pl \<longleftrightarrow>
     (let us = our_player (g_state g) in
      giver = us \<and>
      list_ex (\<lambda>wc. wc_target wc = us \<and>
          list_ex (\<lambda>c. conn_type c = Finesse \<and> conn_reacting c = pl \<and> uncertain (card_at (common g) (conn_order c))) (rest_conns wc))
        (waiting_connections (common g)))"

definition skips_player :: "game \<Rightarrow> clue_action \<Rightarrow> bool \<Rightarrow> nat list \<Rightarrow> connect_options \<Rightarrow> nat \<Rightarrow> bool" where
  "skips_player g a direct stall opts pl \<longleftrightarrow>
     (let us = our_player (g_state g) in
      pl = ca_giver a \<or> pl \<in> set (known_only opts) \<or>
      ((ca_giver a = us \<or> ca_target a = us) \<and> pl = ca_target a \<and> direct) \<or>
      pl \<in> set stall \<or> must_prove g (ca_giver a) pl)"

text \<open>The loop over the players: the wrong prompts, and the connections with which it ends.\<close>

record connect_search =
  cl_wrong :: "connection list"
  cl_found :: "connection list option"

definition connect_step :: "game \<Rightarrow> clue_action \<Rightarrow> basic_card \<Rightarrow> bool \<Rightarrow> nat list \<Rightarrow> nat list \<Rightarrow> nat list \<Rightarrow> connect_options \<Rightarrow> connect_search \<Rightarrow>
    nat \<times> nat \<Rightarrow> connect_search result" where
  "connect_step g a i direct stall used ignored opts l p =
     (let pl = snd p; us = our_player (g_state g) in
      if cl_found l \<noteq> None \<or> skips_player g a direct stall opts pl then Inr l
      else
        bindR (connect_in_hand g a i used ignored opts (player_order opts \<noteq> None \<or> fst p = 0) pl) (\<lambda>r.
          Inr (case r of
              No_Layers \<Rightarrow> l
            | Wrong_Prompt c \<Rightarrow> l\<lparr>cl_wrong := cl_wrong l @ [c]\<rparr>
            | Layers cs \<Rightarrow> l\<lparr>cl_found := Some (if pl = ca_target a \<and> direct \<and> pl = us then [] else cs)\<rparr>)))"

definition conn_player_order :: "game_state \<Rightarrow> clue_action \<Rightarrow> connect_options \<Rightarrow> nat list" where
  "conn_player_order s a opts =
     (let n = num_players s; target = ca_target a in
      case player_order opts of
        Some pls \<Rightarrow> pls
      | None \<Rightarrow> [target] @ filter (\<lambda>pl. pl \<noteq> target) (map (\<lambda>k. (n + ca_giver a - k - 1) mod n) [0..<n]) @ [target])"

text \<open>Our own playables, with whether one of them may be layered. An uncertain card has the identities of its finesse.\<close>

definition h_own_playable :: "game \<Rightarrow> basic_card \<Rightarrow> nat list \<Rightarrow> nat list \<Rightarrow> nat list \<times> bool \<Rightarrow> nat \<Rightarrow> (nat list \<times> bool) result" where
  "h_own_playable g i used ignored acc ord =
     (let s = g_state g; c = card_at (me g) ord in
      if ord \<in> set ignored \<or> ord \<in> set used \<or> \<not> matches (no_opts\<lparr>o_assume := Some True\<rparr>) c i \<or>
         (\<not> (list_all (is_playable s) (iset_array (inferred c)) \<and> clued c) \<and> \<not> blind_playing c) then Inr acc
      else if iset_has (inferred c) i then Inr (fst acc @ [ord], snd acc)
      else if uncertain c \<and> iset_has (possible c) i then
        bindR (need (finesse_ids c)) (\<lambda>ids. Inr (if iset_has ids i then (fst acc @ [ord], True) else acc))
      else Inr acc)"

definition unsafe_link :: "game \<Rightarrow> nat \<Rightarrow> bool" where
  "unsafe_link g ord \<longleftrightarrow>
     (let s = g_state g in
      ord \<in> set (linked_orders (me g) s) \<and>
      list_ex (\<lambda>j. stack_of s j + 1 < rank j \<and> rank j \<le> max_rank_of s j) (iset_array (possible (card_at (common g) ord))))"

text \<open>A 1 that would be played first is preferred, unless it has the order 0.\<close>

definition own_choice :: "game \<Rightarrow> basic_card \<Rightarrow> nat list \<Rightarrow> nat" where
  "own_choice g i os =
     (case (if rank i = 1 then order_1s (g_state g) (common g) os False else []) of Suc n # _ \<Rightarrow> Suc n | _ \<Rightarrow> last os)"

definition connect_own :: "game \<Rightarrow> basic_card \<Rightarrow> nat list \<Rightarrow> nat list \<Rightarrow> connection list option result" where
  "connect_own g i used ignored =
     (let us = our_player (g_state g) in
      bindR (foldR (h_own_playable g i used ignored) ([], False) (our_hand (g_state g))) (\<lambda>(os, layered).
        Inr (if os = [] then None
          else if unsafe_link g (Max (set os)) then Some [mk_conn Prompt us (Max (set os)) [i]]
          else Some [(mk_conn Playable us (own_choice g i os) [i])\<lparr>conn_linked := Some os, conn_layered := layered\<rparr>])))"

definition may_use_own :: "game \<Rightarrow> nat \<Rightarrow> connect_options \<Rightarrow> bool" where
  "may_use_own g giver opts \<longleftrightarrow>
     (let us = our_player (g_state g) in
      giver \<noteq> us \<and> us \<notin> set (known_only opts) \<and> (case player_order opts of None \<Rightarrow> True | Some pls \<Rightarrow> us \<in> set pls))"

definition connect_unknown :: "game \<Rightarrow> clue_action \<Rightarrow> basic_card \<Rightarrow> bool \<Rightarrow> nat list \<Rightarrow> nat list \<Rightarrow> nat list \<Rightarrow> connect_options \<Rightarrow>
    connection list result" where
  "connect_unknown g a i direct stall used ignored opts =
     (let pls = conn_player_order (g_state g) a opts in
      bindR (foldR (connect_step g a i direct stall used ignored opts) \<lparr>cl_wrong = [], cl_found = None\<rparr> (zip [0..<length pls] pls)) (\<lambda>l.
        case cl_found l of
          Some cs \<Rightarrow> Inr cs
        | None \<Rightarrow>
            bindR (if may_use_own g (ca_giver a) opts then connect_own g i used ignored else Inr None) (\<lambda>r.
              Inr (case r of Some cs \<Rightarrow> cs | None \<Rightarrow> cl_wrong l))))"

definition h_find_connecting :: "game \<Rightarrow> clue_action \<Rightarrow> basic_card \<Rightarrow> bool \<Rightarrow> nat list \<Rightarrow> nat list \<Rightarrow> nat list \<Rightarrow> connect_options \<Rightarrow>
    connection list result" where
  "h_find_connecting g a i direct stall used ignored opts =
     (if discards_of (g_state g) i = total_count (g_state g) i then Inr []
      else
        case find_known_connecting g (ca_giver a) i (used @ ignored) opts of
          Found conn \<Rightarrow> Inr [conn]
        | Stop_Looking \<Rightarrow> Inr []
        | Nothing_Found \<Rightarrow>
            bindR (non_prompt_copy g (ca_giver a) i used ignored) (\<lambda>elsewhere.
              if \<not> bluffed_only opts \<and> elsewhere then Inr [] else connect_unknown g a i direct stall used ignored opts))"

end
