(* ===== verification/H_Connecting_Sound.thy ===== *)
theory H_Connecting_Sound
  imports H_Connecting
begin

text \<open>
  What a search for connections gives: it ends, and every connection is a card of the hand of its player, which has not
  been used or ignored. The fuel of the layers and of the prompts is enough, since each takes a card of the hand.
\<close>

section \<open>Fresh cards\<close>

definition hand_filed :: "game_state \<Rightarrow> nat \<Rightarrow> bool" where
  "hand_filed s pl \<longleftrightarrow> (\<forall>ord \<in> set (hands s ! pl). order (deck_at s ord) = ord)"

definition fresh_conn :: "game_state \<Rightarrow> nat list \<Rightarrow> nat list \<Rightarrow> connection \<Rightarrow> bool" where
  "fresh_conn s used ignored c \<longleftrightarrow>
     conn_order c \<in> set (hands s ! conn_reacting c) \<and> conn_order c \<notin> set used \<and> conn_order c \<notin> set ignored"

lemma mk_conn_fields [simp]:
  "conn_type (mk_conn t pl ord ids) = t" "conn_reacting (mk_conn t pl ord ids) = pl" "conn_order (mk_conn t pl ord ids) = ord"
  "conn_identities (mk_conn t pl ord ids) = ids" "conn_hidden (mk_conn t pl ord ids) = False"
  by (simp_all add: mk_conn_def)

lemma with_stacks_simps [simp]:
  "common (with_stacks st g) = common g" "g_players (with_stacks st g) = g_players g" "hands (g_state (with_stacks st g)) = hands (g_state g)"
  "deck_at (g_state (with_stacks st g)) = deck_at (g_state g)" "play_stacks (g_state (with_stacks st g)) = st"
  by (simp_all add: with_stacks_def deck_at_def fun_eq_iff)

lemma hand_filed_stacks [simp]: "hand_filed (g_state (with_stacks st g)) pl = hand_filed (g_state g) pl"
  by (simp add: hand_filed_def)

lemma fresh_stacks [simp]: "fresh_conn (g_state (with_stacks st g)) used ignored c = fresh_conn (g_state g) used ignored c"
  by (simp add: fresh_conn_def)

lemma h_prompt_fresh:
  "h_prompt p s pl i used ignored b = Some ord \<Longrightarrow> hand_filed s pl \<Longrightarrow> ord \<in> set (hands s ! pl) \<and> ord \<notin> set used \<and> ord \<notin> set ignored"
  by (auto simp: h_prompt_def may_prompt_def hand_filed_def Let_def dest!: unless_ignored_SomeD find_SomeD)

lemma h_finesse_fresh:
  "h_finesse p s pl used ignored = Some ord \<Longrightarrow> ord \<in> set (hands s ! pl) \<and> ord \<notin> set used \<and> ord \<notin> set ignored"
  by (auto simp: h_finesse_def dest!: unless_ignored_SomeD find_SomeD)

lemma try_prompt_order: "try_prompt g a pl i prompt = Some (Some c) \<Longrightarrow> conn_reacting c = pl \<and> prompt = Some (conn_order c)"
  by (auto simp: try_prompt_def Let_def split: option.splits if_splits)

lemma try_finesse_order: "try_finesse g a pl i used opts ord = Some c \<Longrightarrow> conn_reacting c = pl \<and> conn_order c = ord"
  by (auto simp: try_finesse_def Let_def split: if_splits)

lemma find_unknown_fresh:
  assumes "find_unknown_connecting g a pl i used ignored opts = Some c" "hand_filed (g_state g) pl"
  shows "conn_reacting c = pl \<and> fresh_conn (g_state g) used ignored c"
proof (cases "u_bluffed opts")
  case True
  with assms show ?thesis
    by (auto simp: find_unknown_connecting_def find_clued_def may_prompt_def fresh_conn_def hand_filed_def Let_def dest!: find_SomeD)
next
  case False
  let ?P = "\<lambda>b. h_prompt (common g) (g_state g) pl i used ignored b" and ?F = "h_finesse (common g) (g_state g) pl used ignored"
  let ?pink = "if pink_retry g ?F then ?P True else None"
  consider "try_prompt g a pl i (?P False) = Some (Some c)" | "try_prompt g a pl i ?pink = Some (Some c)"
    | f where "?F = Some f" "try_finesse g a pl i used opts f = Some c"
    using assms(1) False by (auto simp: find_unknown_connecting_def Let_def bind_eq_Some_conv split: option.splits if_splits)
  then show ?thesis
  proof cases
    case 1
    then have p: "?P False = Some (conn_order c)" "conn_reacting c = pl" using try_prompt_order [OF 1] by auto
    from h_prompt_fresh [OF p(1) assms(2)] p(2) show ?thesis by (simp add: fresh_conn_def)
  next
    case 2
    then have p: "?P True = Some (conn_order c)" "conn_reacting c = pl" using try_prompt_order [OF 2] by (auto split: if_splits)
    from h_prompt_fresh [OF p(1) assms(2)] p(2) show ?thesis by (simp add: fresh_conn_def)
  next
    case 3
    from try_finesse_order [OF 3(2)] h_finesse_fresh [OF 3(1)] show ?thesis by (simp add: fresh_conn_def)
  qed
qed

section \<open>Layers\<close>

definition unused :: "game_state \<Rightarrow> nat \<Rightarrow> nat list \<Rightarrow> nat set" where
  "unused s pl used = set (hands s ! pl) - set used"

lemma unused_less: "ord \<in> set (hands s ! pl) \<Longrightarrow> ord \<notin> set used \<Longrightarrow> card (unused s pl (used @ [ord])) < card (unused s pl used)"
  by (rule psubset_card_mono) (auto simp: unused_def)

lemma unused_hand: "card (unused s pl used) \<le> length (hands s ! pl)"
  unfolding unused_def by (rule le_trans [OF card_mono card_length]) auto

text \<open>Enough fuel, and what the layers give: hidden cards of the hand, each used once, and the connection that ends them.\<close>

definition from_hand :: "game_state \<Rightarrow> nat \<Rightarrow> nat list \<Rightarrow> nat list \<Rightarrow> connection \<Rightarrow> bool" where
  "from_hand s pl used ignored c \<longleftrightarrow> conn_reacting c = pl \<and> fresh_conn s used ignored c"

definition layers_ok :: "game_state \<Rightarrow> nat \<Rightarrow> nat list \<Rightarrow> nat list \<Rightarrow> connection list \<times> connection option \<Rightarrow> bool" where
  "layers_ok s pl used ignored r \<longleftrightarrow>
     (\<forall>c \<in> set (fst r). conn_hidden c \<and> from_hand s pl used ignored c) \<and> distinct (map conn_order (fst r)) \<and>
     (\<forall>c. snd r = Some c \<longrightarrow> \<not> conn_hidden c \<and> from_hand s pl (used @ map conn_order (fst r)) ignored c)"

lemma layers_ok_stacks [simp]: "layers_ok (g_state (with_stacks st g)) pl used ignored r = layers_ok (g_state g) pl used ignored r"
  by (simp add: layers_ok_def from_hand_def)

lemma layers_ok_Cons:
  assumes "conn_hidden c" "from_hand s pl used ignored c" "layers_ok s pl (used @ [conn_order c]) ignored (cs, l)"
  shows "layers_ok s pl used ignored (c # cs, l)"
proof -
  have "from_hand s pl used ignored d \<and> conn_order d \<noteq> conn_order c" if "from_hand s pl (used @ [conn_order c]) ignored d" for d
    using that by (auto simp: from_hand_def fresh_conn_def)
  then have "\<forall>d \<in> set cs. from_hand s pl used ignored d \<and> conn_order d \<noteq> conn_order c" using assms(3) by (simp add: layers_ok_def)
  then have "conn_order c \<notin> conn_order ` set cs" "\<forall>d \<in> set cs. from_hand s pl used ignored d" by fastforce+
  with assms show ?thesis by (simp add: layers_ok_def)
qed

lemma layers_enough:
  assumes "\<And>c. conn = Some c \<Longrightarrow> from_hand (g_state g) pl used ignored c"
    and "hand_filed (g_state g) pl" "card (unused (g_state g) pl used) \<le> fuel"
  shows "\<exists>r. find_layers fuel g a pl i used ignored opts conn = Inr r \<and> layers_ok (g_state g) pl used ignored r"
  using assms
proof (induction fuel arbitrary: g used conn)
  case (0 g used conn)
  then have "unused (g_state g) pl used = {}" by (simp add: unused_def)
  with 0(1) have "conn = None" by (cases conn) (auto simp: unused_def fresh_conn_def from_hand_def)
  then show ?case by (simp add: find_layers.simps layers_ok_def)
next
  case (Suc fuel g used conn)
  show ?case
  proof (cases "\<exists>c. conn = Some c \<and> conn_hidden c")
    case False
    with Suc.prems(1) show ?thesis by (cases conn) (auto simp: find_layers.simps layers_ok_def)
  next
    case True
    then obtain c where c: "conn = Some c" "conn_hidden c" by blast
    have f: "from_hand (g_state g) pl used ignored c" using Suc.prems(1) [OF c(1)] .
    define g' where "g' = with_stacks (bump_stack (deck_at (g_state g) (conn_order c)) (play_stacks (g_state g))) g"
    define used' where "used' = used @ [conn_order c]"
    let ?next = "find_unknown_connecting g' a pl i used' ignored opts"
    have filed: "hand_filed (g_state g') pl" using Suc.prems(2) by (simp add: g'_def)
    have enough: "card (unused (g_state g') pl used') \<le> fuel"
      using Suc.prems(3) f unused_less [of "conn_order c" "g_state g" pl used]
      by (auto simp: g'_def used'_def fresh_conn_def from_hand_def unused_def)
    have found: "from_hand (g_state g') pl used' ignored d" if "?next = Some d" for d
      unfolding from_hand_def using find_unknown_fresh [OF that filed] .
    have "\<exists>r. find_layers fuel g' a pl i used' ignored opts ?next = Inr r \<and> layers_ok (g_state g') pl used' ignored r"
      by (rule Suc.IH [OF _ filed enough]) (rule found)
    then obtain r where
      "find_layers fuel g' a pl i used' ignored opts ?next = Inr r" "layers_ok (g_state g') pl used' ignored r" by (elim exE conjE)
    then obtain cs l where
      IH: "find_layers fuel g' a pl i used' ignored opts ?next = Inr (cs, l)" "layers_ok (g_state g') pl used' ignored (cs, l)"
      by (cases r) simp
    have "find_layers (Suc fuel) g a pl i used ignored opts conn = Inr (c # cs, l)"
      unfolding c(1) by (subst find_layers.simps) (simp add: c(2) Let_def IH(1) [unfolded g'_def used'_def])
    moreover have "layers_ok (g_state g) pl used ignored (c # cs, l)"
      using layers_ok_Cons [OF c(2) f] IH(2) by (simp add: g'_def used'_def)
    ultimately show ?thesis by blast
  qed
qed

definition layered_fresh :: "game_state \<Rightarrow> nat \<Rightarrow> nat list \<Rightarrow> nat list \<Rightarrow> layered \<Rightarrow> bool" where
  "layered_fresh s pl used ignored r \<longleftrightarrow>
     (case r of
        No_Layers \<Rightarrow> True
      | Wrong_Prompt c \<Rightarrow> conn_type c = Terminate \<and> fresh_conn s used ignored c
      | Layers cs \<Rightarrow> cs \<noteq> [] \<and> distinct (map conn_order cs) \<and> \<not> conn_hidden (last cs) \<and>
          (\<forall>c \<in> set cs. from_hand s pl used ignored c))"

lemma connect_in_hand_fresh:
  assumes "hand_filed (g_state g) pl"
  shows "\<exists>r. connect_in_hand g a i used ignored opts b pl = Inr r \<and> layered_fresh (g_state g) pl used ignored r"
proof -
  let ?o = "\<lparr>u_assume_truth = assume_truth opts, u_no_layer = b, u_bluffed = bluffed_only opts\<rparr>"
  let ?first = "find_unknown_connecting g a pl i used ignored ?o"
  have first: "from_hand (g_state g) pl used ignored c" if "?first = Some c" for c
    unfolding from_hand_def using find_unknown_fresh [OF that assms] .
  have "\<exists>r. find_layers (length (hands (g_state g) ! pl)) g a pl i used ignored ?o ?first = Inr r \<and> layers_ok (g_state g) pl used ignored r"
    by (rule layers_enough [OF _ assms unused_hand]) (rule first)
  then obtain r where
    "find_layers (length (hands (g_state g) ! pl)) g a pl i used ignored ?o ?first = Inr r" "layers_ok (g_state g) pl used ignored r"
    by (elim exE conjE)
  then obtain cs l where
    layers: "find_layers (length (hands (g_state g) ! pl)) g a pl i used ignored ?o ?first = Inr (cs, l)"
    "layers_ok (g_state g) pl used ignored (cs, l)" by (cases r) simp
  show ?thesis
  proof (cases "is_terminate ?first")
    case True
    then show ?thesis using first
      by (auto simp: connect_in_hand_def layered_fresh_def from_hand_def Let_def is_terminate_def split: option.splits)
  next
    case False
    have "layered_fresh (g_state g) pl used ignored (case l of None \<Rightarrow> No_Layers
        | Some c \<Rightarrow> if conn_type c = Terminate then Wrong_Prompt c else Layers (cs @ [c]))"
      using layers(2) by (cases l) (auto simp: layered_fresh_def layers_ok_def from_hand_def fresh_conn_def)
    then show ?thesis using False layers(1) by (simp add: connect_in_hand_def Let_def layered_fresh_def split: if_splits)
  qed
qed

section \<open>The search ends\<close>

lemma prompt_reaches_total:
  "hand_filed (g_state g) pl \<Longrightarrow> card (unused (g_state g) pl used) \<le> fuel \<Longrightarrow> \<exists>b. prompt_reaches fuel g pl i ignored hit st used = Inr b"
proof (induction fuel arbitrary: st used)
  case (0 st used)
  then have "unused (g_state g) pl used = {}" by (simp add: unused_def)
  with 0(1) have "h_prompt (common g) (g_state g) pl i used ignored True = None"
    by (cases "h_prompt (common g) (g_state g) pl i used ignored True") (auto simp: unused_def dest: h_prompt_fresh)
  then show ?case by (intro exI [of _ False]) (subst prompt_reaches.simps, simp)
next
  case (Suc fuel st used)
  show ?case
  proof (cases "h_prompt (common g) (g_state g) pl i used ignored True")
    case None
    then show ?thesis by (intro exI [of _ False]) (subst prompt_reaches.simps, simp)
  next
    case (Some ord)
    from h_prompt_fresh [OF Some Suc.prems(1)] Suc.prems(2) unused_less [of ord "g_state g" pl used]
    have "card (unused (g_state g) pl (used @ [ord])) \<le> fuel" by simp
    from Suc.IH [OF Suc.prems(1) this] Some show ?thesis by (subst prompt_reaches.simps) (auto simp: Let_def)
  qed
qed

lemma non_prompt_copy_total:
  assumes "\<And>pl. pl < length (hands (g_state g)) \<Longrightarrow> hand_filed (g_state g) pl"
  shows "\<exists>b. non_prompt_copy g giver i used ignored = Inr b"
proof -
  have "\<exists>t. non_prompt_copy g giver i used ignored = Inr t \<and> True"
    unfolding non_prompt_copy_def Let_def
  proof (rule foldR_total [of "\<lambda>_. True"])
    fix b pl assume "pl \<in> set [0..<length (hands (g_state g))]"
    then have "hand_filed (g_state g) pl" using assms by simp
    from prompt_reaches_total [OF this unused_hand]
    show "\<exists>s'. (if b \<or> pl = giver then Inr b
        else case clued_copy g i used ignored pl of None \<Rightarrow> Inr False
          | Some hit \<Rightarrow> bindR (prompt_reaches (length (hands (g_state g) ! pl)) g pl i ignored hit (play_stacks (g_state g)) used)
              (\<lambda>b. Inr (\<not> b))) = Inr s' \<and> True"
      by (cases "clued_copy g i used ignored pl") (auto simp: bindR_Inr_iff)
  qed simp
  then show ?thesis by blast
qed

section \<open>What it finds\<close>

lemma first_some_SomeD: "first_some f xs = Some y \<Longrightarrow> \<exists>x \<in> set xs. f x = Some y"
proof (induction xs)
  case (Cons x xs)
  then show ?case by (cases "f x") (auto simp: first_some_def)
qed (simp add: first_some_def)

lemma known_in_hand_fresh:
  "known_in_hand g giver i ignored pl = Some c \<Longrightarrow> fresh_conn (g_state g) [] ignored c"
  by (auto simp: known_in_hand_def linked_in_hand_def globally_known_def fresh_conn_def Let_def
      dest!: find_SomeD split: option.splits nat.splits if_splits)

lemma playable_in_hand_fresh:
  "playable_in_hand g giver i ignored pl = Some (Found c) \<Longrightarrow> fresh_conn (g_state g) [] ignored c"
  by (auto simp: playable_in_hand_def will_play_def fresh_conn_def Let_def dest!: find_SomeD split: if_splits)

lemma find_known_fresh:
  "find_known_connecting g giver i ignored opts = Found c \<Longrightarrow> fresh_conn (g_state g) [] ignored c"
  by (auto simp: find_known_connecting_def giver_knows_def Let_def fresh_conn_def [of _ _ _ "mk_conn _ _ _ _"] dest!: find_SomeD
      dest: known_in_hand_fresh playable_in_hand_fresh first_some_SomeD split: option.splits if_splits)

lemma h_own_playable_total:
  assumes "finesse_ids (card_at (me g) ord) \<noteq> None"
  shows "\<exists>r. h_own_playable g i used ignored acc ord = Inr r"
  using assms by (auto simp: h_own_playable_def Let_def)

lemma h_own_playable_fresh:
  assumes "h_own_playable g i used ignored acc ord = Inr r" "ord \<in> set hand"
    "set (fst acc) \<subseteq> {o2 \<in> set hand. o2 \<notin> set used \<and> o2 \<notin> set ignored}"
  shows "set (fst r) \<subseteq> {o2 \<in> set hand. o2 \<notin> set used \<and> o2 \<notin> set ignored}"
  using assms by (auto simp: h_own_playable_def Let_def bindR_Inr_iff split: if_splits)

lemma own_choice_in: "os \<noteq> [] \<Longrightarrow> own_choice g i os \<in> set os"
proof -
  have "set (order_1s (g_state g) (common g) os False) \<subseteq> set os" by (auto simp: order_1s_def)
  then show "os \<noteq> [] \<Longrightarrow> own_choice g i os \<in> set os"
    by (auto simp: own_choice_def split: list.splits nat.splits if_splits)
qed

lemma connect_own_fresh:
  assumes "connect_own g i used ignored = Inr (Some cs)" "c \<in> set cs"
  shows "fresh_conn (g_state g) used ignored c"
proof -
  let ?hand = "our_hand (g_state g)"
  from assms(1) obtain r where r: "foldR (h_own_playable g i used ignored) ([], False) ?hand = Inr r"
    and cs: "(if fst r = [] then None
          else if unsafe_link g (Max (set (fst r))) then Some [mk_conn Prompt (our_player (g_state g)) (Max (set (fst r))) [i]]
          else Some [(mk_conn Playable (our_player (g_state g)) (own_choice g i (fst r)) [i])\<lparr>conn_linked := Some (fst r), conn_layered := snd r\<rparr>])
        = Some cs"
    by (auto simp: connect_own_def Let_def bindR_Inr_iff split_beta)
  have sub: "set (fst r) \<subseteq> {o2 \<in> set ?hand. o2 \<notin> set used \<and> o2 \<notin> set ignored}"
    by (rule foldR_inv [OF r]) (auto dest!: h_own_playable_fresh)
  have "fst r \<noteq> [] \<Longrightarrow> Max (set (fst r)) \<in> set (fst r)" by simp
  with sub own_choice_in [of "fst r" g i] have *: "ord \<in> set ?hand \<and> ord \<notin> set used \<and> ord \<notin> set ignored"
    if "fst r \<noteq> []" "ord = Max (set (fst r)) \<or> ord = own_choice g i (fst r)" for ord
    using that by blast
  show ?thesis
    using cs assms(2) * [of "conn_order c"] by (auto simp: fresh_conn_def our_hand_def [symmetric] split: if_splits)
qed

text \<open>A computation either fails with an error of a kind, or its result has a property.\<close>

definition yields :: "(js_error \<Rightarrow> bool) \<Rightarrow> ('a \<Rightarrow> bool) \<Rightarrow> 'a result \<Rightarrow> bool" where
  "yields E P m \<longleftrightarrow> (case m of Inl e \<Rightarrow> E e | Inr x \<Rightarrow> P x)"

lemma yields_simps [simp]: "yields E P (Inl e) = E e" "yields E P (Inr x) = P x"
  by (simp_all add: yields_def)

lemma yields_bind: "yields E Q m \<Longrightarrow> (\<And>x. m = Inr x \<Longrightarrow> Q x \<Longrightarrow> yields E P (f x)) \<Longrightarrow> yields E P (bindR m f)"
  by (cases m) simp_all

lemma yields_foldR:
  "P s \<Longrightarrow> (\<And>s x. x \<in> set xs \<Longrightarrow> P s \<Longrightarrow> yields E P (f s x)) \<Longrightarrow> yields E P (foldR f s xs)"
proof (induction xs arbitrary: s)
  case (Cons x xs)
  have "yields E P (f s x)" using Cons.prems by simp
  then show ?case by (cases "f s x") (use Cons in auto)
qed simp

definition fresh_search :: "game_state \<Rightarrow> nat list \<Rightarrow> nat list \<Rightarrow> connect_search \<Rightarrow> bool" where
  "fresh_search s used ignored l \<longleftrightarrow>
     (\<forall>c \<in> set (cl_wrong l). fresh_conn s used ignored c) \<and>
     (\<forall>cs. cl_found l = Some cs \<longrightarrow> (\<forall>c \<in> set cs. fresh_conn s used ignored c))"

lemma connect_step_fresh:
  assumes "fresh_search (g_state g) used ignored l" "hand_filed (g_state g) (snd p)"
  shows "yields E (fresh_search (g_state g) used ignored) (connect_step g a i direct stall used ignored opts l p)"
proof (cases "cl_found l \<noteq> None \<or> skips_player g a direct stall opts (snd p)")
  case True
  then show ?thesis using assms(1) by (simp add: connect_step_def Let_def)
next
  case False
  obtain r where "connect_in_hand g a i used ignored opts (player_order opts \<noteq> None \<or> fst p = 0) (snd p) = Inr r"
    "layered_fresh (g_state g) (snd p) used ignored r" using connect_in_hand_fresh [OF assms(2)] by blast
  then show ?thesis using assms(1) False
    by (auto simp: connect_step_def Let_def fresh_search_def layered_fresh_def from_hand_def split: layered.splits)
qed

lemma connect_own_yields:
  "yields (\<lambda>e. e = TypeError) (\<lambda>r. \<forall>cs. r = Some cs \<longrightarrow> (\<forall>c \<in> set cs. fresh_conn (g_state g) used ignored c))
    (connect_own g i used ignored)"
proof -
  have "yields (\<lambda>e. e = TypeError) (\<lambda>_. True) (foldR (h_own_playable g i used ignored) ([], False) (our_hand (g_state g)))"
    by (rule yields_foldR) (auto simp: h_own_playable_def Let_def need_def split: option.splits)
  then have "yields (\<lambda>e. e = TypeError) (\<lambda>_. True) (connect_own g i used ignored)"
    unfolding connect_own_def Let_def by (rule yields_bind) (simp add: split_beta)
  then show ?thesis using connect_own_fresh [of g i used ignored] by (auto simp: yields_def split: sum.splits)
qed

text \<open>The search for connections.\<close>

lemma h_find_connecting_yields:
  assumes "\<And>pl. pl < length (hands (g_state g)) \<Longrightarrow> hand_filed (g_state g) pl"
    and "\<forall>pl \<in> set (conn_player_order (g_state g) a opts). pl < length (hands (g_state g))"
  shows "yields (\<lambda>e. e = TypeError) (\<lambda>cs. \<forall>c \<in> set cs. fresh_conn (g_state g) used ignored c)
    (h_find_connecting g a i direct stall used ignored opts)"
proof -
  let ?s = "g_state g" and ?pls = "conn_player_order (g_state g) a opts" and ?E = "\<lambda>e. e = TypeError"
  have loop: "yields ?E (fresh_search ?s used ignored)
      (foldR (connect_step g a i direct stall used ignored opts) \<lparr>cl_wrong = [], cl_found = None\<rparr> (zip [0..<length ?pls] ?pls))"
    by (rule yields_foldR) (auto simp: fresh_search_def dest!: set_zip_rightD intro!: connect_step_fresh assms(1) assms(2) [rule_format])
  have unknown: "yields ?E (\<lambda>cs. \<forall>c \<in> set cs. fresh_conn ?s used ignored c) (connect_unknown g a i direct stall used ignored opts)"
    unfolding connect_unknown_def Let_def
  proof (rule yields_bind [OF loop])
    fix l assume l: "fresh_search ?s used ignored l"
    have own: "yields ?E (\<lambda>r. \<forall>cs. r = Some cs \<longrightarrow> (\<forall>c \<in> set cs. fresh_conn ?s used ignored c))
        (if may_use_own g (ca_giver a) opts then connect_own g i used ignored else Inr None)"
      using connect_own_yields by simp
    have "yields ?E (\<lambda>cs. \<forall>c \<in> set cs. fresh_conn ?s used ignored c)
        (bindR (if may_use_own g (ca_giver a) opts then connect_own g i used ignored else Inr None)
          (\<lambda>r. Inr (case r of Some cs \<Rightarrow> cs | None \<Rightarrow> cl_wrong l)))"
      by (rule yields_bind [OF own]) (use l in \<open>auto simp: fresh_search_def split: option.splits\<close>)
    then show "yields ?E (\<lambda>cs. \<forall>c \<in> set cs. fresh_conn ?s used ignored c)
        (case cl_found l of None \<Rightarrow> bindR (if may_use_own g (ca_giver a) opts then connect_own g i used ignored else Inr None)
            (\<lambda>r. Inr (case r of Some cs \<Rightarrow> cs | None \<Rightarrow> cl_wrong l)) | Some cs \<Rightarrow> Inr cs)"
      using l by (cases "cl_found l") (auto simp: fresh_search_def)
  qed
  obtain b where "non_prompt_copy g (ca_giver a) i used ignored = Inr b" using non_prompt_copy_total [OF assms(1)] by blast
  then show ?thesis using unknown find_known_fresh [of g "ca_giver a" i "used @ ignored" opts]
    by (auto simp: h_find_connecting_def fresh_conn_def split: found.splits)
qed

lemma conn_player_order_in_range:
  assumes "ca_target a < num_players s" "player_order opts = None" "pl \<in> set (conn_player_order s a opts)"
  shows "pl < num_players s"
proof -
  have "0 < num_players s" using assms(1) by simp
  then have "(num_players s + ca_giver a - k - 1) mod num_players s < num_players s" for k by simp
  then show ?thesis using assms by (auto simp: conn_player_order_def Let_def)
qed

lemma h_find_connecting_fresh:
  assumes "\<forall>ord \<in> set (all_orders (g_state g)). order (deck_at (g_state g) ord) = ord"
    and "length (hands (g_state g)) = num_players (g_state g)" "ca_target a < num_players (g_state g)" "player_order opts = None"
  shows "h_find_connecting g a i direct stall used ignored opts = Inl TypeError \<or>
    (\<exists>cs. h_find_connecting g a i direct stall used ignored opts = Inr cs \<and>
      (\<forall>c \<in> set cs. conn_order c \<in> set (hands (g_state g) ! conn_reacting c) \<and> conn_order c \<notin> set used \<union> set ignored))"
proof -
  have "hand_filed (g_state g) pl" if "pl < length (hands (g_state g))" for pl
    using assms(1) that nth_mem [OF that] by (auto simp: hand_filed_def all_orders_def)
  then have "yields (\<lambda>e. e = TypeError) (\<lambda>cs. \<forall>c \<in> set cs. fresh_conn (g_state g) used ignored c)
      (h_find_connecting g a i direct stall used ignored opts)"
    by (rule h_find_connecting_yields) (use conn_player_order_in_range [OF assms(3,4)] assms(2) in auto)
  then show ?thesis by (auto simp: yields_def fresh_conn_def split: sum.splits)
qed

end
