(* ===== verification/H_Focus.thy ===== *)
theory H_Focus
  imports H_Connecting
begin

text \<open>
  The readings of the focused card of a clue in the h-group: \<open>src/src/conventions/h-group/clue-interpretation/focus-possible.js\<close>, with the
  trash finesses and bluff targets of \<open>connection-helper.js\<close> and \<open>finalize_connections\<close> of \<open>interpret-clue.js\<close>. A reading is an identity with the
  connections that lead to it. The searches stack the connections that they find on the play stacks of the state and
  restore them; here the stacks are part of the state of the loop. Logging is left out.

  The code compares identities of two sets by reference in one place (\<open>find_trash_finesses\<close>): there the argument \<open>shared\<close> says whether the
  inferences and the possibilities of the focus are one object.
\<close>

abbreviation level_intermediate_bluffs :: nat where "level_intermediate_bluffs \<equiv> 13"

section \<open>Readings\<close>

record possibility = basic_card +
  fp_connections :: "connection list"

record focus_possibility = possibility +
  fp_save :: bool
  fp_interp :: h_interp
  fp_illegal :: bool

definition reading :: "'a basic_card_scheme \<Rightarrow> connection list \<Rightarrow> h_interp \<Rightarrow> focus_possibility" where
  "reading i conns m =
     \<lparr>suit_index = suit_index i, rank = rank i, fp_connections = conns, fp_save = False, fp_interp = m, fp_illegal = False\<rparr>"

definition save_reading :: "'a basic_card_scheme \<Rightarrow> focus_possibility" where
  "save_reading i = (reading i [] H_Save)\<lparr>fp_save := True\<rparr>"

section \<open>Bluff targets\<close>

definition is_intermediate_bluff_target :: "game \<Rightarrow> clue_action \<Rightarrow> basic_card \<Rightarrow> nat \<Rightarrow> bool" where
  "is_intermediate_bluff_target g a i focus \<longleftrightarrow>
     (level (own g) \<ge> level_intermediate_bluffs \<and> rank i = 3) \<or>
     (clue_kind (ca_clue a) = ColourClue \<and> rank i = 4 \<and> newly_clued (card_at (common g) focus) \<and> is_critical (g_state g) i)"

definition get_bluffable_ids :: "game \<Rightarrow> clue_action \<Rightarrow> basic_card list \<Rightarrow> nat list \<Rightarrow> nat \<Rightarrow> basic_card list" where
  "get_bluffable_ids g a ids used reacting =
     filter (\<lambda>i. is_playable (g_state g) i \<and>
         valid_bluff g a i (mk_id (suit_index i) (stack_of (g_state g) i)) reacting used False) ids"

section \<open>Trash finesses\<close>

text \<open>The connections that play between the giver and the target, one after the other, by players who are not blind playing.\<close>

fun plays_before :: "game \<Rightarrow> nat \<Rightarrow> nat \<Rightarrow> connection list \<Rightarrow> connection list" where
  "plays_before g prev target [] = []"
| "plays_before g prev target (c # cs) =
     (let s = g_state g in
      if in_between (num_players s) (conn_reacting c) prev target \<and>
         \<not> list_ex (\<lambda>ord. blind_playing (card_at (common g) ord)) (hands s ! conn_reacting c)
      then c # plays_before g (conn_reacting c) target cs else [])"

definition covers :: "connection \<Rightarrow> bool \<Rightarrow> basic_card \<Rightarrow> bool" where
  "covers c bluff i \<longleftrightarrow>
     (if bluff then list_all (\<lambda>j. suit_index j = suit_index i \<and> rank j \<ge> rank i) (conn_identities c)
      else list_all (\<lambda>j. suit_index j \<noteq> suit_index i \<or> rank j \<ge> rank i) (conn_identities c))"

text \<open>What the focus may still be, to be played, when the plays before the target have happened.\<close>

definition playables_remaining :: "game \<Rightarrow> nat \<Rightarrow> connection list \<Rightarrow> connection list \<Rightarrow> basic_card list" where
  "playables_remaining g focus conns first =
     (let s = g_state g; ids = filter (\<lambda>i. \<not> is_basic_trash s i) (iset_array (possible (card_at (common g) focus))) in
      if first = [] then ids
      else if conn_bluff (hd conns) then filter (\<lambda>i. \<not> is_playable s i \<and> \<not> covers (last first) True i) ids
      else filter (\<lambda>i. \<not> covers (last first) False i) ids)"

definition possible_trash :: "game \<Rightarrow> nat \<Rightarrow> connection list \<Rightarrow> basic_card list" where
  "possible_trash g focus later =
     (let s = g_state g; reverse = (if in_endgame s then [] else filter (\<lambda>c. conn_type c = Finesse) later) in
      filter (\<lambda>i. is_basic_trash s i \<or> list_ex (\<lambda>c. has_id i (conn_identities c)) reverse)
        (iset_array (possible (card_at (common g) focus))))"

text \<open>Only one playable card is left for the focus, and we may hold it.\<close>

definition maybe_in_our_hand :: "game \<Rightarrow> clue_action \<Rightarrow> basic_card list \<Rightarrow> bool" where
  "maybe_in_our_hand g a ids \<longleftrightarrow>
     (let s = g_state g; us = our_player s in
      sum_list (map (\<lambda>i. total_count s i - discards_of s i) ids) = 1 \<and> ca_giver a \<noteq> us \<and> ca_target a \<noteq> us \<and>
      list_ex (\<lambda>ord. iset_has (possible (card_at (me g) ord)) (hd ids)) (our_hand s))"

definition certain_bluff :: "connection list \<Rightarrow> connection list" where
  "certain_bluff conns = (case conns of [] \<Rightarrow> [] | c # cs \<Rightarrow> c\<lparr>conn_possibly_bluff := conn_bluff c\<rparr> # cs)"

text \<open>The first connection is corrected in place when the clue is examined: the corrected connections are returned with the
  readings.\<close>

definition find_trash_finesses :: "bool \<Rightarrow> game \<Rightarrow> clue_action \<Rightarrow> nat \<Rightarrow> connection list \<Rightarrow> connection list \<times> focus_possibility list" where
  "find_trash_finesses shared g a focus conns =
     (let com = common g in
      if level (own g) < level_trash_moves \<or> is_trash_clue g (ca_giver a) (ca_clue a) (ca_target a) focus com then (conns, [])
      else
        case List.find (\<lambda>c. conn_type c = Finesse \<or> conn_type c = Prompt) conns of
          None \<Rightarrow> (conns, [])
        | Some unknown \<Rightarrow>
            if \<not> list_ex (\<lambda>c. conn_type c = Finesse) conns \<or> conn_reacting unknown = ca_target a then (conns, [])
            else
              let first = plays_before g (ca_giver a) (ca_target a) conns;
                  junk = possible_trash g focus (drop (length first) conns);
                  conns' = certain_bluff conns;
                  ids = filter (\<lambda>i. \<not> (shared \<and> i \<in> set junk) \<and>
                      \<not> list_ex (\<lambda>c. case conn_identities c of [j] \<Rightarrow> basic_matches j i | _ \<Rightarrow> False) conns)
                    (iset_array (inferred (card_at com focus))) in
              if playables_remaining g focus conns first \<noteq> [] \<and>
                 \<not> list_all (\<lambda>i. i \<in> set junk) (iset_array (possible (card_at com focus))) \<and> \<not> maybe_in_our_hand g a ids
              then (conns', [])
              else (conns', map (\<lambda>i. reading i conns' Trash_Finesse) junk))"

section \<open>Saves\<close>

definition dark_rainbow :: "string list" where
  "dark_rainbow = [''Dark Rainbow'', ''Dark Prism'']"

abbreviation brown_like :: "string list" where
  "brown_like \<equiv> [''Brown'', ''Muddy'', ''Cocoa'']"

definition filled_in :: "actual_card \<Rightarrow> bool" where
  "filled_in d \<longleftrightarrow>
     newly_clued d \<or>
     list_ex (\<lambda>cl. \<not> (clue_kind (last (clues d)) = clue_kind cl \<and> clue_value (last (clues d)) = clue_value cl)) (butlast (clues d))"

definition plain_black :: "game_state \<Rightarrow> clue_action \<Rightarrow> basic_card \<Rightarrow> bool" where
  "plain_black s a i \<longleftrightarrow>
     length (filter (\<lambda>ord. filled_in (deck_at s ord)) (ca_list a)) < 2 \<and>
     \<not> list_ex (\<lambda>ord. let d = deck_at s ord in rank d = rank i \<and> \<not> clued d \<and> is_basic_trash s d) (hands s ! ca_target a)"

definition dark_not_saved :: "game \<Rightarrow> clue_action \<Rightarrow> basic_card \<Rightarrow> bool" where
  "dark_not_saved g a i \<longleftrightarrow>
     (let s = g_state g in
      hypo_stacks (common g) ! nat (suit_index i) \<noteq> max_rank_of s i \<and>
      \<not> list_ex (\<lambda>ord. let d = deck_at s ord in
          is_critical s d \<and> newly_clued d \<and> rank d \<noteq> 5 \<and> \<not> regex_test dark_rainbow (suit_name (variant s) (suit_index d)))
        (hands s ! ca_target a))"

definition muddy_save_colour :: "game_state \<Rightarrow> int" where
  "muddy_save_colour s =
     (if includes_variant s [''Black'', ''Dark Brown'', ''Dark Pink''] then int (length (suits (variant s))) - 2 else 0)"

definition colour_save :: "game \<Rightarrow> basic_card \<Rightarrow> clue_action \<Rightarrow> nat \<Rightarrow> bool \<Rightarrow> bool" where
  "colour_save g i a focus loaded =
     (let s = g_state g; v = variant s; cl = ca_clue a; suit = suit_name v (suit_index i); r = rank i in
      if \<not> card_touched i v cl \<or> \<not> iset_has (possible (card_at (common g) focus)) i then False
      else if critical_rank v = Some r then False
      else if r = 5 \<and> suit \<noteq> ''Black'' \<and> \<not> regex_test brown_like suit then False
      else if suit = ''Black'' \<and> (r = 2 \<or> r = 5) \<and> plain_black s a i then False
      else if regex_test brown_like suit \<and> loaded then False
      else if includes_variant s dark_rainbow \<and> regex_test dark_rainbow suit \<and> dark_not_saved g a i then False
      else if includes_variant s [''Muddy''] \<and> regex_test [''Muddy''] suit \<and> clue_value cl \<noteq> muddy_save_colour s \<and>
        \<not> (is_critical s i \<and> r \<in> {2, 3, 4}) then False
      else if includes_variant s [''Cocoa''] \<and> regex_test [''Cocoa''] suit \<and> clue_value cl \<noteq> muddy_save_colour s then False
      else is_critical s i \<or> (regex_test [''Brown'', ''Muddy''] suit \<and> r = 2))"

definition rank_save :: "game \<Rightarrow> basic_card \<Rightarrow> nat \<Rightarrow> bool \<Rightarrow> bool" where
  "rank_save g i focus loaded =
     (let s = g_state g; r = rank i in
      if \<not> iset_has (possible (card_at (common g) focus)) i then False
      else if regex_test [''Black'', ''Dark Pink''] (suit_name (variant s) (suit_index i)) \<and> (r = 3 \<or> r = 4) then False
      else if loaded \<and> includes_variant s (combine_regex [whitish, dark_rainbow]) \<and> (r = 3 \<or> r = 4) then False
      else is_critical s i \<or> (r = 2 \<and> \<not> is_basic_trash s i))"

section \<open>Stacking connections\<close>

definition stack_conns :: "game_state \<Rightarrow> connection list \<Rightarrow> int list \<Rightarrow> int list" where
  "stack_conns s conns st =
     fold (\<lambda>c st. let d = deck_at s (conn_order c) in
       if suit_index d \<noteq> -1 then bump_stack d st else bump_stack (hd (conn_identities c)) st) conns st"

text \<open>The state of a search: what has been connected, the next rank, and the readings so far.\<close>

record focus_search =
  fs_connections :: "connection list"
  fs_used :: "nat list"
  fs_stacks :: "int list"
  fs_rank :: int
  fs_finesses :: nat
  fs_bluffed :: bool
  fs_direct :: bool
  fs_wrong :: "nat list"
  fs_readings :: "focus_possibility list"
  fs_done :: bool

definition begin_search :: "game \<Rightarrow> nat \<Rightarrow> int \<Rightarrow> bool \<Rightarrow> focus_possibility list \<Rightarrow> focus_search" where
  "begin_search g focus r direct fps =
     \<lparr>fs_connections = [], fs_used = [focus], fs_stacks = play_stacks (g_state g), fs_rank = r, fs_finesses = 0, fs_bluffed = False,
      fs_direct = direct, fs_wrong = [], fs_readings = fps, fs_done = False\<rparr>"

definition take_conns :: "game_state \<Rightarrow> connection list \<Rightarrow> focus_search \<Rightarrow> focus_search" where
  "take_conns s conns l =
     l\<lparr>fs_connections := fs_connections l @ conns, fs_used := fs_used l @ map conn_order conns,
       fs_stacks := stack_conns s conns (fs_stacks l), fs_rank := fs_rank l + 1\<rparr>"

definition add_reading :: "focus_possibility \<Rightarrow> focus_search \<Rightarrow> focus_search" where
  "add_reading fp l = l\<lparr>fs_readings := fs_readings l @ [fp]\<rparr>"

definition stop_search :: "focus_search \<Rightarrow> focus_search" where
  "stop_search l = l\<lparr>fs_done := True\<rparr>"

definition hypo_options :: "game \<Rightarrow> clue_action \<Rightarrow> bool \<Rightarrow> connect_options" where
  "hypo_options g a bluffed =
     no_connect\<lparr>known_only := (if ca_hypothetical a then [our_player (g_state g)] else []), bluffed_only := bluffed\<rparr>"

text \<open>One look for the next rank of a suit, on the stacks of the search.\<close>

definition look_for :: "game \<Rightarrow> clue_action \<Rightarrow> nat list \<Rightarrow> int \<Rightarrow> focus_search \<Rightarrow> connection list result" where
  "look_for g a stall k l =
     (let bluff = (level (own g) \<ge> level_bluffs \<and> length (fs_used l) = 1);
          ignored = get_ignore_orders g (nat (fs_rank l - play_stacks (g_state g) ! nat k - 1)) k bluff in
      h_find_connecting (with_stacks (fs_stacks l) g) a (mk_id k (fs_rank l)) (fs_direct l) stall (fs_used l) ignored
        (hypo_options g a (fs_bluffed l)))"

text \<open>The card could be the focused one itself.\<close>

definition blocked_conn :: "game \<Rightarrow> nat \<Rightarrow> basic_card \<Rightarrow> connection \<Rightarrow> bool" where
  "blocked_conn g focus i c \<longleftrightarrow>
     newly_clued (deck_at (g_state g) (conn_order c)) \<and> iset_length (possible (card_at (common g) (conn_order c))) > 1 \<and>
     iset_has (inferred (card_at (common g) focus)) i"

section \<open>The focus of a clue with a colour\<close>

text \<open>A finesse, or a layered playable, may also not be one, unless the card is critical.\<close>

definition colour_taken :: "game \<Rightarrow> nat \<Rightarrow> basic_card \<Rightarrow> connection list \<Rightarrow> focus_search \<Rightarrow> focus_search" where
  "colour_taken g focus i conns l =
     (let s = g_state (with_stacks (fs_stacks l) g); c = last conns;
          alt = (if is_critical s i then l else add_reading (reading i (fs_connections l) H_Play) l) in
      if conn_type c = Finesse then
        (if level (own g) = 1 \<and> fs_finesses l + 1 = 2 then stop_search (l\<lparr>fs_finesses := fs_finesses l + 1\<rparr>)
         else take_conns s conns (alt\<lparr>fs_finesses := fs_finesses l + 1, fs_bluffed := fs_bluffed l \<or> conn_bluff c\<rparr>))
      else if conn_type c = Playable \<and> conn_layered c then take_conns s conns alt
      else take_conns s conns l)"

definition colour_step :: "game \<Rightarrow> clue_action \<Rightarrow> nat \<Rightarrow> nat list \<Rightarrow> int \<Rightarrow> focus_search \<Rightarrow> int \<Rightarrow> focus_search result" where
  "colour_step g a focus stall k l _ =
     (if fs_done l then Inr l
      else
        let i = mk_id k (fs_rank l) in
        bindR (look_for g a stall k l) (\<lambda>conns.
          Inr (if conns = [] \<or> conn_type (hd conns) = Terminate then stop_search l
            else if conn_type (last conns) = Known \<and> blocked_conn g focus i (last conns) then stop_search l
            else colour_taken g focus i conns l)))"

text \<open>The readings that share the first connection get its correction.\<close>

definition share_first :: "connection list \<Rightarrow> focus_possibility list \<Rightarrow> focus_possibility list" where
  "share_first conns fps =
     map (\<lambda>fp. case fp_connections fp of [] \<Rightarrow> fp | _ # cs \<Rightarrow> fp\<lparr>fp_connections := hd conns # cs\<rparr>) fps"

definition final_colour :: "game \<Rightarrow> clue_action \<Rightarrow> nat \<Rightarrow> basic_card \<Rightarrow> connection list \<Rightarrow> focus_possibility list" where
  "final_colour g a focus i conns =
     (if card_touched i (variant (g_state g)) (ca_clue a) \<and> iset_has (possible (card_at (common g) focus)) i
      then [reading i conns H_Play] else []) @
     (if level (own g) \<ge> level_intermediate_bluffs \<and> length conns = 1 \<and> conn_bluff (hd conns)
      then map (\<lambda>j. reading j conns H_Play)
        (filter (\<lambda>j. rank i < rank j \<and> is_intermediate_bluff_target g a j focus) [mk_id (suit_index i) 3, mk_id (suit_index i) 4])
      else [])"

definition colour_saves :: "game \<Rightarrow> clue_action \<Rightarrow> nat \<Rightarrow> bool \<Rightarrow> int \<Rightarrow> focus_possibility list" where
  "colour_saves g a focus loaded k =
     (let s = g_state g in
      map save_reading (filter (\<lambda>i. colour_save g i a focus loaded)
        (map (mk_id k) [play_stacks s ! nat k + 1..min (max_ranks s ! nat k) 5])))"

definition find_colour_focus :: "bool \<Rightarrow> game \<Rightarrow> clue_action \<Rightarrow> focus_result \<Rightarrow> nat list \<Rightarrow> bool \<Rightarrow> int \<Rightarrow> focus_possibility list result" where
  "find_colour_focus shared g a fr stall loaded k =
     (let s = g_state g; next = play_stacks s ! nat k + 1; maxr = max_ranks s ! nat k in
      if next > maxr then Inr []
      else
        bindR (need (fo_focus fr)) (\<lambda>focus.
        let direct = (identity (sym_opts True) (card_at (common g) focus) = None);
            upto = (if level (own g) \<ge> level_trash_moves then maxr else maxr - 1) in
        bindR (foldR (colour_step g a focus stall k) (begin_search g focus next direct []) [next..upto]) (\<lambda>l.
          let i = mk_id k (fs_rank l); conns = fs_connections l; tf = find_trash_finesses shared g a focus conns;
              fps = fs_readings l @ final_colour g a focus i conns in
          Inr (share_first (fst tf) fps @ snd tf @ (if fo_chop fr then colour_saves g a focus loaded k else [])))))"

section \<open>The focus of a clue with a rank\<close>

definition rank_taken :: "game \<Rightarrow> nat \<Rightarrow> int \<Rightarrow> bool \<Rightarrow> bool \<Rightarrow> bool \<Rightarrow> basic_card \<Rightarrow> connection list \<Rightarrow> focus_search \<Rightarrow> focus_search" where
  "rank_taken g focus r positional save certain i conns l =
     (let s = g_state (with_stacks (fs_stacks l) g); c = last conns;
          n = fs_finesses l + length (filter (\<lambda>c. conn_type c = Finesse) conns); l1 = l\<lparr>fs_finesses := n\<rparr>;
          may = ((r = rank i \<or> positional) \<and> \<not> is_critical s i); alt = add_reading (reading i (fs_connections l) H_Play) in
      if level (own g) = 1 \<and> n = 2 then stop_search l1
      else if conn_type c = Finesse then
        let l2 = l1\<lparr>fs_direct := (identity no_opts (card_at (common g) focus) = None \<and> (save \<or> positional)),
              fs_bluffed := fs_bluffed l \<or> conn_bluff c\<rparr> in
        take_conns s conns (if \<not> certain \<and> may then alt l2 else l2)
      else take_conns s conns (if conn_type c = Playable \<and> conn_layered c \<and> may then alt l1 else l1))"

definition rank_step :: "game \<Rightarrow> clue_action \<Rightarrow> nat \<Rightarrow> nat list \<Rightarrow> int \<Rightarrow> bool \<Rightarrow> bool \<Rightarrow> bool \<Rightarrow> int \<Rightarrow> focus_search \<Rightarrow> int \<Rightarrow> focus_search result" where
  "rank_step g a focus stall r positional save certain k l _ =
     (if fs_done l then Inr l
      else
        let i = mk_id k (fs_rank l) in
        bindR (look_for g a stall k l) (\<lambda>conns.
          Inr (if conns = [] then stop_search l
            else if conn_type (last conns) = Terminate then
              stop_search (if iset_has (inferred (card_at (common g) focus)) i then l
                else l\<lparr>fs_wrong := fs_wrong l @ map conn_reacting conns\<rparr>)
            else if blocked_conn g focus i (last conns) then stop_search l
            else rank_taken g focus r positional save certain i conns l)))"

text \<open>A finesse of the target that it cannot tell from a play of the focus, or that it would take for a wrong prompt.\<close>

definition self_clandestine :: "game \<Rightarrow> nat \<Rightarrow> nat \<Rightarrow> connection list \<Rightarrow> bool" where
  "self_clandestine g target focus conns \<longleftrightarrow>
     list_ex (\<lambda>n. let c = conns ! n; i = hd (conn_identities c) in
         conn_reacting c = target \<and> conn_type c = Finesse \<and> conn_hidden c \<and>
         iset_has (possible (card_at (common g) focus)) (mk_id (suit_index i) (rank i + 1)) \<and>
         \<not> list_ex (\<lambda>c2. conn_type c2 = Finesse \<and> conn_reacting c2 \<noteq> target) (take n conns))
       [0..<length conns]"

definition illegal_reading :: "game \<Rightarrow> nat \<Rightarrow> nat \<Rightarrow> nat list \<Rightarrow> connection list \<Rightarrow> bool" where
  "illegal_reading g target focus wrong conns \<longleftrightarrow>
     self_clandestine g target focus conns \<or>
     (target \<in> set wrong \<and> list_ex (\<lambda>c. conn_reacting c = target \<and> conn_type c = Finesse) conns)"

definition end_rank :: "bool \<Rightarrow> game \<Rightarrow> clue_action \<Rightarrow> nat \<Rightarrow> int \<Rightarrow> bool \<Rightarrow> int \<Rightarrow> focus_search \<Rightarrow> focus_possibility list" where
  "end_rank shared g a focus r positional k l =
     (let i = mk_id k (fs_rank l);
          tf = (if fs_rank l \<le> r then (fs_connections l, []) else find_trash_finesses shared g a focus (fs_connections l));
          conns = fst tf; fps = share_first conns (fs_readings l) @ snd tf in
      if (positional \<or> fs_rank l \<le> r) \<and> (r = fs_rank l \<or> positional)
      then fps @ [(reading i conns H_Play)\<lparr>fp_illegal := illegal_reading g (ca_target a) focus (fs_wrong l) conns\<rparr>]
      else fps)"

definition rank_suit :: "bool \<Rightarrow> game \<Rightarrow> clue_action \<Rightarrow> nat \<Rightarrow> bool \<Rightarrow> nat list \<Rightarrow> int \<Rightarrow> bool \<Rightarrow> bool \<Rightarrow> focus_possibility list \<Rightarrow> int \<Rightarrow>
    focus_possibility list result" where
  "rank_suit shared g a focus positional stall r save may_trash fps k =
     (let fc = card_at (common g) focus; i = mk_id k r; next = play_stacks (g_state g) ! nat k + 1 in
      if \<not> iset_has (possible fc) i \<or> (\<not> positional \<and> r < next) \<or> has_id i (map raw fps) then Inr fps
      else if r = next \<and> \<not> may_trash then Inr (fps @ [reading i [] H_Play])
      else
        let certain = (r = next \<and> may_trash); fps1 = (if r = next then fps @ [reading i [] H_Play] else fps);
            direct = (identity (sym_opts True) fc = None \<and> (save \<or> rank_looks_playable g r (ca_giver a) (ca_target a) focus \<or> positional)) in
        bindR (foldR (rank_step g a focus stall r positional save certain k) (begin_search g focus next direct []) [next..r]) (\<lambda>l.
          Inr (fps1 @ end_rank shared g a focus r positional k l)))"

definition find_rank_focus :: "bool \<Rightarrow> game \<Rightarrow> clue_action \<Rightarrow> focus_result \<Rightarrow> nat list \<Rightarrow> bool \<Rightarrow> int \<Rightarrow> focus_possibility list result" where
  "find_rank_focus shared g a fr stall loaded r =
     bindR (need (fo_focus fr)) (\<lambda>focus.
       let ks = map int [0..<length (suits (variant (g_state g)))];
           saves = (if fo_chop fr then map save_reading (filter (\<lambda>i. rank_save g i focus loaded) (map (\<lambda>k. mk_id k r) ks)) else []);
           may_trash = (level (own g) \<ge> level_trash_moves \<and>
             \<not> is_trash_clue g (ca_giver a) (ca_clue a) (ca_target a) focus (common g)) in
       foldR (rank_suit shared g a focus (fo_positional fr) stall r (saves \<noteq> []) may_trash) saves ks)"

section \<open>Trash pushes\<close>

text \<open>The pushed card must be playable by the turn of its player: the search goes down from its rank, and back from the player.
  (The check that the suit has a possibility not below the next rank is true of the identity itself.)\<close>

record push_search =
  ps_connections :: "connection list"
  ps_used :: "nat list"
  ps_before :: nat
  ps_rank :: int
  ps_done :: bool

definition push_step :: "game \<Rightarrow> clue_action \<Rightarrow> nat list \<Rightarrow> int \<Rightarrow> push_search \<Rightarrow> int \<Rightarrow> push_search result" where
  "push_step g a stall k l _ =
     (if ps_done l then Inr l
      else
        let s = g_state g;
            opts = (hypo_options g a False)\<lparr>player_order := Some (rev (players_between (num_players s) (ca_giver a) (ps_before l))),
              assume_truth := True, immediate_only := True\<rparr> in
        bindR (h_find_connecting g a (mk_id k (ps_rank l)) True stall (ps_used l)
            (get_ignore_orders g (nat (ps_rank l - play_stacks s ! nat k - 1)) k False) opts) (\<lambda>conns.
          Inr (if conns = [] \<or> conn_type (last conns) = Terminate then l\<lparr>ps_done := True\<rparr>
            else l\<lparr>ps_before := conn_reacting (hd conns), ps_connections := conns @ ps_connections l,
              ps_used := ps_used l @ map conn_order conns, ps_rank := ps_rank l - 1\<rparr>)))"

definition push_reading :: "game \<Rightarrow> clue_action \<Rightarrow> nat \<Rightarrow> nat list \<Rightarrow> basic_card \<Rightarrow> focus_possibility list result" where
  "push_reading g a focus stall i =
     (let s = g_state g; st = stack_of s i in
      if is_basic_trash s i then Inr []
      else
        bindR (foldR (push_step g a stall (suit_index i))
            \<lparr>ps_connections = [], ps_used = [focus], ps_before = ca_target a, ps_rank = rank i - 1, ps_done = False\<rparr>
            (rev [st + 1..rank i - 1])) (\<lambda>l.
          Inr (if ps_rank l = st then [reading i (ps_connections l) H_Play] else [])))"

definition find_trash_push :: "game \<Rightarrow> clue_action \<Rightarrow> focus_result \<Rightarrow> nat list \<Rightarrow> focus_possibility list result" where
  "find_trash_push g a fr stall =
     bindR (need (fo_focus fr)) (\<lambda>focus.
       foldR (\<lambda>fps i. bindR (push_reading g a focus stall i) (\<lambda>more. Inr (fps @ more))) []
         (iset_array (possible (card_at (common g) focus))))"

section \<open>All readings\<close>

text \<open>A self-finesse behind a card that may be bluffed is not a reading, and a bluff is no mere possibility when there are
  more finesses or when we gave the clue.\<close>

definition bluff_orders :: "focus_possibility list \<Rightarrow> nat list" where
  "bluff_orders fps =
     map (\<lambda>fp. conn_order (hd (fp_connections fp))) (filter (\<lambda>fp. case fp_connections fp of c # _ \<Rightarrow> conn_bluff c | [] \<Rightarrow> False) fps)"

definition invalid_self :: "nat list \<Rightarrow> connection list \<Rightarrow> bool" where
  "invalid_self bluffs conns \<longleftrightarrow>
     (case conns of
        c1 # c2 # _ \<Rightarrow> conn_type c1 = Finesse \<and> \<not> conn_bluff c1 \<and> conn_order c1 \<in> set bluffs \<and> conn_self c2 \<and> conn_type c2 = Finesse
      | _ \<Rightarrow> False)"

definition finalize_connection :: "game_state \<Rightarrow> clue_action \<Rightarrow> focus_possibility \<Rightarrow> focus_possibility" where
  "finalize_connection s a fp =
     (case fp_connections fp of
        c # cs \<Rightarrow>
          if conn_possibly_bluff c \<and>
             (length (filter (\<lambda>c. conn_type c = Finesse) (fp_connections fp)) > 1 \<or> ca_giver a = our_player s)
          then fp\<lparr>fp_connections := c\<lparr>conn_possibly_bluff := False\<rparr> # cs\<rparr> else fp
      | [] \<Rightarrow> fp)"

definition finalize_connections :: "game_state \<Rightarrow> clue_action \<Rightarrow> focus_possibility list \<Rightarrow> focus_possibility list" where
  "finalize_connections s a fps =
     map (finalize_connection s a) (filter (\<lambda>fp. \<not> invalid_self (bluff_orders fps) (fp_connections fp)) fps)"

definition without_saved :: "focus_possibility list \<Rightarrow> focus_possibility list" where
  "without_saved fps =
     map (\<lambda>n. fps ! n) (filter (\<lambda>n. \<not> list_ex (\<lambda>m. m \<noteq> n \<and> basic_matches (fps ! n) (fps ! m) \<and> fp_save (fps ! m)) [0..<length fps])
       [0..<length fps])"

text \<open>The suits that a clue with a colour may be about. (The colour of a clue is one of the variant.)\<close>

definition focus_suits :: "game_state \<Rightarrow> int \<Rightarrow> int list" where
  "focus_suits s k =
     (let v = variant s in
      map (\<lambda>n. index_of (suits v) n)
        (filter (regex_test (combine_regex [rainbowish, prism])) (suits v) @
         (case get (colourable_suits v) k of Some n \<Rightarrow> [n] | None \<Rightarrow> [])))"

definition find_focus_possible :: "bool \<Rightarrow> game \<Rightarrow> clue_action \<Rightarrow> focus_result \<Rightarrow> nat list \<Rightarrow> bool \<Rightarrow> bool \<Rightarrow> focus_possibility list result" where
  "find_focus_possible shared g a fr stall loaded push =
     (let s = g_state g; cl = ca_clue a in
      bindR (if push then find_trash_push g a fr stall
             else if clue_kind cl = ColourClue then
               foldR (\<lambda>fps k. bindR (find_colour_focus shared g a fr stall loaded k) (\<lambda>more. Inr (fps @ more))) []
                 (focus_suits s (clue_value cl))
             else find_rank_focus shared g a fr stall loaded (clue_value cl)) (\<lambda>fps.
        Inr (finalize_connections s a (without_saved fps))))"

end
