(* ===== verification/H_Own.thy ===== *)
theory H_Own
  imports H_Focus Special_Discards
begin

text \<open>
  Connections through our own hand in the h-group: \<open>src/src/conventions/h-group/clue-interpretation/own-finesses.js\<close>. The search stacks
  the connections that it finds on a copy of the game, on which common knowledge learns them. An \<open>IllegalInterpretation\<close> says
  that there is no such reading; the code catches it where it has something else to try. Of its message the model keeps
  the fixed part. A search ends since every round of it goes up one rank or uses a card of our hand.
\<close>

section \<open>Prompts of our own\<close>

definition own_prompt :: "game \<Rightarrow> nat \<Rightarrow> nat \<Rightarrow> basic_card \<Rightarrow> connection list result" where
  "own_prompt g finesses prompt i =
     (let s = g_state g; c = card_at (me g) prompt; d = deck_at s prompt; us = our_player s in
      if level (own g) = 1 \<and> finesses \<ge> 1 then Inl (Illegal ''blocked prompt + finesse at level 1'')
      else if rewinded c \<and> suit_index i \<noteq> suit_index d \<and> is_playable s d then
        (if level (own g) < level_finesses then Inl (Illegal ''blocked hidden finesse at level 1'')
         else Inr [(mk_conn Prompt us prompt [raw d])\<lparr>conn_hidden := True, conn_self := True\<rparr>])
      else if matches (no_opts\<lparr>o_assume := Some True\<rparr>) c i \<and> iset_has (possible c) i
      then Inr [(mk_conn Prompt us prompt [i])\<lparr>conn_self := True\<rparr>]
      else Inr [])"

section \<open>Finesses of our own\<close>

text \<open>When a layered finesse has been revealed, the clues of the moves that revealed it tell which cards are layers: up to a card
  that the clue touches, if it touches the identity, and as long as it touches cards, otherwise.\<close>

definition layer_ids :: "game \<Rightarrow> basic_card \<Rightarrow> base_clue \<Rightarrow> bool \<Rightarrow> basic_card list" where
  "layer_ids g i cl matching =
     (let ids = next_ids (hypo_stacks (common g)) in
      if matching then ids
      else filter (\<lambda>j. list_ex (\<lambda>p. suit_index p = suit_index j \<and> rank p = rank i) (find_possibilities cl (variant (g_state g)))) ids)"

fun skip_layers :: "nat \<Rightarrow> game \<Rightarrow> basic_card \<Rightarrow> nat list \<times> base_clue \<Rightarrow> nat list \<Rightarrow> connection list \<times> nat list \<Rightarrow>
    (connection list \<times> nat list) result" where
  "skip_layers fuel g i lc ignored (conns, used) =
     (let s = g_state g; us = our_player s; matching = card_touched i (variant s) (snd lc) in
      case h_finesse (common g) s us used ignored of
        None \<Rightarrow> if matching then Inl (Illegal ''impossible layered finesse with no end'') else Inr (conns, used)
      | Some ord \<Rightarrow>
          if matching = (ord \<in> set (fst lc)) then Inr (conns, used)
          else if ord \<in> set ignored then Inl (Illegal ''impossible layered finesse, ignoring card order'')
          else if layer_ids g i (snd lc) matching = [] then Inl (Illegal ''impossible layered finesse, card has no playable identities'')
          else
            let c = (mk_conn Finesse us ord (layer_ids g i (snd lc) matching))\<lparr>conn_hidden := True, conn_self := True\<rparr> in
            (case fuel of
               0 \<Rightarrow> Inl OutOfFuel
             | Suc fuel' \<Rightarrow> skip_layers fuel' g i lc ignored (conns @ [c], used @ [ord])))"

declare skip_layers.simps [simp del]

definition resolve_layered_finesse :: "game \<Rightarrow> basic_card \<Rightarrow> nat list \<Rightarrow> nat list \<Rightarrow> connection list result" where
  "resolve_layered_finesse g i used ignored =
     (let s = g_state g; us = our_player s in
      bindR (foldR (\<lambda>acc lc. skip_layers (length (our_hand s)) g i lc ignored acc) ([], used) (next_finesse g)) (\<lambda>(conns, used').
        case h_finesse (common g) s us used' ignored of
          None \<Rightarrow> Inl (Illegal ''could not find a valid finesse target after layers'')
        | Some ord \<Rightarrow> Inr (conns @ [(mk_conn Finesse us ord [i])\<lparr>conn_self := True\<rparr>])))"

definition no_slot :: string where
  "no_slot = ''no finesse slot on self''"

definition not_found :: string where
  "not_found = ''self-finesse not found for ''"

text \<open>The bluffed identities are searched for a new object, which is never among them: a card that we know is never possibly
  bluffed.\<close>

definition own_bluffs :: "game \<Rightarrow> clue_action \<Rightarrow> nat list \<Rightarrow> nat \<Rightarrow> basic_card list" where
  "own_bluffs g a used ord =
     (let s = g_state g in
      get_bluffable_ids g a (case basic_identity (deck_at s ord) of Some j \<Rightarrow> [j] | None \<Rightarrow> iset_array (inferred (card_at (me g) ord)))
        used (our_player s))"

definition own_possibly_bluff :: "game \<Rightarrow> clue_action \<Rightarrow> basic_card \<Rightarrow> nat list \<Rightarrow> bool \<Rightarrow> nat \<Rightarrow> bool" where
  "own_possibly_bluff g a i used truth ord \<longleftrightarrow>
     \<not> truth \<and> length used = 1 \<and> own_bluffs g a used ord \<noteq> [] \<and> iset_has (possible (card_at (me g) ord)) i \<and>
     basic_identity (deck_at (g_state g) ord) = None"

definition clued_in_hands :: "game_state \<Rightarrow> nat list \<Rightarrow> basic_card \<Rightarrow> bool" where
  "clued_in_hands s pls i \<longleftrightarrow>
     list_ex (\<lambda>pl. list_ex (\<lambda>ord. let d = deck_at s ord in actual_matches None d i \<and> clued d) (hands s ! pl)) pls"

definition plain_self_finesse :: "game \<Rightarrow> clue_action \<Rightarrow> basic_card \<Rightarrow> nat list \<Rightarrow> nat list \<Rightarrow> nat \<Rightarrow> bool \<Rightarrow> nat \<Rightarrow> connection list result" where
  "plain_self_finesse g a i used ignored finesses truth ord =
     (let s = g_state g; c = card_at (me g) ord; bluffs = own_bluffs g a used ord;
          true_finesse = (iset_has (inferred c) i \<and> matches (no_opts\<lparr>o_assume := Some True\<rparr>) c i) in
      if \<not> true_finesse \<and> bluffs = [] then Inl (Illegal not_found)
      else if level (own g) = 1 \<and> length used > 1 then
        Inl (Illegal (if finesses \<ge> 1 then ''blocked double finesse at level 1'' else ''blocked prompt + finesse at level 1''))
      else if next_finesse g \<noteq> [] then resolve_layered_finesse g i used ignored
      else
        Inr [(mk_conn Finesse (our_player s) ord (if true_finesse then [i] else bluffs))\<lparr>conn_self := True,
          conn_bluff := \<not> truth \<and> \<not> iset_has (possible c) i, conn_possibly_bluff := own_possibly_bluff g a i used truth ord,
          conn_certain := clued_in_hands s [ca_giver a, ca_target a] i\<rparr>])"

fun find_self_finesse :: "nat \<Rightarrow> game \<Rightarrow> clue_action \<Rightarrow> basic_card \<Rightarrow> nat list \<Rightarrow> nat list \<Rightarrow> nat \<Rightarrow> bool \<Rightarrow> connection list result" where
  "find_self_finesse fuel g a i used ignored finesses truth =
     (let s = g_state g; us = our_player s in
      case h_finesse (common g) s us used ignored of
        None \<Rightarrow> Inl (Illegal no_slot)
      | Some ord \<Rightarrow>
          let d = deck_at s ord in
          if rewinded (card_at (me g) ord) \<and> level (own g) < level_finesses then Inl (Illegal ''blocked layered finesse at level'')
          else if rewinded (card_at (me g) ord) \<and> suit_index d \<noteq> suit_index i \<and> is_playable s d then
            let c = (mk_conn Finesse us ord [raw d])\<lparr>conn_hidden := True, conn_self := True,
                  conn_bluff := own_possibly_bluff g a i used truth ord\<rparr> in
            (case fuel of
               0 \<Rightarrow> Inl OutOfFuel
             | Suc fuel' \<Rightarrow>
                 bindR (find_self_finesse fuel' (with_stacks ((play_stacks s)[nat (suit_index d) := rank d]) g) a i (used @ [ord]) ignored
                   (finesses + 1) truth) (\<lambda>cs. Inr (c # cs)))
          else plain_self_finesse g a i used ignored finesses truth ord)"

declare find_self_finesse.simps [simp del]

definition self_finesse :: "game \<Rightarrow> clue_action \<Rightarrow> basic_card \<Rightarrow> nat list \<Rightarrow> nat list \<Rightarrow> nat \<Rightarrow> bool \<Rightarrow> connection list result" where
  "self_finesse g = find_self_finesse (length (our_hand (g_state g))) g"

section \<open>One connection\<close>

record own_options =
  oo_truth :: bool
  oo_bluffed :: bool
  oo_immediate :: bool
  oo_ignored_player :: "nat option"
  oo_self_ranks :: "int list"

definition others_options :: "own_options \<Rightarrow> connect_options" where
  "others_options o1 = no_connect\<lparr>assume_truth := oo_truth o1, bluffed_only := oo_bluffed o1, immediate_only := oo_immediate o1\<rparr>"

text \<open>Orders are tested for being truthy: a card of order 0 does not count.\<close>

definition truthy :: "nat option \<Rightarrow> nat option" where
  "truthy o1 = (case o1 of Some 0 \<Rightarrow> None | _ \<Rightarrow> o1)"

definition giver_knows_own :: "game \<Rightarrow> nat \<Rightarrow> basic_card \<Rightarrow> nat option" where
  "giver_knows_own g giver i =
     (let s = g_state g in
      case truthy (List.find (\<lambda>ord. actual_matches None (deck_at s ord) i \<and> ord \<in> set (unknown_plays (common g))) (hands s ! giver)) of
        Some ord \<Rightarrow>
          (case identity infer_opts (card_at (g_players g ! giver) ord) of
             Some j \<Rightarrow> if basic_matches j i then Some ord else None
           | None \<Rightarrow> None)
      | None \<Rightarrow> None)"

definition bluff_playable :: "player \<Rightarrow> game_state \<Rightarrow> nat \<Rightarrow> nat \<Rightarrow> basic_card \<Rightarrow> nat list \<Rightarrow> nat list \<Rightarrow> (nat \<Rightarrow> bool) \<Rightarrow> connection list" where
  "bluff_playable p s pl reacting i used ignored hit =
     (let os = find_clued p s pl i used ignored in
      case List.find hit os of
        Some ord \<Rightarrow> [(mk_conn Playable reacting ord [i])\<lparr>conn_linked := Some os\<rparr>]
      | None \<Rightarrow> [])"

text \<open>A finesse that is illegal may still be a prompt on a pink card, when no card could be finessed.\<close>

definition pink_instead :: "game \<Rightarrow> basic_card \<Rightarrow> nat list \<Rightarrow> nat list \<Rightarrow> nat \<Rightarrow> string \<Rightarrow> connection list result" where
  "pink_instead g i used ignored finesses msg =
     (let s = g_state g; us = our_player s; prompt = h_prompt (common g) s us i used ignored False;
          pink = h_prompt (common g) s us i used ignored True in
      if msg = no_slot \<or> msg = not_found then
        (case pink of
           Some ord \<Rightarrow> if pink \<noteq> prompt then own_prompt g finesses ord i else Inr []
         | None \<Rightarrow> Inr [])
      else Inr [])"

definition own_cards :: "game \<Rightarrow> clue_action \<Rightarrow> basic_card \<Rightarrow> nat list \<Rightarrow> nat list \<Rightarrow> nat \<Rightarrow> own_options \<Rightarrow> connection list result" where
  "own_cards g a i used ignored finesses o1 =
     (let s = g_state g; us = our_player s;
          same_focus = (case basic_identity (deck_at s (hd used)) of Some j \<Rightarrow> basic_matches j i | None \<Rightarrow> False);
          finesse = (if rank i \<in> set (oo_self_ranks o1) then Inr []
            else catch_illegal (self_finesse g a i used ignored finesses (oo_truth o1)) (pink_instead g i used ignored finesses)) in
      case h_prompt (common g) s us i used ignored False of
        Some ord \<Rightarrow> if rainbow_mismatch g a i ord \<or> same_focus then finesse else own_prompt g finesses ord i
      | None \<Rightarrow> finesse)"

text \<open>The hand of a player that ignores the clue, and then our own finesse if it has been passed over.\<close>

definition ignoring_cards :: "game \<Rightarrow> clue_action \<Rightarrow> basic_card \<Rightarrow> nat list \<Rightarrow> nat list \<Rightarrow> nat \<Rightarrow> nat \<Rightarrow> connection list result" where
  "ignoring_cards g a i used ignored finesses pl =
     (let s = g_state g; com = common g; target = ca_target a; one = (level (own g) = 1); assume = no_opts\<lparr>o_assume := Some True\<rparr> in
      case h_prompt com s pl i used ignored False of
        Some ord \<Rightarrow>
          if one \<and> finesses \<ge> 1 then Inl (Illegal ''blocked double finesse at level 1'')
          else Inr (if matches assume (card_at com ord) i then [(mk_conn Prompt target ord [i])\<lparr>conn_self := True\<rparr>] else [])
      | None \<Rightarrow>
          (case truthy (h_finesse com s pl used ignored) of
             Some ord \<Rightarrow>
               if iset_has (inferred (card_at com ord)) i \<and> matches assume (card_at com ord) i then
                 (if one \<and> used \<noteq> [] then Inl (Illegal ''blocked double finesse at level 1'')
                  else Inr [(mk_conn Finesse target ord [i])\<lparr>conn_self := True\<rparr>])
               else Inr []
           | None \<Rightarrow> Inr []))"

definition asymmetric_own :: "game_state \<Rightarrow> nat \<Rightarrow> basic_card \<Rightarrow> connection list" where
  "asymmetric_own s giver i =
     (case truthy (List.find (\<lambda>ord. let d = deck_at s ord in actual_matches None d i \<and> clued d) (hands s ! giver)) of
        Some ord \<Rightarrow> [(mk_conn Known giver ord [i])\<lparr>conn_asymmetric := True\<rparr>]
      | None \<Rightarrow> [])"

definition or_else :: "connection list result \<Rightarrow> connection list result \<Rightarrow> connection list result" where
  "or_else m n = bindR m (\<lambda>conns. if conns \<noteq> [] then Inr conns else n)"

definition self_allowed :: "game \<Rightarrow> clue_action \<Rightarrow> basic_card \<Rightarrow> bool \<Rightarrow> nat \<Rightarrow> bool" where
  "self_allowed g a i direct focus \<longleftrightarrow>
     (let us = our_player (g_state g) in
      ca_giver a \<noteq> us \<and> \<not> (ca_target a = us \<and> direct \<and> iset_has (possible (card_at (me g) focus)) i))"

definition ignoring_or_own :: "game \<Rightarrow> clue_action \<Rightarrow> basic_card \<Rightarrow> nat list \<Rightarrow> nat list \<Rightarrow> nat \<Rightarrow> own_options \<Rightarrow> bool \<Rightarrow> nat \<Rightarrow>
    connection list result" where
  "ignoring_or_own g a i used ignored finesses o1 allowed pl =
     (let s = g_state g; com = common g in
      if oo_bluffed o1 then
        Inr (bluff_playable com s pl (ca_target a) i used ignored (\<lambda>ord. matches (no_opts\<lparr>o_assume := Some True\<rparr>) (card_at com ord) i))
      else
        or_else (ignoring_cards g a i used ignored finesses pl)
          (or_else
            (if allowed \<and> rank i \<in> set (oo_self_ranks o1)
             then catch_illegal (self_finesse g a i used ignored finesses (oo_truth o1)) (\<lambda>_. Inr []) else Inr [])
            (Inr (asymmetric_own s (ca_giver a) i))))"

definition own_connect :: "game \<Rightarrow> clue_action \<Rightarrow> basic_card \<Rightarrow> bool \<Rightarrow> nat list \<Rightarrow> nat list \<Rightarrow> nat \<Rightarrow> own_options \<Rightarrow> connection list result" where
  "own_connect g a i direct used ignored finesses o1 =
     (let s = g_state g; us = our_player s; allowed = self_allowed g a i direct (hd used) in
      bindR (h_find_connecting g a i direct [] used ignored (others_options o1)) (\<lambda>others.
        if others \<noteq> [] \<and> conn_type (hd others) \<noteq> Terminate then Inr others
        else
          case giver_knows_own g (ca_giver a) i of
            Some ord \<Rightarrow> Inr [mk_conn Known (ca_giver a) ord [i]]
          | None \<Rightarrow>
              if allowed \<and> oo_bluffed o1 then
                Inr (bluff_playable (me g) s us us i used ignored (\<lambda>ord. actual_matches (Some True) (deck_at s ord) i))
              else
                or_else (if allowed then own_cards g a i used ignored finesses o1 else Inr [])
                  (case oo_ignored_player o1 of
                     Some pl \<Rightarrow> ignoring_or_own g a i used ignored finesses o1 allowed pl
                   | None \<Rightarrow> Inr (asymmetric_own s (ca_giver a) i))))"

section \<open>A whole reading\<close>

text \<open>The state of the search: the game on which the connections have been played, and what has been found.\<close>

record own_search =
  os_game :: game
  os_connections :: "connection list"
  os_used :: "nat list"
  os_rank :: int
  os_finesses :: nat
  os_direct :: bool
  os_bluffed :: bool
  os_intermediate :: bool

definition begin_own :: "game \<Rightarrow> nat \<Rightarrow> int \<Rightarrow> bool \<Rightarrow> own_search" where
  "begin_own g focus r direct =
     \<lparr>os_game = g, os_connections = [], os_used = [focus], os_rank = r, os_finesses = 0, os_direct = direct, os_bluffed = False,
      os_intermediate = False\<rparr>"

definition bump_play :: "'a basic_card_scheme \<Rightarrow> game \<Rightarrow> game" where
  "bump_play d g = with_stacks (bump_stack d (play_stacks (g_state g))) g"

definition bump_hypo :: "'a basic_card_scheme \<Rightarrow> game \<Rightarrow> game" where
  "bump_hypo d g = g\<lparr>common := (common g)\<lparr>hypo_stacks := bump_stack d (hypo_stacks (common g))\<rparr>\<rparr>"

text \<open>A hidden card plays on its own stack. Any other connection is taken to be the card.\<close>

definition play_conn :: "basic_card \<Rightarrow> game \<Rightarrow> connection \<Rightarrow> game result" where
  "play_conn i g c =
     (let d = deck_at (g_state g) (conn_order c) in
      if conn_hidden c then Inr (if basic_identity d = None then g else bump_hypo d (bump_play d g))
      else
        bindR (write_card (common g) (conn_order c) (\<lambda>t. [W_inferred (iset_intersect (inferred t) (AnId i))])) (\<lambda>c1.
        bindR (good_touch_elim c1 (g_state g) False) (\<lambda>c2. Inr (g\<lparr>common := c2\<rparr>))))"

definition note_finesse :: "clue_action \<Rightarrow> bool \<Rightarrow> bool \<Rightarrow> connection \<Rightarrow> own_search \<Rightarrow> own_search" where
  "note_finesse a intermediate truth c l =
     (if conn_type c = Finesse then
        l\<lparr>os_finesses := os_finesses l + 1,
          os_direct := os_direct l \<and> \<not> (\<not> conn_hidden c \<and> conn_reacting c \<noteq> ca_target a \<and> clue_kind (ca_clue a) \<noteq> ColourClue),
          os_intermediate := os_intermediate l \<or>
            (length (os_connections l) = 1 \<and> intermediate \<and> (conn_possibly_bluff c \<or> conn_bluff c) \<and> \<not> truth),
          os_bluffed := os_bluffed l \<or> conn_bluff c\<rparr>
      else l)"

definition take_conn :: "basic_card \<Rightarrow> own_search \<Rightarrow> connection \<Rightarrow> own_search result" where
  "take_conn i l c =
     bindR (play_conn i (os_game l) c) (\<lambda>g1.
       Inr (l\<lparr>os_game := g1, os_connections := os_connections l @ [c], os_used := os_used l @ [conn_order c]\<rparr>))"

definition take_own :: "clue_action \<Rightarrow> bool \<Rightarrow> bool \<Rightarrow> basic_card \<Rightarrow> own_search \<Rightarrow> connection \<Rightarrow> own_search result" where
  "take_own a intermediate truth i l c = bindR (take_conn i l c) (\<lambda>l1. Inr (note_finesse a intermediate truth c l1))"

text \<open>After the connections of one round the next rank is looked for, or the same when all of them were hidden.\<close>

definition next_own :: "int \<Rightarrow> connection list \<Rightarrow> own_search \<Rightarrow> own_search" where
  "next_own k conns l =
     (if list_all conn_hidden conns then l
      else l\<lparr>os_game := bump_play (mk_id k 0) (os_game l), os_rank := os_rank l + 1\<rparr>)"

definition blind_after_bluff :: "clue_action \<Rightarrow> own_search \<Rightarrow> connection list \<Rightarrow> bool" where
  "blind_after_bluff a l conns \<longleftrightarrow>
     os_intermediate l \<and> clue_kind (ca_clue a) = RankClue \<and> (conns = [] \<or> conn_type (last conns) = Finesse)"

text \<open>The step that takes a connection is an argument: a trash finesse keeps neither finesses nor bluffs in mind.\<close>

type_synonym own_step = "basic_card \<Rightarrow> own_search \<Rightarrow> connection \<Rightarrow> own_search result"

fun h_own_loop :: "nat \<Rightarrow> game \<Rightarrow> clue_action \<Rightarrow> int \<Rightarrow> int \<Rightarrow> own_step \<Rightarrow> bool \<Rightarrow> own_options \<Rightarrow> own_search \<Rightarrow> own_search result" where
  "h_own_loop fuel g a k last_rank step bluff_ignored o1 l =
     (if os_rank l \<ge> last_rank then Inr l
      else
        case fuel of
          0 \<Rightarrow> Inl OutOfFuel
        | Suc fuel' \<Rightarrow>
            let i = mk_id k (os_rank l);
                ignored = get_ignore_orders g (nat (os_rank l - play_stacks (g_state g) ! nat k - 1)) k bluff_ignored in
            bindR (own_connect (os_game l) a i (os_direct l) (os_used l) ignored (os_finesses l) (o1\<lparr>oo_bluffed := os_bluffed l\<rparr>)) (\<lambda>conns.
              if conns = [] \<or> blind_after_bluff a l conns then Inr l
              else bindR (foldR (step i) l conns) (\<lambda>l1.
                h_own_loop fuel' g a k last_rank step bluff_ignored o1 (next_own k conns l1))))"

declare h_own_loop.simps [simp del]

definition own_fuel_for :: "game \<Rightarrow> basic_card \<Rightarrow> nat" where
  "own_fuel_for g i = nat (rank i) + length (our_hand (g_state g))"

text \<open>One attempt: the connections, or none with whether a bluff was among them.\<close>

definition own_attempt :: "game \<Rightarrow> clue_action \<Rightarrow> nat \<Rightarrow> basic_card \<Rightarrow> bool \<Rightarrow> own_options \<Rightarrow> (connection list option \<times> bool) result" where
  "own_attempt g a focus i direct o1 =
     (let k = suit_index i; st = play_stacks (g_state g) ! nat k in
      bindR (h_own_loop (own_fuel_for g i) g a k (rank i) (take_own a (is_intermediate_bluff_target g a i focus) (oo_truth o1)) False o1
          (begin_own g focus (st + 1) direct)) (\<lambda>l.
        Inr (if play_stacks (g_state (os_game l)) ! nat k + 1 = rank i then (Some (os_connections l), False)
          else if os_intermediate l then
            (Some [(hd (os_connections l))\<lparr>conn_possibly_bluff := False, conn_bluff := True\<rparr>], False)
          else (None, os_bluffed l))))"

definition someone_has :: "game \<Rightarrow> clue_action \<Rightarrow> nat \<Rightarrow> basic_card \<Rightarrow> nat option \<Rightarrow> bool" where
  "someone_has g a focus i ign \<longleftrightarrow>
     ca_target a = (case ign of None \<Rightarrow> our_player (g_state g) | Some pl \<Rightarrow> pl) \<and>
     (case find_known_connecting g (ca_giver a) i (get_ignore_orders g 0 (suit_index i) False) no_connect of
        Found c \<Rightarrow> conn_order c \<noteq> focus
      | _ \<Rightarrow> False)"

definition h_find_own_finesses :: "game \<Rightarrow> clue_action \<Rightarrow> nat \<Rightarrow> basic_card \<Rightarrow> bool \<Rightarrow> nat option \<Rightarrow> int list \<Rightarrow> bool \<Rightarrow> connection list result" where
  "h_find_own_finesses g a focus i direct ign ranks truth =
     (let o1 = \<lparr>oo_truth = truth, oo_bluffed = False, oo_immediate = False, oo_ignored_player = ign, oo_self_ranks = ranks\<rparr>;
          fail = Inl (Illegal ''unable to connect'') in
      if ca_giver a = our_player (g_state g) \<and> ign = None then Inl (Illegal ''cannot finesse ourselves.'')
      else if someone_has g a focus i ign then Inl (Illegal ''will not find own finesses when someone already has the card'')
      else
        bindR (own_attempt g a focus i direct o1) (\<lambda>(found, bluffed).
          case found of
            Some conns \<Rightarrow> Inr conns
          | None \<Rightarrow>
              if level (own g) \<ge> level_bluffs \<and> \<not> truth \<and> bluffed then
                or_else
                  (catch_illegal (bindR (own_attempt g a focus i direct (o1\<lparr>oo_truth := True\<rparr>))
                      (\<lambda>r. Inr (case fst r of Some conns \<Rightarrow> conns | None \<Rightarrow> [])))
                    (\<lambda>_. Inr []))
                  fail
              else fail))"

text \<open>A trash finesse or bluff through our own hand. Its target ignores the clue.\<close>

definition find_own_trash_finesses :: "game \<Rightarrow> clue_action \<Rightarrow> nat \<Rightarrow> basic_card \<Rightarrow> connection list option result" where
  "find_own_trash_finesses g a focus i =
     (let k = suit_index i; st = play_stacks (g_state g) ! nat k; fc = card_at (common g) focus;
          direct = list_ex (is_playable (g_state g)) (iset_array (possible fc));
          o1 = \<lparr>oo_truth = True, oo_bluffed = False, oo_immediate = iset_length (inferred fc) > 1,
            oo_ignored_player = Some (ca_target a), oo_self_ranks = []\<rparr> in
      bindR (h_own_loop (own_fuel_for g i) g a k (rank i + 1) take_conn True o1 (begin_own g focus (st + 1) direct)) (\<lambda>l.
        Inr (if play_stacks (g_state (os_game l)) ! nat k = rank i then Some (os_connections l) else None)))"

end
