(* ===== verification/H_Assign.thy ===== *)
theory H_Assign
  imports H_Own H_Turns
begin

text \<open>
  What is done with the readings of a clue in the h-group: the rest of \<open>src/src/conventions/h-group/clue-interpretation/connection-helper.js\<close>.
  The simplest readings are selected, the readings that the receiver could have are found, and the connections are written on
  common knowledge.
\<close>

section \<open>What the receiver infers\<close>

definition inference_known :: "connection list list \<Rightarrow> bool result" where
  "inference_known all_conns =
     (if length all_conns > 1 then Inr False
      else bindR (need (get all_conns 0)) (\<lambda>conns.
        foldR (\<lambda>b c. if \<not> b then Inr False else if conn_type c = Known then Inr True
            else if conn_type c = Playable then bindR (need (conn_linked c)) (\<lambda>os. Inr (length os = 1)) else Inr False)
          True conns))"

definition inference_rank :: "game_state \<Rightarrow> int \<Rightarrow> connection list \<Rightarrow> int" where
  "inference_rank s k conns =
     play_stacks s ! nat k + 1 + int (length (filter (\<lambda>c. \<not> conn_hidden c \<or> conn_bluff c) conns))"

section \<open>The simplest readings\<close>

definition is_unknown_conn :: "connection \<Rightarrow> bool" where
  "is_unknown_conn c \<longleftrightarrow> conn_type c \<noteq> Known \<and> conn_type c \<noteq> Playable"

definition from_unknown :: "connection list \<Rightarrow> connection list" where
  "from_unknown conns = dropWhile (\<lambda>c. \<not> is_unknown_conn c) conns"

definition starts_on :: "nat \<Rightarrow> connection list \<Rightarrow> bool" where
  "starts_on pl conns \<longleftrightarrow> (case from_unknown conns of c # _ \<Rightarrow> conn_reacting c = pl | [] \<Rightarrow> False)"

definition asymmetric_count :: "connection list \<Rightarrow> int" where
  "asymmetric_count conns = int (length (filter conn_asymmetric conns))"

definition blind_plays :: "connection list \<Rightarrow> nat \<Rightarrow> nat" where
  "blind_plays conns pl = length (filter (\<lambda>c. conn_type c = Finesse \<and> conn_reacting c = pl) conns)"

definition own_prompts :: "connection list \<Rightarrow> nat \<Rightarrow> nat" where
  "own_prompts conns pl = length (filter (\<lambda>c. conn_reacting c = pl \<and> conn_type c = Prompt) conns)"

text \<open>The score of a possibility: the blind plays and a tenth of the prompts from the first unknown card of the player on.\<close>

definition connection_score :: "'a possibility_scheme \<Rightarrow> nat \<Rightarrow> rat" where
  "connection_score fp pl =
     (let conns = fp_connections fp; penalty = of_int (asymmetric_count conns * 10); rest = from_unknown conns in
      if \<not> starts_on pl conns then penalty
      else penalty + of_nat (length (filter (\<lambda>c. conn_type c = Finesse) rest)) +
        of_nat (length (filter (\<lambda>c. conn_type c = Prompt) rest)) / 10)"

text \<open>Positive when the first possibility is less simple than the second.\<close>

definition is_simpler :: "player \<Rightarrow> 'a possibility_scheme \<Rightarrow> 'b possibility_scheme \<Rightarrow> nat \<Rightarrow> int" where
  "is_simpler p fp1 fp2 pl =
     (let c1 = fp_connections fp1; c2 = fp_connections fp2; f1 = from_unknown c1; f2 = from_unknown c2;
          truth = list_all (\<lambda>c. rewinded (card_at p (conn_order c)) \<or> \<not> conn_bluff c) in
      if asymmetric_count c1 \<noteq> asymmetric_count c2 then asymmetric_count c1 - asymmetric_count c2
      else if starts_on pl c1 \<noteq> starts_on pl c2 then (if starts_on pl c1 then 1 else -1)
      else if \<not> starts_on pl c1 then 0
      else if truth f1 \<noteq> truth f2 then (if truth f1 then -1 else 1)
      else if blind_plays f1 pl \<noteq> blind_plays f2 pl then int (blind_plays f1 pl) - int (blind_plays f2 pl)
      else int (own_prompts f1 pl) - int (own_prompts f2 pl))"

definition occams_razor :: "game \<Rightarrow> 'a possibility_scheme list \<Rightarrow> nat \<Rightarrow> nat \<Rightarrow> 'a possibility_scheme list" where
  "occams_razor g fps pl focus =
     (let simpler = is_simpler (me g); ordered = js_sort (\<lambda>a b. simpler a b pl > 0) fps in
      case List.find (\<lambda>k. iset_has (possible (card_at (g_players g ! pl) focus)) (ordered ! k)) [0..<length ordered] of
        None \<Rightarrow> ordered
      | Some n \<Rightarrow> map (\<lambda>k. ordered ! k)
          (filter (\<lambda>k. k \<le> n \<or> simpler (ordered ! n) (ordered ! k) pl = 0) [0..<length ordered]))"

section \<open>Symmetric readings\<close>

record sym_possibility = possibility +
  sp_fake :: bool

definition sym_reading :: "'a basic_card_scheme \<Rightarrow> connection list \<Rightarrow> bool \<Rightarrow> sym_possibility" where
  "sym_reading i conns fake = \<lparr>suit_index = suit_index i, rank = rank i, fp_connections = conns, sp_fake = fake\<rparr>"

definition generate_symmetric_connections :: "game_state \<Rightarrow> sym_possibility list \<Rightarrow> focus_possibility list \<Rightarrow> nat \<Rightarrow> nat \<Rightarrow> nat \<Rightarrow>
    waiting_connection list" where
  "generate_symmetric_connections s syms existing focus giver target =
     map (\<lambda>fp. \<lparr>wc_connections = fp_connections fp, wc_giver = giver, wc_target = target, wc_conn_index = 0, wc_turn = turn_count s,
         wc_focus = focus, wc_inference = mk_id (suit_index fp) (rank fp), wc_action_index = turn_count s, wc_symmetric = True,
         wc_ambiguous_passback = False, wc_self_passback = False\<rparr>)
       (filter (\<lambda>fp. fp_connections fp \<noteq> [] \<and> \<not> list_ex (basic_matches fp) existing) syms)"

definition visible_dupe :: "game \<Rightarrow> nat \<Rightarrow> nat \<Rightarrow> nat \<Rightarrow> basic_card \<Rightarrow> bool" where
  "visible_dupe g giver target focus i \<longleftrightarrow>
     (let s = g_state g in
      list_ex (\<lambda>pl. let known = (pl = giver \<or> pl = target) in
          list_ex (\<lambda>ord. let c = card_at (if known then common g else g_players g ! target) ord in
              matches (no_opts\<lparr>o_infer := Some known\<rparr>) c i \<and> ord \<noteq> focus \<and> touched c) (hands s ! pl))
        [0..<length (hands s)])"

definition looks_possible :: "game \<Rightarrow> iset \<Rightarrow> focus_possibility list \<Rightarrow> bool" where
  "looks_possible g ids fps \<longleftrightarrow>
     list_ex (\<lambda>fp. \<not> fp_illegal fp \<and> iset_has ids fp \<and>
       list_all (\<lambda>c. conn_type c = Known \<or> (conn_type c = Playable \<and> conn_reacting c \<noteq> our_player (g_state g))) (fp_connections fp)) fps"

text \<open>The readings that start with an unknown card of the target are kept apart from the others.\<close>

type_synonym sym_split = "sym_possibility list \<times> sym_possibility list"

definition add_sym :: "nat \<Rightarrow> sym_possibility \<Rightarrow> sym_split \<Rightarrow> sym_split" where
  "add_sym target sp acc = (if starts_on target (fp_connections sp) then (fst acc @ [sp], snd acc) else (fst acc, snd acc @ [sp]))"

definition not_symmetric :: "game \<Rightarrow> clue_action \<Rightarrow> nat \<Rightarrow> focus_possibility list \<Rightarrow> basic_card \<Rightarrow> bool" where
  "not_symmetric g a focus inf_poss i \<longleftrightarrow>
     (let s = g_state g; cl = ca_clue a in
      is_trash s (common g) i (int focus) infer_opts False \<or>
      list_ex (\<lambda>fp. suit_index fp = suit_index i \<and> rank fp \<ge> rank i) inf_poss \<or>
      (clue_kind cl = RankClue \<and> includes_variant s pinkish \<and> rank i \<noteq> clue_value cl) \<or>
      visible_dupe g (ca_giver a) (ca_target a) focus i)"

definition symmetric_step :: "game \<Rightarrow> clue_action \<Rightarrow> focus_result \<Rightarrow> nat \<Rightarrow> focus_possibility list \<Rightarrow> int list \<Rightarrow> nat \<Rightarrow> bool \<Rightarrow> sym_split \<Rightarrow>
    basic_card \<Rightarrow> sym_split result" where
  "symmetric_step g a fr focus inf_poss ranks own_blind loaded acc i =
     (let target = ca_target a; us = our_player (g_state g);
          direct = (identity (sym_opts True) (card_at (common g) focus) = None \<and>
            looks_possible g (possible (card_at (g_players g ! target) focus)) inf_poss) in
      if not_symmetric g a focus inf_poss i then Inr acc
      else if fo_chop fr \<and> (if clue_kind (ca_clue a) = ColourClue then colour_save g i a focus loaded else rank_save g i focus loaded)
      then Inr (fst acc, snd acc @ [sym_reading i [] False])
      else
        catch_illegal
          (bindR (h_find_own_finesses g a focus i direct (Some target) ranks False) (\<lambda>conns.
            Inr (add_sym target (sym_reading i conns (blind_plays conns us > own_blind)) acc)))
          (\<lambda>_. Inr acc))"

definition find_symmetric_connections :: "game \<Rightarrow> clue_action \<Rightarrow> focus_result \<Rightarrow> focus_possibility list \<Rightarrow> int list \<Rightarrow> nat \<Rightarrow> bool \<Rightarrow>
    sym_possibility list result" where
  "find_symmetric_connections g a fr inf_poss ranks own_blind loaded =
     bindR (need (fo_focus fr)) (\<lambda>focus.
       if fo_trash_push fr then
         bindR (find_trash_push g a fr []) (\<lambda>fps. Inr (map (\<lambda>fp. sym_reading fp (fp_connections fp) False) fps))
       else
         let acc = fold (\<lambda>fp. add_sym (ca_target a) (sym_reading fp (fp_connections fp) False)) inf_poss ([], []) in
         bindR (foldR (symmetric_step g a fr focus inf_poss ranks own_blind loaded) acc
             (iset_array (inferred (card_at (common g) focus)))) (\<lambda>(self, others).
           Inr (occams_razor g (if list_all sp_fake others then self else others) (ca_target a) focus)))"

section \<open>Writing the connections\<close>

text \<open>The cards that every bluff needs as playables.\<close>

definition must_bluff_playables :: "'a possibility_scheme list \<Rightarrow> nat list" where
  "must_bluff_playables fps =
     (let bluffs = map (\<lambda>fp. map conn_order (filter (\<lambda>c. conn_type c = Playable) (fp_connections fp)))
          (filter (\<lambda>fp. case fp_connections fp of c # _ \<Rightarrow> conn_bluff c | [] \<Rightarrow> False) fps) in
      case bluffs of [] \<Rightarrow> [] | os # _ \<Rightarrow> filter (\<lambda>ord. list_all (\<lambda>os2. ord \<in> set os2) bluffs) os)"

text \<open>The cards that a player may have to play next after a card.\<close>

definition next_orders :: "nat \<Rightarrow> nat \<Rightarrow> 'a possibility_scheme list \<Rightarrow> nat \<Rightarrow> nat \<Rightarrow> nat list" where
  "next_orders target focus fps prev reacting =
     remdups (concat (map (\<lambda>fp. let conns = fp_connections fp;
           follow = zip (map conn_order conns) (map (\<lambda>c. (conn_reacting c, conn_order c)) (tl conns) @ [(target, focus)]) in
         map (\<lambda>f. snd (snd f)) (filter (\<lambda>f. fst f = prev \<and> fst (snd f) = reacting) follow)) fps))"

definition hypo_playable_ids :: "game \<Rightarrow> int list \<Rightarrow> nat \<Rightarrow> basic_card list" where
  "hypo_playable_ids g stacks ord =
     (let s = g_state g; com = common g in
      filter (\<lambda>i. rank i \<le> max_rank_of s i \<and> \<not> is_trash s com i (int ord) infer_opts False)
        (map (\<lambda>k. mk_id (int k)
            (case (if k < length (hypo_map com) then List.find (\<lambda>n. hypo_map com ! k ! n = Some ord) [0..<length (hypo_map com ! k)] else None) of
               Some n \<Rightarrow> int n
             | None \<Rightarrow> stacks ! k + 1)) [0..<length stacks]))"

definition playable_ids_on :: "game_state \<Rightarrow> int list \<Rightarrow> basic_card list" where
  "playable_ids_on s stacks = filter (\<lambda>i. rank i \<le> max_rank_of s i) (next_ids stacks)"

definition blind_stacks :: "game_state \<Rightarrow> player \<Rightarrow> int list" where
  "blind_stacks s com =
     fold (\<lambda>ord st. let c = card_at com ord in
       case identity infer_opts c of
         Some i \<Rightarrow> if blind_playing c \<and> st ! nat (suit_index i) + 1 = rank i then bump_stack i st else st
       | None \<Rightarrow> st) (our_hand s) (play_stacks s)"

text \<open>The inferences that the connection leaves on its card.\<close>

definition conn_inferences :: "game \<Rightarrow> int list \<Rightarrow> connection \<Rightarrow> bool \<Rightarrow> card \<Rightarrow> iset result" where
  "conn_inferences g stacks c unknown_playable t =
     (let s = g_state g; ids = Ids (conn_identities c) in
      if conn_bluff c \<or> conn_hidden c then
        let now = iset_intersect (inferred t) (Ids (hypo_playable_ids g stacks (conn_order c))) in
        Inr (if conn_bluff c then iset_intersect now (Ids (playable_ids_on s (play_stacks s))) else now)
      else
        bindR (if superposition t then Inr (iset_union (inferred t) ids)
            else if uncertain t then bindR (need (finesse_ids t)) (\<lambda>f. Inr (iset_union (inferred t) (ASet (iset_intersect f ids))))
            else Inr (inferred t)) (\<lambda>now.
          Inr (if \<not> unknown_playable \<and> \<not> superposition t \<and> \<not> uncertain t then iset_create (n_suits s) ids else now)))"

definition assigned_status :: "game_state \<Rightarrow> connection \<Rightarrow> card_status" where
  "assigned_status s c =
     (if conn_possibly_bluff c then (if conn_reacting c = our_player s then F_MAYBE_BLUFF else MAYBE_BLUFFED)
      else if conn_bluff c then BLUFFED else FINESSED)"

definition conn_uncertain :: "game \<Rightarrow> clue_action \<Rightarrow> actual_card \<Rightarrow> nat \<Rightarrow> basic_card \<Rightarrow> connection \<Rightarrow> card \<Rightarrow> bool" where
  "conn_uncertain g a f n_poss i c t \<longleftrightarrow>
     (let s = g_state g; us = our_player s; ids = conn_identities c; other_suit = (\<lambda>j. suit_index j \<noteq> suit_index (hd ids));
          mine = possible (card_at (me g) (order f)) in
      if uncertain t \<or> ca_giver a = us \<or> rewinded t \<or> conn_certain c then False
      else if conn_reacting c = us then
        conn_type c \<noteq> Known \<and>
        list_ex (\<lambda>j. list_ex (\<lambda>ord. ord \<noteq> conn_order c \<and> iset_has (possible (card_at (me g) ord)) j) (our_hand s)) ids \<and>
        list_ex (\<lambda>j. other_suit j \<and> rank j \<le> hypo_stacks (common g) ! nat (suit_index j) + 1) (iset_array (possible t))
      else
        ((conn_type c = Finesse \<and> n_poss > 1) \<or> (conn_type c = Prompt \<and> list_ex other_suit (iset_array mine))) \<and>
        \<not> ((list_all (is_critical s) ids \<and> actual_matches None f i) \<or>
           (clue_kind (ca_clue a) = ColourClue \<and> list_all (\<lambda>j. \<not> iset_has mine j) ids)))"

definition finesse_writes :: "game_state \<Rightarrow> clue_action \<Rightarrow> connection \<Rightarrow> card \<Rightarrow> card_write list" where
  "finesse_writes s a c t =
     status_writes (assigned_status s c) t @
     [W_first_touch \<lparr>ft_giver = ca_giver a, ft_turn = turn_count s\<rparr>, W_finesse_index (turn_count s), W_hidden (conn_hidden c)] @
     (if certain_finessed t then [] else [W_certain_finessed (conn_certain c)])"

definition assign_writes :: "game \<Rightarrow> clue_action \<Rightarrow> actual_card \<Rightarrow> nat \<Rightarrow> basic_card \<Rightarrow> bool \<Rightarrow> connection \<Rightarrow> iset \<Rightarrow> card \<Rightarrow> card_write list" where
  "assign_writes g a f n_poss i with_finesse c new t =
     (let s = g_state g; turn = turn_count s; old = (case old_inferred t of Some x \<Rightarrow> x | None \<Rightarrow> inferred t);
          index = (if conn_type c = Finesse then turn else finesse_index t) in
      (if old_inferred t = None then [W_old_inferred (inferred t)] else []) @
      (if conn_type c = Finesse then finesse_writes s a c t else []) @
      (if with_finesse then [W_finesse_index (if index = -1 then turn else index)] else []) @
      [W_inferred new] @
      (if \<not> conn_bluff c \<and> \<not> conn_hidden c then [W_superposition True] else []) @
      (if conn_type c = Prompt \<and> conn_order c \<in> set (our_hand s) \<and> conn_order c \<in> set (linked_orders (me g) s)
       then [W_focused True] else []) @
      (if conn_uncertain g a f n_poss i c t then
         [W_finesse_ids (Some (iset_union (base_ids s)
            (Ids (playable_ids_on s (if conn_bluff c then play_stacks s else blind_stacks s (common g)))))), W_uncertain True]
       else []) @
      (if iset_length old > iset_length new \<and> (reasoning_turn t = [] \<or> last (reasoning_turn t) \<noteq> turn)
       then [W_reasoning_turn (reasoning_turn t @ [turn])] else []))"

text \<open>The links that are promised by a playable connection. (Links have identities.)\<close>

definition h_promise_link :: "connection \<Rightarrow> nat list \<Rightarrow> nat \<Rightarrow> player \<Rightarrow> player" where
  "h_promise_link c os focus p =
     (if list_ex (\<lambda>l. l_promised l \<and> basic_matches (hd (conn_identities c)) (hd (l_identities l)) \<and> length (l_orders l) = length os \<and>
           list_all (\<lambda>ord. ord \<in> set os) (l_orders l)) (links p)
      then p
      else p\<lparr>links := links p @ [\<lparr>l_orders = os, l_identities = conn_identities c, l_promised = True, l_target = Some focus\<rparr>]\<rparr>)"

definition note_finessed :: "game \<Rightarrow> nat \<Rightarrow> connection \<Rightarrow> game" where
  "note_finessed g giver c =
     (let s = g_state g; fwf = finesses_while_finessed (own g) in
      if conn_type c = Finesse \<and> list_ex (\<lambda>ord. blind_playing (card_at (common g) ord)) (hands s ! giver)
      then g\<lparr>own := (own g)\<lparr>finesses_while_finessed := fwf[giver := fwf ! giver @ [deck_at s (conn_order c)]]\<rparr>\<rparr> else g)"

record assign_loop =
  al_game :: game
  al_stacks :: "int list"
  al_done :: bool

definition stack_hidden :: "game_state \<Rightarrow> connection \<Rightarrow> int list \<Rightarrow> int list" where
  "stack_hidden s c stacks =
     (case basic_identity (deck_at s (conn_order c)) of Some i \<Rightarrow> stacks[nat (suit_index i) := rank i] | None \<Rightarrow> stacks)"

definition assign_conn :: "clue_action \<Rightarrow> actual_card \<Rightarrow> nat \<Rightarrow> basic_card \<Rightarrow> bool \<Rightarrow> assign_loop \<Rightarrow> connection \<Rightarrow> assign_loop result" where
  "assign_conn a f n_poss i with_finesse l c =
     (let g = al_game l; s = g_state g; ord = conn_order c in
      bindR (if conn_type c = Playable then need (conn_linked c) else Inr []) (\<lambda>os.
      let several = (conn_type c = Playable \<and> length os > 1 \<and> actual_matches (Some True) f i) in
      bindR (need (slot (thoughts (common g)) ord)) (\<lambda>t.
      bindR (conn_inferences g (al_stacks l) c several t) (\<lambda>new.
      bindR (write_card (common g) ord (assign_writes g a f n_poss i with_finesse c new)) (\<lambda>c1.
        let g2 = note_finessed (g\<lparr>common := c1\<rparr>) (ca_giver a) c in
        Inr (if conn_bluff c \<or> conn_hidden c then l\<lparr>al_game := g2, al_stacks := stack_hidden s c (al_stacks l)\<rparr>
          else if several then l\<lparr>al_game := g2\<lparr>common := h_promise_link c os (order f) (common g2)\<rparr>\<rparr>
          else l\<lparr>al_game := g2\<rparr>))))))"

definition assign_step :: "'a possibility_scheme list \<Rightarrow> clue_action \<Rightarrow> actual_card \<Rightarrow> nat \<Rightarrow> 'a possibility_scheme \<Rightarrow> assign_loop \<Rightarrow> nat \<Rightarrow>
    assign_loop result" where
  "assign_step fps a f n_poss fp l n =
     (let conns = fp_connections fp; c = conns ! n; i = mk_id (suit_index fp) (rank fp) in
      if al_done l then Inr l
      else if n > 0 \<and> length (next_orders (ca_target a) (order f) fps (conn_order (conns ! (n - 1))) (conn_reacting c)) > 1
      then Inr (l\<lparr>al_done := True\<rparr>)
      else if conn_type c = Playable \<and> conn_bluff (hd conns) \<and> conn_order c \<notin> set (must_bluff_playables fps) then Inr l
      else assign_conn a f n_poss i (list_ex (\<lambda>c. conn_type c = Finesse) conns) l c)"

definition assigned :: "game \<Rightarrow> clue_action \<Rightarrow> actual_card \<Rightarrow> focus_possibility \<Rightarrow> bool" where
  "assigned g a f fp \<longleftrightarrow>
     \<not> fp_save fp \<and> actual_matches (Some True) f fp \<and> iset_has (possible (card_at (g_players g ! ca_target a) (order f))) fp"

definition assign_all_connections :: "game \<Rightarrow> focus_possibility list \<Rightarrow> focus_possibility list \<Rightarrow> clue_action \<Rightarrow> actual_card \<Rightarrow> game result" where
  "assign_all_connections g simplest all_fps a f =
     foldR (\<lambda>g1 fp.
         if \<not> assigned g1 a f fp then Inr g1
         else
           bindR (foldR (assign_step simplest a f (length all_fps) fp)
               \<lparr>al_game = g1, al_stacks = hypo_stacks (common g1), al_done = False\<rparr> [0..<length (fp_connections fp)])
             (\<lambda>l. Inr (al_game l)))
       g simplest"

end
