(* ===== verification/H_Clue_Demo.thy ===== *)
theory H_Clue_Demo
  imports H_Demo H_Connecting_Sound H_Assign
begin

text \<open>
  A table of three, on which clues of the h-group need connections: Bob has a red 1 in his finesse position, and Cathy a
  red 2 that has just been clued.
\<close>

definition demo_three :: game where
  "demo_three = demo_table
     \<lparr>g_state := (g_state demo_table)\<lparr>num_players := 3, hands := [[], [0], [1]],
        deck := [Some (deck_at (g_state demo_table) 0),
          Some ((deck_at (g_state demo_table) 0)\<lparr>order := 1, suit_index := 0, rank := 2, clued := True, newly_clued := True\<rparr>)]\<rparr>,
      common := (common demo_table)\<lparr>thoughts :=
        [Some demo_unknown, Some (demo_unknown\<lparr>clued := True, newly_clued := True, status := Some CLUED\<rparr>)]\<rparr>,
      g_players := replicate 3 ((hd (g_players demo_table))\<lparr>thoughts :=
        [Some demo_unknown, Some (demo_unknown\<lparr>clued := True, newly_clued := True, status := Some CLUED\<rparr>)]\<rparr>)\<rparr>"

definition demo_far_clue :: clue_action where
  "demo_far_clue = demo_clue\<lparr>ca_target := 2, ca_list := [1]\<rparr>"

lemma demo_three_filed: "deck_filed (g_state demo_three)" "length (hands (g_state demo_three)) = num_players (g_state demo_three)"
  "ca_target demo_far_clue < num_players (g_state demo_three)" "player_order no_connect = None"
  by code_simp+

lemma demo_three_connected: "\<exists>c. h_find_connecting demo_three demo_far_clue (mk_id 0 1) False [] [1] [] no_connect = Inr [c] \<and>
  conn_type c = Finesse"
proof -
  have "case h_find_connecting demo_three demo_far_clue (mk_id 0 1) False [] [1] [] no_connect of
    Inr [c] \<Rightarrow> conn_type c = Finesse | _ \<Rightarrow> False" by code_simp
  then show ?thesis by (auto split: sum.splits list.splits)
qed

end
