(* ===== verification/Set_Refinement.thy ===== *)
theory Set_Refinement
  imports Identity_Sets
begin

text \<open>The masks of \<open>src/src/basics/IdentitySet.js\<close> refine sets of identities: every operation commutes with the
  abstraction \<open>ids_of\<close>, and two sets of the same variant are equal as masks when they are equal as sets.\<close>

definition ids_of :: "nat \<Rightarrow> iset \<Rightarrow> basic_card set" where
  "ids_of n s = {i. valid_id n i \<and> iset_has s i}"

lemma ids_of_ops:
  assumes s: "iset_ok n s" and t: "iset_ok n t"
  shows "ids_of n (iset_union s (ASet t)) = ids_of n s \<union> ids_of n t"
    "ids_of n (iset_intersect s (ASet t)) = ids_of n s \<inter> ids_of n t"
    "ids_of n (iset_subtract s (ASet t)) = ids_of n s - ids_of n t"
  using iset_has_ops [OF s, of "ASet t"] t by (auto simp: ids_of_def)

lemma ids_of_array: "iset_ok n s \<Longrightarrow> set (iset_array s) = ids_of n s \<and> iset_length s = int (card (ids_of n s))"
  by (simp add: ids_of_def iset_array_set idset.size_card)

lemma ids_of_bit:
  assumes s: "iset_ok n s"
  shows "bit (bits s) k \<longleftrightarrow> k < n * 5 \<and> card_of_index k \<in> ids_of n s"
proof (cases "k < n * 5")
  case True
  then show ?thesis
    using has_bit [OF valid_card_of_index [OF True], of s] iset_okD [OF s]
    by (simp add: ids_of_def valid_card_of_index id_bit_card_of_index)
next
  case False
  have "take_bit (n * 5) (bits s) = bits s" using s by (simp add: iset_ok_def)
  then have "bit (bits s) k \<longleftrightarrow> bit (take_bit (n * 5) (bits s)) k" by simp
  with False show ?thesis by (simp add: bit_take_bit_iff)
qed

lemma ids_of_equal:
  assumes s: "iset_ok n s" and t: "iset_ok n t"
  shows "iset_equals s (ASet t) \<longleftrightarrow> ids_of n s = ids_of n t"
proof
  assume "iset_equals s (ASet t)"
  then have "bits s = bits t" by (simp add: iset_equals_def)
  then show "ids_of n s = ids_of n t" by (simp add: ids_of_def iset_has_def)
next
  assume e: "ids_of n s = ids_of n t"
  have "bits s = bits t" by (rule bit_eqI) (simp add: ids_of_bit [OF s] ids_of_bit [OF t] e)
  then show "iset_equals s (ASet t)" by (simp add: iset_equals_def)
qed

end
