(* ===== verification/Endgame_Positions.thy ===== *)
theory Endgame_Positions
  imports Endgame_States
begin

text \<open>
  The positions of the endgame search and what a move does to them. A position is right when no identity has more
  copies out than the deck has, the maximal ranks are those that the discards leave, and the last round has begun
  exactly when the deck is empty; every legal move with a draw that the deck can still give keeps this. \<open>can_win\<close> says that
  some sequence of plays, discards and clues, with some such draws, reaches the maximal score.
\<close>

section \<open>Positions\<close>

definition held :: "game_state \<Rightarrow> nat \<Rightarrow> basic_card \<Rightarrow> nat" where
  "held s k i = length (filter (\<lambda>ord. deck_id s ord = Some i) (hands s ! k))"

definition held_all :: "game_state \<Rightarrow> basic_card \<Rightarrow> nat" where
  "held_all s i = (\<Sum>k < num_players s. held s k i)"

definition orders_ok :: "game_state \<Rightarrow> bool" where
  "orders_ok s \<longleftrightarrow> length (hands s) = num_players s \<and> 0 < num_players s \<and> - 1 \<le> card_order s \<and>
     (\<forall>k < num_players s. distinct (hands s ! k)) \<and>
     (\<forall>k < num_players s. \<forall>ord \<in> set (hands s ! k). int ord \<le> card_order s \<and>
        (\<forall>i. deck_id s ord = Some i \<longrightarrow> in_deck s i) \<and> (deck_id s ord = None \<longrightarrow> suit_index (deck_at s ord) = -1)) \<and>
     (endgame_turns s = -1 \<longrightarrow> (\<forall>ord. card_order s < int ord \<longrightarrow> slot (deck s) ord = None))"

definition counts_ok :: "game_state \<Rightarrow> bool" where
  "counts_ok s \<longleftrightarrow> (\<forall>i. in_deck s i \<longrightarrow> base_count s i + int (held_all s i) \<le> total_count s i)"

text \<open>The rank above the maximal one of a suit is gone.\<close>

definition tops_ok :: "game_state \<Rightarrow> bool" where
  "tops_ok s \<longleftrightarrow> (\<forall>i :: basic_card. in_deck s i \<longrightarrow> rank i = max_rank_of s i + 1 \<longrightarrow> discards_of s i = total_count s i)"

definition phase_ok :: "game_state \<Rightarrow> bool" where
  "phase_ok s \<longleftrightarrow> (endgame_turns s = -1 \<and> 1 \<le> cards_left s) \<or>
     (0 \<le> endgame_turns s \<and> endgame_turns s \<le> int (num_players s) \<and> cards_left s = 0)"

definition position_ok :: "game_state \<Rightarrow> bool" where
  "position_ok s \<longleftrightarrow> tables_ok s \<and> stacks_ok s \<and> orders_ok s \<and> counts_ok s \<and> tops_ok s \<and> phase_ok s"

lemma position_okD:
  assumes "position_ok s"
  shows "tables_ok s" "stacks_ok s" "orders_ok s" "counts_ok s" "tops_ok s" "phase_ok s"
  using assms by (auto simp: position_ok_def)

definition drawn_id :: "actual_card option \<Rightarrow> basic_card option" where
  "drawn_id d = (case d of None \<Rightarrow> None | Some c \<Rightarrow> basic_identity c)"

text \<open>The deck can still give the card.\<close>

definition draw_ok :: "game_state \<Rightarrow> actual_card option \<Rightarrow> bool" where
  "draw_ok s d \<longleftrightarrow> (\<forall>c. d = Some c \<longrightarrow> basic_identity c = None \<longrightarrow> suit_index c = -1) \<and> (\<forall>i. drawn_id d = Some i \<longrightarrow> in_deck s i \<and> base_count s i + int (held_all s i) + 1 \<le> total_count s i)"

definition legal :: "game_state \<Rightarrow> nat \<Rightarrow> perform \<Rightarrow> bool" where
  "legal s t act = (case act of
      P_Play a \<Rightarrow> nat a \<in> set (hands s ! t)
    | P_Discard a \<Rightarrow> nat a \<in> set (hands s ! t)
    | P_Colour _ _ \<Rightarrow> clue_tokens s > 0
    | P_Rank _ _ \<Rightarrow> clue_tokens s > 0
    | P_EndGame _ _ \<Rightarrow> False)"

inductive can_win :: "game_state \<Rightarrow> nat \<Rightarrow> bool" where
  won: "score s = max_score s \<Longrightarrow> can_win s t"
| move: "\<not> ended s \<Longrightarrow> legal s t act \<Longrightarrow> draw_ok s d \<Longrightarrow> can_win (advance_state s t act d) (next_player s t) \<Longrightarrow> can_win s t"

section \<open>One move\<close>

text \<open>What a play or discard of \<open>ord\<close> does: \<open>hit\<close> is a play that succeeds.\<close>

definition hit :: "game_state \<Rightarrow> perform \<Rightarrow> basic_card option" where
  "hit s act = (case act of P_Play a \<Rightarrow> (case deck_id s (nat a) of Some i \<Rightarrow> if is_playable s i then Some i else None | None \<Rightarrow> None) | _ \<Rightarrow> None)"

definition gone :: "perform \<Rightarrow> nat option" where
  "gone act = (case act of P_Play a \<Rightarrow> Some (nat a) | P_Discard a \<Rightarrow> Some (nat a) | _ \<Rightarrow> None)"

lemma remove_and_draw_fields [simp]:
  "play_stacks (remove_and_draw s i ord d ns) = play_stacks ns" "discard_stacks (remove_and_draw s i ord d ns) = discard_stacks ns"
  "max_ranks (remove_and_draw s i ord d ns) = max_ranks ns" "card_counts (remove_and_draw s i ord d ns) = card_counts ns"
  "variant (remove_and_draw s i ord d ns) = variant ns" "base_ids (remove_and_draw s i ord d ns) = base_ids ns"
  "all_ids (remove_and_draw s i ord d ns) = all_ids ns" "num_players (remove_and_draw s i ord d ns) = num_players ns"
  "clue_tokens (remove_and_draw s i ord d ns) = clue_tokens ns"
  by (simp_all add: remove_and_draw_def Let_def)

lemma add_discard_fields [simp]:
  "play_stacks (add_discard s i ns) = play_stacks ns" "max_ranks (add_discard s i ns) = max_ranks ns"
  "card_counts (add_discard s i ns) = card_counts ns" "variant (add_discard s i ns) = variant ns"
  "base_ids (add_discard s i ns) = base_ids ns" "all_ids (add_discard s i ns) = all_ids ns"
  "num_players (add_discard s i ns) = num_players ns" "clue_tokens (add_discard s i ns) = clue_tokens ns"
  "hands (add_discard s i ns) = hands ns" "deck (add_discard s i ns) = deck ns" "card_order (add_discard s i ns) = card_order ns"
  "cards_left (add_discard s i ns) = cards_left ns" "endgame_turns (add_discard s i ns) = endgame_turns ns"
  by (simp_all add: add_discard_def)

lemma advance_fixed [simp]:
  "max_ranks (advance_state s t act d) = max_ranks s" "card_counts (advance_state s t act d) = card_counts s"
  "variant (advance_state s t act d) = variant s" "base_ids (advance_state s t act d) = base_ids s"
  "all_ids (advance_state s t act d) = all_ids s" "num_players (advance_state s t act d) = num_players s"
  by (cases act; simp add: advance_state_def Let_def split: option.split)+

lemma advance_stacks:
  "play_stacks (advance_state s t act d) = (case hit s act of Some i \<Rightarrow> (play_stacks s)[nat (suit_index i) := rank i] | None \<Rightarrow> play_stacks s)"
  by (cases act) (auto simp: advance_state_def Let_def hit_def split: option.splits)

lemma advance_discards:
  "discard_stacks (advance_state s t act d) =
     (case (hit s act, gone act) of
        (None, Some ord) \<Rightarrow> (case deck_id s ord of Some i \<Rightarrow> discard_stacks (add_discard s i s) | None \<Rightarrow> discard_stacks s)
      | _ \<Rightarrow> discard_stacks s)"
  by (cases act) (auto simp: advance_state_def Let_def hit_def gone_def add_discard_def split: option.splits)

lemma advance_turns:
  "endgame_turns (advance_state s t act d) =
     (if endgame_turns s = -1 then (if gone act \<noteq> None \<and> cards_left s = 1 then int (num_players s) else -1)
      else if (\<exists>a b. act = P_EndGame a b) then endgame_turns s else endgame_turns s - 1)"
  "cards_left (advance_state s t act d) = (if endgame_turns s = -1 \<and> gone act \<noteq> None then cards_left s - 1 else cards_left s)"
  "card_order (advance_state s t act d) = (if endgame_turns s = -1 \<and> gone act \<noteq> None then card_order s + 1 else card_order s)"
  by (cases act; simp add: advance_state_def remove_and_draw_def Let_def gone_def split: option.split)+


definition lost :: "game_state \<Rightarrow> perform \<Rightarrow> basic_card option" where
  "lost s act = (case gone act of Some ord \<Rightarrow> deck_id s ord | None \<Rightarrow> None)"

definition got :: "game_state \<Rightarrow> perform \<Rightarrow> actual_card option \<Rightarrow> basic_card option" where
  "got s act d = (if endgame_turns s = -1 \<and> gone act \<noteq> None then drawn_id d else None)"

definition fresh :: "game_state \<Rightarrow> nat" where
  "fresh s = nat (card_order s + 1)"

lemma orders_okD:
  assumes "orders_ok s"
  shows "length (hands s) = num_players s" "0 < num_players s" "- 1 \<le> card_order s" "endgame_turns s = -1 \<Longrightarrow> slot (deck s) (fresh s) = None"
    "\<And>k. k < num_players s \<Longrightarrow> distinct (hands s ! k)"
    "\<And>k ord. k < num_players s \<Longrightarrow> ord \<in> set (hands s ! k) \<Longrightarrow> ord < fresh s"
    "\<And>k ord i. k < num_players s \<Longrightarrow> ord \<in> set (hands s ! k) \<Longrightarrow> deck_id s ord = Some i \<Longrightarrow> in_deck s i"
    "\<And>ord. endgame_turns s = -1 \<Longrightarrow> fresh s < ord \<Longrightarrow> slot (deck s) ord = None"
    "\<And>k ord. k < num_players s \<Longrightarrow> ord \<in> set (hands s ! k) \<Longrightarrow> deck_id s ord = None \<Longrightarrow> suit_index (deck_at s ord) = -1"
  using assms by (force simp: orders_ok_def fresh_def)+

lemma advance_deck:
  assumes "gone act \<noteq> None"
  shows "deck (advance_state s t act d) =
    (if slot (deck s) (fresh s) = None
     then put (deck s) (fresh s) (case d of Some c \<Rightarrow> c | None \<Rightarrow> new_actual (-1) (-1) (fresh s) (turn_count s)) else deck s)"
  using assms
  by (cases act) (auto simp: advance_state_def remove_and_draw_def Let_def gone_def fresh_def add_discard_def split: option.splits)

lemma advance_deck_clue: "gone act = None \<Longrightarrow> deck (advance_state s t act d) = deck s"
  by (cases act) (auto simp: advance_state_def Let_def gone_def)

lemma advance_deck_at: "ord < fresh s \<Longrightarrow> deck_at (advance_state s t act d) ord = deck_at s ord"
  using advance_deck [of act s t d] advance_deck_clue [of act s t d]
  by (cases "gone act = None") (auto simp: deck_at_def array_simps)

lemma advance_deck_id: "ord < fresh s \<Longrightarrow> deck_id (advance_state s t act d) ord = deck_id s ord"
  using advance_deck [of act s t d] advance_deck_clue [of act s t d]
  by (cases "gone act = None") (auto simp: deck_id_def deck_at_def array_simps)

lemma advance_deck_fresh:
  assumes "orders_ok s" "gone act \<noteq> None" "endgame_turns s = -1"
  shows "deck_id (advance_state s t act d) (fresh s) = drawn_id d"
  by (auto simp: deck_id_def deck_at_def advance_deck [OF assms(2)] orders_okD(4) [OF assms(1,3)] array_simps drawn_id_def new_actual_def basic_identity_def
      split: option.splits)

lemma advance_hands:
  assumes "orders_ok s" "t < num_players s" "gone act = Some ord" "ord \<in> set (hands s ! t)"
  shows "hands (advance_state s t act d) = (hands s)[t := (if endgame_turns s = -1 then [fresh s] else []) @ remove1 ord (hands s ! t)]"
  using assms orders_okD(1) [OF assms(1)]
  by (cases act) (auto simp: advance_state_def remove_and_draw_def Let_def gone_def fresh_def splice_index_of split: option.splits)

lemma advance_hands_clue: "gone act = None \<Longrightarrow> hands (advance_state s t act d) = hands s"
  by (cases act) (auto simp: advance_state_def Let_def gone_def)

definition legal_gone :: "game_state \<Rightarrow> nat \<Rightarrow> perform \<Rightarrow> bool" where
  "legal_gone s t act \<longleftrightarrow> (\<forall>ord. gone act = Some ord \<longrightarrow> ord \<in> set (hands s ! t))"

lemma legal_legal_gone: "legal s t act \<Longrightarrow> legal_gone s t act"
  by (cases act) (auto simp: legal_def legal_gone_def gone_def)

abbreviation one :: "bool \<Rightarrow> nat" where
  "one b \<equiv> (if b then 1 else 0)"

lemma length_filter_remove1: "x \<in> set xs \<Longrightarrow> length (filter P (remove1 x xs)) + one (P x) = length (filter P xs)"
  by (induction xs) auto

lemma held_step:
  assumes "orders_ok s" "t < num_players s" "legal_gone s t act" "k < num_players s"
  shows "held (advance_state s t act d) k i + one (k = t \<and> lost s act = Some i) = held s k i + one (k = t \<and> got s act d = Some i)"
proof (cases "gone act")
  case None
  then have "held (advance_state s t act d) k i = held s k i"
    by (simp add: held_def deck_id_def deck_at_def advance_deck_clue advance_hands_clue)
  then show ?thesis using None by (simp add: lost_def got_def)
next
  case (Some ord)
  then have o: "ord \<in> set (hands s ! t)" using assms(3) by (simp add: legal_gone_def)
  note h = advance_hands [OF assms(1,2) Some o, of d]
  have eq: "filter (\<lambda>x. deck_id (advance_state s t act d) x = Some i) xs = filter (\<lambda>x. deck_id s x = Some i) xs"
    if "set xs \<subseteq> set (hands s ! k)" for xs
    using that orders_okD(6) [OF assms(1,4)] advance_deck_id [of _ s t act d] by (intro filter_cong) auto
  show ?thesis
  proof (cases "k = t")
    case False
    then show ?thesis using eq [of "hands s ! k"] orders_okD(1) [OF assms(1)] by (simp add: held_def h)
  next
    case True
    have "set (remove1 ord (hands s ! t)) \<subseteq> set (hands s ! t)" by (rule set_remove1_subset)
    then have "held (advance_state s t act d) t i =
        length (filter (\<lambda>x. deck_id s x = Some i) (remove1 ord (hands s ! t))) + one (got s act d = Some i)"
      using eq [of "remove1 ord (hands s ! t)"] True orders_okD(1) [OF assms(1)] assms(2) Some
        advance_deck_fresh [OF assms(1), of act t d]
      by (auto simp: held_def h got_def)
    moreover have "length (filter (\<lambda>x. deck_id s x = Some i) (remove1 ord (hands s ! t))) + one (lost s act = Some i) = held s t i"
      unfolding held_def lost_def using length_filter_remove1 [OF o, of "\<lambda>x. deck_id s x = Some i"] Some by simp
    ultimately show ?thesis using True by simp
  qed
qed

lemma held_all_step:
  assumes "orders_ok s" "t < num_players s" "legal_gone s t act"
  shows "held_all (advance_state s t act d) i + one (lost s act = Some i) = held_all s i + one (got s act d = Some i)"
proof -
  have "(\<Sum>k < num_players s. held (advance_state s t act d) k i + one (k = t \<and> lost s act = Some i)) =
      (\<Sum>k < num_players s. held s k i + one (k = t \<and> got s act d = Some i))"
    using held_step [OF assms] by (intro sum.cong) auto
  moreover have "(\<Sum>k < num_players s. one (k = t \<and> b)) = one b" for b
    using assms(2) by (cases b) (simp_all add: sum.delta)
  ultimately show ?thesis by (simp add: held_all_def sum.distrib)
qed


section \<open>What a move changes\<close>

lemma lost_held:
  assumes "t < num_players s" "legal_gone s t act" "lost s act = Some i"
  shows "1 \<le> held s t i" "1 \<le> held_all s i"
proof -
  obtain ord where o: "gone act = Some ord" "deck_id s ord = Some i" using assms(3) by (auto simp: lost_def split: option.splits)
  then have "ord \<in> set (hands s ! t)" using assms(2) by (simp add: legal_gone_def)
  then have "0 < held s t i" using o(2) by (auto simp: held_def length_greater_0_conv filter_empty_conv)
  moreover have "held s t i \<le> held_all s i" unfolding held_all_def using assms(1) by (intro member_le_sum) auto
  ultimately show "1 \<le> held s t i" "1 \<le> held_all s i" by simp_all
qed

lemma lost_in_deck:
  assumes "orders_ok s" "t < num_players s" "legal_gone s t act" "lost s act = Some i"
  shows "in_deck s i"
  using assms orders_okD(7) [OF assms(1,2)] by (auto simp: lost_def legal_gone_def split: option.splits)

lemma hit_lost: "hit s act = Some i \<Longrightarrow> lost s act = Some i \<and> is_playable s i"
  by (auto simp: hit_def lost_def gone_def split: perform.splits option.splits if_splits)

lemma valid_suit: "in_deck s i \<Longrightarrow> in_deck s j \<Longrightarrow> nat (suit_index i) = nat (suit_index j) \<longleftrightarrow> suit_index i = suit_index j"
  by (auto simp: valid_id_def)

lemma playable_rank: "in_deck s i \<Longrightarrow> is_playable s i \<longleftrightarrow> rank i = stack_of s i + 1"
  using valid_known [of _ i] by (auto simp: is_playable_def playable_away_def)

lemma stack_step:
  assumes "tables_ok s" "\<And>i. hit s act = Some i \<Longrightarrow> in_deck s i" "in_deck s j"
  shows "stack_of (advance_state s t act d) j = (case hit s act of Some i \<Rightarrow> if suit_index i = suit_index j then rank i else stack_of s j | None \<Rightarrow> stack_of s j)"
  using assms valid_nat [OF assms(3)]
  by (auto simp: stack_of_def advance_stacks tables_ok_def valid_suit split: option.splits)

lemma discards_step:
  assumes "tables_ok s" "\<And>i. lost s act = Some i \<Longrightarrow> in_deck s i" "in_deck s (j :: basic_card)"
  shows "discards_of (advance_state s t act d) j = discards_of s j + int (one (hit s act = None \<and> lost s act = Some j))"
proof -
  have row: "length (discard_stacks s ! nat (suit_index j)) = 5" "nat (suit_index j) < length (discard_stacks s)"
    using assms(1) valid_nat [OF assms(3)] by (auto simp: tables_ok_def list_all_length)
  have add: "discards_of (add_discard s i s) j = discards_of s j + int (one (i = j))" if i: "in_deck s i" for i
  proof (cases "i = j")
    case True
    then show ?thesis using row valid_nat [OF assms(3)] by (simp add: add_discard_def discards_of_def)
  next
    case False
    then have "suit_index i \<noteq> suit_index j \<or> rank i \<noteq> rank j" by auto
    moreover have "rank i = rank j" if "nat (rank i - 1) = nat (rank j - 1)"
      using that valid_nat [OF i] valid_nat [OF assms(3)] by linarith
    ultimately have "nat (suit_index i) \<noteq> nat (suit_index j) \<or> nat (rank i - 1) \<noteq> nat (rank j - 1)"
      using valid_suit [OF i assms(3)] by blast
    then show ?thesis using row False
      by (cases "nat (suit_index i) = nat (suit_index j)") (auto simp: add_discard_def discards_of_def)
  qed
  show ?thesis
  proof (cases "hit s act = None \<and> lost s act \<noteq> None")
    case True
    then obtain ord i where "gone act = Some ord" "deck_id s ord = Some i" "lost s act = Some i"
      by (auto simp: lost_def split: option.splits)
    then have "discards_of (advance_state s t act d) j = discards_of (add_discard s i s) j"
      using True by (simp add: discards_of_def advance_discards)
    then show ?thesis using add [OF assms(2)] \<open>lost s act = Some i\<close> True by auto
  next
    case False
    then have "discard_stacks (advance_state s t act d) = discard_stacks s"
      by (auto simp: advance_discards lost_def split: option.splits)
    then show ?thesis using False by (auto simp: discards_of_def)
  qed
qed

lemma base_step:
  assumes "tables_ok s" "\<And>i. lost s act = Some i \<Longrightarrow> in_deck s i" "in_deck s (j :: basic_card)"
  shows "base_count (advance_state s t act d) j = base_count s j + int (one (lost s act = Some j))"
proof -
  have h: "\<And>i. hit s act = Some i \<Longrightarrow> in_deck s i" using hit_lost assms(2) by blast
  note st = stack_step [OF assms(1) h assms(3), where t = t and act = act and d = d] and di = discards_step [OF assms, where t = t and act = act and d = d]
  show ?thesis
  proof (cases "hit s act")
    case None
    then show ?thesis using st di valid_known [OF assms(3)] by (auto simp: base_count_def)
  next
    case (Some i)
    have r: "lost s act = Some i" "rank i = stack_of s i + 1" using hit_lost [OF Some] playable_rank [OF h [OF Some]] by auto
    have e: "i = j \<longleftrightarrow> suit_index i = suit_index j \<and> rank i = rank j" by auto
    have "stack_of s i = stack_of s j" if "suit_index i = suit_index j" using that by (simp add: stack_of_def)
    then show ?thesis using st di r Some valid_known [OF assms(3)] e by (auto simp: base_count_def)
  qed
qed

lemma total_step [simp]: "total_count (advance_state s t act d) i = total_count s i"
  by (simp add: total_count_def)

lemma max_rank_step [simp]: "max_rank_of (advance_state s t act d) i = max_rank_of s i"
  by (simp add: max_rank_of_def)


lemma hit_useful:
  assumes "position_ok s" "t < num_players s" "legal_gone s t act" "hit s act = Some i"
  shows "in_deck s i" "rank i = stack_of s i + 1" "rank i \<le> max_rank_of s i" "\<not> is_basic_trash s i"
proof -
  note p = position_okD [OF assms(1)]
  have l: "lost s act = Some i" "is_playable s i" using hit_lost [OF assms(4)] by auto
  show v: "in_deck s i" using lost_in_deck [OF p(3) assms(2,3) l(1)] .
  show r: "rank i = stack_of s i + 1" using playable_rank [OF v] l(2) by simp
  show m: "rank i \<le> max_rank_of s i"
  proof (rule ccontr)
    assume "\<not> rank i \<le> max_rank_of s i"
    then have "rank i = max_rank_of s i + 1" using r stack_bounds [OF p(1,2) v] by simp
    then have "discards_of s i = total_count s i" using p(5) v by (simp add: tops_ok_def)
    moreover have "base_count s i + int (held_all s i) \<le> total_count s i" using p(4) v by (simp add: counts_ok_def)
    moreover have "discards_of s i \<le> base_count s i" using valid_known [OF v] by (simp add: base_count_def)
    ultimately show False using lost_held(2) [OF assms(2,3) l(1)] by simp
  qed
  show "\<not> is_basic_trash s i" using r m valid_known [OF v] by (simp add: is_basic_trash_def)
qed

lemma sum_list_update_int: "k < length xs \<Longrightarrow> sum_list (xs[k := x]) = sum_list xs + x - (xs ! k :: int)"
  by (induction xs arbitrary: k) (auto split: nat.split)

lemma score_step:
  assumes "tables_ok s" "\<And>i. hit s act = Some i \<Longrightarrow> in_deck s i"
  shows "score (advance_state s t act d) = score s + int (one (hit s act \<noteq> None))"
proof (cases "hit s act")
  case (Some i)
  have v: "in_deck s i" using assms(2) [OF Some] .
  then have "rank i = play_stacks s ! nat (suit_index i) + 1"
    using playable_rank hit_lost [OF Some] by (auto simp: stack_of_def)
  moreover have "nat (suit_index i) < length (play_stacks s)" using assms(1) valid_nat [OF v] by (simp add: tables_ok_def)
  ultimately show ?thesis using Some by (simp add: score_def advance_stacks sum_list_update_int)
qed (simp add: score_def advance_stacks)

lemma max_score_step [simp]: "max_score (advance_state s t act d) = max_score s"
  by (simp add: max_score_def)

section \<open>Positions stay right\<close>

lemma rows_update: "list_all (\<lambda>row. length row = 5) rows \<Longrightarrow> list_all (\<lambda>row. length row = 5) (rows[k := (rows ! k)[j := y]])"
  by (cases "k < length rows") (auto simp: list_all_length nth_list_update)

lemma advance_tables:
  assumes "tables_ok s"
  shows "tables_ok (advance_state s t act d)"
proof -
  have "list_all (\<lambda>row. length row = 5) (discard_stacks (add_discard s i s))" "length (discard_stacks (add_discard s i s)) = n_suits s" for i
    using assms by (simp_all add: tables_ok_def add_discard_def rows_update)
  then show ?thesis using assms
    by (auto simp: tables_ok_def advance_stacks advance_discards split: option.splits)
qed

lemma stacks_ok_iff:
  assumes "tables_ok s"
  shows "stacks_ok s \<longleftrightarrow> (\<forall>i :: basic_card. in_deck s i \<longrightarrow>
    0 \<le> stack_of s i \<and> stack_of s i \<le> max_rank_of s i \<and> max_rank_of s i \<le> 5 \<and> 0 \<le> discards_of s i)"
proof
  assume s: "stacks_ok s"
  show "\<forall>i :: basic_card. in_deck s i \<longrightarrow>
      0 \<le> stack_of s i \<and> stack_of s i \<le> max_rank_of s i \<and> max_rank_of s i \<le> 5 \<and> 0 \<le> discards_of s i"
  proof (intro allI impI)
    fix i :: basic_card assume v: "in_deck s i"
    have "0 \<le> discards_of s i"
      using s assms valid_nat [OF v] by (auto simp: stacks_ok_def tables_ok_def discards_of_def list_all_length)
    then show "0 \<le> stack_of s i \<and> stack_of s i \<le> max_rank_of s i \<and> max_rank_of s i \<le> 5 \<and> 0 \<le> discards_of s i"
      using stack_bounds [OF assms s v] by simp
  qed
next
  assume h: "\<forall>i :: basic_card. in_deck s i \<longrightarrow>
      0 \<le> stack_of s i \<and> stack_of s i \<le> max_rank_of s i \<and> max_rank_of s i \<le> 5 \<and> 0 \<le> discards_of s i"
  have v: "in_deck s (mk_id (int k) (int r + 1))" if "k < n_suits s" "r < 5" for k r
    using that by (simp add: valid_id_def mk_id_def max_stack_rank_def)
  have "0 \<le> play_stacks s ! k \<and> play_stacks s ! k \<le> max_ranks s ! k \<and> max_ranks s ! k \<le> 5" if "k < n_suits s" for k
    using h [rule_format, OF v [OF that, of 0]] by (simp add: stack_of_def max_rank_of_def mk_id_def)
  moreover have "0 \<le> discard_stacks s ! k ! r" if "k < n_suits s" "r < 5" for k r
    using h [rule_format, OF v [OF that]] by (simp add: discards_of_def mk_id_def)
  ultimately show "stacks_ok s" using assms
    by (auto simp: stacks_ok_def tables_ok_def list_all2_conv_all_nth list_all_length)
qed

lemma advance_stacks_ok:
  assumes "position_ok s" "t < num_players s" "legal_gone s t act"
  shows "stacks_ok (advance_state s t act d)"
proof -
  note p = position_okD [OF assms(1)]
  have h: "\<And>i. hit s act = Some i \<Longrightarrow> in_deck s i" using hit_useful(1) [OF assms] .
  have l: "\<And>i. lost s act = Some i \<Longrightarrow> in_deck s i" using lost_in_deck [OF p(3) assms(2,3)] .
  have "0 \<le> stack_of (advance_state s t act d) i \<and> stack_of (advance_state s t act d) i \<le> max_rank_of s i \<and>
      max_rank_of s i \<le> 5 \<and> 0 \<le> discards_of (advance_state s t act d) i" if v: "in_deck s i" for i :: basic_card
  proof -
    have "0 \<le> discards_of s i" "0 \<le> stack_of s i" "stack_of s i \<le> max_rank_of s i" "max_rank_of s i \<le> 5"
      using p(2) v by (auto simp: stacks_ok_iff [OF p(1)])
    moreover have "0 \<le> rank j \<and> rank j \<le> max_rank_of s i" if "hit s act = Some j" "suit_index j = suit_index i" for j
      using hit_useful [OF assms that(1)] that(2) by (simp add: valid_id_def max_rank_of_def)
    ultimately show ?thesis
      using discards_step [OF p(1) l v, where t = t and act = act and d = d] stack_step [OF p(1) h v, where t = t and act = act and d = d]
      by (cases "hit s act") auto
  qed
  then show ?thesis by (simp add: stacks_ok_iff [OF advance_tables [OF p(1)]])
qed

lemma advance_counts_ok:
  assumes "position_ok s" "t < num_players s" "legal_gone s t act" "draw_ok s d"
  shows "counts_ok (advance_state s t act d)"
proof -
  note p = position_okD [OF assms(1)]
  have l: "\<And>i. lost s act = Some i \<Longrightarrow> in_deck s i" using lost_in_deck [OF p(3) assms(2,3)] .
  have "base_count (advance_state s t act d) i + int (held_all (advance_state s t act d) i) \<le> total_count s i" if v: "in_deck s i" for i :: basic_card
  proof -
    have "base_count s i + int (held_all s i + one (got s act d = Some i)) \<le> total_count s i"
      using p(4) assms(4) v by (auto simp: counts_ok_def got_def draw_ok_def)
    then show ?thesis using held_all_step [OF p(3) assms(2,3), where d = d and i = i] base_step [OF p(1) l v, where t = t and act = act and d = d] by linarith
  qed
  then show ?thesis by (simp add: counts_ok_def)
qed

lemma advance_tops_ok:
  assumes "position_ok s" "t < num_players s" "legal_gone s t act"
  shows "tops_ok (advance_state s t act d)"
proof -
  note p = position_okD [OF assms(1)]
  have l: "\<And>i. lost s act = Some i \<Longrightarrow> in_deck s i" using lost_in_deck [OF p(3) assms(2,3)] .
  have "discards_of (advance_state s t act d) i = total_count s i" if v: "in_deck s i" "rank i = max_rank_of s i + 1" for i :: basic_card
  proof -
    have t: "discards_of s i = total_count s i" using p(5) v by (simp add: tops_ok_def)
    have "lost s act \<noteq> Some i"
    proof
      assume "lost s act = Some i"
      then have "1 \<le> held_all s i" by (rule lost_held(2) [OF assms(2,3)])
      moreover have "base_count s i + int (held_all s i) \<le> total_count s i" using p(4) v(1) by (simp add: counts_ok_def)
      moreover have "discards_of s i \<le> base_count s i" using valid_known [OF v(1)] by (simp add: base_count_def)
      ultimately show False using t by simp
    qed
    then show ?thesis using discards_step [OF p(1) l v(1), where t = t and act = act and d = d] t by simp
  qed
  then show ?thesis by (simp add: tops_ok_def)
qed


lemma advance_orders_ok:
  assumes "orders_ok s" "t < num_players s" "legal_gone s t act" "draw_ok s d" "endgame_turns s \<noteq> 0"
  shows "orders_ok (advance_state s t act d)"
proof (cases "gone act")
  case None
  then show ?thesis using assms(1,5)
    by (auto simp: orders_ok_def advance_hands_clue advance_deck_clue advance_turns deck_id_def deck_at_def split: if_splits)
next
  case (Some ord)
  let ?s = "advance_state s t act d" and ?drew = "endgame_turns s = -1"
  note o = orders_okD [OF assms(1)]
  have m: "ord \<in> set (hands s ! t)" using assms(3) Some by (simp add: legal_gone_def)
  note h = advance_hands [OF assms(1,2) Some m, of d]
  have f: "card_order s < int (fresh s)" "int (fresh s) = card_order s + 1" using o(3) by (simp_all add: fresh_def)
  have sub: "set (remove1 ord (hands s ! t)) \<subseteq> set (hands s ! t)" by (rule set_remove1_subset)
  have hand: "distinct (hands ?s ! k) \<and> (\<forall>x \<in> set (hands ?s ! k). x \<in> set (hands s ! k) \<or> (?drew \<and> x = fresh s))" if k: "k < num_players s" for k
    using o(1,5,6) k sub unfolding h by (cases "k = t") (auto dest!: subsetD [OF sub])
  have ids: "in_deck s i" if "k < num_players s" "x \<in> set (hands ?s ! k)" "deck_id ?s x = Some i" for k x i
  proof (cases "x \<in> set (hands s ! k)")
    case True
    then show ?thesis using that o(6,7) advance_deck_id [of x s t act d] by auto
  next
    case False
    then have "x = fresh s" ?drew using hand that(1,2) by auto
    then show ?thesis using that(3) advance_deck_fresh [OF assms(1), of act t d] Some assms(4) by (auto simp: draw_ok_def)
  qed
  have suit: "suit_index (deck_at ?s x) = -1" if "k < num_players s" "x \<in> set (hands ?s ! k)" "deck_id ?s x = None" for k x
  proof (cases "x \<in> set (hands s ! k)")
    case True
    then show ?thesis using that o(6,9) advance_deck_id [of x s t act d] advance_deck_at [of x s t act d] by auto
  next
    case False
    then have x: "x = fresh s" ?drew using hand that(1,2) by auto
    have g: "gone act \<noteq> None" using Some by simp
    have "deck_at ?s x = (case d of Some c \<Rightarrow> c | None \<Rightarrow> new_actual (-1) (-1) (fresh s) (turn_count s))"
      unfolding deck_at_def advance_deck [OF g] x(1) using o(4) [OF x(2)] by (simp add: array_simps)
    then show ?thesis using that(3) assms(4) by (cases d) (auto simp: new_actual_def deck_id_def draw_ok_def)
  qed
  have ord: "int x \<le> card_order ?s" if "k < num_players s" "x \<in> set (hands ?s ! k)" for k x
    using hand [OF that(1)] that o(6) [OF that(1), of x] f Some by (fastforce simp: advance_turns)
  have beyond: "slot (deck ?s) x = None" if e: "endgame_turns ?s = -1" "card_order ?s < int x" for x
  proof -
    have "?drew" using e(1) Some o(2) assms(5) by (auto simp: advance_turns split: if_splits)
    then show ?thesis
      using e(2) Some o(4) o(8) [of x] f by (auto simp: advance_deck advance_turns array_simps)
  qed
  have "length (hands ?s) = num_players ?s" "0 < num_players ?s" "- 1 \<le> card_order ?s"
    using o(1,2,3) by (simp_all add: h advance_turns)
  moreover have "distinct (hands ?s ! k)" if "k < num_players ?s" for k using hand that by simp
  moreover have "int x \<le> card_order ?s \<and> (\<forall>i. deck_id ?s x = Some i \<longrightarrow> in_deck ?s i) \<and> (deck_id ?s x = None \<longrightarrow> suit_index (deck_at ?s x) = -1)"
    if "k < num_players ?s" "x \<in> set (hands ?s ! k)" for k x
    using that ids suit ord by simp
  ultimately show ?thesis using beyond unfolding orders_ok_def by blast
qed

lemma advance_phase_ok:
  assumes "phase_ok s" "\<not> ended s" "\<And>a b. act \<noteq> P_EndGame a b"
  shows "phase_ok (advance_state s t act d)"
  using assms by (auto simp: phase_ok_def advance_turns ended_def)

lemma legal_not_end: "legal s t act \<Longrightarrow> act \<noteq> P_EndGame a b"
  by (auto simp: legal_def)

lemma advance_ok:
  assumes "position_ok s" "t < num_players s" "\<not> ended s" "legal s t act" "draw_ok s d"
  shows "position_ok (advance_state s t act d)"
proof -
  note g = legal_legal_gone [OF assms(4)] and p = position_okD [OF assms(1)]
  show ?thesis
    unfolding position_ok_def
    using advance_tables [OF p(1)] advance_stacks_ok [OF assms(1,2) g] advance_orders_ok [OF p(3) assms(2) g assms(5)] assms(3)
      advance_counts_ok [OF assms(1,2) g assms(5)] advance_tops_ok [OF assms(1,2) g]
      advance_phase_ok [OF p(6) assms(3) legal_not_end [OF assms(4)]]
    by (simp add: ended_def)
qed

lemma next_player_less: "0 < num_players s \<Longrightarrow> next_player s t < num_players s"
  by (simp add: next_player_def)

end
