(* ===== verification/Endgame_Search.thy ===== *)
theory Endgame_Search
  imports Endgame_Positions Games
begin

text \<open>
  The search of \<open>src/src/conventions/shared/endgame-helper.js\<close>: \<open>winnable_simpler\<close> and \<open>winnable_if\<close>, with the cache they
  share and the clock that stops them. The clock is outside the program: \<open>late n\<close> says whether the time is up at its
  \<open>n\<close>-th reading. The search is run with fuel, the depth of its recursion, for which \<open>search_fuel\<close> is enough.
\<close>

section \<open>Keys of the cache\<close>

definition card_name :: "game_state \<Rightarrow> actual_card option \<Rightarrow> string" where
  "card_name s c = (case c of Some d \<Rightarrow> log_id (variant s) d | None \<Rightarrow> '''')"

definition hash_state :: "game_state \<Rightarrow> string" where
  "hash_state s =
     join_with '','' (map (card_name s) (deck s)) @ '','' @
     join_with '','' (map (\<lambda>ord. card_name s (slot (deck s) ord)) (concat (hands s))) @ '','' @
     int_string (clue_tokens s) @ '','' @ int_string (endgame_turns s)"

definition quoted :: "string \<Rightarrow> string" where
  "quoted xs = CHR 0x22 # xs @ [CHR 0x22]"

definition remaining_json :: "remaining list \<Rightarrow> string" where
  "remaining_json rs =
     ''['' @ join_with '','' (map (\<lambda>r.
        ''{'' @ quoted ''id'' @ '':{'' @ quoted ''suitIndex'' @ '':'' @ int_string (suit_index (r_id r)) @ '','' @
        quoted ''rank'' @ '':'' @ int_string (rank (r_id r)) @ ''},'' @ quoted ''missing'' @ '':'' @ int_string (missing r) @ '','' @
        quoted ''all'' @ '':'' @ (if r_all r then ''true'' else ''false'') @ ''}'') rs) @ '']''"

definition search_key :: "game_state \<Rightarrow> nat \<Rightarrow> remaining list \<Rightarrow> string" where
  "search_key s t rs =
     hash_state s @ '','' @ int_string (int t) @ '','' @
     remaining_json (filter (\<lambda>r. log_id (variant s) (r_id r) \<noteq> ''xx'') rs)"

section \<open>The search\<close>

record search =
  cache :: "string \<rightharpoonup> bool"
  readings :: nat

definition read_clock :: "(nat \<Rightarrow> bool) \<Rightarrow> search \<Rightarrow> search result" where
  "read_clock late sv =
     (if late (readings sv) then Inl (Thrown ''timed out'') else Inr (sv\<lparr>readings := readings sv + 1\<rparr>))"

definition is_clue :: "perform \<Rightarrow> bool" where
  "is_clue act = (case act of P_Colour _ _ \<Rightarrow> True | P_Rank _ _ \<Rightarrow> True | _ \<Rightarrow> False)"

text \<open>The card of an identity that is drawn next.\<close>

definition draw_of :: "game_state \<Rightarrow> basic_card \<Rightarrow> actual_card" where
  "draw_of s i = new_actual (suit_index i) (rank i) (nat (card_order s + 1)) (turn_count s)"

type_synonym searcher = "game_state \<Rightarrow> nat \<Rightarrow> remaining list \<Rightarrow> search \<Rightarrow> (bool \<times> search) result"

text \<open>The draws that win; there are none to name when nothing is drawn.\<close>

definition winnable_if_with :: "searcher \<Rightarrow> game_state \<Rightarrow> nat \<Rightarrow> perform \<Rightarrow> remaining list \<Rightarrow> search \<Rightarrow>
    ((bool \<times> basic_card list option) \<times> search) result" where
  "winnable_if_with rec s t act rs sv =
     (if is_clue act \<or> cards_left s = 0
      then bindR (rec (advance_state s t act None) (next_player s t) rs sv) (\<lambda>(w, sv1). Inr ((w, None), sv1))
      else
        bindR (foldR (\<lambda>(ds, sv1) r.
            bindR (remove_remaining rs (r_id r)) (\<lambda>rs1.
            bindR (rec (advance_state s t act (Some (draw_of s (r_id r)))) (next_player s t) rs1 sv1) (\<lambda>(w, sv2).
              Inr (if w then ds @ [r_id r] else ds, sv2)))) ([], sv) rs)
          (\<lambda>(ds, sv1). Inr ((ds \<noteq> [], Some ds), sv1)))"

fun some_move :: "(perform \<Rightarrow> search \<Rightarrow> ((bool \<times> 'a) \<times> search) result) \<Rightarrow> perform list \<Rightarrow> search \<Rightarrow> (bool \<times> search) result" where
  "some_move f [] sv = Inr (False, sv)"
| "some_move f (act # acts) sv = bindR (f act sv) (\<lambda>((w, _), sv1). if w then Inr (True, sv1) else some_move f acts sv1)"

fun winnable_simpler :: "(nat \<Rightarrow> bool) \<Rightarrow> nat \<Rightarrow> searcher" where
  "winnable_simpler late 0 = (\<lambda>s t rs sv. Inl OutOfFuel)"
| "winnable_simpler late (Suc fuel) = (\<lambda>s t rs sv.
     if score s = max_score s then Inr (True, sv)
     else if unwinnable_state s t then Inr (False, sv)
     else
       bindR (read_clock late sv) (\<lambda>sv1.
         case cache sv1 (search_key s t rs) of
           Some b \<Rightarrow> Inr (b, sv1)
         | None \<Rightarrow>
             bindR (some_move (\<lambda>act. winnable_if_with (winnable_simpler late fuel) s t act rs) (search_moves s t) sv1) (\<lambda>(b, sv2).
               Inr (b, sv2\<lparr>cache := (cache sv2)(search_key s t rs \<mapsto> b)\<rparr>))))"

text \<open>Each clue costs a token, each card drawn two units, and the last round a unit per turn.\<close>

definition search_weight :: "game_state \<Rightarrow> nat" where
  "search_weight s =
     (if endgame_turns s = -1 then 2 * nat (cards_left s + int (num_players s)) + nat (clue_tokens s) else nat (endgame_turns s))"

definition search_fuel :: "game_state \<Rightarrow> nat" where
  "search_fuel s = search_weight s + 1"

definition winnable_if :: "(nat \<Rightarrow> bool) \<Rightarrow> game_state \<Rightarrow> nat \<Rightarrow> perform \<Rightarrow> remaining list \<Rightarrow> search \<Rightarrow>
    ((bool \<times> basic_card list option) \<times> search) result" where
  "winnable_if late s t act rs sv = winnable_if_with (winnable_simpler late (search_fuel s)) s t act rs sv"

section \<open>What the search decides\<close>

text \<open>The verdict without cache, clock and fuel.\<close>

inductive search_wins :: "game_state \<Rightarrow> nat \<Rightarrow> remaining list \<Rightarrow> bool" where
  won: "score s = max_score s \<Longrightarrow> search_wins s t rs"
| no_draw: "\<not> unwinnable_state s t \<Longrightarrow> act \<in> set (search_moves s t) \<Longrightarrow> is_clue act \<or> cards_left s = 0 \<Longrightarrow>
    search_wins (advance_state s t act None) (next_player s t) rs \<Longrightarrow> search_wins s t rs"
| drawn: "\<not> unwinnable_state s t \<Longrightarrow> act \<in> set (search_moves s t) \<Longrightarrow> \<not> (is_clue act \<or> cards_left s = 0) \<Longrightarrow>
    r \<in> set rs \<Longrightarrow> remove_remaining rs (r_id r) = Inr rs' \<Longrightarrow>
    search_wins (advance_state s t act (Some (draw_of s (r_id r)))) (next_player s t) rs' \<Longrightarrow> search_wins s t rs"

inductive_cases search_winsE: "search_wins s t rs"

section \<open>Identities left in the deck\<close>

definition remaining_ok :: "game_state \<Rightarrow> remaining list \<Rightarrow> bool" where
  "remaining_ok s rs \<longleftrightarrow> distinct (map r_id rs) \<and>
     (\<forall>r \<in> set rs. in_deck s (r_id r) \<and> 1 \<le> missing r \<and>
        base_count s (r_id r) + int (held_all s (r_id r)) + missing r \<le> total_count s (r_id r))"

lemma basic_card_eq: "(i :: basic_card) = j \<longleftrightarrow> suit_index i = suit_index j \<and> rank i = rank j"
  by auto

lemma singleton_list: "distinct xs \<Longrightarrow> set xs = {k} \<Longrightarrow> xs = [k]"
  by (cases xs; cases "tl xs") auto

lemma map_drop_nth: "map f (drop_nth k xs) = drop_nth k (map f xs)"
  by (simp add: drop_nth_def take_map drop_map)

lemma distinct_drop_nth:
  assumes "distinct ys" "k < length ys"
  shows "distinct (drop_nth k ys)" "ys ! k \<notin> set (drop_nth k ys)"
proof -
  have "ys = take k ys @ ys ! k # drop (Suc k) ys" using assms(2) by (rule id_take_nth_drop)
  with assms(1) have "distinct (take k ys @ ys ! k # drop (Suc k) ys)" by simp
  then show "distinct (drop_nth k ys)" "ys ! k \<notin> set (drop_nth k ys)" by (auto simp: drop_nth_def)
qed

text \<open>Removing a copy of an identity that is there.\<close>

lemma remove_remaining_some:
  assumes "r \<in> set rs" "distinct (map r_id rs)"
  shows "\<exists>rs'. remove_remaining rs (r_id r) = Inr rs' \<and> distinct (map r_id rs') \<and>
    (\<forall>q \<in> set rs'. if r_id q = r_id r then missing q = missing r - 1 \<and> missing r \<noteq> 1 else q \<in> set rs)"
proof -
  obtain k where k: "k < length rs" "rs ! k = r" using assms(1) by (auto simp: in_set_conv_nth)
  have same: "suit_index (r_id q) = suit_index (r_id r) \<and> rank (r_id q) = rank (r_id r) \<longleftrightarrow> r_id q = r_id r" for q
    by (rule basic_card_eq [symmetric])
  have uniq: "j = k" if "j < length rs" "r_id (rs ! j) = r_id r" for j
  proof -
    have "map r_id rs ! j = map r_id rs ! k" using that k by simp
    then show ?thesis using assms(2) that(1) k(1) nth_eq_iff_index_eq [of "map r_id rs" j k] by (simp only: length_map)
  qed
  have "x \<in> set (find_indices (\<lambda>q. r_id q = r_id r) rs) \<longleftrightarrow> x = k" for x
    using uniq [of x] k by (auto simp: find_indices_def)
  then have "set (find_indices (\<lambda>q. r_id q = r_id r) rs) = {k}" by blast
  then have idx: "find_indices (\<lambda>q. suit_index (r_id q) = suit_index (r_id r) \<and> rank (r_id q) = rank (r_id r)) rs = [k]"
    unfolding same by (intro singleton_list) (simp_all add: find_indices_def)
  show ?thesis
  proof (cases "missing r = 1")
    case True
    have d: "distinct (map r_id (drop_nth k rs))" "map r_id rs ! k \<notin> set (map r_id (drop_nth k rs))"
      using distinct_drop_nth [OF assms(2), of k] k(1) unfolding map_drop_nth by simp_all
    moreover have "q \<in> set rs \<and> r_id q \<noteq> r_id r" if q: "q \<in> set (drop_nth k rs)" for q
    proof
      show "q \<in> set rs" using q by (auto simp: drop_nth_def dest: in_set_takeD in_set_dropD)
      show "r_id q \<noteq> r_id r" using d(2) k q by (metis image_eqI list.set_map nth_map)
    qed
    ultimately show ?thesis using True idx k by (auto simp: remove_remaining_def)
  next
    case False
    let ?r = "\<lparr>r_id = r_id r, missing = missing r - 1, r_all = r_all r\<rparr>"
    have "map r_id (rs[k := ?r]) = map r_id rs" using k by (simp add: map_update list_update_same_conv)
    then have "distinct (map r_id (rs[k := ?r]))" using assms(2) by simp
    moreover have "if r_id q = r_id r then missing q = missing r - 1 \<and> missing r \<noteq> 1 else q \<in> set rs"
      if m: "q \<in> set (rs[k := ?r])" for q
    proof -
      obtain j where "j < length (rs[k := ?r])" and q: "rs[k := ?r] ! j = q" using m unfolding in_set_conv_nth by blast
      then have "j < length rs" by simp
      then show ?thesis using False uniq [of j] unfolding q [symmetric] by (cases "j = k") auto
    qed
    ultimately show ?thesis using False idx k by (auto simp: remove_remaining_def)
  qed
qed

section \<open>Moves of the search\<close>

lemma set_insert_play: "set (insert_play P x xs) = insert x (set xs)"
  by (induction P x xs rule: insert_play.induct) auto

lemma set_get_playables: "set (get_playables s t) = {ord \<in> set (hands s ! t). is_playable s (deck_at s ord)}"
proof -
  have "set (fold (insert_play P) xs ys) = set xs \<union> set ys" for P and xs ys :: "nat list"
    by (induction xs arbitrary: ys) (auto simp: set_insert_play)
  then show ?thesis by (auto simp: get_playables_def)
qed

lemma search_moves_legal: "act \<in> set (search_moves s t) \<Longrightarrow> legal s t act"
  by (auto simp: search_moves_def legal_def set_get_playables dest!: find_SomeD [OF sym] split: option.splits if_splits)

lemma is_clue_gone: "legal s t act \<Longrightarrow> is_clue act \<longleftrightarrow> gone act = None"
  by (auto simp: is_clue_def gone_def legal_def split: perform.splits)

lemma draw_of_id: "in_deck s i \<Longrightarrow> drawn_id (Some (draw_of s i)) = Some i"
  by (auto simp: drawn_id_def draw_of_def new_actual_def basic_identity_def raw_def dest: valid_known)

lemma remaining_draw_ok: "remaining_ok s rs \<Longrightarrow> r \<in> set rs \<Longrightarrow> draw_ok s (Some (draw_of s (r_id r)))"
  using draw_of_id [of s "r_id r"]
  by (auto simp: remaining_ok_def draw_ok_def draw_of_def new_actual_def basic_identity_def dest: valid_known)

lemma draw_ok_None [simp]: "draw_ok s None"
  by (simp add: draw_ok_def drawn_id_def)

lemma ids_out_step:
  assumes "position_ok s" "t < num_players s" "legal s t act" "in_deck s (i :: basic_card)"
  shows "base_count (advance_state s t act d) i + int (held_all (advance_state s t act d) i) =
    base_count s i + int (held_all s i) + int (one (got s act d = Some i))"
proof -
  note p = position_okD [OF assms(1)] and g = legal_legal_gone [OF assms(3)]
  show ?thesis
    using held_all_step [OF p(3) assms(2) g, where d = d and i = i]
      base_step [OF p(1) lost_in_deck [OF p(3) assms(2) g] assms(4), where t = t and act = act and d = d] by linarith
qed

lemma remaining_no_draw:
  assumes "position_ok s" "t < num_players s" "legal s t act" "remaining_ok s rs" "is_clue act \<or> cards_left s = 0"
  shows "remaining_ok (advance_state s t act None) rs"
  using assms(4,5) ids_out_step [OF assms(1-3), where d = None] by (auto simp: remaining_ok_def got_def drawn_id_def)

lemma remaining_draw:
  assumes "position_ok s" "t < num_players s" "legal s t act" "remaining_ok s rs" "\<not> is_clue act" "cards_left s \<noteq> 0"
    and "r \<in> set rs" "remove_remaining rs (r_id r) = Inr rs'"
  shows "remaining_ok (advance_state s t act (Some (draw_of s (r_id r)))) rs'"
proof -
  let ?d = "Some (draw_of s (r_id r))"
  have v: "in_deck s (r_id q) \<and> 1 \<le> missing q \<and> base_count s (r_id q) + int (held_all s (r_id q)) + missing q \<le> total_count s (r_id q)"
    if "q \<in> set rs" for q using that assms(4) by (simp add: remaining_ok_def)
  have d: "distinct (map r_id rs)" using assms(4) by (simp add: remaining_ok_def)
  have rs': "distinct (map r_id rs')"
    "\<forall>q \<in> set rs'. if r_id q = r_id r then missing q = missing r - 1 \<and> missing r \<noteq> 1 else q \<in> set rs"
    using remove_remaining_some [OF assms(7) d] assms(8) by auto
  have got: "got s act ?d = Some (r_id r)"
    using draw_of_id [OF v [OF assms(7), THEN conjunct1]] position_okD(6) [OF assms(1)] assms(6) is_clue_gone [OF assms(3)] assms(5)
    by (auto simp: got_def phase_ok_def)
  have "in_deck s (r_id q) \<and> 1 \<le> missing q \<and>
      base_count (advance_state s t act ?d) (r_id q) + int (held_all (advance_state s t act ?d) (r_id q)) + missing q \<le> total_count s (r_id q)"
    if q: "q \<in> set rs'" for q
  proof (cases "r_id q = r_id r")
    case True
    then show ?thesis using rs'(2) q v [OF assms(7)] ids_out_step [OF assms(1-3), of "r_id r" ?d] got by auto
  next
    case False
    then have "q \<in> set rs" using rs'(2) q by auto
    then show ?thesis using v [of q] ids_out_step [OF assms(1-3), of "r_id q" ?d] got False by auto
  qed
  then show ?thesis using rs'(1) by (auto simp: remaining_ok_def)
qed

section \<open>The search ends\<close>

lemma search_weight_less:
  assumes "position_ok s" "\<not> ended s" "legal s t act"
  shows "search_weight (advance_state s t act d) < search_weight s"
proof -
  have ph: "phase_ok s" using assms(1) by (rule position_okD(6))
  have tok: "gone act \<noteq> None \<Longrightarrow> clue_tokens (advance_state s t act d) \<le> max (clue_tokens s + 1) (clue_tokens s)"
    "gone act = None \<Longrightarrow> clue_tokens (advance_state s t act d) = clue_tokens s - 1 \<and> clue_tokens s > 0"
    using assms(3) by (auto simp: advance_state_def legal_def gone_def Let_def split: perform.splits option.splits)
  show ?thesis
  proof (cases "endgame_turns s = -1")
    case False
    then show ?thesis using ph assms(2) legal_not_end [OF assms(3)]
      by (auto simp: search_weight_def advance_turns phase_ok_def ended_def)
  next
    case True
    then have c: "1 \<le> cards_left s" using ph by (simp add: phase_ok_def)
    show ?thesis
    proof (cases "gone act = None")
      case g: True
      then show ?thesis using True tok(2) by (simp add: search_weight_def advance_turns)
    next
      case False
      then show ?thesis using True c tok(1) by (auto simp: search_weight_def advance_turns)
    qed
  qed
qed


lemma winnable_cases:
  assumes "position_ok s" "t < num_players s" "score s \<noteq> max_score s" "\<not> unwinnable_state s t"
  shows "\<not> ended s"
  using assms(4) by (auto simp: unwinnable_state_def)

abbreviation timed_out :: js_error where
  "timed_out \<equiv> Thrown ''timed out''"

definition in_time :: "'a result \<Rightarrow> bool" where
  "in_time m \<longleftrightarrow> (case m of Inr _ \<Rightarrow> True | Inl e \<Rightarrow> e = timed_out)"

lemma in_time_simps [simp]: "in_time (Inr x)" "in_time (Inl e) \<longleftrightarrow> e = timed_out"
  by (simp_all add: in_time_def)

lemma in_time_bind: "in_time m \<Longrightarrow> (\<And>x. m = Inr x \<Longrightarrow> in_time (f x)) \<Longrightarrow> in_time (bindR m f)"
  by (cases m) simp_all

lemma in_time_fold: "(\<And>s x. x \<in> set xs \<Longrightarrow> in_time (f s x)) \<Longrightarrow> in_time (foldR f s xs)"
  by (induction xs arbitrary: s) (auto intro!: in_time_bind)

lemma in_time_some: "(\<And>act sv. act \<in> set acts \<Longrightarrow> in_time (f act sv)) \<Longrightarrow> in_time (some_move f acts sv)"
  by (induction f acts sv rule: some_move.induct) (auto intro!: in_time_bind)

lemma winnable_if_in_time:
  assumes "\<And>d rs' sv. position_ok (advance_state s t act d) \<Longrightarrow> remaining_ok (advance_state s t act d) rs' \<Longrightarrow>
      in_time (rec (advance_state s t act d) (next_player s t) rs' sv)"
    and p: "position_ok s" "t < num_players s" "\<not> ended s" "legal s t act" "remaining_ok s rs"
  shows "in_time (winnable_if_with rec s t act rs sv)"
proof (cases "is_clue act \<or> cards_left s = 0")
  case True
  then show ?thesis
    using assms(1) [OF advance_ok [OF p(1-4) draw_ok_None] remaining_no_draw [OF p(1,2,4,5) True]]
    by (auto simp: winnable_if_with_def intro!: in_time_bind)
next
  case False
  have step: "in_time (bindR (remove_remaining rs (r_id r)) (\<lambda>rs1.
            bindR (rec (advance_state s t act (Some (draw_of s (r_id r)))) (next_player s t) rs1 sv1) (\<lambda>(w, sv2).
              Inr (if w then ds @ [r_id r] else ds, sv2))))" if r: "r \<in> set rs" for ds sv1 r
  proof -
    obtain rs' where rs': "remove_remaining rs (r_id r) = Inr rs'"
      using remove_remaining_some [OF r] p(5) by (auto simp: remaining_ok_def)
    have "remaining_ok (advance_state s t act (Some (draw_of s (r_id r)))) rs'"
      using remaining_draw [OF p(1,2,4,5) _ _ r rs'] False by blast
    with assms(1) [OF advance_ok [OF p(1-4) remaining_draw_ok [OF p(5) r]]] rs'
    show ?thesis by (auto intro!: in_time_bind)
  qed
  have "in_time (foldR (\<lambda>(ds, sv1) r.
            bindR (remove_remaining rs (r_id r)) (\<lambda>rs1.
            bindR (rec (advance_state s t act (Some (draw_of s (r_id r)))) (next_player s t) rs1 sv1) (\<lambda>(w, sv2).
              Inr (if w then ds @ [r_id r] else ds, sv2)))) ([], sv) rs)"
    by (rule in_time_fold) (use step in \<open>simp add: case_prod_beta\<close>)
  then show ?thesis unfolding winnable_if_with_def using False by (auto intro: in_time_bind)
qed

text \<open>Within the fuel, the search returns a verdict or runs out of time.\<close>

lemma winnable_simpler_in_time:
  "search_weight s < fuel \<Longrightarrow> position_ok s \<Longrightarrow> t < num_players s \<Longrightarrow> remaining_ok s rs \<Longrightarrow>
    in_time (winnable_simpler late fuel s t rs sv)"
proof (induction fuel arbitrary: s t rs sv)
  case (Suc fuel)
  note p = Suc.prems(2-4)
  show ?case
  proof (cases "score s = max_score s \<or> unwinnable_state s t")
    case True
    then show ?thesis by auto
  next
    case False
    then have ne: "\<not> ended s" using winnable_cases [OF p(1,2)] by blast
    have "in_time (winnable_if_with (winnable_simpler late fuel) s t act rs sv)" if a: "act \<in> set (search_moves s t)" for act sv
    proof (rule winnable_if_in_time [OF _ p(1,2) ne search_moves_legal [OF a] p(3)])
      fix d rs' sv
      assume "position_ok (advance_state s t act d)" "remaining_ok (advance_state s t act d) rs'"
      moreover have "search_weight (advance_state s t act d) < fuel"
        using search_weight_less [OF p(1) ne search_moves_legal [OF a], of d] Suc.prems(1) by simp
      ultimately show "in_time (winnable_simpler late fuel (advance_state s t act d) (next_player s t) rs' sv)"
        using p(2) by (intro Suc.IH) (simp_all add: next_player_less)
    qed
    then show ?thesis using False
      by (auto simp: read_clock_def split: option.split intro!: in_time_bind in_time_some)
  qed
qed simp

section \<open>Its verdict\<close>

text \<open>A winning verdict of the search is a line of play that wins.\<close>

lemma search_wins_can_win:
  "search_wins s t rs \<Longrightarrow> position_ok s \<Longrightarrow> t < num_players s \<Longrightarrow> remaining_ok s rs \<Longrightarrow> can_win s t"
proof (induction rule: search_wins.induct)
  case (won s t rs)
  then show ?case by (simp add: can_win.won)
next
  case (no_draw s t act rs)
  note p = no_draw.prems and l = search_moves_legal [OF no_draw.hyps(2)]
  have ne: "\<not> ended s" using no_draw.hyps(1) by (auto simp: unwinnable_state_def)
  have "can_win (advance_state s t act None) (next_player s t)"
    using no_draw.IH [OF advance_ok [OF p(1,2) ne l draw_ok_None] _ remaining_no_draw [OF p(1,2) l p(3) no_draw.hyps(3)]] p(2)
    by (simp add: next_player_less)
  then show ?case by (rule can_win.move [OF ne l draw_ok_None])
next
  case (drawn s t act r rs rs')
  note p = drawn.prems and l = search_moves_legal [OF drawn.hyps(2)]
  have ne: "\<not> ended s" using drawn.hyps(1) by (auto simp: unwinnable_state_def)
  have d: "draw_ok s (Some (draw_of s (r_id r)))" by (rule remaining_draw_ok [OF p(3) drawn.hyps(4)])
  have "can_win (advance_state s t act (Some (draw_of s (r_id r)))) (next_player s t)"
    using drawn.IH [OF advance_ok [OF p(1,2) ne l d] _ remaining_draw [OF p(1,2) l p(3) _ _ drawn.hyps(4,5)]] p(2) drawn.hyps(3)
    by (simp add: next_player_less)
  then show ?case by (rule can_win.move [OF ne l d])
qed


text \<open>The cache: a set of positions closed under the moves of the search, in which the keys tell the verdicts apart.\<close>

type_synonym position = "game_state \<times> nat \<times> remaining list"

definition draw_wins :: "game_state \<Rightarrow> nat \<Rightarrow> perform \<Rightarrow> remaining list \<Rightarrow> remaining \<Rightarrow> bool" where
  "draw_wins s t act rs r \<longleftrightarrow> (\<exists>rs'. remove_remaining rs (r_id r) = Inr rs' \<and>
     search_wins (advance_state s t act (Some (draw_of s (r_id r)))) (next_player s t) rs')"

definition move_wins :: "game_state \<Rightarrow> nat \<Rightarrow> perform \<Rightarrow> remaining list \<Rightarrow> bool" where
  "move_wins s t act rs \<longleftrightarrow>
     (if is_clue act \<or> cards_left s = 0 then search_wins (advance_state s t act None) (next_player s t) rs
      else \<exists>r \<in> set rs. draw_wins s t act rs r)"

lemma search_wins_iff:
  "search_wins s t rs \<longleftrightarrow> score s = max_score s \<or> (\<not> unwinnable_state s t \<and> (\<exists>act \<in> set (search_moves s t). move_wins s t act rs))"
  by (subst search_wins.simps) (auto simp: move_wins_def draw_wins_def)

definition successors :: "game_state \<Rightarrow> nat \<Rightarrow> perform \<Rightarrow> remaining list \<Rightarrow> position set" where
  "successors s t act rs =
     (if is_clue act \<or> cards_left s = 0 then {(advance_state s t act None, next_player s t, rs)}
      else {(advance_state s t act (Some (draw_of s (r_id r))), next_player s t, rs') | r rs'.
              r \<in> set rs \<and> remove_remaining rs (r_id r) = Inr rs'})"

definition closed_positions :: "position set \<Rightarrow> bool" where
  "closed_positions P \<longleftrightarrow> (\<forall>s t rs. (s, t, rs) \<in> P \<longrightarrow> score s \<noteq> max_score s \<longrightarrow> \<not> unwinnable_state s t \<longrightarrow>
     (\<forall>act \<in> set (search_moves s t). successors s t act rs \<subseteq> P))"

definition keys_tell :: "position set \<Rightarrow> bool" where
  "keys_tell P \<longleftrightarrow> (\<forall>s t rs s' t' rs'. (s, t, rs) \<in> P \<longrightarrow> (s', t', rs') \<in> P \<longrightarrow> search_key s t rs = search_key s' t' rs' \<longrightarrow>
     search_wins s t rs = search_wins s' t' rs')"

definition cache_right :: "position set \<Rightarrow> search \<Rightarrow> bool" where
  "cache_right P sv \<longleftrightarrow> (\<forall>s t rs b. (s, t, rs) \<in> P \<longrightarrow> cache sv (search_key s t rs) = Some b \<longrightarrow> b = search_wins s t rs)"

definition searches :: "position set \<Rightarrow> searcher \<Rightarrow> bool" where
  "searches P rec \<longleftrightarrow> (\<forall>s t rs sv b sv'. (s, t, rs) \<in> P \<longrightarrow> cache_right P sv \<longrightarrow> rec s t rs sv = Inr (b, sv') \<longrightarrow>
     b = search_wins s t rs \<and> cache_right P sv')"

lemma searchesD: "searches P rec \<Longrightarrow> (s, t, rs) \<in> P \<Longrightarrow> cache_right P sv \<Longrightarrow> rec s t rs sv = Inr (b, sv') \<Longrightarrow>
    b = search_wins s t rs \<and> cache_right P sv'"
  by (simp add: searches_def)

lemma draws_searched:
  assumes rec: "searches P rec" and su: "successors s t act rs \<subseteq> P" "\<not> (is_clue act \<or> cards_left s = 0)" and sub: "set xs \<subseteq> set rs"
    and c: "cache_right P sv"
    and f: "foldR (\<lambda>(ds, sv1) r. bindR (remove_remaining rs (r_id r)) (\<lambda>rs1.
            bindR (rec (advance_state s t act (Some (draw_of s (r_id r)))) (next_player s t) rs1 sv1) (\<lambda>(w, sv2).
              Inr (if w then ds @ [r_id r] else ds, sv2)))) (ds, sv) xs = Inr (ds', sv')"
  shows "ds' = ds @ map r_id (filter (draw_wins s t act rs) xs) \<and> cache_right P sv'"
  using sub c f
proof (induction xs arbitrary: ds sv)
  case (Cons r xs)
  let ?adv = "advance_state s t act (Some (draw_of s (r_id r)))"
  from Cons.prems(3) obtain rs1 w sv2 where r: "remove_remaining rs (r_id r) = Inr rs1"
    "rec ?adv (next_player s t) rs1 sv = Inr (w, sv2)"
    and rest: "foldR (\<lambda>(ds, sv1) r. bindR (remove_remaining rs (r_id r)) (\<lambda>rs1.
            bindR (rec (advance_state s t act (Some (draw_of s (r_id r)))) (next_player s t) rs1 sv1) (\<lambda>(w, sv2).
              Inr (if w then ds @ [r_id r] else ds, sv2)))) (if w then ds @ [r_id r] else ds, sv2) xs = Inr (ds', sv')"
    by (auto simp: result_simps)
  have "(?adv, next_player s t, rs1) \<in> P" using su Cons.prems(1) r(1) by (auto simp: successors_def)
  then have w: "w = search_wins ?adv (next_player s t) rs1" "cache_right P sv2" using searchesD [OF rec _ Cons.prems(2) r(2)] by auto
  have "draw_wins s t act rs r \<longleftrightarrow> w" using r(1) w(1) by (simp add: draw_wins_def)
  then show ?case using Cons.IH [OF _ w(2) rest] Cons.prems(1) by simp
qed simp

lemma winnable_if_searched:
  assumes rec: "searches P rec" and su: "successors s t act rs \<subseteq> P" and c: "cache_right P sv"
    and w: "winnable_if_with rec s t act rs sv = Inr ((w, ds), sv')"
  shows "w = move_wins s t act rs" "cache_right P sv'"
    "\<not> (is_clue act \<or> cards_left s = 0) \<Longrightarrow> ds = Some (map r_id (filter (draw_wins s t act rs) rs))"
proof -
  have "w = move_wins s t act rs \<and> cache_right P sv' \<and>
    (\<not> (is_clue act \<or> cards_left s = 0) \<longrightarrow> ds = Some (map r_id (filter (draw_wins s t act rs) rs)))"
  proof (cases "is_clue act \<or> cards_left s = 0")
    case True
    then have "rec (advance_state s t act None) (next_player s t) rs sv = Inr (w, sv')"
      using w by (auto simp: winnable_if_with_def result_simps)
    moreover have "(advance_state s t act None, next_player s t, rs) \<in> P" using su True by (simp add: successors_def)
    ultimately show ?thesis using searchesD [OF rec _ c] True by (simp add: move_wins_def)
  next
    case False
    from w False obtain ds0 where f: "foldR (\<lambda>(ds, sv1) r. bindR (remove_remaining rs (r_id r)) (\<lambda>rs1.
            bindR (rec (advance_state s t act (Some (draw_of s (r_id r)))) (next_player s t) rs1 sv1) (\<lambda>(w, sv2).
              Inr (if w then ds @ [r_id r] else ds, sv2)))) ([], sv) rs = Inr (ds0, sv')" and e: "w = (ds0 \<noteq> [])" "ds = Some ds0"
      unfolding winnable_if_with_def by (auto simp: result_simps simp del: foldR.simps)
    have "ds0 = map r_id (filter (draw_wins s t act rs) rs)" "cache_right P sv'"
      using draws_searched [OF rec su False subset_refl c f] by simp_all
    then show ?thesis using e False by (auto simp: move_wins_def filter_empty_conv)
  qed
  then show "w = move_wins s t act rs" "cache_right P sv'"
    "\<not> (is_clue act \<or> cards_left s = 0) \<Longrightarrow> ds = Some (map r_id (filter (draw_wins s t act rs) rs))" by auto
qed

lemma some_move_searched:
  assumes "\<And>act sv w ds sv'. act \<in> set acts \<Longrightarrow> cache_right P sv \<Longrightarrow> f act sv = Inr ((w, ds), sv') \<Longrightarrow> w = Q act \<and> cache_right P sv'"
    and "cache_right P sv" "some_move f acts sv = Inr (b, sv')"
  shows "b = (\<exists>act \<in> set acts. Q act) \<and> cache_right P sv'"
  using assms
proof (induction acts arbitrary: sv)
  case (Cons act acts)
  from Cons.prems(3) obtain w ds sv1 where w: "f act sv = Inr ((w, ds), sv1)"
    and rest: "(if w then Inr (True, sv1) else some_move f acts sv1) = Inr (b, sv')"
    by (auto simp: result_simps)
  have q: "w = Q act" "cache_right P sv1" using Cons.prems(1) [OF _ Cons.prems(2) w] by simp_all
  show ?case
  proof (cases w)
    case True
    then show ?thesis using rest q by auto
  next
    case False
    then have r: "some_move f acts sv1 = Inr (b, sv')" using rest by simp
    have "b = (\<exists>act \<in> set acts. Q act) \<and> cache_right P sv'"
    proof (rule Cons.IH [OF _ q(2) r])
      show "w = Q act \<and> cache_right P sv'" if "act \<in> set acts" "cache_right P sv" "f act sv = Inr ((w, ds), sv')" for act sv w ds sv'
        by (rule Cons.prems(1) [OF _ that(2,3)]) (use that(1) in simp)
    qed
    then show ?thesis using False q by auto
  qed
qed auto

text \<open>The search with its cache returns the verdict.\<close>

lemma winnable_simpler_searches:
  assumes "closed_positions P" "keys_tell P"
  shows "searches P (winnable_simpler late fuel)"
proof (induction fuel)
  case 0
  then show ?case by (simp add: searches_def)
next
  case (Suc fuel)
  show ?case
    unfolding searches_def
  proof (intro allI impI)
    fix s t rs sv b sv'
    assume p: "(s, t, rs) \<in> P" and c: "cache_right P sv" and r: "winnable_simpler late (Suc fuel) s t rs sv = Inr (b, sv')"
    show "b = search_wins s t rs \<and> cache_right P sv'"
    proof (cases "score s = max_score s \<or> unwinnable_state s t")
      case True
      then show ?thesis using r c by (auto simp: search_wins_iff split: if_splits)
    next
      case False
      obtain sv1 where sv1: "read_clock late sv = Inr sv1" using r False by (auto simp: result_simps)
      then have c1: "cache_right P sv1" using c by (auto simp: read_clock_def cache_right_def split: if_splits)
      show ?thesis
      proof (cases "cache sv1 (search_key s t rs)")
        case (Some b')
        then show ?thesis using r False sv1 c1 p by (auto simp: cache_right_def)
      next
        case None
        from r False sv1 None obtain sv2 where m: "some_move (\<lambda>act. winnable_if_with (winnable_simpler late fuel) s t act rs) (search_moves s t) sv1 = Inr (b, sv2)"
          and sv': "sv' = sv2\<lparr>cache := (cache sv2)(search_key s t rs \<mapsto> b)\<rparr>"
          by (auto simp: result_simps)
        have "b = (\<exists>act \<in> set (search_moves s t). move_wins s t act rs) \<and> cache_right P sv2"
        proof (rule some_move_searched [OF _ c1 m])
          fix act sv w ds sv'
          assume a: "act \<in> set (search_moves s t)" "cache_right P sv"
            "winnable_if_with (winnable_simpler late fuel) s t act rs sv = Inr ((w, ds), sv')"
          have "successors s t act rs \<subseteq> P" using assms(1) p False a(1) unfolding closed_positions_def by blast
          from winnable_if_searched(1,2) [OF Suc.IH this a(2,3)] show "w = move_wins s t act rs \<and> cache_right P sv'" by simp
        qed
        moreover from this have "b = search_wins s t rs" using False by (simp add: search_wins_iff)
        moreover have "cache_right P sv'"
          unfolding cache_right_def
        proof (intro allI impI)
          fix s1 t1 rs1 b1
          assume q: "(s1, t1, rs1) \<in> P" "cache sv' (search_key s1 t1 rs1) = Some b1"
          show "b1 = search_wins s1 t1 rs1"
          proof (cases "search_key s1 t1 rs1 = search_key s t rs")
            case True
            then have "b1 = b" using q(2) by (simp add: sv')
            also have "b = search_wins s1 t1 rs1"
              using \<open>b = search_wins s t rs\<close> assms(2) p q(1) True unfolding keys_tell_def by metis
            finally show ?thesis .
          next
            case False
            then show ?thesis using q calculation(1) unfolding sv' cache_right_def by auto
          qed
        qed
        ultimately show ?thesis by simp
      qed
    qed
  qed
qed

end
