(* ===== verification/Endgame_Winnable.thy ===== *)
theory Endgame_Winnable
  imports Endgame_Positions
begin

text \<open>
  Why the positions that \<open>unwinnable_state\<close> gives up are lost: the proofs count the turns that are left, the players
  who have nothing to play and the cards that only one player can play.
\<close>

section \<open>Dead cards stay dead\<close>

lemma trash_step:
  assumes "tables_ok s" "\<And>i. hit s act = Some i \<Longrightarrow> in_deck s i" "in_deck s j"
  shows "is_basic_trash s j \<Longrightarrow> is_basic_trash (advance_state s t act d) j"
    "\<not> is_basic_trash s j \<Longrightarrow> hit s act \<noteq> Some (raw j) \<Longrightarrow> \<not> is_basic_trash (advance_state s t act d) j"
proof -
  note st = stack_step [OF assms, where t = t and act = act and d = d]
  have h: "rank i = stack_of s j + 1" if "hit s act = Some i" "suit_index i = suit_index j" for i
    using playable_rank [OF assms(2) [OF that(1)]] hit_lost [OF that(1)] that(2) by (simp add: stack_of_def)
  have n: "rank i \<noteq> rank j" if "hit s act = Some i" "suit_index i = suit_index j" "hit s act \<noteq> Some (raw j)" for i
    using that by (auto simp: raw_def)
  show "is_basic_trash s j \<Longrightarrow> is_basic_trash (advance_state s t act d) j"
    using st h valid_known [OF assms(3)] by (auto simp: is_basic_trash_def split: option.splits if_splits)
  show "\<not> is_basic_trash s j \<Longrightarrow> hit s act \<noteq> Some (raw j) \<Longrightarrow> \<not> is_basic_trash (advance_state s t act d) j"
    using st h n valid_known [OF assms(3)] by (fastforce simp: is_basic_trash_def split: option.splits if_splits)
qed

lemma dead_card_iff: "dead_card s ord \<longleftrightarrow> (\<forall>i. deck_id s ord = Some i \<longrightarrow> is_basic_trash s i)"
  by (auto simp: dead_card_def deck_id_def basic_identity_def split: if_splits)

lemma void_step:
  assumes "position_ok s" "t < num_players s" "legal_gone s t act" "k < num_players s"
    and "k \<noteq> t \<or> endgame_turns s \<noteq> -1 \<or> gone act = None" "void_player s k"
  shows "void_player (advance_state s t act d) k"
proof -
  note p = position_okD [OF assms(1)] and o = orders_okD [OF position_okD(3) [OF assms(1)]]
  have sub: "x \<in> set (hands s ! k)" if "x \<in> set (hands (advance_state s t act d) ! k)" for x
  proof (cases "gone act")
    case None
    then show ?thesis using that by (simp add: advance_hands_clue)
  next
    case (Some ord)
    then have "ord \<in> set (hands s ! t)" using assms(3) by (simp add: legal_gone_def)
    from advance_hands [OF p(3) assms(2) Some this, of d] show ?thesis
      using that assms(2,5) Some o(1) set_remove1_subset [of ord "hands s ! t"] by (cases "k = t") auto
  qed
  have "dead_card (advance_state s t act d) x" if x: "x \<in> set (hands (advance_state s t act d) ! k)" for x
    unfolding dead_card_iff
  proof (intro allI impI)
    fix i assume i: "deck_id (advance_state s t act d) x = Some i"
    have m: "x \<in> set (hands s ! k)" using sub [OF x] .
    then have "deck_id s x = Some i" using i advance_deck_id [OF o(6) [OF assms(4) m], where t = t and act = act and d = d] by simp
    moreover from this have "in_deck s i" using o(7) [OF assms(4) m] by simp
    moreover have "dead_card s x" using assms(6) m by (auto simp: void_player_def list_all_iff)
    ultimately show "is_basic_trash (advance_state s t act d) i"
      using trash_step(1) [OF p(1) hit_useful(1) [OF assms(1-3)], of act i] by (simp add: dead_card_iff)
  qed
  then show ?thesis by (simp add: void_player_def list_all_iff)
qed

lemma hit_not_void:
  assumes "position_ok s" "t < num_players s" "legal_gone s t act" "hit s act = Some i"
  shows "\<not> void_player s t"
proof -
  obtain ord where o: "gone act = Some ord" "deck_id s ord = Some i"
    using hit_lost [OF assms(4)] by (auto simp: lost_def split: option.splits)
  then have "ord \<in> set (hands s ! t)" using assms(3) by (simp add: legal_gone_def)
  moreover have "\<not> dead_card s ord" using o(2) hit_useful(4) [OF assms] by (auto simp: dead_card_iff)
  ultimately show ?thesis by (auto simp: void_player_def list_all_iff)
qed

section \<open>Turns\<close>

lemma rotate_card: "card {k. k < n \<and> P ((t + k) mod n)} = card {k. k < n \<and> P k}" if "0 < (n :: nat)"
proof -
  let ?f = "\<lambda>k. (t + k) mod n"
  have inj: "inj_on ?f {..<n}"
  proof (rule inj_onI)
    fix a b assume a: "a \<in> {..<n}" "b \<in> {..<n}" "?f a = ?f b"
    then have "n dvd (t + b) - (t + a)" "n dvd (t + a) - (t + b)"
      using mod_eq_dvd_iff_nat [of "t + a" "t + b" n] mod_eq_dvd_iff_nat [of "t + b" "t + a" n]
      by (metis diff_is_0_eq dvd_0_right nat_le_linear)+
    then show "a = b" using a by (auto dest!: dvd_imp_le)
  qed
  have "?f ` {..<n} \<subseteq> {..<n}" using that by auto
  then have im: "?f ` {..<n} = {..<n}" using inj by (simp add: endo_inj_surj)
  have "{k. k < n \<and> P k} = ?f ` {k. k < n \<and> P (?f k)}"
  proof
    show "{k. k < n \<and> P k} \<subseteq> ?f ` {k. k < n \<and> P (?f k)}"
    proof
      fix x assume "x \<in> {k. k < n \<and> P k}"
      then have "x \<in> ?f ` {..<n}" "P x" using im by auto
      then show "x \<in> ?f ` {k. k < n \<and> P (?f k)}" by auto
    qed
  qed (use that in auto)
  moreover have "inj_on ?f {k. k < n \<and> P (?f k)}" by (rule inj_on_subset [OF inj]) auto
  ultimately show ?thesis by (simp add: card_image)
qed

lemma next_turn: "(next_player s t + k) mod num_players s = (t + Suc k) mod num_players s"
  by (simp add: next_player_def mod_add_left_eq)

text \<open>The turns in which something happens, after one turn.\<close>

lemma card_Suc_less:
  assumes "\<And>k. k < n \<Longrightarrow> Q k \<Longrightarrow> P (Suc k)"
  shows "card {k. k < n \<and> Q k} + one (P 0) \<le> card {k. k < Suc n \<and> P k}"
proof -
  let ?A = "{k. k < Suc n \<and> P k}"
  have "Suc ` {k. k < n \<and> Q k} \<subseteq> ?A - {0}" using assms by auto
  then have "card (Suc ` {k. k < n \<and> Q k}) \<le> card (?A - {0})" by (intro card_mono) auto
  then have c: "card {k. k < n \<and> Q k} \<le> card (?A - {0})" by (simp add: card_image)
  show ?thesis
  proof (cases "P 0")
    case True
    then have "card ?A = Suc (card (?A - {0}))" by (intro card.remove) auto
    then show ?thesis using c True by simp
  next
    case False
    then have "?A - {0} = ?A" by auto
    then show ?thesis using c False by simp
  qed
qed


section \<open>The last round\<close>

definition busy_turns :: "game_state \<Rightarrow> nat \<Rightarrow> nat set" where
  "busy_turns s t = {k. k < nat (endgame_turns s) \<and> \<not> void_player s ((t + k) mod num_players s)}"

lemma phase_turns: "phase_ok s \<Longrightarrow> endgame_turns s \<noteq> -1 \<Longrightarrow> 0 \<le> endgame_turns s \<and> endgame_turns s \<le> int (num_players s) \<and> cards_left s = 0"
  by (auto simp: phase_ok_def)

lemma last_round_step:
  assumes "position_ok s" "t < num_players s" "\<not> ended s" "legal s t act" "endgame_turns s \<noteq> -1"
  shows "nat (endgame_turns s) = Suc (nat (endgame_turns (advance_state s t act d)))" "endgame_turns (advance_state s t act d) \<noteq> -1"
  using phase_turns [OF position_okD(6) [OF assms(1)] assms(5)] assms(3,5) legal_not_end [OF assms(4)]
  by (auto simp: advance_turns ended_def)

lemma position_hit:
  assumes "position_ok s" "t < num_players s" "legal_gone s t act"
  shows "score (advance_state s t act d) = score s + int (one (hit s act \<noteq> None))"
  by (rule score_step [OF position_okD(1) [OF assms(1)]]) (rule hit_useful(1) [OF assms])

lemma last_round_bound:
  "can_win s t \<Longrightarrow> position_ok s \<Longrightarrow> t < num_players s \<Longrightarrow> endgame_turns s \<noteq> -1 \<Longrightarrow> max_score s \<le> score s + int (card (busy_turns s t))"
proof (induction rule: can_win.induct)
  case (move s t act d)
  let ?s = "advance_state s t act d" and ?t = "next_player s t"
  note g = legal_legal_gone [OF move.hyps(2)] and p = move.prems
  note n = last_round_step [OF p(1,2) move.hyps(1,2) p(3), of d]
  have np: "0 < num_players s" using p(2) by simp
  have "max_score s \<le> score ?s + int (card (busy_turns ?s ?t))"
    using move.IH [OF advance_ok [OF p(1,2) move.hyps(1-3)]] n(2) next_player_less [OF np] by simp
  moreover have "card (busy_turns ?s ?t) + one (\<not> void_player s t) \<le> card (busy_turns s t)"
  proof -
    have "void_player ?s ((?t + k) mod num_players s)" if "void_player s ((t + Suc k) mod num_players s)" for k
      using that np p(3) void_step [OF p(1,2) g] by (simp only: next_turn) simp
    then have "card {k. k < nat (endgame_turns ?s) \<and> \<not> void_player ?s ((?t + k) mod num_players s)} + one (\<not> void_player s ((t + 0) mod num_players s))
        \<le> card {k. k < Suc (nat (endgame_turns ?s)) \<and> \<not> void_player s ((t + k) mod num_players s)}"
      by (intro card_Suc_less) blast
    then show ?thesis using p(2) by (simp add: busy_turns_def n(1))
  qed
  moreover have "score ?s = score s + int (one (hit s act \<noteq> None))" by (rule position_hit [OF p(1,2) g])
  moreover have "hit s act \<noteq> None \<Longrightarrow> \<not> void_player s t" using hit_not_void [OF p(1,2) g] by blast
  ultimately show ?case by (auto split: if_splits)
qed simp

section \<open>Players with nothing to play\<close>

definition voids :: "game_state \<Rightarrow> nat set" where
  "voids s = {k. k < num_players s \<and> void_player s k}"

lemma busy_voids:
  assumes "phase_ok s" "0 < num_players s" "endgame_turns s \<noteq> -1"
  shows "card (busy_turns s t) + card (voids s) \<le> num_players s"
proof -
  let ?n = "num_players s"
  have "card (busy_turns s t) \<le> card {k. k < ?n \<and> \<not> void_player s ((t + k) mod ?n)}"
    using phase_turns [OF assms(1,3)] by (intro card_mono) (auto simp: busy_turns_def)
  also have "\<dots> = card {k. k < ?n \<and> \<not> void_player s k}" using rotate_card [OF assms(2), of "\<lambda>k. \<not> void_player s k"] .
  finally have "card (busy_turns s t) + card (voids s) \<le> card {k. k < ?n \<and> \<not> void_player s k} + card {k. k < ?n \<and> void_player s k}"
    by (simp add: voids_def)
  also have "\<dots> = card ({k. k < ?n \<and> \<not> void_player s k} \<union> {k. k < ?n \<and> void_player s k})"
    by (intro card_Un_disjoint [symmetric]) auto
  also have "{k. k < ?n \<and> \<not> void_player s k} \<union> {k. k < ?n \<and> void_player s k} = {..<?n}" by auto
  finally show ?thesis by simp
qed

lemma voids_pace:
  assumes "can_win s t" "position_ok s" "t < num_players s" "endgame_turns s \<noteq> -1"
  shows "int (card (voids s)) \<le> pace s"
proof -
  note p = position_okD [OF assms(2)]
  have "0 < num_players s" using assms(3) by simp
  from busy_voids [OF p(6) this assms(4), of t] last_round_bound [OF assms] phase_turns [OF p(6) assms(4)]
  show ?thesis by (simp add: pace_def)
qed

text \<open>Before the last round too: a player with nothing to play wastes the card that is drawn or the last turn.\<close>

lemma voids_pace_before:
  "can_win s t \<Longrightarrow> position_ok s \<Longrightarrow> t < num_players s \<Longrightarrow> int (card (voids s)) \<le> pace s"
proof (induction rule: can_win.induct)
  case (won s t)
  have "card (voids s) \<le> card {..<num_players s}" by (intro card_mono) (auto simp: voids_def)
  then show ?case using won position_okD(6) [OF won.prems(1)] by (auto simp: pace_def phase_ok_def)
next
  case (move s t act d)
  let ?s = "advance_state s t act d" and ?t = "next_player s t"
  note g = legal_legal_gone [OF move.hyps(2)] and p = move.prems
  show ?case
  proof (cases "endgame_turns s = -1")
    case False
    then show ?thesis using voids_pace [OF can_win.move [OF move.hyps] p] by simp
  next
    case True
    have np: "0 < num_players s" using p(2) by simp
    have ok: "position_ok ?s" using advance_ok [OF p(1,2) move.hyps(1-3)] .
    have v: "int (card (voids ?s)) \<le> pace ?s" using move.IH [OF ok] next_player_less [OF np] by simp
    have sc: "score ?s = score s + int (one (hit s act \<noteq> None))" by (rule position_hit [OF p(1,2) g])
    have pc: "pace ?s = pace s + int (one (hit s act \<noteq> None)) - int (one (gone act \<noteq> None))"
      using True by (simp add: pace_def sc advance_turns)
    have hv: "hit s act \<noteq> None \<Longrightarrow> t \<notin> voids s" using hit_not_void [OF p(1,2) g] by (auto simp: voids_def)
    have hg: "hit s act \<noteq> None \<Longrightarrow> gone act \<noteq> None" by (cases act) (auto simp: hit_def gone_def)
    have vs: "k \<in> voids ?s" if "k \<in> voids s" "k \<noteq> t \<or> gone act = None" for k
      using void_step [OF p(1,2) g] that by (auto simp: voids_def)
    have fin: "finite (voids ?s)" by (simp add: voids_def)
    show ?thesis
    proof (cases "t \<in> voids s \<and> gone act \<noteq> None")
      case True
      have "card (voids s) \<le> card (insert t (voids ?s))" using vs fin by (intro card_mono) auto
      then have "card (voids s) \<le> Suc (card (voids ?s))" using card_insert_le_m1 fin by (simp add: card_insert_if split: if_splits)
      then show ?thesis using v pc True hv by (auto split: if_splits)
    next
      case False
      then have "voids s \<subseteq> voids ?s" using vs by auto
      then have "card (voids s) \<le> card (voids ?s)" using fin by (intro card_mono)
      then show ?thesis using v pc hg by (auto split: if_splits)
    qed
  qed
qed


section \<open>Cards that only one player can play\<close>

definition musts :: "game_state \<Rightarrow> nat \<Rightarrow> basic_card set" where
  "musts s k = {i. in_deck s i \<and> \<not> is_basic_trash s i \<and> 1 \<le> held s k i \<and> total_count s i - base_count s i = int (held s k i)}"

lemma finite_valid: "finite {i :: basic_card. valid_id n i}"
proof -
  have "{i :: basic_card. valid_id n i} \<subseteq> (\<lambda>(a, b). mk_id (int a) (int b)) ` ({..<n} \<times> {..5})"
  proof
    fix i :: basic_card assume "i \<in> {i. valid_id n i}"
    then have "i = mk_id (int (nat (suit_index i))) (int (nat (rank i)))" "nat (suit_index i) < n" "nat (rank i) \<le> 5"
      by (auto simp: valid_id_def mk_id_def max_stack_rank_def)
    then show "i \<in> (\<lambda>(a, b). mk_id (int a) (int b)) ` ({..<n} \<times> {..5})" by force
  qed
  then show ?thesis by (rule finite_subset) auto
qed

lemma finite_musts [simp]: "finite (musts s k)"
  by (rule finite_subset [OF _ finite_valid [of "n_suits s"]]) (auto simp: musts_def)

lemma musts_won:
  assumes "tables_ok s" "stacks_ok s" "score s = max_score s"
  shows "musts s k = {}"
proof -
  have le: "\<forall>j < n_suits s. play_stacks s ! j \<le> max_ranks s ! j" "length (play_stacks s) = n_suits s" "length (max_ranks s) = n_suits s"
    using assms(1,2) by (auto simp: tables_ok_def stacks_ok_def list_all2_conv_all_nth)
  have eq: "play_stacks s ! j = max_ranks s ! j" if j: "j < n_suits s" for j
  proof (rule ccontr)
    assume "play_stacks s ! j \<noteq> max_ranks s ! j"
    then have "play_stacks s ! j < max_ranks s ! j" using le(1) j by (simp add: order.not_eq_order_implies_strict)
    then have ex: "\<exists>a \<in> {..<n_suits s}. play_stacks s ! a < max_ranks s ! a" using j by blast
    have "(\<Sum>j < n_suits s. play_stacks s ! j) < (\<Sum>j < n_suits s. max_ranks s ! j)"
      by (rule sum_strict_mono_ex1 [OF _ _ ex]) (use le(1) in simp_all)
    then show False using assms(3) le by (simp add: score_def max_score_def sum_list_sum_nth atLeast0LessThan)
  qed
  have "is_basic_trash s i" if "in_deck s i" for i :: basic_card
    using eq [of "nat (suit_index i)"] valid_nat [OF that] valid_known [OF that]
    by (auto simp: is_basic_trash_def stack_of_def max_rank_of_def)
  then show ?thesis by (auto simp: musts_def)
qed

text \<open>No one else holds a copy of such a card, so only its holder can lose one.\<close>

lemma musts_alone:
  assumes "position_ok s" "i \<in> musts s k" "k < num_players s" "t < num_players s" "t \<noteq> k"
  shows "held s t i = 0"
proof -
  have "held s t i + held s k i \<le> held_all s i"
  proof -
    have "(\<Sum>j \<in> {t, k}. held s j i) \<le> (\<Sum>j < num_players s. held s j i)" using assms(3,4) by (intro sum_mono2) auto
    then show ?thesis using assms(5) by (simp add: held_all_def)
  qed
  moreover have "base_count s i + int (held_all s i) \<le> total_count s i" "total_count s i - base_count s i = int (held s k i)"
    using assms(1,2) by (auto simp: position_ok_def counts_ok_def musts_def)
  ultimately show ?thesis by linarith
qed

lemma musts_stay:
  assumes "position_ok s" "t < num_players s" "legal_gone s t act" "k < num_players s" "i \<in> musts s k"
    and "k \<noteq> t \<or> (lost s act \<noteq> Some i \<and> endgame_turns s \<noteq> -1)"
  shows "i \<in> musts (advance_state s t act d) k"
proof -
  note p = position_okD [OF assms(1)]
  have m: "in_deck s i" "\<not> is_basic_trash s i" "1 \<le> held s k i" "total_count s i - base_count s i = int (held s k i)"
    using assms(5) by (auto simp: musts_def)
  have l: "lost s act \<noteq> Some i"
    using assms(6) musts_alone [OF assms(1,5,4,2)] lost_held(1) [OF assms(2,3), of i] by force
  have "held (advance_state s t act d) k i = held s k i"
    using held_step [OF p(3) assms(2,3,4), of d i] l assms(6) by (auto simp: got_def)
  moreover have "base_count (advance_state s t act d) i = base_count s i"
    using base_step [OF p(1) lost_in_deck [OF p(3) assms(2,3)] m(1), where t = t and act = act and d = d] l by simp
  moreover have "hit s act \<noteq> Some (raw i)" using l hit_lost [of s act "raw i"] by (auto simp: raw_def)
  then have "\<not> is_basic_trash (advance_state s t act d) i"
    using trash_step(2) [OF p(1) hit_useful(1) [OF assms(1-3)] m(1,2), where act = act and d = d] by simp
  ultimately show ?thesis using m by (simp add: musts_def)
qed

lemma musts_shrink:
  assumes "position_ok s" "t < num_players s" "legal_gone s t act" "k < num_players s" "endgame_turns s \<noteq> -1 \<or> k \<noteq> t"
  shows "card (musts s k) \<le> card (musts (advance_state s t act d) k) + one (k = t)"
proof (cases "k = t")
  case False
  then have "musts s k \<subseteq> musts (advance_state s t act d) k" using musts_stay [OF assms(1-4)] by auto
  then show ?thesis using False by (simp add: card_mono)
next
  case True
  let ?M = "musts (advance_state s t act d) k"
  have "\<exists>x. musts s k \<subseteq> insert x ?M"
  proof (cases "lost s act")
    case None
    then show ?thesis using musts_stay [OF assms(1-4)] True assms(5) by auto
  next
    case (Some x)
    then have "musts s k \<subseteq> insert x ?M" using musts_stay [OF assms(1-4)] True assms(5) by auto
    then show ?thesis ..
  qed
  then obtain x where x: "musts s k \<subseteq> insert x ?M" ..
  then have "card (musts s k) \<le> card (insert x ?M)" by (intro card_mono) auto
  also have "\<dots> \<le> Suc (card ?M)" by (rule card_insert_le_m1) simp_all
  finally show ?thesis using True by simp
qed

definition turns_of :: "game_state \<Rightarrow> nat \<Rightarrow> nat \<Rightarrow> nat" where
  "turns_of s t k = card {j. j < nat (endgame_turns s) \<and> (t + j) mod num_players s = k}"

lemma musts_beat_turns:
  "can_win s t \<Longrightarrow> position_ok s \<Longrightarrow> t < num_players s \<Longrightarrow> endgame_turns s \<noteq> -1 \<Longrightarrow> k < num_players s \<Longrightarrow>
    card (musts s k) \<le> turns_of s t k"
proof (induction rule: can_win.induct)
  case (won s t)
  then show ?case using musts_won [OF position_okD(1,2) [OF won.prems(1)]] by simp
next
  case (move s t act d)
  let ?s = "advance_state s t act d" and ?t = "next_player s t"
  note g = legal_legal_gone [OF move.hyps(2)] and p = move.prems
  note n = last_round_step [OF p(1,2) move.hyps(1,2) p(3), of d]
  have np: "0 < num_players s" using p(2) by simp
  have "card (musts ?s k) \<le> turns_of ?s ?t k"
    using move.IH [OF advance_ok [OF p(1,2) move.hyps(1-3)]] n(2) next_player_less [OF np] p(4) by simp
  moreover have "turns_of ?s ?t k + one (k = t) \<le> turns_of s t k"
  proof -
    have "card {j. j < nat (endgame_turns ?s) \<and> (?t + j) mod num_players s = k} + one ((t + 0) mod num_players s = k)
        \<le> card {j. j < Suc (nat (endgame_turns ?s)) \<and> (t + j) mod num_players s = k}"
      by (intro card_Suc_less) (simp only: next_turn)
    then show ?thesis using p(2) by (auto simp: turns_of_def n(1))
  qed
  moreover have "card (musts s k) \<le> card (musts ?s k) + one (k = t)" by (rule musts_shrink [OF p(1,2) g p(4)]) (use p(3) in simp)
  ultimately show ?case by linarith
qed

lemma turns_of_once:
  assumes "position_ok s" "endgame_turns s \<noteq> -1" "k < num_players s"
  shows "turns_of s t k \<le> 1"
proof -
  let ?n = "num_players s"
  have "turns_of s t k \<le> card {j. j < ?n \<and> (t + j) mod ?n = k}"
    unfolding turns_of_def using phase_turns [OF position_okD(6) [OF assms(1)] assms(2)] by (intro card_mono) auto
  also have "\<dots> = card {j. j < ?n \<and> j = k}" using rotate_card [of ?n "\<lambda>j. j = k"] assms(3) by simp
  also have "{j. j < ?n \<and> j = k} = {k}" using assms(3) by auto
  finally show ?thesis by simp
qed

text \<open>With one card left, two players who must play two cards each.\<close>

lemma two_starters:
  "can_win s t \<Longrightarrow> position_ok s \<Longrightarrow> t < num_players s \<Longrightarrow> cards_left s = 1 \<Longrightarrow> j < num_players s \<Longrightarrow> k < num_players s \<Longrightarrow>
    j \<noteq> k \<Longrightarrow> card (musts s j) \<le> 1 \<or> card (musts s k) \<le> 1"
proof (induction rule: can_win.induct)
  case (won s t)
  then show ?case using musts_won [OF position_okD(1,2) [OF won.prems(1)]] by simp
next
  case (move s t act d)
  let ?s = "advance_state s t act d" and ?t = "next_player s t"
  note g = legal_legal_gone [OF move.hyps(2)] and p = move.prems
  have et: "endgame_turns s = -1" using position_okD(6) [OF p(1)] p(3) by (auto simp: phase_ok_def)
  have np: "0 < num_players s" using p(2) by simp
  have ok: "position_ok ?s" using advance_ok [OF p(1,2) move.hyps(1-3)] .
  show ?case
  proof (cases "gone act")
    case None
    then have e: "musts ?s i = musts s i" for i
      by (simp add: musts_def held_def deck_id_def deck_at_def advance_deck_clue advance_hands_clue base_count_def
          is_basic_trash_def stack_of_def discards_of_def advance_stacks advance_discards hit_def gone_def split: perform.splits)
    have "cards_left ?s = 1" using None p(3) by (simp add: advance_turns)
    then show ?thesis using move.IH [OF ok] next_player_less [OF np] p(4-6) by (simp add: e)
  next
    case (Some ord)
    then have et': "endgame_turns ?s \<noteq> -1" using et p(3) by (simp add: advance_turns)
    have one: "card (musts s m) \<le> 1" if "m < num_players s" "m \<noteq> t" for m
    proof -
      have "card (musts s m) \<le> card (musts ?s m)" using musts_shrink [OF p(1,2) g that(1), of d] that(2) by simp
      also have "\<dots> \<le> turns_of ?s ?t m"
        using musts_beat_turns [OF move.hyps(4) ok _ et'] next_player_less [OF np] that(1) by simp
      also have "\<dots> \<le> 1" using turns_of_once [OF ok et'] that(1) by simp
      finally show ?thesis .
    qed
    show ?thesis using one [OF p(4)] one [OF p(5)] p(6) by (cases "j = t") auto
  qed
qed


section \<open>Lost positions\<close>

lemma digit_not_x: "1 \<le> r \<Longrightarrow> r \<le> 5 \<Longrightarrow> (char_of (48 + nat r) :: char) \<noteq> CHR ''x''"
proof
  assume "1 \<le> r" "r \<le> 5" "(char_of (48 + nat r) :: char) = CHR ''x''"
  then have "(of_char (char_of (48 + nat r) :: char) :: nat) = of_char CHR ''x''" "nat r \<le> 5" by simp_all
  then show False by simp
qed

lemma log_id_not_xx: "wf_variant v \<Longrightarrow> valid_id (num_ids v) i \<Longrightarrow> log_id v i \<noteq> ''xx''"
proof -
  assume v: "wf_variant v" "valid_id (num_ids v) i"
  then have "length (short_forms v ! nat (suit_index i)) = 1"
    by (auto simp: wf_variant_def valid_id_def list_all_length)
  then obtain c where "short_forms v ! nat (suit_index i) = [c]" by (auto simp: length_Suc_conv)
  then have "log_id v i = [c, char_of (48 + nat (rank i))]"
    using v by (simp add: log_id_def get_def valid_id_def wf_variant_def digits_rank max_stack_rank_def)
  then show ?thesis using v digit_not_x [of "rank i"] by (auto simp: valid_id_def max_stack_rank_def)
qed

lemma deck_id_raw: "deck_id s ord = Some i \<Longrightarrow> raw (deck_at s ord) = i"
  by (auto simp: deck_id_def basic_identity_def raw_def split: if_splits)

lemma log_id_deck:
  assumes "orders_ok s" "tables_ok s" "k < num_players s" "ord \<in> set (hands s ! k)" "in_deck s (i :: basic_card)"
  shows "log_id (variant s) (deck_at s ord) = log_id (variant s) i \<longleftrightarrow> deck_id s ord = Some i"
proof (cases "deck_id s ord")
  case None
  then have "log_id (variant s) (deck_at s ord) = ''xx''" using orders_okD(9) [OF assms(1,3,4)] by (simp add: log_id_def)
  then show ?thesis using log_id_not_xx [OF tables_okD(1) [OF assms(2)] assms(5)] None by auto
next
  case (Some j)
  have "in_deck s j" using orders_okD(7) [OF assms(1,3,4) Some] .
  then have "log_id (variant s) j = log_id (variant s) i \<longleftrightarrow> raw j = raw i"
    using log_id_inj tables_okD(1) [OF assms(2)] assms(5) by blast
  moreover have "log_id (variant s) (deck_at s ord) = log_id (variant s) j" by (metis deck_id_raw [OF Some] log_id_raw)
  ultimately show ?thesis using Some by (simp add: raw_def)
qed

lemma find_must_plays_card:
  assumes "position_ok s" "k < num_players s"
  shows "length (find_must_plays s (hands s ! k)) \<le> card (musts s k)"
proof -
  note p = position_okD [OF assms(1)]
  let ?f = "\<lambda>ord. log_id (variant s) (deck_at s ord)" and ?id = "\<lambda>kg :: string \<times> nat list. raw (deck_at s (hd (snd kg)))"
  let ?gs = "filter (\<lambda>kg. must_group s (snd kg)) (group_by ?f (hands s ! k))"
  have g: "?id kg \<in> musts s k \<and> log_id (variant s) (?id kg) = fst kg" if "kg \<in> set ?gs" for kg
  proof -
    obtain name grp where kg: "kg = (name, grp)" by (cases kg)
    have grp: "grp = filter (\<lambda>x. ?f x = name) (hands s ! k)" "name \<in> ?f ` set (hands s ! k)" "must_group s grp"
      using that group_by_member [of name grp ?f "hands s ! k"] by (auto simp: kg)
    then have "grp \<noteq> []" by (auto simp: filter_empty_conv)
    then have h: "hd grp \<in> set (hands s ! k)" "?f (hd grp) = name" using grp(1) hd_in_set [of grp] by auto
    have mg: "suit_index (deck_at s (hd grp)) \<noteq> -1" "\<not> is_basic_trash s (deck_at s (hd grp))"
      "total_count s (deck_at s (hd grp)) - base_count s (deck_at s (hd grp)) = int (length grp)"
      using grp(3) by (simp_all add: must_group_def Let_def)
    obtain i where i: "deck_id s (hd grp) = Some i" using mg(1) orders_okD(9) [OF p(3) assms(2) h(1)] by (cases "deck_id s (hd grp)") auto
    then have r: "raw (deck_at s (hd grp)) = i" by (rule deck_id_raw)
    have v: "in_deck s i" using orders_okD(7) [OF p(3) assms(2) h(1) i] .
    have name: "name = log_id (variant s) i" using h(2) r by (metis log_id_raw)
    have "grp = filter (\<lambda>x. deck_id s x = Some i) (hands s ! k)"
      unfolding grp(1) name using log_id_deck [OF p(3,1) assms(2) _ v] by (intro filter_cong) auto
    then have len: "length grp = held s k i" by (simp add: held_def)
    have "\<not> is_basic_trash s i" "total_count s i - base_count s i = int (held s k i)"
      using mg(2,3) r len by (metis raw_lookups(6), metis raw_lookups(4,5))
    moreover have "1 \<le> held s k i" using \<open>grp \<noteq> []\<close> len by (cases grp) auto
    ultimately show ?thesis using v r name by (simp add: kg musts_def)
  qed
  have "distinct (map fst ?gs)" using distinct_group_by [of ?f "hands s ! k"] by (simp add: distinct_map_filter)
  then have d: "distinct ?gs" "inj_on fst (set ?gs)" by (simp_all add: distinct_map)
  have "inj_on ?id (set ?gs)"
  proof (rule inj_onI)
    fix x y assume x: "x \<in> set ?gs" "y \<in> set ?gs" "?id x = ?id y"
    then have "fst x = fst y" using g [OF x(1)] g [OF x(2)] by metis
    from inj_onD [OF d(2) this x(1,2)] show "x = y" .
  qed
  then have "distinct (map ?id ?gs)" using d(1) by (simp only: distinct_map)
  moreover have "set (map ?id ?gs) \<subseteq> musts s k" using g by auto
  ultimately have "length (map ?id ?gs) \<le> card (musts s k)"
    by (metis card_mono distinct_card finite_musts)
  then show ?thesis by (simp add: find_must_plays_def)
qed


lemma range_list_0 [simp]: "range_list 0 n = [0..<n]"
  by (simp add: range_list_def)

lemma voids_filter: "length (filter (void_player s) [0..<num_players s]) = card (voids s)"
  by (simp add: voids_def distinct_length_filter Int_def conj_commute flip: atLeast0LessThan lessThan_def)

lemma busy_filter:
  "0 < num_players s \<Longrightarrow> length (filter (\<lambda>k. player_after s t k \<notin> set (filter (void_player s) [0..<num_players s])) [0..<nat (endgame_turns s)])
    = card (busy_turns s t)"
  by (simp add: busy_turns_def distinct_length_filter player_after_def Int_def conj_commute)

lemma two_distinct: "1 < length xs \<Longrightarrow> distinct xs \<Longrightarrow> \<exists>a b. a \<noteq> b \<and> a \<in> set xs \<and> b \<in> set xs"
  by (cases xs; cases "tl xs") auto

text \<open>A position that is given up is lost, whatever is played and drawn.\<close>

theorem unwinnable_lost:
  assumes ok: "position_ok s" and t: "t < num_players s" and u: "unwinnable_state s t" and nw: "score s \<noteq> max_score s"
  shows "\<not> can_win s t"
proof
  assume w: "can_win s t"
  note p = position_okD [OF ok] and o = orders_okD [OF position_okD(3) [OF ok]]
  have voids: "int (card (voids s)) \<le> pace s" by (rule voids_pace_before [OF w ok t])
  have ne: "\<not> ended s" using w nw by (cases rule: can_win.cases) simp_all
  have musts: "length (map (find_must_plays s) (hands s) ! k) \<le> card (musts s k)" if "k < num_players s" for k
    using find_must_plays_card [OF ok that] o(1) that by simp
  have last: "\<not> last_round_lost s t (filter (void_player s) [0..<num_players s]) (map (find_must_plays s) (hands s))"
    if e: "endgame_turns s \<noteq> -1"
  proof -
    have "length (map (find_must_plays s) (hands s) ! player_after s t k) \<le> 1" for k
      using musts [of "player_after s t k"] musts_beat_turns [OF w ok t e, of "player_after s t k"]
        turns_of_once [OF ok e, of "player_after s t k" t] o(2) by (simp add: player_after_def)
    then show ?thesis
      using last_round_bound [OF w ok t e] busy_filter [OF o(2), of t] by (auto simp: last_round_lost_def list_ex_iff not_less)
  qed
  have starters: "length (find_indices (\<lambda>ids. length ids > 1) (map (find_must_plays s) (hands s))) \<le> 1" if c: "cards_left s = 1"
  proof (rule ccontr)
    let ?xs = "find_indices (\<lambda>ids. length ids > 1) (map (find_must_plays s) (hands s))"
    assume "\<not> length ?xs \<le> 1"
    then obtain j k where jk: "j \<noteq> k" "j \<in> set ?xs" "k \<in> set ?xs"
      using two_distinct [of ?xs] by (auto simp: find_indices_def)
    have big: "i < num_players s \<and> 1 < card (musts s i)" if "i \<in> set ?xs" for i
    proof -
      have "i < num_players s" "1 < length (map (find_must_plays s) (hands s) ! i)" using that o(1) by (auto simp: find_indices_def)
      then show ?thesis using musts [of i] by simp
    qed
    show False using two_starters [OF w ok t c _ _ jk(1)] big [OF jk(2)] big [OF jk(3)] by simp
  qed
  have "0 \<le> pace s" using voids by linarith
  with u ne voids last starters show False
    unfolding unwinnable_state_def Let_def range_list_0 voids_filter by (auto split: if_splits)
qed


text \<open>A single player who must play two cards has to draw the last card. The others must give a clue each until it
  is that player's turn: without enough clues the position is lost, which the code sees but does not return.\<close>

lemma starter_distance:
  "can_win s t \<Longrightarrow> position_ok s \<Longrightarrow> t < num_players s \<Longrightarrow> cards_left s = 1 \<Longrightarrow> k < num_players s \<Longrightarrow>
    1 < card (musts s k) \<Longrightarrow> 0 \<le> clue_tokens s \<Longrightarrow> int ((k + num_players s - t) mod num_players s) \<le> clue_tokens s"
proof (induction rule: can_win.induct)
  case (won s t)
  then show ?case using musts_won [OF position_okD(1,2) [OF won.prems(1)]] by simp
next
  case (move s t act d)
  let ?s = "advance_state s t act d" and ?t = "next_player s t"
  note g = legal_legal_gone [OF move.hyps(2)] and p = move.prems
  have et: "endgame_turns s = -1" using position_okD(6) [OF p(1)] p(3) by (auto simp: phase_ok_def)
  have np: "0 < num_players s" using p(2) by simp
  have ok: "position_ok ?s" using advance_ok [OF p(1,2) move.hyps(1-3)] .
  show ?case
  proof (cases "k = t")
    case True
    then show ?thesis using p(6) by simp
  next
    case False
    have "gone act = None"
    proof (rule ccontr)
      assume a: "gone act \<noteq> None"
      then have et': "endgame_turns ?s \<noteq> -1" using et p(3) by (simp add: advance_turns)
      have "card (musts s k) \<le> card (musts ?s k)" using musts_shrink [OF p(1,2) g p(4), of d] False by simp
      also have "\<dots> \<le> turns_of ?s ?t k"
        using musts_beat_turns [OF move.hyps(4) ok _ et'] next_player_less [OF np] p(4) by simp
      also have "\<dots> \<le> 1" using turns_of_once [OF ok et'] p(4) by simp
      finally show False using p(5) by simp
    qed
    then have c: "clue_tokens s > 0" "clue_tokens ?s = clue_tokens s - 1" "musts ?s k = musts s k" "cards_left ?s = 1"
      using move.hyps(2) p(3)
      by (auto simp: gone_def legal_def advance_state_def musts_def held_def deck_id_def deck_at_def base_count_def
          total_count_def is_basic_trash_def stack_of_def max_rank_of_def discards_of_def Let_def split: perform.splits)
    have "int ((k + num_players s - ?t) mod num_players s) \<le> clue_tokens s - 1"
      using move.IH [OF ok] c p(4,5) next_player_less [OF np] by simp
    moreover have "(k + num_players s - t) mod num_players s = Suc ((k + num_players s - ?t) mod num_players s)"
    proof (cases "Suc t < num_players s")
      case True
      then have n: "?t = Suc t" by (simp add: next_player_def)
      show ?thesis
      proof (cases "k < t")
        case True
        then show ?thesis using p(2,4) unfolding n by simp
      next
        case b: False
        have "k + num_players s - t = (k - t) + num_players s" "k + num_players s - Suc t = (k - Suc t) + num_players s"
          using b False p(2) by simp_all
        then have "(k + num_players s - t) mod num_players s = k - t" "(k + num_players s - Suc t) mod num_players s = k - Suc t"
          using p(4) by (metis mod_add_self2 mod_less less_imp_diff_less)+
        then show ?thesis using b False unfolding n by simp
      qed
    next
      case f: False
      then have "?t = 0" "t = num_players s - 1" using p(2) np by (auto simp: next_player_def not_less le_Suc_eq)
      then show ?thesis using p(2,4) False by simp
    qed
    ultimately show ?thesis by simp
  qed
qed

end
