(* ===== verification/Fractions.thy ===== *)
theory Fractions
  imports Complex_Main Js_Prelude
begin

text \<open>
  \<open>src/src/tools/fraction.js\<close>: the exact fractions in which the endgame search adds up its winning chances. The
  numbers of a fraction are integers (the code divides only where the division is exact). \<open>reduce\<close> on 0/0 recurses
  until the stack overflows, which is a \<open>RangeError\<close>; a zero denominator elsewhere makes the code go on with \<open>NaN\<close>,
  where the model stops with \<open>Thrown ''NaN''\<close>.
\<close>

record fraction =
  numerator :: int
  denominator :: int

definition mk_frac :: "int \<Rightarrow> int \<Rightarrow> fraction" where
  "mk_frac n d = \<lparr>numerator = n, denominator = d\<rparr>"

lemma mk_frac_sel [simp]: "numerator (mk_frac n d) = n" "denominator (mk_frac n d) = d"
  by (simp_all add: mk_frac_def)

section \<open>Greatest common divisors\<close>

function find_gcd :: "int \<Rightarrow> int \<Rightarrow> int" where
  "find_gcd a b = (if b = 0 then a else find_gcd b (js_rem a b))"
  by pat_completeness auto

lemma js_rem_less: "b \<noteq> 0 \<Longrightarrow> \<bar>js_rem a b\<bar> < \<bar>b\<bar>"
  by (simp add: js_rem_def)

termination find_gcd
  by (relation "measure (\<lambda>(a, b). nat \<bar>b\<bar>)") (use js_rem_less in auto)

declare find_gcd.simps [simp del]

definition find_lcm :: "int \<Rightarrow> int \<Rightarrow> int" where
  "find_lcm a b = (a * b) div find_gcd a b"

section \<open>Reducing\<close>

text \<open>The odd candidates 3, 5, .. up to the bound.\<close>

definition odd_upto :: "int \<Rightarrow> int list" where
  "odd_upto m = map (\<lambda>k. 2 * int k + 3) [0..<nat ((m - 1) div 2)]"

definition common_odd :: "fraction \<Rightarrow> int option" where
  "common_odd f =
     List.find (\<lambda>i. js_rem (denominator f) i = 0 \<and> js_rem (numerator f) i = 0)
       (odd_upto (min (numerator f) (denominator f)))"

lemma odd_upto_iff: "i \<in> set (odd_upto m) \<longleftrightarrow> odd i \<and> 3 \<le> i \<and> i \<le> m"
proof
  assume "i \<in> set (odd_upto m)"
  then obtain k where k: "i = 2 * int k + 3" "k < nat ((m - 1) div 2)" by (auto simp: odd_upto_def)
  then have "int k < (m - 1) div 2" by linarith
  then have "2 * int k + 2 \<le> m - 1" by linarith
  with k(1) show "odd i \<and> 3 \<le> i \<and> i \<le> m" by simp
next
  assume i: "odd i \<and> 3 \<le> i \<and> i \<le> m"
  define k where "k = nat ((i - 3) div 2)"
  have "even (i - 3)" using i by simp
  then have ik: "i = 2 * int k + 3" using i by (auto simp: k_def elim!: evenE)
  then have "int k < (m - 1) div 2" using i by linarith
  then have "k \<in> set [0..<nat ((m - 1) div 2)]" by simp
  with ik show "i \<in> set (odd_upto m)" unfolding odd_upto_def by simp
qed

lemma common_oddD:
  assumes "common_odd f = Some i"
  shows "3 \<le> i" "i \<le> numerator f" "i \<le> denominator f" "i dvd numerator f" "i dvd denominator f"
proof -
  have "i \<in> set (odd_upto (min (numerator f) (denominator f))) \<and>
      js_rem (denominator f) i = 0 \<and> js_rem (numerator f) i = 0"
    using find_SomeD [OF assms [unfolded common_odd_def]] .
  then show "3 \<le> i" "i \<le> numerator f" "i \<le> denominator f" "i dvd numerator f" "i dvd denominator f"
    by (auto simp: odd_upto_iff js_rem_dvd)
qed

function reduce :: "fraction \<Rightarrow> fraction result" where
  "reduce f =
     (let n = numerator f; d = denominator f in
      if n > d \<and> d \<noteq> 0 \<and> js_rem n d = 0 then Inr (mk_frac (n div d) 1)
      else if js_rem d 2 = 0 \<and> js_rem n 2 = 0 then
        (if n = 0 \<and> d = 0 then Inl RangeError else reduce (mk_frac (n div 2) (d div 2)))
      else (case common_odd f of Some i \<Rightarrow> reduce (mk_frac (n div i) (d div i)) | None \<Rightarrow> Inr f))"
  by pat_completeness auto

lemma div_shrinks: "2 \<le> k \<Longrightarrow> k dvd n \<Longrightarrow> \<bar>n div k\<bar> \<le> \<bar>n\<bar> \<and> (n \<noteq> 0 \<longrightarrow> \<bar>n div k\<bar> < \<bar>n :: int\<bar>)"
proof (elim dvdE)
  fix c assume k: "2 \<le> k" and n: "n = k * c"
  have "2 * \<bar>c\<bar> \<le> k * \<bar>c\<bar>" using k by (intro mult_right_mono) auto
  then show "\<bar>n div k\<bar> \<le> \<bar>n\<bar> \<and> (n \<noteq> 0 \<longrightarrow> \<bar>n div k\<bar> < \<bar>n\<bar>)" using k n by (auto simp: abs_mult)
qed

lemma div_shrinks_sum:
  assumes "2 \<le> k" "k dvd n" "k dvd d" "\<not> (n = 0 \<and> d = (0 :: int))"
  shows "nat \<bar>n div k\<bar> + nat \<bar>d div k\<bar> < nat \<bar>n\<bar> + nat \<bar>d\<bar>"
proof -
  have le: "nat \<bar>n div k\<bar> \<le> nat \<bar>n\<bar>" "nat \<bar>d div k\<bar> \<le> nat \<bar>d\<bar>"
    using div_shrinks [OF assms(1,2)] div_shrinks [OF assms(1,3)] by (auto intro: nat_mono)
  have "nat \<bar>n div k\<bar> < nat \<bar>n\<bar> \<or> nat \<bar>d div k\<bar> < nat \<bar>d\<bar>"
    using div_shrinks [OF assms(1,2)] div_shrinks [OF assms(1,3)] assms(4) by (auto simp: nat_less_eq_zless)
  with le show ?thesis by (auto intro: add_less_le_mono add_le_less_mono)
qed

termination reduce
proof (relation "measure (\<lambda>f :: fraction. nat \<bar>numerator f\<bar> + nat \<bar>denominator f\<bar>)")
  fix f :: fraction and n d
  assume e: "n = numerator f" "d = denominator f" "js_rem d 2 = 0 \<and> js_rem n 2 = 0" "\<not> (n = 0 \<and> d = 0)"
  show "(mk_frac (n div 2) (d div 2), f) \<in> measure (\<lambda>f :: fraction. nat \<bar>numerator f\<bar> + nat \<bar>denominator f\<bar>)"
    using div_shrinks_sum [of 2 n d] e by (simp add: js_rem_dvd)
next
  fix f :: fraction and n d i
  assume e: "n = numerator f" "d = denominator f" and "common_odd f = Some i"
  note c = common_oddD [OF this(3)]
  show "(mk_frac (n div i) (d div i), f) \<in> measure (\<lambda>f :: fraction. nat \<bar>numerator f\<bar> + nat \<bar>denominator f\<bar>)"
    using div_shrinks_sum [of i n d] c e by simp
qed simp

declare reduce.simps [simp del]

section \<open>Arithmetic\<close>

definition proper :: "fraction \<Rightarrow> bool" where
  "proper f \<longleftrightarrow> 0 < denominator f"

definition not_a_number :: js_error where
  "not_a_number = Thrown ''NaN''"

definition plus_frac :: "fraction \<Rightarrow> fraction \<Rightarrow> fraction result" where
  "plus_frac f g =
     (if denominator f = 0 \<or> denominator g = 0 then Inl not_a_number
      else
        let l = find_lcm (denominator f) (denominator g) in
        reduce (mk_frac (numerator f * (l div denominator f) + numerator g * (l div denominator g)) l))"

definition minus_frac :: "fraction \<Rightarrow> fraction \<Rightarrow> fraction result" where
  "minus_frac f g = plus_frac f (mk_frac (- numerator g) (denominator g))"

definition times_frac :: "fraction \<Rightarrow> fraction \<Rightarrow> fraction result" where
  "times_frac f g = reduce (mk_frac (numerator f * numerator g) (denominator f * denominator g))"

definition divide_frac :: "fraction \<Rightarrow> fraction \<Rightarrow> fraction result" where
  "divide_frac f g = times_frac f (mk_frac (denominator g) (numerator g))"

definition less_frac :: "fraction \<Rightarrow> fraction \<Rightarrow> bool result" where
  "less_frac f g = bindR (minus_frac f g) (\<lambda>d. Inr (numerator d < 0))"

definition equals_frac :: "fraction \<Rightarrow> fraction \<Rightarrow> bool result" where
  "equals_frac f g = bindR (minus_frac f g) (\<lambda>d. Inr (numerator d = 0))"

section \<open>What they compute\<close>

definition frac_val :: "fraction \<Rightarrow> rat" where
  "frac_val f = of_int (numerator f) / of_int (denominator f)"

lemma frac_val_frac [simp]: "frac_val (mk_frac n d) = of_int n / of_int d"
  by (simp add: frac_val_def)

lemma find_gcd_pos: "0 < a \<Longrightarrow> 0 \<le> b \<Longrightarrow> find_gcd a b = gcd a b"
proof (induction a b rule: find_gcd.induct)
  case (1 a b)
  show ?case
  proof (cases "b = 0")
    case True
    then show ?thesis using 1 by (simp add: find_gcd.simps [of a 0])
  next
    case False
    then have r: "js_rem a b = a mod b" "0 < b" "0 \<le> js_rem a b" using 1 by (simp_all add: js_rem_def)
    then have "find_gcd b (js_rem a b) = gcd b (a mod b)" using 1(1) [OF False] by simp
    then show ?thesis using False by (simp add: find_gcd.simps [of a b] gcd.commute flip: gcd_red_int)
  qed
qed

lemma find_lcm_pos:
  assumes "0 < a" "0 < b"
  shows "0 < find_lcm a b" "a dvd find_lcm a b" "b dvd find_lcm a b"
proof -
  have l: "find_lcm a b = lcm a b" using assms by (simp add: find_lcm_def find_gcd_pos lcm_altdef_int [of a b])
  show "0 < find_lcm a b" using assms lcm_pos_int [of a b] by (simp add: l)
  show "a dvd find_lcm a b" "b dvd find_lcm a b" by (simp_all add: l)
qed

lemma div_rat: "k dvd n \<Longrightarrow> k \<noteq> 0 \<Longrightarrow> (of_int (n div k) :: rat) = of_int n / of_int k"
  by (auto elim!: dvdE)

lemma reduced_val:
  assumes "k dvd n" "k dvd d" "0 < k" "(0 :: int) < d"
  shows "frac_val (mk_frac (n div k) (d div k)) = of_int n / of_int d" "0 < d div k"
  using assms by (auto simp: div_rat elim!: dvdE simp: zero_less_mult_iff)

lemma reduce_ok:
  assumes "proper f"
  shows "\<exists>r. reduce f = Inr r \<and> proper r \<and> frac_val r = frac_val f"
  using assms
proof (induction f rule: reduce.induct)
  case (1 f)
  let ?n = "numerator f" and ?d = "denominator f"
  have d: "0 < ?d" using 1(3) by (simp add: proper_def)
  consider "?n > ?d" "js_rem ?n ?d = 0" | "\<not> (?n > ?d \<and> js_rem ?n ?d = 0)" "js_rem ?d 2 = 0" "js_rem ?n 2 = 0"
    | i where "\<not> (?n > ?d \<and> js_rem ?n ?d = 0)" "\<not> (js_rem ?d 2 = 0 \<and> js_rem ?n 2 = 0)" "common_odd f = Some i"
    | "\<not> (?n > ?d \<and> js_rem ?n ?d = 0)" "\<not> (js_rem ?d 2 = 0 \<and> js_rem ?n 2 = 0)" "common_odd f = None"
    by (cases "common_odd f") auto
  then show ?case
  proof cases
    case 1
    then show ?thesis using d by (simp add: reduce.simps [of f] proper_def frac_val_def js_rem_dvd div_rat)
  next
    case 2
    then have "2 dvd ?n" "2 dvd ?d" by (simp_all add: js_rem_dvd)
    note v = reduced_val [OF this _ d]
    have "\<exists>r. reduce (mk_frac (?n div 2) (?d div 2)) = Inr r \<and> proper r \<and> frac_val r = frac_val (mk_frac (?n div 2) (?d div 2))"
      using 1(1) [OF refl refl] 2 d v(2) by (simp add: proper_def)
    moreover have "reduce f = reduce (mk_frac (?n div 2) (?d div 2))"
      using 2 d by (auto simp: reduce.simps [of f] Let_def)
    ultimately show ?thesis using v(1) by (simp add: frac_val_def)
  next
    case 3
    note c = common_oddD [OF 3(3)]
    note v = reduced_val [OF c(4,5) _ d]
    have i: "0 < i" using c by simp
    have "\<exists>r. reduce (mk_frac (?n div i) (?d div i)) = Inr r \<and> proper r \<and> frac_val r = frac_val (mk_frac (?n div i) (?d div i))"
      using 1(2) [OF refl refl] 3 d v(2) [OF i] by (auto simp: proper_def)
    moreover have "reduce f = reduce (mk_frac (?n div i) (?d div i))"
      using 3 d by (auto simp: reduce.simps [of f] Let_def)
    ultimately show ?thesis using v(1) [OF i] by (simp add: frac_val_def)
  next
    case 4
    then show ?thesis using 1(3) d by (auto simp: reduce.simps [of f] Let_def)
  qed
qed

lemma plus_frac_ok:
  assumes "proper f" "proper g"
  shows "\<exists>r. plus_frac f g = Inr r \<and> proper r \<and> frac_val r = frac_val f + frac_val g"
proof -
  let ?a = "denominator f" and ?b = "denominator g" and ?l = "find_lcm (denominator f) (denominator g)"
  have p: "0 < ?a" "0 < ?b" using assms by (simp_all add: proper_def)
  note l = find_lcm_pos [OF p]
  have "of_int (?l div ?a) = (of_int ?l :: rat) / of_int ?a" "of_int (?l div ?b) = (of_int ?l :: rat) / of_int ?b"
    using l p by (simp_all add: div_rat)
  then have "frac_val (mk_frac (numerator f * (?l div ?a) + numerator g * (?l div ?b)) ?l) = frac_val f + frac_val g"
    unfolding frac_val_def mk_frac_sel of_int_add of_int_mult using l(1) p by (simp add: add_divide_distrib)
  with reduce_ok [of "mk_frac (numerator f * (?l div ?a) + numerator g * (?l div ?b)) ?l"] l(1) p show ?thesis
    by (simp add: plus_frac_def proper_def Let_def)
qed

lemma proper_frac: "proper (mk_frac n d) \<longleftrightarrow> 0 < d"
  by (simp add: proper_def)

lemma minus_frac_ok:
  assumes "proper f" "proper g"
  shows "\<exists>r. minus_frac f g = Inr r \<and> proper r \<and> frac_val r = frac_val f - frac_val g"
  using plus_frac_ok [OF assms(1), of "mk_frac (- numerator g) (denominator g)"] assms(2)
  by (simp add: minus_frac_def proper_def frac_val_def)

lemma times_frac_ok:
  assumes "proper f" "proper g"
  shows "\<exists>r. times_frac f g = Inr r \<and> proper r \<and> frac_val r = frac_val f * frac_val g"
  using reduce_ok [of "mk_frac (numerator f * numerator g) (denominator f * denominator g)"] assms
  by (simp add: times_frac_def proper_def frac_val_def)

lemma divide_frac_ok:
  assumes "proper f" "0 < numerator g" "proper g"
  shows "\<exists>r. divide_frac f g = Inr r \<and> proper r \<and> frac_val r = frac_val f / frac_val g"
  using times_frac_ok [OF assms(1), of "mk_frac (denominator g) (numerator g)"] assms(2,3)
  by (simp add: divide_frac_def proper_def frac_val_def)

lemma frac_val_sign: "proper f \<Longrightarrow> (numerator f < 0 \<longleftrightarrow> frac_val f < 0) \<and> (numerator f = 0 \<longleftrightarrow> frac_val f = 0)"
  by (simp add: proper_def frac_val_def divide_less_0_iff)

lemma compare_frac_ok:
  assumes "proper f" "proper g"
  shows "less_frac f g = Inr (frac_val f < frac_val g)" "equals_frac f g = Inr (frac_val f = frac_val g)"
  using minus_frac_ok [OF assms] by (auto simp: less_frac_def equals_frac_def frac_val_sign)

end
