(* ===== verification/Endgame_Arrangements.thy ===== *)
theory Endgame_Arrangements
  imports Endgame_Search Fractions Game_Basics
begin

text \<open>
  The first half of \<open>solve_game\<close> of \<open>src/src/conventions/shared/endgame.js\<close>: which identities are left, which of our own
  cards are known, and the arrangements of the identities that are left over our unknown cards, with their
  probabilities, which \<open>monte_carlo\<close> thins out.
\<close>

section \<open>Remaining identities\<close>

record tally =
  seen_ids :: "string \<rightharpoonup> int"
  own_ids :: "(nat \<times> basic_card option) list"
  infer_ids :: "(string \<times> nat list) list"

definition seen_of :: "tally \<Rightarrow> string \<Rightarrow> int" where
  "seen_of y name = (case seen_ids y name of Some k \<Rightarrow> k | None \<Rightarrow> 0)"

definition tally_card :: "game \<Rightarrow> nat \<Rightarrow> nat \<Rightarrow> tally \<Rightarrow> tally" where
  "tally_card g i ord y =
     (let s = g_state g; c = card_at (me g) ord in
      case identity no_opts c of
        Some ident \<Rightarrow>
          let y1 = y\<lparr>seen_ids := (seen_ids y)(log_id (variant s) ident \<mapsto> seen_of y (log_id (variant s) ident) + 1)\<rparr> in
          if i = our_player s then y1\<lparr>own_ids := own_ids y1 @ [(ord, Some ident)]\<rparr> else y1
      | None \<Rightarrow>
          if i = our_player s then
            (case identity infer_opts c of
               Some ident \<Rightarrow> y\<lparr>infer_ids := map_insert_arr (infer_ids y) (log_id (variant s) ident) ord\<rparr>
             | None \<Rightarrow> y\<lparr>own_ids := own_ids y @ [(ord, None)]\<rparr>)
          else y)"

definition tally_inferred :: "game_state \<Rightarrow> string \<times> nat list \<Rightarrow> tally \<Rightarrow> tally" where
  "tally_inferred s entry y =
     (let name = fst entry; orders = snd entry; ident = expand_short s name; seen = seen_of y name;
          too_many = seen + int (length orders) + base_count s ident > total_count s ident;
          y1 = (if too_many then y else y\<lparr>seen_ids := (seen_ids y)(name \<mapsto> seen + int (length orders))\<rparr>)
      in y1\<lparr>own_ids := own_ids y1 @ map (\<lambda>ord. (ord, if too_many then None else Some ident)) orders\<rparr>)"

definition tally_of :: "game \<Rightarrow> tally" where
  "tally_of g =
     (let s = g_state g;
          y = fold (\<lambda>i y. fold (tally_card g i) (hands s ! i) y) [0..<num_players s] \<lparr>seen_ids = Map.empty, own_ids = [], infer_ids = []\<rparr>
      in fold (tally_inferred s) (infer_ids y) y)"

definition left_of :: "game_state \<Rightarrow> tally \<Rightarrow> basic_card \<Rightarrow> int" where
  "left_of s y ident = total_count s ident - base_count s ident - seen_of y (log_id (variant s) ident)"

definition find_remaining_identities :: "game \<Rightarrow> remaining list \<times> (nat \<times> basic_card option) list" where
  "find_remaining_identities g =
     (let s = g_state g; y = tally_of g in
      (map (\<lambda>ident. \<lparr>r_id = ident, missing = left_of s y ident, r_all = left_of s y ident = total_count s ident\<rparr>)
         (filter (\<lambda>ident. left_of s y ident > 0) (all_identities (suits (variant s)))), own_ids y))"

section \<open>Arrangements\<close>

record arrangement =
  arr_ids :: "basic_card list"
  prob :: fraction
  new_remaining :: "remaining list"

definition total_missing :: "remaining list \<Rightarrow> int" where
  "total_missing rs = sum_list (map missing rs)"

definition assign_id :: "basic_card \<Rightarrow> actual_card \<Rightarrow> actual_card" where
  "assign_id i c = c\<lparr>suit_index := suit_index i, rank := rank i\<rparr>"

text \<open>A trash identity does not go to a card that is not trash, unless all other cards of a link it is in are trash.\<close>

definition last_of_link :: "game_state \<Rightarrow> nat list \<Rightarrow> basic_card list \<Rightarrow> nat \<Rightarrow> link \<Rightarrow> bool" where
  "last_of_link s unknown ids ord l \<longleftrightarrow>
     ord \<notin> set (l_orders l) \<or>
     list_all (\<lambda>x. x = ord \<or> list_ex (\<lambda>k. x = unknown ! k \<and> is_basic_trash s (ids ! k)) [0..<length ids]) (l_orders l)"

definition impossible_for :: "game_state \<Rightarrow> player \<Rightarrow> nat list \<Rightarrow> nat list \<Rightarrow> basic_card list \<Rightarrow> basic_card \<Rightarrow> bool" where
  "impossible_for s p linked unknown ids ident \<longleftrightarrow>
     (let ord = unknown ! length ids; thought = card_at p ord in
      \<not> actual_matches (Some True) (deck_at s ord) ident \<or>
      \<not> iset_has (possible thought) ident \<or>
      (is_basic_trash s ident \<and> \<not> list_ex (is_basic_trash s) (iset_array (possible thought)) \<and>
        (ord \<notin> set linked \<or> list_all (last_of_link s unknown ids ord) (links p))))"

definition expand_arr :: "game_state \<Rightarrow> player \<Rightarrow> nat list \<Rightarrow> nat list \<Rightarrow> arrangement \<Rightarrow> arrangement list result" where
  "expand_arr s p linked unknown a =
     foldR (\<lambda>acc r.
       if impossible_for s p linked unknown (arr_ids a) (r_id r) then Inr acc
       else
         bindR (remove_remaining (new_remaining a) (r_id r)) (\<lambda>rs.
         bindR (times_frac (prob a) (mk_frac (missing r) 1)) (\<lambda>q.
         bindR (divide_frac q (mk_frac (total_missing (new_remaining a)) 1)) (\<lambda>q.
           Inr (acc @ [\<lparr>arr_ids = arr_ids a @ [r_id r], prob = q, new_remaining = rs\<rparr>]))))) [] (new_remaining a)"

definition flat_mapR :: "('a \<Rightarrow> 'b list result) \<Rightarrow> 'a list \<Rightarrow> 'b list result" where
  "flat_mapR f xs = foldR (\<lambda>acc x. bindR (f x) (\<lambda>ys. Inr (acc @ ys))) [] xs"

definition all_arrangements :: "game_state \<Rightarrow> player \<Rightarrow> nat list \<Rightarrow> nat list \<Rightarrow> remaining list \<Rightarrow> arrangement list result" where
  "all_arrangements s p linked unknown rs =
     foldR (\<lambda>as _. flat_mapR (expand_arr s p linked unknown) as) [\<lparr>arr_ids = [], prob = mk_frac 1 1, new_remaining = rs\<rparr>] unknown"

definition sum_probs :: "arrangement list \<Rightarrow> fraction result" where
  "sum_probs as = foldR (\<lambda>q a. plus_frac q (prob a)) (mk_frac 0 1) as"

text \<open>Every arrangement must leave as many cards as the deck has.\<close>

definition normalise :: "int \<Rightarrow> arrangement list \<Rightarrow> arrangement list result" where
  "normalise left as =
     bindR (sum_probs as) (\<lambda>total.
       mapR (\<lambda>a. if total_missing (new_remaining a) \<noteq> left then Inl (Thrown ''AssertionError'')
         else bindR (divide_frac (prob a) total) (\<lambda>q. Inr (a\<lparr>prob := q\<rparr>))) as)"

section \<open>Thinning out\<close>

text \<open>The arrangements are grouped by the places of trash, written one after the other. An object lists the keys that
  are numbers first, in their order, and then the others in the order of their insertion.\<close>

definition trash_places :: "game_state \<Rightarrow> arrangement \<Rightarrow> string" where
  "trash_places s a = concat (map digits (find_indices (is_basic_trash s) (arr_ids a)))"

definition number_key :: "string \<Rightarrow> bool" where
  "number_key k \<longleftrightarrow> k \<noteq> [] \<and> (k = ''0'' \<or> hd k \<noteq> CHR ''0'')"

definition key_number :: "string \<Rightarrow> nat" where
  "key_number k = foldl (\<lambda>n c. 10 * n + (of_char c - 48)) 0 k"

definition object_values :: "(string \<times> 'a) list \<Rightarrow> (string \<times> 'a) list" where
  "object_values es =
     sort_key (\<lambda>e. key_number (fst e)) (filter (\<lambda>e. number_key (fst e)) es) @ filter (\<lambda>e. \<not> number_key (fst e)) es"

text \<open>The group without trash is the very array that the chosen arrangements are pushed to: when its turn comes, it
  holds the arrangements that are pushed already, and its own are pushed to it once more.\<close>

definition thin_group :: "arrangement list \<Rightarrow> string \<times> arrangement list \<Rightarrow> arrangement list result" where
  "thin_group acc entry =
     (let as = (if fst entry = [] then acc else snd entry); amt = min (length as) 3 in
      bindR (sum_probs as) (\<lambda>total.
      bindR (mapR (\<lambda>a. bindR (divide_frac total (mk_frac (int amt) 1)) (\<lambda>q. Inr (a\<lparr>prob := q\<rparr>))) (take amt as)) (\<lambda>picked.
        Inr (acc @ picked))))"

definition thin_out :: "game_state \<Rightarrow> arrangement list \<Rightarrow> arrangement list result" where
  "thin_out s as =
     (let groups = group_by (trash_places s) as in
      foldR thin_group (case map_of groups [] of Some gs \<Rightarrow> gs | None \<Rightarrow> []) (object_values groups))"


section \<open>Probabilities\<close>

definition probs_ok :: "arrangement list \<Rightarrow> bool" where
  "probs_ok as \<longleftrightarrow> (\<forall>a \<in> set as. proper (prob a) \<and> 0 < frac_val (prob a))"

definition prob_sum :: "arrangement list \<Rightarrow> rat" where
  "prob_sum as = sum_list (map (\<lambda>a. frac_val (prob a)) as)"

lemma prob_sum_simps [simp]: "prob_sum [] = 0" "prob_sum (a # as) = frac_val (prob a) + prob_sum as"
    "prob_sum (as @ bs) = prob_sum as + prob_sum bs"
  by (simp_all add: prob_sum_def)

lemma probs_ok_simps [simp]: "probs_ok []" "probs_ok (a # as) \<longleftrightarrow> proper (prob a) \<and> 0 < frac_val (prob a) \<and> probs_ok as"
    "probs_ok (as @ bs) \<longleftrightarrow> probs_ok as \<and> probs_ok bs"
  by (auto simp: probs_ok_def)

lemma prob_sum_pos: "probs_ok as \<Longrightarrow> as \<noteq> [] \<Longrightarrow> 0 < prob_sum as"
proof (induction as)
  case (Cons a as)
  then show ?case by (cases "as = []") auto
qed simp

lemma sum_probs_ok: "probs_ok as \<Longrightarrow> \<exists>q. sum_probs as = Inr q \<and> proper q \<and> frac_val q = prob_sum as"
proof -
  have "probs_ok as \<Longrightarrow> proper q \<Longrightarrow> \<exists>r. foldR (\<lambda>q a. plus_frac q (prob a)) q as = Inr r \<and> proper r \<and> frac_val r = frac_val q + prob_sum as" for q
  proof (induction as arbitrary: q)
    case (Cons a as)
    obtain r where r: "plus_frac q (prob a) = Inr r" "proper r" "frac_val r = frac_val q + frac_val (prob a)"
      using plus_frac_ok [of q "prob a"] Cons.prems by auto
    from Cons.IH [OF _ r(2)] Cons.prems(1) r show ?case by auto
  qed simp
  from this [of "mk_frac 0 1"] show "probs_ok as \<Longrightarrow> \<exists>q. sum_probs as = Inr q \<and> proper q \<and> frac_val q = prob_sum as"
    by (simp add: sum_probs_def proper_frac)
qed

lemma divide_pos:
  assumes "proper f" "0 < frac_val f" "proper g" "0 < frac_val g"
  shows "\<exists>r. divide_frac f g = Inr r \<and> proper r \<and> 0 < frac_val r \<and> frac_val r = frac_val f / frac_val g"
proof -
  have "0 < numerator g" using assms(3,4) by (simp add: frac_val_def proper_def zero_less_divide_iff)
  then show ?thesis using divide_frac_ok [OF assms(1) _ assms(3)] assms(2,4) by auto
qed

text \<open>Dividing all probabilities by the same number.\<close>

lemma divide_all:
  assumes "probs_ok as" "proper g" "0 < frac_val g" "\<And>a. a \<in> set as \<Longrightarrow> P a"
  shows "\<exists>bs. mapR (\<lambda>a. if \<not> P a then Inl e else bindR (divide_frac (prob a) g) (\<lambda>q. Inr (a\<lparr>prob := q\<rparr>))) as = Inr bs \<and>
    probs_ok bs \<and> prob_sum bs = prob_sum as / frac_val g \<and> map arr_ids bs = map arr_ids as \<and> map new_remaining bs = map new_remaining as"
  using assms(1,4)
proof (induction as)
  case (Cons a as)
  obtain r where r: "divide_frac (prob a) g = Inr r" "proper r" "0 < frac_val r" "frac_val r = frac_val (prob a) / frac_val g"
    using divide_pos [of "prob a" g] Cons.prems(1) assms(2,3) by auto
  have "P a" "probs_ok as" using Cons.prems by simp_all
  with Cons.IH Cons.prems(2) r show ?case by (auto simp: add_divide_distrib)
qed simp

lemma normalise_ok:
  assumes "probs_ok as" "as \<noteq> []" "\<And>a. a \<in> set as \<Longrightarrow> total_missing (new_remaining a) = left"
  shows "\<exists>bs. normalise left as = Inr bs \<and> probs_ok bs \<and> prob_sum bs = 1 \<and> map arr_ids bs = map arr_ids as"
proof -
  obtain q where q: "sum_probs as = Inr q" "proper q" "frac_val q = prob_sum as" using sum_probs_ok [OF assms(1)] by auto
  have "0 < frac_val q" using prob_sum_pos [OF assms(1,2)] q(3) by simp
  from divide_all [OF assms(1) q(2) this, of "\<lambda>a. total_missing (new_remaining a) = left" "Thrown ''AssertionError''"] assms(3) this q
  show ?thesis by (auto simp: normalise_def)
qed

section \<open>All arrangements\<close>

definition remaining_pos :: "remaining list \<Rightarrow> bool" where
  "remaining_pos rs \<longleftrightarrow> distinct (map r_id rs) \<and> (\<forall>r \<in> set rs. 1 \<le> missing r)"

lemma total_missing_pos: "remaining_pos rs \<Longrightarrow> r \<in> set rs \<Longrightarrow> missing r \<le> total_missing rs"
proof (induction rs)
  case (Cons x rs)
  have "0 \<le> total_missing rs"
    using Cons.prems(1) by (auto simp: total_missing_def remaining_pos_def intro!: sum_list_nonneg) (use zero_le_one order_trans in blast)
  then show ?case using Cons by (auto simp: total_missing_def remaining_pos_def)
qed simp


lemma remove_total:
  assumes "remove_remaining rs i = Inr rs'"
  shows "total_missing rs' = total_missing rs - 1"
proof -
  obtain k ks where k: "find_indices (\<lambda>r. suit_index (r_id r) = suit_index i \<and> rank (r_id r) = rank i) rs = k # ks"
    and rs': "rs' = (if missing (rs ! k) = 1 then drop_nth k rs else rs[k := \<lparr>r_id = i, missing = missing (rs ! k) - 1, r_all = r_all (rs ! k)\<rparr>])"
    using assms by (auto simp: remove_remaining_def split: list.splits if_splits)
  have "k \<in> set (find_indices (\<lambda>r. suit_index (r_id r) = suit_index i \<and> rank (r_id r) = rank i) rs)" by (simp add: k)
  then have l: "k < length rs" by (simp add: find_indices_def)
  have "sum_list (map missing rs) = sum_list (map missing (take k rs @ rs ! k # drop (Suc k) rs))"
    using id_take_nth_drop [OF l] by simp
  then have "sum_list (map missing (drop_nth k rs)) = sum_list (map missing rs) - missing (rs ! k)"
    by (simp add: drop_nth_def)
  moreover have "sum_list (map missing (rs[k := x])) = sum_list (map missing rs) + missing x - missing (rs ! k)" for x
    using sum_list_update_int [of k "map missing rs" "missing x"] l by (simp add: map_update)
  ultimately show ?thesis by (simp add: total_missing_def rs')
qed

lemma remove_pos:
  assumes "remaining_pos rs" "r \<in> set rs"
  shows "\<exists>rs'. remove_remaining rs (r_id r) = Inr rs' \<and> remaining_pos rs' \<and> total_missing rs' = total_missing rs - 1"
proof -
  have d: "distinct (map r_id rs)" "1 \<le> missing r" using assms by (simp_all add: remaining_pos_def)
  obtain rs' where rs': "remove_remaining rs (r_id r) = Inr rs'" "distinct (map r_id rs')"
    "\<forall>q \<in> set rs'. if r_id q = r_id r then missing q = missing r - 1 \<and> missing r \<noteq> 1 else q \<in> set rs"
    using remove_remaining_some [OF assms(2) d(1)] by blast
  have "1 \<le> missing q" if "q \<in> set rs'" for q
    using rs'(3) that d(2) assms(1) by (cases "r_id q = r_id r") (auto simp: remaining_pos_def)
  then show ?thesis using rs'(1,2) remove_total [OF rs'(1)] by (auto simp: remaining_pos_def)
qed

definition arrangements_ok :: "nat \<Rightarrow> int \<Rightarrow> arrangement list \<Rightarrow> bool" where
  "arrangements_ok n m as \<longleftrightarrow> probs_ok as \<and>
     (\<forall>a \<in> set as. remaining_pos (new_remaining a) \<and> total_missing (new_remaining a) = m \<and> length (arr_ids a) = n)"

lemma arrangements_ok_simps [simp]: "arrangements_ok n m []"
    "arrangements_ok n m (as @ bs) \<longleftrightarrow> arrangements_ok n m as \<and> arrangements_ok n m bs"
  by (auto simp: arrangements_ok_def)

lemma times_pos:
  assumes "proper f" "0 < frac_val f" "0 < k"
  shows "\<exists>r. times_frac f (mk_frac k 1) = Inr r \<and> proper r \<and> 0 < frac_val r"
  using times_frac_ok [OF assms(1), of "mk_frac k 1"] assms(2,3) by (auto simp: proper_frac)

lemma expand_arr_ok:
  assumes "proper (prob a)" "0 < frac_val (prob a)" "remaining_pos (new_remaining a)"
    and "total_missing (new_remaining a) = m" "length (arr_ids a) = n"
  shows "\<exists>bs. expand_arr s p linked unknown a = Inr bs \<and> arrangements_ok (Suc n) (m - 1) bs"
  unfolding expand_arr_def
proof (rule foldR_total)
  fix acc r
  assume r: "r \<in> set (new_remaining a)" and acc: "arrangements_ok (Suc n) (m - 1) acc"
  obtain rs where rs: "remove_remaining (new_remaining a) (r_id r) = Inr rs" "remaining_pos rs" "total_missing rs = m - 1"
    using remove_pos [OF assms(3) r] assms(4) by auto
  have m: "0 < missing r" "0 < m" using assms(3,4) r total_missing_pos [OF assms(3) r] by (auto simp: remaining_pos_def)
  obtain q where q: "times_frac (prob a) (mk_frac (missing r) 1) = Inr q" "proper q" "0 < frac_val q"
    using times_pos [OF assms(1,2) m(1)] by blast
  obtain q' where q': "divide_frac q (mk_frac m 1) = Inr q'" "proper q'" "0 < frac_val q'"
    using divide_pos [OF q(2,3), of "mk_frac m 1"] m(2) by (auto simp: proper_frac)
  show "\<exists>acc'. (if impossible_for s p linked unknown (arr_ids a) (r_id r) then Inr acc
       else
         bindR (remove_remaining (new_remaining a) (r_id r)) (\<lambda>rs.
         bindR (times_frac (prob a) (mk_frac (missing r) 1)) (\<lambda>q.
         bindR (divide_frac q (mk_frac (total_missing (new_remaining a)) 1)) (\<lambda>q.
           Inr (acc @ [\<lparr>arr_ids = arr_ids a @ [r_id r], prob = q, new_remaining = rs\<rparr>]))))) = Inr acc' \<and>
       arrangements_ok (Suc n) (m - 1) acc'"
    using acc rs q q' assms(4,5) by (auto simp: arrangements_ok_def)
qed simp

lemma all_arrangements_ok:
  assumes "remaining_pos rs"
  shows "\<exists>as. all_arrangements s p linked unknown rs = Inr as \<and> arrangements_ok (length unknown) (total_missing rs - int (length unknown)) as"
proof -
  have level: "\<exists>bs. flat_mapR (expand_arr s p linked unknown) as = Inr bs \<and> arrangements_ok (Suc n) (m - 1) bs"
    if w: "arrangements_ok n m as" for as n m
    unfolding flat_mapR_def
  proof (rule foldR_total)
    fix acc a assume a: "a \<in> set as" and acc: "arrangements_ok (Suc n) (m - 1) acc"
    have "proper (prob a)" "0 < frac_val (prob a)" "remaining_pos (new_remaining a)" "total_missing (new_remaining a) = m" "length (arr_ids a) = n"
      using w a by (auto simp: arrangements_ok_def probs_ok_def)
    from expand_arr_ok [OF this, of s p linked unknown] acc
    show "\<exists>acc'. bindR (expand_arr s p linked unknown a) (\<lambda>ys. Inr (acc @ ys)) = Inr acc' \<and> arrangements_ok (Suc n) (m - 1) acc'" by auto
  qed simp
  have "arrangements_ok n m as \<Longrightarrow> \<exists>bs. foldR (\<lambda>as _. flat_mapR (expand_arr s p linked unknown) as) as us = Inr bs \<and>
      arrangements_ok (n + length us) (m - int (length us)) bs" for as n m and us :: "nat list"
  proof (induction us arbitrary: as n m)
    case (Cons u us)
    obtain bs where bs: "flat_mapR (expand_arr s p linked unknown) as = Inr bs" "arrangements_ok (Suc n) (m - 1) bs"
      using level [OF Cons.prems] by blast
    from Cons.IH [OF bs(2)] bs(1) show ?case by (auto simp: algebra_simps)
  qed simp
  from this [of 0 "total_missing rs" "[\<lparr>arr_ids = [], prob = mk_frac 1 1, new_remaining = rs\<rparr>]" unknown]
  show ?thesis using assms by (auto simp: all_arrangements_def arrangements_ok_def proper_frac)
qed

section \<open>What thinning out does to the probabilities\<close>

lemma thin_group_ok:
  assumes "probs_ok acc" "probs_ok (snd entry)" "fst entry = [] \<Longrightarrow> acc \<noteq> []" "snd entry \<noteq> []"
  shows "\<exists>acc'. thin_group acc entry = Inr acc' \<and> probs_ok acc' \<and> acc' \<noteq> [] \<and>
    prob_sum acc' = prob_sum acc + (if fst entry = [] then prob_sum acc else prob_sum (snd entry))"
proof -
  define as where "as = (if fst entry = [] then acc else snd entry)"
  define amt where "amt = min (length as) 3"
  have as: "probs_ok as" "as \<noteq> []" using assms by (auto simp: as_def)
  then have amt: "0 < amt" by (simp add: amt_def)
  obtain q where q: "sum_probs as = Inr q" "proper q" "frac_val q = prob_sum as" using sum_probs_ok [OF as(1)] by auto
  have pos: "0 < frac_val q" using prob_sum_pos [OF as] q(3) by simp
  obtain r where r: "divide_frac q (mk_frac (int amt) 1) = Inr r" "proper r" "0 < frac_val r" "frac_val r = frac_val q / of_nat amt"
    using divide_pos [OF q(2) pos, of "mk_frac (int amt) 1"] amt by (auto simp: proper_frac)
  have m: "mapR (\<lambda>a. bindR (divide_frac q (mk_frac (int amt) 1)) (\<lambda>q. Inr (a\<lparr>prob := q\<rparr>))) bs = Inr (map (\<lambda>a. a\<lparr>prob := r\<rparr>) bs)" for bs :: "arrangement list"
    by (induction bs) (simp_all add: r(1))
  have sum: "prob_sum (map (\<lambda>a. a\<lparr>prob := r\<rparr>) bs) = of_nat (length bs) * frac_val r" for bs :: "arrangement list"
    by (induction bs) (simp_all add: algebra_simps)
  have "length (take amt as) = amt" by (simp add: amt_def)
  then have "prob_sum (map (\<lambda>a. a\<lparr>prob := r\<rparr>) (take amt as)) = prob_sum as" using sum [of "take amt as"] r(4) q(3) amt by simp
  moreover have "probs_ok (map (\<lambda>a. a\<lparr>prob := r\<rparr>) bs)" for bs :: "arrangement list"
    using r(2,3) by (auto simp: probs_ok_def)
  moreover have "take amt as \<noteq> []" using as(2) amt by simp
  ultimately show ?thesis
    using assms(1) m q(1) unfolding thin_group_def Let_def as_def [symmetric] amt_def [symmetric] by (auto simp: as_def)
qed


lemma mset_object_values: "mset (object_values es) = mset es"
proof -
  have "mset (filter P es) + mset (filter (\<lambda>e. \<not> P e) es) = mset es" for P :: "string \<times> 'a \<Rightarrow> bool"
    by (simp add: multiset_partition [symmetric])
  then show ?thesis by (simp add: object_values_def)
qed

definition group_sum :: "(string \<times> arrangement list) list \<Rightarrow> rat" where
  "group_sum gs = sum_list (map (\<lambda>e. prob_sum (snd e)) gs)"

lemma group_sum_simps [simp]: "group_sum [] = 0" "group_sum (e # gs) = prob_sum (snd e) + group_sum gs"
    "group_sum (gs @ hs) = group_sum gs + group_sum hs"
  by (simp_all add: group_sum_def)

lemma group_sum_object_values: "group_sum (object_values gs) = group_sum gs"
proof -
  have "sum_mset (image_mset (\<lambda>e. prob_sum (snd e)) (mset (object_values gs))) = sum_mset (image_mset (\<lambda>e. prob_sum (snd e)) (mset gs))"
    by (simp only: mset_object_values)
  then show ?thesis unfolding group_sum_def mset_map [symmetric] sum_mset_sum_list .
qed

lemma group_sum_group_by: "group_sum (group_by f as) = prob_sum as"
proof -
  have "group_sum (group_insert k a gs) = group_sum gs + frac_val (prob a)" for k a gs
    by (induction k a gs rule: group_insert.induct) auto
  then show ?thesis by (induction as rule: rev_induct) (simp_all add: group_by_def)
qed

definition groups_ok :: "(string \<times> arrangement list) list \<Rightarrow> bool" where
  "groups_ok gs \<longleftrightarrow> (\<forall>e \<in> set gs. probs_ok (snd e) \<and> snd e \<noteq> [])"

lemma groups_ok_group_by: "probs_ok as \<Longrightarrow> groups_ok (group_by f as)"
  using group_by_member [of _ _ f as] by (force simp: groups_ok_def probs_ok_def filter_empty_conv)

lemma groups_sum_pos: "groups_ok gs \<Longrightarrow> 0 \<le> group_sum gs"
proof (induction gs)
  case (Cons e gs)
  then have "0 < prob_sum (snd e)" "0 \<le> group_sum gs" using prob_sum_pos by (auto simp: groups_ok_def)
  then show ?case by simp
qed simp

lemma thin_groups_ok:
  assumes "probs_ok acc" "groups_ok gs" "[] \<notin> fst ` set gs"
  shows "\<exists>acc'. foldR thin_group acc gs = Inr acc' \<and> probs_ok acc' \<and> prob_sum acc' = prob_sum acc + group_sum gs"
  using assms
proof (induction gs arbitrary: acc)
  case (Cons e gs)
  have e: "probs_ok (snd e)" "snd e \<noteq> []" "fst e \<noteq> []" using Cons.prems by (auto simp: groups_ok_def)
  obtain acc1 where a: "thin_group acc e = Inr acc1" "probs_ok acc1" "prob_sum acc1 = prob_sum acc + prob_sum (snd e)"
    using thin_group_ok [OF Cons.prems(1) e(1) _ e(2)] e(3) by auto
  from Cons.IH [OF a(2)] Cons.prems a show ?case by (auto simp: groups_ok_def)
qed simp

lemma group_by_entry: "map_of (group_by f xs) k = Some g \<Longrightarrow> (k, g) \<in> set (group_by f xs)"
  by (rule map_of_SomeD)

text \<open>Without an arrangement free of trash the probabilities still add up to one; with one they add up to more.\<close>

lemma thin_out_sum:
  assumes "probs_ok as" "prob_sum as = 1"
  shows "\<exists>bs. thin_out s as = Inr bs \<and> probs_ok bs \<and>
    (if \<exists>a \<in> set as. trash_places s a = [] then 1 < prob_sum bs else prob_sum bs = 1)"
proof -
  let ?gs = "group_by (trash_places s) as" and ?es = "object_values (group_by (trash_places s) as)"
  have set_es: "set ?es = set ?gs" by (metis mset_object_values set_mset_mset)
  have ok: "groups_ok ?es" using groups_ok_group_by [OF assms(1), of "trash_places s"] by (simp add: groups_ok_def set_es)
  have sum: "group_sum ?es = 1" using assms(2) by (simp add: group_sum_object_values group_sum_group_by)
  show ?thesis
  proof (cases "\<exists>a \<in> set as. trash_places s a = []")
    case False
    then have none: "map_of ?gs [] = None" by (auto simp: map_of_group_by image_iff)
    then have "[] \<notin> fst ` set ?es" unfolding set_es by (simp add: map_of_eq_None_iff)
    from thin_groups_ok [OF _ ok this, of "[]"] sum False none show ?thesis by (auto simp: thin_out_def)
  next
    case True
    define g0 where "g0 = filter (\<lambda>a. trash_places s a = []) as"
    have "[] \<in> trash_places s ` set as" using True by force
    then have g0: "map_of ?gs [] = Some g0" by (simp add: map_of_group_by g0_def)
    have ne: "g0 \<noteq> []" "probs_ok g0" using True assms(1) by (auto simp: g0_def filter_empty_conv probs_ok_def)
    have "([], g0) \<in> set ?es" using group_by_entry [OF g0] set_es by simp
    then obtain xs ys where es: "?es = xs @ ([], g0) # ys" by (meson split_list)
    have "distinct (map fst ?es)"
    proof -
      have "mset (map fst ?es) = mset (map fst ?gs)" by (simp add: mset_object_values)
      then show ?thesis using distinct_group_by [of "trash_places s" as] by (metis mset_eq_imp_distinct_iff)
    qed
    then have keys: "[] \<notin> fst ` set xs" "[] \<notin> fst ` set ys" by (auto simp: es)
    have oks: "groups_ok xs" "groups_ok ys" using ok by (auto simp: es groups_ok_def)
    obtain a1 where a1: "foldR thin_group g0 xs = Inr a1" "probs_ok a1" "prob_sum a1 = prob_sum g0 + group_sum xs"
      using thin_groups_ok [OF ne(2) oks(1) keys(1)] by auto
    have pos: "0 < prob_sum g0" "0 \<le> group_sum xs" using prob_sum_pos [OF ne(2,1)] groups_sum_pos [OF oks(1)] by simp_all
    then have "a1 \<noteq> []" using a1(3) by auto
    then obtain a2 where a2: "thin_group a1 ([], g0) = Inr a2" "probs_ok a2" "prob_sum a2 = prob_sum a1 + prob_sum a1"
      using thin_group_ok [OF a1(2), of "([], g0)"] ne by auto
    obtain a3 where a3: "foldR thin_group a2 ys = Inr a3" "probs_ok a3" "prob_sum a3 = prob_sum a2 + group_sum ys"
      using thin_groups_ok [OF a2(2) oks(2) keys(2)] by auto
    have "thin_out s as = Inr a3" using g0 a1(1) a2(1) a3(1) by (simp add: thin_out_def es foldR_append)
    moreover have "1 < prob_sum a3" using a1(3) a2(3) a3(3) pos sum by (simp add: es)
    ultimately show ?thesis using a3(2) True by auto
  qed
qed

end
