(* ===== verification/Endgame_Solver.thy ===== *)
theory Endgame_Solver
  imports Endgame_Arrangements Rewinds
begin

text \<open>
  The second half of \<open>src/src/conventions/shared/endgame.js\<close>: \<open>winnable\<close>, \<open>optimize\<close> and \<open>solve_game\<close>, which look
  for the moves with the best chance to win when the convention plays the rest of the game out. The convention, the
  clues and discards it suggests and the clock are the record \<open>tools\<close>. The recursion of \<open>winnable\<close> has fuel.
\<close>

record tools =
  tool_cv :: convention
  tool_late :: "nat \<Rightarrow> bool"
  find_clues :: "game \<Rightarrow> nat \<Rightarrow> clue list result"
  find_discards :: "game \<Rightarrow> nat \<Rightarrow> (bool \<times> nat) list result"

section \<open>Caches and clock\<close>

text \<open>The key of a game: what \<open>hash\<close> writes into a string, part by part.\<close>

type_synonym game_key = "nat list \<times> string list list \<times> string list \<times> action list option \<times> int \<times> int \<times> nat"

definition game_key :: "game \<Rightarrow> nat \<Rightarrow> game_key" where
  "game_key g turn =
     (let s = g_state g in
      (concat (hands s),
       map (\<lambda>p. map (\<lambda>t. case t of Some c \<Rightarrow> join_with '','' (map (log_id (variant s)) (iset_array (inferred c))) | None \<Rightarrow> '''') (thoughts p)) (all_players g),
       map (card_name s) (deck s),
       if action_list s = [] then None else last (action_list s),
       clue_tokens s, turn_count s, turn))"

type_synonym win_list = "(perform option \<times> fraction) list"

record solver =
  srch :: search
  wins :: "game_key \<rightharpoonup> win_list"

definition check_clock :: "tools \<Rightarrow> solver \<Rightarrow> bool \<times> solver" where
  "check_clock T sv = (tool_late T (readings (srch sv)), sv\<lparr>srch := (srch sv)\<lparr>readings := readings (srch sv) + 1\<rparr>\<rparr>)"

definition stop_when_late :: "tools \<Rightarrow> solver \<Rightarrow> solver result" where
  "stop_when_late T sv = (let (b, sv1) = check_clock T sv in if b then Inl timed_out else Inr sv1)"

definition ask_winnable_if :: "tools \<Rightarrow> game_state \<Rightarrow> nat \<Rightarrow> perform \<Rightarrow> remaining list \<Rightarrow> solver \<Rightarrow>
    ((bool \<times> basic_card list option) \<times> solver) result" where
  "ask_winnable_if T s turn act rs sv =
     bindR (winnable_if (tool_late T) s turn act rs (srch sv)) (\<lambda>(w, x). Inr (w, sv\<lparr>srch := x\<rparr>))"

section \<open>Moves\<close>

definition target_of :: "perform \<Rightarrow> int" where
  "target_of act = (case act of P_Play t \<Rightarrow> t | P_Discard t \<Rightarrow> t | P_Colour t _ \<Rightarrow> t | P_Rank t _ \<Rightarrow> t | P_EndGame t _ \<Rightarrow> t)"

definition advance_game :: "tools \<Rightarrow> game \<Rightarrow> nat \<Rightarrow> perform \<Rightarrow> game result" where
  "advance_game T g turn act =
     (let s = g_state g in
      if target_of act \<noteq> -1 then simulate_action (tool_cv T) g (perform_to_action s act turn (deck_at s))
      else Inr (g\<lparr>g_state := s\<lparr>clue_tokens := clue_tokens s - 1, turn_count := turn_count s + 1,
             endgame_turns := (if endgame_turns s \<noteq> -1 then endgame_turns s - 1 else -1)\<rparr>\<rparr>))"

text \<open>Try having everyone play what they know in the last round; an empty hand has no card to discard (\<open>-1\<close>).\<close>

definition last_discard :: "game_state \<Rightarrow> nat \<Rightarrow> perform" where
  "last_discard s turn = P_Discard (if hands s ! turn = [] then -1 else int (last (hands s ! turn)))"

fun trivial_turns :: "tools \<Rightarrow> game \<Rightarrow> nat \<Rightarrow> nat list \<Rightarrow> int list \<Rightarrow> perform \<Rightarrow> (int list \<times> perform) option" where
  "trivial_turns T g turn [] stacks act = Some (stacks, act)"
| "trivial_turns T g turn (k # ks) stacks act =
     (let s = g_state g; i = player_after s turn k in
      case playables_of (tool_cv T) (g_players g ! i) s i default_think of
        [] \<Rightarrow> trivial_turns T g turn ks stacks act
      | [ord] \<Rightarrow>
          let d = deck_at s ord in
          if get stacks (suit_index d) \<noteq> Some (rank d - 1) then None
          else trivial_turns T g turn ks (stacks[nat (suit_index d) := rank d]) (if k = 0 then P_Play (int ord) else act)
      | _ \<Rightarrow> None)"

definition trivially_winnable :: "tools \<Rightarrow> game \<Rightarrow> nat \<Rightarrow> bool \<times> perform option" where
  "trivially_winnable T g turn =
     (let s = g_state g in
      if score s = max_score s then (True, None)
      else if endgame_turns s \<noteq> -1 \<and> max_score s - score s \<le> endgame_turns s then
        (case trivial_turns T g turn [0..<nat (endgame_turns s)] (play_stacks s) (last_discard s turn) of
           Some (stacks, act) \<Rightarrow> if sum_list stacks = max_score s then (True, Some act) else (False, None)
         | None \<Rightarrow> (False, None))
      else (False, None))"

fun clue_streak :: "action list option list \<Rightarrow> nat" where
  "clue_streak [] = 0"
| "clue_streak (turn # turns) =
     (case turn of
        None \<Rightarrow> clue_streak turns
      | Some as \<Rightarrow>
          if list_ex (\<lambda>a. case a of ClueAction _ \<Rightarrow> True | _ \<Rightarrow> False) as then Suc (clue_streak turns)
          else if list_ex (\<lambda>a. case a of PlayAction _ \<Rightarrow> True | DiscardAction _ _ _ \<Rightarrow> True | _ \<Rightarrow> False) as then 0
          else clue_streak turns)"

type_synonym move_draws = "perform \<times> basic_card list option"

definition add_if_winnable :: "tools \<Rightarrow> game_state \<Rightarrow> nat \<Rightarrow> remaining list \<Rightarrow> perform \<Rightarrow> move_draws list \<times> solver \<Rightarrow> (move_draws list \<times> solver) result" where
  "add_if_winnable T s turn rs act acc =
     bindR (ask_winnable_if T s turn act rs (snd acc)) (\<lambda>((w, ds), sv). Inr (if w then fst acc @ [(act, ds)] else fst acc, sv))"

definition play_options :: "tools \<Rightarrow> game \<Rightarrow> nat \<Rightarrow> remaining list \<Rightarrow> solver \<Rightarrow> (move_draws list \<times> solver) result" where
  "play_options T g turn rs sv =
     (let s = g_state g in
      foldR (\<lambda>acc ord. if deck_id s ord = None then Inr acc else add_if_winnable T s turn rs (P_Play (int ord)) acc) ([], sv)
        (playables_of (tool_cv T) (g_players g ! turn) s turn default_think))"

definition clue_options :: "tools \<Rightarrow> game \<Rightarrow> nat \<Rightarrow> bool \<Rightarrow> move_draws list \<Rightarrow> (move_draws list \<times> bool) result" where
  "clue_options T g turn winnable acc =
     (if clue_tokens (g_state g) > 0 \<and> winnable
      then bindR (find_clues T g turn) (\<lambda>cls. Inr (acc @ map (\<lambda>cl. (clue_to_perform cl, Some [])) cls, cls \<noteq> []))
      else Inr (acc, False))"

definition discard_options :: "tools \<Rightarrow> game \<Rightarrow> nat \<Rightarrow> remaining list \<Rightarrow> move_draws list \<times> solver \<Rightarrow> (move_draws list \<times> solver) result" where
  "discard_options T g turn rs acc =
     (let s = g_state g in
      if pace s > 0 then
        bindR (find_discards T g turn) (\<lambda>ds.
          let ds' = (case (ds, List.find (\<lambda>ord. is_basic_trash s (deck_at s ord)) (hands s ! turn)) of
                       ([], Some ord) \<Rightarrow> [(False, ord)] | _ \<Rightarrow> ds) in
          foldR (\<lambda>acc (misplay, ord).
            if \<not> misplay \<and> clue_tokens s = 8 then Inr acc
            else add_if_winnable T s turn rs (if misplay then P_Play (int ord) else P_Discard (int ord)) acc) acc ds')
      else Inr acc)"

definition possible_actions :: "tools \<Rightarrow> game \<Rightarrow> nat \<Rightarrow> remaining list \<Rightarrow> solver \<Rightarrow> (move_draws list \<times> solver) result" where
  "possible_actions T g turn rs sv0 =
     (let s = g_state g; (is_late, sv) = check_clock T sv0 in
      if is_late then Inr ([], sv)
      else
        bindR (play_options T g turn rs sv) (\<lambda>(acts1, sv1).
        bindR (if clue_streak (rev (action_list s)) > num_players s then Inr (False, sv1)
               else bindR (ask_winnable_if T s turn some_clue rs sv1) (\<lambda>((w, _), sv2). Inr (w, sv2))) (\<lambda>(clue_winnable, sv2).
        bindR (clue_options T g turn clue_winnable acts1) (\<lambda>(acts2, attempted).
        bindR (discard_options T g turn rs (acts2, sv2)) (\<lambda>(acts3, sv3).
          Inr (if clue_tokens s > 0 \<and> clue_winnable \<and> \<not> attempted then acts3 @ [(some_clue, Some [])] else acts3, sv3))))))"

section \<open>Draws\<close>

record hypo =
  hypo_game :: game
  hypo_prob :: fraction
  hypo_remaining :: "remaining list"
  drew :: "basic_card option"

definition drawn_game :: "game \<Rightarrow> remaining list \<Rightarrow> remaining \<Rightarrow> hypo result" where
  "drawn_game g rs r =
     (let s = g_state g; k = nat (card_order s + 1); i = r_id r in
      bindR (remove_remaining rs i) (\<lambda>rs'.
        Inr \<lparr>hypo_game = g\<lparr>g_state := s\<lparr>deck := put (deck s) k (new_actual (suit_index i) (rank i) k (-1))\<rparr>, deck_ids := put (deck_ids g) k i\<rparr>,
             hypo_prob = mk_frac (missing r) (cards_left s), hypo_remaining = rs', drew = Some i\<rparr>))"

definition gen_hypo_games :: "game \<Rightarrow> move_draws list \<Rightarrow> remaining list \<Rightarrow> (hypo list \<times> hypo list) result" where
  "gen_hypo_games g acts rs =
     (let default = \<lparr>hypo_game = g, hypo_prob = mk_frac 1 1, hypo_remaining = rs, drew = None\<rparr> in
      if list_all (\<lambda>a. is_clue (fst a)) acts then Inr ([default], [])
      else bindR (mapR (drawn_game g rs) rs) (\<lambda>hs. Inr ([default], if hs = [] then [default] else hs)))"

section \<open>The best moves\<close>

text \<open>The winning chance of one move, added up over the draws, or the time is up. It stops when the draws that are left
  cannot reach the best chance so far.\<close>

datatype outcome = Chance fraction solver | TimeUp solver

type_synonym winner = "game \<Rightarrow> nat \<Rightarrow> remaining list \<Rightarrow> solver \<Rightarrow> (win_list \<times> solver) result"

definition unwinnable_draw :: "basic_card list option \<Rightarrow> hypo \<Rightarrow> bool result" where
  "unwinnable_draw ds h =
     (case drew h of
        None \<Rightarrow> Inr False
      | Some d \<Rightarrow> bindR (need ds) (\<lambda>ids. Inr (\<not> list_ex (\<lambda>i. suit_index i = suit_index d \<and> rank i = rank d) ids)))"

fun play_out :: "tools \<Rightarrow> winner \<Rightarrow> nat \<Rightarrow> move_draws \<Rightarrow> fraction \<Rightarrow> hypo list \<Rightarrow> fraction \<Rightarrow> fraction \<Rightarrow> solver \<Rightarrow> outcome result" where
  "play_out T rec turn act best [] all left sv = Inr (Chance all sv)"
| "play_out T rec turn act best (h # hs) all left sv =
     bindR (unwinnable_draw (snd act) h) (\<lambda>bad.
       if bad then play_out T rec turn act best hs all left sv
       else
         bindR (stop_when_late T sv) (\<lambda>sv1.
         bindR (advance_game T (hypo_game h) turn (fst act)) (\<lambda>g.
           if max_score (g_state g) < max_score (g_state (hypo_game h)) then play_out T rec turn act best hs all left sv1
           else
             bindR (rec g (next_player (g_state (hypo_game h)) turn) (hypo_remaining h) sv1) (\<lambda>(ws, sv2).
             let (is_late, sv3) = check_clock T sv2 in
             if is_late then Inr (TimeUp sv3)
             else (case ws of [] \<Rightarrow> Inl TypeError | (_, w) # _ \<Rightarrow>
               bindR (times_frac (hypo_prob h) w) (\<lambda>q.
               bindR (plus_frac all q) (\<lambda>all'.
               bindR (minus_frac left (hypo_prob h)) (\<lambda>left'.
               bindR (plus_frac all' left') (\<lambda>bound.
               bindR (less_frac bound best) (\<lambda>b.
                 if b then Inr (Chance all' sv3) else play_out T rec turn act best hs all' left' sv3))))))))))"

fun opt_loop :: "tools \<Rightarrow> winner \<Rightarrow> nat \<Rightarrow> hypo list \<times> hypo list \<Rightarrow> move_draws list \<Rightarrow> fraction \<Rightarrow> perform list \<Rightarrow> solver \<Rightarrow>
    ((fraction \<times> perform list) \<times> solver) result" where
  "opt_loop T rec turn hyps [] best bests sv = Inr ((best, bests), sv)"
| "opt_loop T rec turn hyps (act # acts) best bests sv =
     bindR (play_out T rec turn act best (if is_clue (fst act) then fst hyps else snd hyps) (mk_frac 0 1) (mk_frac 1 1) sv) (\<lambda>res.
       case res of
         TimeUp sv1 \<Rightarrow> Inr ((best, []), sv1)
       | Chance all sv1 \<Rightarrow>
           bindR (equals_frac all (mk_frac 1 1)) (\<lambda>sure.
             if sure then Inr ((all, [fst act]), sv1)
             else
               bindR (less_frac best all) (\<lambda>better.
                 if better then opt_loop T rec turn hyps acts all [fst act] sv1
                 else bindR (equals_frac all best) (\<lambda>same.
                   opt_loop T rec turn hyps acts best (if same then bests @ [fst act] else bests) sv1))))"

definition optimize :: "tools \<Rightarrow> winner \<Rightarrow> nat \<Rightarrow> hypo list \<times> hypo list \<Rightarrow> move_draws list \<Rightarrow> solver \<Rightarrow>
    ((fraction \<times> perform list) \<times> solver) result" where
  "optimize T rec turn hyps acts sv = opt_loop T rec turn hyps acts (mk_frac 0 1) [] sv"

definition bottom_decked :: "game_state \<Rightarrow> remaining list \<Rightarrow> bool" where
  "bottom_decked s rs \<longleftrightarrow> rs \<noteq> [] \<and> list_all (\<lambda>r. is_critical s (r_id r) \<and> rank (r_id r) \<noteq> 5) rs"

definition keep_win :: "game \<Rightarrow> nat \<Rightarrow> win_list \<Rightarrow> solver \<Rightarrow> win_list \<times> solver" where
  "keep_win g turn ws sv = (ws, sv\<lparr>wins := (wins sv)(game_key g turn \<mapsto> ws)\<rparr>)"

definition failure :: win_list where
  "failure = [(None, mk_frac 0 1)]"

fun winnable :: "tools \<Rightarrow> nat \<Rightarrow> winner" where
  "winnable T 0 = (\<lambda>g turn rs sv. Inl OutOfFuel)"
| "winnable T (Suc fuel) = (\<lambda>g turn rs sv.
     let s = g_state g in
     case wins sv (game_key g turn) of
       Some ws \<Rightarrow> Inr (ws, sv)
     | None \<Rightarrow>
         let (trivial, act) = trivially_winnable T g turn in
         if trivial then Inr (keep_win g turn [(act, mk_frac 1 1)] sv)
         else
           bindR (stop_when_late T sv) (\<lambda>sv1.
             if unwinnable_state s turn \<or> bottom_decked s rs then Inr (keep_win g turn failure sv1)
             else
               bindR (possible_actions T g turn rs sv1) (\<lambda>(acts, sv2).
                 if acts = [] then Inr (failure, sv2)
                 else
                   bindR (gen_hypo_games g acts rs) (\<lambda>hyps.
                   bindR (optimize T (winnable T fuel) turn hyps acts sv2) (\<lambda>((best, bests), sv3).
                     Inr (keep_win g turn (map (\<lambda>a. (Some a, best)) bests) sv3))))))"


section \<open>Solving\<close>

definition assign_in_deck :: "nat \<Rightarrow> basic_card \<Rightarrow> actual_card option list \<Rightarrow> actual_card option list result" where
  "assign_in_deck ord i ds = bindR (need (slot ds ord)) (\<lambda>c. with_at ds ord (assign_id i c))"

text \<open>Our own cards: the known ones are written into the deck.\<close>

definition write_own :: "(nat \<times> basic_card option) list \<Rightarrow> game_state \<Rightarrow> game_state result" where
  "write_own mine s =
     foldR (\<lambda>s (ord, i). case i of None \<Rightarrow> Inr s | Some j \<Rightarrow> bindR (assign_in_deck ord j (deck s)) (\<lambda>ds. Inr (s\<lparr>deck := ds\<rparr>))) s mine"

definition unknown_own :: "(nat \<times> basic_card option) list \<Rightarrow> nat list" where
  "unknown_own mine = map fst (filter (\<lambda>e. snd e = None) mine)"

definition find_arrangements :: "game \<Rightarrow> game_state \<Rightarrow> nat list \<Rightarrow> remaining list \<Rightarrow> bool \<Rightarrow> arrangement list result" where
  "find_arrangements g s unknown rs monte_carlo =
     bindR (all_arrangements s (me g) (linked_orders (me g) s) unknown rs) (\<lambda>as.
     bindR (normalise (cards_left s) as) (\<lambda>bs. if monte_carlo then thin_out s bs else Inr bs))"

definition arranged_game :: "game \<Rightarrow> game_state \<Rightarrow> (nat \<times> basic_card option) list \<Rightarrow> nat list \<Rightarrow> arrangement \<Rightarrow> hypo result" where
  "arranged_game g s mine unknown a =
     (let ids = fold (\<lambda>(ord, i) ids. case i of Some j \<Rightarrow> put ids ord j | None \<Rightarrow> ids) mine (deck_ids g) in
      bindR (foldR (\<lambda>(ds, ids) k. bindR (need (slot (deck s) (unknown ! k))) (\<lambda>c.
          Inr (put ds (unknown ! k) (assign_id (arr_ids a ! k) c), put ids (unknown ! k) (arr_ids a ! k))))
        (deck s, ids) [0..<length (arr_ids a)]) (\<lambda>(ds, ids').
      Inr \<lparr>hypo_game = g\<lparr>g_state := s\<lparr>deck := ds\<rparr>, deck_ids := ids'\<rparr>, hypo_prob = prob a, hypo_remaining = new_remaining a, drew = None\<rparr>))"

text \<open>The chances of the moves over the arrangements, in the order in which the moves are first found.\<close>

fun add_chance :: "perform \<Rightarrow> fraction \<Rightarrow> (perform \<times> fraction) list \<Rightarrow> (perform \<times> fraction) list result" where
  "add_chance act q [] = Inr [(act, q)]"
| "add_chance act q ((a, r) # es) =
     (if a = act then bindR (plus_frac r q) (\<lambda>r'. Inr ((a, r') # es)) else bindR (add_chance act q es) (\<lambda>es'. Inr ((a, r) # es')))"

definition solve_arranged :: "tools \<Rightarrow> nat \<Rightarrow> nat \<Rightarrow> remaining list \<Rightarrow> hypo \<Rightarrow> (perform \<times> fraction) list \<times> solver \<Rightarrow>
    ((perform \<times> fraction) list \<times> solver) result" where
  "solve_arranged T fuel turn rs h acc =
     bindR (stop_when_late T (snd acc)) (\<lambda>sv.
     bindR (possible_actions T (hypo_game h) turn rs sv) (\<lambda>(acts, sv1).
     bindR (gen_hypo_games (hypo_game h) acts (hypo_remaining h)) (\<lambda>hyps.
     bindR (optimize T (winnable T fuel) turn hyps acts sv1) (\<lambda>((best, bests), sv2).
       if numerator best = 0 then Inr (fst acc, sv2)
       else bindR (foldR (\<lambda>es a. bindR (times_frac best (hypo_prob h)) (\<lambda>q. add_chance a q es)) (fst acc) bests) (\<lambda>es. Inr (es, sv2))))))"

definition perform_value :: "nat \<times> perform \<times> fraction \<Rightarrow> rat result" where
  "perform_value e =
     bindR (times_frac (snd (snd e)) (mk_frac 1000 1)) (\<lambda>q.
     bindR (minus_frac q (mk_frac (int (fst e)) 1)) (\<lambda>r. Inr (frac_val r)))"

fun first_best :: "('a \<Rightarrow> rat result) \<Rightarrow> 'a list \<Rightarrow> ('a \<times> rat) option \<Rightarrow> 'a option result" where
  "first_best f [] best = Inr (map_option fst best)"
| "first_best f (x # xs) best =
     bindR (f x) (\<lambda>v. first_best f xs (case best of None \<Rightarrow> Some (x, v) | Some (y, w) \<Rightarrow> if v > w then Some (x, v) else best))"

definition no_strategy :: js_error where
  "no_strategy = Thrown ''couldn't find a winning strategy''"

definition best_perform :: "(perform \<times> fraction) list \<Rightarrow> (perform \<times> fraction) result" where
  "best_perform es =
     bindR (first_best perform_value (zip [0..<length es] es) None) (\<lambda>b.
       case b of Some (_, act, q) \<Rightarrow> Inr (act, q) | None \<Rightarrow> Inl no_strategy)"

definition solve_known :: "tools \<Rightarrow> nat \<Rightarrow> game \<Rightarrow> nat \<Rightarrow> remaining list \<Rightarrow> solver \<Rightarrow> ((perform option \<times> fraction) \<times> solver) result" where
  "solve_known T fuel g turn rs sv =
     bindR (winnable T fuel g turn rs sv) (\<lambda>(ws, sv1).
       case ws of [] \<Rightarrow> Inl TypeError
       | (act, q) # _ \<Rightarrow> if numerator q = 0 then Inl no_strategy else Inr ((act, q), sv1))"

definition solve_game :: "tools \<Rightarrow> nat \<Rightarrow> game \<Rightarrow> nat \<Rightarrow> bool \<Rightarrow> solver \<Rightarrow> ((perform option \<times> fraction) \<times> solver) result" where
  "solve_game T fuel g turn monte_carlo sv =
     (let (rs, mine) = find_remaining_identities g in
      if length (filter (\<lambda>r. \<not> is_basic_trash (g_state g) (r_id r) \<and> r_all r) rs) > 2
      then Inl (Thrown (''couldn't find any '' @ join_with '','' (map digits [0..<length rs]) @ ''!''))
      else
        bindR (write_own mine (minimal_copy (g_state g))) (\<lambda>s.
          let unknown = unknown_own mine in
          if cards_left s + int (length unknown) = 0 then solve_known T fuel (g\<lparr>g_state := s\<rparr>) turn rs sv
          else
            bindR (find_arrangements g s unknown rs monte_carlo) (\<lambda>as.
            bindR (if as = [] then Inr [\<lparr>hypo_game = g, hypo_prob = mk_frac 1 1, hypo_remaining = [], drew = None\<rparr>]
                   else mapR (arranged_game g s mine unknown) as) (\<lambda>hs.
            bindR (foldR (\<lambda>acc h. solve_arranged T fuel turn rs h acc) ([], sv) hs) (\<lambda>(es, sv1).
            bindR (stop_when_late T sv1) (\<lambda>sv2.
              if es = [] then Inl no_strategy
              else bindR (best_perform es) (\<lambda>(act, q). Inr ((Some act, q), sv2))))))))"


section \<open>Chances\<close>

definition chance :: "fraction \<Rightarrow> bool" where
  "chance q \<longleftrightarrow> proper q \<and> 0 \<le> frac_val q \<and> frac_val q \<le> 1"

lemma chance_ends [simp]: "chance (mk_frac 0 1)" "chance (mk_frac 1 1)"
  by (simp_all add: chance_def proper_frac)

definition chances_sum :: "hypo list \<Rightarrow> rat" where
  "chances_sum hs = sum_list (map (\<lambda>h. frac_val (hypo_prob h)) hs)"

definition hypos_ok :: "hypo list \<Rightarrow> bool" where
  "hypos_ok hs \<longleftrightarrow> (\<forall>h \<in> set hs. proper (hypo_prob h) \<and> 0 \<le> frac_val (hypo_prob h)) \<and> chances_sum hs \<le> 1"

definition gives_chances :: "winner \<Rightarrow> bool" where
  "gives_chances rec \<longleftrightarrow> (\<forall>g t rs sv ws sv'. rec g t rs sv = Inr (ws, sv') \<longrightarrow> (\<forall>w \<in> set ws. chance (snd w)))"

lemma times_chance:
  assumes "proper p" "0 \<le> frac_val p" "chance w" "times_frac p w = Inr q"
  shows "proper q \<and> 0 \<le> frac_val q \<and> frac_val q \<le> frac_val p"
proof -
  have "proper q" "frac_val q = frac_val p * frac_val w" using times_frac_ok [of p w] assms by (auto simp: chance_def)
  then show ?thesis using assms(2,3) mult_left_mono [of "frac_val w" 1 "frac_val p"] by (auto simp: chance_def)
qed

lemma plus_frac_val: "proper f \<Longrightarrow> proper g \<Longrightarrow> plus_frac f g = Inr r \<Longrightarrow> proper r \<and> frac_val r = frac_val f + frac_val g"
  using plus_frac_ok [of f g] by auto

lemma play_out_chance:
  assumes rec: "gives_chances rec"
  shows "play_out T rec turn act best hs all left sv = Inr (Chance q sv') \<Longrightarrow>
    (\<forall>h \<in> set hs. proper (hypo_prob h) \<and> 0 \<le> frac_val (hypo_prob h)) \<Longrightarrow> proper all \<Longrightarrow> 0 \<le> frac_val all \<Longrightarrow>
    proper q \<and> 0 \<le> frac_val q \<and> frac_val q \<le> frac_val all + chances_sum hs"
proof (induction hs arbitrary: all left sv)
  case Nil
  then show ?case by (simp add: chances_sum_def)
next
  case (Cons h hs)
  note p = Cons.prems
  have h: "proper (hypo_prob h)" "0 \<le> frac_val (hypo_prob h)" and hs: "\<forall>h \<in> set hs. proper (hypo_prob h) \<and> 0 \<le> frac_val (hypo_prob h)"
    using p(2) by simp_all
  have pos: "0 \<le> chances_sum hs" unfolding chances_sum_def using hs by (intro sum_list_nonneg) auto
  have later: "proper q \<and> 0 \<le> frac_val q \<and> frac_val q \<le> frac_val all + chances_sum (h # hs)"
    if "play_out T rec turn act best hs all l v = Inr (Chance q sv')" for l v
    using Cons.IH [OF that hs p(3,4)] h(2) by (simp add: chances_sum_def)
  obtain bad where bad: "unwinnable_draw (snd act) h = Inr bad" using p(1) by (auto simp: result_simps)
  show ?case
  proof (cases bad)
    case True
    then show ?thesis using p(1) bad later by simp
  next
    case False
    then obtain sv1 g where a: "stop_when_late T sv = Inr sv1" "advance_game T (hypo_game h) turn (fst act) = Inr g"
      using p(1) bad by (auto simp: result_simps)
    show ?thesis
    proof (cases "max_score (g_state g) < max_score (g_state (hypo_game h))")
      case True
      then show ?thesis using p(1) bad False a later by simp
    next
      case ms: False
      obtain ws sv2 where r: "rec g (next_player (g_state (hypo_game h)) turn) (hypo_remaining h) sv1 = Inr (ws, sv2)"
        using p(1) bad False a ms by (auto simp: result_simps)
      obtain late sv3 where c: "check_clock T sv2 = (late, sv3)" by (cases "check_clock T sv2")
      obtain x w us where ws: "ws = (x, w) # us" and nl: "\<not> late"
        using p(1) bad False a ms r c by (cases ws) (auto split: if_splits)
      have "chance w" using rec r ws unfolding gives_chances_def by force
      obtain q1 all' left' bound b where s: "times_frac (hypo_prob h) w = Inr q1" "plus_frac all q1 = Inr all'"
        "minus_frac left (hypo_prob h) = Inr left'" "plus_frac all' left' = Inr bound" "less_frac bound best = Inr b"
        and rest: "(if b then Inr (Chance all' sv3) else play_out T rec turn act best hs all' left' sv3) = Inr (Chance q sv')"
        using p(1) bad False a ms r c ws nl by (auto simp: result_simps)
      have q1: "proper q1" "0 \<le> frac_val q1" "frac_val q1 \<le> frac_val (hypo_prob h)"
        using times_chance [OF h \<open>chance w\<close> s(1)] by auto
      have all': "proper all'" "frac_val all' = frac_val all + frac_val q1" using plus_frac_val [OF p(3) q1(1) s(2)] by auto
      show ?thesis
      proof (cases b)
        case True
        then show ?thesis using rest all' q1 p(4) pos by (auto simp: chances_sum_def)
      next
        case False
        then have "play_out T rec turn act best hs all' left' sv3 = Inr (Chance q sv')" using rest by simp
        from Cons.IH [OF this hs all'(1)] show ?thesis using all'(2) q1 p(4) by (auto simp: chances_sum_def)
      qed
    qed
  qed
qed

lemma opt_loop_chance:
  assumes "gives_chances rec" "hypos_ok (fst hyps)" "hypos_ok (snd hyps)"
  shows "opt_loop T rec turn hyps acts best bests sv = Inr ((q, as), sv') \<Longrightarrow> chance best \<Longrightarrow> chance q \<and> frac_val best \<le> frac_val q"
proof (induction acts arbitrary: best bests sv)
  case (Cons act acts)
  note p = Cons.prems
  let ?hs = "if is_clue (fst act) then fst hyps else snd hyps"
  obtain res where res: "play_out T rec turn act best ?hs (mk_frac 0 1) (mk_frac 1 1) sv = Inr res"
    using p(1) by (auto simp: result_simps)
  show ?case
  proof (cases res)
    case (TimeUp sv1)
    then show ?thesis using p res by simp
  next
    case (Chance all sv1)
    have hs: "hypos_ok ?hs" using assms(2,3) by simp
    have "proper all \<and> 0 \<le> frac_val all \<and> frac_val all \<le> frac_val (mk_frac 0 1) + chances_sum ?hs"
      by (rule play_out_chance [OF assms(1) res [unfolded Chance]]) (use hs in \<open>simp_all add: hypos_ok_def proper_frac\<close>)
    then have c: "chance all" using hs by (auto simp: hypos_ok_def chance_def)
    have cmp: "equals_frac all (mk_frac 1 1) = Inr (frac_val all = 1)" "less_frac best all = Inr (frac_val best < frac_val all)"
      "equals_frac all best = Inr (frac_val all = frac_val best)"
      using compare_frac_ok c p(2) by (auto simp: chance_def proper_frac)
    consider "frac_val all = 1" | "frac_val all \<noteq> 1" "frac_val best < frac_val all" | "frac_val all \<noteq> 1" "\<not> frac_val best < frac_val all"
      by blast
    then show ?thesis
    proof cases
      case 1
      then have "q = all" using p(1) res Chance cmp by simp
      then show ?thesis using c 1 p(2) by (simp add: chance_def)
    next
      case 2
      then have "opt_loop T rec turn hyps acts all [fst act] sv1 = Inr ((q, as), sv')" using p(1) res Chance cmp by simp
      from Cons.IH [OF this c] show ?thesis using 2 by simp
    next
      case 3
      then have "opt_loop T rec turn hyps acts best (if frac_val all = frac_val best then bests @ [fst act] else bests) sv1 = Inr ((q, as), sv')"
        using p(1) res Chance cmp by simp
      from Cons.IH [OF this p(2)] show ?thesis .
    qed
  qed
qed simp

text \<open>When the draws add up to the cards that are left, their chances add up to one.\<close>

lemma gen_hypo_games_ok:
  assumes "gen_hypo_games g acts rs = Inr hyps" "\<forall>r \<in> set rs. 0 \<le> missing r" "total_missing rs \<le> cards_left (g_state g)" "0 < cards_left (g_state g)"
  shows "hypos_ok (fst hyps)" "hypos_ok (snd hyps)"
proof -
  let ?k = "cards_left (g_state g)"
  have draws: "(\<forall>h \<in> set hs. proper (hypo_prob h) \<and> 0 \<le> frac_val (hypo_prob h)) \<and> chances_sum hs = of_int (total_missing qs) / of_int ?k"
    if "mapR (drawn_game g rs) qs = Inr hs" "\<forall>r \<in> set qs. 0 \<le> missing r" for qs hs
    using that
  proof (induction qs arbitrary: hs)
    case Nil
    then show ?case by (simp add: chances_sum_def total_missing_def)
  next
    case (Cons r qs)
    then obtain h ts where h: "drawn_game g rs r = Inr h" "mapR (drawn_game g rs) qs = Inr ts" "hs = h # ts" by (auto simp: result_simps)
    have "hypo_prob h = mk_frac (missing r) ?k" using h(1) by (auto simp: drawn_game_def Let_def result_simps)
    then show ?case using Cons.IH [OF h(2)] Cons.prems(2) assms(4) h(3)
      by (auto simp: proper_frac chances_sum_def total_missing_def add_divide_distrib)
  qed
  have one: "hypos_ok [\<lparr>hypo_game = g, hypo_prob = mk_frac 1 1, hypo_remaining = rs, drew = None\<rparr>]"
    by (simp add: hypos_ok_def chances_sum_def proper_frac)
  have "hypos_ok hs" if "mapR (drawn_game g rs) rs = Inr hs" for hs
    using draws [OF that assms(2)] assms(3,4) by (simp add: hypos_ok_def)
  with one show "hypos_ok (fst hyps)" "hypos_ok (snd hyps)"
    using assms(1) by (auto simp: gen_hypo_games_def Let_def result_simps hypos_ok_def chances_sum_def split: if_splits)
qed

end
