(* ===== verification/Endgame_Demo.thy ===== *)
theory Endgame_Demo
  imports Endgame_Search Endgame_Winnable Endgame_Solver Demo
begin

text \<open>
  Small endgame positions on which the hypotheses of the properties hold, over the variant of the theory \<open>Demo\<close>:
  nothing but the witnesses uses them.
\<close>

definition demo_position :: "int list \<Rightarrow> int list list \<Rightarrow> nat list list \<Rightarrow> basic_card list \<Rightarrow> int \<Rightarrow> int \<Rightarrow> int \<Rightarrow> game_state" where
  "demo_position stacks discards hs ids left turns tokens =
     demo_start\<lparr>play_stacks := stacks, discard_stacks := discards, hands := hs,
       deck := map (\<lambda>k. Some (new_actual (suit_index (ids ! k)) (rank (ids ! k)) k 0)) [0..<length ids],
       card_order := int (length ids) - 1, cards_left := left, endgame_turns := turns, clue_tokens := tokens\<rparr>"

definition blank_discards :: "int list list" where
  "blank_discards = [[0, 0, 0, 0, 0], [0, 0, 0, 0, 0]]"

text \<open>One turn is left, and Alice holds the blue 5 that is missing.\<close>

definition demo_last :: game_state where
  "demo_last = demo_position [5, 4] blank_discards [[0], []] [mk_id 1 5] 0 1 0"

text \<open>One turn is left, but two cards are missing.\<close>

definition demo_lost :: game_state where
  "demo_lost = demo_position [5, 3] blank_discards [[0], []] [mk_id 1 5] 0 1 0"

text \<open>One card is left, Bob must play two cards, and Alice has no clue to wait with.\<close>

definition demo_far :: game_state where
  "demo_far = demo_position [5, 3] [[0, 0, 0, 0, 0], [0, 0, 0, 1, 0]] [[0], [1, 2]] [mk_id 0 1, mk_id 1 4, mk_id 1 5] 1 (-1) 0"

lemma all_in_deck: "(\<forall>i :: basic_card. in_deck s i \<longrightarrow> P i) \<longleftrightarrow> list_all P (all_identities (suits (variant s)))"
  by (auto simp: list_all_iff set_all_identities)

lemma held_all_list: "held_all s i = sum_list (map (\<lambda>k. held s k i) [0..<num_players s])"
  by (simp add: held_all_def sum_list_sum_nth atLeast0LessThan)

lemma position_okI:
  assumes "tables_ok s" "stacks_ok s" "length (hands s) = num_players s" "0 < num_players s" "- 1 \<le> card_order s"
    "list_all distinct (hands s)"
    "list_all (list_all (\<lambda>ord. int ord \<le> card_order s \<and> (case deck_id s ord of Some i \<Rightarrow> in_deck s i | None \<Rightarrow> suit_index (deck_at s ord) = -1))) (hands s)"
    "int (length (deck s)) \<le> card_order s + 1"
    "list_all (\<lambda>i. base_count s i + int (sum_list (map (\<lambda>k. held s k i) [0..<num_players s])) \<le> total_count s i \<and>
       (rank i = max_rank_of s i + 1 \<longrightarrow> discards_of s i = total_count s i)) (all_identities (suits (variant s)))"
    "phase_ok s"
  shows "position_ok s"
proof -
  have beyond: "slot (deck s) ord = None" if "card_order s < int ord" for ord
    using that assms(8) by (simp add: slot_def)
  have hand: "int ord \<le> card_order s \<and> (\<forall>i. deck_id s ord = Some i \<longrightarrow> in_deck s i) \<and>
      (deck_id s ord = None \<longrightarrow> suit_index (deck_at s ord) = -1)" if "k < num_players s" "ord \<in> set (hands s ! k)" for k ord
  proof -
    have "hands s ! k \<in> set (hands s)" using that(1) assms(3) by simp
    then have "int ord \<le> card_order s \<and> (case deck_id s ord of Some i \<Rightarrow> in_deck s i | None \<Rightarrow> suit_index (deck_at s ord) = -1)"
      using assms(7) that(2) unfolding list_all_iff by blast
    then show ?thesis by (auto split: option.splits)
  qed
  have "distinct (hands s ! k)" if "k < num_players s" for k using that assms(3,6) by (simp add: list_all_length)
  then have "orders_ok s" using assms(3-5) hand beyond unfolding orders_ok_def by blast
  moreover have "counts_ok s" "tops_ok s" using assms(9)
    by (auto simp: counts_ok_def tops_ok_def held_all_list list_all_iff set_all_identities)
  ultimately show ?thesis using assms(1,2,10) by (simp add: position_ok_def)
qed

lemma demo_positions: "position_ok demo_last" "position_ok demo_lost" "position_ok demo_far"
  by (rule position_okI; code_simp)+

lemma demo_players: "num_players demo_last = 2" "num_players demo_lost = 2" "num_players demo_far = 2"
  by code_simp+

lemma demo_lost_seen: "unwinnable_state demo_lost 0" "score demo_lost \<noteq> max_score demo_lost"
  by code_simp+

lemma demo_far_unseen: "\<not> unwinnable_state demo_far 0" "cards_left demo_far = 1" "clue_tokens demo_far = 0"
  by code_simp+

text \<open>The search from the position that is won with one play.\<close>

definition demo_won :: game_state where
  "demo_won = advance_state demo_last 0 (P_Play 0) None"

definition demo_line :: "position set" where
  "demo_line = {(demo_last, 0, []), (demo_won, 1, [])}"

definition demo_search :: search where
  "demo_search = \<lparr>cache = Map.empty, readings = 0\<rparr>"

lemma demo_won_score: "score demo_won = max_score demo_won" "search_moves demo_last 0 = [P_Play 0]" "cards_left demo_last = 0"
  "next_player demo_last 0 = 1" "\<not> unwinnable_state demo_last 0"
  by code_simp+

lemma demo_last_wins: "search_wins demo_last 0 []"
  by (rule search_wins.no_draw [of _ _ "P_Play 0"])
    (simp_all add: demo_won_score demo_won_def [symmetric] search_wins.won)

lemma demo_line_ok: "closed_positions demo_line" "keys_tell demo_line" "cache_right demo_line demo_search"
  using demo_last_wins demo_won_score search_wins.won [OF demo_won_score(1)]
  by (auto simp: demo_line_def closed_positions_def keys_tell_def cache_right_def demo_search_def successors_def demo_won_def)

lemma demo_searched: "\<exists>sv. winnable_simpler (\<lambda>_. False) 20 demo_last 0 [] demo_search = Inr (True, sv)"
proof -
  have "case winnable_simpler (\<lambda>_. False) 20 demo_last 0 [] demo_search of Inr (b, _) \<Rightarrow> b | Inl _ \<Rightarrow> False" by code_simp
  then show ?thesis by (auto split: sum.splits)
qed

text \<open>One clue whose outcome is judged by a winner that gives every game an even chance.\<close>

definition demo_solver :: solver where
  "demo_solver = \<lparr>srch = demo_search, wins = Map.empty\<rparr>"

definition demo_tools :: tools where
  "demo_tools = \<lparr>tool_cv = abstract_convention, tool_late = (\<lambda>_. False), find_clues = (\<lambda>_ _. Inr []), find_discards = (\<lambda>_ _. Inr [])\<rparr>"

definition demo_winner :: winner where
  "demo_winner = (\<lambda>g t rs sv. Inr ([(None, mk_frac 1 2)], sv))"

definition demo_hypo :: hypo where
  "demo_hypo = \<lparr>hypo_game = demo_drawn, hypo_prob = mk_frac 1 1, hypo_remaining = [], drew = None\<rparr>"

lemma demo_optimized: "\<exists>bests sv. optimize demo_tools demo_winner 0 ([demo_hypo], [])
   [(some_clue, Some [])] demo_solver = Inr ((mk_frac 1 2, bests), sv)"
proof -
  have "case optimize demo_tools demo_winner 0 ([demo_hypo], [])
   [(some_clue, Some [])] demo_solver of Inr ((q, _), _) \<Rightarrow> q = mk_frac 1 2 | Inl _ \<Rightarrow> False" by code_simp
  then show ?thesis by (auto split: sum.splits)
qed
end
