(* ===== verification/H_Stalls.thy ===== *)
theory H_Stalls
  imports H_Focus H_Actions H_Discards Clue_Results
begin

text \<open>
  Stalls of the h-group: \<open>src/src/conventions/h-group/clue-interpretation/interpret-stall.js\<close>, with what it needs of the clue finder: the
  statistics of a clue (\<open>get_result\<close> of \<open>clue-finder/determine-clue.js\<close>) and the clues that players expect of each other
  (\<open>find_expected_clue\<close> of \<open>clue-finder/clue-finder.js\<close>, \<open>early_game_clue\<close> of \<open>urgent-actions.js\<close>). How a single clue is read is an argument
  of type \<open>clue_finder\<close>, because reading it interprets the clue in a simulated game; the generator of expected clues is a
  fold over all clues, whose state says which clues are no longer looked at. Logging is left out.
\<close>

abbreviation level_fix :: nat where "level_fix \<equiv> 3"
abbreviation level_tempo :: nat where "level_tempo \<equiv> 6"

section \<open>The statistics of a clue\<close>

definition last_h_move :: "game \<Rightarrow> h_interp" where
  "last_h_move g = (case h_last_move g of H_Move m \<Rightarrow> m | _ \<Rightarrow> H_Undefined)"

text \<open>Whether the clue is safe is only asked when it is not hypothetical. Our own clue does not count what we know to play.\<close>

definition get_result :: "(clue_action \<Rightarrow> (bool \<times> nat option) result) \<Rightarrow> game \<Rightarrow> game \<Rightarrow> clue_action \<Rightarrow> nat list \<Rightarrow> clue_result result" where
  "get_result safe g hg a os =
     (let s = g_state g; hs = g_state hg; com = common g; hcom = common hg; giver = ca_giver a; target = ca_target a;
          hand = hands s ! target; el = elim_result hs com hcom hand os; bad = bad_touch_result g hg hcom giver target;
          plays = playables_result hs com hcom (if giver = our_player s then me g else com) in
      bindR (h_focus g hand com os giver target (ca_clue a)) (\<lambda>fr.
      bindR (need (fo_focus fr)) (\<lambda>focus.
      bindR (if ca_hypothetical a then Inr (True, None) else safe a) (\<lambda>(sf, dc).
        Inr \<lparr>cr_focus = focus, cr_elim = n_fill el, cr_new_touched = new_touched el, cr_bad_touch = bad_touch bad,
             cr_cm_dupe = cm_dupe bad, cr_trash = trash_touch bad, cr_avoidable_dupe = avoidable_dupe bad, cr_remainder = 0,
             cr_discard = dc, cr_playables = snd plays, cr_finesses = fst plays, cr_chop_moved = cm_result com hcom hand,
             cr_interp = last_h_move hg, cr_safe = sf\<rparr>))))"

section \<open>Expected clues\<close>

record save_clue =
  sc_clue :: clue
  sc_game :: game
  sc_result :: clue_result
  sc_playable :: bool
  sc_cm :: "nat list"
  sc_safe :: bool

text \<open>What the clue finder tells of a clue: the game after it, and its interpretation, which may have been corrected.\<close>

record clue_reading =
  rd_game :: game
  rd_chop :: bool
  rd_safe :: bool
  rd_result :: clue_result
  rd_interp :: h_interp
  rd_new_result :: clue_result
  rd_save :: "save_clue option"

type_synonym clue_finder = "game \<Rightarrow> nat \<Rightarrow> bool \<Rightarrow> clue \<Rightarrow> clue_reading option result"

definition expected_save :: "game \<Rightarrow> clue \<Rightarrow> save_clue \<Rightarrow> bool" where
  "expected_save g cl sc \<longleftrightarrow>
     (let s = g_state g; f = cr_focus (sc_result sc); d = deck_at s f in
      \<not> (clue_kind (sc_clue sc) = RankClue \<and> clue_value (sc_clue sc) = 2 \<and>
         list_ex (\<lambda>ord. iset_has (possible (card_at (me g) ord)) d) (our_hand s)) \<and>
      clue_target cl \<notin> set (find_indices (list_ex (\<lambda>ord. actual_matches None (deck_at s ord) d \<and> ord \<noteq> f)) (hands s)) \<and>
      \<not> is_saved s (me g) d (int f) infer_opts False)"

definition basic_expectations :: "game \<Rightarrow> clue \<Rightarrow> clue_reading \<Rightarrow> bool" where
  "basic_expectations g cl rd \<longleftrightarrow>
     (let r = rd_result rd in
      case rd_interp rd of
        H_Play \<Rightarrow> \<not> clue_uncertain g (rd_game rd) (cr_focus r) \<and> list_ex (\<lambda>f. newly_clued (snd f)) (cr_playables r) \<and> cr_bad_touch r = []
      | H_Save \<Rightarrow> (case rd_save rd of None \<Rightarrow> False | Some sc \<Rightarrow> sc_cm sc = [] \<and> expected_save g cl sc)
      | _ \<Rightarrow> False)"

definition expected_candidates :: "game_state \<Rightarrow> nat \<Rightarrow> clue list" where
  "expected_candidates s giver =
     concat (map (all_valid_clues s) (filter (\<lambda>t. t \<noteq> giver \<and> t \<noteq> our_player s) [0..<num_players s]))"

definition find_expected_clue :: "clue_finder \<Rightarrow> game \<Rightarrow> nat \<Rightarrow> bool \<Rightarrow> (clue_reading \<Rightarrow> bool) \<Rightarrow> ('a \<Rightarrow> clue \<Rightarrow> bool) \<Rightarrow>
    ('a \<Rightarrow> clue \<Rightarrow> clue_reading \<Rightarrow> 'a) \<Rightarrow> 'a \<Rightarrow> 'a result" where
  "find_expected_clue fnd g giver stall satisfied exclude use =
     (\<lambda>st0. foldR (\<lambda>st cl.
        if exclude st cl then Inr st
        else bindR (fnd g giver stall cl) (\<lambda>r.
          Inr (case r of
              None \<Rightarrow> st
            | Some rd \<Rightarrow> if basic_expectations g cl rd \<or> satisfied rd then use st cl rd else st)))
      st0 (expected_candidates (g_state g) giver))"

text \<open>Whether someone is expected to clue in the early game: the first expected clue ends the search.\<close>

definition early_game_clue :: "clue_finder \<Rightarrow> game \<Rightarrow> nat \<Rightarrow> nat option \<Rightarrow> bool result" where
  "early_game_clue fnd g giver except =
     (if clue_tokens (g_state g) \<le> 0 then Inr False
      else find_expected_clue fnd (g\<lparr>g_state := (g_state g)\<lparr>discard_state := None\<rparr>\<rparr>) giver False
        (\<lambda>rd. rd_interp rd = Stall_5 \<and> level (own g) \<ge> 2 \<and> \<not> stalled_5 (own g))
        (\<lambda>found cl. found \<or> Some (clue_target cl) = except) (\<lambda>_ _ _. True) False)"

section \<open>Stalls\<close>

definition stall_index :: "h_interp \<Rightarrow> nat option" where
  "stall_index m =
     (case m of
        Stall_5 \<Rightarrow> Some 0 | Cm_Tempo \<Rightarrow> Some 1 | Stall_Tempo \<Rightarrow> Some 1 | Stall_Fillin \<Rightarrow> Some 2 | Stall_Locked \<Rightarrow> Some 3
      | Stall_8clues \<Rightarrow> Some 4 | Stall_Burn \<Rightarrow> Some 5 | _ \<Rightarrow> None)"

definition stall_to_severity :: "h_interp \<Rightarrow> nat" where
  "stall_to_severity m = (case m of Stall_Tempo \<Rightarrow> 1 | Stall_Fillin \<Rightarrow> 2 | Stall_Locked \<Rightarrow> 2 | Stall_8clues \<Rightarrow> 2 | Stall_Burn \<Rightarrow> 5 | _ \<Rightarrow> 0)"

text \<open>A save, a play and a new trash card are not stalls; a 5 stall needs the least severity.\<close>

definition not_stall :: "game \<Rightarrow> clue_action \<Rightarrow> nat \<Rightarrow> bool \<Rightarrow> bool \<Rightarrow> bool" where
  "not_stall g a focus on_chop loaded \<longleftrightarrow>
     (let s = g_state g; d = deck_at s focus in
      (on_chop \<and> (if clue_kind (ca_clue a) = ColourClue then colour_save g (raw d) a focus loaded else rank_save g (raw d) focus loaded)) \<or>
      (newly_clued d \<and> list_all (is_playable s) (iset_array (inferred (card_at (common g) focus)))) \<or>
      (newly_clued d \<and>
        (if ca_target a \<noteq> our_player s then is_basic_trash s d
         else list_all (is_basic_trash s) (iset_array (possible (card_at (me g) focus))))))"

definition is_5_stall :: "game \<Rightarrow> clue_action \<Rightarrow> nat \<Rightarrow> bool \<Rightarrow> bool" where
  "is_5_stall g a focus on_chop \<longleftrightarrow>
     clue_kind (ca_clue a) = RankClue \<and> clue_value (ca_clue a) = 5 \<and> newly_clued (deck_at (g_state g) focus) \<and>
     last_status (card_at (common g) focus) \<noteq> Some CM \<and> \<not> on_chop"

definition severe_stall :: "game \<Rightarrow> clue_action \<Rightarrow> nat \<Rightarrow> bool \<Rightarrow> nat \<Rightarrow> clue_result \<Rightarrow> h_interp option" where
  "severe_stall g a focus on_chop severity r =
     (let s = g_state g; target = ca_target a in
      if severity < 2 then None
      else if cr_new_touched r = [] \<and> cr_playables r \<noteq> [] \<and> find_clue_value r < minimum_clue_value s then Some Stall_Tempo
      else if cr_new_touched r = [] \<and> cr_elim r > 0 then Some Stall_Fillin
      else if severity \<ge> 3 \<and> on_chop \<and> \<not> locked_by h_playables (common g) s target False then Some Stall_Locked
      else if severity = 4 \<and> clue_tokens s = 7 \<and> newly_clued (deck_at s focus) \<and>
        \<not> (case hands s ! target of ord # _ \<Rightarrow> ord \<in> set (ca_list a) | [] \<Rightarrow> False) then Some Stall_8clues
      else if cr_new_touched r = [] \<and> cr_elim r = 0 then Some Stall_Burn
      else None)"

definition is_stall :: "game \<Rightarrow> clue_action \<Rightarrow> focus_result \<Rightarrow> nat \<Rightarrow> game \<Rightarrow> bool \<Rightarrow> h_interp option result" where
  "is_stall g a fr severity prev loaded =
     bindR (need (fo_focus fr)) (\<lambda>focus.
       if severity = 0 \<or> not_stall g a focus (fo_chop fr) loaded then Inr None
       else if is_5_stall g a focus (fo_chop fr) then Inr (Some Stall_5)
       else
         bindR (update_hypo_stacks (common g) (g_state g) None) (\<lambda>c1.
         bindR (get_result (\<lambda>_. Inr (True, None)) prev (g\<lparr>common := c1\<rparr>) (a\<lparr>ca_hypothetical := True\<rparr>) (ca_list a)) (\<lambda>r.
           Inr (severe_stall g a focus (fo_chop fr) severity r))))"

section \<open>Whether another clue was expected\<close>

text \<open>The connections of an expected clue that are still possible after the clue that was given.\<close>

definition expected_wcs :: "game \<Rightarrow> game \<Rightarrow> game \<Rightarrow> waiting_connection list" where
  "expected_wcs g prev hg =
     filter (\<lambda>wc. wc_turn wc = turn_count (g_state prev) \<and>
         list_all (\<lambda>c. list_ex (iset_has (possible (card_at (common g) (conn_order c)))) (conn_identities c)) (wc_connections wc))
       (waiting_connections (common hg))"

text \<open>The target of the expected clue, and whoever holds an unknown connection of it, cannot see it.\<close>

definition sees_expected :: "game_state \<Rightarrow> clue \<Rightarrow> waiting_connection list \<Rightarrow> nat \<Rightarrow> bool" where
  "sees_expected s cl wcs k \<longleftrightarrow>
     \<not> (k = clue_target cl \<or>
        list_ex (\<lambda>wc. list_ex (\<lambda>c. conn_type c \<noteq> Known \<and> conn_order c \<in> set (hands s ! k)) (wc_connections wc)) wcs)"

definition lesser_stall :: "game \<Rightarrow> nat \<Rightarrow> h_interp \<Rightarrow> bool" where
  "lesser_stall g max_stall m \<longleftrightarrow>
     (case stall_index m of
        None \<Rightarrow> False
      | Some k \<Rightarrow> k < max_stall \<and> (m = Stall_5 \<longrightarrow> level (own g) \<ge> 2 \<and> \<not> stalled_5 (own g)))"

definition other_expected_clue :: "clue_finder \<Rightarrow> game \<Rightarrow> game \<Rightarrow> nat \<Rightarrow> nat \<Rightarrow> clue_action \<Rightarrow> nat list result" where
  "other_expected_clue fnd g prev giver max_stall a =
     (let s = g_state prev; cl0 = ca_clue a in
      find_expected_clue fnd prev giver True (\<lambda>rd. lesser_stall g max_stall (rd_interp rd))
        (\<lambda>thinks cl. thinks = [] \<or>
           (clue_target cl = ca_target a \<and> clue_kind cl = clue_kind cl0 \<and> clue_value cl = clue_value cl0))
        (\<lambda>thinks cl rd. filter (\<lambda>k. \<not> sees_expected s cl (expected_wcs g prev (rd_game rd)) k) thinks)
        [0..<num_players s])"

text \<open>The stall that the clue is, and the players who believe in it. Without a finder (a clue that is only imagined to see what
  is expected) everyone does.\<close>

definition giver_loaded :: "game \<Rightarrow> nat \<Rightarrow> bool" where
  "giver_loaded prev giver \<longleftrightarrow>
     h_playables (common prev) (g_state prev) giver (default_think\<lparr>t_assume := Some False\<rparr>) \<noteq> [] \<or>
     (thinks_trash (common prev) (g_state prev) giver \<noteq> [] \<and> clue_tokens (g_state prev) < 8)"

definition stalling_situation :: "clue_finder option \<Rightarrow> game \<Rightarrow> clue_action \<Rightarrow> focus_result \<Rightarrow> game \<Rightarrow> bool \<Rightarrow>
    (h_interp option \<times> nat list) result" where
  "stalling_situation fnd g a fr prev loaded =
     bindR (is_stall g a fr (stall_severity (g_state prev) (common prev) (ca_giver a) (common g)) prev loaded) (\<lambda>st.
       case st of
         None \<Rightarrow> Inr (None, [])
       | Some m \<Rightarrow>
           if giver_loaded prev (ca_giver a) then Inr (Some m, [])
           else
             case fnd of
               None \<Rightarrow> Inr (Some m, [0..<num_players (g_state g)])
             | Some f \<Rightarrow> bindR (other_expected_clue f g prev (ca_giver a) (stall_to_severity m) a) (\<lambda>thinks. Inr (Some m, thinks)))"

end
