(* ===== verification/H_Resolve.thy ===== *)
theory H_Resolve
  imports H_Assign H_Stalls Helpers
begin

text \<open>
  The parts of \<open>src/src/conventions/h-group/clue-interpretation/interpret-clue.js\<close> that its handler calls: good touch after a clue, urgent
  saves, tempo clue chop moves, the connections that a clue contradicts, and what the chosen readings of a clue write.
  A step that rewinds ends the handler with the rewound game. Games are values: connections that the code shares between a
  game and its copies are not shared here. Logging is left out.
\<close>

definition write_common :: "nat \<Rightarrow> (card \<Rightarrow> card_write list) \<Rightarrow> game \<Rightarrow> game result" where
  "write_common ord f g = bindR (write_card (common g) ord f) (\<lambda>c. Inr (g\<lparr>common := c\<rparr>))"

text \<open>A copy of the class \<open>HGroup\<close> keeps its own state.\<close>

definition h_copy :: "game \<Rightarrow> game result" where
  "h_copy g = bindR (minimal_copy_game g) (\<lambda>h. Inr (h\<lparr>own := own g\<rparr>))"

definition keep_ids :: "iset \<Rightarrow> (basic_card \<Rightarrow> bool) \<Rightarrow> iset" where
  "keep_ids x P = iset_intersect x (Ids (filter P (iset_array x)))"

definition fp_ids :: "'a possibility_scheme list \<Rightarrow> ids_arg" where
  "fp_ids fps = Ids (map raw fps)"

section \<open>Good touch\<close>

record touch_result =
  tr_game :: game
  tr_fix :: bool
  tr_rewinded :: bool
  tr_resets :: "nat list"
  tr_before :: game

text \<open>A layered finesse that is revealed on us: the game is rewound with the finesse, or else with the card ignored.\<close>

definition layer_revealed :: "player \<Rightarrow> player \<Rightarrow> nat \<Rightarrow> bool" where
  "layer_revealed old com ord \<longleftrightarrow>
     blind_playing (card_at old ord) \<and> iset_length (inferred (card_at old ord)) \<ge> 1 \<and> iset_length (inferred (card_at com ord)) = 0"

definition reasoned_at :: "card \<Rightarrow> nat \<Rightarrow> int" where
  "reasoned_at c k = (case drop (k - 1) (rev (reasoning_turn c)) of t # _ \<Rightarrow> t | [] \<Rightarrow> -1)"

definition rewind_layer :: "rewinder \<Rightarrow> clue_action \<Rightarrow> nat \<Rightarrow> game \<Rightarrow> (game \<times> game option) result" where
  "rewind_layer rw a ord g =
     (let t = reasoned_at (card_at (common g) ord) (if ord \<in> set (ca_list a) then 2 else 1) in
      bindR (rw g t [FinesseAction (ca_list a) (ca_clue a)]) (\<lambda>(g1, r).
        case r of
          Some g2 \<Rightarrow> Inr (g1, Some g2)
        | None \<Rightarrow> rw g1 t [IgnoreAction 0 ord None]))"

text \<open>The loop over our hand: a rewound game, or the game with wrong trash labels removed.\<close>

definition own_layer :: "rewinder \<Rightarrow> clue_action \<Rightarrow> player \<Rightarrow> game \<times> game option \<Rightarrow> nat \<Rightarrow> (game \<times> game option) result" where
  "own_layer rw a old acc ord =
     (let g = fst acc in
      if snd acc \<noteq> None then Inr acc
      else
        bindR (if layer_revealed old (common g) ord then rewind_layer rw a ord g else Inr (g, None)) (\<lambda>(g1, r).
          let c = card_at (common g1) ord in
          case r of
            Some g2 \<Rightarrow> Inr (g1, Some g2)
          | None \<Rightarrow>
              if trash c \<and> list_all (is_critical (g_state g1)) (iset_array (possible c))
              then bindR (write_common ord (\<lambda>_. [W_trash False]) g1) (\<lambda>g2. Inr (g2, None)) else Inr (g1, None)))"

text \<open>Only the common player of the checked game is taken over, also when the check has rewound the game.\<close>

definition take_fix :: "fix_result \<Rightarrow> touch_result" where
  "take_fix res =
     \<lparr>tr_game = (fr_before res)\<lparr>common := common (fr_game res)\<rparr>,
      tr_fix = fr_clued_resets res \<noteq> [] \<or> fr_duplicate_reveal res \<noteq> [], tr_rewinded = False, tr_resets = fr_all_resets res,
      tr_before = fr_before res\<rparr>"

definition apply_good_touch :: "rewinder \<Rightarrow> game \<Rightarrow> clue_action \<Rightarrow> player \<Rightarrow> touch_result result" where
  "apply_good_touch rw g a old =
     bindR (on_clue g a) (\<lambda>g1.
       let g2 = mutate g g1; s = g_state g2 in
       bindR (if ca_target a = our_player s then foldR (own_layer rw a old) (g2, None) (our_hand s) else Inr (g2, None)) (\<lambda>(g3, r).
         case r of
           Some g4 \<Rightarrow> bindR (update_notes g4) (\<lambda>g5. Inr \<lparr>tr_game = g5, tr_fix = False, tr_rewinded = True, tr_resets = [], tr_before = g3\<rparr>)
         | None \<Rightarrow> bindR (check_fix rw g3 old a) (\<lambda>res. Inr (take_fix res))))"

section \<open>Important clues\<close>

text \<open>From the player after the giver on: the first who is finessed makes the clue important, the first who could have given
  it does not.\<close>

fun only_giver :: "nat \<Rightarrow> connection list \<Rightarrow> nat list \<Rightarrow> bool" where
  "only_giver target conns [] = False"
| "only_giver target conns (pl # pls) =
     (if list_ex (\<lambda>c. conn_type c = Finesse \<and> conn_reacting c = pl) conns then True
      else if pl = target \<or> list_ex (\<lambda>c. conn_reacting c = pl \<and> conn_type c \<noteq> Known) conns then only_giver target conns pls
      else False)"

definition important_finesse :: "game_state \<Rightarrow> clue_action \<Rightarrow> 'a possibility_scheme list \<Rightarrow> bool" where
  "important_finesse s a fps \<longleftrightarrow>
     list_ex (\<lambda>fp. list_ex (\<lambda>c. conn_type c = Finesse) (fp_connections fp) \<and>
       only_giver (ca_target a) (fp_connections fp) (players_until s (ca_giver a) (ca_giver a))) fps"

text \<open>The finessed card that a player plays next on some stacks. The order 0 counts as none.\<close>

definition finessed_next :: "game \<Rightarrow> iset \<Rightarrow> int list \<Rightarrow> nat \<Rightarrow> bool \<Rightarrow> nat option" where
  "finessed_next g played stacks pl with_hidden =
     max_on (\<lambda>ord. let c = card_at (common g) ord in
         if blind_playing c \<and> (with_hidden \<or> \<not> hidden c) \<and>
           list_all (\<lambda>i. iset_has played i \<or> stacks ! nat (suit_index i) + 1 = rank i) (iset_array (inferred c))
         then - finesse_index c else -10000)
       (hands (g_state g) ! pl) (Some (-9999))"

fun all_finessed :: "game \<Rightarrow> iset \<Rightarrow> int list \<Rightarrow> nat list \<Rightarrow> bool result" where
  "all_finessed g played stacks [] = Inr True"
| "all_finessed g played stacks (pl # pls) =
     (case finessed_next g played stacks pl False of
        Some (Suc _) \<Rightarrow>
          bindR (need (finessed_next g played stacks pl True)) (\<lambda>ord.
            case identity infer_opts (card_at (common g) ord) of
              Some i \<Rightarrow> let k = nat (suit_index i) in
                all_finessed g (iset_union played (AnId i)) (stacks[k := stacks ! k + 1]) pls
            | None \<Rightarrow> all_finessed g played stacks pls)
      | _ \<Rightarrow> Inr False)"

definition urgent_save :: "clue_finder \<Rightarrow> game \<Rightarrow> clue_action \<Rightarrow> nat \<Rightarrow> player \<Rightarrow> game \<Rightarrow> bool result" where
  "urgent_save fnd g a focus old old_game =
     (let s = g_state g; giver = ca_giver a; target = ca_target a in
      if saved (card_at old focus) \<or> \<not> saved (card_at (common g) focus) then Inr False
      else
        bindR (if early_game s then early_game_clue fnd old_game target (Some giver) else Inr False) (\<lambda>early.
          if early then Inr False
          else all_finessed g (base_ids s) (play_stacks s)
            (if giver = target then [] else giver # players_until s giver target)))"

section \<open>Tempo clue chop moves\<close>

text \<open>(The target has a chop, see \<open>interpret_tccm\<close>.)\<close>

definition perform_cm_on :: "nat list \<Rightarrow> game \<Rightarrow> game result" where
  "perform_cm_on os g = bindR (perform_cm (g_state g) (common g) os) (\<lambda>c. Inr (g\<lparr>common := c\<rparr>))"

definition try_tccm :: "game \<Rightarrow> player \<Rightarrow> h_interp option \<Rightarrow> nat list \<Rightarrow> nat \<Rightarrow> nat list \<Rightarrow> actual_card \<Rightarrow> game option result" where
  "try_tccm g old st thinks target os f =
     bindR (interpret_tccm g old target os f) (\<lambda>cms.
       if cms = [] then Inr None
       else
         bindR (if st = None \<or> thinks = [] then bindR (perform_cm_on cms g) (\<lambda>g1. Inr (interpret_move Cm_Tempo g1))
                else Inr (interpret_move Stall_Tempo g)) (\<lambda>g2.
         bindR (team_elim g2) (\<lambda>g3. Inr (Some g3))))"

section \<open>Connections that a clue contradicts\<close>

text \<open>The order that shows that a connection is impossible. An empty clue also looks at positional connections.\<close>

definition contradicting :: "game \<Rightarrow> player \<Rightarrow> bool \<Rightarrow> waiting_connection \<Rightarrow> nat option" where
  "contradicting g com empty_clue wc =
     (case find_impossible_conn g (rest_conns wc) of
        Some c \<Rightarrow> Some (conn_order c)
      | None \<Rightarrow>
          if (empty_clue \<or> (case wc_connections wc of c # _ \<Rightarrow> conn_type c \<noteq> Positional | [] \<Rightarrow> True)) \<and>
            \<not> iset_has (possible (card_at com (wc_focus wc))) (wc_inference wc)
          then Some (wc_focus wc) else None)"

record cancel_loop =
  cn_game :: game
  cn_stale :: "game option"
  cn_remove :: "nat list"
  cn_touched :: bool
  cn_rewound :: "game option"

text \<open>The handler goes on looking at the state and the common player of the game that it was given, also when that game has been
  replaced by a rewound one.\<close>

definition seen_game :: "cancel_loop \<Rightarrow> game" where
  "seen_game l = (case cn_stale l of Some g \<Rightarrow> g | None \<Rightarrow> cn_game l)"

definition rewrites_focus :: "nat \<Rightarrow> waiting_connection \<Rightarrow> bool" where
  "rewrites_focus focus wc \<longleftrightarrow>
     wc_focus wc = focus \<or> (\<not> wc_symmetric wc \<and> list_ex (\<lambda>c. conn_order c = focus) (wc_connections wc))"

definition drop_contradicted :: "nat \<Rightarrow> cancel_loop \<Rightarrow> nat \<Rightarrow> waiting_connection \<Rightarrow> game \<Rightarrow> cancel_loop result" where
  "drop_contradicted focus l k wc g =
     bindR (remove_finesse g wc) (\<lambda>g1.
       Inr (l\<lparr>cn_game := g1, cn_remove := cn_remove l @ [k], cn_touched := cn_touched l \<or> rewrites_focus focus wc\<rparr>))"

definition cancel_contradicted :: "rewinder \<Rightarrow> bool \<Rightarrow> nat \<Rightarrow> cancel_loop \<Rightarrow> nat \<Rightarrow> waiting_connection \<Rightarrow> nat \<Rightarrow> cancel_loop result" where
  "cancel_contradicted rw empty_clue focus l k wc ord =
     (let g = cn_game l; s = g_state (seen_game l); us = our_player s; c = card_at (common (seen_game l)) ord in
      case identity no_opts c of
        Some i \<Rightarrow>
          if \<not> rewinded c \<and> wc_target wc = us \<and> ord \<in> set (our_hand s) then
            bindR (rw g (drawn_index (deck_at s ord) + 1) [IdentifyAction ord us [i] False]) (\<lambda>(g1, r).
              case r of
                Some g2 \<Rightarrow> bindR (if empty_clue then Inr g2 else update_notes g2) (\<lambda>g3. Inr (l\<lparr>cn_game := g1, cn_rewound := Some g3\<rparr>))
              | None \<Rightarrow> drop_contradicted focus l k wc g1)
          else drop_contradicted focus l k wc g
      | None \<Rightarrow> drop_contradicted focus l k wc g)"

text \<open>A connecting card that is clued directly. Its holder does not know a hidden one.\<close>

definition stomped_conn :: "waiting_connection \<Rightarrow> nat \<Rightarrow> basic_card \<Rightarrow> nat option" where
  "stomped_conn wc giver i =
     List.find (\<lambda>n. let c = wc_connections wc ! n in
         n \<ge> wc_conn_index wc \<and> \<not> (conn_hidden c \<and> conn_reacting c = giver) \<and>
         list_all (\<lambda>j. suit_index i = suit_index j \<and> rank i = rank j) (conn_identities c))
       [0..<length (wc_connections wc)]"

definition cancel_stomped :: "rewinder \<Rightarrow> cancel_loop \<Rightarrow> nat \<Rightarrow> waiting_connection \<Rightarrow> nat \<Rightarrow> cancel_loop result" where
  "cancel_stomped rw l k wc n =
     (if wc_symmetric wc then Inr (l\<lparr>cn_remove := cn_remove l @ [k]\<rparr>)
      else
        bindR (rw (cn_game l) (wc_action_index wc)
            [IgnoreAction (real_connects (wc_connections wc) n) (conn_order (wc_connections wc ! n)) (Some (wc_inference wc))]) (\<lambda>(g1, r).
          case r of
            Some g2 \<Rightarrow> bindR (update_notes g2) (\<lambda>g3. Inr (l\<lparr>cn_game := g1, cn_rewound := Some g3\<rparr>))
          | None \<Rightarrow> Inr (l\<lparr>cn_game := g1\<rparr>)))"

definition cancel_step :: "rewinder \<Rightarrow> bool \<Rightarrow> nat \<Rightarrow> nat \<Rightarrow> cancel_loop \<Rightarrow> nat \<Rightarrow> cancel_loop result" where
  "cancel_step rw empty_clue giver focus l k =
     (let wc = waiting_connections (common (seen_game l)) ! k in
      if cn_rewound l \<noteq> None \<or> wc_target wc = giver then Inr l
      else
        bindR (case (if empty_clue then None else
              Option.bind (basic_identity (deck_at (g_state (seen_game l)) focus)) (stomped_conn wc giver)) of
            Some n \<Rightarrow> cancel_stomped rw l k wc n
          | None \<Rightarrow> Inr l) (\<lambda>l1.
          if cn_rewound l1 \<noteq> None \<or> k \<in> set (cn_remove l1) then Inr l1
          else
            case contradicting (cn_game l1) (common (seen_game l1)) empty_clue wc of
              Some ord \<Rightarrow> cancel_contradicted rw empty_clue focus l1 k wc ord
            | None \<Rightarrow> Inr l1))"

text \<open>The rewound game, or the game without the connections, with whether a removal has rewritten the inferences of the focus.\<close>

definition cancel_connections :: "rewinder \<Rightarrow> bool \<Rightarrow> nat \<Rightarrow> nat \<Rightarrow> game option \<Rightarrow> game \<Rightarrow> (game + game \<times> bool) result" where
  "cancel_connections rw empty_clue giver focus stale g =
     bindR (foldR (cancel_step rw empty_clue giver focus) \<lparr>cn_game = g, cn_stale = stale, cn_remove = [], cn_touched = False, cn_rewound = None\<rparr>
         [0..<length (waiting_connections (common (case stale of Some h \<Rightarrow> h | None \<Rightarrow> g)))]) (\<lambda>l.
       Inr (case cn_rewound l of
           Some g2 \<Rightarrow> Inl g2
         | None \<Rightarrow>
             let g1 = cn_game l; com = common g1 in
             Inr (if stale = None then g1\<lparr>common := com\<lparr>waiting_connections := kept_wcs (cn_remove l) (waiting_connections com)\<rparr>\<rparr> else g1,
               cn_touched l)))"

section \<open>What the chosen readings write\<close>

text \<open>The identities of trash finesses, which good touch has ruled out, and the other new cards, which are trash as well.\<close>

definition write_trash_finesses :: "focus_possibility list \<Rightarrow> nat \<Rightarrow> nat \<Rightarrow> game \<Rightarrow> game result" where
  "write_trash_finesses fps target focus g =
     (let s = g_state g; trash_fps = filter (\<lambda>fp. fp_interp fp = Trash_Finesse) fps in
      if trash_fps = [] then Inr g
      else
        bindR (write_common focus (\<lambda>d. [W_inferred (iset_union (inferred d) (fp_ids trash_fps)), W_trash True]) g) (\<lambda>g1.
          foldR (\<lambda>h ord. write_common ord (\<lambda>d. [W_inferred (keep_ids (possible d) (is_basic_trash s)), W_trash True]) h) g1
            (filter (\<lambda>ord. ord \<noteq> focus \<and> newly_clued (deck_at s ord)) (hands s ! target))))"

definition waits_for :: "game \<Rightarrow> clue_action \<Rightarrow> actual_card \<Rightarrow> focus_possibility \<Rightarrow> waiting_connection list" where
  "waits_for g a f fp =
     (let s = g_state g; i = raw fp in
      if list_ex (\<lambda>c. conn_type c = Prompt \<or> conn_type c = Finesse) (fp_connections fp)
      then [\<lparr>wc_connections = fp_connections fp, wc_giver = ca_giver a, wc_target = ca_target a, wc_conn_index = 0,
             wc_turn = turn_count s, wc_focus = order f, wc_inference = i, wc_action_index = turn_count s,
             wc_symmetric = \<not> (actual_matches (Some True) f i \<and> iset_has (possible (card_at (g_players g ! ca_target a) (order f))) i),
             wc_ambiguous_passback = False, wc_self_passback = False\<rparr>]
      else [])"

definition add_waiting :: "waiting_connection list \<Rightarrow> game \<Rightarrow> game" where
  "add_waiting wcs g = g\<lparr>common := (common g)\<lparr>waiting_connections := waiting_connections (common g) @ wcs\<rparr>\<rparr>"

text \<open>What the other players may think of a clue.\<close>

definition self_ranks :: "nat \<Rightarrow> focus_possibility list \<Rightarrow> int list" where
  "self_ranks target fps =
     to_set (concat (map (\<lambda>fp. concat (map (\<lambda>c.
       if conn_type c = Finesse \<and> conn_reacting c = target then (case conn_identities c of [i] \<Rightarrow> [rank i] | _ \<Rightarrow> []) else [])
       (fp_connections fp))) fps))"

definition delays_needed :: "focus_possibility \<Rightarrow> sym_possibility list \<Rightarrow> bool" where
  "delays_needed m syms \<longleftrightarrow>
     (case fp_connections m of
        [] \<Rightarrow> False
      | c # _ \<Rightarrow> conn_bluff c \<and>
          list_ex (\<lambda>fp. case fp_connections fp of
              [] \<Rightarrow> False
            | d # _ \<Rightarrow> (conn_reacting d \<noteq> conn_reacting c \<or> conn_type d = Known \<or> conn_type d = Playable) \<and>
                connection_score fp (conn_reacting c) \<le> connection_score m (conn_reacting c)) syms)"

definition merge_play_link :: "nat \<Rightarrow> play_link list \<Rightarrow> connection \<Rightarrow> play_link list result" where
  "merge_play_link focus pls c =
     (if conn_type c \<noteq> Playable then Inr pls
      else
        bindR (need (conn_linked c)) (\<lambda>os.
          let i = hd (conn_identities c) in
          Inr (case find_indices (\<lambda>pl. set (pl_orders pl) = set os \<and> pl_connected pl = focus) pls of
              k # _ \<Rightarrow> pls[k := (pls ! k)\<lparr>pl_prereqs := pl_prereqs (pls ! k) @ [i]\<rparr>]
            | [] \<Rightarrow> pls @ [\<lparr>pl_orders = os, pl_prereqs = [i], pl_connected = focus\<rparr>])))"

text \<open>Nothing when our own clue is found to be invalid; otherwise the game with the links, connections and inferences of the
  symmetric readings.\<close>

definition as_possibility :: "'a possibility_scheme \<Rightarrow> possibility" where
  "as_possibility fp = \<lparr>suit_index = suit_index fp, rank = rank fp, fp_connections = fp_connections fp\<rparr>"

definition write_symmetric :: "clue_action \<Rightarrow> actual_card \<Rightarrow> iset \<Rightarrow> focus_possibility list \<Rightarrow> sym_possibility list \<Rightarrow> game \<Rightarrow> game result" where
  "write_symmetric a f old fps syms g =
     (let s = g_state g; focus = order f; com = common g;
          conns = concat (map fp_connections (map as_possibility syms @ map as_possibility fps)) in
      bindR (foldR (merge_play_link focus) (play_links com) conns) (\<lambda>pls.
        let g1 = add_waiting (generate_symmetric_connections s syms fps focus (ca_giver a) (ca_target a)) (g\<lparr>common := com\<lparr>play_links := pls\<rparr>\<rparr>) in
        write_common focus (\<lambda>d. [W_inferred (iset_intersect (iset_union (inferred d)
          (Ids (filter (\<lambda>i. list_ex (\<lambda>fp. \<not> sp_fake fp \<and> basic_matches i fp) syms) (iset_array old)))) (ASet (possible d)))]) g1))"

definition symmetric_readings :: "game \<Rightarrow> clue_action \<Rightarrow> focus_result \<Rightarrow> actual_card \<Rightarrow> focus_possibility list \<Rightarrow> bool \<Rightarrow> game \<Rightarrow>
    game option result" where
  "symmetric_readings old_game a fr f fps loaded g =
     (let s = g_state g; us = our_player s; target = ca_target a; focus = order f;
          right = List.find (actual_matches None f) fps in
      if target = us \<or> (case right of Some m \<Rightarrow> fp_save m | None \<Rightarrow> False) then Inr (Some g)
      else
        let own_blind = (case right of
              Some m \<Rightarrow> length (filter (\<lambda>c. conn_type c = Finesse \<and> conn_reacting c = us) (fp_connections m))
            | None \<Rightarrow> 0) in
        bindR (find_symmetric_connections old_game a fr fps (self_ranks target fps) own_blind loaded) (\<lambda>syms.
          let simplest = occams_razor g (map as_possibility (filter (\<lambda>fp. \<not> sp_fake fp) syms) @ map as_possibility fps) target focus in
          if ca_giver a = us \<and> ((case right of Some m \<Rightarrow> delays_needed m syms | None \<Rightarrow> False) \<or>
              \<not> list_ex (actual_matches None f) simplest)
          then Inr None
          else
            bindR (write_symmetric a f (inferred (card_at (common old_game) focus)) fps syms g) (\<lambda>g1. Inr (Some g1))))"

text \<open>A save for the next player after a scream shows that the scream was for generation.\<close>

definition undo_scream :: "clue_action \<Rightarrow> h_interp \<Rightarrow> game \<Rightarrow> bool" where
  "undo_scream a m g \<longleftrightarrow>
     (let s = g_state g in
      m = H_Save \<and> ca_giver a \<noteq> our_player s \<and> ca_target a = next_player s (ca_giver a) \<and>
      discard_state s = Some Scream \<and> num_players s > 2)"

definition close_clue :: "clue_action \<Rightarrow> nat \<Rightarrow> focus_possibility list \<Rightarrow> game \<Rightarrow> game result" where
  "close_clue a focus fps g =
     (let s = g_state g; m = (if list_ex fp_save fps then H_Save else H_Play); g1 = interpret_move m g in
      bindR (if undo_scream a m g1 then
          bindR (need (List.find (\<lambda>ord. status (card_at (common g1) ord) = Some CM) (hands s ! ca_giver a))) (\<lambda>ord.
          bindR (set_thoughts (\<lambda>c. c\<lparr>status := None\<rparr>) ord (common g1)) (\<lambda>c1. Inr (g1\<lparr>common := c1\<rparr>)))
        else if m = H_Play \<and> focus \<notin> set (ca_list a) then write_common focus (\<lambda>_. [W_status (Some FINESSED)]) g1
        else Inr g1) (\<lambda>g2.
      bindR (write_common focus (\<lambda>d. [W_info_lock (Some (inferred d))]) g2) (\<lambda>g3.
      bindR (reset_superpositions g3) (\<lambda>c. Inr (g3\<lparr>common := c\<rparr>)))))"

text \<open>The game after the readings have been written, and whether the clue is important.\<close>

definition resolve_clue :: "game \<Rightarrow> clue_action \<Rightarrow> focus_result \<Rightarrow> focus_possibility list \<Rightarrow> focus_possibility list \<Rightarrow> actual_card \<Rightarrow> bool \<Rightarrow>
    game \<Rightarrow> (game \<times> bool) result" where
  "resolve_clue old_game a fr simplest all_fps f loaded g =
     (let focus = order f; important = important_finesse (g_state g) a simplest in
      bindR (write_trash_finesses simplest (ca_target a) focus g) (\<lambda>g1.
      bindR (write_common focus (\<lambda>d. [W_inferred (iset_intersect (inferred d) (fp_ids simplest))]) g1) (\<lambda>g2.
      bindR (assign_all_connections g2 simplest all_fps a f) (\<lambda>g3.
      bindR (symmetric_readings old_game a fr f simplest loaded (add_waiting (concat (map (waits_for g3 a f) simplest)) g3)) (\<lambda>r.
      bindR (case r of Some g5 \<Rightarrow> close_clue a focus simplest g5
          | None \<Rightarrow> Inr (interpret_move H_None (add_waiting (concat (map (waits_for g3 a f) simplest)) g3))) (\<lambda>g6.
        Inr (g6, important)))))))"

end
