(* ===== verification/H_Clues.thy ===== *)
theory H_Clues
  imports H_Resolve H_Turns
begin

text \<open>
  The handler of clues of the h-group: \<open>interpret_clue\<close> of \<open>src/src/conventions/h-group/clue-interpretation/interpret-clue.js\<close>. It applies
  good touch, cancels the connections that the clue contradicts, recognises fixes, stalls, distribution clues and chop
  moves, and otherwise looks for the readings of the focus, in our own hand if need be, and writes the simplest ones. The
  argument \<open>fnd\<close> is the clue finder, or nothing for a clue that is only imagined (\<open>noRecurse\<close>). A handler that has finished
  early returns \<open>Inl\<close> of its game, and \<open>Inr\<close> goes on. Logging is left out.
\<close>

abbreviation level_basic_cm :: nat where "level_basic_cm \<equiv> 4"

text \<open>What a player may play next is found by simulating plays and turns, in which no clue is interpreted.\<close>

definition h_blank :: "game \<Rightarrow> game" where
  "h_blank g = (create_blank_game g)\<lparr>own := no_own\<lparr>level := level (own g), finesses_while_finessed := replicate (num_players (g_state g)) []\<rparr>\<rparr>"

definition h_moves :: convention where
  "h_moves =
     \<lparr>interpret_clue = interpret_clue abstract_convention, interpret_discard = h_discard, interpret_play = h_play, update_turn = h_turn,
      blank_of = h_blank, copy_of = h_copy, playables_of = h_playables\<rparr>"

definition finish_with :: "h_interp \<Rightarrow> game \<Rightarrow> game result" where
  "finish_with m g = team_elim (interpret_move m g)"

definition elim_all :: "game \<Rightarrow> game result" where
  "elim_all g =
     (let s = g_state g in
      bindR (good_touch_elim (common g) s False) (\<lambda>c1.
      bindR (refresh_links c1 s) (\<lambda>c2.
      bindR (update_hypo_stacks c2 s None) (\<lambda>c3. Inr (g\<lparr>common := c3\<rparr>)))))"

definition hypo_common :: "game \<Rightarrow> game result" where
  "hypo_common g = bindR (update_hypo_stacks (common g) (g_state g) None) (\<lambda>c. Inr (g\<lparr>common := c\<rparr>))"

definition pink_rank_clue :: "game \<Rightarrow> clue_action \<Rightarrow> bool" where
  "pink_rank_clue g a \<longleftrightarrow> includes_variant (g_state g) pinkish \<and> clue_kind (ca_clue a) = RankClue"

definition keep_rank :: "int \<Rightarrow> iset \<Rightarrow> iset" where
  "keep_rank r x = keep_ids x (\<lambda>i. rank i = r)"

section \<open>Clues that touch nothing\<close>

text \<open>A rewind by good touch does not end the handler here: it goes on with what it has seen of the old game.\<close>

definition h_empty_clue :: "rewinder \<Rightarrow> clue_action \<Rightarrow> player \<Rightarrow> game \<Rightarrow> game result" where
  "h_empty_clue rw a old g =
     bindR (apply_good_touch rw g a old) (\<lambda>t.
     bindR (cancel_connections rw True (ca_giver a) 0 (if tr_rewinded t then Some (tr_before t) else None) (tr_game t)) (\<lambda>r.
       case r of Inl g2 \<Rightarrow> Inr g2 | Inr (g2, _) \<Rightarrow> team_elim g2))"

section \<open>The focus after good touch\<close>

text \<open>A focus without inferences has all its possibilities again; when others wait for it and it is known, the game is
  rewound. The flag says that inferences and possibilities are then one object.\<close>

definition restore_focus :: "rewinder \<Rightarrow> clue_action \<Rightarrow> nat \<Rightarrow> player \<Rightarrow> game \<Rightarrow> (game + game \<times> bool) result" where
  "restore_focus rw a focus old g =
     (if iset_length (inferred (card_at (common g) focus)) = 0 \<and> iset_length (possible (card_at old focus)) > 1 then
        bindR (write_common focus (\<lambda>d. [W_inferred (possible d)]) g) (\<lambda>g1.
          let poss = possible (card_at (common g1) focus) in
          if iset_length poss = 1 \<and> dependent_connections (common g1) focus \<noteq> [] then
            bindR (need (first_id (Some poss))) (\<lambda>i.
            bindR (rw g1 (drawn_index (deck_at (g_state g1) focus) + 1) [IdentifyAction focus (ca_target a) [i] False]) (\<lambda>(g2, r).
              case r of
                Some g3 \<Rightarrow> bindR (update_notes g3) (\<lambda>g4. Inr (Inl g4))
              | None \<Rightarrow> Inr (Inr (g2, True))))
          else Inr (Inr (g1, True)))
      else Inr (Inr (g, False)))"

text \<open>A trash push and a card on chop are marked; a save that is urgent makes the clue important.\<close>

definition mark_focus :: "clue_finder option \<Rightarrow> clue_action \<Rightarrow> focus_result \<Rightarrow> nat \<Rightarrow> player \<Rightarrow> game \<Rightarrow> bool \<Rightarrow> game \<Rightarrow>
    (game \<times> clue_action) result" where
  "mark_focus fnd a fr focus old prev loaded g =
     (if fo_trash_push fr then bindR (write_common focus (\<lambda>_. [W_assume_playable True]) g) (\<lambda>g1. Inr (g1, a))
      else
        case (if fo_chop fr then fnd else None) of
          None \<Rightarrow> Inr (g, a)
        | Some f \<Rightarrow>
            bindR (write_common focus (\<lambda>_. [W_chop_when_first_clued True]) g) (\<lambda>g1.
            bindR (if loaded then Inr False else urgent_save f g1 a focus old prev) (\<lambda>b. Inr (g1, a\<lparr>ca_important := b\<rparr>))))"

section \<open>Fixes\<close>

text \<open>A pink fix of 1s: the first of them is promised to be of the rank, or not to be playable.\<close>

definition pink_fixed :: "game \<Rightarrow> clue_action \<Rightarrow> nat list" where
  "pink_fixed g a =
     (let s = g_state g in
      order_1s s (common g)
        (filter (\<lambda>ord. let cls = clues (deck_at s ord) in
           length cls > 1 \<and> list_all (\<lambda>cl. clue_kind cl = RankClue \<and> clue_value cl = 1) (butlast cls)) (ca_list a)) True)"

definition pink_fix :: "clue_action \<Rightarrow> bool \<Rightarrow> game \<Rightarrow> game result" where
  "pink_fix a on_chop g =
     (let s = g_state g; v = clue_value (ca_clue a) in
      case pink_fixed g a of
        [] \<Rightarrow> Inr g
      | ord # _ \<Rightarrow>
          if on_chop \<and> (v = 2 \<or> v = 5)
          then write_common ord (\<lambda>d. [W_inferred (iset_subtract (possible d) (Ids (filter (is_playable s) (iset_array (inferred d)))))]) g
          else write_common ord (\<lambda>d. [W_inferred (keep_ids (inferred d) (\<lambda>i. rank i = v \<and> \<not> is_playable s i))]) g)"

definition finish_fix_clue :: "clue_action \<Rightarrow> bool \<Rightarrow> nat \<Rightarrow> bool \<Rightarrow> player \<Rightarrow> game \<Rightarrow> game result" where
  "finish_fix_clue a on_chop focus fixed old g =
     bindR (if iset_length (inferred (card_at (common g) focus)) = 1 then hypo_common g else Inr g) (\<lambda>g1.
     bindR (if fixed \<and> pink_rank_clue g1 a \<and> clue_value (ca_clue a) \<noteq> 1 then pink_fix a on_chop g1 else Inr g1) (\<lambda>g2.
     bindR (good_touch_elim (common g2) (g_state g2) False) (\<lambda>c3.
     bindR (write_common focus (\<lambda>_. [W_focused (focused (card_at old focus))]) (g2\<lparr>common := c3\<rparr>)) (\<lambda>g4.
       Inr (interpret_move (if ca_mistake a then H_Mistake else H_Fix) g4)))))"

section \<open>Stalls and distribution clues\<close>

definition finish_stall :: "clue_action \<Rightarrow> nat \<Rightarrow> h_interp \<Rightarrow> game \<Rightarrow> game result" where
  "finish_stall a focus m g =
     (let g0 = (if m = Stall_5 \<and> early_game (g_state g) then g\<lparr>own := (own g)\<lparr>stalled_5 := True\<rparr>\<rparr> else g) in
      bindR (if pink_rank_clue g0 a then write_common focus (\<lambda>d. [W_inferred (keep_rank (clue_value (ca_clue a)) (inferred d))]) g0
             else Inr g0) (\<lambda>g1.
      bindR (hypo_common g1) (\<lambda>g2.
      bindR (team_elim g2) (\<lambda>g3. Inr (interpret_move m g3)))))"

definition finish_distribution :: "nat \<Rightarrow> iset \<Rightarrow> game \<Rightarrow> game result" where
  "finish_distribution focus ids g =
     bindR (write_common focus (\<lambda>d. let new = iset_intersect (possible d) (ASet ids) in
         [W_inferred new, W_info_lock (Some new), W_certain_finessed True, W_reset False]) g) (finish_with Distribution)"

section \<open>Chop moves and pink trash\<close>

definition all_new_trash :: "clue_action \<Rightarrow> game \<Rightarrow> game result" where
  "all_new_trash a g =
     (let s = g_state g in
      foldR (\<lambda>h ord. write_common ord (\<lambda>d. let new = keep_ids (possible d) (is_basic_trash s) in
          [W_inferred new, W_info_lock (Some new), W_trash True]) h) g
        (filter (\<lambda>ord. newly_clued (deck_at s ord)) (ca_list a)))"

text \<open>A trash chop move gives way to a tempo clue chop move.\<close>

definition try_tcm :: "clue_action \<Rightarrow> nat \<Rightarrow> player \<Rightarrow> h_interp option \<Rightarrow> nat list \<Rightarrow> actual_card \<Rightarrow> game \<Rightarrow> game option result" where
  "try_tcm a focus old st thinks f g =
     (let tcm = interpret_tcm g a focus old False in
      if tcm = [] then Inr None
      else
        bindR (elim_all g) (\<lambda>g1.
        bindR (try_tccm g1 old st thinks (ca_target a) (ca_list a) f) (\<lambda>r.
          case r of
            Some g2 \<Rightarrow>
              Inr (Some (if level (own g2) \<ge> level_tempo \<and> num_players (g_state g2) > 2 then g2 else interpret_move H_None g2))
          | None \<Rightarrow>
              bindR (all_new_trash a g1) (\<lambda>g2.
              bindR (perform_cm_on tcm g2) (\<lambda>g3.
              bindR (finish_with Cm_Trash g3) (\<lambda>g4. Inr (Some g4)))))))"

definition try_5cm :: "clue_action \<Rightarrow> nat \<Rightarrow> player \<Rightarrow> game \<Rightarrow> game option result" where
  "try_5cm a focus old g =
     bindR (interpret_5cm g (ca_target a) focus (ca_clue a) old) (\<lambda>cm.
       if cm = [] then Inr None
       else bindR (perform_cm_on cm g) (\<lambda>g1. bindR (finish_with Cm_5 g1) (\<lambda>g2. Inr (Some g2))))"

definition pink_suits_all :: "game_state \<Rightarrow> (int \<Rightarrow> bool) \<Rightarrow> bool" where
  "pink_suits_all s P \<longleftrightarrow>
     list_all (\<lambda>k. regex_test pinkish (suit_name (variant s) (int k)) \<longrightarrow> P (int k)) [0..<n_suits s]"

definition pink_trash_fix :: "game \<Rightarrow> clue_action \<Rightarrow> bool \<Rightarrow> nat \<Rightarrow> bool" where
  "pink_trash_fix g a positional focus \<longleftrightarrow>
     (let s = g_state g; v = clue_value (ca_clue a) in
      pink_rank_clue g a \<and> \<not> positional \<and>
      list_all (\<lambda>ord. \<not> newly_clued (deck_at s ord) \<and> known_as (common g) s ord pinkish) (ca_list a) \<and>
      pink_suits_all s (\<lambda>k. is_trash s (common g) (mk_id k v) (int focus) infer_opts False))"

definition finish_pink_trash :: "clue_action \<Rightarrow> nat \<Rightarrow> game \<Rightarrow> game result" where
  "finish_pink_trash a focus g =
     (let s = g_state g; v = clue_value (ca_clue a) in
      bindR (write_common focus (\<lambda>d.
          [W_inferred (iset_intersect (possible d) (Ids (map (\<lambda>k. mk_id (int k) v) [0..<n_suits s]))),
           W_trash (pink_suits_all s (\<lambda>k. is_basic_trash s (mk_id k v)))]) g) (finish_with H_Fix))"

section \<open>The possibilities of the focus\<close>

text \<open>With a bluff possible, trash finesses on the next player are not; a trash finesse that may be meant takes its identities from
  the plays.\<close>

definition starts_with :: "(connection \<Rightarrow> bool) \<Rightarrow> 'a possibility_scheme \<Rightarrow> bool" where
  "starts_with P fp \<longleftrightarrow> (case fp_connections fp of c # _ \<Rightarrow> P c | [] \<Rightarrow> False)"

definition exclude_bluffed :: "nat \<Rightarrow> focus_possibility list \<Rightarrow> focus_possibility list" where
  "exclude_bluffed nxt fps =
     (if list_ex (\<lambda>fp. fp_interp fp = H_Play \<and> starts_with conn_bluff fp) fps
      then map (\<lambda>fp. if fp_interp fp = Trash_Finesse \<and> starts_with (\<lambda>c. conn_type c = Finesse \<and> conn_reacting c = nxt) fp
          then fp\<lparr>fp_illegal := True\<rparr> else fp) fps
      else fps)"

definition exclude_trash :: "focus_possibility list \<Rightarrow> focus_possibility list" where
  "exclude_trash fps =
     map (\<lambda>fp. if fp_interp fp = H_Play \<and> list_ex (\<lambda>tf. fp_interp tf = Trash_Finesse \<and> basic_matches tf fp) fps
       then fp\<lparr>fp_illegal := True\<rparr> else fp) fps"

definition legal_fps :: "focus_possibility list \<Rightarrow> focus_possibility list" where
  "legal_fps = filter (\<lambda>fp. \<not> fp_illegal fp)"

definition consider_trash :: "game \<Rightarrow> nat \<Rightarrow> nat \<Rightarrow> actual_card \<Rightarrow> focus_possibility list \<Rightarrow> bool" where
  "consider_trash g target focus f fps \<longleftrightarrow>
     list_ex (\<lambda>fp. fp_interp fp = Trash_Finesse) (legal_fps fps) \<and>
     (target = our_player (g_state g) \<or>
      \<not> list_ex (\<lambda>fp. iset_has (inferred (card_at (common g) focus)) fp \<and> actual_matches None f fp) (legal_fps fps))"

definition assume_tcm :: "clue_action \<Rightarrow> nat \<Rightarrow> player \<Rightarrow> game \<Rightarrow> game result" where
  "assume_tcm a focus old g = perform_cm_on (interpret_tcm g a focus old True) g"

definition matched_inferences :: "game \<Rightarrow> nat \<Rightarrow> bool \<Rightarrow> focus_possibility list \<Rightarrow> focus_possibility list" where
  "matched_inferences g focus with_trash fps =
     (let c = card_at (common g) focus in
      filter (\<lambda>fp. iset_has (inferred c) fp \<or> (with_trash \<and> iset_has (possible c) fp \<and> fp_interp fp = Trash_Finesse)) (legal_fps fps))"

section \<open>Readings with our own cards\<close>

definition looks_direct :: "game \<Rightarrow> clue_action \<Rightarrow> nat \<Rightarrow> focus_possibility list \<Rightarrow> bool" where
  "looks_direct g a focus fps \<longleftrightarrow>
     (let us = our_player (g_state g); target = ca_target a in
      identity (sym_opts True) (card_at (common g) focus) = None \<and>
      (clue_kind (ca_clue a) = ColourClue \<or>
       rank_looks_playable g (clue_value (ca_clue a)) (ca_giver a) target focus \<or>
       list_ex (\<lambda>fp. iset_has (inferred (card_at (g_players g ! target) focus)) fp \<and>
         list_all (\<lambda>c. conn_type c = Known \<or> (conn_type c = Playable \<and> conn_reacting c \<noteq> us)) (fp_connections fp)) (legal_fps fps)))"

text \<open>The giver's known cards cannot connect when the focus could be that card, unless the clue is asymmetric. Whether the
  last such card was refused, and the connections, of which an accepted one is no longer asymmetric.\<close>

definition giver_entertains :: "game \<Rightarrow> nat \<Rightarrow> basic_card \<Rightarrow> int \<Rightarrow> 'a basic_card_scheme \<Rightarrow> connection \<Rightarrow> bool" where
  "giver_entertains g giver i r fp c \<longleftrightarrow>
     list_all (\<lambda>j. basic_matches j fp \<or> (is_critical (g_state g) j \<and> basic_matches j (mk_id (suit_index i) r)))
       (iset_array (inferred (card_at (g_players g ! giver) (conn_order c))))"

fun match_conns :: "game \<Rightarrow> nat \<Rightarrow> basic_card \<Rightarrow> int \<Rightarrow> 'a basic_card_scheme \<Rightarrow> bool \<Rightarrow> connection list \<Rightarrow> bool \<times> connection list" where
  "match_conns g giver i r fp same [] = (same, [])"
| "match_conns g giver i r fp same (c # cs) =
     (if conn_type c \<noteq> Known \<or> conn_reacting c \<noteq> giver \<or> \<not> list_all (\<lambda>j. basic_matches j fp) (conn_identities c)
      then (let (b, cs') = match_conns g giver i r fp same cs in (b, c # cs'))
      else if giver_entertains g giver i r fp c then (False, c\<lparr>conn_asymmetric := False\<rparr> # cs)
      else (let (b, cs') = match_conns g giver i r fp True cs in (b, c # cs')))"

definition same_match :: "game \<Rightarrow> nat \<Rightarrow> basic_card \<Rightarrow> int \<Rightarrow> focus_possibility list \<Rightarrow> connection list \<Rightarrow> bool \<times> connection list" where
  "same_match g giver i r fps conns = fold (\<lambda>fp (b, cs). match_conns g giver i r fp b cs) fps (False, conns)"

definition bluffed_reading :: "game \<Rightarrow> clue_action \<Rightarrow> nat \<Rightarrow> connection \<Rightarrow> basic_card \<Rightarrow> focus_possibility" where
  "bluffed_reading g a focus c i =
     reading i [c\<lparr>conn_bluff := True,
       conn_identities := get_bluffable_ids g a (iset_array (inferred (card_at (common g) (conn_order c)))) [focus] (conn_reacting c)\<rparr>] H_Play"

definition maybe_bluffed :: "game \<Rightarrow> connection list \<Rightarrow> bool" where
  "maybe_bluffed g conns \<longleftrightarrow>
     level (own g) \<ge> level_intermediate_bluffs \<and>
     (case conns of c # _ \<Rightarrow> conn_type c = Finesse \<and> (conn_possibly_bluff c \<or> conn_bluff c) | [] \<Rightarrow> False)"

text \<open>We are the target: an identity with its connections, and as an intermediate bluff.\<close>

definition own_skips :: "game \<Rightarrow> clue_action \<Rightarrow> nat \<Rightarrow> focus_possibility list \<Rightarrow> basic_card \<Rightarrow> bool" where
  "own_skips g a focus fps i \<longleftrightarrow>
     is_trash (g_state g) (g_players g ! ca_giver a) i (int focus) infer_opts True \<or>
     (pink_rank_clue g a \<and> rank i \<noteq> clue_value (ca_clue a)) \<or> list_ex (basic_matches i) fps"

definition own_reading :: "game \<Rightarrow> clue_action \<Rightarrow> nat \<Rightarrow> bool \<Rightarrow> focus_possibility list \<Rightarrow> basic_card \<Rightarrow> focus_possibility list result" where
  "own_reading g a focus direct fps i =
     (if own_skips g a focus fps i then Inr fps
      else
        catch_illegal
          (bindR (h_find_own_finesses g a focus i direct None [] False) (\<lambda>conns0.
            let r = inference_rank (g_state g) (suit_index i) conns0;
                (same, conns) = same_match g (ca_giver a) i r fps conns0 in
            Inr (if same then fps
              else fps @ [reading (mk_id (suit_index i) r) conns H_Play] @
                (if maybe_bluffed g conns \<and> is_intermediate_bluff_target g a i focus
                 then [bluffed_reading g a focus ((hd conns)\<lparr>conn_possibly_bluff := False\<rparr>) i] else []))))
          (\<lambda>_. Inr fps))"

definition own_readings :: "game \<Rightarrow> clue_action \<Rightarrow> nat \<Rightarrow> bool \<Rightarrow> bool \<Rightarrow> game \<Rightarrow> focus_possibility list \<Rightarrow> focus_possibility list result" where
  "own_readings prev a focus direct push g fps =
     (let first = filter (\<lambda>fp. fp_interp fp = Trash_Finesse \<or>
            \<not> is_trash (g_state prev) (g_players prev ! ca_giver a) fp (int focus) infer_opts True) (legal_fps fps) in
      if push then Inr first
      else foldR (own_reading g a focus direct) first (iset_array (inferred (card_at (common g) focus))))"

text \<open>Someone else is the target and needs our cards: we see which identity the focus has.\<close>

definition force_ignore :: "actual_card \<Rightarrow> focus_possibility list \<Rightarrow> game \<Rightarrow> game result" where
  "force_ignore f fps g =
     (case List.find (\<lambda>fp. actual_matches None f fp \<and> fp_illegal fp) fps of
        None \<Rightarrow> Inr g
      | Some fp \<Rightarrow>
          (case fp_connections fp of
             [] \<Rightarrow> Inl TypeError
           | c # _ \<Rightarrow> Inr (handle_ignore 0 (conn_order c) (basic_identity f) g)))"

definition seen_bluffs :: "game \<Rightarrow> clue_action \<Rightarrow> nat \<Rightarrow> actual_card \<Rightarrow> int \<Rightarrow> connection list \<Rightarrow> focus_possibility list" where
  "seen_bluffs g a focus f r conns =
     (if \<not> maybe_bluffed g conns then []
      else
        map (bluffed_reading g a focus (hd conns))
          (filter (\<lambda>i. rank f = rank i \<and> (length conns = 1 \<or> r = rank i) \<and> is_intermediate_bluff_target g a i focus)
            [mk_id (suit_index f) 3, mk_id (suit_index f) 4]))"

definition seen_readings :: "game \<Rightarrow> clue_action \<Rightarrow> nat \<Rightarrow> bool \<Rightarrow> actual_card \<Rightarrow> focus_possibility list result" where
  "seen_readings g a focus direct f =
     catch_illegal
       (bindR (h_find_own_finesses g a focus (raw f) direct None [] False) (\<lambda>conns.
         let s = g_state g; k = suit_index f; r = inference_rank s k conns in
         Inr (map (\<lambda>n. reading (mk_id k (play_stacks s ! nat k + 1 + int n)) (take n conns) H_Play)
               (filter (\<lambda>n. conn_type (conns ! n) = Finesse) [0..<length conns]) @
             [reading (mk_id k r) conns H_Play] @ seen_bluffs g a focus f r conns)))
       (\<lambda>_. Inr [])"

section \<open>Trash finesses on us\<close>

text \<open>The highest rank of a suit that has to be played before at most one useful card can still be the focus.\<close>

definition count_useful :: "game_state \<Rightarrow> basic_card list \<Rightarrow> int list" where
  "count_useful s ids =
     map (\<lambda>n. sum_list (map (\<lambda>i. if int n + 1 \<le> rank i then total_count s i - discards_of s i else 0) ids)) [0..<6]"

definition trash_max_rank :: "game \<Rightarrow> clue_action \<Rightarrow> nat \<Rightarrow> int \<Rightarrow> int" where
  "trash_max_rank g a focus k =
     (if clue_kind (ca_clue a) = RankClue then clue_value (ca_clue a)
      else
        let s = g_state g;
            ids = filter (\<lambda>i. suit_index i = k \<and> \<not> is_basic_trash s i) (iset_array (possible (card_at (common g) focus)));
            first = length (takeWhile (\<lambda>n. n > 1) (count_useful s ids)) in
        min (Max (set (0 # map rank ids))) (int first))"

definition trash_suit :: "bool \<Rightarrow> game \<Rightarrow> clue_action \<Rightarrow> nat \<Rightarrow> focus_possibility list \<Rightarrow> int \<Rightarrow> focus_possibility list result" where
  "trash_suit shared g a focus fps k =
     (let r = trash_max_rank g a focus k in
      if play_stacks (g_state g) ! nat k \<ge> r then Inr fps
      else
        bindR (find_own_trash_finesses g a focus (mk_id k r)) (\<lambda>conns.
          Inr (case conns of None \<Rightarrow> fps | Some cs \<Rightarrow> fps @ snd (find_trash_finesses shared g a focus cs))))"

text \<open>When the focus can only be playable or trash, the next player is bluffed with any playable card. (Without trash
  identities a log fails.)\<close>

definition trash_bluffs :: "game \<Rightarrow> nat \<Rightarrow> nat \<Rightarrow> focus_possibility list result" where
  "trash_bluffs g focus own_finesse =
     (let s = g_state g;
          trash_ids = filter (is_basic_trash s) (iset_array (possible (card_at (common g) focus)));
          bluffable = filter (is_playable s) (iset_array (possible (card_at (common g) own_finesse)));
          c = (mk_conn Finesse (our_player s) own_finesse bluffable)\<lparr>conn_bluff := True\<rparr> in
      if bluffable = [] then Inr []
      else if trash_ids = [] then Inl TypeError
      else Inr (map (\<lambda>i. reading i [c] Trash_Finesse) trash_ids))"

definition only_playable_or_trash :: "game \<Rightarrow> nat \<Rightarrow> bool" where
  "only_playable_or_trash g focus \<longleftrightarrow>
     \<not> list_ex (\<lambda>i. \<not> is_basic_trash (g_state g) i \<and> \<not> is_playable (g_state g) i) (iset_array (possible (card_at (common g) focus)))"

definition trash_readings :: "bool \<Rightarrow> game \<Rightarrow> clue_action \<Rightarrow> nat \<Rightarrow> nat \<Rightarrow> focus_possibility list result" where
  "trash_readings shared g a focus own_finesse =
     (let s = g_state g in
      if next_player s (ca_giver a) = our_player s \<and> only_playable_or_trash g focus then trash_bluffs g focus own_finesse
      else
        foldR (trash_suit shared g a focus) []
          (if clue_kind (ca_clue a) = ColourClue then [clue_value (ca_clue a)] else map int [0..<n_suits s]))"

text \<open>The game, all readings and the simplest ones. Without readings the clue is taken for a chop move if it looks like one.\<close>

type_synonym readings = "game \<times> focus_possibility list \<times> focus_possibility list"

definition trash_on_us :: "bool \<Rightarrow> clue_action \<Rightarrow> nat \<Rightarrow> player \<Rightarrow> game \<Rightarrow> readings result" where
  "trash_on_us shared a focus old g =
     (let s = g_state g; us = our_player s in
      if is_trash_clue g (ca_giver a) (ca_clue a) (ca_target a) focus old
      then bindR (assume_tcm a focus old g) (\<lambda>g1. Inr (g1, [], []))
      else
        case h_finesse (common g) s us [] [] of
          None \<Rightarrow> Inr (g, [], [])
        | Some own_finesse \<Rightarrow>
            bindR (trash_readings shared g a focus own_finesse) (\<lambda>fps.
            bindR (if fps \<noteq> [] then assume_tcm a focus old g else Inr g) (\<lambda>g1.
              Inr (g1, fps, occams_razor g fps us focus))))"

definition might_look_playable :: "game \<Rightarrow> clue_action \<Rightarrow> nat \<Rightarrow> bool" where
  "might_look_playable g a focus \<longleftrightarrow>
     level (own g) \<ge> level_trash_moves \<and> ca_giver a \<noteq> our_player (g_state g) \<and>
     list_ex (\<lambda>i. \<not> is_basic_trash (g_state g) i) (iset_array (possible (card_at (common g) focus)))"

definition more_readings :: "bool \<Rightarrow> game \<Rightarrow> clue_action \<Rightarrow> focus_result \<Rightarrow> nat \<Rightarrow> actual_card \<Rightarrow> player \<Rightarrow> focus_possibility list \<Rightarrow> game \<Rightarrow>
    readings result" where
  "more_readings shared prev a fr focus f old fps g =
     (let s = g_state g; us = our_player s; direct = looks_direct g a focus fps in
      if ca_target a = us then
        bindR (own_readings prev a focus direct (fo_trash_push fr) g fps) (\<lambda>all_fps. Inr (g, all_fps, occams_razor g all_fps us focus))
      else if \<not> is_basic_trash s f then
        bindR (force_ignore f fps g) (\<lambda>g1.
        bindR (seen_readings g1 a focus direct f) (\<lambda>all_fps. Inr (g1, all_fps, all_fps)))
      else if might_look_playable g a focus then trash_on_us shared a focus old g
      else Inr (g, [], []))"

section \<open>Writing the readings\<close>

text \<open>No reading: good touch decides, with the pink promise in our hand.\<close>

definition no_reading :: "clue_action \<Rightarrow> nat \<Rightarrow> game \<Rightarrow> game result" where
  "no_reading a focus g =
     (let s = g_state g; v = clue_value (ca_clue a) in
      bindR (write_common focus (\<lambda>_. [W_reset True]) g) (\<lambda>g1.
      bindR (if ca_target a = our_player s \<and> pink_rank_clue g a then
          write_common focus (\<lambda>d. let promised = filter (\<lambda>i. rank i = v) (iset_array (possible d)) in
            [W_inferred (keep_rank v (inferred d)),
             W_info_lock (Some (case info_lock d of
                 Some l \<Rightarrow> if iset_length l = 0 then iset_union (base_ids s) (Ids promised) else iset_intersect l (Ids promised)
               | None \<Rightarrow> iset_union (base_ids s) (Ids promised)))]) g1
        else Inr g1) (\<lambda>g2. Inr (interpret_move H_None g2))))"

definition keep_inferred :: "nat \<Rightarrow> 'a possibility_scheme list \<Rightarrow> game \<Rightarrow> game result" where
  "keep_inferred focus fps = write_common focus (\<lambda>d. [W_inferred (iset_intersect (inferred d) (fp_ids fps))])"

definition with_importance :: "clue_action \<Rightarrow> (game \<times> bool) result \<Rightarrow> (game \<times> clue_action) result" where
  "with_importance a m = bindR m (\<lambda>(g, b). Inr (g, if b then a\<lparr>ca_important := True\<rparr> else a))"

text \<open>The focus matches a reading that needs nothing more, a hypothetical clue is refused, or more readings are looked for.\<close>

definition settle_readings :: "bool \<Rightarrow> game \<Rightarrow> clue_action \<Rightarrow> focus_result \<Rightarrow> nat \<Rightarrow> actual_card \<Rightarrow> player \<Rightarrow> bool \<Rightarrow> bool \<Rightarrow>
    focus_possibility list \<Rightarrow> game \<Rightarrow> (game \<times> clue_action) result" where
  "settle_readings shared prev a fr focus f old loaded with_trash fps g =
     (let s = g_state g; matched = matched_inferences g focus with_trash fps in
      bindR (h_copy g) (\<lambda>old_game.
        if list_ex (actual_matches None f) matched then
          (let simplest = (if ca_giver a = our_player s then occams_razor g (legal_fps fps) (ca_target a) focus else legal_fps fps) in
           bindR (keep_inferred focus simplest g) (\<lambda>g1.
             if ca_giver a = our_player s \<and> \<not> list_ex (actual_matches None f) simplest then Inr (interpret_move H_None g1, a)
             else with_importance a (resolve_clue old_game a fr matched matched f loaded g1)))
        else if ca_hypothetical a then Inr (interpret_move H_None g, a)
        else
          bindR (more_readings shared prev a fr focus f old fps g) (\<lambda>(g1, all_fps, simplest).
            let final = finalize_connections (g_state g1) a simplest in
            if final = [] then bindR (no_reading a focus g1) (\<lambda>g2. Inr (g2, a))
            else with_importance a (resolve_clue old_game a fr final all_fps f loaded g1))))"

section \<open>After the readings\<close>

text \<open>The oldest unknown 1s are the 1s that are still missing.\<close>

definition missing_1s :: "game \<Rightarrow> nat \<Rightarrow> nat list \<Rightarrow> basic_card list" where
  "missing_1s g target ones =
     (let s = g_state g in
      filter (\<lambda>i. \<not> is_basic_trash s i \<and>
          \<not> list_ex (\<lambda>ord. clued (deck_at s ord) \<and> ord \<notin> set ones) (visible_find s (g_players g ! target) i infer_opts []))
        (map (\<lambda>k. mk_id (int k) 1) [0..<n_suits s]))"

definition pink_1s :: "clue_action \<Rightarrow> game \<Rightarrow> game result" where
  "pink_1s a g =
     (let s = g_state g; target = ca_target a;
          ones = order_1s s (common g) (filter (\<lambda>ord. unknown_1 (deck_at s ord) False) (hands s ! target)) True;
          missing = missing_1s g target ones in
      if pink_rank_clue g a \<and> clue_value (ca_clue a) = 1
      then foldR (\<lambda>h ord. write_common ord (\<lambda>d. [W_inferred (iset_intersect (inferred d) (Ids missing))]) h) g
        (take (length missing) ones)
      else Inr g)"

definition set_moves :: "((int \<times> interp) list \<Rightarrow> (int \<times> interp) list) \<Rightarrow> game \<Rightarrow> game" where
  "set_moves F g = g\<lparr>own := (own g)\<lparr>move_history := F (move_history (own g))\<rparr>\<rparr>"

text \<open>A speed-up clue on a card removes the hidden connections right before it.\<close>

definition speed_up :: "nat \<Rightarrow> waiting_connection \<Rightarrow> waiting_connection" where
  "speed_up focus wc =
     (let conns = wc_connections wc; from = wc_conn_index wc; place = length (takeWhile (\<lambda>c. conn_order c \<noteq> focus) conns);
          run = length (takeWhile conn_hidden (rev (drop from (take place conns)))) in
      if list_ex (\<lambda>c. conn_order c = focus) (drop from conns)
      then wc\<lparr>wc_connections := take (place - run) conns @ drop place conns\<rparr> else wc)"

definition finish_readings :: "clue_action \<Rightarrow> focus_result \<Rightarrow> nat \<Rightarrow> actual_card \<Rightarrow> player \<Rightarrow> h_interp option \<Rightarrow> nat list \<Rightarrow> game \<Rightarrow> game result" where
  "finish_readings a fr focus f old st thinks g =
     bindR (pink_1s a g) (\<lambda>g1.
     bindR (elim_all g1) (\<lambda>g2.
     bindR (if fo_positional fr then Inr (interpret_move Positional_Clue (set_moves butlast g2))
        else if level (own g2) \<ge> level_tempo \<and> num_players (g_state g2) > 2 then
          bindR (try_tccm g2 old st thinks (ca_target a) (ca_list a) f) (\<lambda>r.
            Inr (case r of Some g3 \<Rightarrow> set_moves (\<lambda>ms. splice1 ms (int (length ms) - 2)) g3 | None \<Rightarrow> g2))
        else Inr g2) (\<lambda>g3.
       let com = common g3 in
       team_elim (g3\<lparr>common := com\<lparr>waiting_connections := map (speed_up focus) (waiting_connections com)\<rparr>\<rparr>))))"

section \<open>The handler\<close>

text \<open>Looking for readings, when the clue is none of the special clues.\<close>

definition read_focus :: "clue_action \<Rightarrow> focus_result \<Rightarrow> nat \<Rightarrow> actual_card \<Rightarrow> player \<Rightarrow> game \<Rightarrow> bool \<Rightarrow> bool \<Rightarrow> h_interp option \<Rightarrow> nat list \<Rightarrow> game \<Rightarrow>
    (game \<times> clue_action) result" where
  "read_focus a fr focus f old prev loaded shared st thinks g =
     bindR (find_focus_possible shared g a fr thinks loaded (fo_trash_push fr)) (\<lambda>fps0.
     let fps1 = exclude_bluffed (next_player (g_state g) (ca_giver a)) fps0;
         with_trash = consider_trash g (ca_target a) focus f fps1;
         fps = (if with_trash then exclude_trash fps1 else fps1) in
     bindR (if with_trash then assume_tcm a focus old g else Inr g) (\<lambda>g1.
     bindR (settle_readings shared prev a fr focus f old loaded with_trash fps g1) (\<lambda>(g2, a').
     bindR (finish_readings a fr focus f old st thinks g2) (\<lambda>g3. Inr (g3, a')))))"

text \<open>The special clues, in the order of the code.\<close>

definition special_clue :: "clue_action \<Rightarrow> focus_result \<Rightarrow> nat \<Rightarrow> actual_card \<Rightarrow> player \<Rightarrow> h_interp option \<Rightarrow> nat list \<Rightarrow> game \<Rightarrow>
    game option result" where
  "special_clue a fr focus f old st thinks g =
     bindR (distribution_clue g a (Some (order (card_at (common g) focus)))) (\<lambda>ids.
       case ids of
         Some ids' \<Rightarrow> bindR (finish_distribution focus ids' g) (\<lambda>g1. Inr (Some g1))
       | None \<Rightarrow>
           bindR (if level (own g) \<ge> level_basic_cm \<and> \<not> in_endgame (g_state g) then
               bindR (try_tcm a focus old st thinks f g) (\<lambda>r. case r of Some g1 \<Rightarrow> Inr (Some g1) | None \<Rightarrow> try_5cm a focus old g)
             else Inr None) (\<lambda>r.
             case r of
               Some g1 \<Rightarrow> Inr (Some g1)
             | None \<Rightarrow>
                 if pink_trash_fix g a (fo_positional fr) focus then bindR (finish_pink_trash a focus g) (\<lambda>g1. Inr (Some g1))
                 else Inr None))"

definition h_read_clue :: "clue_finder option \<Rightarrow> clue_action \<Rightarrow> focus_result \<Rightarrow> nat \<Rightarrow> actual_card \<Rightarrow> player \<Rightarrow> game \<Rightarrow> bool \<Rightarrow> bool \<Rightarrow> bool \<Rightarrow> game \<Rightarrow>
    (game \<times> clue_action) result" where
  "h_read_clue fnd a fr focus f old prev loaded fixed shared g =
     (if (level (own g) \<ge> level_fix \<and> fixed) \<or> ca_mistake a
      then bindR (finish_fix_clue a (fo_chop fr) focus fixed old g) (\<lambda>g1. Inr (g1, a))
      else
        bindR (stalling_situation fnd g a fr prev loaded) (\<lambda>(st, thinks).
          if length thinks = num_players (g_state g) \<and> st \<noteq> None
          then bindR (finish_stall a focus (the st) g) (\<lambda>g1. Inr (g1, a))
          else if thinks \<noteq> [] \<and> ca_giver a = our_player (g_state g) then Inr (interpret_move H_None g, a)
          else
            bindR (special_clue a fr focus f old st thinks g) (\<lambda>r.
              case r of
                Some g1 \<Rightarrow> Inr (g1, a)
              | None \<Rightarrow> read_focus a fr focus f old prev loaded shared st thinks g)))"

definition h_loaded :: "game \<Rightarrow> nat \<Rightarrow> nat \<Rightarrow> bool result" where
  "h_loaded g giver target =
     (let s = g_state g in
      if thinks_trash (common g) s target \<noteq> [] then Inr True
      else connectable_simple (num_players s) h_moves g (next_player s giver) target None)"

text \<open>After good touch: the focus is marked, contradicted connections are cancelled, and the clue is read.\<close>

definition h_touched_clue :: "clue_finder option \<Rightarrow> rewinder \<Rightarrow> clue_action \<Rightarrow> focus_result \<Rightarrow> nat \<Rightarrow> actual_card \<Rightarrow> player \<Rightarrow> game \<Rightarrow> bool \<Rightarrow>
    touch_result \<Rightarrow> (game \<times> clue_action) result" where
  "h_touched_clue fnd rw a fr focus f old prev loaded t =
     (if tr_rewinded t then Inr (tr_game t, a)
      else
        bindR (mark_focus fnd a fr focus old prev loaded (tr_game t)) (\<lambda>(g1, a1).
        bindR (restore_focus rw a1 focus old g1) (\<lambda>r1.
          case r1 of
            Inl g2 \<Rightarrow> Inr (g2, a1)
          | Inr (g2, restored) \<Rightarrow>
              bindR (cancel_connections rw False (ca_giver a) focus None g2) (\<lambda>r2.
                case r2 of
                  Inl g3 \<Rightarrow> Inr (g3, a1)
                | Inr (g3, rewritten) \<Rightarrow>
                    let c = card_at (common g3) focus;
                        shared = ((restored \<or> focus \<in> set (tr_resets t)) \<and> \<not> rewritten \<and> inferred c = possible c) in
                    h_read_clue fnd a1 fr focus f old prev loaded (tr_fix t) shared g3))))"

definition h_clue_with :: "clue_finder option \<Rightarrow> rewinder \<Rightarrow> clue_action \<Rightarrow> game \<Rightarrow> (game \<times> clue_action) result" where
  "h_clue_with fnd rw a g =
     (let old = common g; s = g_state g in
      bindR (h_copy g) (\<lambda>prev.
        if ca_list a = [] then bindR (h_empty_clue rw a old g) (\<lambda>g1. Inr (g1, a))
        else
          bindR (h_loaded g (ca_giver a) (ca_target a)) (\<lambda>loaded.
          bindR (h_focus g (hands s ! ca_target a) old (ca_list a) (ca_giver a) (ca_target a) (ca_clue a)) (\<lambda>fr.
          bindR (need (fo_focus fr)) (\<lambda>focus.
          bindR (write_common focus (\<lambda>_. [W_focused True]) g) (\<lambda>g1.
          bindR (apply_good_touch rw g1 a old) (\<lambda>t.
            h_touched_clue fnd rw a fr focus (deck_at s focus) old prev loaded t)))))))"

end
