(* ===== verification/H_Safety.thy ===== *)
theory H_Safety
  imports H_Clues
begin

text \<open>
  Whether a clue of ours is safe: \<open>src/src/conventions/h-group/clue-finder/clue-safe.js\<close>. The clue is simulated, and the players after us are
  followed until one may have to discard; his chop must not be valuable, or an early game clue is expected of him. The
  interpretation of the simulated clue is an argument. Logging is left out.
\<close>

section \<open>Simulating a clue\<close>

type_synonym clue_interpreter = "rewinder \<Rightarrow> clue_action \<Rightarrow> game \<Rightarrow> (game \<times> clue_action) result"

definition h_simulate_clue :: "clue_interpreter \<Rightarrow> rewinder \<Rightarrow> game \<Rightarrow> clue_action \<Rightarrow> (game \<times> clue_action) result" where
  "h_simulate_clue interp rw g a =
     bindR (simulate_clean h_moves g) (\<lambda>h.
     bindR (interp rw a h) (\<lambda>(h1, a1).
       Inr (h1\<lparr>catchup := False, g_state := (g_state h1)\<lparr>turn_count := turn_count (g_state h1) + 1\<rparr>\<rparr>, a1)))"

text \<open>After a clue of ours, the turn goes on: this resolves waiting connections.\<close>

definition pass_turn :: "rewinder \<Rightarrow> clue_action \<Rightarrow> int \<Rightarrow> game \<Rightarrow> game result" where
  "pass_turn rw a num h =
     (let us = our_player (g_state h);
          h1 = h\<lparr>catchup := True, last_actions := put (last_actions h) us (ClueAction a)\<rparr> in
      bindR (handle_with h_moves rw (TurnAction num (next_player (g_state h) us)) h1) (\<lambda>h2. Inr (h2\<lparr>catchup := False\<rparr>)))"

section \<open>Following the players\<close>

definition finessed_order :: "game \<Rightarrow> nat \<Rightarrow> nat option" where
  "finessed_order g pl =
     (let s = g_state g in
      max_on (\<lambda>ord. - finesse_index (card_at (common g) ord))
        (filter (\<lambda>ord. let c = card_at (g_players g ! pl) ord in blind_playing c \<and> is_playable s (raw (deck_at s ord)) \<and> \<not> hidden c) (hands s ! pl))
        None)"

abbreviation no_assume :: think_options where
  "no_assume \<equiv> default_think\<lparr>t_assume := Some False\<rparr>"

definition take_from_hand :: "nat \<Rightarrow> nat \<Rightarrow> game_state \<Rightarrow> game_state" where
  "take_from_hand pl ord s = s\<lparr>hands := (hands s)[pl := splice1 (hands s ! pl) (index_of (hands s ! pl) ord)]\<rparr>"

text \<open>Whether the plays of the players from one to another make a card of the latter playable. Only the first playable whose
  identity is known is followed; a finessed card counts only if its order is not 0.\<close>

fun h_connectable :: "nat \<Rightarrow> game \<Rightarrow> nat \<Rightarrow> nat \<Rightarrow> bool result" where
  "h_connectable fuel g start target =
     (let s = g_state g; p = g_players g ! start in
      if start = target then Inr (h_playables (g_players g ! target) s target no_assume \<noteq> [])
      else
        case first_some (\<lambda>ord. map_option (Pair ord) (identity infer_opts (card_at p ord)))
            (case finessed_order g start of Some (Suc n) \<Rightarrow> [Suc n] | _ \<Rightarrow> h_playables p s start no_assume) of
          None \<Rightarrow> Inr False
        | Some (ord, i) \<Rightarrow>
            (case fuel of
               0 \<Rightarrow> Inl OutOfFuel
             | Suc k \<Rightarrow>
                 let st = play_stacks s; s1 = take_from_hand start ord (s\<lparr>play_stacks := st[nat (suit_index i) := st ! nat (suit_index i) + 1]\<rparr>) in
                 h_connectable k (g\<lparr>g_state := s1\<rparr>) (next_player s start) target))"

declare h_connectable.simps [simp del]

text \<open>The chop of a player is critical or the last 2; or the player is locked without a clue token.\<close>

definition chop_unsafe :: "game \<Rightarrow> player \<Rightarrow> nat \<Rightarrow> bool" where
  "chop_unsafe g p pl \<longleftrightarrow>
     (let s = g_state g; q = g_players g ! pl in
      case chop q (hands s ! pl) of
        Some ord \<Rightarrow>
          (case basic_identity (deck_at s ord) of None \<Rightarrow> False | Some i \<Rightarrow> is_critical s i \<or> save2 s p i)
      | None \<Rightarrow> clue_tokens s = 0 \<and> \<not> loaded_by h_playables q s pl no_assume)"

definition finesse_plays :: "nat \<Rightarrow> nat \<Rightarrow> game \<Rightarrow> game result" where
  "finesse_plays pl ord g =
     (let s = g_state g; d = deck_at s ord;
          s1 = take_from_hand pl ord (s\<lparr>play_stacks := (play_stacks s)[nat (suit_index d) := rank d]\<rparr>) in
      bindR (good_touch_elim (common g) s1 False) (\<lambda>c. team_elim (g\<lparr>g_state := s1, common := c\<rparr>)))"

text \<open>The loaded players, up to us: who may clue is counted. The arrays that are tested for known trash and playables count as
  true even when they are empty, so that every loaded player gives a clue token.\<close>

record discard_search =
  ds_game :: game
  ds_next :: nat
  ds_cluers :: int
  ds_tokens :: int

fun skip_loaded :: "nat \<Rightarrow> discard_search \<Rightarrow> (discard_search \<times> bool) result" where
  "skip_loaded fuel d =
     (let g = ds_game d; s = g_state g; pl = ds_next d in
      if \<not> loaded_by h_playables (g_players g ! pl) s pl no_assume then Inr (d, False)
      else
        (case fuel of
           0 \<Rightarrow> Inl OutOfFuel
         | Suc k \<Rightarrow>
             bindR (case finessed_order g pl of
                 None \<Rightarrow> Inr (if ds_tokens d > ds_cluers d then d\<lparr>ds_cluers := ds_cluers d + 1\<rparr> else d)
               | Some ord \<Rightarrow> bindR (finesse_plays pl ord g) (\<lambda>g1. Inr (d\<lparr>ds_game := g1\<rparr>))) (\<lambda>d1.
               let nxt = next_player s pl; d2 = d1\<lparr>ds_tokens := ds_tokens d1 + 1, ds_next := nxt\<rparr> in
               if nxt = our_player s then Inr (d2, True) else skip_loaded k d2)))"

declare skip_loaded.simps [simp del]

text \<open>With few clues the next player may be made to discard for the one after him.\<close>

definition forced_discard :: "game \<Rightarrow> nat \<Rightarrow> int \<Rightarrow> bool" where
  "forced_discard g nxt tokens \<longleftrightarrow>
     (let s = g_state g in
      tokens = 1 \<and> nxt \<noteq> our_player s \<and>
      list_all (\<lambda>ord. let d = deck_at s ord in is_critical s (raw d) \<or> clued d) (hands s ! nxt) \<and>
      \<not> loaded_by h_playables (common g) s nxt default_think)"

definition restore_stacks :: "int list \<Rightarrow> discard_search \<Rightarrow> discard_search" where
  "restore_stacks st d = d\<lparr>ds_game := with_stacks st (ds_game d)\<rparr>"

text \<open>The next player who may discard, according to a player; the hands and players of the game have changed, the stacks have not.\<close>

fun next_discard :: "nat \<Rightarrow> game \<Rightarrow> nat \<Rightarrow> nat \<Rightarrow> int \<Rightarrow> discard_search result" where
  "next_discard fuel g pl start tokens =
     (let s = g_state g; old = play_stacks s in
      bindR (skip_loaded (num_players s) \<lparr>ds_game = g, ds_next = next_player s start, ds_cluers = 0, ds_tokens = tokens\<rparr>) (\<lambda>(d, ours).
        if ours then Inr (restore_stacks old d)
        else
          let g1 = ds_game d; n = ds_next d in
          if (ds_tokens d = 0 \<or> forced_discard g1 (next_player s n) (ds_tokens d)) \<and> \<not> chop_unsafe g1 (g_players g1 ! pl) n then
            (case fuel of
               0 \<Rightarrow> Inl OutOfFuel
             | Suc k \<Rightarrow>
                 bindR (next_discard k g1 pl n 1) (\<lambda>d2.
                   Inr (restore_stacks old (d2\<lparr>ds_cluers := ds_cluers d + ds_cluers d2\<rparr>))))
          else Inr (restore_stacks old d)))"

declare next_discard.simps [simp del]

section \<open>Safe situations\<close>

definition possible_discard :: "game \<Rightarrow> player \<Rightarrow> nat list \<Rightarrow> bool \<Rightarrow> nat option" where
  "possible_discard g p hand potential_cluer =
     (let s = g_state g in
      case chop p hand of
        None \<Rightarrow> None
      | Some ord \<Rightarrow>
          let d = deck_at s ord;
              cluable = (is_critical s (raw d) \<or> save2 s p d \<or>
                (basic_identity d \<noteq> None \<and> hypo_stacks p ! nat (suit_index d) = rank d - 1)) in
          if potential_cluer \<and> cluable then None else Some ord)"

definition has_early_clue :: "clue_finder \<Rightarrow> game \<Rightarrow> nat \<Rightarrow> bool result" where
  "has_early_clue fnd g pl = (if early_game (g_state g) then early_game_clue fnd g pl None else Inr False)"

text \<open>The second search, from the player who cannot be saved but may be connected to. Whether it is safe depends on the early
  clue of the first player, as in the code.\<close>

definition second_situation :: "clue_finder \<Rightarrow> nat \<Rightarrow> bool \<Rightarrow> nat \<Rightarrow> game \<Rightarrow> (bool \<times> nat option) result" where
  "second_situation fnd pl early n g =
     (let s = g_state g in
      bindR (next_discard (2 * num_players s) g pl n (clue_tokens s)) (\<lambda>d.
        let g1 = ds_game d; m = ds_next d; p = g_players g1 ! pl in
        if m = our_player s then Inr (True, None)
        else
          bindR (has_early_clue fnd g1 m) (\<lambda>early2.
            Inr (\<not> chop_unsafe g1 p m \<or> early \<or> ds_cluers d \<ge> 1,
                 if early2 then None else possible_discard g1 p (hands (g_state g1) ! m) (ds_cluers d \<ge> 1)))))"

definition safe_situation :: "clue_finder \<Rightarrow> game \<Rightarrow> nat \<Rightarrow> (bool \<times> nat option) result" where
  "safe_situation fnd g pl =
     (let s = g_state g; us = our_player s in
      bindR (next_discard (2 * num_players s) g pl us (clue_tokens s)) (\<lambda>d.
        let g1 = ds_game d; n = ds_next d; p = g_players g1 ! pl; hand = hands (g_state g1) ! n in
        if n = us then Inr (True, None)
        else
          bindR (has_early_clue fnd g1 n) (\<lambda>early.
            if \<not> chop_unsafe g1 p n \<or> early \<or> ds_cluers d \<ge> 1
            then Inr (True, if early then None else possible_discard g1 p hand (ds_cluers d \<ge> 1))
            else
              bindR (h_connectable (num_players s) g1 (next_player s us) n) (\<lambda>connects.
                if connects then second_situation fnd pl early n g1
                else Inr (False, possible_discard g1 p hand False)))))"

definition forget_new :: "nat list \<Rightarrow> game \<Rightarrow> game result" where
  "forget_new os g =
     (let clear = (\<lambda>p ord. write_card p ord (\<lambda>_. [W_newly_clued False])) in
      bindR (foldR (\<lambda>s ord. update_deck not_new ord s) (g_state g) os) (\<lambda>s.
      bindR (mapR (\<lambda>p. foldR clear p os) (g_players g)) (\<lambda>ps.
      bindR (foldR clear (common g) os) (\<lambda>c. Inr (g\<lparr>g_state := s, g_players := ps, common := c\<rparr>)))))"

definition clue_safe :: "clue_finder \<Rightarrow> clue_interpreter \<Rightarrow> rewinder \<Rightarrow> game \<Rightarrow> nat \<Rightarrow> nat \<Rightarrow> base_clue \<Rightarrow> (bool \<times> nat option) result" where
  "clue_safe fnd interp rw g pl target cl =
     (let s = g_state g;
          a = \<lparr>ca_giver = our_player s, ca_target = target, ca_list = clue_touched s (hands s ! target) cl, ca_clue = cl,
               ca_mistake = False, ca_lock = False, ca_important = False, ca_hypothetical = False\<rparr> in
      bindR (h_simulate_clue interp rw g a) (\<lambda>(h, a1).
      bindR (pass_turn rw a1 (turn_count s) h) (\<lambda>h1.
      bindR (forget_new (all_orders s) h1) (\<lambda>h2. safe_situation fnd h2 pl))))"

end
