(* ===== verification/H_Finder.thy ===== *)
theory H_Finder
  imports H_Safety
begin

text \<open>
  Reading and choosing clues in the h-group: \<open>determine-clue.js\<close>, \<open>clue-finder.js\<close> and \<open>fix-clues.js\<close> of
  \<open>src/src/conventions/h-group/clue-finder\<close>. A clue is simulated and interpreted; the finder \<open>h_finder\<close> that the interpretation itself is
  given simulates clues without one, so that the recursion has two levels. The cache of evaluated clues is left out, as is
  logging: an evaluation is a function of the game and the action.
\<close>

section \<open>Acceptable clues\<close>

definition blind_orders :: "game \<Rightarrow> nat list" where
  "blind_orders g = filter (\<lambda>ord. blind_playing (card_at (common g) ord)) (all_orders (g_state g))"

definition focus_acceptable :: "game \<Rightarrow> game \<Rightarrow> nat \<Rightarrow> bool" where
  "focus_acceptable g hg ord \<longleftrightarrow>
     (let c = card_at (common hg) ord in
      (reset c \<longrightarrow> reset (card_at (common g) ord)) \<and> iset_has (inferred c) (deck_at (g_state g) ord))"

text \<open>A card that may become trash, or whose inferences were wrong before.\<close>

definition allowable_trash :: "game \<Rightarrow> game \<Rightarrow> clue_action \<Rightarrow> clue_result \<Rightarrow> nat \<Rightarrow> bool" where
  "allowable_trash g hg a r ord \<longleftrightarrow>
     (let s = g_state g; c = card_at (common hg) ord; old = card_at (common g) ord; d = deck_at s ord in
      status c = Some CM \<or> reset old \<or> \<not> has_consistent_inferences s old \<or> iset_length (inferred old) = 0 \<or>
      (clued d \<and> is_trash s (me g) d (int ord) infer_opts False) \<or> ord \<in> set (cr_bad_touch r) \<or>
      (pink_rank_clue g a \<and> clue_value (ca_clue a) = 1) \<or>
      list_all (\<lambda>i. is_trash (g_state hg) (common hg) i (int ord) infer_opts False) (iset_array (possible c)))"

definition seems_playable_after :: "game \<Rightarrow> game \<Rightarrow> nat \<Rightarrow> bool" where
  "seems_playable_after g hg ord \<longleftrightarrow>
     (let hcom = common hg; d = deck_at (g_state g) ord in
      ord \<in> set (unknown_plays hcom) \<or>
      (basic_identity d \<noteq> None \<and> hypo_stacks hcom ! nat (suit_index d) \<ge> rank d) \<or>
      list_all (\<lambda>i. rank i \<le> hypo_stacks hcom ! nat (suit_index i) + 1) (iset_array (inferred (card_at hcom ord))))"

text \<open>A linked card is never rejected: the check for a wrong identity after it needs a linked card and is never reached.\<close>

definition other_acceptable :: "game \<Rightarrow> game \<Rightarrow> clue_action \<Rightarrow> clue_result \<Rightarrow> nat \<Rightarrow> bool" where
  "other_acceptable g hg a r ord \<longleftrightarrow>
     (let c = card_at (common hg) ord in
      allowable_trash g hg a r ord \<or> iset_length (possible c) = 1 \<or>
      (\<not> reset c \<and>
       (ord \<in> set (linked_orders (common hg) (g_state hg)) \<or>
        \<not> (seems_playable_after g hg ord \<and> \<not> iset_has (inferred c) (deck_at (g_state g) ord) \<and> focused (card_at (common g) ord)))))"

definition indirectly_stomps :: "game \<Rightarrow> game \<Rightarrow> clue_action \<Rightarrow> bool" where
  "indirectly_stomps g hg a \<longleftrightarrow>
     list_ex (\<lambda>wc. matches (no_opts\<lparr>o_assume := Some True\<rparr>) (card_at (g_players g ! ca_giver a) (wc_focus wc)) (wc_inference wc) \<and>
         list_ex (\<lambda>ord. list_ex (\<lambda>c. conn_order c = ord) (rest_conns wc) \<and>
           list_all (is_playable (g_state hg)) (iset_array (inferred (card_at (common hg) ord)))) (ca_list a))
       (waiting_connections (common g))"

definition fake_lock :: "game \<Rightarrow> nat \<Rightarrow> bool" where
  "fake_lock hg target \<longleftrightarrow>
     locked_by h_playables (common hg) (g_state hg) target True \<and> \<not> locked_by h_playables (common hg) (g_state hg) target False"

text \<open>A new finesse on a card that a symmetric connection waits for. The order 0 counts as none.\<close>

definition finesses_symmetric :: "game \<Rightarrow> game \<Rightarrow> bool" where
  "finesses_symmetric g hg \<longleftrightarrow>
     (case List.find (\<lambda>ord. ord \<notin> set (blind_orders g) \<and>
         list_ex (\<lambda>wc. wc_symmetric wc \<and> list_ex (\<lambda>c. conn_type c = Finesse \<and> conn_order c = ord) (rest_conns wc))
           (waiting_connections (common g))) (blind_orders hg) of
        Some (Suc _) \<Rightarrow> True | _ \<Rightarrow> False)"

definition acceptable_clue :: "game \<Rightarrow> game \<Rightarrow> clue_action \<Rightarrow> clue_result \<Rightarrow> bool" where
  "acceptable_clue g hg a r \<longleftrightarrow>
     list_all (\<lambda>ord. ord \<in> set (blind_orders hg)) (blind_orders g) \<and>
     list_all (\<lambda>ord. if ord = cr_focus r then focus_acceptable g hg ord else other_acceptable g hg a r ord)
       (hands (g_state g) ! ca_target a) \<and>
     \<not> indirectly_stomps g hg a \<and> \<not> fake_lock hg (ca_target a) \<and> \<not> finesses_symmetric g hg"

section \<open>Evaluating a clue\<close>

definition result_with_safety :: "clue_finder \<Rightarrow> clue_interpreter \<Rightarrow> rewinder \<Rightarrow> game \<Rightarrow> game \<Rightarrow> clue_action \<Rightarrow> clue_result result" where
  "result_with_safety fnd interp rw g hg a =
     get_result (\<lambda>b. clue_safe fnd interp rw g (ca_giver b) (ca_target b) (ca_clue b)) g hg a
       (clue_touched (g_state g) (hands (g_state g) ! ca_target a) (ca_clue a))"

definition evaluate_clue :: "clue_finder \<Rightarrow> clue_interpreter \<Rightarrow> rewinder \<Rightarrow> game \<Rightarrow> clue_action \<Rightarrow> (game \<times> clue_result) option result" where
  "evaluate_clue fnd interp rw g a =
     bindR (h_simulate_clue interp rw g a) (\<lambda>(h, a1).
     bindR (if ca_giver a = our_player (g_state g) then pass_turn rw a1 (turn_count (g_state h)) h else Inr h) (\<lambda>hg.
       if ca_hypothetical a \<and> last_h_move hg = H_None then Inr None
       else
         bindR (result_with_safety fnd interp rw g hg a) (\<lambda>r.
           Inr (if acceptable_clue g hg a r then Some (hg, r) else None))))"

section \<open>Reading a clue\<close>

definition plays_in_finesse :: "game \<Rightarrow> nat \<Rightarrow> nat \<Rightarrow> bool" where
  "plays_in_finesse g giver focus \<longleftrightarrow>
     (let p = g_players g ! giver in
      blind_playing (card_at p focus) \<or>
      list_ex (\<lambda>wc. matches (no_opts\<lparr>o_assume := Some True\<rparr>) (card_at p (wc_focus wc)) (wc_inference wc) \<and>
          played_before True (deck_at (g_state g) focus) (wc_inference wc)) (waiting_connections (common g)))"

definition skips_clue :: "game \<Rightarrow> nat \<Rightarrow> bool \<Rightarrow> bool \<Rightarrow> nat \<Rightarrow> bool" where
  "skips_clue g giver hypothetical stall focus \<longleftrightarrow>
     (let s = g_state g; d = deck_at s focus; us = our_player s in
      (\<not> in_endgame s \<and> plays_in_finesse g giver focus) \<or>
      (\<not> stall \<and> hypothetical \<and> giver \<noteq> us \<and>
        list_ex (\<lambda>ord. let c = card_at (me g) ord in touched c \<and> iset_has (inferred c) d) (our_hand s)) \<or>
      (\<not> in_endgame s \<and> giver = us \<and> list_ex (\<lambda>l. list_ex (actual_matches None d) (l_identities l)) (links (me g))))"

definition illegal_5cm :: "game \<Rightarrow> game \<Rightarrow> nat list \<Rightarrow> bool result" where
  "illegal_5cm g hg hand =
     (let s = g_state g; ci = chop_index (common g) hand in
      bindR (need (find_last (\<lambda>k. let c = deck_at (g_state hg) (hand ! k) in
          int k \<le> ci \<and> newly_clued c \<and> list_ex (\<lambda>cl. clue_kind cl = RankClue \<and> clue_value cl = 5) (clues c)) [0..<length hand])) (\<lambda>k.
        Inr (case basic_identity (deck_at s (hand ! k)) of Some i \<Rightarrow> rank i \<noteq> 5 | None \<Rightarrow> False)))"

definition illegal_save :: "game \<Rightarrow> nat \<Rightarrow> nat list \<Rightarrow> bool \<Rightarrow> nat \<Rightarrow> bool" where
  "illegal_save g giver hand on_chop focus \<longleftrightarrow>
     (let s = g_state g; com = common g; d = deck_at s focus in
      on_chop \<and>
      ((rank d = 2 \<and>
        list_ex (\<lambda>ord. Some ord \<notin> set (map (chop com) (hands s)) \<and> \<not> newly_clued (deck_at s ord))
          (visible_find s (g_players g ! giver) d no_opts [])) \<or>
       list_ex (\<lambda>ord. ord < focus \<and> blind_playing (card_at com ord)) hand))"

definition bad_play :: "game \<Rightarrow> nat list \<Rightarrow> clue_result \<Rightarrow> bool" where
  "bad_play g os r \<longleftrightarrow>
     (let s = g_state g in
      (length (cr_bad_touch r) = length (cr_new_touched r) \<and> cr_bad_touch r \<noteq> []) \<or> \<not> cr_safe r \<or>
      list_ex (\<lambda>f. list_ex (\<lambda>ord. order (snd f) \<noteq> ord \<and> actual_matches None (deck_at s (order (snd f))) (deck_at s ord)) os) (cr_finesses r) \<or>
      (cr_chop_moved r \<noteq> [] \<and> \<not> list_ex (\<lambda>ord. \<not> is_basic_trash s (deck_at s ord)) (cr_chop_moved r)))"

text \<open>Nothing for a clue that is not to be given, and otherwise whether it saves cards and its corrected interpretation.\<close>

definition judge_clue :: "game \<Rightarrow> game \<Rightarrow> nat \<Rightarrow> clue \<Rightarrow> bool \<Rightarrow> nat list \<Rightarrow> clue_result \<Rightarrow> (bool \<times> h_interp option) option result" where
  "judge_clue g hg giver cl on_chop os r =
     (let hand = hands (g_state g) ! clue_target cl; focus = cr_focus r in
      case cr_interp r of
        Cm_5 \<Rightarrow> bindR (illegal_5cm g hg hand) (\<lambda>b. Inr (if b then None else Some (True, None)))
      | Cm_Trash \<Rightarrow> Inr (Some (True, None))
      | H_Save \<Rightarrow> Inr (if illegal_save g giver hand on_chop focus then None else Some (True, None))
      | Cm_Tempo \<Rightarrow>
          Inr (if \<not> cr_safe r then None
            else Some (False, if tr_tempo (valuable_tempo_clue g cl (map snd (cr_playables r)) focus) then None else Some Stall_Fillin))
      | H_Play \<Rightarrow>
          Inr (if bad_play g os r then None
            else Some (False, if cr_playables r \<noteq> [] then None
              else if cr_new_touched r \<noteq> [] \<or> cr_elim r > 0 then Some Stall_Fillin else Some Stall_Burn))
      | Positional_Clue \<Rightarrow>
          Inr (let d = deck_at (g_state g) focus in
            if \<not> cr_safe r then None
            else if cr_playables r \<noteq> [] then Some (False, None)
            else if rank d > hypo_stacks (me hg) ! nat (suit_index d) then None
            else Some (False, Some Stall_Burn))
      | _ \<Rightarrow> Inr (Some (False, None)))"

definition as_reading :: "game \<Rightarrow> clue \<Rightarrow> bool \<Rightarrow> clue_result \<Rightarrow> bool \<times> h_interp option \<Rightarrow> clue_reading" where
  "as_reading hg cl on_chop r j =
     \<lparr>rd_game = hg, rd_chop = on_chop, rd_safe = cr_safe r, rd_result = r,
      rd_interp = (case snd j of Some m \<Rightarrow> m | None \<Rightarrow> cr_interp r),
      rd_new_result = r\<lparr>cr_interp := (case snd j of Some m \<Rightarrow> m | None \<Rightarrow> H_Undefined)\<rparr>,
      rd_save = (if fst j then
          Some \<lparr>sc_clue = cl, sc_game = hg, sc_result = r, sc_playable = cr_playables r \<noteq> [], sc_cm = cr_chop_moved r, sc_safe = cr_safe r\<rparr>
        else None)\<rparr>"

definition clue_of :: "clue \<Rightarrow> base_clue" where
  "clue_of cl = \<lparr>clue_kind = clue_kind cl, clue_value = clue_value cl\<rparr>"

definition get_clue_interp :: "clue_finder \<Rightarrow> clue_interpreter \<Rightarrow> rewinder \<Rightarrow> bool \<Rightarrow> game \<Rightarrow> nat \<Rightarrow> bool \<Rightarrow> clue \<Rightarrow> clue_reading option result" where
  "get_clue_interp fnd interp rw hypothetical g giver stall cl =
     (let s = g_state g; target = clue_target cl; hand = hands s ! target; os = clue_touched s hand cl;
          a = \<lparr>ca_giver = giver, ca_target = target, ca_list = os, ca_clue = clue_of cl,
               ca_mistake = False, ca_lock = False, ca_important = False, ca_hypothetical = hypothetical\<rparr> in
      bindR (h_focus g hand (common g) os giver target cl) (\<lambda>fr.
      bindR (need (fo_focus fr)) (\<lambda>focus.
        if skips_clue g giver hypothetical stall focus then Inr None
        else
          bindR (evaluate_clue fnd interp rw g a) (\<lambda>e.
            case e of
              None \<Rightarrow> Inr None
            | Some (hg, r) \<Rightarrow>
                if clue_kind cl = RankClue \<and> rank (deck_at s focus) \<noteq> clue_value cl \<and> cr_interp r \<noteq> Positional_Clue then Inr None
                else bindR (judge_clue g hg giver cl (fo_chop fr) os r) (\<lambda>j. Inr (map_option (as_reading hg cl (fo_chop fr) r) j))))))"

text \<open>The finder of expected clues: the clue is hypothetical and interpreted without a finder, so that no clue is evaluated
  for it, and its safety is not asked for.\<close>

definition no_finder :: clue_finder where
  "no_finder g giver stall cl = Inr None"

definition h_finder :: "rewinder \<Rightarrow> clue_finder" where
  "h_finder rw = get_clue_interp no_finder (h_clue_with None) rw True"

definition h_clue :: "rewinder \<Rightarrow> clue_action \<Rightarrow> game \<Rightarrow> (game \<times> clue_action) result" where
  "h_clue rw a g = h_clue_with (Some (h_finder rw)) rw a g"

text \<open>The reading of a clue that is really considered, and its safety.\<close>

definition read_option :: "rewinder \<Rightarrow> bool \<Rightarrow> game \<Rightarrow> nat \<Rightarrow> bool \<Rightarrow> clue \<Rightarrow> clue_reading option result" where
  "read_option rw hypothetical g giver stall cl = get_clue_interp (h_finder rw) h_clue rw hypothetical g giver stall cl"

section \<open>The convention\<close>

text \<open>The class \<open>HGroup\<close> of \<open>src/src/conventions/h-group.js\<close>.\<close>

definition h_group :: convention where
  "h_group = h_moves\<lparr>interpret_clue := h_clue\<rparr>"

end
