(* ===== verification/H_Options.thy ===== *)
theory H_Options
  imports H_Finder
begin

text \<open>
  The clues that can be given: \<open>find_clues\<close> and \<open>save_clue_value\<close> of \<open>src/src/conventions/h-group/clue-finder/clue-finder.js\<close>, and the fix clues of
  \<open>clue-finder/fix-clues.js\<close>. Every valid clue of a giver is read and sorted into play clues and the best save clue per player,
  and stall clues by severity. Logging is left out.
\<close>

text \<open>A clue with what it brings; a save clue has more.\<close>

record clue_option =
  co_clue :: clue
  co_result :: clue_result
  co_save :: "save_clue option"

record fix_option = clue_option +
  fx_trash :: bool
  fx_urgent :: bool

definition save_option :: "save_clue \<Rightarrow> clue_option" where
  "save_option sc = \<lparr>co_clue = sc_clue sc, co_result = sc_result sc, co_save = Some sc\<rparr>"

definition plain_option :: "clue \<Rightarrow> clue_result \<Rightarrow> clue_option" where
  "plain_option cl r = \<lparr>co_clue = cl, co_result = r, co_save = None\<rparr>"

definition option_value :: "'a clue_option_scheme \<Rightarrow> rat" where
  "option_value co = find_clue_value (co_result co)"

definition best_option :: "'a clue_option_scheme list \<Rightarrow> 'a clue_option_scheme option" where
  "best_option opts = max_on option_value opts None"

section \<open>The value of a save\<close>

text \<open>Nothing is chop moved: the chop itself is saved. It must not be saved already, nor visible elsewhere.\<close>

definition chop_seen_elsewhere :: "game \<Rightarrow> clue \<Rightarrow> nat \<Rightarrow> bool" where
  "chop_seen_elsewhere g cl ord \<longleftrightarrow>
     (let s = g_state g in
      list_ex (\<lambda>hand. list_ex (\<lambda>o2. o2 \<noteq> ord \<and> actual_matches None (deck_at s o2) (deck_at s ord) \<and>
          \<not> (clue_kind cl = RankClue \<and> clue_value cl = 2 \<and> Some o2 = chop (common g) hand)) hand) (hands s))"

definition direct_save_value :: "game \<Rightarrow> save_clue \<Rightarrow> nat \<Rightarrow> rat" where
  "direct_save_value g sc ord =
     (let s = g_state g; d = deck_at s ord; v = find_clue_value (sc_result sc) in
      if is_saved s (me g) d (int ord) infer_opts False \<or> chop_seen_elsewhere g (sc_clue sc) ord then -10
      else if \<not> sc_safe sc then 1 / 100
      else if is_critical s (raw d) then max v (1 / 10) else v)"

definition saved_trash :: "game_state \<Rightarrow> nat list \<Rightarrow> nat list" where
  "saved_trash s cm =
     filter (\<lambda>ord. let d = deck_at s ord in
         is_basic_trash s d \<or>
         list_ex (\<lambda>o2. actual_matches None (deck_at s o2) d \<and> o2 \<noteq> ord) (all_orders s) \<or>
         list_ex (\<lambda>o2. actual_matches None d (deck_at s o2) \<and> ord > o2) cm) cm"

definition moved_directly :: "game \<Rightarrow> game \<Rightarrow> nat list \<Rightarrow> nat list \<Rightarrow> 'a clue_option_scheme list \<Rightarrow> bool" where
  "moved_directly g hg cm junk opts \<longleftrightarrow>
     last_h_move hg = Cm_Trash \<and>
     list_ex (\<lambda>co. list_all (\<lambda>ord. (ord \<in> set junk \<or> card_touched (deck_at (g_state g) ord) (variant (g_state g)) (co_clue co)) \<and>
       cr_bad_touch (co_result co) = []) cm) opts"

definition chop_move_value :: "game \<Rightarrow> game \<Rightarrow> save_clue \<Rightarrow> 'a clue_option_scheme list \<Rightarrow> nat \<Rightarrow> rat" where
  "chop_move_value g hg sc opts ord =
     (let s = g_state g; target = clue_target (sc_clue sc); cm = cr_chop_moved (sc_result sc); junk = saved_trash s cm; d = deck_at s ord;
          next_value = (case chop (common hg) (hands (g_state hg) ! target) of
              Some o2 \<Rightarrow> card_value s (me g) (deck_at s o2) (-1) | None \<Rightarrow> 4) in
      if moved_directly g hg cm junk opts then -10
      else if is_trash s (me g) d (int ord) infer_opts False \<or> list_ex (\<lambda>o2. actual_duplicate_of (deck_at s o2) d) cm then -10
      else if length junk > min 1 (length cm - length junk) then -10
      else if thinks_trash (g_players hg ! target) (g_state hg) target = [] \<and> next_value > card_value s (me g) d (-1) then -10
      else if \<not> sc_safe sc then 1 / 100
      else find_clue_value (sc_result sc) + sum_list (map (\<lambda>o2. card_value s (common hg) (deck_at s o2) (int o2)) cm) / 10
        - of_nat (length junk) / 2)"

text \<open>(The chop of the target is read before it is known to exist.)\<close>

definition save_clue_value :: "game \<Rightarrow> game option \<Rightarrow> save_clue \<Rightarrow> 'a clue_option_scheme list \<Rightarrow> rat result" where
  "save_clue_value g hg sc opts =
     bindR (need (chop (common g) (hands (g_state g) ! clue_target (sc_clue sc)))) (\<lambda>ord.
       if cr_chop_moved (sc_result sc) = [] then Inr (direct_save_value g sc ord)
       else bindR (need hg) (\<lambda>h. Inr (chop_move_value g h sc opts ord)))"

section \<open>Finding clues\<close>

record found_clues =
  fc_plays :: "clue_option list list"
  fc_saves :: "clue_option option list"
  fc_stalls :: "clue_option list list"

text \<open>Where the reading of a clue goes: to the saves, the plays or the stalls of its severity.\<close>

record sorting =
  so_plays :: "clue_option list"
  so_saves :: "save_clue list"
  so_stalls :: "clue_option list list"

definition add_at :: "nat \<Rightarrow> 'a \<Rightarrow> 'a list list \<Rightarrow> 'a list list" where
  "add_at k x xss = xss[k := xss ! k @ [x]]"

definition sort_clue :: "clue \<Rightarrow> clue_reading \<Rightarrow> sorting \<Rightarrow> sorting" where
  "sort_clue cl rd so =
     (let co = plain_option cl (rd_new_result rd); m = rd_interp rd in
      if m = H_Save \<or> m = Cm_5 \<or> m = Cm_Trash then (case rd_save rd of Some sc \<Rightarrow> so\<lparr>so_saves := so_saves so @ [sc]\<rparr> | None \<Rightarrow> so)
      else if m = H_Play \<or> m = Distribution \<or> m = Positional_Clue then so\<lparr>so_plays := so_plays so @ [co]\<rparr>
      else
        case (if m = H_None then Some 5 else stall_index m) of
          Some k \<Rightarrow> so\<lparr>so_stalls := add_at k co (so_stalls so)\<rparr>
        | None \<Rightarrow> so)"

definition sort_clues :: "(clue \<Rightarrow> clue_reading option result) \<Rightarrow> clue list \<Rightarrow> sorting \<Rightarrow> sorting result" where
  "sort_clues readf cls so =
     foldR (\<lambda>so1 cl. bindR (readf cl) (\<lambda>r. Inr (case r of Some rd \<Rightarrow> sort_clue cl rd so1 | None \<Rightarrow> so1))) so cls"

text \<open>The best save clue: the first of the greatest value above -9.\<close>

definition best_save :: "game \<Rightarrow> sorting \<Rightarrow> clue_option option result" where
  "best_save g so =
     bindR (mapR (\<lambda>sc. bindR (save_clue_value g (Some (sc_game sc)) sc (map save_option (so_saves so) @ so_plays so)) (\<lambda>v. Inr (v, sc)))
         (so_saves so)) (\<lambda>vs.
       Inr (map_option (\<lambda>p. save_option (snd p)) (max_on fst vs (Some (-9)))))"

definition find_for_target :: "(clue \<Rightarrow> clue_reading option result) \<Rightarrow> game \<Rightarrow> nat \<Rightarrow> found_clues \<Rightarrow> nat \<Rightarrow> found_clues result" where
  "find_for_target readf g giver fc target =
     (if target = giver then Inr fc
      else
        bindR (sort_clues readf (all_valid_clues (g_state g) target) \<lparr>so_plays = [], so_saves = [], so_stalls = fc_stalls fc\<rparr>) (\<lambda>so.
        bindR (best_save g so) (\<lambda>sv.
          Inr \<lparr>fc_plays = (fc_plays fc)[target := so_plays so], fc_saves = (fc_saves fc)[target := sv], fc_stalls = so_stalls so\<rparr>)))"

text \<open>Of several 5 stalls, those closest to the chop.\<close>

definition stall_distance :: "game \<Rightarrow> 'a clue_option_scheme \<Rightarrow> int result" where
  "stall_distance g co =
     (let s = g_state g; hand = hands s ! clue_target (co_clue co); ci = chop_index (common g) hand in
      case find_last (\<lambda>k. let d = deck_at s (hand ! k) in int k < ci \<and> rank d = 5 \<and> \<not> clued d) [0..<length hand] of
        Some k \<Rightarrow> chop_distance (common g) hand (hand ! k)
      | None \<Rightarrow> Inl (Thrown ''distance to chop was negative''))"

definition closest_5_stalls :: "game \<Rightarrow> clue_option list \<Rightarrow> clue_option list result" where
  "closest_5_stalls g opts =
     bindR (mapR (\<lambda>co. bindR (stall_distance g co) (\<lambda>d. Inr (d, co))) opts) (\<lambda>ds.
       Inr (map snd (filter (\<lambda>p. fst p = Min (set (map fst ds))) ds)))"

text \<open>How much better the next discard is after a clue than after the best one. The order 0 counts as no discard.\<close>

definition discard_value :: "game \<Rightarrow> 'a clue_option_scheme \<Rightarrow> rat" where
  "discard_value g co =
     (case cr_discard (co_result co) of
        Some (Suc n) \<Rightarrow> card_value (g_state g) (me g) (deck_at (g_state g) (Suc n)) (int (Suc n))
      | _ \<Rightarrow> 0)"

definition all_found :: "found_clues \<Rightarrow> clue_option list" where
  "all_found fc = concat (map (\<lambda>o1. case o1 of Some co \<Rightarrow> [co] | None \<Rightarrow> []) (fc_saves fc)) @ concat (fc_plays fc) @ concat (fc_stalls fc)"

definition with_remainder :: "game \<Rightarrow> rat \<Rightarrow> clue_option \<Rightarrow> clue_option" where
  "with_remainder g best co = co\<lparr>co_result := (co_result co)\<lparr>cr_remainder := discard_value g co - best\<rparr>\<rparr>"

definition with_remainders :: "game \<Rightarrow> found_clues \<Rightarrow> found_clues" where
  "with_remainders g fc =
     (case all_found fc of
        [] \<Rightarrow> fc
      | opts \<Rightarrow>
          let f = with_remainder g (Min (set (map (discard_value g) opts))) in
          \<lparr>fc_plays = map (map f) (fc_plays fc), fc_saves = map (map_option f) (fc_saves fc), fc_stalls = map (map f) (fc_stalls fc)\<rparr>)"

definition h_find_clues :: "rewinder \<Rightarrow> game \<Rightarrow> nat \<Rightarrow> found_clues result" where
  "h_find_clues rw g giver =
     (let s = g_state g; us = our_player s; n = num_players s in
      bindR (foldR (find_for_target (read_option rw (giver \<noteq> us) g giver False) g giver)
          \<lparr>fc_plays = replicate n [], fc_saves = replicate n None, fc_stalls = replicate 7 []\<rparr> [0..<n]) (\<lambda>fc.
      bindR (if giver = us \<and> level (own g) \<ge> level_stalling \<and> length (fc_stalls fc ! 0) > 1
             then closest_5_stalls g (fc_stalls fc ! 0) else Inr (fc_stalls fc ! 0)) (\<lambda>fives.
        Inr (with_remainders g (fc\<lparr>fc_stalls := (fc_stalls fc)[0 := fives]\<rparr>)))))"

section \<open>Fix clues\<close>

text \<open>When a card counts as fixed.\<close>

definition inference_corrected :: "game \<Rightarrow> nat \<Rightarrow> bool" where
  "inference_corrected g ord \<longleftrightarrow>
     (let s = g_state g; c = card_at (common g) ord; poss = iset_array (possible c) in
      if is_basic_trash s (deck_at s ord) then list_all (is_basic_trash s) poss \<or> trash c
      else if known_as (common g) s ord pinkish
      then list_all (\<lambda>i. \<not> is_playable s i) (iset_array (inferred c)) \<and> has_consistent_inferences s c
      else list_all (\<lambda>i. \<not> is_playable s i) poss)"

definition duplication_known :: "game \<Rightarrow> nat \<Rightarrow> bool" where
  "duplication_known g ord \<longleftrightarrow>
     (let s = g_state g in
      iset_length (possible (card_at (common g) ord)) = 1 \<and> is_saved s (common g) (deck_at s ord) (int ord) no_opts False)"

definition check_fixed :: "rewinder \<Rightarrow> game \<Rightarrow> (game \<Rightarrow> nat \<Rightarrow> bool) \<Rightarrow> nat \<Rightarrow> clue \<Rightarrow> (bool \<times> bool \<times> clue_result) result" where
  "check_fixed rw g fixed ord cl =
     (let s = g_state g;
          a = \<lparr>ca_giver = our_player s, ca_target = clue_target cl, ca_list = clue_touched s (hands s ! clue_target cl) cl,
               ca_clue = clue_of cl, ca_mistake = False, ca_lock = False, ca_important = False, ca_hypothetical = False\<rparr> in
      bindR (h_simulate_clue h_clue rw g a) (\<lambda>(hg, a1).
      bindR (result_with_safety (h_finder rw) h_clue rw g hg a1) (\<lambda>r.
        Inr (fixed hg ord,
          list_all (\<lambda>i. is_trash (g_state hg) (common hg) i (int ord) infer_opts False) (iset_array (possible (card_at (common hg) ord))), r))))"

definition seems_playable :: "game \<Rightarrow> nat \<Rightarrow> bool" where
  "seems_playable g ord \<longleftrightarrow>
     (let s = g_state g in
      list_all (\<lambda>i. playable_away s i = 0 \<or>
          (playable_away s i = 1 \<and>
           list_ex (\<lambda>o2. matches infer_opts (card_at (me g) o2) (mk_id (suit_index i) (rank i - 1))) (our_hand s)))
        (iset_array (inferred (card_at (me g) ord))))"

text \<open>A clue that fixes is worth giving if it touches nothing bad, or if a needed card would be lost.\<close>

definition try_fix :: "rewinder \<Rightarrow> game \<Rightarrow> (game \<Rightarrow> nat \<Rightarrow> bool) \<Rightarrow> nat \<Rightarrow> clue \<Rightarrow> fix_option list \<Rightarrow> fix_option list result" where
  "try_fix rw g fixed ord cl found =
     (let s = g_state g; seems = seems_playable g ord in
      bindR (check_fixed rw g fixed ord cl) (\<lambda>(b, tr, r).
        Inr (if b \<and> (cr_bad_touch r = [] \<or> ((strikes s = 2 \<or> is_critical s (raw (card_at (me g) ord))) \<and> seems))
          then found @ [\<lparr>co_clue = cl, co_result = r, co_save = None, fx_trash = tr, fx_urgent = seems\<rparr>] else found)))"

text \<open>Unknown 1s in a pink variant are left alone unless the first of them is not playable.\<close>

definition pink_ones :: "game \<Rightarrow> nat \<Rightarrow> nat \<Rightarrow> bool" where
  "pink_ones g target ord \<longleftrightarrow>
     (let s = g_state g in
      includes_variant s pinkish \<and>
      (case order_1s s (common g) (filter (\<lambda>o2. unknown_1 (deck_at s o2) False) (hands s ! target)) True of
         [] \<Rightarrow> False
       | o1 # _ \<Rightarrow> is_playable s (raw (deck_at s o1)) \<or> ord \<noteq> o1))"

definition fix_unneeded :: "game \<Rightarrow> nat \<Rightarrow> nat \<Rightarrow> bool" where
  "fix_unneeded g target ord \<longleftrightarrow>
     (let s = g_state g; c = card_at (me g) ord in
      iset_length (possible c) = 1 \<or> list_all (is_basic_trash s) (iset_array (possible c)) \<or> status c = Some CM \<or>
      list_ex wc_symmetric (dependent_connections (common g) ord) \<or> iset_length (inferred c) = 0 \<or> pink_ones g target ord \<or>
      list_ex (\<lambda>o2. matches infer_opts (card_at (me g) o2) c) (our_hand s))"

text \<open>The other copy of a duplicated card, unless it is part of a finesse that has not been played yet.\<close>

definition awaits_duplicate :: "game \<Rightarrow> nat \<Rightarrow> bool" where
  "awaits_duplicate g dup \<longleftrightarrow>
     (case List.find (\<lambda>wc. list_ex (\<lambda>c. conn_order c = dup) (wc_connections wc)) (waiting_connections (common g)) of
        None \<Rightarrow> False
      | Some wc \<Rightarrow> wc_conn_index wc \<le> length (takeWhile (\<lambda>c. conn_order c \<noteq> dup) (wc_connections wc)))"

record fix_search =
  fs_found :: "fix_option list"
  fs_duplicated :: "nat list"

text \<open>The fix criterion of a card, with whether it is recorded as duplicated.\<close>

definition fix_criterion :: "game \<Rightarrow> nat list \<Rightarrow> nat \<Rightarrow> ((game \<Rightarrow> nat \<Rightarrow> bool) \<times> bool) option" where
  "fix_criterion g dups ord =
     (let s = g_state g; c = card_at (me g) ord in
      if \<not> has_consistent_inferences s c \<and> playable_away s c \<noteq> 0 then Some (inference_corrected, False)
      else
        case List.find (\<lambda>o2. o2 \<noteq> ord \<and> touched (card_at (common g) o2)) (visible_find s (me g) c no_opts []) of
          None \<Rightarrow> None
        | Some dup \<Rightarrow>
            if clued c \<and> iset_length (inferred c) > 1 \<and> \<not> list_ex (\<lambda>o2. matches no_opts (card_at (me g) o2) c) dups \<and>
              \<not> awaits_duplicate g dup
            then Some (duplication_known, True) else None)"

definition fix_card :: "rewinder \<Rightarrow> game \<Rightarrow> found_clues \<Rightarrow> nat \<Rightarrow> fix_search \<Rightarrow> nat \<Rightarrow> fix_search result" where
  "fix_card rw g fc target fs ord =
     (let s = g_state g; c = card_at (me g) ord in
      if fix_unneeded g target ord then Inr fs
      else
        case fix_criterion g (fs_duplicated fs) ord of
          None \<Rightarrow> Inr fs
        | Some (fixed, dup) \<Rightarrow>
            let others = filter (\<lambda>cl. \<not> card_touched c (variant s) cl)
              (map co_clue (fc_plays fc ! target @ (case fc_saves fc ! target of Some co \<Rightarrow> [co] | None \<Rightarrow> []))) in
            bindR (foldR (\<lambda>found cl. try_fix rw g fixed ord cl found) (fs_found fs)
                (others @ direct_clues (variant s) target c \<lparr>exclude_colour = False, exclude_rank = False\<rparr>)) (\<lambda>found.
              Inr \<lparr>fs_found = found, fs_duplicated = fs_duplicated fs @ (if dup then [ord] else [])\<rparr>))"

definition find_fix_clues :: "rewinder \<Rightarrow> game \<Rightarrow> found_clues \<Rightarrow> fix_option list list result" where
  "find_fix_clues rw g fc =
     (let s = g_state g; n = num_players s in
      if level (own g) < level_fix then Inr (replicate n [])
      else
        bindR (foldR (\<lambda>(fixes, dups) k.
            let target = (our_player s + k) mod n in
            bindR (foldR (fix_card rw g fc target) \<lparr>fs_found = [], fs_duplicated = dups\<rparr> (hands s ! target)) (\<lambda>fs.
              Inr (fixes[target := fs_found fs], fs_duplicated fs))) (replicate n [], []) [1..<n]) (\<lambda>(fixes, _).
          Inr fixes))"

end
