(* ===== verification/H_Urgent.thy ===== *)
theory H_Urgent
  imports H_Options
begin

text \<open>
  \<open>src/src/conventions/h-group/urgent-actions.js\<close>: what the other players need from us, by priority. The buckets are those of
  \<open>ACTION_PRIORITY\<close> for the next player (0 to 4) and for the others (5 to 9), and early saves (10). Logging is left out.
\<close>

abbreviation priority_size :: nat where "priority_size \<equiv> 5"

section \<open>Unlocking\<close>

definition anxiety_targetable :: "game \<Rightarrow> nat \<Rightarrow> nat \<Rightarrow> bool" where
  "anxiety_targetable g target ord \<longleftrightarrow>
     (let s = g_state g in
      level (own g) \<ge> level_stalling \<and> locked_by h_playables (common g) s target False \<and> clue_tokens s = 0 \<and>
      anxiety_play (g_players g ! target) s (hands s ! target) = Some ord)"

text \<open>The card of ours that makes a card of the target playable; among unknown 1s the first that is played.\<close>

definition our_connecting :: "game \<Rightarrow> basic_card \<Rightarrow> nat list" where
  "our_connecting g i =
     filter (\<lambda>o2. matches infer_opts (card_at (me g) o2) (mk_id (suit_index i) (rank i - 1))) (our_hand (g_state g))"

definition unlocks :: "game \<Rightarrow> nat \<Rightarrow> nat \<Rightarrow> nat option" where
  "unlocks g target ord =
     (let s = g_state g; i = raw (deck_at s ord) in
      if playable_away s i \<noteq> 1 then None
      else
        case our_connecting g i of
          [] \<Rightarrow> None
        | o2 # os \<Rightarrow>
            if list_all (\<lambda>j. is_playable s j \<or> basic_matches j i) (iset_array (inferred (card_at (g_players g ! target) ord))) \<or>
              anxiety_targetable g target ord
            then
              (case (if unknown_1 (deck_at s o2) False then order_1s s (common g) (o2 # os) False else []) of
                 o1 # _ \<Rightarrow> Some o1 | [] \<Rightarrow> Some o2)
            else None)"

definition h_find_unlock :: "game \<Rightarrow> nat \<Rightarrow> nat option" where
  "h_find_unlock g target = first_some (unlocks g target) (hands (g_state g) ! target)"

section \<open>Plays instead of saves\<close>

text \<open>How far a suit is played before it is the turn of the target.\<close>

definition play_reaches :: "game \<Rightarrow> (int \<times> card) list \<Rightarrow> nat \<Rightarrow> card \<Rightarrow> bool" where
  "play_reaches g plays target c \<longleftrightarrow>
     (let s = g_state g; d = deck_at s (order c);
          turns = takeWhile (\<lambda>pl. pl \<noteq> target) (map (\<lambda>k. (our_player s + k) mod num_players s) [1..<num_players s + 1]);
          top_rank = fold (\<lambda>pl top_r. let i = mk_id (suit_index d) (top_r + 1) in
            if list_ex (\<lambda>f. fst f = int pl \<and> matches no_opts (snd f) i) plays \<or>
              list_ex (\<lambda>ord. actual_matches None (deck_at s ord) i) (h_playables (common g) s pl default_think)
            then top_r + 1 else top_r) turns (play_stacks s ! nat (suit_index d)) in
      top_rank + 1 = rank d)"

definition saves_all :: "game \<Rightarrow> clue \<Rightarrow> save_clue \<Rightarrow> bool result" where
  "saves_all g cl sc =
     (let s = g_state g in
      if sc_cm sc \<noteq> [] then Inr (list_all (\<lambda>ord. card_touched (deck_at s ord) (variant s) cl) (sc_cm sc))
      else bindR (need (chop (common g) (hands s ! clue_target cl))) (\<lambda>ord. Inr (card_touched (deck_at s ord) (variant s) cl)))"

definition plays_over_save :: "game \<Rightarrow> nat \<Rightarrow> save_clue option \<Rightarrow> clue_option \<Rightarrow> bool result" where
  "plays_over_save g target save co =
     (let s = g_state g; r = co_result co; cl = co_clue co;
          mine = map snd (filter (\<lambda>f. fst f = int target) (cr_playables r)) in
      if \<not> cr_safe r then Inr False
      else
        bindR (case save of Some sc \<Rightarrow> if clue_target cl = target then saves_all g cl sc else Inr False | None \<Rightarrow> Inr False) (\<lambda>all_saved.
          Inr (all_saved \<or>
            (find_clue_value r \<ge> (if save = None then 0 else 1) \<and>
             list_ex (\<lambda>c. (is_playable s (raw (deck_at s (order c))) \<and> list_all (is_playable s) (iset_array (inferred c))) \<or>
                 play_reaches g (cr_playables r) target c) mine))))"

definition find_play_over_save :: "game \<Rightarrow> nat \<Rightarrow> clue_option list \<Rightarrow> save_clue option \<Rightarrow> clue_option list result" where
  "find_play_over_save g target opts save =
     bindR (mapR (\<lambda>co. bindR (plays_over_save g target save co) (\<lambda>b. Inr (b, co))) opts) (\<lambda>bs. Inr (map snd (filter fst bs)))"

section \<open>Gentleman's discards\<close>

text \<open>The finesse positions of the target in turn, as long as their cards are playable.\<close>

lemma h_finesse_in: "h_finesse p s pl used [] = Some ord \<Longrightarrow> ord \<in> set (hands s ! pl) \<and> ord \<notin> set used"
  by (auto simp: h_finesse_def unless_ignored_def dest: find_SomeD split: option.splits)

lemma unused_shrink:
  "ord \<in> set hand \<Longrightarrow> ord \<notin> set used \<Longrightarrow> card (set hand - set (used @ [ord])) < card (set hand - set used)"
  by (rule psubset_card_mono) auto

function gd_from :: "game \<Rightarrow> nat \<Rightarrow> nat list \<Rightarrow> nat list \<Rightarrow> nat option" where
  "gd_from g target plays used =
     (let s = g_state g in
      case h_finesse (common g) s target used [] of
        None \<Rightarrow> None
      | Some ord \<Rightarrow>
          let d = deck_at s ord in
          if \<not> is_playable s (raw d) then None
          else
            case List.find (\<lambda>o2. matches infer_opts (card_at (me g) o2) d) plays of
              Some o2 \<Rightarrow>
                if list_all (\<lambda>o3. is_playable s (raw (deck_at s o3))) (find_sarcastics s target (common g) (raw d)) then Some o2
                else gd_from g target plays (used @ [ord])
            | None \<Rightarrow> gd_from g target plays (used @ [ord]))"
  by pat_completeness auto

termination
  by (relation "measure (\<lambda>(g, target, plays, used). card (set (hands (g_state g) ! target) - set used))")
    (auto dest!: h_finesse_in intro: unused_shrink [simplified])

declare gd_from.simps [simp del]

definition find_gd :: "game \<Rightarrow> nat \<Rightarrow> nat option" where
  "find_gd g target =
     (let s = g_state g in
      gd_from g target (filter (\<lambda>ord. \<not> uncertain (card_at (common g) ord)) (h_playables (common g) s (our_player s) default_think)) [])"

section \<open>Saves\<close>

datatype need_of = Act perform | Give clue_option

type_synonym urgent_need = "nat \<times> need_of"

definition save_of :: "clue_option \<Rightarrow> save_clue option" where
  "save_of co = map_option (\<lambda>sc. sc\<lparr>sc_result := co_result co\<rparr>) (co_save co)"

definition trash_fixes :: "fix_option list \<Rightarrow> clue_option option" where
  "trash_fixes fixes = best_option (map clue_option.truncate (filter fx_trash fixes))"

text \<open>An order chop move of the chop of the target, if what is on chop next is not worth more.\<close>

definition worth_moving :: "game \<Rightarrow> nat \<Rightarrow> bool result" where
  "worth_moving g target =
     (let s = g_state g; m = me g in
      bindR (need (chop m (hands s ! target))) (\<lambda>ord.
        let old = card_value s m (deck_at s ord) (-1) in
        Inr (old > 0 \<and> old \<ge> chop_value (simulate_cm m [ord]) s target None)))"

definition try_ocm :: "game \<Rightarrow> nat \<Rightarrow> bool \<Rightarrow> nat list \<Rightarrow> nat option result" where
  "try_ocm g target allowed os =
     (let s = g_state g; k = (target + num_players s - our_player s) mod num_players s in
      if allowed \<and> length os > k then bindR (worth_moving g target) (\<lambda>b. Inr (if b then Some (os ! k) else None)) else Inr None)"

definition scream_available :: "game \<Rightarrow> nat \<Rightarrow> bool \<Rightarrow> bool" where
  "scream_available g target finessed \<longleftrightarrow>
     (let s = g_state g; us = our_player s; lv = level (own g) in
      \<not> finessed \<and> \<not> in_endgame s \<and> lv \<ge> level_last_resorts \<and>
      (h_playables (common g) s us default_think \<noteq> [] \<or> (lv \<ge> level_trash_moves \<and> thinks_trash (common g) s us \<noteq> [])) \<and>
      target = next_player s us \<and> \<not> loaded_by h_playables (me g) s target default_think)"

definition worth_screaming :: "game \<Rightarrow> nat \<Rightarrow> nat \<Rightarrow> bool" where
  "worth_screaming g target ord \<longleftrightarrow>
     (let s = g_state g; d = deck_at s ord; critical = is_critical s (raw d); tokens = clue_tokens s in
      (critical \<or> hypo_stacks (me g) ! nat (suit_index d) + 1 = rank d) \<and>
      (tokens = 0 \<or> (tokens = 1 \<and> locked_by h_playables (simulate_cm (g_players g ! target) [ord]) s target False \<and> critical)))"

text \<open>A scream or, with a playable card at low levels, a discard of known trash.\<close>

definition try_scream :: "game \<Rightarrow> nat \<Rightarrow> bool \<Rightarrow> nat option result" where
  "try_scream g target finessed =
     (let s = g_state g; us = our_player s;
          junk = filter (\<lambda>ord. clued (deck_at s ord) \<and> list_all (is_basic_trash s) (iset_array (inferred (card_at (me g) ord))))
            (thinks_trash (me g) s us) in
      if \<not> scream_available g target finessed then Inr None
      else if h_playables (common g) s us default_think \<noteq> [] \<and> level (own g) < level_trash_moves \<and> junk \<noteq> [] then Inr (Some (hd junk))
      else
        bindR (need (chop (g_players g ! target) (hands s ! target))) (\<lambda>ord.
          Inr (if worth_screaming g target ord then chop (common g) (our_hand s) else None)))"

definition tempo_move_value :: "game \<Rightarrow> clue_option \<Rightarrow> rat result" where
  "tempo_move_value g co =
     (let s = g_state g; cl = co_clue co; r = co_result co;
          t = valuable_tempo_clue g cl (map snd (cr_playables r)) (cr_focus r) in
      if tr_tempo t \<and> \<not> tr_valuable t \<and> cr_safe r then
        bindR (need (chop (common g) (hands s ! clue_target cl))) (\<lambda>ord.
          Inr (if \<not> is_playable s (raw (deck_at s ord)) then find_clue_value r else -1))
      else Inr (-1))"

definition best_by_result :: "(clue_option \<Rightarrow> rat result) \<Rightarrow> clue_option list \<Rightarrow> rat option \<Rightarrow> clue_option option result" where
  "best_by_result f opts bound =
     bindR (mapR (\<lambda>co. bindR (f co) (\<lambda>v. Inr (v, co))) opts) (\<lambda>vs. Inr (map_option snd (max_on fst vs bound)))"

definition try_tempo_move :: "game \<Rightarrow> save_clue \<Rightarrow> clue_option list \<Rightarrow> clue_option option result" where
  "try_tempo_move g sc tempos =
     (let s = g_state g; target = clue_target (sc_clue sc) in
      if level (own g) \<ge> level_tempo \<and> num_players s > 2 \<and> (\<not> sc_playable sc \<or> clue_tokens s = 1)
      then best_by_result (tempo_move_value g) (filter (\<lambda>co. clue_target (co_clue co) = target) tempos) (Some 0)
      else Inr None)"

text \<open>The target is worse off with the save.\<close>

definition bad_save :: "game \<Rightarrow> game \<Rightarrow> nat \<Rightarrow> bool result" where
  "bad_save g hg target =
     (let s = g_state g; hs = g_state hg; now = chop_value (me g) s target None in
      if locked_by h_playables (me hg) hs target False then
        bindR (need (locked_discard (common hg) hs (hands hs ! target))) (\<lambda>ord.
          Inr (now < card_value s (me hg) (deck_at s ord) (-1)))
      else Inr (now < chop_value (me hg) hs target None))"

text \<open>After the save another card on chop needs a save.\<close>

definition only_save :: "game \<Rightarrow> game \<Rightarrow> save_clue \<Rightarrow> nat \<Rightarrow> bool" where
  "only_save g hg sc cluers \<longleftrightarrow>
     (let s = g_state g; hs = g_state hg; target = clue_target (sc_clue sc) in
      cr_interp (sc_result sc) \<noteq> Cm_Trash \<and> \<not> locked_by h_playables (me hg) hs target False \<and>
      (case chop (me hg) (hands hs ! target) of
         Some ord \<Rightarrow> is_critical s (raw (deck_at s ord)) \<or> save2 s (me hg) (deck_at s ord)
       | None \<Rightarrow> False) \<and>
      cluers > 0 \<and> clue_tokens s > 1)"

text \<open>The save is simulated: it may reveal a play, and then competes with the play clues.\<close>

definition simulated_save :: "rewinder \<Rightarrow> game \<Rightarrow> save_clue \<Rightarrow> nat \<Rightarrow> nat \<Rightarrow> bool \<Rightarrow> clue_option list \<Rightarrow> urgent_need option result" where
  "simulated_save rw g sc base cluers early plays =
     (let s = g_state g; us = our_player s; target = clue_target (sc_clue sc); giving = Give (save_option sc);
          a = \<lparr>ca_giver = us, ca_target = target, ca_list = clue_touched s (hands s ! target) (sc_clue sc), ca_clue = clue_of (sc_clue sc),
               ca_mistake = False, ca_lock = False, ca_important = False, ca_hypothetical = False\<rparr> in
      bindR (h_simulate_clue h_clue rw g a) (\<lambda>(hg, a1).
      bindR (if h_playables (common g) s target default_think = [] \<and> h_playables (common hg) (g_state hg) target default_think \<noteq> []
             then bindR (result_with_safety (h_finder rw) h_clue rw g hg a1) (\<lambda>r. Inr (plays @ [(save_option sc)\<lparr>co_result := r\<rparr>]))
             else Inr plays) (\<lambda>all_plays.
      bindR (find_play_over_save g target all_plays (Some sc)) (\<lambda>overs.
        case best_option overs of
          Some co \<Rightarrow> Inr (Some (4 + base, Give co))
        | None \<Rightarrow>
            bindR (bad_save g hg target) (\<lambda>bad.
              Inr (if clue_tokens s = 1 \<and> sc_cm sc = [] \<and> bad then None
                else if only_save g hg sc cluers then Some (1 + (if \<not> early \<and> cluers = 1 then 0 else priority_size), giving)
                else if \<not> sc_safe sc then None
                else Some (1 + base, giving)))))))"

definition save_with_clue :: "rewinder \<Rightarrow> game \<Rightarrow> save_clue \<Rightarrow> nat \<Rightarrow> nat \<Rightarrow> bool \<Rightarrow> found_clues \<Rightarrow> urgent_need option result" where
  "save_with_clue rw g sc base cluers early fc =
     (if clue_tokens (g_state g) = 0 then Inr None
      else
        bindR (try_tempo_move g sc (fc_stalls fc ! 1)) (\<lambda>tccm.
          case tccm of
            Some co \<Rightarrow> Inr (Some (4 + base, Give co))
          | None \<Rightarrow> simulated_save rw g sc base cluers early (concat (fc_plays fc))))"

text \<open>The ways to save, in the order of the code: the first that is found.\<close>

definition else_try :: "'a option result \<Rightarrow> 'a option result \<Rightarrow> 'a option result" where
  "else_try m k = bindR m (\<lambda>x. case x of Some y \<Rightarrow> Inr (Some y) | None \<Rightarrow> k)"

definition urgent_act :: "nat \<Rightarrow> (int \<Rightarrow> perform) \<Rightarrow> nat option \<Rightarrow> urgent_need option" where
  "urgent_act k act = map_option (\<lambda>ord. (k, Act (act (int ord))))"

definition save_urgency :: "rewinder \<Rightarrow> game \<Rightarrow> save_clue \<Rightarrow> nat \<Rightarrow> nat \<Rightarrow> bool \<Rightarrow> found_clues \<Rightarrow> fix_option list list \<Rightarrow> nat list list \<Rightarrow>
    nat option \<Rightarrow> urgent_need option result" where
  "save_urgency rw g sc base cluers early fc fixes priorities finessed =
     (let s = g_state g; com = common g; target = clue_target (sc_clue sc); lv = level (own g); free = (finessed = None);
          unlock = h_find_unlock g target;
          fix_clue = (if clue_tokens s > 0 \<and> free then trash_fixes (fixes ! target) else None) in
      if loaded_by h_playables com s target no_assume then Inr (Some (2 * priority_size, Give (save_option sc)))
      else
        else_try (Inr (urgent_act base P_Play (if free \<or> finessed = unlock then unlock else None))) (
        else_try (Inr (urgent_act base P_Discard (if \<not> in_endgame s \<and> lv \<ge> level_special then find_gd g target else None))) (
        else_try (Inr (map_option (\<lambda>co. (2 + base, Give co)) fix_clue)) (
        else_try (bindR (try_ocm g target (free \<and> lv \<ge> level_basic_cm \<and> \<not> sc_playable sc) (order_1s s com (priorities ! 4) False))
          (\<lambda>x. Inr (urgent_act (1 + base) P_Play x))) (
        else_try (bindR (try_ocm g target (lv \<ge> level_trash_moves) (order_trash g (our_player s)))
          (\<lambda>x. Inr (urgent_act (1 + base) P_Discard x))) (
        else_try (bindR (try_scream g target (\<not> free)) (\<lambda>x. Inr (urgent_act (4 + base) P_Discard x)))
          (save_with_clue rw g sc base cluers early fc)))))))"

section \<open>Urgent actions\<close>

record urgency =
  ur_actions :: "perform list list"
  ur_clues :: "clue_option list list"

definition do_urgent :: "nat \<Rightarrow> perform \<Rightarrow> urgency \<Rightarrow> urgency" where
  "do_urgent k act u = u\<lparr>ur_actions := add_at k act (ur_actions u)\<rparr>"

definition give_urgent :: "nat \<Rightarrow> clue_option \<Rightarrow> urgency \<Rightarrow> urgency" where
  "give_urgent k co u = u\<lparr>ur_clues := add_at k co (ur_clues u)\<rparr>"

definition record_need :: "urgent_need \<Rightarrow> urgency \<Rightarrow> urgency" where
  "record_need n u = (case snd n of Act act \<Rightarrow> do_urgent (fst n) act u | Give co \<Rightarrow> give_urgent (fst n) co u)"

text \<open>A play of ours that makes a card of the target playable, which he will then play from anxiety.\<close>

definition anxiety_unlock :: "game \<Rightarrow> nat \<Rightarrow> nat list \<Rightarrow> nat option" where
  "anxiety_unlock g target os =
     (let s = g_state g in
      List.find (\<lambda>o2.
        case identity infer_opts (card_at (me g) o2) of
          None \<Rightarrow> False
        | Some i \<Rightarrow>
            let stacks = (play_stacks s)[nat (suit_index i) := rank i] in
            list_ex (\<lambda>ord. let d = deck_at s ord in stacks ! nat (suit_index d) + 1 = rank d \<and> anxiety_targetable g target ord)
              (hands s ! target)) os)"

text \<open>What is done for a locked target; nothing means that the search goes on with a save.\<close>

definition unlock_target :: "game \<Rightarrow> nat \<Rightarrow> nat \<Rightarrow> found_clues \<Rightarrow> fix_option list \<Rightarrow> nat list list \<Rightarrow> nat option \<Rightarrow> urgency \<Rightarrow> urgency option result" where
  "unlock_target g target base fc fixes priorities finessed u =
     (let s = g_state g; unlock = h_find_unlock g target; cluing = (clue_tokens s > 0 \<and> finessed = None) in
      else_try (Inr (map_option (\<lambda>ord. do_urgent base (P_Play (int ord)) u) (anxiety_unlock g target (concat priorities)))) (
      else_try (Inr (map_option (\<lambda>ord. do_urgent base (P_Play (int ord)) u) (if finessed = None \<or> finessed = unlock then unlock else None))) (
      else_try (bindR (if cluing then find_play_over_save g target (concat (fc_plays fc)) None else Inr []) (\<lambda>overs.
        Inr (if overs = [] then None else Some (fold (give_urgent (4 + base)) overs u)))) (
      else_try (Inr (map_option (\<lambda>co. give_urgent (2 + base) co u) (if cluing then trash_fixes fixes else None)))
        (Inr (if locked_by h_playables (common g) s target False then Some u else None))))))"

text \<open>The save clue, or a play clue on chop that is worth as much.\<close>

definition play_as_save :: "game \<Rightarrow> clue_option \<Rightarrow> save_clue" where
  "play_as_save g co =
     \<lparr>sc_clue = co_clue co, sc_game = g, sc_result = co_result co, sc_playable = True, sc_cm = [], sc_safe = cr_safe (co_result co)\<rparr>"

definition save_for :: "game \<Rightarrow> found_clues \<Rightarrow> nat \<Rightarrow> save_clue option result" where
  "save_for g fc target =
     (case fc_saves fc ! target of
        Some co \<Rightarrow> Inr (save_of co)
      | None \<Rightarrow>
          case best_option (filter (\<lambda>co. Some (cr_focus (co_result co)) = chop (common g) (hands (g_state g) ! target)) (fc_plays fc ! target)) of
            None \<Rightarrow> Inr None
          | Some co \<Rightarrow>
              let sc = play_as_save g co in
              bindR (save_clue_value g None sc ([] :: clue_option list)) (\<lambda>v. Inr (if v > 0 then Some sc else None)))"

definition add_fixes :: "game \<Rightarrow> nat \<Rightarrow> fix_option list \<Rightarrow> nat option \<Rightarrow> urgency \<Rightarrow> urgency" where
  "add_fixes g cluers fixes finessed u =
     (if clue_tokens (g_state g) > 0 \<and> finessed = None then
        case best_option (map clue_option.truncate (filter fx_urgent fixes)) of
          Some co \<Rightarrow> give_urgent (3 + (if cluers = 0 then 0 else priority_size)) co u
        | None \<Rightarrow>
            case best_option (map clue_option.truncate fixes) of
              Some co \<Rightarrow> give_urgent (3 + priority_size) co u
            | None \<Rightarrow> u
      else u)"

definition potential_cluers :: "game \<Rightarrow> nat \<Rightarrow> nat" where
  "potential_cluers g target =
     (let s = g_state g in
      length (filter (\<lambda>pl. pl \<noteq> target \<and>
          \<not> list_ex (\<lambda>ord. blind_playing (card_at (common g) ord) \<and> is_playable s (raw (deck_at s ord))) (hands s ! pl))
        (players_between (num_players s) (our_player s) target)))"

definition will_lock :: "game \<Rightarrow> nat \<Rightarrow> bool" where
  "will_lock g target \<longleftrightarrow>
     (let s = g_state g; com = common g in
      list_all (\<lambda>ord. saved (card_at com ord) \<or> is_critical s (raw (deck_at s ord))) (hands s ! target) \<and>
      \<not> loaded_by h_playables com s target default_think)"

definition urgent_for :: "rewinder \<Rightarrow> game \<Rightarrow> found_clues \<Rightarrow> fix_option list list \<Rightarrow> nat list list \<Rightarrow> nat option \<Rightarrow> urgency \<Rightarrow> nat \<Rightarrow>
    urgency result" where
  "urgent_for rw g fc fixes priorities finessed u target =
     bindR (has_early_clue (h_finder rw) g target) (\<lambda>early.
       let cluers = potential_cluers g target; base = (if cluers = 0 \<and> \<not> early then 0 else priority_size) in
       bindR (if will_lock g target then unlock_target g target base fc (fixes ! target) priorities finessed u else Inr None) (\<lambda>unlocked.
         case unlocked of
           Some u1 \<Rightarrow> Inr u1
         | None \<Rightarrow>
             bindR (save_for g fc target) (\<lambda>save.
             bindR (case save of Some sc \<Rightarrow> save_urgency rw g sc base cluers early fc fixes priorities finessed | None \<Rightarrow> Inr None) (\<lambda>n.
               Inr (add_fixes g cluers (fixes ! target) finessed (case n of Some x \<Rightarrow> record_need x u | None \<Rightarrow> u))))))"

text \<open>In every bucket the actions come before the clues, and the clues of the greatest value first.\<close>

definition merge_urgency :: "urgency \<Rightarrow> perform list list" where
  "merge_urgency u =
     map2 (\<lambda>acts cls. acts @ map (\<lambda>co. clue_to_perform (co_clue co)) (sort_key (\<lambda>co. - option_value co) cls)) (ur_actions u) (ur_clues u)"

definition find_urgent_actions :: "rewinder \<Rightarrow> game \<Rightarrow> found_clues \<Rightarrow> fix_option list list \<Rightarrow> nat list list \<Rightarrow> nat option \<Rightarrow>
    perform list list result" where
  "find_urgent_actions rw g fc fixes priorities finessed =
     (let s = g_state g; n = num_players s; buckets = 2 * priority_size + 1 in
      bindR (foldR (urgent_for rw g fc fixes priorities finessed) \<lparr>ur_actions = replicate buckets [], ur_clues = replicate buckets []\<rparr>
        (map (\<lambda>k. (our_player s + k) mod n) [1..<n])) (\<lambda>u. Inr (merge_urgency u)))"

end
