(* ===== verification/H_Take.thy ===== *)
theory H_Take
  imports H_Urgent Endgame_Solver
begin

text \<open>
  \<open>src/src/conventions/h-group/take-action.js\<close>: the action that the h-group chooses for us. The action is the first that a sequence of
  steps finds, in the order of the code; what the steps share is the record \<open>turn_plan\<close>. The answer of the worker thread that
  solves endgames is an argument, instantiated by \<open>solve_game\<close> in \<open>h_worker\<close>. Logging is left out.
\<close>

abbreviation level_sarcastic :: nat where "level_sarcastic \<equiv> 3"

section \<open>Our own cards\<close>

record own_choices =
  oc_playable :: "nat list"
  oc_trash :: "nat list"
  oc_discards :: "nat list"
  oc_playable_trash :: "nat list"

text \<open>A playable card that may be trash is a discard if it is not duplicated in our hand, and is played if it is the leftmost
  of its copies.\<close>

definition sort_own :: "game \<Rightarrow> own_choices" where
  "sort_own g =
     (let s = g_state g; m = me g; us = our_player s; plays = h_playables m s us default_think;
          junk = filter (\<lambda>ord. saved (card_at (common g) ord)) (thinks_trash m s us);
          copies = (\<lambda>i. filter (\<lambda>o2. matches infer_opts (card_at m o2) i) plays);
          known_junk = (\<lambda>ord P. case identity infer_opts (card_at m ord) of None \<Rightarrow> False | Some i \<Rightarrow> ord \<in> set junk \<and> P (copies i));
          discards = (if pace s \<le> 0 then []
            else filter (\<lambda>ord. level (own g) \<ge> level_sarcastic \<and> known_junk ord (\<lambda>os. \<not> list_ex (\<lambda>o2. o2 \<noteq> ord) os)) plays);
          pt = filter (\<lambda>ord. known_junk ord (\<lambda>os. unknown_1 (deck_at s ord) False \<or> \<not> list_ex (\<lambda>o2. o2 > ord) os)) plays in
      \<lparr>oc_playable = filter (\<lambda>ord. ord \<notin> set junk \<or> ord \<in> set pt) plays,
       oc_trash = filter (\<lambda>ord. ord \<notin> set discards \<and> ord \<notin> set pt) junk,
       oc_discards = discards, oc_playable_trash = pt\<rparr>)"

section \<open>The best playable card\<close>

definition first_priority :: "nat list list \<Rightarrow> nat option" where
  "first_priority ps = List.find (\<lambda>k. ps ! k \<noteq> []) [0..<length ps]"

text \<open>What an order chop move on the player that many turns after us gains.\<close>

definition ocm_value :: "game \<Rightarrow> nat \<Rightarrow> rat" where
  "ocm_value g k =
     (let s = g_state g; com = common g; m = me g; pl = (our_player s + k) mod num_players s; hand = hands s ! pl in
      if pl = our_player s then -1 / 10
      else
        case chop com hand of
          None \<Rightarrow> -1 / 10
        | Some ord \<Rightarrow>
            let d = deck_at s ord in
            if is_trash s m d (int ord) no_opts False \<or> (is_playable s (raw d) \<and> clue_tokens s \<noteq> 0) then -1 / 10
            else card_value s m d (-1) -
              (case chop (simulate_cm com [ord]) hand of
                 Some o2 \<Rightarrow> card_value s m (deck_at s o2) (-1)
               | None \<Rightarrow> if loaded_by h_playables m s pl default_think then 0 else 4))"

definition best_ocm :: "game \<Rightarrow> nat list \<Rightarrow> nat" where
  "best_ocm g ones = (case max_on (ocm_value g) [1..<length ones] (Some (-1 / 10)) of Some k \<Rightarrow> k | None \<Rightarrow> 0)"

text \<open>Among unknown 1s, the one that an order chop move asks for, or the first.\<close>

definition choose_one :: "game \<Rightarrow> nat list \<Rightarrow> nat list list \<Rightarrow> nat \<Rightarrow> nat \<times> nat" where
  "choose_one g plays ps k =
     (let s = g_state g; com = common g; ones = order_1s s com plays False in
      if k = 0 \<or> \<not> list_ex (\<lambda>ord. unknown_1 (deck_at s ord) False) (ps ! k) then (k, hd (ps ! k))
      else if ones \<noteq> [] \<and> level (own g) \<ge> level_basic_cm then
        (let n = best_ocm g ones in (if n \<noteq> 0 then 2 else k, ones ! n))
      else (k, hd (order_1s s com (filter (\<lambda>ord. unknown_1 (deck_at s ord) False) (ps ! k)) True)))"

text \<open>A finessed card is not played when it is queued behind an older finesse. This removes it from the priorities for good.\<close>

definition find_best_playable :: "game \<Rightarrow> nat list \<Rightarrow> nat list list \<Rightarrow> nat list list \<times> (nat \<times> nat) option" where
  "find_best_playable g plays ps =
     (case first_priority ps of
        None \<Rightarrow> (ps, None)
      | Some k0 \<Rightarrow>
          let s = g_state g; best = choose_one g plays ps k0 in
          if level (own g) \<ge> level_finesses \<and> fst best = 0 then
            (let ps1 = ps[0 := filter (\<lambda>ord. older_queued_finesse s (our_player s) (common g) ord = None) (ps ! 0)] in
             (ps1, map_option (\<lambda>k. (k, hd (ps1 ! k))) (first_priority ps1)))
          else (ps, Some best))"

section \<open>Stalling\<close>

definition find_first_clue :: "clue_option list \<Rightarrow> clue_option option" where
  "find_first_clue opts = (case opts of [] \<Rightarrow> None | co # _ \<Rightarrow> Some co)"

definition either :: "'a option \<Rightarrow> 'a option \<Rightarrow> 'a option" where
  "either x y = (case x of Some v \<Rightarrow> Some v | None \<Rightarrow> y)"

definition allowed_stalls :: "nat \<Rightarrow> nat list result" where
  "allowed_stalls severity =
     (if severity = 2 then Inr [2] else if severity = 3 then Inr [2, 3] else if severity = 4 then Inr [2, 3, 4] else Inl TypeError)"

definition best_stall_clue :: "clue_option list list \<Rightarrow> nat \<Rightarrow> clue_option option \<Rightarrow> clue_option option result" where
  "best_stall_clue stalls severity best =
     (if severity = 1 \<or> stalls ! 0 \<noteq> [] then Inr (either (find_first_clue (stalls ! 0)) best)
      else if stalls ! 1 \<noteq> [] then Inr (best_option (stalls ! 1))
      else
        bindR (allowed_stalls severity) (\<lambda>ks.
          Inr (either (best_option (concat (map ((!) stalls) ks))) (either best (find_first_clue (stalls ! 5))))))"

definition others :: "game_state \<Rightarrow> nat list" where
  "others s = map (\<lambda>k. (our_player s + k) mod num_players s) [1..<num_players s]"

definition any_clue :: "game_state \<Rightarrow> clue option" where
  "any_clue s = first_some (\<lambda>pl. case all_valid_clues s pl of cl # _ \<Rightarrow> Some cl | [] \<Rightarrow> None) (others s)"

section \<open>What the endgame solver asks\<close>

definition find_all_clues :: "rewinder \<Rightarrow> game \<Rightarrow> nat \<Rightarrow> clue list result" where
  "find_all_clues rw g giver =
     bindR (h_find_clues rw g giver) (\<lambda>fc.
       let found = concat (map (\<lambda>o1. case o1 of Some co \<Rightarrow> [co] | None \<Rightarrow> []) (fc_saves fc)) in
       Inr (map co_clue (concat (fc_plays fc) @ found @ concat (take 3 (fc_stalls fc)) @ fc_stalls fc ! 6)))"

text \<open>The order 0 counts as no discard.\<close>

definition find_all_discards :: "game \<Rightarrow> nat \<Rightarrow> (bool \<times> nat) list result" where
  "find_all_discards g pl =
     (let s = g_state g; com = common g;
          junk = filter (\<lambda>ord. saved (card_at com ord)) (thinks_trash (me g) s pl);
          discardable = (case junk of ord # _ \<Rightarrow> Some ord | [] \<Rightarrow> chop com (hands s ! pl)) in
      bindR (find_positional_discard h_moves g pl discardable) (\<lambda>p.
        Inr (case p of
            Some po \<Rightarrow> [(po_misplay po, po_order po)]
          | None \<Rightarrow> (case discardable of Some (Suc n) \<Rightarrow> [(False, Suc n)] | _ \<Rightarrow> []))))"

text \<open>The worker thread: an unsolved game is no answer, any other error is thrown. The game that is sent as JSON is taken to
  arrive unchanged; the clock of the worker and the fuel of the search are arguments.\<close>

definition unsolved :: "js_error \<Rightarrow> bool" where
  "unsolved e \<longleftrightarrow>
     (case e of Thrown m \<Rightarrow> e = timed_out \<or> e = no_strategy \<or> take 18 m = ''couldn't find any '' | _ \<Rightarrow> False)"

definition h_tools :: "rewinder \<Rightarrow> (nat \<Rightarrow> bool) \<Rightarrow> tools" where
  "h_tools rw late = \<lparr>tool_cv = h_group, tool_late = late, find_clues = find_all_clues rw, find_discards = find_all_discards\<rparr>"

definition h_worker :: "rewinder \<Rightarrow> (nat \<Rightarrow> bool) \<Rightarrow> nat \<Rightarrow> game \<Rightarrow> perform option result" where
  "h_worker rw late fuel g =
     (case solve_game (h_tools rw late) fuel g (our_player (g_state g)) True
         \<lparr>srch = \<lparr>cache = (\<lambda>_. None), readings = 0\<rparr>, wins = (\<lambda>_. None)\<rparr> of
        Inr ((Some act, _), _) \<Rightarrow> Inr (Some act)
      | Inr ((None, _), _) \<Rightarrow> Inl TypeError
      | Inl e \<Rightarrow> if unsolved e then Inr None else Inl e)"

section \<open>Who else could give a clue\<close>

fun givers_from :: "game \<Rightarrow> clue_option \<Rightarrow> nat list \<Rightarrow> nat list" where
  "givers_from g co [] = []"
| "givers_from g co (pl # pls) =
     (let s = g_state g; r = co_result co; p = g_players g ! pl; plays = map snd (filter (\<lambda>f. fst f = int pl) (cr_playables r)) in
      if list_ex (\<lambda>f. fst f = int pl) (cr_finesses r) then []
      else if pl = clue_target (co_clue co) then
        (if list_ex (\<lambda>c. Some (order c) = chop p (hands s ! pl)) plays then [] else givers_from g co pls)
      else if list_ex (\<lambda>c. identity no_opts (card_at p (order c)) = None) plays then givers_from g co pls
      else pl # givers_from g co pls)"

definition find_clue_givers :: "game \<Rightarrow> clue_option \<Rightarrow> nat \<Rightarrow> nat list" where
  "find_clue_givers g co giver =
     (let n = num_players (g_state g) in giver # givers_from g co (map (\<lambda>k. (giver + k) mod n) [1..<n]))"

section \<open>The best play clue\<close>

text \<open>A clue is not selfish if we hold none of the cards between the play stack and the hypothetical stack of its suit.\<close>

definition not_selfish :: "game \<Rightarrow> clue_option \<Rightarrow> nat \<Rightarrow> bool" where
  "not_selfish g co pl \<longleftrightarrow>
     (let s = g_state g; d = deck_at s (cr_focus (co_result co)); k = nat (suit_index d);
          hypo = hypo_stacks (common g) ! k; now = play_stacks s ! k in
      hypo = now \<or>
      list_all (\<lambda>r. \<not> list_ex (\<lambda>ord. matches infer_opts (card_at (me g) ord) (mk_id (suit_index d) r)) (hands s ! pl)) [now + 1..hypo])"

definition noncritical_me :: "game \<Rightarrow> nat \<Rightarrow> player result" where
  "noncritical_me g ord =
     with_thoughts (me g) ord (\<lambda>d. [W_possible (keep_ids (possible d) (\<lambda>i. \<not> is_critical (g_state g) i))]) False"

text \<open>Another player could give the clue and has better cards on chop than we have.\<close>

definition better_giver :: "game \<Rightarrow> game \<Rightarrow> rat \<Rightarrow> clue_option \<Rightarrow> nat \<Rightarrow> bool" where
  "better_giver g hg ours co pl \<longleftrightarrow>
     (let s = g_state g; p = g_players hg ! pl;
          v = (case chop p (hands s ! pl) of None \<Rightarrow> 4 | Some ord \<Rightarrow> card_value s p (deck_at s ord) (int ord)) in
      \<not> loaded_by h_playables p s pl no_assume \<and> not_selfish g co pl \<and> v > 0 \<and> v \<ge> ours)"

definition saved_for_others :: "rewinder \<Rightarrow> game \<Rightarrow> rat \<Rightarrow> clue_option \<Rightarrow> bool result" where
  "saved_for_others rw g ours co =
     (let s = g_state g; us = our_player s; cl = co_clue co; target = clue_target cl;
          a = \<lparr>ca_giver = us, ca_target = target, ca_list = clue_touched s (hands s ! target) cl, ca_clue = clue_of cl,
               ca_mistake = False, ca_lock = False, ca_important = False, ca_hypothetical = False\<rparr> in
      if h_finesse (g_players g ! target) s target [] [] \<noteq> Some (cr_focus (co_result co)) then Inr False
      else
        bindR (h_simulate_clue h_clue rw g a) (\<lambda>(hg, _).
          Inr (list_ex (\<lambda>pl. pl \<noteq> us \<and> better_giver g hg ours co pl) (find_clue_givers g co us))))"

record clue_choice =
  cc_best :: "clue_option option"
  cc_value :: rat
  cc_saved :: "clue_option option"

definition pick_clue :: "clue_option list \<Rightarrow> clue_choice" where
  "pick_clue opts = (let (b, v) = select_play_clue co_result opts in \<lparr>cc_best = b, cc_value = v, cc_saved = None\<rparr>)"

definition pick_unsaved :: "clue_option list \<Rightarrow> clue_option list \<Rightarrow> clue_choice" where
  "pick_unsaved opts kept =
     (let (b, v) = select_play_clue co_result (filter (\<lambda>co. co_clue co \<notin> set (map co_clue kept)) opts);
          (sb, sv) = select_play_clue co_result kept in
      if sb = None \<or> v > sv then \<lparr>cc_best = b, cc_value = v, cc_saved = sb\<rparr>
      else \<lparr>cc_best = None, cc_value = v, cc_saved = sb\<rparr>)"

definition safe_saves :: "found_clues \<Rightarrow> clue_option list" where
  "safe_saves fc =
     concat (map (\<lambda>o1. case o1 of Some co \<Rightarrow> (case co_save co of Some sc \<Rightarrow> if sc_safe sc then [co] else [] | None \<Rightarrow> []) | None \<Rightarrow> [])
       (fc_saves fc))"

text \<open>With few clue tokens, clues on finesse positions may be left to players who have better cards on chop.\<close>

definition choose_play_clue :: "rewinder \<Rightarrow> game \<Rightarrow> found_clues \<Rightarrow> clue_choice result" where
  "choose_play_clue rw g fc =
     (let s = g_state g; opts = concat (fc_plays fc) @ safe_saves fc in
      if clue_tokens s \<le> 0 then Inr \<lparr>cc_best = None, cc_value = -99, cc_saved = None\<rparr>
      else
        case (if \<not> in_endgame s \<and> \<not> early_game s \<and> clue_tokens s < 4 then chop (me g) (our_hand s) else None) of
          None \<Rightarrow> Inr (pick_clue opts)
        | Some ord \<Rightarrow>
            bindR (noncritical_me g ord) (\<lambda>m.
              let ours = card_value s m (deck_at s ord) (int ord) in
              bindR (mapR (\<lambda>co. bindR (saved_for_others rw g ours co) (\<lambda>b. Inr (b, co))) opts) (\<lambda>bs.
                Inr (pick_unsaved opts (map snd (filter fst bs))))))"

section \<open>The steps\<close>

record turn_plan = own_choices +
  tp_priorities :: "nat list list"
  tp_best :: "(nat \<times> nat) option"
  tp_finessed :: bool
  tp_found :: found_clues
  tp_fixes :: "fix_option list list"
  tp_urgent :: "perform list list"
  tp_choice :: clue_choice

definition best_order :: "'a turn_plan_scheme \<Rightarrow> nat option" where
  "best_order tp = map_option snd (tp_best tp)"

definition plays_finesse :: "'a turn_plan_scheme \<Rightarrow> bool" where
  "plays_finesse tp \<longleftrightarrow> oc_playable tp \<noteq> [] \<and> map_option fst (tp_best tp) = Some 0"

definition play_of :: "nat option \<Rightarrow> perform option" where
  "play_of = map_option (\<lambda>ord. P_Play (int ord))"

definition discard_of :: "nat option \<Rightarrow> perform option" where
  "discard_of = map_option (\<lambda>ord. P_Discard (int ord))"

definition give_of :: "clue_option option \<Rightarrow> perform option" where
  "give_of = map_option (\<lambda>co. clue_to_perform (co_clue co))"

definition head_of :: "'a list \<Rightarrow> 'a option" where
  "head_of xs = (case xs of [] \<Rightarrow> None | x # _ \<Rightarrow> Some x)"

text \<open>What is known before clues are looked for.\<close>

definition prepare :: "game \<Rightarrow> turn_plan" where
  "prepare g =
     (let oc = sort_own g; ps = determine_playable_card g (oc_playable oc); (ps1, best) = find_best_playable g (oc_playable oc) ps in
      \<lparr>oc_playable = oc_playable oc, oc_trash = oc_trash oc, oc_discards = oc_discards oc, oc_playable_trash = oc_playable_trash oc,
       tp_priorities = ps1, tp_best = best,
       tp_finessed = (oc_playable oc \<noteq> [] \<and> (case best of Some (0, ord) \<Rightarrow> \<not> clued (deck_at (g_state g) ord) | _ \<Rightarrow> False)),
       tp_found = \<lparr>fc_plays = [], fc_saves = [], fc_stalls = []\<rparr>, tp_fixes = [], tp_urgent = [],
       tp_choice = \<lparr>cc_best = None, cc_value = -99, cc_saved = None\<rparr>\<rparr>)"

definition play_bluff :: "game \<Rightarrow> turn_plan \<Rightarrow> perform option" where
  "play_bluff g tp =
     (if tp_finessed tp \<and>
         (case best_order tp of
            Some ord \<Rightarrow> status (card_at (common g) ord) \<in> {Some BLUFFED, Some MAYBE_BLUFFED, Some F_MAYBE_BLUFF} | None \<Rightarrow> False)
      then play_of (best_order tp) else None)"

text \<open>A connection through a hidden card of the next player, whose chop connects later, must not wait.\<close>

definition chop_hidden :: "game \<Rightarrow> nat \<Rightarrow> bool" where
  "chop_hidden g ord \<longleftrightarrow>
     (let s = g_state g; com = common g; nxt = next_player s (our_player s);
          last_free = find_last (\<lambda>o2. let c = card_at com o2 in status c = None \<or> blind_playing c) (hands s ! nxt) in
      list_ex (\<lambda>wc. \<not> wc_symmetric wc \<and>
          list_ex (\<lambda>k. let conn = wc_connections wc ! k in conn_reacting conn = nxt \<and> conn_hidden conn \<and>
            list_ex (\<lambda>conn2. Some (conn_order conn2) = last_free) (drop (k + 1) (wc_connections wc)))
          [wc_conn_index wc..<length (wc_connections wc)]) (dependent_connections com ord))"

definition play_hidden :: "game \<Rightarrow> turn_plan \<Rightarrow> perform option" where
  "play_hidden g tp =
     (if plays_finesse tp \<and> (case best_order tp of Some ord \<Rightarrow> chop_hidden g ord | None \<Rightarrow> False) then play_of (best_order tp) else None)"

definition save_after_gen :: "game \<Rightarrow> turn_plan \<Rightarrow> perform option" where
  "save_after_gen g tp =
     (let s = g_state g in
      if discard_state s = Some Gen then
        (case fc_saves (tp_found tp) ! next_player s (our_player s) of
           Some co \<Rightarrow> (case co_save co of Some sc \<Rightarrow> if sc_safe sc then give_of (Some co) else None | None \<Rightarrow> None)
         | None \<Rightarrow> None)
      else None)"

definition affordable :: "game_state \<Rightarrow> perform \<Rightarrow> bool" where
  "affordable s act \<longleftrightarrow> clue_tokens s > 0 \<or> \<not> is_clue act"

definition urgent_next :: "game \<Rightarrow> turn_plan \<Rightarrow> perform option" where
  "urgent_next g tp =
     (case tp_urgent tp ! 0 of
        act # _ \<Rightarrow> Some act
      | [] \<Rightarrow> first_some (\<lambda>k. List.find (affordable (g_state g)) (tp_urgent tp ! k)) [1..<priority_size])"

definition discardable :: "game \<Rightarrow> 'a turn_plan_scheme \<Rightarrow> nat option" where
  "discardable g tp = either (head_of (oc_discards tp)) (either (head_of (oc_trash tp)) (chop (common g) (our_hand (g_state g))))"

definition generation_required :: "game \<Rightarrow> nat \<Rightarrow> bool result" where
  "generation_required g pl =
     (let s = g_state g; com = common g in
      if chop_value (me g) s pl None \<ge> 4 \<and> \<not> loaded_by h_playables com s pl default_think \<and> \<not> locked_by h_playables com s pl False
      then bindR (connectable_simple (num_players s) h_moves g (our_player s) pl None) (\<lambda>b. Inr (\<not> b \<and> h_find_unlock g pl = None))
      else Inr False)"

definition generation_act :: "game \<Rightarrow> nat \<Rightarrow> nat \<Rightarrow> perform option" where
  "generation_act g nxt ord =
     (let s = g_state g; m = me g; discard = Some (P_Discard (int ord)) in
      case chop (common g) (hands s ! nxt) of
        None \<Rightarrow> discard
      | Some ch \<Rightarrow>
          if card_value s m (deck_at s ch) (int ch) < 4 then
            (if loaded_by h_playables m s nxt default_think then None
             else case h_find_unlock g nxt of Some o2 \<Rightarrow> Some (P_Play (int o2)) | None \<Rightarrow> discard)
          else discard)"

text \<open>Without clue tokens, a discard may be needed so that the next player can save the one after him.\<close>

definition generate_clue :: "game \<Rightarrow> turn_plan \<Rightarrow> perform option result" where
  "generate_clue g tp =
     (let s = g_state g; nxt = next_player s (our_player s) in
      case discardable g tp of
        None \<Rightarrow> Inr None
      | Some ord \<Rightarrow>
          if tp_finessed tp \<or> clue_tokens s \<noteq> 0 \<or> num_players s \<le> 2 then Inr None
          else
            bindR (generation_required g (next_player s nxt)) (\<lambda>b.
              Inr (if \<not> b then None
                else case tp_priorities tp ! 3 of o5 # _ \<Rightarrow> Some (P_Play (int o5)) | [] \<Rightarrow> generation_act g nxt ord)))"

text \<open>A clue of the solver is any stall; if there is none the action has no value (\<open>-1\<close>).\<close>

definition forget_value :: "perform \<Rightarrow> perform" where
  "forget_value act = (case act of P_Colour t _ \<Rightarrow> P_Colour t (-1) | P_Rank t _ \<Rightarrow> P_Rank t (-1) | _ \<Rightarrow> act)"

definition solve_endgame :: "(game \<Rightarrow> perform option result) \<Rightarrow> game \<Rightarrow> turn_plan \<Rightarrow> perform option result" where
  "solve_endgame solve g tp =
     (let s = g_state g; stalls = fc_stalls (tp_found tp) in
      if \<not> (in_endgame s \<and> max_score s - score s \<le> int (n_suits s) + 1) then Inr None
      else
        bindR (solve g) (\<lambda>answer.
          case answer of
            None \<Rightarrow> Inr None
          | Some act \<Rightarrow>
              if is_clue act then
                bindR (case cc_best (tp_choice tp) of Some co \<Rightarrow> Inr (Some co) | None \<Rightarrow> best_stall_clue stalls 4 None) (\<lambda>co.
                  Inr (either (give_of co) (either (map_option clue_to_perform (any_clue s)) (Some (forget_value act)))))
              else Inr (Some act)))"

section \<open>The last turns\<close>

definition inferred_as :: "player \<Rightarrow> basic_card \<Rightarrow> nat \<Rightarrow> bool" where
  "inferred_as p i ord \<longleftrightarrow> (case identity infer_opts (card_at p ord) of Some j \<Rightarrow> suit_index j = suit_index i \<and> rank j = rank i | None \<Rightarrow> False)"

text \<open>How many players can go on after a card of ours, before the game ends. (A first player who also holds a copy does not.)\<close>

definition connectables :: "game \<Rightarrow> basic_card \<Rightarrow> nat" where
  "connectables g i =
     (let s = g_state g in
      fold (\<lambda>k n. let pl = (our_player s + k) mod num_players s; p = g_players g ! pl; hand = hands s ! pl;
          goes_on = list_ex (inferred_as p (mk_id (suit_index i) (rank i + int n + 1))) hand; double = (n = 0 \<and> list_ex (inferred_as p i) hand) in
          if goes_on \<and> \<not> double then n + 1 else n) [1..<nat (endgame_turns s)] 0)"

definition best_connector :: "game \<Rightarrow> nat list \<Rightarrow> nat option" where
  "best_connector g plays =
     max_on (\<lambda>ord. case identity infer_opts (card_at (me g) ord) of Some i \<Rightarrow> int (connectables g i) | None \<Rightarrow> -1) plays (Some 0)"

definition last_round_play :: "game \<Rightarrow> turn_plan \<Rightarrow> perform option" where
  "last_round_play g tp =
     (let s = g_state g; plays = oc_playable tp; all_inferred = (\<lambda>P. List.find (\<lambda>ord. list_all P (iset_array (inferred (card_at (me g) ord)))) plays) in
      if endgame_turns s \<le> 0 then None
      else play_of (either (best_connector g plays) (either (all_inferred (\<lambda>i. rank i = 5)) (either (all_inferred (is_critical s)) (head_of plays)))))"

text \<open>Whether we may still give a finesse while we are finessed ourselves.\<close>

definition waiting_on_us :: "game \<Rightarrow> waiting_connection list" where
  "waiting_on_us g =
     filter (\<lambda>wc. \<not> wc_symmetric wc \<and> (case rest_conns wc of c # _ \<Rightarrow> conn_reacting c = our_player (g_state g) | [] \<Rightarrow> False))
       (waiting_connections (common g))"

definition waits_out_of_order :: "game_state \<Rightarrow> waiting_connection \<Rightarrow> bool" where
  "waits_out_of_order s wc \<longleftrightarrow>
     (case rest_conns wc of
        _ # c1 # cs \<Rightarrow>
          \<not> in_between (num_players s) (conn_reacting c1) (our_player s) (case cs of c2 # _ \<Rightarrow> conn_reacting c2 | [] \<Rightarrow> wc_target wc)
      | _ \<Rightarrow> False)"

definition considers_finesse :: "game \<Rightarrow> turn_plan \<Rightarrow> clue_option \<Rightarrow> bool" where
  "considers_finesse g tp co \<longleftrightarrow>
     (let s = g_state g; wcs = waiting_on_us g in
      \<not> tp_finessed tp \<or>
      (sum_list (map (\<lambda>wc. length (rest_conns wc)) wcs) < 3 \<and> \<not> list_ex (waits_out_of_order s) wcs \<and>
       not_selfish g co (our_player s) \<and> \<not> in_endgame s))"

definition finesse_next :: "game \<Rightarrow> turn_plan \<Rightarrow> perform option" where
  "finesse_next g tp =
     (let s = g_state g; nxt = next_player s (our_player s) in
      case cc_best (tp_choice tp) of
        None \<Rightarrow> None
      | Some co \<Rightarrow>
          let fs = cr_finesses (co_result co) in
          if considers_finesse g tp co \<and> fs \<noteq> [] \<and> (clue_target (co_clue co) = nxt \<or> list_ex (\<lambda>f. fst f = int nxt) fs)
          then give_of (Some co) else None)"

definition play_finesse :: "turn_plan \<Rightarrow> perform option" where
  "play_finesse tp =
     (if plays_finesse tp \<and> (case best_order tp of Some ord \<Rightarrow> ord \<notin> set (oc_playable_trash tp) | None \<Rightarrow> False)
      then play_of (best_order tp) else None)"

text \<open>With no card left to draw, the newest card is tried as any card that is still missing.\<close>

definition missing_next :: "game_state \<Rightarrow> basic_card list" where
  "missing_next s =
     map (\<lambda>k. mk_id (int k) (play_stacks s ! k + 1)) (filter (\<lambda>k. play_stacks s ! k \<noteq> max_ranks s ! k) [0..<n_suits s])"

definition try_blind :: "game \<Rightarrow> perform option result" where
  "try_blind g =
     (let s = g_state g in
      if cards_left s = 0 \<and> strikes s < 2 \<and> missing_next s \<noteq> [] then
        bindR (need (head_of (our_hand s))) (\<lambda>ord.
          Inr (if list_ex (iset_has (possible (card_at (me g) ord))) (missing_next s) then Some (P_Play (int ord)) else None))
      else Inr None)"

section \<open>Discards for others\<close>

definition copies_of :: "game \<Rightarrow> basic_card \<Rightarrow> card list" where
  "copies_of g i =
     (let s = g_state g in
      concat (map (\<lambda>pl. map (card_at (g_players g ! pl)) (filter (\<lambda>ord. matches no_opts (card_at (me g) ord) i) (hands s ! pl)))
        (filter (\<lambda>pl. pl \<noteq> our_player s) [0..<length (hands s)])))"

definition sarcastic_discard :: "game \<Rightarrow> turn_plan \<Rightarrow> perform option" where
  "sarcastic_discard g tp =
     (let s = g_state g; os = (if level (own g) \<ge> level_special then oc_discards tp else filter (\<lambda>ord. clued (deck_at s ord)) (oc_discards tp)) in
      if \<not> (level (own g) \<ge> level_sarcastic \<and> clue_tokens s \<noteq> 8) then None
      else
        case (os, map (\<lambda>ord. identity infer_opts (card_at (me g) ord)) os) of
          (ord # _, Some i # _) \<Rightarrow>
            let known = (\<lambda>x. list_all (\<lambda>j. basic_matches j i \<or> is_basic_trash s j) (iset_array x)) in
            if list_all (\<lambda>c. known (inferred c)) (copies_of g i) then None
            else if list_all (\<lambda>c. known (possible c)) (copies_of g i) then Some (P_Play (int ord))
            else Some (P_Discard (int ord))
        | _ \<Rightarrow> None)"

definition take_discard :: "game \<Rightarrow> nat \<Rightarrow> nat list \<Rightarrow> perform result" where
  "take_discard g pl junk =
     (let s = g_state g; com = common g; hand = hands s ! pl in
      bindR (need (either (head_of junk) (either (chop com hand) (locked_discard com s hand)))) (\<lambda>ord. Inr (P_Discard (int ord))))"

definition forced_by_lock :: "game \<Rightarrow> turn_plan \<Rightarrow> perform option result" where
  "forced_by_lock g tp =
     (let s = g_state g; us = our_player s in
      if (clue_tokens s = 0 \<or> (clue_tokens s = 1 \<and> oc_playable tp = [])) \<and> locked_by h_playables (common g) s (next_player s us) False
      then bindR (take_discard g us (oc_trash tp)) (\<lambda>act. Inr (Some act)) else Inr None)"

definition other_players :: "game_state \<Rightarrow> nat list" where
  "other_players s = filter (\<lambda>pl. pl \<noteq> our_player s) [0..<num_players s]"

definition special_discards :: "game \<Rightarrow> bool" where
  "special_discards g \<longleftrightarrow> level (own g) \<ge> level_special \<and> pace (g_state g) \<ge> 2 * int (num_players (g_state g))"

definition gentleman :: "game \<Rightarrow> perform option" where
  "gentleman g =
     (let s = g_state g in
      if special_discards g then
        discard_of (first_some (\<lambda>pl. if chop_value (me g) s pl None = 0 then None else find_gd g pl) (other_players s))
      else None)"

definition baton_card :: "game \<Rightarrow> nat \<Rightarrow> nat \<Rightarrow> bool" where
  "baton_card g pl ord \<longleftrightarrow>
     (let s = g_state g; com = common g in
      case (identity infer_opts (card_at (me g) ord), h_finesse com s pl [] []) of
        (Some i, Some f) \<Rightarrow>
          clued (card_at (me g) ord) \<and> \<not> is_playable s i \<and> \<not> is_basic_trash s i \<and> actual_matches None (deck_at s f) i \<and>
          find_sarcastics s pl com (raw (deck_at s f)) = []
      | _ \<Rightarrow> False)"

definition baton :: "game \<Rightarrow> perform option" where
  "baton g =
     (let s = g_state g in
      if special_discards g then
        discard_of (first_some (\<lambda>pl.
          if length (filter (\<lambda>ord. \<not> clued (deck_at s ord)) (hands s ! pl)) \<le> 2 then None
          else List.find (baton_card g pl) (our_hand s)) (other_players s))
      else None)"

definition discard_trash_early :: "game \<Rightarrow> turn_plan \<Rightarrow> perform option" where
  "discard_trash_early g tp =
     (let s = g_state g in
      if tp_best tp = None \<and> pace s > int (num_players s) * 2 \<and> clue_tokens s \<le> 2 then discard_of (head_of (oc_trash tp)) else None)"

definition shout :: "game \<Rightarrow> turn_plan \<Rightarrow> perform option" where
  "shout g tp =
     (let s = g_state g; m = me g; nxt = next_player s (our_player s) in
      case chop m (hands s ! nxt) of
        None \<Rightarrow> None
      | Some ord \<Rightarrow>
          if level (own g) \<ge> level_last_resorts \<and> tp_best tp \<noteq> None \<and> \<not> loaded_by h_playables m s nxt default_think \<and> clue_tokens s \<le> 2 \<and>
            card_value s m (deck_at s ord) (int ord) \<ge> 1 \<and> chop_value (simulate_cm m [ord]) s nxt (Some 4) = 0
          then discard_of (head_of (oc_trash tp)) else None)"

section \<open>Other clues\<close>

definition tempo_to_trash :: "game \<Rightarrow> clue_option \<Rightarrow> rat" where
  "tempo_to_trash g co =
     (let s = g_state g; m = me g; target = clue_target (co_clue co) in
      case chop (common g) (hands s ! target) of
        None \<Rightarrow> -1
      | Some ord \<Rightarrow>
          if card_value s m (deck_at s ord) (-1) = 0 \<or> is_playable s (raw (deck_at s ord)) then -1
          else if chop_value (simulate_cm m [ord]) s target (Some 4) = 0 then option_value co else -1)"

definition tempo_move :: "game \<Rightarrow> turn_plan \<Rightarrow> perform option" where
  "tempo_move g tp =
     (let s = g_state g in
      if level (own g) \<ge> level_tempo \<and> num_players s > 2 \<and> clue_tokens s > 0
      then give_of (max_on (tempo_to_trash g) (fc_stalls (tp_found tp) ! 1) (Some 0)) else None)"

definition two_player_clue :: "turn_plan \<Rightarrow> clue_option option" where
  "two_player_clue tp = either (cc_best (tp_choice tp)) (best_option (fc_stalls (tp_found tp) ! 1))"

definition clue_partner :: "game \<Rightarrow> turn_plan \<Rightarrow> perform option" where
  "clue_partner g tp =
     (let s = g_state g; us = our_player s in
      case two_player_clue tp of
        None \<Rightarrow> None
      | Some co \<Rightarrow>
          if num_players s = 2 \<and> clue_tokens s > 0 \<and> \<not> loaded_by h_playables (me g) s (next_player s us) default_think \<and> not_selfish g co us
          then give_of (Some co) else None)"

definition clue_partner_anyway :: "game \<Rightarrow> turn_plan \<Rightarrow> perform option" where
  "clue_partner_anyway g tp =
     (let s = g_state g in if num_players s = 2 \<and> clue_tokens s > 0 then give_of (two_player_clue tp) else None)"

text \<open>The best play clue has its place among the urgent actions for the others: the first, or with one clue token the last.\<close>

definition worth_giving :: "game \<Rightarrow> turn_plan \<Rightarrow> perform option" where
  "worth_giving g tp =
     (if cc_value (tp_choice tp) \<ge> minimum_clue_value (g_state g) then give_of (cc_best (tp_choice tp)) else None)"

definition urgent_others :: "game \<Rightarrow> turn_plan \<Rightarrow> perform option" where
  "urgent_others g tp =
     (let s = g_state g; last_k = 2 * priority_size; play_k = (if clue_tokens s > 1 then priority_size + 1 else last_k) in
      if clue_tokens s \<le> 0 then None
      else first_some (\<lambda>k. either (if k = play_k then worth_giving g tp else None) (if k \<noteq> last_k then head_of (tp_urgent tp ! k) else None))
        [priority_size + 1..<last_k + 1])"

definition try_positional_discard :: "game \<Rightarrow> turn_plan \<Rightarrow> perform option result" where
  "try_positional_discard g tp =
     (let s = g_state g in
      if level (own g) \<ge> level_endgame \<and> pace s > 0 then
        bindR (find_positional_discard h_moves g (our_player s) (discardable g tp)) (\<lambda>p.
          Inr (case p of
              None \<Rightarrow> None
            | Some po \<Rightarrow> if po_misplay po then play_of (Some (po_order po))
                else if clue_tokens s < 8 then discard_of (Some (po_order po)) else None))
      else Inr None)"

section \<open>When nothing else is left\<close>

text \<open>The best clue may be given in a stall if it is a save, does not duplicate its own focus, or it is the first turn.\<close>

definition valid_stall_play :: "game \<Rightarrow> clue_option \<Rightarrow> bool" where
  "valid_stall_play g co \<longleftrightarrow>
     (let s = g_state g; r = co_result co in
      turn_count s = 1 \<or> co_save co \<noteq> None \<or>
      \<not> list_ex (\<lambda>ord. actual_matches None (deck_at s ord) (deck_at s (cr_focus r))) (cr_bad_touch r))"

definition stall_play :: "game \<Rightarrow> turn_plan \<Rightarrow> clue_option option" where
  "stall_play g tp =
     (case either (cc_best (tp_choice tp)) (cc_saved (tp_choice tp)) of
        Some co \<Rightarrow> if valid_stall_play g co then Some co else None
      | None \<Rightarrow> None)"

definition stall_value :: "clue_option \<Rightarrow> rat" where
  "stall_value co = find_clue_value ((co_result co)\<lparr>cr_avoidable_dupe := 0\<rparr>)"

text \<open>Everyone else may only discard: any clue passes the turn.\<close>

definition harmless_burn :: "game \<Rightarrow> clue_option \<Rightarrow> bool" where
  "harmless_burn g co \<longleftrightarrow>
     (let s = g_state g; d = deck_at s (cr_focus (co_result co)) in
      (basic_identity d \<noteq> None \<and> rank d \<le> hypo_stacks (common g) ! nat (suit_index d) + 1) \<or> is_basic_trash s d)"

definition pass_turn_clue :: "game \<Rightarrow> clue_option list list \<Rightarrow> clue option" where
  "pass_turn_clue g stalls =
     (let s = g_state g in
      either (map_option co_clue (either (head_of (stalls ! 1)) (List.find (harmless_burn g) (stalls ! 5))))
        (head_of (all_valid_clues s (next_player s (our_player s)))))"

definition void_count :: "game_state \<Rightarrow> int" where
  "void_count s = int (length (filter (void_player s) (other_players s)))"

definition stall_severely :: "game \<Rightarrow> turn_plan \<Rightarrow> nat \<Rightarrow> clue_option list list \<Rightarrow> perform option result" where
  "stall_severely g tp severity stalls =
     bindR (best_stall_clue stalls severity (stall_play g tp)) (\<lambda>co.
       let s = g_state g in
       if clue_tokens s = 8 then
         (case either (give_of co) (map_option clue_to_perform (any_clue s)) of
            Some act \<Rightarrow> Inr (Some act)
          | None \<Rightarrow> bindR (need (either (discardable g tp) (head_of (our_hand s)))) (\<lambda>ord. Inr (Some (P_Play (int ord)))))
       else Inr (give_of co))"

definition stall :: "game \<Rightarrow> turn_plan \<Rightarrow> perform option result" where
  "stall g tp =
     (let s = g_state g; us = our_player s; com = common g; stalls = fc_stalls (tp_found tp);
          severity = stall_severity s com us com; voids = (pace s = void_count s) in
      if clue_tokens s > 0 \<and> ((stall_severity s (me g) us (me g) > 0 \<and> severity > 0) \<or> voids) then
        (case stall_play g tp of
           Some co \<Rightarrow>
             if stall_value co \<ge> minimum_clue_value s then Inr (give_of (Some co))
             else if voids then Inr (map_option clue_to_perform (pass_turn_clue g stalls))
             else stall_severely g tp severity stalls
         | None \<Rightarrow> if voids then Inr (map_option clue_to_perform (pass_turn_clue g stalls)) else stall_severely g tp severity stalls)
      else Inr None)"

section \<open>Taking an action\<close>

text \<open>Without a clue to pass the turn the player discards as well: the last step.\<close>

definition with_clues :: "rewinder \<Rightarrow> game \<Rightarrow> turn_plan \<Rightarrow> turn_plan result" where
  "with_clues rw g tp =
     bindR (h_find_clues rw g (our_player (g_state g))) (\<lambda>fc.
     bindR (find_fix_clues rw g fc) (\<lambda>fixes. Inr (tp\<lparr>tp_found := fc, tp_fixes := fixes\<rparr>)))"

definition with_urgent :: "rewinder \<Rightarrow> game \<Rightarrow> turn_plan \<Rightarrow> turn_plan result" where
  "with_urgent rw g tp =
     bindR (find_urgent_actions rw g (tp_found tp) (tp_fixes tp) (tp_priorities tp) (if tp_finessed tp then best_order tp else None))
       (\<lambda>acts. Inr (tp\<lparr>tp_urgent := acts\<rparr>))"

definition trash_now :: "game \<Rightarrow> turn_plan \<Rightarrow> perform option" where
  "trash_now g tp =
     (let s = g_state g in if \<not> in_endgame s \<and> clue_tokens s < 8 then discard_of (head_of (oc_trash tp)) else None)"

definition early_save :: "game \<Rightarrow> turn_plan \<Rightarrow> perform option" where
  "early_save g tp = (if clue_tokens (g_state g) > 0 then head_of (tp_urgent tp ! (2 * priority_size)) else None)"

definition play_connecting :: "turn_plan \<Rightarrow> perform option" where
  "play_connecting tp = (case tp_best tp of Some (k, ord) \<Rightarrow> if k \<le> 3 then Some (P_Play (int ord)) else None | None \<Rightarrow> None)"

text \<open>The steps that choose among plays and discards once no clue is urgent.\<close>

definition act_on_plan :: "(game \<Rightarrow> perform option result) \<Rightarrow> game \<Rightarrow> turn_plan \<Rightarrow> perform result" where
  "act_on_plan solve g tp =
     bindR (foldr else_try
       [solve_endgame solve g tp, Inr (last_round_play g tp), Inr (finesse_next g tp), Inr (play_finesse tp), try_blind g,
        Inr (sarcastic_discard g tp), Inr (head_of (tp_urgent tp ! priority_size)), forced_by_lock g tp, Inr (gentleman g),
        Inr (play_connecting tp), Inr (baton g), Inr (discard_trash_early g tp), Inr (shout g tp), Inr (tempo_move g tp),
        Inr (clue_partner g tp), Inr (play_of (best_order tp)), Inr (urgent_others g tp), Inr (clue_partner_anyway g tp),
        try_positional_discard g tp, Inr (trash_now g tp), Inr (early_save g tp), stall g tp] (Inr None)) (\<lambda>found.
       case found of
         Some act \<Rightarrow> Inr act
       | None \<Rightarrow> take_discard g (our_player (g_state g)) (oc_trash tp))"

definition h_take_action :: "rewinder \<Rightarrow> (game \<Rightarrow> perform option result) \<Rightarrow> game \<Rightarrow> perform result" where
  "h_take_action rw solve g =
     (let tp = prepare g in
      case either (play_bluff g tp) (play_hidden g tp) of
        Some act \<Rightarrow> Inr act
      | None \<Rightarrow>
          bindR (with_clues rw g tp) (\<lambda>tp1.
            case save_after_gen g tp1 of
              Some act \<Rightarrow> Inr act
            | None \<Rightarrow>
                bindR (with_urgent rw g tp1) (\<lambda>tp2.
                bindR (else_try (Inr (urgent_next g tp2)) (generate_clue g tp2)) (\<lambda>urgent_first.
                  case urgent_first of
                    Some act \<Rightarrow> Inr act
                  | None \<Rightarrow>
                      bindR (choose_play_clue rw g (tp_found tp2)) (\<lambda>cc. act_on_plan solve g (tp2\<lparr>tp_choice := cc\<rparr>))))))"

end
