(* ===== verification/Spec2Isabelle.thy ===== *)
theory Spec2Isabelle
  imports Convention_Demo H_Clue_Demo Set_Refinement Endgame_Demo H_Take
begin

text \<open>
  A model of the bot of the card game Hanabi in \<open>src/src\<close>: what every player knows about the cards, how clues, plays,
  discards and draws change it, how a game is rewound and simulated, and how the end of a game is searched.

  \<^bold>\<open>The program.\<close> A game (\<open>basics/Game.js\<close>) holds the objective state (\<open>basics/State.js\<close>: hands, stacks, clue tokens, the
  deck as far as it is known), one player per seat and a common player (\<open>basics/Player.js\<close>), each with a thought per
  order of a card (\<open>basics/Card.js\<close>) whose possible and inferred identities are bit masks (\<open>basics/IdentitySet.js\<close>). An
  action goes to \<open>handle_action\<close> (\<open>action-handler.js\<close>), which logs it and asks the convention to interpret it; the
  conventions use the mechanics of \<open>basics.js\<close> (\<open>onClue\<close>, \<open>onPlay\<close>, \<open>onDiscard\<close>, \<open>onDraw\<close>), which update the state, write
  thoughts and run the eliminations of \<open>basics/player-elim.js\<close>; common knowledge is then copied to every player
  (\<open>team_elim\<close> of \<open>basics/helper.js\<close>) through the patches that \<open>StateProxy.js\<close> records. A convention may rewind the game and
  replay it with another action, and simulate actions. Near the end, \<open>conventions/shared/endgame.js\<close> searches for the
  moves with the best chance to win, with \<open>endgame-helper.js\<close> deciding which positions are lost.

  \<^bold>\<open>The theories.\<close> Each models one part, in the order in which they import each other.
  \<^item> \<open>Js_Prelude\<close>: results with the exceptions of JavaScript, arrays, and folds over them.
  \<^item> \<open>Identity_Sets\<close>, \<open>Set_Refinement\<close>: the masks on words of 32 bits, their operations, and the sets they stand for
    (locale \<open>idset\<close>).
  \<^item> \<open>Suit_Variants\<close>, \<open>Cards\<close>, \<open>Game_State\<close>: variants (which clue touches which card, how often a card is in the deck),
    cards with their writes and patches, the objective state.
  \<^item> \<open>Utils\<close>, \<open>Players\<close>, \<open>Hanabi_Utils\<close>, \<open>Hypo_Stacks\<close>: searches over lists, the queries on what a player thinks, the
    hypothetical stacks.
  \<^item> \<open>Card_Elim\<close>, \<open>Good_Touch\<close>, \<open>Card_Links\<close>: the three eliminations; \<open>Card_Elim_Sound\<close>, \<open>Good_Touch_Sound\<close> and \<open>Consistency\<close>
    show that they end and keep the truth.
  \<^item> \<open>Games\<close>, \<open>Game_Basics\<close>: the game record and the mechanics; \<open>Views\<close>, \<open>Handlers\<close>, \<open>Handlers_Sound\<close> and \<open>Runs\<close> carry the
    invariant \<open>game_ok\<close> through them (every player still believes the true identities possible).
  \<^item> \<open>Actions\<close>, \<open>Rewinds\<close>: \<open>handle_action\<close> for any convention, rewinding, navigating and simulating; \<open>Rewinds_Sound\<close> shows
    that this recursion ends.
  \<^item> \<open>Fractions\<close>, \<open>Endgame_States\<close>, \<open>Endgame_Search\<close>, \<open>Endgame_Arrangements\<close>, \<open>Endgame_Solver\<close>: the end of the game;
    \<open>Endgame_Positions\<close> and \<open>Endgame_Winnable\<close> hold the rules of the game as a step relation (\<open>can_win\<close>) and the counting
    argument that positions called lost are lost.
  \<^item> \<open>Thinking\<close>, \<open>Helpers\<close>, \<open>Clue_Results\<close>, \<open>Sarcastics\<close>, \<open>Special_Discards\<close>: what the conventions share: hands that are loaded or
    locked for a convention's own playables, the fixes of a clue (\<open>basics/helper.js\<close>), what a clue brings
    (\<open>basics/clue-result.js\<close>), and the discards that promise a card elsewhere (\<open>conventions/shared\<close>).
  \<^item> \<open>Sieve_Players\<close>, \<open>Sieve_Clues\<close>, \<open>Sieve_Moves\<close>, \<open>Ref_Sieve\<close>: the referential sieve (\<open>conventions/ref-sieve.js\<close>): its players and
    their connections, its readings of clues, plays, discards and turns, and the class as a convention, which meets
    the interface \<open>convention_ok\<close>.
  \<^item> \<open>H_Players\<close>, \<open>H_Logic\<close>, \<open>H_Actions\<close>, \<open>Waiting_Conns\<close>, \<open>H_Turns\<close>, \<open>H_Discards\<close>: the h-group (\<open>conventions/h-group\<close>): chops, prompts and
    finesses of its players, the focus of a clue, chop moves, which card to play or discard, and how a play or a turn
    resolves the connections that players wait for, and what a discard tells; \<open>H_Turns_Sound\<close> and \<open>H_Discards_Sound\<close> show
    that connections stay within their cards.
  \<^item> \<open>H_Connecting\<close>, \<open>H_Focus\<close>, \<open>H_Own\<close>, \<open>H_Assign\<close>: the readings of a clue of the h-group (\<open>conventions/h-group/clue-interpretation\<close>):
    the cards that must be played first (known, prompted, finessed, layered, bluffed), the identities that the focus may have
    with their connections, the connections in our own hand, the readings that others may take, the simplest reading, and
    what the chosen readings write into thoughts. \<open>H_Connecting_Sound\<close> shows that the search for connections ends and uses no
    card twice.
  \<^item> \<open>H_Stalls\<close>, \<open>H_Resolve\<close>, \<open>H_Clues\<close>: the handler of clues of the h-group (\<open>interpret-clue.js\<close>, \<open>interpret-stall.js\<close>): good touch after a
    clue, the connections it contradicts, fixes, stalls, distribution clues and chop moves, and the readings of the focus, which it
    writes. What a clue is worth to the finder is an argument of the handler, because the finder simulates clues.
  \<^item> \<open>H_Safety\<close>, \<open>H_Finder\<close>, \<open>H_Options\<close>: the clue finder (\<open>clue-finder\<close>): whether a clue is safe for the players after us, whether its
    reading by the others is acceptable, and the lists of play, save, stall and fix clues. \<open>h_group\<close> is the class \<open>HGroup\<close> as a
    convention.
  \<^item> \<open>H_Urgent\<close>, \<open>H_Take\<close>: the action that the h-group chooses for us (\<open>urgent-actions.js\<close>, \<open>take-action.js\<close>), as a sequence of steps of which
    the first that finds an action decides.
  \<^item> \<open>Demo\<close>, \<open>Endgame_Demo\<close>, \<open>Convention_Demo\<close>, \<open>H_Demo\<close>, \<open>H_Clue_Demo\<close>: small games and positions on which the hypotheses of the properties hold.

  \<^bold>\<open>Conventions of the model.\<close> An object is a record, an \<open>undefined\<close> that the code tests for is an option, an exception is
  \<open>Inl\<close> of a \<open>js_error\<close>, and a method that changes an object returns the changed object. Numbers are unbounded integers
  except in the masks, which are words of 32 bits. Orders of cards are natural numbers. A rewind is a parameter of
  the convention's methods (\<open>rewinder\<close>), because the code calls it on the game it is given.

  \<^bold>\<open>Conventions.\<close> A convention is a record of what the subclasses of \<open>Game\<close> override: the four interpretations, the blank game, the
  copy for a simulation, and the playables of its players. The locale \<open>convention_ok\<close> says what handling an action needs of it:
  that it does not lower the count of rewinds and depends on rewinds only where they can happen. It is interpreted
  by the referential sieve (\<open>sieve_rewinding\<close>).

  \<^bold>\<open>Fuel.\<close> \<open>card_elim\<close> has the number of possibilities in the hands as fuel, and good touch elimination a weight that its
  loops lower: the theorems say that they return. \<open>handle_action\<close> nests at most 102 rewinds, since a game that has rewound a
  hundred times throws: no result depends on more. \<open>winnable_simpler\<close> needs one step per clue token and two per card to
  draw and per player (\<open>search_weight\<close>). \<open>connect\<close> passes the table at most twice per card (\<open>connect_fuel\<close>), the loop of a gentleman's discard has the
  ranks that are left (\<open>5 * n_suits\<close>). That \<open>own_fuel\<close> is enough is not shown. The fuel of \<open>winnable\<close> is a parameter.

  \<^bold>\<open>Levels of the h-group.\<close> Reading a clue may simulate other clues, to see which were expected. A clue that is simulated for this
  is itself read without a finder (the option \<open>noRecurse\<close>), so that the recursion of \<open>h_clue\<close> and \<open>get_clue_interp\<close> has two levels: \<open>h_finder\<close>
  reads with no finder, and \<open>read_option\<close> with \<open>h_finder\<close>.

  \<^bold>\<open>Not modelled.\<close> Input and output (the console, the websocket, logging, self-play and replay loops), the fetching of
  variants, the conversion to and from JSON, the cache of evaluated clues (an evaluation is a function of the game and the clue);
  the choice of the own action of the referential sieve; and the playful sieve.
\<close>

section \<open>Properties\<close>

subsection \<open>Runs of the game\<close>

text \<open>C1: whatever clues, plays, discards and draws have happened since a new game, as long as they are true of
  the deck, every player and common knowledge still consider the actual identity of every card in hand possible.\<close>

theorem possible_sound:
  assumes "wf_variant v" "true_run \<sigma> (new_game (new_state n u v opts) progress None) g"
    and "p \<in> set (all_players g)" "ord \<in> set (all_orders (g_state g))"
  shows "iset_has (possible (card_at p ord)) (\<sigma> ord)"
  by (rule game_ok_possible [OF run_ok [OF assms(2) new_game_ok [OF assms(1)]] assms(3,4)])

theorem possible_sound_witness:
  "iset_has (possible (card_at (common demo_drawn) 0)) (demo_deal 0)"
  by (rule possible_sound [OF demo_wf demo_run demo_common demo_orders])

text \<open>C2: every state that a true run reaches is well formed: the score is between 0 and the maximal score, no
  order is in two hands, and no identity has more copies on the stacks and in the hands than the deck has.\<close>

theorem run_state:
  assumes "wf_variant v" "true_run \<sigma> (new_game (new_state n u v opts) progress None) g"
  shows "0 \<le> score (g_state g) \<and> score (g_state g) \<le> max_score (g_state g) \<and> distinct (all_orders (g_state g)) \<and>
    tables_ok (g_state g) \<and>
    (\<forall>i :: basic_card. in_deck (g_state g) i \<longrightarrow> base_count (g_state g) i + int (card (copies (g_state g) \<sigma> i)) \<le> total_count (g_state g) i)"
  using run_ok [OF assms(2) new_game_ok [OF assms(1)]] score_le_max_score
  by (auto simp: game_ok_def truth_ok_def)

theorem run_state_witness: "score (g_state demo_drawn) \<le> max_score (g_state demo_drawn)"
  using run_state [OF demo_wf demo_run] by blast

subsection \<open>The handlers\<close>



text \<open>C4: in a right game, the play of the next card of a stack is handled without an exception; the score
  grows by one, the identity of the order is recorded, and the game stays right.\<close>

theorem play_handled:
  assumes "game_ok g \<sigma>" "leaves_true (g_state g) \<sigma> a" "act_order a < length (deck_ids g)"
    and "is_playable (g_state g) (\<sigma> (act_order a))" "\<not> is_basic_trash (g_state g) (\<sigma> (act_order a))"
  shows "\<exists>g'. on_play g a = Inr g' \<and> game_ok g' \<sigma> \<and> score (g_state g') = score (g_state g) + 1 \<and>
    slot (deck_ids g') (act_order a) = Some (\<sigma> (act_order a))"
  using on_play_ok [OF assms] by (auto simp: array_simps)

theorem play_handled_witness:
  "\<exists>g'. on_play demo_drawn demo_card = Inr g' \<and> score (g_state g') = score (g_state demo_drawn) + 1"
proof -
  have "act_order demo_card = 0" by (simp add: demo_card_def)
  then show ?thesis using play_handled [OF demo_drawn(2) demo_leaves] demo_fits by auto
qed



text \<open>C6: in a right game, the draw of an order whose identity the deck still has, into a hand that is not over
  full, is handled without an exception, although good touch elimination is given the state before the draw.\<close>

theorem draw_handled:
  assumes "game_ok g \<sigma>" "draw_true g \<sigma> a"
  shows "\<exists>g'. on_draw g a = Inr g' \<and> game_ok g' \<sigma> \<and>
    set (all_orders (g_state g')) = insert (act_order a) (set (all_orders (g_state g)))"
proof -
  have "truth_ok (g_state g) \<sigma>" using assms(1) by (simp add: game_ok_def)
  then show ?thesis using on_draw_ok [OF assms] draw_orders(1) [of g \<sigma> a] assms(2) by auto
qed

theorem draw_handled_witness: "\<exists>g'. on_draw demo_game demo_card = Inr g' \<and> game_ok g' demo_deal"
  using draw_handled [OF demo_game_ok demo_draw] by blast

subsection \<open>Eliminations\<close>

text \<open>C7: card elimination returns, from every player that knows the truth; it keeps the truth among the
  possibilities, only removes possibilities, and takes an identity off the future cards only when every copy of it
  is on the stacks or in a hand.\<close>

theorem card_elim_keeps_truth:
  assumes "truth_ok s \<sigma>" "knows p s \<sigma>" "iset_ok (n_suits s) (all_possible p)" "iset_ok (n_suits s) (all_inferred p)"
  shows "\<exists>p'. card_elim p s = Inr p' \<and> knows p' s \<sigma> \<and>
    (\<forall>ord \<in> set (all_orders s). \<forall>i :: basic_card. in_deck s i \<longrightarrow>
       iset_has (possible (card_at p' ord)) i \<longrightarrow> iset_has (possible (card_at p ord)) i) \<and>
    (\<forall>i :: basic_card. in_deck s i \<longrightarrow> iset_has (all_possible p) i \<longrightarrow> \<not> iset_has (all_possible p') i \<longrightarrow>
       base_count s i + int (card (copies s \<sigma> i)) = total_count s i)"
  using card_elim_sound [OF assms] unfolding exhausted_def by blast

theorem card_elim_keeps_truth_witness:
  "\<exists>p'. card_elim (common demo_drawn) (g_state demo_drawn) = Inr p' \<and> knows p' (g_state demo_drawn) demo_deal"
proof -
  have "truth_ok (g_state demo_drawn) demo_deal" "view_ok (g_state demo_drawn) demo_deal (common demo_drawn)"
    using demo_drawn(2) by (simp_all add: game_ok_def)
  then show ?thesis using card_elim_keeps_truth [OF _ view_okD(1,4,5)] by blast
qed



text \<open>C9: computing the hypothetical stacks ends; every hypothetical stack is between the play stack and 5, every
  order is played at most once and is in a hand, and trying to ignore duplicates never lowers the score of the first pass.\<close>

theorem hypo_stacks_bounds:
  assumes "hypo_ready p s"
  shows "\<exists>q h. update_hypo_stacks p s ignore = Inr q \<and> hypo_pass p s ignore = Inr h \<and>
    (\<forall>k < n_suits s. play_stacks s ! k \<le> hypo_stacks q ! k \<and> hypo_stacks q ! k \<le> 5) \<and>
    distinct (hypo_plays q) \<and> set (hypo_plays q) \<subseteq> set (all_orders s) \<and> set (unknown_plays q) \<subseteq> set (hypo_plays q) \<and>
    hypo_score (set_hypo h p) \<le> hypo_score q"
  using update_hypo_ok [OF assms, of ignore] by (auto simp: hypo_bounds_def)

theorem hypo_stacks_bounds_witness:
  "\<exists>q. update_hypo_stacks (common demo_drawn) (g_state demo_drawn) None = Inr q"
proof -
  have "truth_ok (g_state demo_drawn) demo_deal" "view_ok (g_state demo_drawn) demo_deal (common demo_drawn)"
    "stacks_ok (g_state demo_drawn)"
    using demo_drawn(2) by (simp_all add: game_ok_def)
  then have "hypo_ready (common demo_drawn) (g_state demo_drawn)" by (intro view_hypo_ready)
  then show ?thesis using hypo_stacks_bounds by blast
qed



text \<open>C11: giving back a false elimination adds the identity to the inferences of a card even where it is
  not among the possibilities: the filter that is meant to prevent it keeps every order.\<close>

theorem restore_elim_impossible:
  assumes "map_of (elims p) (log_id (variant s) i) = Some [ord]" "slot (thoughts p) ord = Some c" "\<not> focused c"
    and "card_ok (n_suits s) c" "in_deck s i"
  shows "\<exists>q. restore_elim p s i = Inr q \<and> iset_has (inferred (card_at q ord)) i \<and>
    possible (card_at q ord) = possible c"
  using restore_elim_adds [OF assms(1-3)] iset_has_union [of "n_suits s" "inferred c" "AnId i" i] assms(4,5)
  by (auto simp: card_okD)

theorem restore_elim_impossible_witness:
  "\<exists>q. restore_elim demo_wrong demo_start (mk_id 0 5) = Inr q \<and> iset_has (inferred (card_at q 0)) (mk_id 0 5) \<and>
    \<not> iset_has (possible (card_at q 0)) (mk_id 0 5)"
  using restore_elim_impossible [OF demo_wrong(1-3) demo_wrong(4,5)] demo_wrong(6) by auto

subsection \<open>Identity sets and cards\<close>

text \<open>C12: the population count used by \<open>length\<close> (the bit twiddling of \<open>IdentitySet.js\<close>) is the number
  of identities that \<open>array\<close> lists, for every set over at most six suits.\<close>

theorem identity_set_length:
  assumes "iset_ok n s"
  shows "iset_length s = int (length (iset_array s))"
  by (rule idset.size_elems [OF assms])

theorem identity_set_length_witness:
  "iset_length (iset_full 5) = int (length (iset_array (iset_full 5)))"
  by (rule identity_set_length [of 5]) (simp add: iset_ok_new)

text \<open>C13: the masks refine sets of identities: union, intersection, difference, equality, membership, listing and
  length of the masks are those of the sets they stand for.\<close>

theorem identity_set_refines:
  assumes "iset_ok n s" "iset_ok n t"
  shows "ids_of n (iset_union s (ASet t)) = ids_of n s \<union> ids_of n t \<and>
    ids_of n (iset_intersect s (ASet t)) = ids_of n s \<inter> ids_of n t \<and>
    ids_of n (iset_subtract s (ASet t)) = ids_of n s - ids_of n t \<and>
    (iset_equals s (ASet t) \<longleftrightarrow> ids_of n s = ids_of n t) \<and>
    set (iset_array s) = ids_of n s \<and> iset_length s = int (card (ids_of n s))"
  using ids_of_ops [OF assms] ids_of_equal [OF assms] ids_of_array [OF assms(1)] by simp

theorem identity_set_refines_witness:
  "ids_of 2 (iset_union (iset_full 2) (ASet (iset_empty 2))) = ids_of 2 (iset_full 2) \<union> ids_of 2 (iset_empty 2)"
proof -
  have "iset_ok 2 (iset_full 2)" "iset_ok 2 (iset_empty 2)" by (simp_all add: iset_ok_new)
  from identity_set_refines [OF this] show ?thesis by blast
qed


text \<open>C15: the name of a card determines it, within a well-formed variant: the maps of the eliminations that are
  keyed by names do not mix identities.\<close>

theorem log_id_unique:
  assumes "wf_variant v" "valid_id (num_ids v) i" "valid_id (num_ids v) j"
  shows "log_id v i = log_id v j \<longleftrightarrow> raw i = raw j"
  by (rule log_id_inj [OF assms])

theorem log_id_unique_witness: "log_id demo_variant (mk_id 0 1) \<noteq> log_id demo_variant (mk_id 1 1)"
proof -
  have "valid_id (num_ids demo_variant) (mk_id 0 1)" "valid_id (num_ids demo_variant) (mk_id 1 1)" by code_simp+
  from log_id_unique [OF demo_wf this] show ?thesis by (simp add: raw_def mk_id_def)
qed

text \<open>C16: whenever a card that fits its actual identity is taken to be some identity without inference, that
  is the actual one, symmetric or not.\<close>

theorem identity_true:
  assumes "fits n c i" "valid_id n i" "o_infer opts \<noteq> Some True" "identity opts c = Some j"
  shows "j = i"
  by (rule fits_identity [OF assms])

theorem identity_true_witness: "identity (sym_opts False) (new_card 0 1 (iset_full 2) (iset_full 2) 0 0) = Some (mk_id 0 1)"
proof -
  have f: "fits 2 (new_card 0 1 (iset_full 2) (iset_full 2) 0 0) (mk_id 0 1)" "valid_id 2 (mk_id 0 1)"
    "o_infer (sym_opts False) \<noteq> Some True" by code_simp+
  obtain j where j: "identity (sym_opts False) (new_card 0 1 (iset_full 2) (iset_full 2) 0 0) = Some j"
    by (cases "identity (sym_opts False) (new_card 0 1 (iset_full 2) (iset_full 2) 0 0)") (code_simp, blast)
  from identity_true [OF f j] j show ?thesis by simp
qed

subsection \<open>Endgames\<close>

text \<open>C17: a position that \<open>unwinnable_state\<close> calls lost is lost: no sequence of plays, discards and clues, with
  any draws that the deck allows, reaches the maximal score from it.\<close>

theorem unwinnable_safe:
  assumes "position_ok s" "t < num_players s" "unwinnable_state s t" "score s \<noteq> max_score s"
  shows "\<not> can_win s t"
  by (rule unwinnable_lost [OF assms])

theorem unwinnable_safe_witness: "\<not> can_win demo_lost 0"
  using unwinnable_safe [OF demo_positions(2) _ demo_lost_seen] by (simp add: demo_players)





text \<open>C20: the search for a winning line returns, or is stopped by the clock: it makes at most two steps for each
  card to draw and each player, and one for each clue token, and the only exception it throws is the deadline.\<close>

theorem search_returns:
  assumes "position_ok s" "t < num_players s" "remaining_ok s rs" "search_weight s < fuel"
  shows "(\<exists>r. winnable_simpler late fuel s t rs sv = Inr r) \<or> winnable_simpler late fuel s t rs sv = Inl (Thrown ''timed out'')"
  using winnable_simpler_in_time [OF assms(4,1,2,3), of late sv] by (auto simp: in_time_def split: sum.splits)

theorem search_returns_witness:
  "(\<exists>r. winnable_simpler (\<lambda>_. False) 20 demo_last 0 [] demo_search = Inr r) \<or>
    winnable_simpler (\<lambda>_. False) 20 demo_last 0 [] demo_search = Inl (Thrown ''timed out'')"
proof -
  have "search_weight demo_last < 20" by code_simp
  then show ?thesis using search_returns [OF demo_positions(1)] by (simp add: demo_players remaining_ok_def)
qed

text \<open>C21: the search with its cache of hashed positions answers what the search without a cache answers, on every
  set of positions, closed under the moves, in which equal keys have equal answers; and it keeps the cache right.\<close>

theorem cached_search_right:
  assumes "closed_positions P" "keys_tell P" "(s, t, rs) \<in> P" "cache_right P sv"
    and "winnable_simpler late fuel s t rs sv = Inr (b, sv')"
  shows "(b \<longleftrightarrow> search_wins s t rs) \<and> cache_right P sv'"
  using searchesD [OF winnable_simpler_searches [OF assms(1,2)] assms(3-5)] by simp

theorem cached_search_right_witness:
  "\<exists>sv. winnable_simpler (\<lambda>_. False) 20 demo_last 0 [] demo_search = Inr (True, sv) \<and> cache_right demo_line sv"
proof -
  obtain sv where sv: "winnable_simpler (\<lambda>_. False) 20 demo_last 0 [] demo_search = Inr (True, sv)"
    using demo_searched by blast
  have "(demo_last, 0, []) \<in> demo_line" by (simp add: demo_line_def)
  from cached_search_right [OF demo_line_ok(1,2) this demo_line_ok(3) sv] sv show ?thesis by blast
qed







text \<open>C25: thinning out the arrangements keeps the sum of their chances only when every arrangement has trash: the
  arrangements without trash are the array that the others are pushed to, and are counted again, so the sum exceeds one.\<close>

theorem thinning_overcounts:
  assumes "probs_ok as" "prob_sum as = 1"
  shows "\<exists>bs. thin_out s as = Inr bs \<and> probs_ok bs \<and>
    (if \<exists>a \<in> set as. trash_places s a = [] then 1 < prob_sum bs else prob_sum bs = 1)"
  by (rule thin_out_sum [OF assms])

theorem thinning_overcounts_witness:
  "\<exists>bs. thin_out demo_start [\<lparr>arr_ids = [mk_id 0 5], prob = mk_frac 1 1, new_remaining = []\<rparr>] = Inr bs \<and> 1 < prob_sum bs"
proof -
  let ?as = "[\<lparr>arr_ids = [mk_id 0 5], prob = mk_frac 1 1, new_remaining = []\<rparr>]"
  have "probs_ok ?as" "prob_sum ?as = 1" by (simp_all add: proper_def frac_val_def mk_frac_def)
  moreover have "\<exists>a \<in> set ?as. trash_places demo_start a = []" by code_simp
  ultimately show ?thesis using thinning_overcounts [of ?as demo_start] by (simp only: if_True) blast
qed



subsection \<open>Rewinding\<close>

text \<open>C27: the recursion of handling an action, rewinding from within it, and handling the replayed actions has
  exactly one solution, \<open>handle_action\<close>: it satisfies the equation of the code, and whatever satisfies it is equal to
  it. The convention may rewind any game that it was given or has made, but must not lower the count of rewinds.\<close>

theorem rewinding_ends:
  assumes "convention_ok cv"
  shows "handle_action cv a g = handle_with cv (rewind_with cv (handle_action cv)) a g \<and>
    (\<forall>rw. rw = rewind_with cv (handle_with cv rw) \<longrightarrow> handle_with cv rw a g = handle_action cv a g) \<and>
    (\<forall>fuel. 101 \<le> fuel \<longrightarrow> handle_with cv (rewind_game fuel cv) a g = handle_action cv a g)"
  using convention_ok.handle_action_rec [OF assms] convention_ok.handle_action_only [OF assms]
    convention_ok.handle_action_fuel [OF assms] by blast

theorem rewinding_ends_witness:
  "handle_with demo_convention (rewind_game 500 demo_convention) (PlayAction demo_card) demo_drawn =
    handle_action demo_convention (PlayAction demo_card) demo_drawn"
  using rewinding_ends [OF demo_convention_ok, of "PlayAction demo_card" demo_drawn] by simp



subsection \<open>The referential sieve\<close>

text \<open>C29: the referential sieve rewinds from within its handlers (to fix a clue, after an unexpected play, when a connection
  was not played), and still the handling of every action ends: 101 nested rewinds or more give the same result, which
  satisfies the equation of the code.\<close>

theorem sieve_rewinding_ends:
  "handle_action ref_sieve a g = handle_with ref_sieve (rewind_with ref_sieve (handle_action ref_sieve)) a g \<and>
    handle_with ref_sieve (rewind_game (101 + k) ref_sieve) a g = handle_action ref_sieve a g"
  by (intro conjI sieve_rewinding.handle_action_rec sieve_rewinding.handle_action_fuel) simp



text \<open>C31: the connections that are found for a clue are exactly the ranks between the stack and the identity, in order, on
  different cards, none of them the target, each in the hand of the player who is to play it.\<close>

theorem connections_missing:
  assumes "connect g ord i giver target unknown = Inr (Some conns)" "deck_filed (g_state g)"
    and "length (hands (g_state g)) = num_players (g_state g)" "0 < num_players (g_state g)"
  shows "rank i = stack_of (g_state g) i + 1 + int (length conns) \<and> distinct (ord # map conn_order conns) \<and>
    map conn_identities conns = map (\<lambda>k. [mk_id (suit_index i) (stack_of (g_state g) i + 1 + int k)]) [0..<length conns] \<and>
    (\<forall>c \<in> set conns. conn_reacting c < num_players (g_state g) \<and> conn_order c \<in> set (hands (g_state g) ! conn_reacting c))"
  using connect_missing_ranks [OF assms] unfolding conns_ok_def conn_orders_def .

theorem connections_missing_witness: "\<exists>c. connect demo_table 5 (mk_id 0 2) 0 1 False = Inr (Some [c]) \<and> conn_order c \<noteq> 5"
proof -
  obtain c where c: "connect demo_table 5 (mk_id 0 2) 0 1 False = Inr (Some [c])" using demo_connected by blast
  from connections_missing [OF c demo_table_filed(1-3)] have "conn_order c \<noteq> 5" by auto
  with c show ?thesis by blast
qed

text \<open>C32: the search for connections, which goes round the table until the identity is reached or the target has been passed
  twice in vain, ends: a card connects once.\<close>

theorem connecting_ends:
  assumes "deck_filed (g_state g)" "target < num_players (g_state g)" "length (hands (g_state g)) = num_players (g_state g)"
  shows "\<exists>r. connect g ord i giver target unknown = Inr r"
  by (rule connect_returns [OF assms])

theorem connecting_ends_witness: "\<exists>r. connect demo_table 5 (mk_id 1 5) 0 1 True = Inr r"
proof -
  have "1 < num_players (g_state demo_table)" unfolding demo_table_state by code_simp
  from connecting_ends [OF demo_table_filed(1) this demo_table_filed(2)] show ?thesis .
qed

subsection \<open>Clues and special discards\<close>

text \<open>C33: the cards that a sarcastic discard may have transferred are in one hand, which is not that of the player who
  discarded.\<close>

theorem sarcastic_receivers:
  assumes "interpret_sarcastic playables g pl i = Inr (com, os)" "os \<noteq> []" "our_player (g_state g) < num_players (g_state g)"
  shows "\<exists>r. r \<noteq> pl \<and> r < num_players (g_state g) \<and> set os \<subseteq> set (hands (g_state g) ! r)"
  by (rule interpret_sarcastic_targets [OF assms])

theorem sarcastic_receivers_witness: "\<exists>r. r \<noteq> 0 \<and> 0 \<in> set (hands (g_state demo_told) ! r)"
proof -
  obtain com where c: "interpret_sarcastic sieve_playables demo_told 0 (mk_id 0 1) = Inr (com, [0])" using demo_sarcastic by blast
  have "our_player (g_state demo_told) < num_players (g_state demo_told)" by code_simp
  from sarcastic_receivers [OF c _ this] show ?thesis by auto
qed






subsection \<open>The h-group\<close>

text \<open>C37: a clue of the h-group that touches cards of a hand always has a focus in that hand: one of the touched cards, or,
  when it is read as a trash push, an untouched card without a status.\<close>

theorem focus_found:
  assumes "os \<noteq> []" "set os \<subseteq> set hand"
  shows "\<exists>r ord. h_focus g hand p os giver target cl = Inr r \<and> fo_focus r = Some ord \<and> ord \<in> set hand \<and>
    (if fo_trash_push r then ord \<notin> set os \<and> status (card_at p ord) = None else ord \<in> set os)"
  by (rule h_focus_found [OF assms])

theorem focus_found_witness:
  "\<exists>r. h_focus demo_table [0] (common demo_table) [0] 0 1 \<lparr>clue_kind = ColourClue, clue_value = 0\<rparr> = Inr r \<and> fo_focus r = Some 0"
proof -
  obtain r ord where r: "h_focus demo_table [0] (common demo_table) [0] 0 1 \<lparr>clue_kind = ColourClue, clue_value = 0\<rparr> = Inr r"
    "fo_focus r = Some ord" "ord \<in> set [0]"
    using focus_found [of "[0]" "[0]" demo_table "common demo_table" 0 1 "\<lparr>clue_kind = ColourClue, clue_value = 0\<rparr>"] by auto
  then show ?thesis by auto
qed





text \<open>C40: the search for the cards that a clue of the h-group needs first (known, playable, prompted, finessed or layered) ends;
  it fails at most where the code reads a property of an undefined value, and every card that it finds is in the hand of
  the player who is to play it and is neither used by an earlier connection nor to be ignored.\<close>

theorem connections_fresh:
  assumes "deck_filed (g_state g)" "length (hands (g_state g)) = num_players (g_state g)"
    and "ca_target a < num_players (g_state g)" "player_order opts = None"
  shows "h_find_connecting g a i direct stallers used ignored opts = Inl TypeError \<or>
    (\<exists>cs. h_find_connecting g a i direct stallers used ignored opts = Inr cs \<and>
      (\<forall>c \<in> set cs. conn_order c \<in> set (hands (g_state g) ! conn_reacting c) \<and> conn_order c \<notin> set used \<union> set ignored))"
  by (rule h_find_connecting_fresh [OF assms(1) [unfolded deck_filed_def] assms(2-4)])

theorem connections_fresh_witness:
  "\<exists>c. h_find_connecting demo_three demo_far_clue (mk_id 0 1) False [] [1] [] no_connect = Inr [c] \<and> conn_order c \<noteq> 1"
proof -
  obtain c where c: "h_find_connecting demo_three demo_far_clue (mk_id 0 1) False [] [1] [] no_connect = Inr [c]"
    using demo_three_connected by blast
  with connections_fresh [OF demo_three_filed, of "mk_id 0 1" False "[]" "[1]" "[]"] have "conn_order c \<noteq> 1" by auto
  with c show ?thesis by blast
qed

end
